(* ===== verification/Prelude.thy ===== *)
theory Prelude
  imports Main "HOL-Library.Sublist"
begin

section \<open>Prelude: generic lemmas shared by the components\<close>

text \<open>
  Facts about lists, options and tables of rows that every component theory uses, and the
  collections the component proofs draw on.

  A database table is a list of rows, in insertion order. The three statement shapes the
  data-access modules use are \<open>sql_update\<close> (\<open>UPDATE .. WHERE .. RETURNING\<close>),
  \<open>sql_first\<close> (\<open>fetchrow\<close>: the first matching row or none) and plain \<open>filter\<close>
  (\<open>SELECT .. WHERE\<close>). The locale \<open>row_update\<close> is the contract an update owes its table:
  it leaves the key of a row alone. Under that contract an update keeps the table's keys, and
  a lookup after it sees exactly the updated row.
\<close>

named_theorems dao_simps "characteristic equations of the data-access operations"
named_theorems keeps_rules "syntax-directed rules for the frame predicate keeps"

subsection \<open>Statements on a table of rows\<close>

definition sql_first :: "('r \<Rightarrow> bool) \<Rightarrow> 'r list \<Rightarrow> 'r option" where
  "sql_first p rows = List.find p rows"

definition sql_set :: "('r \<Rightarrow> bool) \<Rightarrow> ('r \<Rightarrow> 'r) \<Rightarrow> 'r list \<Rightarrow> 'r list" where
  "sql_set p f rows = map (\<lambda>r. if p r then f r else r) rows"

definition sql_returning :: "('r \<Rightarrow> bool) \<Rightarrow> ('r \<Rightarrow> 'r) \<Rightarrow> 'r list \<Rightarrow> 'r option" where
  "sql_returning p f rows = map_option f (sql_first p rows)"

lemma sql_first_simps [simp]:
  "sql_first p [] = None"
  "sql_first p (r # rs) = (if p r then Some r else sql_first p rs)"
  by (simp_all add: sql_first_def)

lemma sql_first_SomeD: "sql_first p rows = Some r \<Longrightarrow> r \<in> set rows \<and> p r"
  by (induction rows) (auto split: if_splits)

lemma sql_first_None_iff: "sql_first p rows = None \<longleftrightarrow> (\<forall>r\<in>set rows. \<not> p r)"
  by (induction rows) auto

lemma sql_first_append:
  "sql_first p (xs @ ys) = (case sql_first p xs of Some r \<Rightarrow> Some r | None \<Rightarrow> sql_first p ys)"
  by (induction xs) auto

lemma sql_set_simps [simp]:
  "sql_set p f [] = []"
  "sql_set p f (r # rs) = (if p r then f r else r) # sql_set p f rs"
  by (simp_all add: sql_set_def)

lemma length_sql_set [simp]: "length (sql_set p f rows) = length rows"
  by (simp add: sql_set_def)

lemma set_sql_set: "set (sql_set p f rows) = (\<lambda>r. if p r then f r else r) ` set rows"
  by (simp add: sql_set_def)

lemma sql_set_ident: "(\<And>r. r \<in> set rows \<Longrightarrow> \<not> p r) \<Longrightarrow> sql_set p f rows = rows"
  by (induction rows) auto

lemma sql_set_none: "sql_first p rows = None \<Longrightarrow> sql_set p f rows = rows"
  by (induction rows) auto

lemma sql_returning_None_iff [simp]:
  "sql_returning p f rows = None \<longleftrightarrow> sql_first p rows = None"
  by (simp add: sql_returning_def)

subsection \<open>Tables with a key\<close>

definition key_lookup :: "('r \<Rightarrow> 'k) \<Rightarrow> 'k \<Rightarrow> 'r list \<Rightarrow> 'r option" where
  "key_lookup key k rows = sql_first (\<lambda>r. key r = k) rows"

definition key_distinct :: "('r \<Rightarrow> 'k) \<Rightarrow> 'r list \<Rightarrow> bool" where
  "key_distinct key rows = distinct (map key rows)"

lemma key_lookup_simps [simp]:
  "key_lookup key k [] = None"
  "key_lookup key k (r # rs) = (if key r = k then Some r else key_lookup key k rs)"
  by (simp_all add: key_lookup_def)

lemma key_lookup_SomeD: "key_lookup key k rows = Some r \<Longrightarrow> r \<in> set rows \<and> key r = k"
  unfolding key_lookup_def by (rule sql_first_SomeD)

lemma key_lookup_append:
  "key_lookup key k (xs @ ys) =
     (case key_lookup key k xs of Some r \<Rightarrow> Some r | None \<Rightarrow> key_lookup key k ys)"
  by (induction xs) auto

lemma key_lookup_in:
  "key_distinct key rows \<Longrightarrow> r \<in> set rows \<Longrightarrow> key_lookup key (key r) rows = Some r"
  by (induction rows) (auto simp: key_distinct_def)

lemma key_lookup_None: "k \<notin> key ` set rows \<Longrightarrow> key_lookup key k rows = None"
  by (induction rows) auto

text \<open>An update guarded by \<open>id = k AND guard\<close> is decided by the row the key finds.\<close>

lemma sql_first_guarded:
  "key_distinct key rows \<Longrightarrow>
   sql_first (\<lambda>r. key r = k \<and> g r) rows =
     (case key_lookup key k rows of
        Some r \<Rightarrow> if g r then Some r else None
      | None \<Rightarrow> None)"
  by (induction rows)
    (auto simp: key_distinct_def key_lookup_None split: option.splits dest!: key_lookup_SomeD)

lemma sql_set_guarded_off:
  "key_lookup key k rows = Some r \<Longrightarrow> key_distinct key rows \<Longrightarrow> \<not> g r \<Longrightarrow>
   sql_set (\<lambda>r. key r = k \<and> g r) f rows = rows"
  by (rule sql_set_none) (simp add: sql_first_guarded)

text \<open>The contract of an update: the row's key is not a column it writes.\<close>

locale row_update =
  fixes key :: "'r \<Rightarrow> 'k" and upd :: "'r \<Rightarrow> 'r"
  assumes key_upd: "key (upd r) = key r"
begin

lemma map_key_set: "map key (sql_set p upd rows) = map key rows"
  by (induction rows) (auto simp: key_upd)

lemma distinct_set: "key_distinct key (sql_set p upd rows) = key_distinct key rows"
  by (simp add: key_distinct_def map_key_set)

lemma lookup_set:
  "key_lookup key k (sql_set p upd rows) =
     map_option (\<lambda>r. if p r then upd r else r) (key_lookup key k rows)"
  by (induction rows) (auto simp: key_upd)

lemma lookup_set_hit:
  "key_lookup key k rows = Some r \<Longrightarrow> p r \<Longrightarrow>
   key_lookup key k (sql_set p upd rows) = Some (upd r)"
  by (simp add: lookup_set)

lemma lookup_set_other:
  "k' \<noteq> k \<Longrightarrow>
   key_lookup key k' (sql_set (\<lambda>r. key r = k \<and> g r) upd rows) = key_lookup key k' rows"
  by (induction rows) (auto simp: key_upd)

end

subsection \<open>Folding a partial operation over a list\<close>

fun find_some :: "('a \<Rightarrow> 'b option) \<Rightarrow> 'a list \<Rightarrow> 'b option" where
  "find_some f [] = None"
| "find_some f (x # xs) = (case f x of Some y \<Rightarrow> Some y | None \<Rightarrow> find_some f xs)"

lemma find_some_None_iff: "find_some f xs = None \<longleftrightarrow> (\<forall>x\<in>set xs. f x = None)"
  by (induction xs) (auto split: option.splits)

lemma find_some_SomeD: "find_some f xs = Some y \<Longrightarrow> \<exists>x\<in>set xs. f x = Some y"
  by (induction xs) (auto split: option.splits)

end
