(* ===== verification/Py_Text.thy ===== *)
theory Py_Text
  imports Prelude "HOL-Library.Char_ord" "HOL-Library.List_Lexorder"
begin

section \<open>Texts: the Python string operations the program uses\<close>

text \<open>
  A Python \<open>str\<close> is a list of characters, one \<open>char\<close> per code point. The 256 characters
  stand for the Windows-1252 repertoire, with the rightwards arrow and the greater-or-equal sign
  in two of its unused places, so that every literal of the source (the em dash, the
  ellipsis and the cent sign among them) is one character, and \<open>len\<close>, slicing and
  \<open>strip\<close> count code points as Python does. Code points outside that repertoire are not
  modelled.

  Here are \<open>strip\<close>, \<open>split\<close>, \<open>join\<close>, \<open>replace\<close>, \<open>lower\<close>, slices, decimal
  rendering, \<open>repr\<close> of a string, and the facts about them that the components rely on.
\<close>

type_synonym pystr = string

subsection \<open>Character classes\<close>

definition code :: "char \<Rightarrow> nat" where
  "code c = of_char c"

definition newline :: char where "newline = CHR 0x0A"
definition dquote :: char where "dquote = CHR 0x22"
definition squote :: char where "squote = CHR 0x27"
definition backslash :: char where "backslash = CHR 0x5C"
definition em_dash :: char where "em_dash = CHR 0x97"
definition ellipsis :: char where "ellipsis = CHR 0x85"
definition arrow :: char where "arrow = CHR 0x81"
definition geq_sign :: char where "geq_sign = CHR 0x8D"
definition cent_sign :: char where "cent_sign = CHR 0xA2"
definition en_dash :: char where "en_dash = CHR 0x96"
definition middle_dot :: char where "middle_dot = CHR 0xB7"
definition bullet :: char where "bullet = CHR 0x95"

definition is_space :: "char \<Rightarrow> bool" where
  "is_space c = (let n = code c in
     (9 \<le> n \<and> n \<le> 13) \<or> (28 \<le> n \<and> n \<le> 32) \<or> n = 160)"

definition is_digit :: "char \<Rightarrow> bool" where
  "is_digit c = (48 \<le> code c \<and> code c \<le> 57)"

definition is_lower :: "char \<Rightarrow> bool" where
  "is_lower c = (97 \<le> code c \<and> code c \<le> 122)"

definition is_upper :: "char \<Rightarrow> bool" where
  "is_upper c = (65 \<le> code c \<and> code c \<le> 90)"

definition lower_char :: "char \<Rightarrow> char" where
  "lower_char c = (if is_upper c \<or> (192 \<le> code c \<and> code c \<le> 222 \<and> code c \<noteq> 215)
                   then char_of (code c + 32) else c)"

definition lower :: "pystr \<Rightarrow> pystr" where
  "lower s = map lower_char s"

subsection \<open>strip, slices, split, join, replace\<close>

definition lstrip :: "pystr \<Rightarrow> pystr" where
  "lstrip s = dropWhile is_space s"

definition rstrip :: "pystr \<Rightarrow> pystr" where
  "rstrip s = rev (dropWhile is_space (rev s))"

definition strip :: "pystr \<Rightarrow> pystr" where
  "strip s = rstrip (lstrip s)"

text \<open>\<open>s.split(sep, 1)[0]\<close> for a one-character separator.\<close>

definition before :: "char \<Rightarrow> pystr \<Rightarrow> pystr" where
  "before sep s = takeWhile (\<lambda>c. c \<noteq> sep) s"

text \<open>\<open>s.split(sep)\<close> for a one-character separator.\<close>

fun split_on :: "char \<Rightarrow> pystr \<Rightarrow> pystr list" where
  "split_on sep [] = [[]]"
| "split_on sep (c # s) =
     (if c = sep then [] # split_on sep s
      else case split_on sep s of l # ls \<Rightarrow> (c # l) # ls | [] \<Rightarrow> [[c]])"

lemma split_on_none: "sep \<notin> set s \<Longrightarrow> split_on sep s = [s]"
  by (induction s) auto

lemma split_on_app: "sep \<notin> set s \<Longrightarrow> split_on sep (s @ sep # t) = s # split_on sep t"
  by (induction s) auto

text \<open>\<open>s.split(sep, 1)\<close> into two parts, if it has them.\<close>

definition cut_at :: "char \<Rightarrow> pystr \<Rightarrow> (pystr \<times> pystr) option" where
  "cut_at c s = (case dropWhile (\<lambda>x. x \<noteq> c) s of
     [] \<Rightarrow> None | _ # rest \<Rightarrow> Some (takeWhile (\<lambda>x. x \<noteq> c) s, rest))"

fun join :: "pystr \<Rightarrow> pystr list \<Rightarrow> pystr" where
  "join sep [] = []"
| "join sep [s] = s"
| "join sep (s # t # ss) = s @ sep @ join sep (t # ss)"

definition lines_of :: "pystr list \<Rightarrow> pystr" where
  "lines_of ss = join [newline] ss"

definition starts_with :: "pystr \<Rightarrow> pystr \<Rightarrow> bool" where
  "starts_with p s = (take (length p) s = p)"

text \<open>\<open>s.replace(old, new)\<close>: left to right, without overlaps; the source never calls it
  with an empty pattern.\<close>

function replace :: "pystr \<Rightarrow> pystr \<Rightarrow> pystr \<Rightarrow> pystr" where
  "replace old new [] = []"
| "replace old new (c # s) =
     (if old \<noteq> [] \<and> starts_with old (c # s)
      then new @ replace old new (drop (length old) (c # s))
      else c # replace old new s)"
  by pat_completeness auto
termination
  by (relation "measure (\<lambda>(old, new, s). length s)") (auto simp: Suc_le_eq)

lemma replace_absent: "old \<noteq> [] \<Longrightarrow> hd old \<notin> set s \<Longrightarrow> replace old new s = s"
proof (induction old new s rule: replace.induct)
  case (2 old new c s)
  then have "\<not> starts_with old (c # s)"
    by (cases old) (auto simp: starts_with_def)
  with 2 show ?case by simp
qed simp

lemma dropWhile_none: "(\<forall>c\<in>set s. \<not> p c) \<Longrightarrow> dropWhile p s = s"
  by (cases s) auto

lemma strip_nonspace: "(\<forall>c\<in>set s. \<not> is_space c) \<Longrightarrow> strip s = s"
  by (simp add: strip_def lstrip_def rstrip_def dropWhile_none)

lemma set_rstrip: "set (rstrip s) \<subseteq> set s"
  by (auto simp: rstrip_def dest: set_dropWhileD)

lemma length_rstrip: "length (rstrip s) \<le> length s"
  using length_dropWhile_le[of is_space "rev s"] by (simp add: rstrip_def)

lemma length_lstrip: "length (lstrip s) \<le> length s"
  by (simp add: lstrip_def length_dropWhile_le)

subsection \<open>Numbers in decimal\<close>

definition digit_char :: "nat \<Rightarrow> char" where
  "digit_char d = char_of (48 + d)"

fun show_nat :: "nat \<Rightarrow> pystr" where
  "show_nat n = (if n < 10 then [digit_char n]
                 else show_nat (n div 10) @ [digit_char (n mod 10)])"

declare show_nat.simps [simp del]

definition show_int :: "int \<Rightarrow> pystr" where
  "show_int i = (if i < 0 then ''-'' @ show_nat (nat (- i)) else show_nat (nat i))"

lemma code_digit_char: "d < 10 \<Longrightarrow> code (digit_char d) = 48 + d"
  by (simp add: code_def digit_char_def)

lemma show_nat_nonempty [simp]: "show_nat n \<noteq> []"
  by (subst show_nat.simps) simp

lemma show_nat_digits: "\<forall>c\<in>set (show_nat n). is_digit c"
proof (induction n rule: show_nat.induct)
  case (1 n)
  then show ?case
    by (subst show_nat.simps) (auto simp: is_digit_def code_digit_char)
qed

fun nat_of_digits :: "nat \<Rightarrow> pystr \<Rightarrow> nat" where
  "nat_of_digits acc [] = acc"
| "nat_of_digits acc (c # s) = nat_of_digits (10 * acc + (code c - 48)) s"

lemma nat_of_digits_append:
  "nat_of_digits acc (s @ t) = nat_of_digits (nat_of_digits acc s) t"
  by (induction s arbitrary: acc) auto

lemma nat_of_digits_show: "nat_of_digits 0 (show_nat n) = n"
proof (induction n rule: show_nat.induct)
  case (1 n)
  then show ?case
    by (subst show_nat.simps) (auto simp: nat_of_digits_append code_digit_char)
qed

lemma show_nat_inj: "show_nat m = show_nat n \<Longrightarrow> m = n"
  by (metis nat_of_digits_show)

text \<open>\<open>int(s)\<close>: surrounding blanks, an optional sign, digits with single underscores
  between them.\<close>

fun digits_shape :: "pystr \<Rightarrow> bool" where
  "digits_shape [] = False"
| "digits_shape [c] = is_digit c"
| "digits_shape (c # d # s) =
     (is_digit c \<and> (if d = CHR ''_'' then digits_shape s else digits_shape (d # s)))"

definition parse_nat :: "pystr \<Rightarrow> nat option" where
  "parse_nat s =
     (if digits_shape s then Some (nat_of_digits 0 (filter (\<lambda>c. c \<noteq> CHR ''_'') s)) else None)"

definition parse_int :: "pystr \<Rightarrow> int option" where
  "parse_int s0 = (let s = strip s0 in
     case s of
       c # rest \<Rightarrow>
         if c = CHR ''-'' then map_option (\<lambda>n. - int n) (parse_nat rest)
         else if c = CHR ''+'' then map_option int (parse_nat rest)
         else map_option int (parse_nat s)
     | [] \<Rightarrow> None)"

subsection \<open>repr of a string\<close>

definition hex_char :: "nat \<Rightarrow> char" where
  "hex_char d = (if d < 10 then char_of (48 + d) else char_of (87 + d))"

definition printable :: "char \<Rightarrow> bool" where
  "printable c = (let n = code c in
     32 \<le> n \<and> n \<noteq> 127 \<and> n \<notin> {129, 141, 143, 144, 157, 160, 173})"

definition repr_char :: "char \<Rightarrow> char \<Rightarrow> pystr" where
  "repr_char q c =
     (if c = q \<or> c = backslash then [backslash, c]
      else if c = newline then [backslash, CHR ''n'']
      else if c = CHR 0x09 then [backslash, CHR ''t'']
      else if c = CHR 0x0D then [backslash, CHR ''r'']
      else if printable c then [c]
      else [backslash, CHR ''x'', hex_char (code c div 16), hex_char (code c mod 16)])"

definition py_repr :: "pystr \<Rightarrow> pystr" where
  "py_repr s =
     (let q = (if squote \<in> set s \<and> dquote \<notin> set s then dquote else squote)
      in [q] @ concat (map (repr_char q) s) @ [q])"

end
