(* ===== verification/Uuids.thy ===== *)
theory Uuids
  imports Py_Text "HOL-Library.Product_Lexorder"
begin

section \<open>UUIDs: rows' identifiers and their text form\<close>

text \<open>
  Identifiers are \<open>uuid.UUID\<close> values: 128-bit numbers, ordered as numbers (Postgres and
  Python agree on this order). \<open>uuid_text\<close> is \<open>str(u)\<close>, the 8-4-4-4-12 form in lower-case
  hexadecimal, \<open>uuid_hex\<close> is \<open>u.hex\<close>, and \<open>parse_uuid\<close> is the constructor
  \<open>UUID(s)\<close>, \<open>None\<close> standing for the \<open>ValueError\<close> it raises: it drops
  \<open>urn:\<close>, \<open>uuid:\<close>, braces and hyphens and wants 32 hexadecimal digits. The round trip
  \<open>UUID(str(u)) = u\<close> is what lets a task's inputs travel through a JSON column.
\<close>

datatype uuid = Uuid (uuid_nat: nat)

instantiation uuid :: linorder
begin

definition less_eq_uuid :: "uuid \<Rightarrow> uuid \<Rightarrow> bool" where
  "less_eq_uuid a b = (uuid_nat a \<le> uuid_nat b)"

definition less_uuid :: "uuid \<Rightarrow> uuid \<Rightarrow> bool" where
  "less_uuid a b = (uuid_nat a < uuid_nat b)"

instance
  by standard (auto simp: less_eq_uuid_def less_uuid_def intro: uuid.expand)

end

definition valid_uuid :: "uuid \<Rightarrow> bool" where
  "valid_uuid u = (uuid_nat u < 16 ^ 32)"

subsection \<open>Hexadecimal digits\<close>

fun hex_digits :: "nat \<Rightarrow> nat \<Rightarrow> pystr" where
  "hex_digits 0 n = []"
| "hex_digits (Suc k) n = hex_digits k (n div 16) @ [hex_char (n mod 16)]"

definition hex_value :: "char \<Rightarrow> nat option" where
  "hex_value c = (let n = code c in
     if 48 \<le> n \<and> n \<le> 57 then Some (n - 48)
     else if 97 \<le> n \<and> n \<le> 102 then Some (n - 87)
     else if 65 \<le> n \<and> n \<le> 70 then Some (n - 55)
     else None)"

fun hex_number :: "nat \<Rightarrow> pystr \<Rightarrow> nat option" where
  "hex_number acc [] = Some acc"
| "hex_number acc (c # s) =
     (case hex_value c of None \<Rightarrow> None | Some d \<Rightarrow> hex_number (16 * acc + d) s)"

definition uuid_hex :: "uuid \<Rightarrow> pystr" where
  "uuid_hex u = hex_digits 32 (uuid_nat u)"

definition uuid_text :: "uuid \<Rightarrow> pystr" where
  "uuid_text u = (let h = uuid_hex u in
     take 8 h @ ''-'' @ take 4 (drop 8 h) @ ''-'' @ take 4 (drop 12 h) @ ''-'' @
     take 4 (drop 16 h) @ ''-'' @ drop 20 h)"

definition is_brace :: "char \<Rightarrow> bool" where
  "is_brace c = (c = CHR 0x7B \<or> c = CHR 0x7D)"

definition strip_braces :: "pystr \<Rightarrow> pystr" where
  "strip_braces s = rev (dropWhile is_brace (rev (dropWhile is_brace s)))"

definition parse_uuid :: "pystr \<Rightarrow> uuid option" where
  "parse_uuid s =
     (let h = filter (\<lambda>c. c \<noteq> CHR ''-'')
                (strip_braces (replace ''uuid:'' [] (replace ''urn:'' [] s)))
      in if length h = 32 then map_option Uuid (hex_number 0 h) else None)"

subsection \<open>The round trip\<close>

lemma code_hex_char: "d < 16 \<Longrightarrow> code (hex_char d) = (if d < 10 then 48 + d else 87 + d)"
  by (simp add: code_def hex_char_def)

lemma hex_value_char: "d < 16 \<Longrightarrow> hex_value (hex_char d) = Some d"
  by (simp add: hex_value_def code_hex_char Let_def)

lemma length_hex_digits [simp]: "length (hex_digits k n) = k"
  by (induction k arbitrary: n) auto

lemma hex_number_append:
  "hex_number acc (s @ t) =
     (case hex_number acc s of None \<Rightarrow> None | Some a \<Rightarrow> hex_number a t)"
  by (induction s arbitrary: acc) (auto split: option.splits)

lemma hex_number_digits: "n < 16 ^ k \<Longrightarrow> hex_number 0 (hex_digits k n) = Some n"
proof (induction k arbitrary: n)
  case (Suc k)
  then have "n div 16 < 16 ^ k" by (simp add: less_mult_imp_div_less mult.commute)
  with Suc.IH show ?case by (simp add: hex_number_append hex_value_char)
qed simp

lemma set_hex_digits: "set (hex_digits k n) \<subseteq> hex_char ` {..<16}"
  by (induction k arbitrary: n) auto

lemma hex_char_range:
  "c \<in> hex_char ` {..<16} \<Longrightarrow>
     (48 \<le> code c \<and> code c \<le> 57) \<or> (97 \<le> code c \<and> code c \<le> 102)"
  by (auto simp: code_hex_char split: if_splits)

lemma plain_by_code:
  "code c = 45 \<or> (48 \<le> code c \<and> code c \<le> 57) \<or> (97 \<le> code c \<and> code c \<le> 102) \<Longrightarrow>
     c \<noteq> CHR ''u'' \<and> \<not> is_brace c \<and> \<not> is_space c"
  by (auto simp: is_brace_def is_space_def Let_def)
    (auto simp: code_def)

lemma hex_char_no_dash: "c \<in> hex_char ` {..<16} \<Longrightarrow> c \<noteq> CHR ''-''"
  using hex_char_range by (fastforce simp: code_def)

definition uuid_chars :: "char set" where
  "uuid_chars = insert (CHR ''-'') (hex_char ` {..<16})"

lemma uuid_chars_plain:
  assumes "c \<in> uuid_chars"
  shows "c \<noteq> CHR ''u'' \<and> \<not> is_brace c \<and> \<not> is_space c"
proof (rule plain_by_code)
  from assms consider "c = CHR ''-''" | "c \<in> hex_char ` {..<16}"
    by (auto simp: uuid_chars_def)
  then show "code c = 45 \<or> (48 \<le> code c \<and> code c \<le> 57) \<or> (97 \<le> code c \<and> code c \<le> 102)"
    by cases (use hex_char_range in \<open>auto simp: code_def\<close>)
qed

lemma set_uuid_text: "set (uuid_text u) \<subseteq> uuid_chars"
  using set_hex_digits[of 32 "uuid_nat u"]
  by (auto simp: uuid_text_def uuid_hex_def uuid_chars_def Let_def
      dest!: in_set_takeD in_set_dropD)

lemma filter_uuid_text: "filter (\<lambda>c. c \<noteq> CHR ''-'') (uuid_text u) = uuid_hex u"
proof -
  let ?h = "uuid_hex u" and ?f = "filter (\<lambda>c. c \<noteq> CHR ''-'')"
  have plain: "?f s = s" if "set s \<subseteq> set ?h" for s
    using that set_hex_digits[of 32 "uuid_nat u"] hex_char_no_dash
    by (simp add: filter_id_conv uuid_hex_def) blast
  have parts: "?f (take i (drop j ?h)) = take i (drop j ?h)" "?f (drop j ?h) = drop j ?h"
    "?f (take i ?h) = take i ?h" for i j
    by (rule plain; meson order_trans set_drop_subset set_take_subset)+
  have "?f (uuid_text u) = take 8 ?h @ take 4 (drop 8 ?h) @ take 4 (drop 12 ?h) @
      take 4 (drop 16 ?h) @ drop 20 ?h"
    by (simp add: uuid_text_def Let_def parts)
  also have "\<dots> = ?h"
  proof -
    have chunk: "take 4 (drop k ?h) @ drop (4 + k) ?h = drop k ?h" for k
      by (metis append_take_drop_id drop_drop)
    from chunk[of 16] chunk[of 12] chunk[of 8] show ?thesis by simp
  qed
  finally show ?thesis .
qed

lemma strip_braces_none: "(\<forall>c\<in>set s. \<not> is_brace c) \<Longrightarrow> strip_braces s = s"
  by (simp add: strip_braces_def dropWhile_none)

lemma parse_uuid_text: "valid_uuid u \<Longrightarrow> parse_uuid (uuid_text u) = Some u"
proof -
  assume valid: "valid_uuid u"
  have u: "CHR ''u'' \<notin> set (uuid_text u)"
    and b: "\<forall>c\<in>set (uuid_text u). \<not> is_brace c"
    using set_uuid_text uuid_chars_plain by blast+
  have "replace ''urn:'' [] (uuid_text u) = uuid_text u"
    and "replace ''uuid:'' [] (uuid_text u) = uuid_text u"
    using u by (simp_all add: replace_absent)
  with b valid show ?thesis
    by (simp add: parse_uuid_def Let_def strip_braces_none filter_uuid_text uuid_hex_def
        hex_number_digits valid_uuid_def)
qed

lemma uuid_text_nonempty [simp]: "uuid_text u \<noteq> []"
  by (simp add: uuid_text_def Let_def)

lemma strip_uuid_text: "strip (uuid_text u) = uuid_text u"
  using set_uuid_text uuid_chars_plain by (intro strip_nonspace) blast

end
