(* ===== verification/Json.thy ===== *)
theory Json
  imports Uuids
begin

section \<open>JSON values and Python dictionaries\<close>

text \<open>
  Tool inputs and outputs, event payloads and the language model's structured replies are
  Python values read from JSON. \<open>json\<close> has one constructor per shape; a float is its decimal
  rendering \<open>m / 10^k\<close>, which is all the program does with one. A \<open>dict\<close> keeps insertion
  order, so it is an association list without repeated keys: \<open>dict_get\<close> is
  \<open>d.get(k)\<close>, \<open>dict_set\<close> is \<open>d[k] = v\<close> and \<open>dict_union\<close> is \<open>d | e\<close>.
  \<open>truthy\<close> is \<open>bool(x)\<close>; \<open>json_str\<close> and \<open>json_repr\<close> are \<open>str\<close> and \<open>repr\<close>;
  \<open>dumps\<close> is \<open>json.dumps\<close> with its default separators and ASCII escapes.
\<close>

datatype json =
    JNull
  | JBool bool
  | JInt int
  | JFloat int nat
  | JStr pystr
  | JArr "json list"
  | JObj "(pystr \<times> json) list"

type_synonym dict = "(pystr \<times> json) list"

subsection \<open>Dictionaries\<close>

definition dict_get :: "dict \<Rightarrow> pystr \<Rightarrow> json option" where
  "dict_get d k = map_of d k"

fun dict_set :: "pystr \<Rightarrow> json \<Rightarrow> dict \<Rightarrow> dict" where
  "dict_set k v [] = [(k, v)]"
| "dict_set k v ((k', v') # d) = (if k' = k then (k, v) # d else (k', v') # dict_set k v d)"

definition dict_union :: "dict \<Rightarrow> dict \<Rightarrow> dict" where
  "dict_union d e = fold (\<lambda>(k, v) acc. dict_set k v acc) e d"

lemma dict_get_Nil [simp]: "dict_get [] k = None"
  by (simp add: dict_get_def)

lemma dict_get_Cons [simp]:
  "dict_get ((k', v) # d) k = (if k' = k then Some v else dict_get d k)"
  by (simp add: dict_get_def)

lemma dict_get_append:
  "dict_get (d @ e) k = (case dict_get d k of Some v \<Rightarrow> Some v | None \<Rightarrow> dict_get e k)"
  by (induction d) (auto split: option.splits)

lemma dict_get_set [simp]:
  "dict_get (dict_set k v d) k' = (if k' = k then Some v else dict_get d k')"
  by (induction d) auto

lemma dict_keys_set: "fst ` set (dict_set k v d) = insert k (fst ` set d)"
proof (induction d)
  case (Cons kv d)
  then show ?case by (cases kv) (auto simp: insert_commute)
qed simp

lemma dict_distinct_set:
  "distinct (map fst d) \<Longrightarrow> distinct (map fst (dict_set k v d))"
proof (induction d)
  case (Cons kv d)
  then show ?case
    using dict_keys_set[of k v d] by (cases kv) auto
qed simp

subsection \<open>Truth value, str and repr\<close>

fun truthy :: "json \<Rightarrow> bool" where
  "truthy JNull = False"
| "truthy (JBool b) = b"
| "truthy (JInt i) = (i \<noteq> 0)"
| "truthy (JFloat m k) = (m \<noteq> 0)"
| "truthy (JStr s) = (s \<noteq> [])"
| "truthy (JArr xs) = (xs \<noteq> [])"
| "truthy (JObj d) = (d \<noteq> [])"

text \<open>\<open>x or y\<close> on an optional lookup: a missing or falsy value gives the default.\<close>

definition get_or :: "dict \<Rightarrow> pystr \<Rightarrow> json \<Rightarrow> json" where
  "get_or d k dflt =
     (case dict_get d k of None \<Rightarrow> dflt | Some v \<Rightarrow> (if truthy v then v else dflt))"

text \<open>\<open>d.get(k, default)\<close>: the default only when the key is missing.\<close>

definition get_default :: "dict \<Rightarrow> pystr \<Rightarrow> json \<Rightarrow> json" where
  "get_default d k dflt = (case dict_get d k of None \<Rightarrow> dflt | Some v \<Rightarrow> v)"

fun pad_left :: "nat \<Rightarrow> pystr \<Rightarrow> pystr" where
  "pad_left 0 s = s"
| "pad_left (Suc n) s = (if length s > n then s else CHR ''0'' # pad_left n s)"

definition show_float :: "int \<Rightarrow> nat \<Rightarrow> pystr" where
  "show_float m k =
     (let a = nat (abs m); sign = (if m < 0 then ''-'' else [])
      in sign @ show_nat (a div 10 ^ k) @ ''.'' @
         (if k = 0 then ''0'' else pad_left k (show_nat (a mod 10 ^ k))))"

fun json_repr :: "json \<Rightarrow> pystr" where
  "json_repr JNull = ''None''"
| "json_repr (JBool b) = (if b then ''True'' else ''False'')"
| "json_repr (JInt i) = show_int i"
| "json_repr (JFloat m k) = show_float m k"
| "json_repr (JStr s) = py_repr s"
| "json_repr (JArr xs) = ''['' @ join '', '' (map json_repr xs) @ '']''"
| "json_repr (JObj d) =
     ''{'' @ join '', '' (map (\<lambda>(k, v). py_repr k @ '': '' @ json_repr v) d) @ ''}''"

fun json_str :: "json \<Rightarrow> pystr" where
  "json_str (JStr s) = s"
| "json_str j = json_repr j"

subsection \<open>json.dumps\<close>

definition cp1252_high :: "nat list" where
  "cp1252_high =
    [0x20AC, 0x2192, 0x201A, 0x0192, 0x201E, 0x2026, 0x2020, 0x2021,
     0x02C6, 0x2030, 0x0160, 0x2039, 0x0152, 0x2265, 0x017D, 0x8F,
     0x90, 0x2018, 0x2019, 0x201C, 0x201D, 0x2022, 0x2013, 0x2014,
     0x02DC, 0x2122, 0x0161, 0x203A, 0x0153, 0x9D, 0x017E, 0x0178]"

definition unicode_point :: "char \<Rightarrow> nat" where
  "unicode_point c = (let n = code c in
     if 128 \<le> n \<and> n < 160 then cp1252_high ! (n - 128) else n)"

definition dumps_char :: "char \<Rightarrow> pystr" where
  "dumps_char c =
     (if c = dquote \<or> c = backslash then [backslash, c]
      else if c = newline then [backslash, CHR ''n'']
      else if c = CHR 0x0D then [backslash, CHR ''r'']
      else if c = CHR 0x09 then [backslash, CHR ''t'']
      else if c = CHR 0x0C then [backslash, CHR ''f'']
      else if c = CHR 0x08 then [backslash, CHR ''b'']
      else if 32 \<le> code c \<and> code c \<le> 126 then [c]
      else [backslash, CHR ''u''] @ hex_digits 4 (unicode_point c))"

definition dumps_str :: "pystr \<Rightarrow> pystr" where
  "dumps_str s = [dquote] @ concat (map dumps_char s) @ [dquote]"

fun dumps :: "json \<Rightarrow> pystr" where
  "dumps JNull = ''null''"
| "dumps (JBool b) = (if b then ''true'' else ''false'')"
| "dumps (JInt i) = show_int i"
| "dumps (JFloat m k) = show_float m k"
| "dumps (JStr s) = dumps_str s"
| "dumps (JArr xs) = ''['' @ join '', '' (map dumps xs) @ '']''"
| "dumps (JObj d) =
     ''{'' @ join '', '' (map (\<lambda>(k, v). dumps_str k @ '': '' @ dumps v) d) @ ''}''"

subsection \<open>Readers\<close>

fun as_str :: "json \<Rightarrow> pystr option" where
  "as_str (JStr s) = Some s"
| "as_str _ = None"

fun as_obj :: "json \<Rightarrow> dict option" where
  "as_obj (JObj d) = Some d"
| "as_obj _ = None"

fun as_arr :: "json \<Rightarrow> json list option" where
  "as_arr (JArr xs) = Some xs"
| "as_arr _ = None"

text \<open>\<open>isinstance(x, int)\<close> holds of a \<open>bool\<close> too, with the values 0 and 1.\<close>

fun as_int :: "json \<Rightarrow> int option" where
  "as_int (JInt i) = Some i"
| "as_int (JBool b) = Some (if b then 1 else 0)"
| "as_int _ = None"

definition opt_str :: "pystr option \<Rightarrow> json" where
  "opt_str s = (case s of None \<Rightarrow> JNull | Some t \<Rightarrow> JStr t)"

text \<open>\<open>isinstance(x, str) and x.strip()\<close> on an optional lookup.\<close>

definition nonblank_str :: "json option \<Rightarrow> bool" where
  "nonblank_str v = (case v of Some (JStr s) \<Rightarrow> strip s \<noteq> [] | _ \<Rightarrow> False)"

lemma nonblank_strE:
  assumes "nonblank_str v" obtains s where "v = Some (JStr s)" and "strip s \<noteq> []"
  using assms by (auto simp: nonblank_str_def split: option.splits json.splits)

end
