(* ===== verification/Effects.thy ===== *)
theory Effects
  imports Json
begin

section \<open>Effects: exceptions and state\<close>

text \<open>
  An asynchronous method of the program is a function from the state of the world to a result
  and the next state. The result is a value (\<open>Inr\<close>) or the exception that was raised
  (\<open>Inl\<close>); the state reached so far is kept in both cases, because no statement of the
  program is undone by an exception unless it runs in a database transaction.

  \<open>bindE\<close> is sequencing, \<open>catchE\<close> is \<open>try/except Exception\<close>, \<open>finallyE\<close> is
  \<open>try/finally\<close>, \<open>best_effort\<close> is the ubiquitous \<open>try: ... except Exception: log\<close>, and
  \<open>transactionE\<close> is \<open>async with conn.transaction()\<close>. Log lines are not modelled.

  \<open>keeps R m\<close> says that every run of \<open>m\<close>, whether it returns or raises, ends in a state
  related by \<open>R\<close> to the one it started in. For a reflexive and transitive \<open>R\<close> (locale
  \<open>world_order\<close>) it composes along the program text, which is how the invariants of the whole
  program are proved from one lemma per database statement.
\<close>

datatype exn =
    ToolError pystr
  | ToolFatalError pystr
  | WorkspaceCollision pystr int
  | ValueError pystr
  | KeyError pystr
  | NotImplementedError pystr
  | DbError pystr
  | FileNotFoundError pystr
  | HTTPException nat pystr
  | OtherError pystr

fun exn_str :: "exn \<Rightarrow> pystr" where
  "exn_str (ToolError s) = s"
| "exn_str (ToolFatalError s) = s"
| "exn_str (WorkspaceCollision f v) =
     ''workspace file '' @ py_repr f @ '' already exists at v'' @ show_int v"
| "exn_str (ValueError s) = s"
| "exn_str (KeyError s) = py_repr s"
| "exn_str (NotImplementedError s) = s"
| "exn_str (DbError s) = s"
| "exn_str (FileNotFoundError s) = s"
| "exn_str (HTTPException n s) = show_nat n @ '': '' @ s"
| "exn_str (OtherError s) = s"

type_synonym ('w, 'a) io = "'w \<Rightarrow> (exn + 'a) \<times> 'w"

definition ret :: "'a \<Rightarrow> ('w, 'a) io" where
  "ret x w = (Inr x, w)"

definition raise :: "exn \<Rightarrow> ('w, 'a) io" where
  "raise e w = (Inl e, w)"

definition bindE :: "('w, 'a) io \<Rightarrow> ('a \<Rightarrow> ('w, 'b) io) \<Rightarrow> ('w, 'b) io" where
  "bindE m f w = (case m w of (Inl e, w') \<Rightarrow> (Inl e, w') | (Inr x, w') \<Rightarrow> f x w')"

definition thenE :: "('w, 'a) io \<Rightarrow> ('w, 'b) io \<Rightarrow> ('w, 'b) io" where
  "thenE m k = bindE m (\<lambda>_. k)"

definition catchE :: "('w, 'a) io \<Rightarrow> (exn \<Rightarrow> ('w, 'a) io) \<Rightarrow> ('w, 'a) io" where
  "catchE m h w = (case m w of (Inl e, w') \<Rightarrow> h e w' | (Inr x, w') \<Rightarrow> (Inr x, w'))"

definition attemptE :: "('w, 'a) io \<Rightarrow> ('w, exn + 'a) io" where
  "attemptE m w = (case m w of (r, w') \<Rightarrow> (Inr r, w'))"

definition finallyE :: "('w, 'a) io \<Rightarrow> ('w, unit) io \<Rightarrow> ('w, 'a) io" where
  "finallyE m c w =
     (case m w of (r, w') \<Rightarrow>
        (case c w' of (Inl e, w'') \<Rightarrow> (Inl e, w'') | (Inr _, w'') \<Rightarrow> (r, w'')))"

definition best_effort :: "('w, 'a) io \<Rightarrow> ('w, unit) io" where
  "best_effort m w = (Inr (), snd (m w))"

definition getsE :: "('w \<Rightarrow> 'a) \<Rightarrow> ('w, 'a) io" where
  "getsE f w = (Inr (f w), w)"

definition modifyE :: "('w \<Rightarrow> 'w) \<Rightarrow> ('w, unit) io" where
  "modifyE f w = (Inr (), f w)"

definition whenE :: "bool \<Rightarrow> ('w, unit) io \<Rightarrow> ('w, unit) io" where
  "whenE b m = (if b then m else ret ())"

fun mapE :: "('a \<Rightarrow> ('w, 'b) io) \<Rightarrow> 'a list \<Rightarrow> ('w, 'b list) io" where
  "mapE f [] = ret []"
| "mapE f (x # xs) = bindE (f x) (\<lambda>y. bindE (mapE f xs) (\<lambda>ys. ret (y # ys)))"

lemmas io_defs = ret_def raise_def bindE_def thenE_def catchE_def attemptE_def finallyE_def
  best_effort_def getsE_def modifyE_def whenE_def

text \<open>A pure step that may raise.\<close>

definition liftE :: "exn + 'a \<Rightarrow> ('w, 'a) io" where
  "liftE r w = (r, w)"

lemma liftE_run [simp]: "liftE r w = (r, w)" by (simp add: liftE_def)
lemma liftE_Inr [simp]: "liftE (Inr x) = ret x" by (rule ext) (simp add: liftE_def ret_def)
lemma liftE_Inl [simp]: "liftE (Inl e) = raise e" by (rule ext) (simp add: liftE_def raise_def)

text \<open>\<open>int(x)\<close> of a JSON value.\<close>

fun py_int :: "json \<Rightarrow> exn + int" where
  "py_int (JInt i) = Inr i"
| "py_int (JBool b) = Inr (if b then 1 else 0)"
| "py_int (JFloat m k) = Inr (sgn m * (abs m div 10 ^ k))"
| "py_int (JStr s) = (case parse_int s of
     Some i \<Rightarrow> Inr i
   | None \<Rightarrow> Inl (ValueError (''invalid literal for int() with base 10: '' @ py_repr s)))"
| "py_int _ = Inl (OtherError ''int() argument must be a string or a real number'')"

text \<open>
  \<open>asyncio.gather\<close> of computations that do not communicate. The event loop decides in which
  order they run to their end (\<open>order\<close>, made a permutation of the indices if it is not one);
  the results come back in the order of the arguments. Without \<open>return_exceptions\<close> the first
  exception, in running order, is raised; the other computations still run.
\<close>

definition schedule_of :: "nat list \<Rightarrow> nat \<Rightarrow> nat list" where
  "schedule_of order n = (if sort order = [0..<n] then order else [0..<n])"

definition run_in_order :: "('w, 'a) io list \<Rightarrow> nat list \<Rightarrow> ('w, (nat \<times> (exn + 'a)) list) io" where
  "run_in_order ms order =
     mapE (\<lambda>i. bindE (attemptE (ms ! i)) (\<lambda>r. ret (i, r))) order"

fun first_exn :: "(nat \<times> (exn + 'a)) list \<Rightarrow> exn option" where
  "first_exn [] = None"
| "first_exn ((i, r) # rs) = (case r of Inl e \<Rightarrow> Some e | Inr _ \<Rightarrow> first_exn rs)"

fun values_of :: "(nat \<times> (exn + 'a)) list \<Rightarrow> nat list \<Rightarrow> 'a list" where
  "values_of rs [] = []"
| "values_of rs (i # is) =
     (case map_of rs i of Some (Inr x) \<Rightarrow> x # values_of rs is | _ \<Rightarrow> values_of rs is)"

definition gather :: "nat list \<Rightarrow> ('w, 'a) io list \<Rightarrow> ('w, 'a list) io" where
  "gather order ms =
     bindE (run_in_order ms (schedule_of order (length ms))) (\<lambda>rs.
       case first_exn rs of
         Some e \<Rightarrow> raise e
       | None \<Rightarrow> ret (values_of rs [0..<length ms]))"

subsection \<open>Computation rules\<close>

lemma ret_run [simp]: "ret x w = (Inr x, w)" by (simp add: ret_def)
lemma raise_run [simp]: "raise e w = (Inl e, w)" by (simp add: raise_def)
lemma getsE_run [simp]: "getsE f w = (Inr (f w), w)" by (simp add: getsE_def)
lemma modifyE_run [simp]: "modifyE f w = (Inr (), f w)" by (simp add: modifyE_def)

lemma bindE_Inr: "m w = (Inr x, w') \<Longrightarrow> bindE m f w = f x w'" by (simp add: bindE_def)
lemma bindE_Inl: "m w = (Inl e, w') \<Longrightarrow> bindE m f w = (Inl e, w')" by (simp add: bindE_def)
lemma thenE_Inr: "m w = (Inr x, w') \<Longrightarrow> thenE m k w = k w'" by (simp add: thenE_def bindE_def)
lemma thenE_Inl: "m w = (Inl e, w') \<Longrightarrow> thenE m k w = (Inl e, w')"
  by (simp add: thenE_def bindE_def)
lemma catchE_Inr: "m w = (Inr x, w') \<Longrightarrow> catchE m h w = (Inr x, w')" by (simp add: catchE_def)
lemma catchE_Inl: "m w = (Inl e, w') \<Longrightarrow> catchE m h w = h e w'" by (simp add: catchE_def)
lemma best_effort_run: "m w = (r, w') \<Longrightarrow> best_effort m w = (Inr (), w')"
  by (simp add: best_effort_def)
lemma finallyE_run:
  "m w = (r, w') \<Longrightarrow> c w' = (Inr u, w'') \<Longrightarrow> finallyE m c w = (r, w'')"
  by (simp add: finallyE_def)

lemmas io_runs = bindE_Inr bindE_Inl thenE_Inr thenE_Inl catchE_Inr catchE_Inl best_effort_run

lemma best_effort_fst [simp]: "fst (best_effort m w) = Inr ()"
  by (simp add: best_effort_def)

lemma bindE_ret [simp]: "bindE (ret x) f = f x"
  by (rule ext) (simp add: bindE_def)

lemma thenE_ret [simp]: "thenE (ret x) k = k"
  by (simp add: thenE_def)

lemma bindE_raise [simp]: "bindE (raise e) f = raise e"
  by (rule ext) (simp add: bindE_def)

lemma catchE_ret [simp]: "catchE (ret x) h = ret x"
  by (rule ext) (simp add: catchE_def)

lemma catchE_cases:
  assumes "catchE m h w = (r, w')"
  obtains (val) x where "m w = (Inr x, w')" and "r = Inr x"
  | (exn) e w1 where "m w = (Inl e, w1)" and "h e w1 = (r, w')"
  using assms by (auto simp: catchE_def split: prod.splits sum.splits)

lemma finallyE_cases:
  assumes "finallyE m c w = (r, w')"
  obtains q w1 u where "m w = (q, w1)" and "c w1 = (u, w')"
  using assms by (auto simp: finallyE_def split: prod.splits sum.splits)

lemma bindE_cases:
  assumes "bindE m f w = (r, w')"
  obtains (exn) e where "m w = (Inl e, w')" and "r = Inl e"
  | (val) x w1 where "m w = (Inr x, w1)" and "f x w1 = (r, w')"
  using assms by (auto simp: bindE_def split: prod.splits sum.splits)

subsection \<open>Never raising\<close>

definition no_raise :: "('w, 'a) io \<Rightarrow> bool" where
  "no_raise m \<longleftrightarrow> (\<forall>w. \<exists>x w'. m w = (Inr x, w'))"

named_theorems no_raise_rules "programs that return on every state"

lemma no_raiseE: assumes "no_raise m" obtains x w' where "m w = (Inr x, w')"
  using assms unfolding no_raise_def by blast

lemma no_raise_ret [no_raise_rules]: "no_raise (ret x)" by (simp add: no_raise_def)
lemma no_raise_attempt: "no_raise (attemptE m)"
  by (simp add: no_raise_def attemptE_def split: prod.splits)

lemma no_raise_sum:
  "(\<And>a. no_raise (f a)) \<Longrightarrow> (\<And>b. no_raise (g b)) \<Longrightarrow>
   no_raise (case x of Inl a \<Rightarrow> f a | Inr b \<Rightarrow> g b)"
  by (cases x) auto

lemma no_raise_best_effort [no_raise_rules]: "no_raise (best_effort m)"
  by (simp add: no_raise_def best_effort_def)
lemma no_raise_gets [no_raise_rules]: "no_raise (getsE f)" by (simp add: no_raise_def)
lemma no_raise_modify [no_raise_rules]: "no_raise (modifyE f)" by (simp add: no_raise_def)
lemma no_raise_when [no_raise_rules]: "(b \<Longrightarrow> no_raise m) \<Longrightarrow> no_raise (whenE b m)"
  by (simp add: whenE_def no_raise_ret)

lemma no_raise_bind [no_raise_rules]:
  "no_raise m \<Longrightarrow> (\<And>x. no_raise (f x)) \<Longrightarrow> no_raise (bindE m f)"
  unfolding no_raise_def by (metis bindE_Inr)

lemma no_raise_then [no_raise_rules]: "no_raise m \<Longrightarrow> no_raise k \<Longrightarrow> no_raise (thenE m k)"
  by (simp add: thenE_def no_raise_bind)

lemma no_raise_catch [no_raise_rules]: "(\<And>e. no_raise (h e)) \<Longrightarrow> no_raise (catchE m h)"
  unfolding no_raise_def catchE_def by (intro allI) (auto split: prod.splits sum.splits)

lemma no_raise_if [no_raise_rules]:
  "(b \<Longrightarrow> no_raise m) \<Longrightarrow> (\<not> b \<Longrightarrow> no_raise k) \<Longrightarrow> no_raise (if b then m else k)"
  by simp

subsection \<open>The frame predicate\<close>

definition keeps :: "('w \<Rightarrow> 'w \<Rightarrow> bool) \<Rightarrow> ('w, 'a) io \<Rightarrow> bool" where
  "keeps R m \<longleftrightarrow> (\<forall>w. R w (snd (m w)))"

lemma keepsD: "keeps R m \<Longrightarrow> m w = (r, w') \<Longrightarrow> R w w'"
  by (metis keeps_def snd_conv)

lemma keepsI: "(\<And>w r w'. m w = (r, w') \<Longrightarrow> R w w') \<Longrightarrow> keeps R m"
  by (simp add: keeps_def prod_eq_iff)

lemma set_schedule_of: "set (schedule_of order n) = {0..<n}"
proof (cases "sort order = [0..<n]")
  case True
  have "set order = set (sort order)" by (rule set_sort[symmetric])
  also have "\<dots> = {0..<n}" unfolding True by simp
  finally show ?thesis by (simp add: schedule_of_def)
next
  case False
  then show ?thesis by (simp add: schedule_of_def)
qed

lemma schedule_of_bound: "i \<in> set (schedule_of order n) \<Longrightarrow> i < n"
  by (simp add: set_schedule_of)

locale world_order =
  fixes R :: "'w \<Rightarrow> 'w \<Rightarrow> bool"
  assumes refl: "R w w"
    and trans: "R u v \<Longrightarrow> R v w \<Longrightarrow> R u w"
begin

lemma ret: "keeps R (ret x)"
  by (simp add: keeps_def refl)

lemma raise: "keeps R (raise e)"
  by (simp add: keeps_def refl)

lemma gets: "keeps R (getsE f)"
  by (simp add: keeps_def refl)

lemma modify: "(\<And>w. R w (f w)) \<Longrightarrow> keeps R (modifyE f)"
  by (simp add: keeps_def)

lemma bind:
  assumes "keeps R m" and "\<And>x. keeps R (f x)"
  shows "keeps R (bindE m f)"
proof (rule keepsI)
  fix w r w' assume "bindE m f w = (r, w')"
  then show "R w w'"
    by (cases rule: bindE_cases) (use assms in \<open>blast dest: keepsD intro: trans\<close>)+
qed

lemma andThen: "keeps R m \<Longrightarrow> keeps R k \<Longrightarrow> keeps R (thenE m k)"
  by (simp add: thenE_def bind)

lemma catch:
  assumes "keeps R m" and "\<And>e. keeps R (h e)"
  shows "keeps R (catchE m h)"
proof (rule keepsI)
  fix w r w' assume "catchE m h w = (r, w')"
  then show "R w w'"
    by (cases rule: catchE_cases) (use assms in \<open>blast dest: keepsD intro: trans\<close>)+
qed

lemma attempt: "keeps R m \<Longrightarrow> keeps R (attemptE m)"
  by (simp add: keeps_def attemptE_def split: prod.splits) (metis snd_conv)

lemma finally_:
  assumes "keeps R m" and "keeps R c"
  shows "keeps R (finallyE m c)"
proof (rule keepsI)
  fix w r w' assume "finallyE m c w = (r, w')"
  then show "R w w'"
    by (cases rule: finallyE_cases) (use assms in \<open>blast dest: keepsD intro: trans\<close>)
qed

lemma lift: "keeps R (liftE x)"
  by (simp add: keeps_def refl)

lemma effort: "keeps R m \<Longrightarrow> keeps R (best_effort m)"
  by (simp add: keeps_def best_effort_def)

lemma when_: "(b \<Longrightarrow> keeps R m) \<Longrightarrow> keeps R (whenE b m)"
  by (simp add: whenE_def ret)

lemma if_: "(b \<Longrightarrow> keeps R m) \<Longrightarrow> (\<not> b \<Longrightarrow> keeps R k) \<Longrightarrow> keeps R (if b then m else k)"
  by simp

lemma opt: "(x = None \<Longrightarrow> keeps R m) \<Longrightarrow> (\<And>y. x = Some y \<Longrightarrow> keeps R (k y)) \<Longrightarrow>
    keeps R (case x of None \<Rightarrow> m | Some y \<Rightarrow> k y)"
  by (cases x) auto

lemma sum: "(\<And>a. x = Inl a \<Longrightarrow> keeps R (f a)) \<Longrightarrow> (\<And>b. x = Inr b \<Longrightarrow> keeps R (g b)) \<Longrightarrow>
    keeps R (case x of Inl a \<Rightarrow> f a | Inr b \<Rightarrow> g b)"
  by (cases x) auto

lemma pair: "(\<And>a b. keeps R (f a b)) \<Longrightarrow> keeps R (case p of (a, b) \<Rightarrow> f a b)"
  by (cases p) auto

lemma list: "keeps R m \<Longrightarrow> (\<And>y ys. keeps R (f y ys)) \<Longrightarrow>
    keeps R (case xs of [] \<Rightarrow> m | y # ys \<Rightarrow> f y ys)"
  by (cases xs) auto

lemma map_: "(\<And>x. x \<in> set xs \<Longrightarrow> keeps R (f x)) \<Longrightarrow> keeps R (mapE f xs)"
  by (induction xs) (auto intro: ret bind)

lemma gather:
  assumes "\<And>m. m \<in> set ms \<Longrightarrow> keeps R m" shows "keeps R (gather order ms)"
proof -
  have "keeps R (run_in_order ms (schedule_of order (length ms)))"
    unfolding run_in_order_def
    by (intro map_ bind attempt ret assms nth_mem schedule_of_bound)
  then show ?thesis unfolding gather_def by (intro bind opt raise ret)
qed

lemmas rules = ret raise lift gets bind andThen catch attempt finally_ effort when_ if_ opt sum pair list map_

end

end
