(* ===== verification/Bytes.thy ===== *)
theory Bytes
  imports Json "HOL-Library.Word"
begin

section \<open>Bytes, UTF-8 and forms\<close>

text \<open>
  A Python \<open>bytes\<close> is a list of 8-bit words. \<open>s.encode("utf-8")\<close> and \<open>b.decode("utf-8")\<close> of the
  standard library are modelled on code points in full (overlong forms, surrogates and points above
  U+10FFFF are refused, as Python refuses them); a text is then a list of characters of the repertoire
  of \<open>Py_Text\<close>, and a decoded code point outside it is read as the one stand-in \<open>stand_in\<close>. At the end stand
  \<open>errors="replace"\<close> and what the code uses of \<open>urllib.parse\<close>.
\<close>

type_synonym byte = "8 word"
type_synonym bytes = "byte list"

subsection \<open>One code point\<close>

definition utf8_point :: "nat \<Rightarrow> bytes" where
  "utf8_point n =
     (if n < 0x80 then [of_nat n]
      else if n < 0x800 then [of_nat (0xC0 + n div 64), of_nat (0x80 + n mod 64)]
      else if n < 0x10000
      then [of_nat (0xE0 + n div 4096), of_nat (0x80 + n div 64 mod 64), of_nat (0x80 + n mod 64)]
      else [of_nat (0xF0 + n div 262144), of_nat (0x80 + n div 4096 mod 64),
            of_nat (0x80 + n div 64 mod 64), of_nat (0x80 + n mod 64)])"

definition scalar :: "nat \<Rightarrow> bool" where
  "scalar n \<longleftrightarrow> n < 0xD800 \<or> (0xE000 \<le> n \<and> n < 0x110000)"

text \<open>The payload of a continuation byte.\<close>

definition cont_byte :: "byte \<Rightarrow> nat option" where
  "cont_byte b = (if 0x80 \<le> unat b \<and> unat b < 0xC0 then Some (unat b - 0x80) else None)"

definition point_of2 :: "byte \<Rightarrow> byte \<Rightarrow> nat option" where
  "point_of2 b c = (case cont_byte c of None \<Rightarrow> None
     | Some y \<Rightarrow> let n = (unat b - 0xC0) * 64 + y in if 0x80 \<le> n then Some n else None)"

definition point_of3 :: "byte \<Rightarrow> byte \<Rightarrow> byte \<Rightarrow> nat option" where
  "point_of3 b c d = (case (cont_byte c, cont_byte d) of
       (Some y, Some z) \<Rightarrow>
         let n = (unat b - 0xE0) * 4096 + y * 64 + z in if 0x800 \<le> n \<and> scalar n then Some n else None
     | _ \<Rightarrow> None)"

definition point_of4 :: "byte \<Rightarrow> byte \<Rightarrow> byte \<Rightarrow> byte \<Rightarrow> nat option" where
  "point_of4 b c d e = (case (cont_byte c, cont_byte d, cont_byte e) of
       (Some x, Some y, Some z) \<Rightarrow>
         let n = (unat b - 0xF0) * 262144 + x * 4096 + y * 64 + z
         in if 0x10000 \<le> n \<and> scalar n then Some n else None
     | _ \<Rightarrow> None)"

fun utf8_points :: "bytes \<Rightarrow> nat list option" where
  "utf8_points [] = Some []"
| "utf8_points (b # bs) =
     (if unat b < 0x80 then map_option ((#) (unat b)) (utf8_points bs)
      else if unat b < 0xC0 then None
      else if unat b < 0xE0
      then (case bs of c # bs' \<Rightarrow>
              (case point_of2 b c of None \<Rightarrow> None | Some n \<Rightarrow> map_option ((#) n) (utf8_points bs'))
            | _ \<Rightarrow> None)
      else if unat b < 0xF0
      then (case bs of c # d # bs' \<Rightarrow>
              (case point_of3 b c d of None \<Rightarrow> None | Some n \<Rightarrow> map_option ((#) n) (utf8_points bs'))
            | _ \<Rightarrow> None)
      else if unat b < 0xF8
      then (case bs of c # d # e # bs' \<Rightarrow>
              (case point_of4 b c d e of None \<Rightarrow> None | Some n \<Rightarrow> map_option ((#) n) (utf8_points bs'))
            | _ \<Rightarrow> None)
      else None)"

declare utf8_points.simps(2) [simp del]

lemma unat_byte [simp]: "n < 256 \<Longrightarrow> unat (of_nat n :: byte) = n"
  by (simp add: unat_of_nat)

lemma cont_byte_byte [simp]: "n < 64 \<Longrightarrow> cont_byte (of_nat (0x80 + n)) = Some n"
  by (simp add: cont_byte_def del: of_nat_add)

text \<open>Every code point that can occur in a text is read back, whatever follows it.\<close>

lemma utf8_points_point:
  assumes "scalar n" shows "utf8_points (utf8_point n @ bs) = map_option ((#) n) (utf8_points bs)"
proof -
  consider "n < 0x80" | "0x80 \<le> n" "n < 0x800" | "0x800 \<le> n" "n < 0x10000" | "0x10000 \<le> n" "n < 0x110000"
    using assms by (force simp: scalar_def)
  then show ?thesis
  proof cases
    case 1
    then show ?thesis by (simp add: utf8_point_def utf8_points.simps(2))
  next
    case 2
    then have "n div 64 < 32" "2 \<le> n div 64" by auto
    with 2 show ?thesis
      by (simp add: utf8_point_def utf8_points.simps(2) point_of2_def Let_def del: of_nat_add)
  next
    case 3
    then have d: "n div 4096 < 16" by auto
    have e: "n div 4096 * 4096 + n div 64 mod 64 * 64 + n mod 64 = n"
      using div_mult2_eq[of n 64 64, simplified] div_mult_mod_eq[of n 64] div_mult_mod_eq[of "n div 64" 64] by linarith
    with 3 d assms show ?thesis
      by (simp add: utf8_point_def utf8_points.simps(2) point_of3_def Let_def del: of_nat_add)
  next
    case 4
    then have d: "n div 262144 < 5" by auto
    have e: "n div 262144 * 262144 + n div 4096 mod 64 * 4096 + n div 64 mod 64 * 64 + n mod 64 = n"
      using div_mult2_eq[of n 64 64, simplified] div_mult2_eq[of n 4096 64, simplified] div_mult_mod_eq[of n 64]
        div_mult_mod_eq[of "n div 64" 64] div_mult_mod_eq[of "n div 4096" 64] by linarith
    with 4 d assms show ?thesis
      by (simp add: utf8_point_def utf8_points.simps(2) point_of4_def Let_def del: of_nat_add)
  qed
qed

lemma utf8_points_inverse:
  "list_all scalar ns \<Longrightarrow> utf8_points (concat (map utf8_point ns)) = Some ns"
  by (induction ns) (simp_all add: utf8_points_point)

subsection \<open>Texts\<close>

definition stand_in :: char where "stand_in = CHR 0x90"

definition char_of_point :: "nat \<Rightarrow> char" where
  "char_of_point n =
     (if n < 128 \<or> (160 \<le> n \<and> n < 256) then char_of n
      else case map_of (zip cp1252_high (map char_of [128..<160::nat])) n of
        Some c \<Rightarrow> c | None \<Rightarrow> stand_in)"

definition utf8_encode :: "pystr \<Rightarrow> bytes" where
  "utf8_encode s = concat (map (\<lambda>c. utf8_point (unicode_point c)) s)"

definition utf8_decode :: "bytes \<Rightarrow> pystr option" where
  "utf8_decode bs = map_option (map char_of_point) (utf8_points bs)"

lemma cp1252_high_facts:
  "length cp1252_high = 32" "distinct cp1252_high"
  "\<forall>n\<in>set cp1252_high. 128 \<le> n \<and> \<not> (160 \<le> n \<and> n < 256) \<and> scalar n"
  by (simp_all add: cp1252_high_def scalar_def)

lemma char_points [simp]:
  "char_of_point (unicode_point c) = c" "scalar (unicode_point c)"
proof -
  have "code c < 256" by (simp add: code_def)
  have "char_of_point (unicode_point c) = c \<and> scalar (unicode_point c)"
  proof (cases "128 \<le> code c \<and> code c < 160")
    case True
    let ?i = "code c - 128"
    have i: "?i < 32" using True by auto
    then have n: "cp1252_high ! ?i \<in> set cp1252_high" by (simp add: cp1252_high_facts(1))
    have "map_of (zip cp1252_high (map char_of [128..<160::nat])) (cp1252_high ! ?i)
        = Some (map char_of [128..<160] ! ?i)"
      using i cp1252_high_facts by (intro map_of_zip_nth) simp_all
    also have "map char_of [128..<160] ! ?i = (char_of ([128..<160] ! ?i) :: char)"
      by (rule nth_map) (use i in simp)
    also have "[128..<160] ! ?i = 128 + ?i" by (rule nth_upt) (use i in simp)
    also have "char_of (128 + ?i) = c" using True by (simp add: code_def)
    finally show ?thesis
      using True n cp1252_high_facts(3) by (auto simp: unicode_point_def Let_def char_of_point_def)
  next
    case False
    then show ?thesis
      using \<open>code c < 256\<close> by (auto simp: unicode_point_def Let_def char_of_point_def scalar_def code_def)
  qed
  then show "char_of_point (unicode_point c) = c" "scalar (unicode_point c)" by simp_all
qed

lemma utf8_round_trip [simp]: "utf8_decode (utf8_encode s) = Some s"
proof -
  have "list_all scalar (map unicode_point s)" by (simp add: list_all_iff)
  from utf8_points_inverse[OF this] show ?thesis
    by (simp add: utf8_decode_def utf8_encode_def comp_def)
qed

subsection \<open>Lenient decoding\<close>

text \<open>\<open>bytes.decode("utf-8", errors="replace")\<close>: one replacement character for each longest prefix of a
  sequence that could have been completed.\<close>

definition sequence_length :: "byte \<Rightarrow> nat" where
  "sequence_length b = (let n = unat b in if n < 0xC0 then 1 else if n < 0xE0 then 2 else if n < 0xF0 then 3 else 4)"

definition second_ok :: "byte \<Rightarrow> byte \<Rightarrow> bool" where
  "second_ok b c = (let n = unat b; m = unat c in
     (if n = 0xE0 then 0xA0 else if n = 0xF0 then 0x90 else 0x80) \<le> m \<and>
     m \<le> (if n = 0xED then 0x9F else if n = 0xF4 then 0x8F else 0xBF) \<and> 0xE0 \<le> n \<and> n \<le> 0xF4)"

definition bad_length :: "byte \<Rightarrow> bytes \<Rightarrow> nat" where
  "bad_length b bs = (case bs of
     [] \<Rightarrow> 1
   | c # rest \<Rightarrow>
       if \<not> second_ok b c then 1
       else (case rest of
           d # _ \<Rightarrow> if 0xF0 \<le> unat b \<and> cont_byte d \<noteq> None then 3 else 2
         | [] \<Rightarrow> 2))"

lemma lengths_positive: "0 < sequence_length b" "0 < bad_length b bs"
  by (auto simp: sequence_length_def bad_length_def Let_def split: list.splits)

function utf8_replace :: "bytes \<Rightarrow> pystr" where
  "utf8_replace [] = []"
| "utf8_replace (b # bs) =
     (case utf8_decode (take (sequence_length b) (b # bs)) of
        Some s \<Rightarrow> s @ utf8_replace (drop (sequence_length b) (b # bs))
      | None \<Rightarrow> stand_in # utf8_replace (drop (bad_length b bs) (b # bs)))"
  by pat_completeness auto
termination
  by (relation "measure length") (use lengths_positive in \<open>auto simp: drop_Cons' diff_less_Suc\<close>)

subsection \<open>Forms\<close>

text \<open>\<open>urllib.parse.unquote\<close>: the escapes in each stretch of ASCII characters stand for bytes.\<close>

fun unquote_to_bytes :: "pystr \<Rightarrow> bytes" where
  "unquote_to_bytes (c # a # b # s) =
     (case (c = CHR ''%'', hex_value a, hex_value b) of
        (True, Some x, Some y) \<Rightarrow> of_nat (16 * x + y) # unquote_to_bytes s
      | _ \<Rightarrow> of_nat (code c) # unquote_to_bytes (a # b # s))"
| "unquote_to_bytes (c # s) = of_nat (code c) # unquote_to_bytes s"
| "unquote_to_bytes [] = []"

definition ascii_char :: "char \<Rightarrow> bool" where
  "ascii_char c \<longleftrightarrow> code c < 128"

function unquote_runs :: "pystr \<Rightarrow> pystr" where
  "unquote_runs s =
     (if s = [] then []
      else utf8_replace (unquote_to_bytes (takeWhile ascii_char s)) @
        (case dropWhile ascii_char s of
           [] \<Rightarrow> [] | c # rest \<Rightarrow> c # unquote_runs rest))"
  by pat_completeness auto
termination
proof (relation "measure length")
  fix s c rest assume "dropWhile ascii_char s = c # rest"
  then have "length (c # rest) \<le> length s" by (metis length_dropWhile_le)
  then show "(rest, s) \<in> measure length" by simp
qed simp

definition unquote :: "pystr \<Rightarrow> pystr" where
  "unquote s = (if CHR ''%'' \<in> set s then unquote_runs s else s)"

text \<open>\<open>parse_qs\<close> with its default arguments: blank values are dropped.\<close>

definition parse_field :: "pystr \<Rightarrow> (pystr \<times> pystr) option" where
  "parse_field field = (case cut_at (CHR ''='') field of
     Some (name, v # vs) \<Rightarrow>
       Some (unquote (replace ''+'' '' '' name), unquote (replace ''+'' '' '' (v # vs)))
   | _ \<Rightarrow> None)"

definition parse_qsl :: "pystr \<Rightarrow> (pystr \<times> pystr) list" where
  "parse_qsl s = List.map_filter parse_field (split_on (CHR ''&'') s)"

definition form_value :: "pystr \<Rightarrow> (pystr \<times> pystr) list \<Rightarrow> pystr" where
  "form_value name pairs = (case map_of pairs name of None \<Rightarrow> [] | Some v \<Rightarrow> v)"

subsection \<open>Lenient decoding reads what was encoded\<close>

lemma utf8_replace_plain: "list_all (\<lambda>b. unat b < 0x80) bs \<Longrightarrow> utf8_replace bs = map (\<lambda>b. char_of_point (unat b)) bs"
proof (induction bs)
  case (Cons b bs)
  then show ?case
    by (simp add: sequence_length_def Let_def utf8_decode_def utf8_points.simps(2))
qed simp

end
