(* ===== verification/Database.thy ===== *)
theory Database
  imports Effects Bytes "HOL-Library.AList"
begin

section \<open>The database and the world around the program\<close>

text \<open>
  The rows of the tables the modelled components read and write (the frozen dataclasses of the
  data-access modules, with the columns of \<open>migrations/\<close>), and the world: every table as a list
  of rows in insertion order, the clock, the supply of fresh identifiers, and the outside:
  the live event stream, proactive channel sends, queued jobs, and two scripts.

  \<^item> \<open>script\<close> says, for each interaction with the outside in turn (a database statement, an
    emission, a send, an enqueue), what other processes do to the tables just before it, and
    whether it raises and what; an exhausted script means no further interference and no
    further failures. A theorem about every world is thus a theorem about every pattern of
    failures and every interleaving with the modelled actions of other processes.
  \<^item> \<open>env\<close> is what other processes do while this one waits: pairs of a delay and an action.

  Times are microseconds. \<open>NOW()\<close> and the monotonic clock are the same clock; a statement takes
  no time, waiting does.
\<close>

type_synonym time = int

text \<open>An embedding, its coordinates in some fixed unit.\<close>

type_synonym vector = "int list"

definition second :: time where "second = 1000000"

subsection \<open>Rows\<close>

datatype task_status =
  Pending | Running | Blocked | AwaitingUser | Completed | Failed | Cancelled

record task =
  t_id :: uuid
  t_user_id :: uuid
  t_parent_task_id :: "uuid option"
  t_title :: pystr
  t_description :: "pystr option"
  t_status :: task_status
  t_current_plan_id :: "uuid option"
  t_budget_cents :: "int option"
  t_spent_cents :: int
  t_blocking_reason :: "pystr option"
  t_channel_for_completion :: "pystr option"
  t_schedule_pattern :: "pystr option"
  t_created_at :: time
  t_started_at :: "time option"
  t_completed_at :: "time option"
  t_last_active_at :: "time option"
  t_schedule_id :: "uuid option"

record task_event =
  e_id :: uuid
  e_task_id :: "uuid option"
  e_event_type :: pystr
  e_content :: dict
  e_created_at :: time

datatype question_status = QPending | QAnswered | QTimeout | QCancelled

record pending_question =
  q_id :: uuid
  q_task_id :: uuid
  q_user_id :: uuid
  q_thread_id :: "uuid option"
  q_channel :: "pystr option"
  q_question :: pystr
  q_options :: "json list"
  q_urgency :: pystr
  q_status :: question_status
  q_answer :: "pystr option"
  q_created_at :: time
  q_answered_at :: "time option"
  q_expires_at :: "time option"

datatype recurrence = Once | Interval | Cron
datatype schedule_status = SActive | SPaused | SDone | SCancelled

record schedule =
  s_id :: uuid
  s_user_id :: uuid
  s_instruction :: pystr
  s_context :: json
  s_state :: json
  s_recurrence :: recurrence
  s_cron_expr :: "pystr option"
  s_interval_seconds :: "int option"
  s_timezone :: pystr
  s_next_run_at :: "time option"
  s_last_run_at :: "time option"
  s_run_count :: int
  s_max_runs :: "int option"
  s_until :: "time option"
  s_channel :: "pystr option"
  s_status :: schedule_status
  s_title :: "pystr option"
  s_created_at :: time
  s_updated_at :: time

record stored_plan =
  p_id :: uuid
  p_user_id :: uuid
  p_thread_id :: "uuid option"
  p_task_id :: "uuid option"
  p_query :: pystr
  p_steps :: "json list"
  p_final_answer :: "pystr option"
  p_success :: "bool option"
  p_score :: "int option"
  p_error :: "pystr option"
  p_embedding :: "vector option"
  p_created_at :: time

record message =
  m_id :: uuid
  m_thread_id :: uuid
  m_role :: pystr
  m_content :: pystr
  m_metadata :: dict
  m_created_at :: time

record thread_row =
  th_id :: uuid
  th_user_id :: uuid
  th_channel :: pystr
  th_soul_version :: "pystr option"
  th_profile_version :: "int option"
  th_created_at :: time

record thread_summary =
  ts_id :: uuid
  ts_thread_id :: uuid
  ts_level :: nat
  ts_text :: pystr
  ts_start :: "uuid option"
  ts_end :: "uuid option"
  ts_created_at :: time
  ts_folded_into :: "uuid option"

record skill =
  sk_id :: uuid
  sk_user_id :: "uuid option"
  sk_name :: pystr
  sk_description :: pystr
  sk_ingredients :: dict
  sk_steps :: "json list"
  sk_source_plan_id :: "uuid option"
  sk_score :: "int option"
  sk_embedding :: "vector option"
  sk_created_at :: time
  sk_superseded_by :: "uuid option"

record user_profile =
  up_user_id :: uuid
  up_version :: int
  up_persona :: pystr
  up_preferences :: dict
  up_timezone :: pystr
  up_updated_at :: time

record token_counts =
  input_tokens :: int
  output_tokens :: int
  cache_read_tokens :: int
  cache_write_tokens :: int

record token_usage_row =
  tu_id :: uuid
  tu_user_id :: uuid
  tu_task_id :: "uuid option"
  tu_agent :: pystr
  tu_model :: pystr
  tu_prompt_version_id :: "uuid option"
  tu_counts :: token_counts
  tu_cost_cents :: int
  tu_created_at :: time

record compute_usage_row =
  cu_user_id :: uuid
  cu_task_id :: "uuid option"
  cu_sandbox_id :: "uuid option"
  cu_seconds :: int
  cu_cost_cents :: int
  cu_created_at :: time

record sandbox_row =
  sr_id :: uuid
  sr_task_id :: "uuid option"
  sr_provider :: pystr
  sr_terminated_at :: time
  sr_seconds :: int
  sr_cost_cents :: int

record live_sandbox =
  lb_id :: "uuid option"
  lb_provider :: pystr
  lb_elapsed :: time

record model_price =
  mp_model_id :: pystr
  input_per_mtok_cents :: int
  output_per_mtok_cents :: int
  cache_read_per_mtok_cents :: int
  cache_write_per_mtok_cents :: int
  mp_effective_from :: time
  mp_effective_to :: "time option"

record model_call_log =
  l_run_id :: uuid
  l_parent_run_id :: "uuid option"
  l_user_id :: uuid
  l_task_id :: "uuid option"
  l_token_usage_id :: "uuid option"
  l_agent :: pystr
  l_model :: pystr
  l_prompt_version_id :: "uuid option"
  l_response_text :: "pystr option"
  l_stop_reason :: "pystr option"
  l_counts :: token_counts
  l_cost_cents :: int
  l_status :: pystr
  l_error_message :: "pystr option"

record prompt_version =
  v_id :: uuid
  v_agent :: pystr
  v_label :: pystr
  v_template :: dict

datatype user_tool_status = Proposed | Approved | Rejected

record user_tool =
  ut_id :: uuid
  ut_user_id :: uuid
  ut_name :: pystr
  ut_description :: pystr
  ut_signature :: dict
  ut_implementation :: pystr
  ut_status :: user_tool_status
  ut_source_plan_id :: "uuid option"
  ut_source_task_id :: "uuid option"
  ut_created_at :: time
  ut_approved_at :: "time option"
  ut_embedding :: "vector option"

datatype file_source = UserUpload | AgentOutput

record workspace_file =
  wf_id :: uuid
  wf_user_id :: uuid
  wf_task_id :: "uuid option"
  wf_source :: file_source
  wf_filename :: pystr
  wf_mime_type :: "pystr option"
  wf_storage_url :: pystr
  wf_size_bytes :: int
  wf_version :: int
  wf_supersedes_id :: "uuid option"
  wf_sha256 :: "pystr option"
  wf_created_at :: time
  wf_embedding :: "vector option"

text \<open>\<open>UNIQUE (user_id, filename, version)\<close>.\<close>

definition file_key :: "workspace_file \<Rightarrow> uuid \<times> pystr \<times> int" where
  "file_key f = (wf_user_id f, wf_filename f, wf_version f)"

definition insert_file :: "workspace_file \<Rightarrow> workspace_file list \<Rightarrow> workspace_file list option" where
  "insert_file f fs = (if list_ex (\<lambda>g. file_key g = file_key f) fs then None else Some (fs @ [f]))"

definition add_file :: "workspace_file \<Rightarrow> workspace_file list \<Rightarrow> workspace_file list" where
  "add_file f fs = (case insert_file f fs of None \<Rightarrow> fs | Some gs \<Rightarrow> gs)"

text \<open>The identities a user has, and the single-use tokens that prove them. Only hashes of tokens are stored.\<close>

record account =
  ac_id :: uuid
  ac_email :: pystr
  ac_display_name :: "pystr option"
  ac_created_at :: time

record subscription =
  sb_user_id :: uuid
  sb_tier :: pystr
  sb_period_start :: "time option"
  sb_period_end :: "time option"

record magic_link =
  ml_id :: uuid
  ml_email :: pystr
  ml_hash :: pystr
  ml_expires_at :: time
  ml_used_at :: "time option"

record channel_link =
  cl_id :: uuid
  cl_user_id :: uuid
  cl_channel :: pystr
  cl_external_id :: pystr
  cl_external_username :: "pystr option"
  cl_metadata :: dict
  cl_created_at :: time

record link_token =
  lk_id :: uuid
  lk_user_id :: uuid
  lk_channel :: pystr
  lk_hash :: pystr
  lk_expires_at :: time
  lk_used_at :: "time option"

record slack_workspace =
  sw_team_id :: pystr
  sw_team_name :: "pystr option"
  sw_bot_user_id :: pystr
  sw_bot_token :: pystr
  sw_installed_by :: uuid
  sw_installed_at :: time
  sw_revoked_at :: "time option"

subsection \<open>The world\<close>

text \<open>
  What another process can do to rows this one works with: answer a question (a web request or
  the next inbound chat message), cancel one, cancel a task (a command or a request), or, as a
  second worker that picked up the same task, complete or fail it. The flag of the first two
  says whether the \<open>NOTIFY\<close> that follows reaches a waiting listener. It can also write a file's
  bytes and register a version of a file of the workspace, or use up a token by which a chat account is
  linked.
\<close>

datatype env_action =
    EnvIdle
  | EnvAnswer uuid uuid pystr bool
  | EnvCancelQuestion uuid bool
  | EnvCancelTask uuid uuid
  | EnvCompleteTask uuid
  | EnvFailTask uuid pystr
  | EnvRegisterFile workspace_file
  | EnvPutBlob uuid pystr bytes
  | EnvUseToken pystr

datatype job =
    RunTaskJob uuid
  | EmbedMessageJob uuid uuid pystr
  | CompactThreadJob uuid
  | EmbedFileJob uuid pystr
  | TelegramJob uuid pystr pystr
  | SlackJob uuid pystr pystr pystr
  | SleepCycleJob
  | DispatchSchedulesJob

record world =
  now :: time
  next_id :: nat
  script :: "(env_action list \<times> exn option) list"
  env :: "(time \<times> env_action) list"
  tasks :: "task list"
  task_events :: "task_event list"
  questions :: "pending_question list"
  schedules :: "schedule list"
  plans :: "stored_plan list"
  messages :: "message list"
  threads :: "thread_row list"
  summaries :: "thread_summary list"
  embedded :: "(uuid \<times> vector) list"
  skills :: "skill list"
  profiles :: "user_profile list"
  oauth_links :: "(pystr \<times> uuid) list"
  token_usage :: "token_usage_row list"
  compute_usage :: "compute_usage_row list"
  model_prices :: "model_price list"
  model_call_logs :: "model_call_log list"
  prompt_versions :: "prompt_version list"
  prompt_seeded :: "(pystr \<times> uuid option) list"
  parent_run :: "uuid option"
  slot_refs :: "(uuid \<times> nat) list"
  user_tools :: "user_tool list"
  workspace_files :: "workspace_file list"
  blobs :: "((uuid \<times> pystr) \<times> bytes) list"
  accounts :: "account list"
  subscriptions :: "subscription list"
  magic_links :: "magic_link list"
  channel_links :: "channel_link list"
  link_tokens :: "link_token list"
  slack_workspaces :: "slack_workspace list"
  stream :: "(pystr \<times> pystr) list"
  outbox :: "(pystr \<times> uuid \<times> pystr) list"
  jobs :: "job list"
  sandboxes :: "((uuid \<times> uuid option) \<times> live_sandbox) list"
  sandbox_rows :: "sandbox_row list"

type_synonym 'a act = "(world, 'a) io"

definition empty_world :: world where
  "empty_world = \<lparr> now = 0, next_id = 1, script = [], env = [], tasks = [], task_events = [],
     questions = [], schedules = [], plans = [], messages = [], threads = [],
     summaries = [], embedded = [], skills = [], profiles = [], oauth_links = [], token_usage = [],
     compute_usage = [], model_prices = [], model_call_logs = [], prompt_versions = [],
     prompt_seeded = [], parent_run = None, slot_refs = [], user_tools = [],
     workspace_files = [], blobs = [], accounts = [], subscriptions = [], magic_links = [],
     channel_links = [], link_tokens = [], slack_workspaces = [], stream = [], outbox = [], jobs = [], sandboxes = [],
     sandbox_rows = [] \<rparr>"

subsection \<open>The effects of other processes on the rows\<close>

fun terminal :: "task_status \<Rightarrow> bool" where
  "terminal Completed = True"
| "terminal Failed = True"
| "terminal Cancelled = True"
| "terminal _ = False"

definition live :: "uuid \<Rightarrow> task \<Rightarrow> bool" where
  "live tid t = (t_id t = tid \<and> \<not> terminal (t_status t))"

definition set_completed :: "time \<Rightarrow> task \<Rightarrow> task" where
  "set_completed at t = t\<lparr> t_status := Completed, t_completed_at := Some at,
     t_last_active_at := Some at, t_blocking_reason := None \<rparr>"

definition set_failed :: "pystr \<Rightarrow> time \<Rightarrow> task \<Rightarrow> task" where
  "set_failed reason at t = t\<lparr> t_status := Failed, t_completed_at := Some at,
     t_last_active_at := Some at, t_blocking_reason := Some reason \<rparr>"

definition set_cancelled :: "time \<Rightarrow> task \<Rightarrow> task" where
  "set_cancelled at t = t\<lparr> t_status := Cancelled, t_completed_at := Some at,
     t_last_active_at := Some at \<rparr>"

definition open_question :: "uuid \<Rightarrow> pending_question \<Rightarrow> bool" where
  "open_question qid q = (q_id q = qid \<and> q_status q = QPending)"

definition set_resolved ::
  "question_status \<Rightarrow> time \<Rightarrow> pending_question \<Rightarrow> pending_question" where
  "set_resolved st at q = q\<lparr> q_status := st, q_answered_at := Some at \<rparr>"

definition set_answered :: "pystr \<Rightarrow> time \<Rightarrow> pending_question \<Rightarrow> pending_question" where
  "set_answered answer at q =
     q\<lparr> q_status := QAnswered, q_answer := Some answer, q_answered_at := Some at \<rparr>"

definition set_token_used :: "time \<Rightarrow> link_token \<Rightarrow> link_token" where
  "set_token_used at t = t\<lparr> lk_used_at := Some at \<rparr>"

fun env_apply :: "env_action \<Rightarrow> world \<Rightarrow> world" where
  "env_apply EnvIdle w = w"
| "env_apply (EnvAnswer qid user answer _) w = w\<lparr>questions :=
     sql_set (\<lambda>q. open_question qid q \<and> q_user_id q = user) (set_answered answer (now w))
       (questions w)\<rparr>"
| "env_apply (EnvCancelQuestion qid _) w = w\<lparr>questions :=
     sql_set (open_question qid) (set_resolved QCancelled (now w)) (questions w)\<rparr>"
| "env_apply (EnvCancelTask user tid) w = w\<lparr>tasks :=
     sql_set (\<lambda>t. live tid t \<and> t_user_id t = user) (set_cancelled (now w)) (tasks w)\<rparr>"
| "env_apply (EnvCompleteTask tid) w = w\<lparr>tasks :=
     sql_set (live tid) (set_completed (now w)) (tasks w)\<rparr>"
| "env_apply (EnvFailTask tid reason) w = w\<lparr>tasks :=
     sql_set (live tid) (set_failed reason (now w)) (tasks w)\<rparr>"
| "env_apply (EnvRegisterFile f) w = w\<lparr>workspace_files := add_file f (workspace_files w)\<rparr>"
| "env_apply (EnvPutBlob user filename data) w =
     w\<lparr>blobs := AList.update (user, filename) data (blobs w)\<rparr>"
| "env_apply (EnvUseToken h) w = w\<lparr>link_tokens :=
     sql_set (\<lambda>t. lk_hash t = h \<and> lk_used_at t = None) (set_token_used (now w)) (link_tokens w)\<rparr>"

definition others :: "env_action list \<Rightarrow> world \<Rightarrow> world" where
  "others acts w = fold env_apply acts w"

lemma others_Nil [simp]: "others [] w = w" by (simp add: others_def)

lemma env_apply_script [simp]: "script (env_apply a w) = script w"
  by (cases a) auto

lemma others_script [simp]: "script (others acts w) = script w"
  by (induction acts arbitrary: w) (simp_all add: others_def)

subsection \<open>One interaction with the outside\<close>

text \<open>
  \<open>stmt f\<close> runs \<open>f\<close> after the actions the script gives to other processes, unless the
  script says that this interaction raises.
\<close>

definition stmt :: "'a act \<Rightarrow> 'a act" where
  "stmt f w =
     (case script w of
        [] \<Rightarrow> f w
      | (acts, failure) # rest \<Rightarrow>
          let w1 = others acts (w\<lparr>script := rest\<rparr>)
          in case failure of None \<Rightarrow> f w1 | Some e \<Rightarrow> (Inl e, w1))"

text \<open>\<open>near w v\<close>: other processes acted and time passed; our own tables beyond tasks and
  questions are as they were.\<close>

definition near :: "world \<Rightarrow> world \<Rightarrow> bool" where
  "near w v \<longleftrightarrow> (\<exists>acts n xs. v = (others acts w)\<lparr>now := n, script := xs\<rparr>)"

lemma env_apply_frame:
  "token_usage (env_apply a w) = token_usage w" "parent_run (env_apply a w) = parent_run w"
  "model_prices (env_apply a w) = model_prices w" "next_id (env_apply a w) = next_id w"
  "model_call_logs (env_apply a w) = model_call_logs w" "plans (env_apply a w) = plans w"
  "schedules (env_apply a w) = schedules w" "task_events (env_apply a w) = task_events w"
  "messages (env_apply a w) = messages w" "user_tools (env_apply a w) = user_tools w"
  "jobs (env_apply a w) = jobs w" "sandboxes (env_apply a w) = sandboxes w"
  "outbox (env_apply a w) = outbox w" "stream (env_apply a w) = stream w"
  "threads (env_apply a w) = threads w" "summaries (env_apply a w) = summaries w"
  "embedded (env_apply a w) = embedded w" "skills (env_apply a w) = skills w"
  "profiles (env_apply a w) = profiles w" "oauth_links (env_apply a w) = oauth_links w"
  "accounts (env_apply a w) = accounts w" "subscriptions (env_apply a w) = subscriptions w"
  "magic_links (env_apply a w) = magic_links w" "channel_links (env_apply a w) = channel_links w"
  "slack_workspaces (env_apply a w) = slack_workspaces w"
  by (cases a; simp)+

lemma others_frame [simp]:
  "token_usage (others acts w) = token_usage w" "parent_run (others acts w) = parent_run w"
  "model_prices (others acts w) = model_prices w" "next_id (others acts w) = next_id w"
  "model_call_logs (others acts w) = model_call_logs w" "plans (others acts w) = plans w"
  "schedules (others acts w) = schedules w" "task_events (others acts w) = task_events w"
  "messages (others acts w) = messages w" "user_tools (others acts w) = user_tools w"
  "jobs (others acts w) = jobs w" "sandboxes (others acts w) = sandboxes w"
  "outbox (others acts w) = outbox w" "stream (others acts w) = stream w"
  "threads (others acts w) = threads w" "summaries (others acts w) = summaries w"
  "embedded (others acts w) = embedded w" "skills (others acts w) = skills w"
  "profiles (others acts w) = profiles w" "oauth_links (others acts w) = oauth_links w"
  "accounts (others acts w) = accounts w" "subscriptions (others acts w) = subscriptions w"
  "magic_links (others acts w) = magic_links w" "channel_links (others acts w) = channel_links w"
  "slack_workspaces (others acts w) = slack_workspaces w"
  by (induction acts arbitrary: w; simp add: others_def env_apply_frame)+

lemma near_frame:
  assumes "near w v"
  shows "token_usage v = token_usage w" "parent_run v = parent_run w"
    "model_prices v = model_prices w" "next_id v = next_id w"
    "model_call_logs v = model_call_logs w" "plans v = plans w" "schedules v = schedules w"
    "task_events v = task_events w" "messages v = messages w" "user_tools v = user_tools w"
    "jobs v = jobs w" "sandboxes v = sandboxes w" "outbox v = outbox w" "stream v = stream w"
    "threads v = threads w" "summaries v = summaries w" "embedded v = embedded w"
    "skills v = skills w" "profiles v = profiles w" "oauth_links v = oauth_links w"
    "accounts v = accounts w" "subscriptions v = subscriptions w" "magic_links v = magic_links w"
    "channel_links v = channel_links w" "slack_workspaces v = slack_workspaces w"
  using assms by (auto simp: near_def)

lemma near_others: "near w (others acts (w\<lparr>script := xs\<rparr>))"
proof -
  have "others acts (w\<lparr>script := xs\<rparr>) = (others acts w)\<lparr>script := xs\<rparr>"
  proof (induction acts arbitrary: w)
    case (Cons a acts)
    have "env_apply a (w\<lparr>script := xs\<rparr>) = (env_apply a w)\<lparr>script := xs\<rparr>" by (cases a) auto
    with Cons show ?case by (simp add: others_def)
  qed simp
  then have "others acts (w\<lparr>script := xs\<rparr>) = (others acts w)\<lparr>now := now (others acts w), script := xs\<rparr>"
    by simp
  then show ?thesis unfolding near_def by blast
qed

lemma near_refl: "near w w"
proof -
  have "w = (others [] w)\<lparr>now := now w, script := script w\<rparr>" by simp
  then show ?thesis unfolding near_def by blast
qed

lemma stmt_cases:
  assumes "stmt f w = (r, w')"
  obtains (run) v where "near w v" "f v = (r, w')"
  | (fail) e where "near w w'" "r = Inl e"
proof (cases "script w")
  case Nil
  then have "f w = (r, w')" using assms by (simp add: stmt_def)
  then show ?thesis using run near_refl by blast
next
  case (Cons x rest)
  obtain acts failure where x: "x = (acts, failure)" by (cases x)
  show ?thesis
    using assms Cons x near_others[of w acts rest] run fail
    by (cases failure) (auto simp: stmt_def Let_def)
qed

text \<open>The same for a read that the rest of the program uses.\<close>

lemma read_cases:
  assumes "bindE (stmt (getsE f)) k w = (r, w')"
  obtains (run) v where "near w v" "k (f v) v = (r, w')" | (fail) e where "near w w'" "r = Inl e"
  using assms
proof (cases rule: bindE_cases)
  case (exn e)
  from exn(1) show ?thesis by (cases rule: stmt_cases) (use fail exn(2) in auto)
next
  case (val x w1)
  from val(1) show ?thesis by (cases rule: stmt_cases) (use run val(2) in auto)
qed

definition fresh_uuid :: "uuid act" where
  "fresh_uuid w = (Inr (Uuid (next_id w)), w\<lparr>next_id := Suc (next_id w)\<rparr>)"

lemma stmt_ok [simp]: "script w = [] \<Longrightarrow> stmt f w = f w"
  by (simp add: stmt_def)

lemma fresh_uuid_run [simp]:
  "fresh_uuid w = (Inr (Uuid (next_id w)), w\<lparr>next_id := Suc (next_id w)\<rparr>)"
  by (simp add: fresh_uuid_def)

text \<open>The live event stream, \<open>emit\<close>: present (\<open>True\<close>) or not (\<open>_maybe_emit\<close>).\<close>

definition maybe_emit :: "bool \<Rightarrow> pystr \<Rightarrow> pystr \<Rightarrow> unit act" where
  "maybe_emit emit event data =
     (if \<not> emit then ret ()
      else stmt (modifyE (\<lambda>w. w\<lparr>stream := stream w @ [(event, data)]\<rparr>)))"

lemma maybe_emit_off [simp]: "maybe_emit False event data = ret ()"
  by (simp add: maybe_emit_def)

lemma maybe_emit_ok [simp]:
  "script w = [] \<Longrightarrow> maybe_emit True event data w =
     (Inr (), w\<lparr>stream := stream w @ [(event, data)]\<rparr>)"
  by (simp add: maybe_emit_def)

subsection \<open>A relation that ignores the scripts, the clock and the outside\<close>

text \<open>
  \<open>stmt\<close> preserves every world order that tolerates consuming the script and the other processes' actions, so a
  data-access operation preserves it as soon as its bare effect does.
\<close>

locale db_order = world_order R for R :: "world \<Rightarrow> world \<Rightarrow> bool" +
  assumes script_step: "(script w = [] \<Longrightarrow> xs = []) \<Longrightarrow> R w (w\<lparr>script := xs\<rparr>)"
    and env_step: "R w (env_apply a w)"
    and uuid_step: "R w (w\<lparr>next_id := Suc (next_id w)\<rparr>)"
    and stream_step: "R w (w\<lparr>stream := ys\<rparr>)"
begin

lemma others: "R w (others acts w)"
proof (induction acts arbitrary: w)
  case Nil
  then show ?case by (simp add: refl)
next
  case (Cons a acts)
  have "others (a # acts) w = others acts (env_apply a w)" by (simp add: others_def)
  then show ?case using trans[OF env_step Cons.IH] by metis
qed

lemma stmt:
  assumes "keeps R f" shows "keeps R (stmt f)"
  unfolding keeps_def
proof
  fix w
  have f: "R v (snd (f v))" for v
    using assms by (simp add: keeps_def)
  show "R w (snd (stmt f w))"
  proof (cases "script w")
    case Nil
    then show ?thesis by (simp add: f)
  next
    case (Cons x rest)
    obtain acts failure where x: "x = (acts, failure)" by (cases x)
    let ?w = "others acts (w\<lparr>script := rest\<rparr>)"
    have "R w (w\<lparr>script := rest\<rparr>)" by (rule script_step) (simp add: Cons)
    then have step: "R w ?w" by (rule trans) (rule others)
    show ?thesis
    proof (cases failure)
      case None
      with Cons x have eq: "stmt f w = f ?w" by (simp add: stmt_def)
      show ?thesis unfolding eq by (rule trans[OF step f])
    next
      case (Some e)
      with Cons x have eq: "stmt f w = (Inl e, ?w)" by (simp add: stmt_def)
      show ?thesis unfolding eq snd_conv by (rule step)
    qed
  qed
qed

lemma stmt_split:
  assumes "stmt f w = (r, w')"
  obtains (run) v where "R w v" "f v = (r, w')" | (fail) e where "R w w'" "r = Inl e"
proof (cases "script w")
  case Nil
  then show ?thesis using assms run[OF refl] by simp
next
  case (Cons x rest)
  obtain acts failure where x: "x = (acts, failure)" by (cases x)
  let ?w = "others acts (w\<lparr>script := rest\<rparr>)"
  have "R w (w\<lparr>script := rest\<rparr>)" by (rule script_step) (simp add: Cons)
  then have "R w ?w" by (rule trans) (rule others)
  then show ?thesis using assms run fail by (cases failure) (auto simp: stmt_def Cons x Let_def)
qed

lemma fresh: "keeps R fresh_uuid"
  by (simp add: keeps_def uuid_step)

lemma emit: "keeps R (maybe_emit b ev d)"
  unfolding maybe_emit_def by (intro if_ ret stmt modify stream_step)

lemmas db_rules = rules stmt fresh emit

end

subsection \<open>Time and services\<close>

text \<open>
  \<open>clock_order\<close> also tolerates time passing. A service of another vendor (the language model,
  a chat platform, a sandbox) is \<open>outside_only\<close>: a call takes time, other processes may act
  meanwhile, it may return anything or raise, and it changes none of our tables itself.
\<close>

locale clock_order = db_order R for R :: "world \<Rightarrow> world \<Rightarrow> bool" +
  assumes clock_step: "now w \<le> n \<Longrightarrow> R w (w\<lparr>now := n, env := es\<rparr>)"
begin

lemma clock: "now w \<le> n \<Longrightarrow> R w (w\<lparr>now := n\<rparr>)" "R w (w\<lparr>env := es\<rparr>)"
  using clock_step[of w n "env w"] clock_step[of w "now w" es] by simp_all

end

lemma env_apply_clock [simp]: "now (env_apply a w) = now w"
  by (cases a) auto

lemma env_apply_env [simp]: "env (env_apply a w) = env w"
  by (cases a) auto

lemma others_clock [simp]: "now (others acts w) = now w"
  by (induction acts arbitrary: w) (simp_all add: others_def)

lemma others_env [simp]: "env (others acts w) = env w"
  by (induction acts arbitrary: w) (simp_all add: others_def)

definition outside_only :: "'a act \<Rightarrow> bool" where
  "outside_only m \<longleftrightarrow>
     (\<forall>w. \<exists>acts n xs. snd (m w) = (others acts w)\<lparr>now := n, script := xs\<rparr> \<and> now w \<le> n \<and>
        (script w = [] \<longrightarrow> acts = [] \<and> xs = []))"

context clock_order
begin

lemma outside:
  assumes "outside_only m" shows "keeps R m"
  unfolding keeps_def
proof
  fix w
  obtain acts n xs where eq: "snd (m w) = (others acts w)\<lparr>now := n, script := xs\<rparr>" and n: "now w \<le> n"
    and xs: "script w = [] \<Longrightarrow> xs = []"
    using assms unfolding outside_only_def by meson
  have "R w (others acts w)" by (rule others)
  moreover have "R (others acts w) ((others acts w)\<lparr>now := n\<rparr>)" using n by (intro clock) simp
  moreover have "R ((others acts w)\<lparr>now := n\<rparr>) (snd (m w))"
    unfolding eq using script_step[of "(others acts w)\<lparr>now := n\<rparr>" xs] xs by simp
  ultimately show "R w (snd (m w))" using trans by blast
qed

end

subsection \<open>Lawful absence of failures\<close>

text \<open>\<open>quiet\<close>: an exhausted fault script stays exhausted.\<close>

definition quiet :: "world \<Rightarrow> world \<Rightarrow> bool" where
  "quiet w w' \<longleftrightarrow> (script w = [] \<longrightarrow> script w' = [])"

interpretation quiet: world_order quiet
  by unfold_locales (auto simp: quiet_def)

lemma quiet_stmt: "keeps quiet f \<Longrightarrow> keeps quiet (stmt f)"
  by (auto simp: keeps_def quiet_def)

lemma quiet_fresh: "keeps quiet fresh_uuid"
  by (simp add: keeps_def quiet_def)

lemma quiet_modify: "(\<And>w. script (f w) = script w) \<Longrightarrow> keeps quiet (modifyE f)"
  by (simp add: keeps_def quiet_def)

lemma quiet_emit: "keeps quiet (maybe_emit b ev d)"
  unfolding maybe_emit_def by (intro quiet.if_ quiet.ret quiet_stmt quiet_modify) simp

lemmas quiet_rules = quiet.rules quiet_stmt quiet_fresh quiet_emit

lemma keeps_quietD: "keeps quiet m \<Longrightarrow> script w = [] \<Longrightarrow> m w = (r, w') \<Longrightarrow> script w' = []"
  using keepsD[of quiet m w r w'] by (simp add: quiet_def)

lemma quiet_outside: "outside_only m \<Longrightarrow> keeps quiet m"
  unfolding keeps_def quiet_def outside_only_def by fastforce

end
