(* ===== verification/Tasks_Dao.thy ===== *)
theory Tasks_Dao
  imports Database
begin

section \<open>Tasks and their events\<close>

text \<open>
  \<open>src/wolfpaw/memory/tasks.py\<close> and \<open>src/wolfpaw/memory/task_events.py\<close>: the task row's
  state machine, its guarded transitions, the walks up the parent chain, the cost roll-up and
  the append-only event log.

  Each transition is one guarded \<open>UPDATE .. RETURNING\<close>: the row transformer (\<open>set_started\<close>
  and so on) is the \<open>SET\<close> clause, the guard is \<open>id = $1 AND status NOT IN (terminal)\<close>. The
  abstract machine is the inductive relation \<open>status_step\<close>; \<open>evolves\<close> relates two worlds when
  every task of the first is still there, with the same identity and a status the abstract
  machine reaches, and when a finished task is as it was.
\<close>

subsection \<open>Statuses\<close>

fun status_text :: "task_status \<Rightarrow> pystr" where
  "status_text Pending = ''pending''"
| "status_text Running = ''running''"
| "status_text Blocked = ''blocked''"
| "status_text AwaitingUser = ''awaiting_user''"
| "status_text Completed = ''completed''"
| "status_text Failed = ''failed''"
| "status_text Cancelled = ''cancelled''"

definition channel_names :: "pystr list" where
  "channel_names = [''web'', ''telegram'', ''email'', ''slack'']"

definition valid_channel :: "pystr option \<Rightarrow> bool" where
  "valid_channel c = (case c of None \<Rightarrow> True | Some n \<Rightarrow> n \<in> set channel_names)"

subsection \<open>Creating and reading tasks\<close>

abbreviation task_lookup :: "uuid \<Rightarrow> world \<Rightarrow> task option" where
  "task_lookup tid w \<equiv> key_lookup t_id tid (tasks w)"

definition new_task ::
  "uuid \<Rightarrow> time \<Rightarrow> uuid \<Rightarrow> pystr \<Rightarrow> pystr option \<Rightarrow> pystr option \<Rightarrow> uuid option \<Rightarrow> int option
     \<Rightarrow> pystr option \<Rightarrow> task" where
  "new_task i at user title description channel parent budget pattern =
     \<lparr> t_id = i, t_user_id = user, t_parent_task_id = parent, t_title = title,
       t_description = description, t_status = Pending, t_current_plan_id = None,
       t_budget_cents = budget, t_spent_cents = 0, t_blocking_reason = None,
       t_channel_for_completion = channel, t_schedule_pattern = pattern, t_created_at = at,
       t_started_at = None, t_completed_at = None, t_last_active_at = None,
       t_schedule_id = None \<rparr>"

definition task_create ::
  "uuid \<Rightarrow> pystr \<Rightarrow> pystr option \<Rightarrow> pystr option \<Rightarrow> uuid option \<Rightarrow> int option \<Rightarrow> pystr option
     \<Rightarrow> task act" where
  "task_create user title description channel parent budget pattern =
     stmt (\<lambda>w.
       if \<not> valid_channel channel then (Inl (DbError ''invalid channel''), w)
       else if parent \<noteq> None \<and> task_lookup (the parent) w = None
       then (Inl (DbError ''parent_task_id violates foreign key''), w)
       else let t = new_task (Uuid (next_id w)) (now w) user title description channel parent
                      budget pattern
            in (Inr t, w\<lparr>next_id := Suc (next_id w), tasks := tasks w @ [t]\<rparr>))"

definition get_task_by_id :: "uuid \<Rightarrow> uuid \<Rightarrow> task option act" where
  "get_task_by_id user tid =
     stmt (getsE (\<lambda>w. sql_first (\<lambda>t. t_id t = tid \<and> t_user_id t = user) (tasks w)))"

definition list_tasks_for_user ::
  "uuid \<Rightarrow> task_status list \<Rightarrow> nat \<Rightarrow> task list act" where
  "list_tasks_for_user user statuses limit =
     stmt (getsE (\<lambda>w. take limit (sort_key (\<lambda>t. - t_created_at t)
       (filter (\<lambda>t. t_user_id t = user \<and> (statuses = [] \<or> t_status t \<in> set statuses))
          (tasks w)))))"

subsection \<open>Transitions\<close>

definition set_started :: "time \<Rightarrow> task \<Rightarrow> task" where
  "set_started at t = t\<lparr> t_status := Running,
     t_started_at := (case t_started_at t of None \<Rightarrow> Some at | Some s \<Rightarrow> Some s),
     t_last_active_at := Some at, t_blocking_reason := None \<rparr>"

definition set_awaiting :: "pystr option \<Rightarrow> time \<Rightarrow> task \<Rightarrow> task" where
  "set_awaiting reason at t = t\<lparr> t_status := AwaitingUser, t_blocking_reason := reason,
     t_last_active_at := Some at \<rparr>"

definition set_blocked :: "pystr \<Rightarrow> time \<Rightarrow> task \<Rightarrow> task" where
  "set_blocked reason at t = t\<lparr> t_status := Blocked, t_blocking_reason := Some reason,
     t_last_active_at := Some at \<rparr>"

definition update_task ::
  "(task \<Rightarrow> bool) \<Rightarrow> (time \<Rightarrow> task \<Rightarrow> task) \<Rightarrow> task option act" where
  "update_task p f = stmt (\<lambda>w.
     (Inr (sql_returning p (f (now w)) (tasks w)),
      w\<lparr>tasks := sql_set p (f (now w)) (tasks w)\<rparr>))"

definition mark_started :: "uuid \<Rightarrow> task option act" where
  "mark_started tid = update_task (live tid) set_started"

definition mark_awaiting_user :: "uuid \<Rightarrow> pystr option \<Rightarrow> task option act" where
  "mark_awaiting_user tid reason = update_task (live tid) (set_awaiting reason)"

definition mark_blocked :: "uuid \<Rightarrow> pystr \<Rightarrow> task option act" where
  "mark_blocked tid reason = update_task (live tid) (set_blocked reason)"

definition mark_completed :: "uuid \<Rightarrow> task option act" where
  "mark_completed tid = update_task (live tid) set_completed"

definition mark_failed :: "uuid \<Rightarrow> pystr \<Rightarrow> task option act" where
  "mark_failed tid reason = update_task (live tid) (set_failed reason)"

definition task_cancel :: "uuid \<Rightarrow> uuid \<Rightarrow> task option act" where
  "task_cancel user tid =
     update_task (\<lambda>t. live tid t \<and> t_user_id t = user) set_cancelled"

definition set_plan :: "uuid \<Rightarrow> time \<Rightarrow> task \<Rightarrow> task" where
  "set_plan plan at t = t\<lparr> t_current_plan_id := Some plan, t_last_active_at := Some at \<rparr>"

definition attach_plan :: "uuid \<Rightarrow> uuid \<Rightarrow> unit act" where
  "attach_plan tid plan =
     stmt (\<lambda>w.
       if task_lookup tid w \<noteq> None \<and> key_lookup p_id plan (plans w) = None
       then (Inl (DbError ''current_plan_id violates foreign key''), w)
       else (Inr (), w\<lparr>tasks := sql_set (\<lambda>t. t_id t = tid) (set_plan plan (now w)) (tasks w)\<rparr>))"

subsection \<open>The parent chain\<close>

definition MAX_DEPTH_WALK :: nat where "MAX_DEPTH_WALK = 16"

definition parent_of :: "uuid \<Rightarrow> uuid option act" where
  "parent_of tid =
     stmt (getsE (\<lambda>w. Option.bind (task_lookup tid w) t_parent_task_id))"

fun walk_depth :: "nat \<Rightarrow> nat \<Rightarrow> uuid \<Rightarrow> nat act" where
  "walk_depth 0 depth current = ret depth"
| "walk_depth (Suc n) depth current =
     bindE (parent_of current) (\<lambda>parent.
       case parent of None \<Rightarrow> ret depth | Some p \<Rightarrow> walk_depth n (Suc depth) p)"

definition get_depth :: "uuid \<Rightarrow> nat act" where
  "get_depth tid = walk_depth MAX_DEPTH_WALK 0 tid"

fun walk_root :: "nat \<Rightarrow> uuid \<Rightarrow> uuid act" where
  "walk_root 0 current = ret current"
| "walk_root (Suc n) current =
     bindE (parent_of current) (\<lambda>parent.
       case parent of None \<Rightarrow> ret current | Some p \<Rightarrow> walk_root n p)"

definition get_root :: "uuid \<Rightarrow> uuid act" where
  "get_root tid = walk_root MAX_DEPTH_WALK tid"

subsection \<open>Cost roll-up\<close>

definition token_cost :: "uuid \<Rightarrow> world \<Rightarrow> int" where
  "token_cost tid w =
     sum_list (map tu_cost_cents (filter (\<lambda>u. tu_task_id u = Some tid) (token_usage w)))"

definition compute_cost :: "uuid \<Rightarrow> world \<Rightarrow> int" where
  "compute_cost tid w =
     sum_list (map cu_cost_cents (filter (\<lambda>u. cu_task_id u = Some tid) (compute_usage w)))"

definition set_spent :: "int \<Rightarrow> time \<Rightarrow> task \<Rightarrow> task" where
  "set_spent cents_sum at t = t\<lparr> t_spent_cents := cents_sum \<rparr>"

definition rollup_spent_cents :: "uuid \<Rightarrow> int act" where
  "rollup_spent_cents tid =
     bindE (stmt (getsE (token_cost tid))) (\<lambda>tokens.
     bindE (stmt (getsE (compute_cost tid))) (\<lambda>compute.
     let cents_sum = tokens + compute in
     thenE (update_task (\<lambda>t. t_id t = tid) (set_spent cents_sum)) (ret cents_sum)))"

subsection \<open>Events\<close>

definition append_event :: "uuid option \<Rightarrow> pystr \<Rightarrow> dict \<Rightarrow> uuid act" where
  "append_event tid event_type content = stmt (\<lambda>w.
     if tid \<noteq> None \<and> task_lookup (the tid) w = None
     then (Inl (DbError ''task_id violates foreign key''), w)
     else let i = Uuid (next_id w) in
       (Inr i, w\<lparr>next_id := Suc (next_id w),
          task_events := task_events w @
            [\<lparr> e_id = i, e_task_id = tid, e_event_type = event_type, e_content = content,
               e_created_at = now w \<rparr>]\<rparr>))"

definition fetch_events_for_task :: "uuid \<Rightarrow> nat \<Rightarrow> task_event list act" where
  "fetch_events_for_task tid limit =
     stmt (getsE (\<lambda>w. take limit (sort_key (\<lambda>e. (e_created_at e, e_id e))
       (filter (\<lambda>e. e_task_id e = Some tid) (task_events w)))))"

subsection \<open>The abstract state machine\<close>

inductive status_step :: "task_status \<Rightarrow> task_status \<Rightarrow> bool" where
  started: "\<not> terminal s \<Longrightarrow> status_step s Running"
| awaiting: "\<not> terminal s \<Longrightarrow> status_step s AwaitingUser"
| blocked: "\<not> terminal s \<Longrightarrow> status_step s Blocked"
| completed: "\<not> terminal s \<Longrightarrow> status_step s Completed"
| failed: "\<not> terminal s \<Longrightarrow> status_step s Failed"
| cancelled: "\<not> terminal s \<Longrightarrow> status_step s Cancelled"

inductive_cases status_stepE: "status_step s s'"
inductive_simps status_step_to_pending: "status_step s Pending"

lemma status_step_live: "status_step s s' \<Longrightarrow> \<not> terminal s"
  by (auto elim: status_stepE)

lemma status_steps_terminal:
  assumes "status_step\<^sup>*\<^sup>* s s'" and "terminal s" shows "s' = s"
  using assms by (induction rule: converse_rtranclp_induct) (auto dest: status_step_live)

lemma status_steps_pending: "status_step\<^sup>*\<^sup>* s Pending \<Longrightarrow> s = Pending"
  by (erule rtranclp.cases) (auto simp: status_step_to_pending)

lemma status_step_complete: "\<not> terminal s \<Longrightarrow> s' \<noteq> Pending \<Longrightarrow> status_step s s'"
  by (cases s') (auto intro: status_step.intros)

subsection \<open>The contract of the row transformers\<close>

lemmas row_defs = set_started_def set_awaiting_def set_blocked_def set_completed_def
  set_failed_def set_cancelled_def set_plan_def set_spent_def

interpretation started: row_update t_id "set_started n" for n
  by unfold_locales (simp add: row_defs)
interpretation awaiting: row_update t_id "set_awaiting r n" for r n
  by unfold_locales (simp add: row_defs)
interpretation blocked: row_update t_id "set_blocked r n" for r n
  by unfold_locales (simp add: row_defs)
interpretation completed: row_update t_id "set_completed n" for n
  by unfold_locales (simp add: row_defs)
interpretation failed: row_update t_id "set_failed r n" for r n
  by unfold_locales (simp add: row_defs)
interpretation cancelled: row_update t_id "set_cancelled n" for n
  by unfold_locales (simp add: row_defs)
interpretation planned: row_update t_id "set_plan p n" for p n
  by unfold_locales (simp add: row_defs)
interpretation spent: row_update t_id "set_spent c n" for c n
  by unfold_locales (simp add: row_defs)

text \<open>What never changes about a task, and what one operation may do to it.\<close>

definition same_identity :: "task \<Rightarrow> task \<Rightarrow> bool" where
  "same_identity t t' \<longleftrightarrow>
     t_id t' = t_id t \<and> t_user_id t' = t_user_id t \<and>
     t_parent_task_id t' = t_parent_task_id t \<and> t_title t' = t_title t \<and>
     t_description t' = t_description t \<and> t_budget_cents t' = t_budget_cents t \<and>
     t_channel_for_completion t' = t_channel_for_completion t \<and>
     t_created_at t' = t_created_at t"

definition task_evolves :: "task \<Rightarrow> task \<Rightarrow> bool" where
  "task_evolves t t' \<longleftrightarrow>
     same_identity t t' \<and> status_step\<^sup>*\<^sup>* (t_status t) (t_status t') \<and>
     (terminal (t_status t) \<longrightarrow>
        t_completed_at t' = t_completed_at t \<and> t_blocking_reason t' = t_blocking_reason t)"

lemma task_evolves_refl [simp]: "task_evolves t t"
  by (simp add: task_evolves_def same_identity_def)

lemma task_evolves_trans:
  assumes "task_evolves t u" and "task_evolves u v" shows "task_evolves t v"
proof -
  from assms have "same_identity t v"
    by (simp add: task_evolves_def same_identity_def)
  moreover have "status_step\<^sup>*\<^sup>* (t_status t) (t_status v)"
    using assms by (auto simp: task_evolves_def)
  moreover have "t_completed_at v = t_completed_at t \<and> t_blocking_reason v = t_blocking_reason t"
    if "terminal (t_status t)"
  proof -
    from that assms(1) have "t_status u = t_status t"
      by (auto simp: task_evolves_def dest: status_steps_terminal)
    with that assms show ?thesis by (simp add: task_evolves_def)
  qed
  ultimately show ?thesis by (simp add: task_evolves_def)
qed

definition evolves :: "world \<Rightarrow> world \<Rightarrow> bool" where
  "evolves w w' \<longleftrightarrow>
     (\<forall>tid t. task_lookup tid w = Some t \<longrightarrow>
        (\<exists>t'. task_lookup tid w' = Some t' \<and> task_evolves t t'))"

lemma evolves_cong: "tasks w' = tasks w \<Longrightarrow> evolves w w'"
  by (simp add: evolves_def)

subsection \<open>Every operation evolves the tasks\<close>

lemma key_lookup_set_id:
  "(\<And>t. t_id (f t) = t_id t) \<Longrightarrow>
   key_lookup t_id k (sql_set p f rows) =
     map_option (\<lambda>t. if p t then f t else t) (key_lookup t_id k rows)"
  by (rule row_update.lookup_set) (simp add: row_update_def)

lemma live_not_terminal: "live tid t \<Longrightarrow> \<not> terminal (t_status t)"
  by (simp add: live_def)

lemma row_evolves:
  "\<not> terminal (t_status t) \<Longrightarrow> task_evolves t (set_started n t)"
  "\<not> terminal (t_status t) \<Longrightarrow> task_evolves t (set_awaiting ro n t)"
  "\<not> terminal (t_status t) \<Longrightarrow> task_evolves t (set_blocked r n t)"
  "\<not> terminal (t_status t) \<Longrightarrow> task_evolves t (set_completed n t)"
  "\<not> terminal (t_status t) \<Longrightarrow> task_evolves t (set_failed r n t)"
  "\<not> terminal (t_status t) \<Longrightarrow> task_evolves t (set_cancelled n t)"
  "task_evolves t (set_plan p n t)"
  "task_evolves t (set_spent c n t)"
  by (auto simp: task_evolves_def same_identity_def row_defs intro: status_step.intros)

lemma row_ids [simp]:
  "t_id (set_started n t) = t_id t" "t_id (set_awaiting ro n t) = t_id t"
  "t_id (set_blocked r n t) = t_id t" "t_id (set_completed n t) = t_id t"
  "t_id (set_failed r n t) = t_id t" "t_id (set_cancelled n t) = t_id t"
  "t_id (set_plan p n t) = t_id t" "t_id (set_spent c n t) = t_id t"
  by (simp_all add: row_defs)

lemma evolves_update:
  assumes "\<And>t. p t \<Longrightarrow> task_evolves t (f t)" and "\<And>t. t_id (f t) = t_id t"
  shows "evolves w (w\<lparr>tasks := sql_set p f (tasks w)\<rparr>)"
  using assms by (auto simp: evolves_def key_lookup_set_id)

lemma env_apply_evolves: "evolves w (env_apply a w)"
  by (cases a)
    (auto intro!: evolves_update simp: live_def row_evolves intro: evolves_cong)

interpretation evolves: db_order evolves
proof unfold_locales
  fix u v w :: world
  show "evolves w w" by (simp add: evolves_cong)
  show "evolves u w" if "evolves u v" "evolves v w"
    using that unfolding evolves_def by (blast intro: task_evolves_trans)
next
  fix w :: world and xs a fs
  show "evolves w (w\<lparr>script := fs\<rparr>)" by (rule evolves_cong) simp
  show "evolves w (env_apply a w)" by (rule env_apply_evolves)
  show "evolves w (w\<lparr>next_id := Suc (next_id w)\<rparr>)" by (rule evolves_cong) simp
  show "evolves w (w\<lparr>stream := xs\<rparr>)" by (rule evolves_cong) simp
qed


lemma update_task_evolves:
  assumes "\<And>n t. p t \<Longrightarrow> task_evolves t (f n t)" and "\<And>n t. t_id (f n t) = t_id t"
  shows "keeps evolves (update_task p f)"
  unfolding update_task_def
  by (rule evolves.stmt) (auto simp: keeps_def intro!: evolves_update assms)

lemma mark_started_evolves: "keeps evolves (mark_started tid)"
  unfolding mark_started_def by (rule update_task_evolves) (auto simp: live_def row_evolves)
lemma mark_awaiting_evolves: "keeps evolves (mark_awaiting_user tid r)"
  unfolding mark_awaiting_user_def by (rule update_task_evolves) (auto simp: live_def row_evolves)
lemma mark_blocked_evolves: "keeps evolves (mark_blocked tid r)"
  unfolding mark_blocked_def by (rule update_task_evolves) (auto simp: live_def row_evolves)
lemma mark_completed_evolves: "keeps evolves (mark_completed tid)"
  unfolding mark_completed_def by (rule update_task_evolves) (auto simp: live_def row_evolves)
lemma mark_failed_evolves: "keeps evolves (mark_failed tid r)"
  unfolding mark_failed_def by (rule update_task_evolves) (auto simp: live_def row_evolves)
lemma task_cancel_evolves: "keeps evolves (task_cancel user tid)"
  unfolding task_cancel_def by (rule update_task_evolves) (auto simp: live_def row_evolves)

lemma attach_plan_evolves: "keeps evolves (attach_plan tid p)"
  unfolding attach_plan_def
  by (rule evolves.stmt) (auto simp: keeps_def row_evolves evolves_cong intro!: evolves_update)

lemma rollup_evolves: "keeps evolves (rollup_spent_cents tid)"
  unfolding rollup_spent_cents_def Let_def
  by (intro evolves.bind evolves.andThen evolves.ret evolves.stmt evolves.gets
      update_task_evolves) (auto simp: row_evolves)

lemma task_create_evolves: "keeps evolves (task_create u ti d c p b s)"
  unfolding task_create_def
  by (rule evolves.stmt) (auto simp: keeps_def evolves_def key_lookup_append Let_def)

lemma append_event_evolves: "keeps evolves (append_event tid ev c)"
  unfolding append_event_def
  by (rule evolves.stmt) (auto simp: keeps_def evolves_def Let_def)

lemma reads_evolve:
  "keeps evolves (get_task_by_id user tid)" "keeps evolves (parent_of tid)"
  "keeps evolves (list_tasks_for_user user sts lim)" "keeps evolves (fetch_events_for_task tid lim)"
  unfolding get_task_by_id_def parent_of_def list_tasks_for_user_def fetch_events_for_task_def
  by (intro evolves.stmt evolves.gets)+

lemma walk_depth_evolves: "keeps evolves (walk_depth n d tid)"
  by (induction n arbitrary: d tid)
    (simp_all only: walk_depth.simps evolves.ret evolves.bind evolves.opt reads_evolve)

lemma walk_root_evolves: "keeps evolves (walk_root n tid)"
  by (induction n arbitrary: tid)
    (simp_all only: walk_root.simps evolves.ret evolves.bind evolves.opt reads_evolve)

lemmas task_dao_evolves = mark_started_evolves mark_awaiting_evolves mark_blocked_evolves
  mark_completed_evolves mark_failed_evolves task_cancel_evolves attach_plan_evolves
  rollup_evolves task_create_evolves append_event_evolves reads_evolve

end
