(* ===== verification/Questions_Dao.thy ===== *)
theory Questions_Dao
  imports Tasks_Dao
begin

section \<open>Pending questions\<close>

text \<open>
  \<open>src/wolfpaw/memory/pending_questions.py\<close>: the durable row at which \<open>ask_user\<close> and the
  answer meet. \<open>mark_answered\<close>, \<open>mark_timeout\<close> and \<open>mark_cancelled\<close> are compare-and-set
  updates guarded by \<open>status = 'pending'\<close>; \<open>wait_for_answer\<close> is the \<open>LISTEN/NOTIFY\<close> wait
  with its 15 second backstop.

  The wait consumes the world's \<open>env\<close> script: \<open>listen\<close> lets the actions that fall into the
  wait happen at their times and stops at the first one that signals this question.
  \<open>wait_loop\<close> is total: every round either reaches the time it waited for or uses up an
  action of the script. \<open>q_evolves\<close> is what any operation, of this process or another, may do
  to a question: keep it, or resolve it once.
\<close>

subsection \<open>The operations\<close>

abbreviation question_lookup :: "uuid \<Rightarrow> world \<Rightarrow> pending_question option" where
  "question_lookup qid w \<equiv> key_lookup q_id qid (questions w)"

fun question_status_text :: "question_status \<Rightarrow> pystr" where
  "question_status_text QPending = ''pending''"
| "question_status_text QAnswered = ''answered''"
| "question_status_text QTimeout = ''timeout''"
| "question_status_text QCancelled = ''cancelled''"

definition new_question ::
  "uuid \<Rightarrow> time \<Rightarrow> uuid \<Rightarrow> uuid \<Rightarrow> pystr \<Rightarrow> uuid option \<Rightarrow> pystr option \<Rightarrow> json list option
     \<Rightarrow> pystr \<Rightarrow> int \<Rightarrow> pending_question" where
  "new_question i at tid user question thread channel options urgency timeout_seconds =
     \<lparr> q_id = i, q_task_id = tid, q_user_id = user, q_thread_id = thread, q_channel = channel,
       q_question = question, q_options = (case options of None \<Rightarrow> [] | Some xs \<Rightarrow> xs),
       q_urgency = urgency, q_status = QPending, q_answer = None, q_created_at = at,
       q_answered_at = None, q_expires_at = Some (at + max 1 timeout_seconds * second) \<rparr>"

definition question_create ::
  "uuid \<Rightarrow> uuid \<Rightarrow> pystr \<Rightarrow> uuid option \<Rightarrow> pystr option \<Rightarrow> json list option \<Rightarrow> pystr \<Rightarrow> int
     \<Rightarrow> pending_question act" where
  "question_create tid user question thread channel options urgency timeout_seconds =
     stmt (\<lambda>w.
       if task_lookup tid w = None
       then (Inl (DbError ''task_id violates foreign key''), w)
       else let q = new_question (Uuid (next_id w)) (now w) tid user question thread channel
                      options urgency timeout_seconds
            in (Inr q, w\<lparr>next_id := Suc (next_id w), questions := questions w @ [q]\<rparr>))"

definition question_get :: "uuid \<Rightarrow> pending_question option act" where
  "question_get qid = stmt (getsE (question_lookup qid))"

definition answerable :: "uuid \<Rightarrow> time \<Rightarrow> pending_question \<Rightarrow> bool" where
  "answerable user at q =
     (q_user_id q = user \<and> q_status q = QPending \<and>
      (case q_expires_at q of None \<Rightarrow> False | Some x \<Rightarrow> x > at))"

definition expiry :: "pending_question \<Rightarrow> time" where
  "expiry q = (case q_expires_at q of None \<Rightarrow> 0 | Some x \<Rightarrow> x)"

definition get_open_for_user :: "uuid \<Rightarrow> pending_question option act" where
  "get_open_for_user user = stmt (getsE (\<lambda>w.
     case sort_key expiry (filter (answerable user (now w)) (questions w)) of
       [] \<Rightarrow> None | q # _ \<Rightarrow> Some q))"

datatype answer_outcome = ANSWERED | UNKNOWN | ALREADY

definition NOTIFY_CHANNEL :: pystr where "NOTIFY_CHANNEL = ''pending_answered''"

definition notify_resolved :: "uuid \<Rightarrow> unit act" where
  "notify_resolved qid = best_effort (stmt (modifyE (\<lambda>w.
     w\<lparr>outbox := outbox w @ [(NOTIFY_CHANNEL, qid, uuid_text qid)]\<rparr>)))"

definition update_question ::
  "(pending_question \<Rightarrow> bool) \<Rightarrow> (time \<Rightarrow> pending_question \<Rightarrow> pending_question)
     \<Rightarrow> pending_question option act" where
  "update_question p f = stmt (\<lambda>w.
     (Inr (sql_returning p (f (now w)) (questions w)),
      w\<lparr>questions := sql_set p (f (now w)) (questions w)\<rparr>))"

definition mark_answered :: "uuid \<Rightarrow> uuid \<Rightarrow> pystr \<Rightarrow> answer_outcome act" where
  "mark_answered qid user answer =
     bindE (update_question (\<lambda>q. open_question qid q \<and> q_user_id q = user)
              (set_answered answer)) (\<lambda>updated.
     if updated \<noteq> None then thenE (notify_resolved qid) (ret ANSWERED)
     else bindE (stmt (getsE (\<lambda>w.
            sql_first (\<lambda>q. q_id q = qid \<and> q_user_id q = user) (questions w)))) (\<lambda>found.
          ret (if found \<noteq> None then ALREADY else UNKNOWN)))"

definition mark_timeout :: "uuid \<Rightarrow> unit act" where
  "mark_timeout qid = thenE (update_question (open_question qid) (set_resolved QTimeout)) (ret ())"

definition mark_cancelled :: "uuid \<Rightarrow> unit act" where
  "mark_cancelled qid =
     thenE (update_question (open_question qid) (set_resolved QCancelled)) (notify_resolved qid)"

subsection \<open>Waiting\<close>

definition BACKSTOP :: time where "BACKSTOP = 15 * second"

text \<open>Whether an action of another process fires a notification for this question.\<close>

fun signals :: "uuid \<Rightarrow> env_action \<Rightarrow> world \<Rightarrow> bool" where
  "signals qid (EnvAnswer q user _ heard) w =
     (q = qid \<and> heard \<and>
      sql_first (\<lambda>r. open_question q r \<and> q_user_id r = user) (questions w) \<noteq> None)"
| "signals qid (EnvCancelQuestion q heard) w = (q = qid \<and> heard)"
| "signals qid _ w = False"

fun listen :: "uuid \<Rightarrow> (time \<times> env_action) list \<Rightarrow> time \<Rightarrow> world \<Rightarrow> bool \<times> world" where
  "listen qid [] d w = (False, w\<lparr>now := now w + d, env := []\<rparr>)"
| "listen qid ((k, a) # es) d w =
     (if k \<le> d
      then let w' = w\<lparr>now := now w + max 0 k\<rparr>
           in if signals qid a w' then (True, (env_apply a w')\<lparr>env := es\<rparr>)
              else listen qid es (d - max 0 k) (env_apply a w')
      else (False, w\<lparr>now := now w + d, env := (k - d, a) # es\<rparr>))"

lemma listen_progress:
  "0 \<le> d \<Longrightarrow> listen qid es d w = (woke, w') \<Longrightarrow>
     now w \<le> now w' \<and> now w' \<le> now w + d \<and> length (env w') \<le> length es \<and>
     (if woke then length (env w') < length es else now w' = now w + d)"
proof (induction qid es d w arbitrary: woke w' rule: listen.induct)
  case (2 qid k a es d w)
  show ?case
  proof (cases "k \<le> d \<and> \<not> signals qid a (w\<lparr>now := now w + max 0 k\<rparr>)")
    case True
    then have "listen qid es (d - max 0 k) (env_apply a (w\<lparr>now := now w + max 0 k\<rparr>)) = (woke, w')"
      using 2(3) by (simp add: Let_def)
    from 2(1)[OF _ refl _ _ this] True 2(2) show ?thesis by (auto split: if_splits)
  next
    case False
    with 2(2,3) show ?thesis by (auto simp: Let_def split: if_splits)
  qed
qed auto

lemma question_get_frame:
  "question_get qid w = (r, w') \<Longrightarrow> now w' = now w \<and> env w' = env w"
  by (auto simp: question_get_def stmt_def Let_def split: list.splits prod.splits option.splits)

definition unresolved :: "pending_question option \<Rightarrow> bool" where
  "unresolved cur = (case cur of None \<Rightarrow> False | Some q \<Rightarrow> q_status q = QPending)"

lemma wait_progress:
  assumes get: "(r, w1) = question_get qid w" and pos: "\<not> deadline - now w1 \<le> 0"
  shows "nat (deadline - now (snd (listen qid (env w1) (min BACKSTOP (deadline - now w1)) w1))) +
      length (env (snd (listen qid (env w1) (min BACKSTOP (deadline - now w1)) w1)))
    < nat (deadline - now w) + length (env w)"
proof -
  obtain woke w2 where l: "listen qid (env w1) (min BACKSTOP (deadline - now w1)) w1 = (woke, w2)"
    by (cases "listen qid (env w1) (min BACKSTOP (deadline - now w1)) w1")
  have d: "0 < min BACKSTOP (deadline - now w1)" using pos by (simp add: BACKSTOP_def second_def)
  have "now w1 = now w" "env w1 = env w"
    using question_get_frame[OF get[symmetric]] by auto
  with listen_progress[OF less_imp_le[OF d] l] d pos
  show ?thesis using l by (auto split: if_splits)
qed

function (sequential) wait_loop :: "uuid \<Rightarrow> time \<Rightarrow> pending_question option act" where
  "wait_loop qid deadline w =
     (case question_get qid w of
        (Inl e, w1) \<Rightarrow> (Inl e, w1)
      | (Inr current, w1) \<Rightarrow>
          if \<not> unresolved current then (Inr current, w1)
          else let remaining = deadline - now w1 in
            if remaining \<le> 0 then (Inr None, w1)
            else wait_loop qid deadline (snd (listen qid (env w1) (min BACKSTOP remaining) w1)))"
  by pat_completeness auto
termination
  by (relation "measure (\<lambda>(qid, deadline, w). nat (deadline - now w) + length (env w))")
    (simp, simp only: in_measure split_conv, rule wait_progress, auto intro: sym)

declare wait_loop.simps [simp del]

definition touch :: "unit act" where "touch = stmt (ret ())"

definition wait_for_answer :: "uuid \<Rightarrow> time \<Rightarrow> pending_question option act" where
  "wait_for_answer qid timeout =
     thenE touch (\<lambda>w. finallyE (wait_loop qid (now w + timeout)) (best_effort touch) w)"


subsection \<open>Waiting keeps every world order that tolerates time passing\<close>

context clock_order
begin

lemma listen: "0 \<le> d \<Longrightarrow> R w (snd (listen qid es d w))"
proof (induction qid es d w rule: listen.induct)
  case (1 qid d w)
  then show ?case by (simp add: clock_step)
next
  case (2 qid k a es d w)
  let ?w = "w\<lparr>now := now w + max 0 k\<rparr>"
  have step: "R w (env_apply a ?w)"
    by (rule trans[OF clock(1) env_step]) simp
  show ?case
  proof (cases "k \<le> d \<and> \<not> signals qid a ?w")
    case True
    then have "R (env_apply a ?w) (snd (listen qid es (d - max 0 k) (env_apply a ?w)))"
      using 2(1)[OF _ HOL.refl] 2(2) by simp
    with True show ?thesis using trans[OF step] by (simp add: Let_def)
  next
    case False
    with 2(2) show ?thesis
      using trans[OF step clock(2)] clock_step[of w "now w + d"]
      by (auto simp: Let_def)
  qed
qed

lemma question_get: "keeps R (question_get qid)" and touch: "keeps R touch"
  unfolding question_get_def touch_def by (intro stmt gets ret)+

lemma wait_loop: "R w (snd (wait_loop qid deadline w))"
proof (induction qid deadline w rule: wait_loop.induct)
  case (1 qid deadline w)
  obtain r w1 where get: "question_get qid w = (r, w1)" by (cases "question_get qid w")
  have step: "R w w1" using keepsD[OF question_get get] .
  show ?case
  proof (cases r)
    case (Inl e)
    with get step show ?thesis by (simp add: wait_loop.simps)
  next
    case (Inr current)
    let ?d = "min BACKSTOP (deadline - now w1)"
    let ?w = "snd (listen qid (env w1) ?d w1)"
    show ?thesis
    proof (cases "unresolved current \<and> \<not> deadline - now w1 \<le> 0")
      case True
      then have "0 \<le> ?d" by (simp add: BACKSTOP_def second_def)
      from listen[OF this] have "R w1 ?w" .
      moreover have "R ?w (snd (wait_loop qid deadline ?w))"
        using True Inr get by (intro "1.IH") auto
      ultimately have "R w (snd (wait_loop qid deadline ?w))"
        using trans step by blast
      with get Inr True show ?thesis by (subst wait_loop.simps) simp
    next
      case False
      with get Inr step show ?thesis by (subst wait_loop.simps) auto
    qed
  qed
qed

lemma wait_for_answer: "keeps R (wait_for_answer qid t)"
  unfolding wait_for_answer_def
proof (intro andThen touch)
  have "keeps R (wait_loop qid d)" for d by (simp add: keeps_def wait_loop)
  then have "keeps R (finallyE (wait_loop qid d) (best_effort touch))" for d
    by (intro finally_ effort touch)
  then show "keeps R (\<lambda>w. finallyE (wait_loop qid (now w + t)) (best_effort touch) w)"
    by (simp add: keeps_def)
qed

end

subsection \<open>A question is resolved at most once\<close>

definition q_step :: "pending_question \<Rightarrow> pending_question \<Rightarrow> bool" where
  "q_step q q' \<longleftrightarrow>
     (if q_status q' = QPending then q' = q
      else q_status q \<noteq> QPending \<longrightarrow> q' = q) \<and>
     q_id q' = q_id q \<and> q_task_id q' = q_task_id q \<and> q_user_id q' = q_user_id q \<and>
     q_question q' = q_question q \<and> q_created_at q' = q_created_at q \<and>
     q_expires_at q' = q_expires_at q"

lemma q_step_refl [simp]: "q_step q q"
  by (simp add: q_step_def)

lemma q_step_trans: "q_step p q \<Longrightarrow> q_step q r \<Longrightarrow> q_step p r"
  by (auto simp: q_step_def split: if_splits)

definition q_evolves :: "world \<Rightarrow> world \<Rightarrow> bool" where
  "q_evolves w w' \<longleftrightarrow>
     (\<forall>qid q. question_lookup qid w = Some q \<longrightarrow>
        (\<exists>q'. question_lookup qid w' = Some q' \<and> q_step q q'))"

lemma q_evolves_cong: "questions w' = questions w \<Longrightarrow> q_evolves w w'"
  by (simp add: q_evolves_def)

lemma q_evolves_trans: "q_evolves u v \<Longrightarrow> q_evolves v w \<Longrightarrow> q_evolves u w"
  unfolding q_evolves_def by (blast intro: q_step_trans)

definition q_row_ok :: "pending_question \<Rightarrow> bool" where
  "q_row_ok q \<longleftrightarrow>
     (q_status q = QAnswered \<longleftrightarrow> q_answer q \<noteq> None) \<and>
     (q_status q = QPending \<longleftrightarrow> q_answered_at q = None) \<and> q_expires_at q \<noteq> None"

text \<open>What an \<open>UPDATE pending_questions\<close> owes.\<close>

definition q_update_ok ::
  "(pending_question \<Rightarrow> bool) \<Rightarrow> (time \<Rightarrow> pending_question \<Rightarrow> pending_question) \<Rightarrow> bool" where
  "q_update_ok p f \<longleftrightarrow>
     (\<forall>n q. q_id (f n q) = q_id q) \<and> (\<forall>n q. p q \<longrightarrow> q_step q (f n q)) \<and>
     (\<forall>n q. p q \<longrightarrow> q_row_ok q \<longrightarrow> q_row_ok (f n q))"

interpretation answered: row_update q_id "set_answered a n" for a n
  by unfold_locales (simp add: set_answered_def)
interpretation resolved: row_update q_id "set_resolved st n" for st n
  by unfold_locales (simp add: set_resolved_def)

lemma q_updates_ok:
  "q_update_ok (\<lambda>q. open_question qid q \<and> q_user_id q = user) (set_answered a)"
  "q_update_ok (open_question qid) (set_resolved QTimeout)"
  "q_update_ok (open_question qid) (set_resolved QCancelled)"
  by (auto simp: q_update_ok_def q_step_def q_row_ok_def open_question_def set_answered_def
      set_resolved_def)

lemma q_lookup_update:
  "q_update_ok p f \<Longrightarrow>
   key_lookup q_id k (sql_set p (f n) rows) =
     map_option (\<lambda>q. if p q then f n q else q) (key_lookup q_id k rows)"
  by (rule row_update.lookup_set) (simp add: row_update_def q_update_ok_def)

lemma q_evolves_update:
  "q_update_ok p f \<Longrightarrow> q_evolves w (w\<lparr>questions := sql_set p (f n) (questions w)\<rparr>)"
  by (auto simp: q_evolves_def q_lookup_update) (auto simp: q_update_ok_def)

end
