(* ===== verification/Soundness.thy ===== *)
theory Soundness
  imports Questions_Dao
begin

section \<open>The database invariant and the world order of the whole program\<close>

text \<open>
  \<open>db_ok\<close> is what holds of the task and question tables in every reachable world. \<open>sound w w'\<close>
  is the relation every modelled entry point keeps: tasks evolve by the abstract state machine,
  a resolved question is frozen, the invariant is preserved, and the event log, the usage
  ledger, the identifiers and the clock only grow. One lemma per data-access operation shows that it keeps \<open>sound\<close>; everything
  above composes them by the rules of the locale \<open>db_order\<close>.
\<close>

subsection \<open>The invariant\<close>

definition row_ok :: "time \<Rightarrow> task \<Rightarrow> bool" where
  "row_ok n t \<longleftrightarrow>
     (terminal (t_status t) \<longleftrightarrow> t_completed_at t \<noteq> None) \<and>
     (t_status t = Running \<longrightarrow> t_started_at t \<noteq> None) \<and>
     (t_status t = Blocked \<or> t_status t = Failed \<longrightarrow> t_blocking_reason t \<noteq> None) \<and>
     (t_status t = Completed \<longrightarrow> t_blocking_reason t = None) \<and>
     t_created_at t \<le> n \<and>
     (\<forall>s. t_started_at t = Some s \<longrightarrow> t_created_at t \<le> s \<and> s \<le> n) \<and>
     (\<forall>c. t_completed_at t = Some c \<longrightarrow> t_created_at t \<le> c \<and> c \<le> n \<and>
        (\<forall>s. t_started_at t = Some s \<longrightarrow> s \<le> c))"

definition link_ok :: "world \<Rightarrow> task \<Rightarrow> bool" where
  "link_ok w t \<longleftrightarrow>
     (\<forall>p. t_parent_task_id t = Some p \<longrightarrow>
        uuid_nat p < uuid_nat (t_id t) \<and> task_lookup p w \<noteq> None)"

definition tasks_ok :: "world \<Rightarrow> bool" where
  "tasks_ok w \<longleftrightarrow>
     key_distinct t_id (tasks w) \<and>
     (\<forall>t\<in>set (tasks w). row_ok (now w) t \<and> uuid_nat (t_id t) < next_id w \<and> link_ok w t)"

lemma tasks_ok_empty: "tasks_ok empty_world"
  by (simp add: tasks_ok_def empty_world_def key_distinct_def)

lemma row_ok_later: "row_ok n t \<Longrightarrow> n \<le> n' \<Longrightarrow> row_ok n' t"
  by (auto simp: row_ok_def)

lemma link_ok_cong: "tasks w' = tasks w \<Longrightarrow> link_ok w' t = link_ok w t"
  by (simp add: link_ok_def)

lemma tasks_ok_frame:
  assumes "tasks_ok w" "tasks w' = tasks w" "now w \<le> now w'" "next_id w \<le> next_id w'"
  shows "tasks_ok w'"
  unfolding tasks_ok_def
proof (intro conjI ballI)
  show "key_distinct t_id (tasks w')" using assms by (simp add: tasks_ok_def)
  fix t assume "t \<in> set (tasks w')"
  then have t: "row_ok (now w) t \<and> uuid_nat (t_id t) < next_id w \<and> link_ok w t"
    using assms by (simp add: tasks_ok_def)
  then show "row_ok (now w') t" using assms(3) row_ok_later by blast
  show "uuid_nat (t_id t) < next_id w'" using t assms(4) by linarith
  show "link_ok w' t" using t assms(2) link_ok_cong by blast
qed

definition questions_ok :: "world \<Rightarrow> bool" where
  "questions_ok w \<longleftrightarrow>
     key_distinct q_id (questions w) \<and>
     (\<forall>q\<in>set (questions w). q_row_ok q \<and> uuid_nat (q_id q) < next_id w \<and>
        task_lookup (q_task_id q) w \<noteq> None)"

definition db_ok :: "world \<Rightarrow> bool" where
  "db_ok w \<longleftrightarrow> tasks_ok w \<and> questions_ok w"

lemma db_ok_empty: "db_ok empty_world"
  using tasks_ok_empty by (simp add: db_ok_def questions_ok_def empty_world_def key_distinct_def)

lemma evolves_found: "evolves w w' \<Longrightarrow> task_lookup tid w \<noteq> None \<Longrightarrow> task_lookup tid w' \<noteq> None"
  by (auto simp: evolves_def)

lemma questions_ok_frame:
  assumes "questions_ok w" "questions w' = questions w" "evolves w w'" "next_id w \<le> next_id w'"
  shows "questions_ok w'"
  using assms evolves_found[OF assms(3)] by (fastforce simp: questions_ok_def)

subsection \<open>The world order\<close>

definition sound :: "world \<Rightarrow> world \<Rightarrow> bool" where
  "sound w w' \<longleftrightarrow>
     evolves w w' \<and> q_evolves w w' \<and> (db_ok w \<longrightarrow> db_ok w') \<and>
     prefix (task_events w) (task_events w') \<and> prefix (token_usage w) (token_usage w') \<and>
     next_id w \<le> next_id w' \<and> now w \<le> now w'"

lemma sound_frame:
  "\<lbrakk>tasks w' = tasks w; questions w' = questions w; prefix (task_events w) (task_events w');
    prefix (token_usage w) (token_usage w'); next_id w \<le> next_id w'; now w \<le> now w'\<rbrakk> \<Longrightarrow>
   sound w w'"
  by (auto simp: sound_def db_ok_def evolves_cong q_evolves_cong
      intro: tasks_ok_frame questions_ok_frame)

lemma soundD:
  assumes "sound w w'"
  shows "evolves w w'" "q_evolves w w'" "db_ok w \<Longrightarrow> db_ok w'" "prefix (task_events w) (task_events w')"
    "prefix (token_usage w) (token_usage w')" "next_id w \<le> next_id w'" "now w \<le> now w'"
  using assms by (auto simp: sound_def)

lemma tasks_ok_script [simp]: "tasks_ok (w\<lparr>script := fs\<rparr>) = tasks_ok w"
  by (simp add: tasks_ok_def link_ok_def)

lemma evolves_script [simp]: "evolves (w\<lparr>script := fs\<rparr>) v = evolves w v"
  by (simp add: evolves_def)

subsection \<open>Every task operation is sound\<close>

text \<open>What an \<open>UPDATE tasks\<close> owes: identity, the state machine and the row invariant.\<close>

definition row_update_ok :: "(task \<Rightarrow> bool) \<Rightarrow> (time \<Rightarrow> task \<Rightarrow> task) \<Rightarrow> bool" where
  "row_update_ok p f \<longleftrightarrow>
     (\<forall>n t. p t \<longrightarrow> task_evolves t (f n t)) \<and> (\<forall>n t. t_id (f n t) = t_id t) \<and>
     (\<forall>n t. t_parent_task_id (f n t) = t_parent_task_id t) \<and>
     (\<forall>n t. p t \<longrightarrow> row_ok n t \<longrightarrow> row_ok n (f n t))"

lemma link_ok_update:
  assumes "\<And>n t. t_id (f n t) = t_id t" and "\<And>n t. t_parent_task_id (f n t) = t_parent_task_id t"
    and "link_ok w t"
  shows "link_ok (w\<lparr>tasks := sql_set p (f n) (tasks w)\<rparr>) t \<and>
    link_ok (w\<lparr>tasks := sql_set p (f n) (tasks w)\<rparr>) (f n t)"
  using assms by (simp add: link_ok_def key_lookup_set_id)

lemma tasks_ok_update:
  assumes f: "row_update_ok p f" and w: "tasks_ok w"
  shows "tasks_ok (w\<lparr>tasks := sql_set p (f (now w)) (tasks w)\<rparr>)"
  unfolding tasks_ok_def
proof (intro conjI ballI)
  have ids: "t_id (f n t) = t_id t" "t_parent_task_id (f n t) = t_parent_task_id t" for n t
    using f by (auto simp: row_update_ok_def)
  show "key_distinct t_id (tasks (w\<lparr>tasks := sql_set p (f (now w)) (tasks w)\<rparr>))"
    using w row_update.distinct_set[of t_id "f (now w)" p "tasks w"]
    by (simp add: tasks_ok_def row_update_def ids)
  fix t assume "t \<in> set (tasks (w\<lparr>tasks := sql_set p (f (now w)) (tasks w)\<rparr>))"
  then obtain s where s: "s \<in> set (tasks w)" and t: "t = (if p s then f (now w) s else s)"
    by (auto simp: set_sql_set)
  have ok: "row_ok (now w) s" "uuid_nat (t_id s) < next_id w" "link_ok w s"
    using w s by (auto simp: tasks_ok_def)
  show "row_ok (now (w\<lparr>tasks := sql_set p (f (now w)) (tasks w)\<rparr>)) t"
    using ok(1) f t by (auto simp: row_update_ok_def)
  show "uuid_nat (t_id t) < next_id (w\<lparr>tasks := sql_set p (f (now w)) (tasks w)\<rparr>)"
    using ok(2) t by (simp add: ids)
  show "link_ok (w\<lparr>tasks := sql_set p (f (now w)) (tasks w)\<rparr>) t"
    using link_ok_update[of f w s p "now w"] ok(3) t by (simp add: ids)
qed

lemma update_sound:
  assumes "row_update_ok p f"
  shows "sound w (w\<lparr>tasks := sql_set p (f (now w)) (tasks w)\<rparr>)"
proof -
  have "evolves w (w\<lparr>tasks := sql_set p (f (now w)) (tasks w)\<rparr>)"
    using assms by (intro evolves_update) (auto simp: row_update_ok_def)
  with tasks_ok_update[OF assms] show ?thesis
    by (auto simp: sound_def db_ok_def intro: q_evolves_cong elim!: questions_ok_frame)
qed

lemma q_update_sound:
  assumes "q_update_ok p f"
  shows "sound w (w\<lparr>questions := sql_set p (f n) (questions w)\<rparr>)" (is "sound w ?w")
proof -
  have "evolves w ?w" by (rule evolves_cong) simp
  moreover have "q_evolves w ?w" by (rule q_evolves_update[OF assms])
  moreover have "tasks_ok ?w" if "tasks_ok w"
    using that by (rule tasks_ok_frame) auto
  moreover have "questions_ok ?w" if "questions_ok w"
    unfolding questions_ok_def
  proof (intro conjI ballI)
    have ids: "q_id (f n q) = q_id q" for q using assms by (simp add: q_update_ok_def)
    have task: "p q \<Longrightarrow> q_task_id (f n q) = q_task_id q" for q
      using assms by (simp add: q_update_ok_def q_step_def)
    show "key_distinct q_id (questions ?w)"
      using that row_update.distinct_set[of q_id "f n" p "questions w"]
      by (simp add: questions_ok_def row_update_def ids)
    fix q assume "q \<in> set (questions ?w)"
    then obtain r where r: "r \<in> set (questions w)" and q: "q = (if p r then f n r else r)"
      by (auto simp: set_sql_set)
    have ok: "q_row_ok r" "uuid_nat (q_id r) < next_id w" "task_lookup (q_task_id r) w \<noteq> None"
      using that r by (auto simp: questions_ok_def)
    show "q_row_ok q" using ok(1) assms q by (simp add: q_update_ok_def)
    show "uuid_nat (q_id q) < next_id ?w" using ok(2) q ids by simp
    show "task_lookup (q_task_id q) ?w \<noteq> None" using ok(3) q task by simp
  qed
  ultimately show ?thesis by (simp add: sound_def db_ok_def)
qed

lemma row_updates_ok:
  "row_update_ok (live tid) set_started"
  "row_update_ok (live tid) (set_awaiting ro)"
  "row_update_ok (live tid) (set_blocked r)"
  "row_update_ok (live tid) set_completed"
  "row_update_ok (live tid) (set_failed r)"
  "row_update_ok (\<lambda>t. live tid t \<and> t_user_id t = user) set_cancelled"
  "row_update_ok (\<lambda>t. t_id t = tid) (set_plan p)"
  "row_update_ok (\<lambda>t. t_id t = tid) (set_spent c)"
  unfolding row_update_ok_def
  by (auto simp: live_def row_evolves row_ids)
    (auto simp: row_defs row_ok_def split: option.splits)

lemma env_apply_sound: "sound w (env_apply a w)"
proof (cases a)
  case (EnvAnswer qid user a heard)
  then show ?thesis using q_update_sound[OF q_updates_ok(1)] by simp
next
  case (EnvCancelQuestion qid heard)
  then show ?thesis using q_update_sound[OF q_updates_ok(3)] by simp
next
  case (EnvCancelTask user tid)
  then show ?thesis
    using update_sound[OF row_updates_ok(6), of w tid user] by simp
next
  case (EnvCompleteTask tid)
  then show ?thesis using update_sound[OF row_updates_ok(4), of w tid] by simp
next
  case (EnvFailTask tid r)
  then show ?thesis using update_sound[OF row_updates_ok(5), of w tid r] by simp
qed (auto intro: sound_frame)

lemma q_evolves_script [simp]: "q_evolves (w\<lparr>script := xs\<rparr>) v = q_evolves w v"
  by (simp add: q_evolves_def)

lemma db_ok_script [simp]: "db_ok (w\<lparr>script := xs\<rparr>) = db_ok w"
  by (simp add: db_ok_def questions_ok_def)

interpretation sound: db_order sound
proof unfold_locales
  fix u v w :: world
  show "sound w w" by (rule sound_frame) auto
  show "sound u w" if "sound u v" "sound v w"
  proof -
    have "evolves u w" using that by (blast dest: soundD(1) intro: evolves.trans)
    moreover have "q_evolves u w" using that by (blast dest: soundD(2) intro: q_evolves_trans)
    ultimately show ?thesis
      using that unfolding sound_def by (metis order_trans prefix_order.order_trans)
  qed
next
  fix w :: world and xs a fs
  show "sound w (w\<lparr>script := fs\<rparr>)" by (rule sound_frame) auto
  show "sound w (env_apply a w)" by (rule env_apply_sound)
  show "sound w (w\<lparr>next_id := Suc (next_id w)\<rparr>)" by (rule sound_frame) auto
  show "sound w (w\<lparr>stream := xs\<rparr>)" by (rule sound_frame) auto
qed

lemma sound_modify:
  "(\<And>w. tasks (f w) = tasks w \<and> questions (f w) = questions w \<and> prefix (task_events w) (task_events (f w)) \<and>
     prefix (token_usage w) (token_usage (f w)) \<and> next_id w \<le> next_id (f w) \<and>
     now w \<le> now (f w)) \<Longrightarrow> keeps sound (modifyE f)"
  by (simp add: keeps_def sound_frame)

lemma update_task_sound: "row_update_ok p f \<Longrightarrow> keeps sound (update_task p f)"
  unfolding update_task_def by (rule sound.stmt) (simp add: keeps_def update_sound)

lemma task_updates_sound:
  "keeps sound (mark_started tid)" "keeps sound (mark_awaiting_user tid ro)"
  "keeps sound (mark_blocked tid r)" "keeps sound (mark_completed tid)"
  "keeps sound (mark_failed tid r)" "keeps sound (task_cancel user tid)"
  unfolding mark_started_def mark_awaiting_user_def mark_blocked_def mark_completed_def
    mark_failed_def task_cancel_def
  by (intro update_task_sound row_updates_ok)+

lemma attach_plan_sound: "keeps sound (attach_plan tid p)"
  unfolding attach_plan_def
  by (rule sound.stmt) (auto simp: keeps_def sound.refl intro!: update_sound row_updates_ok)

lemma rollup_sound: "keeps sound (rollup_spent_cents tid)"
  unfolding rollup_spent_cents_def Let_def
  by (intro sound.bind sound.andThen sound.ret sound.stmt sound.gets update_task_sound
      row_updates_ok)

lemma append_event_sound: "keeps sound (append_event tid ev c)"
  unfolding append_event_def
  by (rule sound.stmt) (auto simp: keeps_def Let_def intro!: sound_frame)

lemma reads_sound:
  "keeps sound (get_task_by_id user tid)" "keeps sound (parent_of tid)"
  "keeps sound (list_tasks_for_user user sts lim)" "keeps sound (fetch_events_for_task tid lim)"
  unfolding get_task_by_id_def parent_of_def list_tasks_for_user_def fetch_events_for_task_def
  by (intro sound.stmt sound.gets)+

lemma walk_depth_sound: "keeps sound (walk_depth n d tid)"
  by (induction n arbitrary: d tid)
    (simp_all only: walk_depth.simps sound.ret sound.bind sound.opt reads_sound)

lemma walk_root_sound: "keeps sound (walk_root n tid)"
  by (induction n arbitrary: tid)
    (simp_all only: walk_root.simps sound.ret sound.bind sound.opt reads_sound)

lemma tasks_ok_insert:
  assumes w: "tasks_ok w" and t: "row_ok (now w) t" "t_id t = Uuid (next_id w)"
    and parent: "\<And>p. t_parent_task_id t = Some p \<Longrightarrow> task_lookup p w \<noteq> None"
  shows "tasks_ok (w\<lparr>next_id := Suc (next_id w), tasks := tasks w @ [t]\<rparr>)"
    (is "tasks_ok ?w")
  unfolding tasks_ok_def
proof (intro conjI ballI)
  have small: "uuid_nat (t_id r) < next_id w" if "r \<in> set (tasks w)" for r
    using w that by (auto simp: tasks_ok_def)
  have found: "task_lookup p ?w \<noteq> None" if "task_lookup p w \<noteq> None" for p
    using that by (auto simp: key_lookup_append)
  show "key_distinct t_id (tasks ?w)"
  proof -
    have "Uuid (next_id w) \<notin> t_id ` set (tasks w)" using small by (metis imageE less_irrefl uuid.sel)
    then show ?thesis using w t(2) by (simp add: tasks_ok_def key_distinct_def)
  qed
  fix r assume r: "r \<in> set (tasks ?w)"
  show "row_ok (now ?w) r" using r w t(1) by (auto simp: tasks_ok_def)
  show "uuid_nat (t_id r) < next_id ?w" using r small t(2) by (fastforce simp: less_Suc_eq)
  show "link_ok ?w r"
  proof (cases "r \<in> set (tasks w)")
    case True
    then have "link_ok w r" using w by (simp add: tasks_ok_def)
    then show ?thesis unfolding link_ok_def using found by blast
  next
    case False
    with r have "r = t" by simp
    moreover have "uuid_nat p < next_id w" if "task_lookup p w \<noteq> None" for p
      using that small key_lookup_SomeD by fastforce
    ultimately show ?thesis using parent found t(2) by (simp add: link_ok_def)
  qed
qed

lemma new_task_row_ok: "row_ok n (new_task i n u ti d c p b s)"
  by (simp add: row_ok_def new_task_def)

lemma task_create_sound: "keeps sound (task_create u ti d c p b s)"
  unfolding task_create_def
proof (rule sound.stmt)
  let ?t = "\<lambda>w. new_task (Uuid (next_id w)) (now w) u ti d c p b s"
  let ?w = "\<lambda>w. w\<lparr>next_id := Suc (next_id w), tasks := tasks w @ [?t w]\<rparr>"
  have "sound w (?w w)" if "p = None \<or> task_lookup (the p) w \<noteq> None" for w
  proof -
    have "evolves w (?w w)" by (auto simp: evolves_def key_lookup_append)
    moreover have "tasks_ok w \<Longrightarrow> tasks_ok (?w w)"
      using that by (intro tasks_ok_insert new_task_row_ok) (auto simp: new_task_def)
    ultimately show ?thesis
      by (auto simp: sound_def db_ok_def intro: q_evolves_cong elim!: questions_ok_frame)
  qed
  then show "keeps sound (\<lambda>w. if \<not> valid_channel c then (Inl (DbError ''invalid channel''), w)
       else if p \<noteq> None \<and> task_lookup (the p) w = None
       then (Inl (DbError ''parent_task_id violates foreign key''), w)
       else let t = ?t w in
         (Inr t, w\<lparr>next_id := Suc (next_id w), tasks := tasks w @ [t]\<rparr>))"
    by (auto simp: keeps_def Let_def sound.refl)
qed

lemmas task_dao_sound = task_updates_sound attach_plan_sound rollup_sound append_event_sound
  reads_sound walk_depth_sound walk_root_sound task_create_sound

subsection \<open>Every question operation is sound\<close>

lemma update_question_sound: "q_update_ok p f \<Longrightarrow> keeps sound (update_question p f)"
  unfolding update_question_def by (rule sound.stmt) (simp add: keeps_def q_update_sound)

lemma notify_sound: "keeps sound (notify_resolved qid)"
  unfolding notify_resolved_def by (intro sound.effort sound.stmt sound_modify) simp

lemma question_create_sound: "keeps sound (question_create tid u qu th ch os ur to)"
  unfolding question_create_def
proof (rule sound.stmt)
  let ?q = "\<lambda>w. new_question (Uuid (next_id w)) (now w) tid u qu th ch os ur to"
  let ?w = "\<lambda>w. w\<lparr>next_id := Suc (next_id w), questions := questions w @ [?q w]\<rparr>"
  have "sound w (?w w)" if tid: "task_lookup tid w \<noteq> None" for w
  proof -
    have "evolves w (?w w)" by (rule evolves_cong) simp
    moreover have "q_evolves w (?w w)" by (auto simp: q_evolves_def key_lookup_append)
    moreover have "tasks_ok (?w w)" if "tasks_ok w" using that by (rule tasks_ok_frame) auto
    moreover have "questions_ok (?w w)" if ok: "questions_ok w"
    proof -
      have "uuid_nat (q_id q) < next_id w" if "q \<in> set (questions w)" for q
        using ok that by (auto simp: questions_ok_def)
      then have "Uuid (next_id w) \<notin> q_id ` set (questions w)" by (metis imageE less_irrefl uuid.sel)
      then show ?thesis
        using ok tid
        by (auto simp: questions_ok_def key_distinct_def new_question_def q_row_ok_def less_Suc_eq)
    qed
    ultimately show ?thesis by (simp add: sound_def db_ok_def)
  qed
  then show "keeps sound (\<lambda>w.
       if task_lookup tid w = None
       then (Inl (DbError ''task_id violates foreign key''), w)
       else let q = ?q w in
         (Inr q, w\<lparr>next_id := Suc (next_id w), questions := questions w @ [q]\<rparr>))"
    by (auto simp: keeps_def Let_def sound.refl)
qed

lemma mark_answered_sound: "keeps sound (mark_answered qid user a)"
  unfolding mark_answered_def
  by (intro sound.bind sound.if_ sound.andThen sound.ret sound.stmt sound.gets notify_sound
      update_question_sound q_updates_ok)

lemma mark_resolved_sound: "keeps sound (mark_timeout qid)" "keeps sound (mark_cancelled qid)"
  unfolding mark_timeout_def mark_cancelled_def
  by (intro sound.andThen sound.ret notify_sound update_question_sound q_updates_ok)+

lemma question_reads_sound:
  "keeps sound (question_get qid)" "keeps sound (get_open_for_user user)" "keeps sound touch"
  unfolding question_get_def get_open_for_user_def touch_def
  by (intro sound.stmt sound.gets sound.ret)+

interpretation sound: clock_order sound
  by unfold_locales (rule sound_frame; simp)

lemmas wait_for_answer_sound = sound.wait_for_answer

lemmas question_dao_sound = question_create_sound mark_answered_sound mark_resolved_sound
  question_reads_sound wait_for_answer_sound

end
