(* ===== verification/Questions_Facts.thy ===== *)
theory Questions_Facts
  imports Soundness
begin

section \<open>What the durable wait and the compare-and-set promise\<close>

text \<open>
  The behaviour of \<open>mark_answered\<close> on every branch, and of \<open>wait_for_answer\<close>: it ends by its
  deadline, it returns a resolved row or reports that the question is still open, it sees a
  resolution at most one backstop after it happened, whether or not the notification arrived.
\<close>

subsection \<open>The compare-and-set\<close>

definition cas_outcome :: "uuid \<Rightarrow> uuid \<Rightarrow> world \<Rightarrow> answer_outcome" where
  "cas_outcome qid user w =
     (case question_lookup qid w of
        None \<Rightarrow> UNKNOWN
      | Some q \<Rightarrow> if q_user_id q \<noteq> user then UNKNOWN
                 else if q_status q = QPending then ANSWERED else ALREADY)"

lemma mark_answered_run:
  assumes "script w = []" and "key_distinct q_id (questions w)"
  shows "fst (mark_answered qid user a w) = Inr (cas_outcome qid user w)"
    and "question_lookup qid (snd (mark_answered qid user a w)) =
      map_option (\<lambda>q. if q_user_id q = user \<and> q_status q = QPending
        then set_answered a (now w) q else q) (question_lookup qid w)"
    and "outbox (snd (mark_answered qid user a w)) = outbox w @
      (if cas_outcome qid user w = ANSWERED then [(NOTIFY_CHANNEL, qid, uuid_text qid)] else [])"
proof -
  have first: "sql_first (\<lambda>q. open_question qid q \<and> q_user_id q = user) (questions w) =
      (case question_lookup qid w of
         Some q \<Rightarrow> if q_status q = QPending \<and> q_user_id q = user then Some q else None
       | None \<Rightarrow> None)"
    using sql_first_guarded[OF assms(2), of qid "\<lambda>q. q_status q = QPending \<and> q_user_id q = user"]
    by (simp add: open_question_def conj_assoc)
  have owned: "sql_first (\<lambda>q. q_id q = qid \<and> q_user_id q = user) (questions w) =
      (case question_lookup qid w of
         Some q \<Rightarrow> if q_user_id q = user then Some q else None | None \<Rightarrow> None)"
    by (rule sql_first_guarded[OF assms(2)])
  have set: "key_lookup q_id qid (sql_set (\<lambda>q. open_question qid q \<and> q_user_id q = user)
        (set_answered a (now w)) (questions w)) =
      map_option (\<lambda>q. if q_user_id q = user \<and> q_status q = QPending
        then set_answered a (now w) q else q) (question_lookup qid w)"
    by (cases "question_lookup qid w")
      (auto simp: answered.lookup_set open_question_def dest: key_lookup_SomeD)
  note none = sql_set_none[of "\<lambda>q. open_question qid q \<and> q_user_id q = user" "questions w"]
  show "fst (mark_answered qid user a w) = Inr (cas_outcome qid user w)"
    "question_lookup qid (snd (mark_answered qid user a w)) =
      map_option (\<lambda>q. if q_user_id q = user \<and> q_status q = QPending
        then set_answered a (now w) q else q) (question_lookup qid w)"
    "outbox (snd (mark_answered qid user a w)) = outbox w @
      (if cas_outcome qid user w = ANSWERED then [(NOTIFY_CHANNEL, qid, uuid_text qid)] else [])"
    using assms(1) first owned set none
    by (auto simp: mark_answered_def update_question_def notify_resolved_def io_defs
        sql_returning_def cas_outcome_def split: option.splits)
qed

subsection \<open>Listening\<close>

lemma env_apply_question:
  assumes "question_lookup qid w = Some q"
  obtains q' where "question_lookup qid (env_apply a w) = Some q'"
    and "q' = q \<or> q_status q = QPending \<and> q_status q' \<noteq> QPending \<and> q_answered_at q' = Some (now w)"
proof (cases a)
  case (EnvAnswer i user ans heard)
  with assms that show ?thesis
    by (auto simp: answered.lookup_set open_question_def set_answered_def split: if_splits)
next
  case (EnvCancelQuestion i heard)
  with assms that show ?thesis
    by (auto simp: resolved.lookup_set open_question_def set_resolved_def split: if_splits)
qed (use assms that in auto)

text \<open>\<open>fresh_since n qid w\<close>: the question is open, or was resolved at a time not before \<open>n\<close>.\<close>

definition fresh_since :: "time \<Rightarrow> uuid \<Rightarrow> world \<Rightarrow> bool" where
  "fresh_since n qid w \<longleftrightarrow>
     (\<exists>q. question_lookup qid w = Some q \<and>
        (q_status q = QPending \<or> (\<exists>s. q_answered_at q = Some s \<and> n \<le> s)))"

lemma fresh_since_cong: "questions w' = questions w \<Longrightarrow> fresh_since n qid w' = fresh_since n qid w"
  by (simp add: fresh_since_def)

lemma env_apply_fresh_since:
  assumes "fresh_since n qid w" and "n \<le> now w" shows "fresh_since n qid (env_apply a w)"
proof -
  from assms(1) obtain q where q: "question_lookup qid w = Some q"
    and or: "q_status q = QPending \<or> (\<exists>s. q_answered_at q = Some s \<and> n \<le> s)"
    by (auto simp: fresh_since_def)
  show ?thesis
    using env_apply_question[OF q, of a] or assms(2) unfolding fresh_since_def by metis
qed

lemma listen_fresh_since:
  "fresh_since n qid w \<Longrightarrow> n \<le> now w \<Longrightarrow> 0 \<le> d \<Longrightarrow>
   fresh_since n qid (snd (listen qid es d w))"
proof (induction qid es d w rule: listen.induct)
  case (1 qid d w)
  then show ?case by (simp add: fresh_since_def)
next
  case (2 qid k a es d w)
  let ?w = "w\<lparr>now := now w + max 0 k\<rparr>"
  have step: "fresh_since n qid (env_apply a ?w)"
    using 2(2,3) by (intro env_apply_fresh_since) (auto simp: fresh_since_def)
  show ?case
  proof (cases "k \<le> d \<and> \<not> signals qid a ?w")
    case True
    with 2(1)[OF _ refl _ step] 2(3,4) show ?thesis by (simp add: Let_def)
  next
    case False
    with step 2(2) show ?thesis by (auto simp: Let_def fresh_since_def)
  qed
qed

lemma listen_script: "script (snd (listen qid es d w)) = script w"
  by (induction qid es d w rule: listen.induct) (auto simp: Let_def)

subsection \<open>The loop\<close>

lemma wait_loop_quiet:
  assumes "script w = []"
  shows "wait_loop qid deadline w =
     (if \<not> unresolved (question_lookup qid w) then (Inr (question_lookup qid w), w)
      else if deadline \<le> now w then (Inr None, w)
      else wait_loop qid deadline (snd (listen qid (env w) (min BACKSTOP (deadline - now w)) w)))"
  using assms by (subst wait_loop.simps) (simp add: question_get_def)

definition timely :: "time \<Rightarrow> uuid \<Rightarrow> world \<Rightarrow> bool" where
  "timely n qid w \<longleftrightarrow>
     (\<exists>q. question_lookup qid w = Some q \<and>
        (q_status q = QPending \<or>
         (\<exists>s. q_answered_at q = Some s \<and> now w \<le> max s n + BACKSTOP)))"

definition wait_result :: "time \<Rightarrow> time \<Rightarrow> uuid \<Rightarrow> pending_question option \<Rightarrow> world \<Rightarrow> bool" where
  "wait_result n deadline qid r w' \<longleftrightarrow>
     (case r of
        None \<Rightarrow> now w' = max n deadline \<and> unresolved (question_lookup qid w')
      | Some q \<Rightarrow> now w' \<le> max n deadline \<and> question_lookup qid w' = Some q \<and>
          q_status q \<noteq> QPending \<and>
          (\<exists>s. q_answered_at q = Some s \<and> now w' \<le> max s n + BACKSTOP))"

lemma wait_loop_result:
  "script w = [] \<Longrightarrow> timely n qid w \<Longrightarrow> n \<le> now w \<Longrightarrow> now w \<le> max n deadline \<Longrightarrow>
   \<exists>r w'. wait_loop qid deadline w = (Inr r, w') \<and> wait_result n deadline qid r w'"
proof (induction "nat (deadline - now w) + length (env w)" arbitrary: w rule: less_induct)
  case less
  note quiet = less.prems(1) and timely = less.prems(2) and bounds = less.prems(3,4)
  let ?cur = "question_lookup qid w"
  let ?d = "min BACKSTOP (deadline - now w)"
  let ?w = "snd (listen qid (env w) ?d w)"
  consider (settled) "\<not> unresolved ?cur" | (late) "unresolved ?cur" "deadline \<le> now w"
    | (again) "unresolved ?cur" "now w < deadline" by linarith
  then show ?case
  proof cases
    case settled
    with timely bounds show ?thesis
      by (auto simp: wait_loop_quiet[OF quiet] wait_result_def timely_def unresolved_def)
  next
    case late
    with bounds show ?thesis
      by (auto simp: wait_loop_quiet[OF quiet] wait_result_def)
  next
    case again
    have d: "0 \<le> ?d" "?d \<le> BACKSTOP" "?d \<le> deadline - now w"
      using again(2) by (auto simp: BACKSTOP_def second_def)
    obtain woke w2 where l: "listen qid (env w) ?d w = (woke, w2)"
      by (cases "listen qid (env w) ?d w")
    note prog = listen_progress[OF d(1) l]
    have get: "(Inr ?cur, w) = question_get qid w" using quiet by (simp add: question_get_def)
    have smaller: "nat (deadline - now ?w) + length (env ?w)
        < nat (deadline - now w) + length (env w)"
      using wait_progress[OF get] again(2) by simp
    have "fresh_since (now w) qid ?w"
      using again(1) d(1) timely
      by (intro listen_fresh_since) (auto simp: fresh_since_def unresolved_def timely_def)
    then have "timely n qid ?w"
      using prog d(2) l bounds(1) by (fastforce simp: timely_def fresh_since_def)
    moreover have "script ?w = []" using quiet listen_script by metis
    moreover have "n \<le> now ?w" "now ?w \<le> max n deadline"
      using prog l bounds d(3) by auto
    ultimately have "\<exists>r w'. wait_loop qid deadline ?w = (Inr r, w') \<and> wait_result n deadline qid r w'"
      using less.hyps[OF smaller] by blast
    moreover have "wait_loop qid deadline w = wait_loop qid deadline ?w"
      using again by (subst wait_loop_quiet[OF quiet]) simp
    ultimately show ?thesis by simp
  qed
qed

lemma touch_quiet [simp]: "script w = [] \<Longrightarrow> touch w = (Inr (), w)"
  by (simp add: touch_def)

lemma wait_loop_script: "script w = [] \<Longrightarrow> script (snd (wait_loop qid d w)) = []"
proof (induction qid d w rule: wait_loop.induct)
  case (1 qid d w)
  have get: "question_get qid w = (Inr (question_lookup qid w), w)"
    using 1(2) by (simp add: question_get_def)
  let ?w = "snd (listen qid (env w) (min BACKSTOP (d - now w)) w)"
  have "script ?w = []" using 1(2) listen_script by metis
  with 1(1)[OF get[symmetric] refl _ refl]
  have "unresolved (question_lookup qid w) \<Longrightarrow> now w < d \<Longrightarrow> script (snd (wait_loop qid d ?w)) = []"
    by auto
  then show ?case by (subst wait_loop_quiet[OF 1(2)]) (auto simp: 1(2))
qed

lemma wait_for_answer_quiet:
  assumes "script w = []"
  shows "wait_for_answer qid t w = wait_loop qid (now w + t) w"
proof -
  obtain r w' where l: "wait_loop qid (now w + t) w = (r, w')" by (cases "wait_loop qid (now w + t) w")
  have "script w' = []" using wait_loop_script[OF assms, of qid "now w + t"] l by simp
  with assms l show ?thesis
    by (simp add: wait_for_answer_def thenE_Inr[of touch w "()" w] finallyE_def best_effort_def)
qed

lemma wait_for_answer_result:
  assumes "script w = []" and "questions_ok w" and "question_lookup qid w \<noteq> None"
  shows "\<exists>r w'. wait_for_answer qid t w = (Inr r, w') \<and> wait_result (now w) (now w + t) qid r w'"
proof -
  obtain q where q: "question_lookup qid w = Some q" using assms(3) by blast
  then have "q_row_ok q" using assms(2) key_lookup_SomeD[OF q] by (auto simp: questions_ok_def)
  with q have "timely (now w) qid w"
    by (auto simp: timely_def q_row_ok_def BACKSTOP_def second_def)
  from wait_loop_result[OF assms(1) this, of "now w + t"]
  show ?thesis by (simp add: wait_for_answer_quiet[OF assms(1)])
qed

text \<open>No other process times a question out: only the waiter that asked does.\<close>

definition not_timed_out :: "uuid \<Rightarrow> world \<Rightarrow> bool" where
  "not_timed_out qid w \<longleftrightarrow> (\<forall>q. question_lookup qid w = Some q \<longrightarrow> q_status q \<noteq> QTimeout)"

lemma env_apply_not_timed_out: "not_timed_out qid w \<Longrightarrow> not_timed_out qid (env_apply a w)"
  by (cases a)
    (auto simp: not_timed_out_def answered.lookup_set resolved.lookup_set set_answered_def
      set_resolved_def split: if_splits)

lemma not_timed_out_script: "not_timed_out qid (w\<lparr>script := xs\<rparr>) = not_timed_out qid w"
  by (simp add: not_timed_out_def)

interpretation not_timed_out:
  clock_order "\<lambda>w w'. not_timed_out qid w \<longrightarrow> not_timed_out qid w'" for qid
proof unfold_locales
  fix u w v :: world and a xs ys n es
  show "not_timed_out qid w \<longrightarrow> not_timed_out qid w" by blast
  show "not_timed_out qid u \<longrightarrow> not_timed_out qid v \<Longrightarrow>
      not_timed_out qid v \<longrightarrow> not_timed_out qid w \<Longrightarrow>
      not_timed_out qid u \<longrightarrow> not_timed_out qid w" by blast
  show "not_timed_out qid w \<longrightarrow> not_timed_out qid (w\<lparr>next_id := Suc (next_id w)\<rparr>)"
    "not_timed_out qid w \<longrightarrow> not_timed_out qid (w\<lparr>stream := ys\<rparr>)"
    "not_timed_out qid w \<longrightarrow> not_timed_out qid (w\<lparr>now := n, env := es\<rparr>)"
    by (simp_all add: not_timed_out_def)
  show "not_timed_out qid w \<longrightarrow> not_timed_out qid (env_apply a w)"
    using env_apply_not_timed_out by blast
  show "not_timed_out qid w \<longrightarrow> not_timed_out qid (w\<lparr>script := xs\<rparr>)"
    by (simp add: not_timed_out_script)
qed

subsection \<open>One answer, heard or not\<close>

lemma wait_loop_one_answer:
  assumes "script w = []" and "question_lookup qid w = Some q" and "q_status q = QPending"
    and "q_user_id q = user" and "env w = [(k, EnvAnswer qid user a heard)]"
    and "key_distinct q_id (questions w)" and "0 \<le> k" and "now w + k \<le> deadline"
    and "now w < deadline"
  shows "\<exists>w'. wait_loop qid deadline w = (Inr (Some (set_answered a (now w + k) q)), w') \<and>
     now w' \<le> now w + k + BACKSTOP \<and> (heard \<longrightarrow> now w' = now w + k)"
  using assms
proof (induction "nat k" arbitrary: w k rule: less_induct)
  case less
  note prems = less.prems
  have pend: "unresolved (question_lookup qid w)" using prems by (simp add: unresolved_def)
  let ?d = "min BACKSTOP (deadline - now w)"
  let ?ans = "set_answered a (now w + k) q"
  have hit: "key_lookup q_id qid (sql_set (\<lambda>q. open_question qid q \<and> q_user_id q = user)
      (set_answered a (now w + k)) (questions w)) = Some ?ans"
    using prems key_lookup_SomeD[OF prems(2)]
    by (intro answered.lookup_set_hit) (auto simp: open_question_def)
  have first: "sql_first (\<lambda>r. open_question qid r \<and> q_user_id r = user) (questions w) \<noteq> None"
    using sql_first_guarded[OF prems(6), of qid "\<lambda>q. q_status q = QPending \<and> q_user_id q = user"]
      prems(2-4) by (simp add: open_question_def conj_assoc)
  have stop: "wait_loop qid deadline v = (Inr (Some ?ans), v)"
    if "script v = []" "question_lookup qid v = Some ?ans" for v
    using that by (simp add: wait_loop_quiet unresolved_def set_answered_def)
  have loop: "wait_loop qid deadline w = wait_loop qid deadline (snd (listen qid (env w) ?d w))"
    using pend prems(9) by (subst wait_loop_quiet[OF prems(1)]) simp
  show ?case
  proof (cases "k \<le> ?d")
    case True
    let ?v = "\<lambda>n. w\<lparr>now := n, questions := sql_set (\<lambda>q. open_question qid q \<and> q_user_id q = user)
      (set_answered a (now w + k)) (questions w), env := []\<rparr>"
    have "snd (listen qid (env w) ?d w) = ?v (if heard then now w + k else now w + ?d)"
      using True prems(5,7) first by simp
    moreover have "wait_loop qid deadline (?v n) = (Inr (Some ?ans), ?v n)" for n
      by (rule stop) (use prems(1) hit in simp_all)
    ultimately have "wait_loop qid deadline w =
        (Inr (Some ?ans), ?v (if heard then now w + k else now w + ?d))"
      using loop by simp
    moreover have "now w + ?d \<le> now w + k + BACKSTOP" using prems(7) by linarith
    ultimately show ?thesis using prems(7) by (auto simp: BACKSTOP_def second_def)
  next
    case False
    then have d: "?d = BACKSTOP" using prems(8) by linarith
    let ?v = "w\<lparr>now := now w + BACKSTOP, env := [(k - BACKSTOP, EnvAnswer qid user a heard)]\<rparr>"
    have v: "snd (listen qid (env w) ?d w) = ?v" using False prems(5) d by simp
    have "BACKSTOP < k" using False d by linarith
    then have small: "nat (k - BACKSTOP) < nat k" by (simp add: BACKSTOP_def second_def)
    have "\<exists>w'. wait_loop qid deadline ?v = (Inr (Some (set_answered a (now ?v + (k - BACKSTOP)) q)), w') \<and>
        now w' \<le> now ?v + (k - BACKSTOP) + BACKSTOP \<and> (heard \<longrightarrow> now w' = now ?v + (k - BACKSTOP))"
      by (rule less.hyps[OF small]) (use prems False d in simp_all)
    then show ?thesis using loop v by simp
  qed
qed


subsection \<open>Properties\<close>

text \<open>C12: Answering a question is a compare-and-set scoped to its owner: exactly the first answer
  of the owner to a pending question is recorded and notified; a stranger sees UNKNOWN and a late
  answer ALREADY, and neither changes the row.\<close>

theorem answer_compare_and_set:
  assumes "script w = []" and "key_distinct q_id (questions w)"
  shows "fst (mark_answered qid user a w) = Inr (cas_outcome qid user w) \<and>
    question_lookup qid (snd (mark_answered qid user a w)) =
      map_option (\<lambda>q. if q_user_id q = user \<and> q_status q = QPending
        then set_answered a (now w) q else q) (question_lookup qid w) \<and>
    outbox (snd (mark_answered qid user a w)) = outbox w @
      (if cas_outcome qid user w = ANSWERED then [(NOTIFY_CHANNEL, qid, uuid_text qid)] else [])"
  using mark_answered_run[OF assms] by simp

text \<open>C10: A wait of \<open>t\<close> seconds always returns by its deadline. It returns a row that has left
  pending, at most one 15 second backstop after the row was resolved, whatever happened to the
  notifications; or, exactly at the deadline, nothing, and then the row is still pending.\<close>

theorem wait_bounded_and_timely:
  assumes "script w = []" and "questions_ok w" and "question_lookup qid w \<noteq> None"
  shows "\<exists>r w'. wait_for_answer qid t w = (Inr r, w') \<and>
    (case r of
       None \<Rightarrow> now w' = max (now w) (now w + t) \<and> unresolved (question_lookup qid w')
     | Some q \<Rightarrow> now w' \<le> max (now w) (now w + t) \<and> question_lookup qid w' = Some q \<and>
         q_status q \<noteq> QPending \<and>
         (\<exists>s. q_answered_at q = Some s \<and> now w' \<le> max s (now w) + BACKSTOP))"
  using wait_for_answer_result[OF assms, of t] by (simp add: wait_result_def)

text \<open>C11: An answer given from another process during the wait is returned, even when its
  notification is lost; when it is heard, the waiter returns at the very time of the answer.\<close>

theorem answer_reaches_waiter:
  assumes "script w = []" and "key_distinct q_id (questions w)"
    and "question_lookup qid w = Some q" and "q_status q = QPending" and "q_user_id q = user"
    and "env w = [(k, EnvAnswer qid user a heard)]" and "0 \<le> k" and "k \<le> t" and "0 < t"
  shows "\<exists>w'. wait_for_answer qid t w = (Inr (Some (set_answered a (now w + k) q)), w') \<and>
    now w' \<le> now w + k + BACKSTOP \<and> (heard \<longrightarrow> now w' = now w + k)"
  using wait_loop_one_answer[OF assms(1,3,4,5,6,2,7), of "now w + t"] assms(1,8,9)
  by (simp add: wait_for_answer_quiet)

subsection \<open>Witnesses\<close>

definition sample_question :: pending_question where
  "sample_question = new_question (Uuid 7) 0 (Uuid 3) (Uuid 1) ''Overwrite?'' None None None
     ''normal'' 300"

definition waiting_world :: world where
  "waiting_world = empty_world\<lparr>next_id := 8, tasks := [new_task (Uuid 3) 0 (Uuid 1) ''t'' None None
     None None None], questions := [sample_question],
     env := [(20 * second, EnvAnswer (Uuid 7) (Uuid 1) ''yes'' False)]\<rparr>"

lemma waiting_facts:
  "script waiting_world = []" "now waiting_world = 0"
  "env waiting_world = [(20 * second, EnvAnswer (Uuid 7) (Uuid 1) ''yes'' False)]"
  "questions waiting_world = [sample_question]" "questions_ok waiting_world"
  "q_id sample_question = Uuid 7" "q_user_id sample_question = Uuid 1"
  "q_status sample_question = QPending"
  by (simp_all add: waiting_world_def sample_question_def new_question_def empty_world_def
      questions_ok_def key_distinct_def q_row_ok_def new_task_def)

lemma answer_compare_and_set_witness:
  "fst (mark_answered (Uuid 7) (Uuid 1) ''yes'' waiting_world) = Inr ANSWERED \<and>
   fst (mark_answered (Uuid 7) (Uuid 2) ''no'' waiting_world) = Inr UNKNOWN"
  using answer_compare_and_set[of waiting_world "Uuid 7" "Uuid 1" "''yes''"]
    answer_compare_and_set[of waiting_world "Uuid 7" "Uuid 2" "''no''"]
  by (simp add: waiting_facts key_distinct_def cas_outcome_def)

lemma wait_bounded_and_timely_witness:
  "\<exists>r w'. wait_for_answer (Uuid 7) (30 * second) waiting_world = (Inr r, w') \<and>
     now w' \<le> 30 * second"
proof -
  have "question_lookup (Uuid 7) waiting_world \<noteq> None" by (simp add: waiting_facts)
  from wait_bounded_and_timely[OF waiting_facts(1,5) this, of "30 * second"]
  show ?thesis by (auto simp: waiting_facts second_def split: option.splits)
qed

lemma answer_reaches_waiter_witness:
  "\<exists>w'. wait_for_answer (Uuid 7) (30 * second) waiting_world =
      (Inr (Some (set_answered ''yes'' (20 * second) sample_question)), w') \<and>
     now w' \<le> 35 * second"
  using answer_reaches_waiter[of waiting_world "Uuid 7" sample_question "Uuid 1" "20 * second"
      "''yes''" False "30 * second"]
  by (simp add: waiting_facts key_distinct_def second_def BACKSTOP_def)

end
