(* ===== verification/Schemas.thy ===== *)
theory Schemas
  imports Database
begin

section \<open>Plans, steps and results\<close>

text \<open>
  \<open>src/wolfpaw/schemas.py\<close>: the dataclasses the planner, the executor and the evaluators pass
  to one another, and the step's JSON form. \<open>Step.from_dict\<close> accepts whatever the language
  model wrote, so the model keeps \<open>tool\<close> and \<open>parallel_group\<close> as JSON values and says which
  shapes make the constructor raise.
\<close>

datatype step_kind = Functional | Reasoning | Evaluation | Subagent | Tool_Creator

fun kind_text :: "step_kind \<Rightarrow> pystr" where
  "kind_text Functional = ''functional''"
| "kind_text Reasoning = ''reasoning''"
| "kind_text Evaluation = ''evaluation''"
| "kind_text Subagent = ''subagent''"
| "kind_text Tool_Creator = ''tool_creator''"

definition step_kinds :: "step_kind list" where
  "step_kinds = [Functional, Reasoning, Evaluation, Subagent, Tool_Creator]"

definition kind_of_text :: "pystr \<Rightarrow> step_kind option" where
  "kind_of_text s = find_some (\<lambda>k. if kind_text k = s then Some k else None) step_kinds"

datatype step_status = NOT_STARTED | RUNNING | COMPLETED | FAILED | SKIPPED

fun step_status_text :: "step_status \<Rightarrow> pystr" where
  "step_status_text NOT_STARTED = ''not_started''"
| "step_status_text RUNNING = ''running''"
| "step_status_text COMPLETED = ''completed''"
| "step_status_text FAILED = ''failed''"
| "step_status_text SKIPPED = ''skipped''"

record step =
  st_id :: pystr
  st_kind :: step_kind
  st_description :: pystr
  st_tool :: json
  st_inputs :: dict
  st_group :: json

record plan =
  pl_query :: pystr
  pl_summary :: pystr
  pl_steps :: "step list"
  pl_is_task :: bool
  pl_model :: pystr
  pl_adapted_from :: "uuid option"
  pl_skill :: json
  pl_id :: "uuid option"

record step_result =
  r_step_id :: pystr
  r_kind :: step_kind
  r_status :: step_status
  r_output :: json
  r_error :: "pystr option"
  r_elapsed :: time

record execution_plan =
  x_plan :: plan
  x_results :: "step_result list"
  x_final_answer :: pystr
  x_success :: bool
  x_error :: "pystr option"

record replan_context =
  rc_query :: pystr
  rc_completed :: "step_result list"
  rc_failed_step :: step
  rc_error :: pystr

record post_verdict =
  pv_score :: int
  pv_summary :: pystr
  pv_well :: pystr
  pv_wrong :: pystr
  pv_improvements :: pystr

record pre_verdict =
  ev_approved :: bool
  ev_achieves :: bool
  ev_simplifiable :: bool
  ev_better :: bool
  ev_diagnosis :: pystr

subsection \<open>JSON forms\<close>

definition step_to_dict :: "step \<Rightarrow> dict" where
  "step_to_dict s =
     [(''id'', JStr (st_id s)), (''kind'', JStr (kind_text (st_kind s))),
      (''description'', JStr (st_description s)), (''tool'', st_tool s),
      (''inputs'', JObj (st_inputs s)), (''parallel_group'', st_group s)]"

definition plan_to_steps_jsonb :: "plan \<Rightarrow> json list" where
  "plan_to_steps_jsonb p = map (\<lambda>s. JObj (step_to_dict s)) (pl_steps p)"

text \<open>\<open>dict(x)\<close>: a dictionary, or a list of two-element lists; anything else raises.\<close>

fun pair_of :: "json \<Rightarrow> (pystr \<times> json) option" where
  "pair_of (JArr [JStr k, v]) = Some (k, v)"
| "pair_of (JStr [a, b]) = Some ([a], JStr [b])"
| "pair_of _ = None"

fun py_dict :: "json \<Rightarrow> exn + dict" where
  "py_dict (JObj d) = Inr d"
| "py_dict (JArr xs) =
     (if list_all (\<lambda>x. pair_of x \<noteq> None) xs
      then Inr (fold (\<lambda>x d. case pair_of x of Some (k, v) \<Rightarrow> dict_set k v d | None \<Rightarrow> d) xs [])
      else Inl (OtherError ''dictionary update sequence element has the wrong shape''))"
| "py_dict _ = Inl (OtherError ''object is not iterable'')"

fun kind_of_json :: "json \<Rightarrow> exn + step_kind" where
  "kind_of_json (JStr s) = Inr (case kind_of_text s of Some k \<Rightarrow> k | None \<Rightarrow> Functional)"
| "kind_of_json (JArr xs) = Inl (OtherError ''unhashable type: 'list' '')"
| "kind_of_json (JObj d) = Inl (OtherError ''unhashable type: 'dict' '')"
| "kind_of_json _ = Inr Functional"

fun step_from_dict :: "json \<Rightarrow> exn + step" where
  "step_from_dict (JObj data) =
     (case kind_of_json (get_default data ''kind'' (JStr ''functional'')) of
        Inl e \<Rightarrow> Inl e
      | Inr kind \<Rightarrow>
          (case py_dict (get_or data ''inputs'' (JObj [])) of
             Inl e \<Rightarrow> Inl e
           | Inr inputs \<Rightarrow> Inr
               \<lparr> st_id = json_str (get_default data ''id'' (JStr [])), st_kind = kind,
                 st_description = json_str (get_default data ''description'' (JStr [])),
                 st_tool = get_default data ''tool'' JNull, st_inputs = inputs,
                 st_group = get_default data ''parallel_group'' JNull \<rparr>))"
| "step_from_dict _ = Inl (OtherError ''object has no attribute 'get' '')"

definition post_verdict_to_jsonb :: "post_verdict \<Rightarrow> dict" where
  "post_verdict_to_jsonb v =
     [(''score'', JInt (pv_score v)), (''summary'', JStr (pv_summary v)),
      (''what_went_well'', JStr (pv_well v)), (''what_went_wrong'', JStr (pv_wrong v)),
      (''improvements'', JStr (pv_improvements v))]"

definition pre_verdict_to_jsonb :: "pre_verdict \<Rightarrow> dict" where
  "pre_verdict_to_jsonb v =
     [(''approved'', JBool (ev_approved v)), (''achieves_objective'', JBool (ev_achieves v)),
      (''simplifiable'', JBool (ev_simplifiable v)),
      (''better_than_past_plans'', JBool (ev_better v)), (''diagnosis'', JStr (ev_diagnosis v))]"

subsection \<open>The step round trip\<close>

lemma kind_of_text_text [simp]: "kind_of_text (kind_text k) = Some k"
  by (cases k) (simp_all add: kind_of_text_def step_kinds_def)

lemma step_read_back: "step_from_dict (JObj (step_to_dict s)) = Inr s"
proof -
  have "get_default (step_to_dict s) ''kind'' d = JStr (kind_text (st_kind s))"
    "get_or (step_to_dict s) ''inputs'' (JObj []) = JObj (st_inputs s)"
    "get_default (step_to_dict s) ''id'' d = JStr (st_id s)"
    "get_default (step_to_dict s) ''description'' d = JStr (st_description s)"
    "get_default (step_to_dict s) ''tool'' d = st_tool s"
    "get_default (step_to_dict s) ''parallel_group'' d = st_group s" for d
    by (simp_all add: step_to_dict_def get_default_def get_or_def)
  then show ?thesis by simp
qed

text \<open>A step survives its JSON form: reading back what \<open>to_dict\<close> wrote gives the step.\<close>

theorem step_round_trip: "step_from_dict (JObj (step_to_dict s)) = Inr s"
  by (rule step_read_back)

end
