(* ===== verification/Registry.thy ===== *)
theory Registry
  imports Schemas Soundness "HOL-Library.AList" "HOL-Library.Multiset"
begin

section \<open>Tools and their registry\<close>

text \<open>
  \<open>src/wolfpaw/toolbox/registry.py\<close>. A tool is its name, description, input schema, whether it
  needs a task, and its \<open>run\<close>. The registry is a Python dictionary: an association list in
  insertion order, in which registering a name again replaces the tool in place.

  A registry is \<open>reg_ok\<close> when every tool is stored under its own name, once; \<open>register\<close> keeps
  that, and under it \<open>all\<close> and \<open>names\<close> list the same tools in the same order.
\<close>

record tool_ctx =
  c_user :: uuid
  c_task :: "uuid option"
  c_trace :: "pystr option"
  c_channel :: "pystr option"
  c_emit :: bool

record tool =
  tl_name :: pystr
  tl_description :: pystr
  tl_schema :: dict
  tl_needs_task :: bool
  tl_run :: "tool_ctx \<Rightarrow> dict \<Rightarrow> dict act"

type_synonym registry = "(pystr \<times> tool) list"

definition tool_to_schema :: "tool \<Rightarrow> dict" where
  "tool_to_schema t =
     [(''name'', JStr (tl_name t)), (''description'', JStr (tl_description t)),
      (''input_schema'', JObj (tl_schema t))]"

definition register :: "tool \<Rightarrow> registry \<Rightarrow> exn + registry" where
  "register t r =
     (if tl_name t = [] then Inl (ValueError ''tool must have a non-empty name'')
      else Inr (AList.update (tl_name t) t r))"

definition unknown_tool :: "pystr \<Rightarrow> pystr" where
  "unknown_tool name = ''unknown tool: '' @ py_repr name"

definition reg_get :: "registry \<Rightarrow> pystr \<Rightarrow> exn + tool" where
  "reg_get r name =
     (case map_of r name of Some t \<Rightarrow> Inr t | None \<Rightarrow> Inl (KeyError (unknown_tool name)))"

definition try_get :: "registry \<Rightarrow> pystr \<Rightarrow> tool option" where
  "try_get r name = map_of r name"

definition reg_all :: "registry \<Rightarrow> tool list" where
  "reg_all r = sort_key tl_name (map snd r)"

definition reg_names :: "registry \<Rightarrow> pystr list" where
  "reg_names r = sort (map fst r)"

definition type_name :: "json \<Rightarrow> pystr" where
  "type_name prop =
     (case prop of
        JObj p \<Rightarrow>
          (case get_default p ''type'' (JStr ''any'') of
             JArr xs \<Rightarrow> json_str (case List.find (\<lambda>x. x \<noteq> JStr ''null'') xs of
                                  Some x \<Rightarrow> x | None \<Rightarrow> JStr ''any'')
           | t \<Rightarrow> json_str t)
      | _ \<Rightarrow> ''any'')"

definition strings_in :: "json \<Rightarrow> pystr list" where
  "strings_in j = (case j of JArr xs \<Rightarrow> List.map_filter as_str xs | _ \<Rightarrow> [])"

definition format_tool_signature :: "tool \<Rightarrow> pystr" where
  "format_tool_signature t =
     (let props = (case get_or (tl_schema t) ''properties'' (JObj []) of JObj d \<Rightarrow> d | _ \<Rightarrow> []);
          required = remdups (strings_in (get_or (tl_schema t) ''required'' (JArr [])));
          optional = filter (\<lambda>n. n \<notin> set required) (map fst props);
          show_arg = (\<lambda>suffix n. case dict_get props n of
             Some p \<Rightarrow> [n @ suffix @ '': '' @ type_name p] | None \<Rightarrow> [])
      in join '', '' (concat (map (show_arg []) (sort required)) @
                      concat (map (show_arg ''?'') (sort optional))))"

definition catalog_line :: "tool \<Rightarrow> pystr" where
  "catalog_line t = ''- `'' @ tl_name t @ ''('' @ format_tool_signature t @ '')` '' @ [em_dash] @
     '' '' @ before newline (strip (tl_description t))"

definition catalog_block :: "registry \<Rightarrow> pystr" where
  "catalog_block r = lines_of (''## Available builtin tools'' # map catalog_line (reg_all r))"

subsection \<open>The registry's invariant\<close>

definition reg_ok :: "registry \<Rightarrow> bool" where
  "reg_ok r \<longleftrightarrow> distinct (map fst r) \<and> (\<forall>(n, t)\<in>set r. tl_name t = n \<and> n \<noteq> [])"

lemma reg_ok_Nil: "reg_ok []"
  by (simp add: reg_ok_def)

lemma register_ok:
  assumes "reg_ok r" and "register t r = Inr r'"
  shows "reg_ok r'"
proof -
  from assms(2) have r': "r' = AList.update (tl_name t) t r" and t: "tl_name t \<noteq> []"
    by (auto simp: register_def split: if_splits)
  have "distinct (map fst r')"
    using assms(1) unfolding r' by (simp add: reg_ok_def distinct_update)
  moreover have "tl_name u = n \<and> n \<noteq> []" if "(n, u) \<in> set r'" for n u
  proof -
    have "map_of r' n = Some u" using that \<open>distinct (map fst r')\<close> by simp
    then have "if n = tl_name t then u = t else map_of r n = Some u"
      unfolding r' by (auto simp: update_conv' split: if_splits)
    with t assms(1) show ?thesis
      by (auto simp: reg_ok_def split: if_splits dest!: map_of_SomeD)
  qed
  ultimately show ?thesis by (auto simp: reg_ok_def)
qed

lemma register_get:
  assumes "register t r = Inr r'"
  shows "try_get r' n = (if n = tl_name t then Some t else try_get r n)"
  using assms by (auto simp: register_def try_get_def update_conv' split: if_splits)

lemma reg_get_try: "reg_get r n = Inr t \<longleftrightarrow> try_get r n = Some t"
  by (auto simp: reg_get_def try_get_def split: option.splits)

lemma reg_all_names:
  assumes "reg_ok r" shows "map tl_name (reg_all r) = reg_names r"
proof -
  have "map tl_name (map snd r) = map fst r"
    using assms by (induction r) (auto simp: reg_ok_def)
  moreover have "sorted (map tl_name (reg_all r))" by (simp add: reg_all_def)
  moreover have "mset (map tl_name (reg_all r)) = mset (map tl_name (map snd r))"
    by (simp only: reg_all_def mset_map mset_sort)
  ultimately show ?thesis
    unfolding reg_names_def by (metis properties_for_sort)
qed

text \<open>The registry stays a function from names to tools under any sequence of
  registrations, a lookup returns the tool registered last under the name, and \<open>all()\<close> lists
  each tool once, sorted by name.\<close>

theorem registry_functional:
  assumes "reg_ok r" and "register t r = Inr r'"
  shows "reg_ok r' \<and> reg_get r' (tl_name t) = Inr t \<and>
    (\<forall>n. n \<noteq> tl_name t \<longrightarrow> reg_get r' n = reg_get r n) \<and>
    map tl_name (reg_all r') = reg_names r' \<and> distinct (reg_names r')"
proof (intro conjI allI impI)
  show ok: "reg_ok r'" using assms by (rule register_ok)
  show "reg_get r' (tl_name t) = Inr t" using assms(2) by (simp add: reg_get_try register_get)
  show "reg_get r' n = reg_get r n" if "n \<noteq> tl_name t" for n
    using that register_get[OF assms(2), of n] by (simp add: reg_get_def try_get_def)
  show "map tl_name (reg_all r') = reg_names r'" using ok by (rule reg_all_names)
  show "distinct (reg_names r')" using ok by (simp add: reg_names_def reg_ok_def)
qed

definition sample_tool :: "pystr \<Rightarrow> tool" where
  "sample_tool n = \<lparr> tl_name = n, tl_description = [], tl_schema = [], tl_needs_task = False,
     tl_run = (\<lambda>ctx inputs. ret []) \<rparr>"

lemma registry_functional_witness:
  "reg_names [(''b'', sample_tool ''b''), (''a'', sample_tool ''a'')] = [''a'', ''b''] \<and>
   reg_get [(''b'', sample_tool ''b''), (''a'', sample_tool ''a'')] ''a'' = Inr (sample_tool ''a'')"
proof -
  have r: "reg_ok [(''b'', sample_tool ''b'')]" by (simp add: reg_ok_def sample_tool_def)
  have reg: "register (sample_tool ''a'') [(''b'', sample_tool ''b'')] =
      Inr [(''b'', sample_tool ''b''), (''a'', sample_tool ''a'')]"
    by (simp add: register_def sample_tool_def)
  from registry_functional[OF r reg] show ?thesis
    by (simp add: reg_names_def) (simp add: sample_tool_def)
qed

end
