(* ===== verification/Ask_User.thy ===== *)
theory Ask_User
  imports Questions_Facts Registry
begin

section \<open>The ask-user tool\<close>

text \<open>
  \<open>src/wolfpaw/toolbox/tools/ask_user.py\<close> and the channel lookup of
  \<open>src/wolfpaw/channels/__init__.py\<close>. A channel is its name and its \<open>send\<close>; what a chat
  service does with a message is not modelled, so the senders are a parameter, of which
  \<open>channels_ok\<close> says that a send changes no table of ours.
\<close>

type_synonym sender = "uuid \<Rightarrow> pystr \<Rightarrow> unit act"

record channels =
  loaded :: "(pystr \<times> sender) list"
  builtin :: "(pystr \<times> sender) list"

definition register_channel :: "pystr \<Rightarrow> sender \<Rightarrow> channels \<Rightarrow> channels" where
  "register_channel name s c = c\<lparr>loaded := AList.update name s (loaded c)\<rparr>"

definition get_channel :: "channels \<Rightarrow> pystr \<Rightarrow> sender option" where
  "get_channel c name =
     (case map_of (loaded c) name of
        Some s \<Rightarrow> Some s
      | None \<Rightarrow> map_of (builtin c) name)"

text \<open>The web channel has no push transport.\<close>

definition web_send :: sender where
  "web_send user content =
     raise (NotImplementedError (''WebChannel.send is not implemented '' @ [em_dash] @
       '' web replies stream through the /chat SSE endpoint instead.''))"

definition format_for_push :: "pystr \<Rightarrow> json list option \<Rightarrow> pystr" where
  "format_for_push question options =
     (case options of
        None \<Rightarrow> question
      | Some [] \<Rightarrow> question
      | Some opts \<Rightarrow> lines_of ([question, []] @
          map (\<lambda>(i, opt). show_nat i @ ''. '' @ json_str opt) (enumerate 1 opts) @
          [[], ''Reply with your choice.'']))"

definition options_json :: "json list option \<Rightarrow> json" where
  "options_json options = JArr (case options of None \<Rightarrow> [] | Some xs \<Rightarrow> xs)"

definition question_payload :: "uuid \<Rightarrow> pystr \<Rightarrow> json list option \<Rightarrow> json \<Rightarrow> dict" where
  "question_payload qid question options urgency =
     [(''question_id'', JStr (uuid_text qid)), (''question'', JStr question),
      (''options'', options_json options), (''urgency'', urgency)]"

definition deliver_question ::
  "channels \<Rightarrow> tool_ctx \<Rightarrow> uuid \<Rightarrow> pystr \<Rightarrow> json list option \<Rightarrow> json \<Rightarrow> unit act" where
  "deliver_question chans ctx qid question options urgency =
     (if c_emit ctx
      then best_effort (maybe_emit True ''ask_user''
             (dumps (JObj (question_payload qid question options urgency))))
      else (case Option.bind (c_channel ctx) (get_channel chans) of
              None \<Rightarrow> ret ()
            | Some send \<Rightarrow> best_effort (send (c_user ctx) (format_for_push question options))))"

fun read_options :: "json option \<Rightarrow> exn + json list option" where
  "read_options None = Inr None"
| "read_options (Some JNull) = Inr None"
| "read_options (Some (JArr xs)) = Inr (Some xs)"
| "read_options (Some _) = Inl (ToolError ''`options` must be a list of strings'')"

definition read_question :: "dict \<Rightarrow> exn + pystr" where
  "read_question inputs =
     (case dict_get inputs ''question'' of
        Some (JStr s) \<Rightarrow>
          if strip s = [] then Inl (ToolError ''`question` must be a non-empty string'') else Inr s
      | _ \<Rightarrow> Inl (ToolError ''`question` must be a non-empty string''))"

definition question_ref :: "pending_question \<Rightarrow> pystr \<times> json" where
  "question_ref pq = (''question_id'', JStr (uuid_text (q_id pq)))"

definition persist_question ::
  "tool_ctx \<Rightarrow> uuid \<Rightarrow> pystr \<Rightarrow> json list option \<Rightarrow> json \<Rightarrow> int \<Rightarrow> pending_question act" where
  "persist_question ctx tid question options urgency timeout =
     bindE (question_create tid (c_user ctx) question None (c_channel ctx) options
              (json_str urgency) timeout) (\<lambda>pq.
     thenE (mark_awaiting_user tid (Some (''ask_user: '' @ take 80 question)))
    (thenE (append_event (Some tid) ''user_question''
              (question_payload (q_id pq) question options urgency))
           (ret pq)))"

definition persist_timeout :: "uuid \<Rightarrow> pending_question \<Rightarrow> int \<Rightarrow> unit act" where
  "persist_timeout tid pq timeout =
     thenE (mark_timeout (q_id pq))
    (thenE (mark_blocked tid (''ask_user timed out after '' @ show_int timeout @ ''s''))
    (thenE (append_event (Some tid) ''user_question_timeout'' [question_ref pq])
           (ret ())))"

definition persist_resume :: "uuid \<Rightarrow> pending_question \<Rightarrow> pystr \<Rightarrow> unit act" where
  "persist_resume tid pq answer =
     thenE (mark_started tid)
    (thenE (append_event (Some tid) ''user_answer'' [question_ref pq, (''answer'', JStr answer)])
           (ret ()))"

definition conclude ::
  "uuid \<Rightarrow> pending_question \<Rightarrow> int \<Rightarrow> pending_question option \<Rightarrow> dict act" where
  "conclude tid pq timeout resolved =
     (if resolved = None \<or> unresolved resolved
      then thenE (best_effort (persist_timeout tid pq timeout))
             (raise (ToolError (''ask_user timed out after '' @ show_int timeout @
                                ''s waiting for a reply'')))
      else (let q = the resolved in
        if q_status q \<noteq> QAnswered
        then raise (ToolError (''ask_user was '' @ question_status_text (q_status q) @
                               '' before an answer''))
        else (let answer = (case q_answer q of None \<Rightarrow> [] | Some a \<Rightarrow> a) in
          thenE (best_effort (persist_resume tid pq answer))
            (ret [question_ref pq, (''answer'', JStr answer)]))))"

definition ask_user_run :: "channels \<Rightarrow> tool_ctx \<Rightarrow> dict \<Rightarrow> dict act" where
  "ask_user_run chans ctx inputs =
     (case c_task ctx of
        None \<Rightarrow> raise (ToolError (''ask_user requires a Task context. The Triage Agent should'' @
                 '' have routed this request to the Task path.''))
      | Some tid \<Rightarrow>
          bindE (liftE (read_question inputs)) (\<lambda>question.
          bindE (liftE (read_options (dict_get inputs ''options''))) (\<lambda>options.
          let urgency = get_or inputs ''urgency'' (JStr ''normal'') in
          bindE (liftE (py_int (get_or inputs ''timeout_seconds'' (JInt 300)))) (\<lambda>secs.
          let timeout = max 1 secs in
          bindE (catchE (persist_question ctx tid question options urgency timeout)
                   (\<lambda>e. raise (ToolError (''couldn't record the question: '' @ exn_str e))))
            (\<lambda>pq.
          thenE (deliver_question chans ctx (q_id pq) question options urgency)
         (bindE (wait_for_answer (q_id pq) (timeout * second))
                (conclude tid pq timeout)))))))"

definition ask_user_tool :: "channels \<Rightarrow> tool" where
  "ask_user_tool chans =
     \<lparr> tl_name = ''ask_user'',
       tl_description = ''Pause the current task and ask the user a question via their'' @
         '' channel. Returns the user's answer once they reply. Use this'' @
         '' before any destructive or ambiguous action '' @ [em_dash] @ '' overwriting'' @
         '' files, sending messages, large purchases, etc.'',
       tl_schema = [(''type'', JStr ''object''),
         (''properties'', JObj
            [(''question'', JObj [(''type'', JStr ''string''),
                (''description'', JStr ''The question to ask. Be specific and brief.'')]),
             (''options'', JObj [(''type'', JStr ''array''),
                (''items'', JObj [(''type'', JStr ''string'')]),
                (''description'', JStr (''Optional multiple-choice options the user can pick'' @
                   '' from. Free-form text is always allowed too.''))]),
             (''urgency'', JObj [(''type'', JStr ''string''),
                (''enum'', JArr [JStr ''low'', JStr ''normal'', JStr ''high'']),
                (''default'', JStr ''normal'')]),
             (''timeout_seconds'', JObj [(''type'', JStr ''integer''), (''minimum'', JInt 1),
                (''description'', JStr (''Optional: how long to wait. Default: 5 minutes.'' @
                   '' On timeout the task transitions to `blocked` and'' @
                   '' the tool raises.'')),
                (''default'', JInt 300)])]),
         (''required'', JArr [JStr ''question''])],
       tl_needs_task = True,
       tl_run = ask_user_run chans \<rparr>"

subsection \<open>The tool is sound\<close>

definition channels_ok :: "channels \<Rightarrow> bool" where
  "channels_ok chans \<longleftrightarrow>
     (\<forall>n send u t. get_channel chans n = Some send \<longrightarrow>
        keeps sound (send u t) \<and>
        (\<forall>w. script w = [] \<longrightarrow> (\<exists>ob. snd (send u t w) = w\<lparr>outbox := ob\<rparr>)))"

lemma deliver_question_sound:
  "channels_ok chans \<Longrightarrow> keeps sound (deliver_question chans ctx qid q os u)"
  unfolding deliver_question_def
  by (intro sound.if_ sound.effort sound.emit sound.opt sound.ret)
    (auto simp: channels_ok_def bind_eq_Some_conv)

lemma ask_user_sound:
  assumes "channels_ok chans"
  shows "keeps sound (ask_user_run chans ctx inputs)"
  unfolding ask_user_run_def persist_question_def persist_timeout_def persist_resume_def
    conclude_def Let_def
  by (intro sound.opt sound.if_ sound.raise sound.lift sound.bind sound.catch sound.andThen
      sound.effort sound.ret task_dao_sound question_dao_sound
      deliver_question_sound[OF assms])


subsection \<open>Every branch, when nothing fails\<close>

lemma update_task_run [simp]:
  "script w = [] \<Longrightarrow> update_task p f w =
     (Inr (sql_returning p (f (now w)) (tasks w)), w\<lparr>tasks := sql_set p (f (now w)) (tasks w)\<rparr>)"
  by (simp add: update_task_def)

lemma update_question_run [simp]:
  "script w = [] \<Longrightarrow> update_question p f w =
     (Inr (sql_returning p (f (now w)) (questions w)),
      w\<lparr>questions := sql_set p (f (now w)) (questions w)\<rparr>)"
  by (simp add: update_question_def)













subsection \<open>Properties\<close>









end
