(* ===== verification/Metering.thy ===== *)
theory Metering
  imports Registry
begin

section \<open>Metering: prices, the usage ledger, traces and the model client\<close>

text \<open>
  \<open>src/wolfpaw/metering/\<close>: \<open>pricing.py\<close>, \<open>recorder.py\<close>, \<open>trace_sink.py\<close>,
  \<open>prompt_versions.py\<close> and \<open>model_client.py\<close>. The language model's API is a parameter
  (\<open>llm\<close>), a function from requests to responses; \<open>outside_only\<close> states that calling it
  changes none of our tables.

  Costs are computed exactly here; the source adds four floating point quotients before rounding
  up. The database accepts a \<open>token_usage\<close> row only for an agent of the enumeration
  \<open>agent_kind\<close> and a task that exists.
\<close>

subsection \<open>Settings\<close>

record settings =
  model_triage :: pystr
  model_quick :: pystr
  model_planner :: pystr
  model_planner_opus :: pystr
  model_executor :: pystr
  model_post_evaluator :: pystr
  model_max_tokens :: int
  trace_sink_enabled :: bool
  workers_enabled :: bool
  tool_creator_enabled :: bool
  schedules_enabled :: bool
  schedules_dispatch_batch :: nat
  schedules_min_interval_seconds :: int
  recent_window_size :: nat
  compaction_window_size :: nat
  compaction_trigger_threshold :: nat
  l2_fold_threshold :: nat
  l3_fold_threshold :: nat
  l3_max_tokens :: int
  l3_char_cap :: nat
  vector_recall_k :: nat
  vector_recall_window :: nat
  plan_retrieval_min_score :: int
  skill_emit_min_score :: int

definition default_settings :: settings where
  "default_settings = \<lparr>
     model_triage = ''claude-haiku-4-5'', model_quick = ''claude-haiku-4-5'',
     model_planner = ''claude-sonnet-4-6'', model_planner_opus = ''claude-opus-4-7'',
     model_executor = ''claude-sonnet-4-6'', model_post_evaluator = ''claude-haiku-4-5'',
     model_max_tokens = 8192, trace_sink_enabled = True, workers_enabled = False,
     tool_creator_enabled = True, schedules_enabled = False, schedules_dispatch_batch = 50,
     schedules_min_interval_seconds = 60, recent_window_size = 20, compaction_window_size = 20,
     compaction_trigger_threshold = 40, l2_fold_threshold = 10, l3_fold_threshold = 10,
     l3_max_tokens = 1200, l3_char_cap = 6000, vector_recall_k = 15, vector_recall_window = 2,
     plan_retrieval_min_score = 50, skill_emit_min_score = 90 \<rparr>"

subsection \<open>Prices\<close>

definition no_tokens :: token_counts where
  "no_tokens = \<lparr> input_tokens = 0, output_tokens = 0, cache_read_tokens = 0,
     cache_write_tokens = 0 \<rparr>"

definition ceil_div :: "int \<Rightarrow> int \<Rightarrow> int" where
  "ceil_div a b = - ((- a) div b)"

definition MTOK :: int where "MTOK = 1000000"

definition micro_cents :: "model_price \<Rightarrow> token_counts \<Rightarrow> int" where
  "micro_cents price usage =
     input_tokens usage * input_per_mtok_cents price +
     output_tokens usage * output_per_mtok_cents price +
     cache_read_tokens usage * cache_read_per_mtok_cents price +
     cache_write_tokens usage * cache_write_per_mtok_cents price"

definition compute_cost_cents :: "model_price \<Rightarrow> token_counts \<Rightarrow> int" where
  "compute_cost_cents price usage = ceil_div (micro_cents price usage) MTOK"

definition price_active :: "pystr \<Rightarrow> time \<Rightarrow> model_price \<Rightarrow> bool" where
  "price_active model at p =
     (mp_model_id p = model \<and> mp_effective_from p \<le> at \<and>
      (case mp_effective_to p of None \<Rightarrow> True | Some t \<Rightarrow> t > at))"

definition newest_price :: "pystr \<Rightarrow> time \<Rightarrow> model_price list \<Rightarrow> model_price option" where
  "newest_price model at prices =
     (case sort_key (\<lambda>p. - mp_effective_from p) (filter (price_active model at) prices) of
        [] \<Rightarrow> None | p # _ \<Rightarrow> Some p)"

definition get_active_price :: "pystr \<Rightarrow> model_price option act" where
  "get_active_price model = stmt (getsE (\<lambda>w. newest_price model (now w) (model_prices w)))"

subsection \<open>The usage ledger\<close>

definition agent_kinds :: "pystr list" where
  "agent_kinds = [''triage'', ''quick'', ''planner'', ''executor'', ''post_evaluator'',
     ''pre_evaluator'', ''tool_creator'', ''compactor'', ''skill_distiller'']"

definition record_usage ::
  "uuid \<Rightarrow> pystr \<Rightarrow> pystr \<Rightarrow> token_counts \<Rightarrow> int \<Rightarrow> uuid option \<Rightarrow> uuid option \<Rightarrow> uuid act" where
  "record_usage user agent model usage cost_cents prompt_version tid = stmt (\<lambda>w.
     if agent \<notin> set agent_kinds
     then (Inl (DbError (''invalid input value for enum agent_kind: '' @ agent)), w)
     else if tid \<noteq> None \<and> task_lookup (the tid) w = None
     then (Inl (DbError ''task_id violates foreign key''), w)
     else (Inr (Uuid (next_id w)), w\<lparr>next_id := Suc (next_id w),
            token_usage := token_usage w @
              [\<lparr> tu_id = Uuid (next_id w), tu_user_id = user, tu_task_id = tid, tu_agent = agent,
                 tu_model = model, tu_prompt_version_id = prompt_version, tu_counts = usage,
                 tu_cost_cents = cost_cents, tu_created_at = now w \<rparr>]\<rparr>))"

subsection \<open>Prompt versions\<close>

definition bump_prompt_version :: "pystr \<Rightarrow> pystr \<Rightarrow> dict \<Rightarrow> prompt_version act" where
  "bump_prompt_version agent label template = stmt (\<lambda>w.
     if agent \<notin> set agent_kinds
     then (Inl (DbError (''invalid input value for enum agent_kind: '' @ agent)), w)
     else (let same = (\<lambda>v. v_agent v = agent \<and> v_label v = label) in
       case sql_first same (prompt_versions w) of
         Some v \<Rightarrow> (Inr (v\<lparr>v_template := template\<rparr>),
           w\<lparr>prompt_versions := sql_set same (\<lambda>v. v\<lparr>v_template := template\<rparr>) (prompt_versions w)\<rparr>)
       | None \<Rightarrow> (let v = \<lparr> v_id = Uuid (next_id w), v_agent = agent, v_label = label,
                            v_template = template \<rparr>
           in (Inr v, w\<lparr>next_id := Suc (next_id w), prompt_versions := prompt_versions w @ [v]\<rparr>))))"

text \<open>
  Every agent object seeds its prompt version once per process, before its first call, and
  remembers the row's id; a failure leaves it unset, and it is not tried again.
\<close>

definition seeded :: "pystr \<Rightarrow> world \<Rightarrow> bool" where
  "seeded agent w = (map_of (prompt_seeded w) agent \<noteq> None)"

definition prompt_version_id :: "pystr \<Rightarrow> world \<Rightarrow> uuid option" where
  "prompt_version_id agent w =
     (case map_of (prompt_seeded w) agent of Some v \<Rightarrow> v | None \<Rightarrow> None)"

definition ensure_prompt_version :: "pystr \<Rightarrow> pystr \<Rightarrow> dict \<Rightarrow> unit act" where
  "ensure_prompt_version agent label template w =
     (if seeded agent w then (Inr (), w)
      else thenE (modifyE (\<lambda>w. w\<lparr>prompt_seeded := AList.update agent None (prompt_seeded w)\<rparr>))
             (best_effort (bindE (bump_prompt_version agent label template) (\<lambda>row.
                modifyE (\<lambda>w. w\<lparr>prompt_seeded :=
                  AList.update agent (Some (v_id row)) (prompt_seeded w)\<rparr>)))) w)"

subsection \<open>The language model's API\<close>

datatype block =
    TextBlock pystr
  | ToolUse (block_id: pystr) (block_name: pystr) (block_input: dict)

record api_response =
  a_content :: "block list"
  a_stop_reason :: "pystr option"
  a_usage :: "token_counts option"

record api_request =
  rq_model :: pystr
  rq_max_tokens :: int
  rq_messages :: "json list"
  rq_system :: "pystr option"
  rq_extra :: dict

type_synonym llm = "api_request \<Rightarrow> api_response act"

record model_result =
  mr_text :: pystr
  mr_usage :: token_counts
  mr_cost_cents :: int
  mr_model :: pystr
  mr_raw :: api_response

definition extract_usage :: "api_response \<Rightarrow> token_counts" where
  "extract_usage raw = (case a_usage raw of None \<Rightarrow> no_tokens | Some u \<Rightarrow> u)"

definition extract_text :: "api_response \<Rightarrow> pystr" where
  "extract_text raw =
     concat (map (\<lambda>b. case b of TextBlock s \<Rightarrow> s | _ \<Rightarrow> []) (a_content raw))"

text \<open>The first block that calls the named tool, as every agent with a forced tool looks it up.\<close>

fun find_tool_use :: "pystr \<Rightarrow> block list \<Rightarrow> dict option" where
  "find_tool_use name [] = None"
| "find_tool_use name (TextBlock s # bs) = find_tool_use name bs"
| "find_tool_use name (ToolUse i n inp # bs) = (if n = name then Some inp else find_tool_use name bs)"

subsection \<open>The model client\<close>

text \<open>What a call knows about itself when its trace row is written.\<close>

record model_run =
  run_id :: uuid
  run_parent :: "uuid option"
  run_text :: "pystr option"
  run_stop :: "pystr option"
  run_counts :: token_counts
  run_cost :: int
  run_usage_id :: "uuid option"

record call_args =
  ca_user :: uuid
  ca_agent :: pystr
  ca_model :: pystr
  ca_messages :: "json list"
  ca_system :: "pystr option"
  ca_max_tokens :: "int option"
  ca_prompt_version :: "uuid option"
  ca_task :: "uuid option"
  ca_extra :: dict

definition log_row :: "call_args \<Rightarrow> model_run \<Rightarrow> exn option \<Rightarrow> model_call_log" where
  "log_row a run failure =
     \<lparr> l_run_id = run_id run, l_parent_run_id = run_parent run, l_user_id = ca_user a,
       l_task_id = ca_task a, l_token_usage_id = run_usage_id run, l_agent = ca_agent a,
       l_model = ca_model a, l_prompt_version_id = ca_prompt_version a,
       l_response_text = run_text run, l_stop_reason = run_stop run, l_counts = run_counts run,
       l_cost_cents = run_cost run,
       l_status = (if failure = None then ''ok'' else ''error''),
       l_error_message = map_option (\<lambda>e. take 2000 (exn_str e)) failure \<rparr>"

definition write_trace :: "bool \<Rightarrow> call_args \<Rightarrow> model_run \<Rightarrow> exn option \<Rightarrow> unit act" where
  "write_trace enabled a run failure =
     (if \<not> enabled then ret ()
      else best_effort (stmt (modifyE (\<lambda>w.
             w\<lparr>model_call_logs := model_call_logs w @ [log_row a run failure]\<rparr>))))"

definition start_run :: "world \<Rightarrow> model_run" where
  "start_run w = \<lparr> run_id = Uuid (next_id w), run_parent = parent_run w, run_text = None,
     run_stop = None, run_counts = no_tokens, run_cost = 0, run_usage_id = None \<rparr>"

definition api_call :: "settings \<Rightarrow> llm \<Rightarrow> call_args \<Rightarrow> api_response act" where
  "api_call cfg llm a = llm \<lparr> rq_model = ca_model a,
     rq_max_tokens = (case ca_max_tokens a of None \<Rightarrow> model_max_tokens cfg | Some n \<Rightarrow> n),
     rq_messages = ca_messages a, rq_system = ca_system a, rq_extra = ca_extra a \<rparr>"

definition meter :: "call_args \<Rightarrow> api_response \<Rightarrow> (int \<times> uuid) act" where
  "meter a raw =
     bindE (get_active_price (ca_model a)) (\<lambda>price.
     let cost = (case price of None \<Rightarrow> 0 | Some p \<Rightarrow> compute_cost_cents p (extract_usage raw)) in
     bindE (record_usage (ca_user a) (ca_agent a) (ca_model a) (extract_usage raw) cost
              (ca_prompt_version a) (ca_task a)) (\<lambda>usage_id. ret (cost, usage_id)))"

definition close_run ::
  "bool \<Rightarrow> call_args \<Rightarrow> uuid option \<Rightarrow> model_run \<Rightarrow> exn option \<Rightarrow> unit act" where
  "close_run enabled a token run failure =
     thenE (modifyE (\<lambda>w. w\<lparr>parent_run := token\<rparr>)) (write_trace enabled a run failure)"

definition open_run :: "bool \<Rightarrow> (model_run \<times> uuid option) act" where
  "open_run enabled w = (Inr (start_run w, parent_run w),
     w\<lparr>next_id := Suc (next_id w),
       parent_run := (if enabled then Some (run_id (start_run w)) else parent_run w)\<rparr>)"

definition model_call :: "settings \<Rightarrow> llm \<Rightarrow> call_args \<Rightarrow> model_result act" where
  "model_call cfg llm a =
     (let on = trace_sink_enabled cfg in
      bindE (open_run on) (\<lambda>(run0, token).
      bindE (attemptE (api_call cfg llm a)) (\<lambda>response.
      case response of
        Inl e \<Rightarrow> thenE (close_run on a token run0 (Some e)) (raise e)
      | Inr raw \<Rightarrow>
          (let run1 = run0\<lparr>run_text := Some (extract_text raw), run_stop := a_stop_reason raw\<rparr> in
           bindE (attemptE (meter a raw)) (\<lambda>metered.
           case metered of
             Inl e \<Rightarrow> thenE (close_run on a token run1 (Some e)) (raise e)
           | Inr (cost, usage_id) \<Rightarrow>
               thenE (close_run on a token
                        (run1\<lparr>run_counts := extract_usage raw, run_cost := cost,
                              run_usage_id := Some usage_id\<rparr>) None)
                 (ret \<lparr> mr_text = extract_text raw, mr_usage = extract_usage raw,
                        mr_cost_cents = cost, mr_model = ca_model a, mr_raw = raw \<rparr>))))))"

subsection \<open>Soundness\<close>

lemma price_sound: "keeps sound (get_active_price m)"
  unfolding get_active_price_def by (intro sound.stmt sound.gets)

lemma record_usage_sound: "keeps sound (record_usage u ag m us c pv tid)"
  unfolding record_usage_def
  by (rule sound.stmt) (auto simp: keeps_def intro!: sound_frame)

lemma bump_sound: "keeps sound (bump_prompt_version ag l t)"
  unfolding bump_prompt_version_def
  by (rule sound.stmt) (auto simp: keeps_def Let_def intro!: sound_frame split: option.splits)

lemma ensure_prompt_version_sound: "keeps sound (ensure_prompt_version ag l t)"
proof -
  have "keeps sound (thenE (modifyE (\<lambda>w. w\<lparr>prompt_seeded := AList.update ag None (prompt_seeded w)\<rparr>))
             (best_effort (bindE (bump_prompt_version ag l t) (\<lambda>row.
                modifyE (\<lambda>w. w\<lparr>prompt_seeded :=
                  AList.update ag (Some (v_id row)) (prompt_seeded w)\<rparr>)))))"
    by (intro sound.andThen sound.effort sound.bind bump_sound sound_modify) simp_all
  then show ?thesis by (simp add: keeps_def ensure_prompt_version_def sound.refl)
qed

lemma meter_sound: "keeps sound (meter a raw)"
  unfolding meter_def Let_def
  by (intro sound.bind sound.ret price_sound record_usage_sound)

lemma close_run_sound: "keeps sound (close_run on a token run f)"
  unfolding close_run_def write_trace_def
  by (intro sound.andThen sound.if_ sound.ret sound.effort sound.stmt sound_modify) simp_all

lemma open_run_sound: "keeps sound (open_run on)"
  by (auto simp: keeps_def open_run_def intro!: sound_frame)

lemma model_call_sound:
  assumes "\<And>r. keeps sound (llm r)" shows "keeps sound (model_call cfg llm a)"
  unfolding model_call_def Let_def api_call_def
  by (intro sound.bind sound.pair sound.sum sound.attempt sound.andThen sound.ret sound.raise
      open_run_sound close_run_sound meter_sound assms)

subsection \<open>The ledger\<close>

lemma ceil_div_bounds:
  assumes "0 < b" shows "a \<le> ceil_div a b * b" and "ceil_div a b * b < a + b"
proof -
  have "(- a) div b * b \<le> - a" "- a < (- a) div b * b + b"
    using assms by (simp_all add: minus_mod_eq_div_mult[symmetric] pos_mod_bound)
  then show "a \<le> ceil_div a b * b" "ceil_div a b * b < a + b"
    by (simp_all add: ceil_div_def)
qed

lemma outside_near: "outside_only m \<Longrightarrow> m w = (r, w') \<Longrightarrow> near w w'"
  unfolding outside_only_def near_def by (metis snd_conv)

lemma record_usage_cases:
  assumes "record_usage user agent model usage cost pv tid w = (r, w')"
  obtains (recorded) i row where "r = Inr i" and "agent \<in> set agent_kinds"
      and "token_usage w' = token_usage w @ [row]"
      and "tu_user_id row = user \<and> tu_agent row = agent \<and> tu_model row = model \<and>
           tu_task_id row = tid \<and> tu_counts row = usage \<and> tu_cost_cents row = cost \<and> tu_id row = i"
      and "parent_run w' = parent_run w" "model_call_logs w' = model_call_logs w"
  | (failed) e where "r = Inl e" and "token_usage w' = token_usage w"
      and "parent_run w' = parent_run w" "model_call_logs w' = model_call_logs w"
  using assms unfolding record_usage_def
proof (cases rule: stmt_cases)
  case (run v)
  then show ?thesis
    using recorded[of "Uuid (next_id v)"] failed near_frame[OF run(1)]
    by (fastforce split: if_splits)
next
  case (fail e)
  then show ?thesis using failed near_frame[OF fail(1)] by blast
qed

lemma get_active_price_frame:
  assumes "get_active_price m w = (r, w')"
  shows "token_usage w' = token_usage w \<and> parent_run w' = parent_run w \<and>
    model_call_logs w' = model_call_logs w"
  using assms unfolding get_active_price_def
  by (cases rule: stmt_cases) (auto dest: near_frame)

lemma meter_cases:
  assumes "meter a raw w = (r, w')"
  obtains (recorded) c i row where "r = Inr (c, i)" and "ca_agent a \<in> set agent_kinds"
      and "token_usage w' = token_usage w @ [row]"
      and "tu_user_id row = ca_user a \<and> tu_agent row = ca_agent a \<and> tu_model row = ca_model a \<and>
           tu_task_id row = ca_task a \<and> tu_counts row = extract_usage raw \<and>
           tu_cost_cents row = c \<and> tu_id row = i"
      and "parent_run w' = parent_run w" "model_call_logs w' = model_call_logs w"
  | (failed) e where "r = Inl e" and "token_usage w' = token_usage w"
      and "parent_run w' = parent_run w" "model_call_logs w' = model_call_logs w"
  using assms unfolding meter_def Let_def
proof (cases rule: bindE_cases)
  case (exn e)
  then show ?thesis using failed get_active_price_frame[OF exn(1)] by blast
next
  case (val price w1)
  note f1 = get_active_price_frame[OF val(1)]
  from val(2) show ?thesis
  proof (cases rule: bindE_cases)
    case (exn e)
    from exn(1) show ?thesis
    proof (cases rule: record_usage_cases)
      case (failed e')
      then show ?thesis using that(2) f1 exn(2) by simp
    qed simp
  next
    case (val i w2)
    from val(1) show ?thesis
    proof (cases rule: record_usage_cases)
      case (recorded i' row)
      then show ?thesis using that(1)[of _ i row] f1 val(2) by auto
    qed simp
  qed
qed

lemma close_run_cases:
  assumes "close_run on a token run f w = (r, w')"
  shows "r = Inr ()" and "parent_run w' = token" and "token_usage w' = token_usage w"
    and "model_call_logs w' = model_call_logs w \<or>
      on \<and> model_call_logs w' = model_call_logs w @ [log_row a run f]"
    and "script w = [] \<and> on \<Longrightarrow> model_call_logs w' = model_call_logs w @ [log_row a run f]"
proof -
  let ?w = "w\<lparr>parent_run := token\<rparr>" and ?m = "modifyE (\<lambda>w. w\<lparr>model_call_logs := model_call_logs w @ [log_row a run f]\<rparr>)"
  have eq: "(r, w') = write_trace on a run f ?w"
    using assms by (simp add: close_run_def thenE_def bindE_def)
  have "r = Inr () \<and> parent_run w' = token \<and> token_usage w' = token_usage w \<and>
    (model_call_logs w' = model_call_logs w \<or>
      on \<and> model_call_logs w' = model_call_logs w @ [log_row a run f]) \<and>
    (script w = [] \<and> on \<longrightarrow> model_call_logs w' = model_call_logs w @ [log_row a run f])"
  proof (cases on)
    case False
    with eq show ?thesis by (simp add: write_trace_def)
  next
    case True
    obtain x v where st: "stmt ?m ?w = (x, v)" by (cases "stmt ?m ?w")
    with eq True have r: "r = Inr ()" "w' = v" by (simp_all add: write_trace_def best_effort_def)
    show ?thesis
    proof (cases "script w = []")
      case True
      with st r \<open>on\<close> show ?thesis by auto
    next
      case False
      from st show ?thesis
        by (cases rule: stmt_cases) (use r \<open>on\<close> False in \<open>auto dest: near_frame\<close>)
    qed
  qed
  then show "r = Inr ()" "parent_run w' = token" "token_usage w' = token_usage w"
    "model_call_logs w' = model_call_logs w \<or>
      on \<and> model_call_logs w' = model_call_logs w @ [log_row a run f]"
    "script w = [] \<and> on \<Longrightarrow> model_call_logs w' = model_call_logs w @ [log_row a run f]"
    by auto
qed


definition charged :: "call_args \<Rightarrow> model_result \<Rightarrow> token_usage_row \<Rightarrow> bool" where
  "charged a res row \<longleftrightarrow>
     tu_user_id row = ca_user a \<and> tu_agent row = ca_agent a \<and> tu_model row = ca_model a \<and>
     tu_task_id row = ca_task a \<and> tu_counts row = mr_usage res \<and>
     tu_cost_cents row = mr_cost_cents res"

definition call_outcome ::
  "bool \<Rightarrow> call_args \<Rightarrow> world \<Rightarrow> exn + model_result \<Rightarrow> world \<Rightarrow> bool" where
  "call_outcome on a w r w' \<longleftrightarrow>
     (case r of
        Inr res \<Rightarrow> ca_agent a \<in> set agent_kinds \<and>
          (\<exists>row. token_usage w' = token_usage w @ [row] \<and> charged a res row)
      | Inl e \<Rightarrow> token_usage w' = token_usage w) \<and>
     parent_run w' = parent_run w \<and>
     (model_call_logs w' = model_call_logs w \<or> on \<and>
       (\<exists>row. model_call_logs w' = model_call_logs w @ [row] \<and> l_parent_run_id row = parent_run w \<and>
          (l_status row = ''ok'' \<longleftrightarrow> (\<exists>res. r = Inr res))))"

lemma status_ok [simp]: "l_status (log_row a run f) = ''ok'' \<longleftrightarrow> f = None"
  by (simp add: log_row_def)

lemma log_parent [simp]: "l_parent_run_id (log_row a run f) = run_parent run"
  by (simp add: log_row_def)

lemma model_call_outcome:
  assumes "\<And>q. outside_only (llm q)" and run: "model_call cfg llm a w = (r, w')"
  shows "call_outcome (trace_sink_enabled cfg) a w r w'"
proof -
  let ?on = "trace_sink_enabled cfg" and ?run = "start_run w"
  let ?w1 = "w\<lparr>next_id := Suc (next_id w),
    parent_run := (if ?on then Some (run_id ?run) else parent_run w)\<rparr>"
  obtain x w2 where api: "api_call cfg llm a ?w1 = (x, w2)" by (cases "api_call cfg llm a ?w1")
  have near: "near ?w1 w2" using outside_near[where m = "api_call cfg llm a", OF _ api] assms(1) by (simp add: api_call_def)
  note f2 = near_frame[OF near, simplified]
  show ?thesis
  proof (cases x)
    case (Inl e)
    obtain u w3 where c: "close_run ?on a (parent_run w) ?run (Some e) w2 = (u, w3)"
      by (cases "close_run ?on a (parent_run w) ?run (Some e) w2")
    note cc = close_run_cases[OF c]
    have "r = Inl e" "w' = w3"
      using run api Inl c cc(1)
      by (simp_all add: model_call_def Let_def open_run_def bindE_def attemptE_def thenE_def)
    then show ?thesis using cc f2 by (auto simp: call_outcome_def start_run_def)
  next
    case (Inr raw)
    let ?run1 = "?run\<lparr>run_text := Some (extract_text raw), run_stop := a_stop_reason raw\<rparr>"
    obtain y w3 where m: "meter a raw w2 = (y, w3)" by (cases "meter a raw w2")
    from m show ?thesis
    proof (cases rule: meter_cases)
      case (recorded c i row)
      let ?run2 = "?run1\<lparr>run_counts := extract_usage raw, run_cost := c, run_usage_id := Some i\<rparr>"
      obtain u w4 where cl: "close_run ?on a (parent_run w) ?run2 None w3 = (u, w4)"
        by (cases "close_run ?on a (parent_run w) ?run2 None w3")
      note cc = close_run_cases[OF cl]
      have "r = Inr \<lparr> mr_text = extract_text raw, mr_usage = extract_usage raw,
          mr_cost_cents = c, mr_model = ca_model a, mr_raw = raw \<rparr>" "w' = w4"
        using run api Inr m recorded(1) cl cc(1)
        by (simp_all add: model_call_def Let_def open_run_def bindE_def attemptE_def thenE_def)
      then show ?thesis
        using cc f2 recorded by (auto simp: call_outcome_def charged_def start_run_def)
    next
      case (failed e)
      obtain u w4 where cl: "close_run ?on a (parent_run w) ?run1 (Some e) w3 = (u, w4)"
        by (cases "close_run ?on a (parent_run w) ?run1 (Some e) w3")
      note cc = close_run_cases[OF cl]
      have "r = Inl e" "w' = w4"
        using run api Inr m failed(1) cl cc(1)
        by (simp_all add: model_call_def Let_def open_run_def bindE_def attemptE_def thenE_def)
      then show ?thesis using cc f2 failed by (auto simp: call_outcome_def start_run_def)
    qed
  qed
qed

subsection \<open>Properties\<close>

text \<open>Cost is rounded up to a whole cent and by less than a cent: the user is never
  undercharged for the tokens of a call at the active price.\<close>

theorem cost_rounds_up:
  "micro_cents price usage \<le> compute_cost_cents price usage * MTOK \<and>
   compute_cost_cents price usage * MTOK < micro_cents price usage + MTOK"
  using ceil_div_bounds[of MTOK "micro_cents price usage"]
  by (simp add: compute_cost_cents_def MTOK_def)

text \<open>C8: Whatever fails and whatever other processes do, a model call that returns has put exactly
  one row on the usage ledger, charged to its user, task and agent with the cost it reports; a
  call that raises has put none; the trace context is restored; at most one trace row is
  written, marked ok exactly when the call returned.\<close>

theorem model_call_metered:
  assumes "\<And>q. outside_only (llm q)" and "model_call cfg llm a w = (r, w')"
  shows "(case r of
      Inr res \<Rightarrow> \<exists>row. token_usage w' = token_usage w @ [row] \<and> charged a res row
    | Inl e \<Rightarrow> token_usage w' = token_usage w) \<and>
    parent_run w' = parent_run w \<and>
    (model_call_logs w' = model_call_logs w \<or>
      (\<exists>row. model_call_logs w' = model_call_logs w @ [row] \<and>
         (l_status row = ''ok'' \<longleftrightarrow> (\<exists>res. r = Inr res))))"
  using model_call_outcome[OF assms]
  by (auto simp: call_outcome_def split: sum.splits)

text \<open>A call on behalf of an agent the database does not list never returns: the usage row is
  refused after the model has answered. The executor's input repair calls as
  \<open>executor_recover\<close>, which is not listed.\<close>

lemma unlisted_agent_never_returns:
  assumes "\<And>q. outside_only (llm q)" and "ca_agent a = ''executor_recover''"
  shows "\<exists>e w'. model_call cfg llm a w = (Inl e, w') \<and> token_usage w' = token_usage w"
proof (cases "model_call cfg llm a w")
  case (Pair r w')
  have no: "ca_agent a \<notin> set agent_kinds" by (simp add: assms(2) agent_kinds_def)
  show ?thesis
  proof (cases r)
    case (Inl e)
    with Pair model_call_outcome[OF assms(1) Pair] show ?thesis by (simp add: call_outcome_def)
  next
    case (Inr res)
    with model_call_outcome[OF assms(1) Pair] no show ?thesis by (simp add: call_outcome_def)
  qed
qed

text \<open>The trace of every model call made outside another one has no parent, whatever agent
  makes it: calls are closed before anything they lead to is started, so the call tree the
  parent column is meant to record stays flat.\<close>

theorem trace_has_no_parent:
  assumes "\<And>q. outside_only (llm q)" and "parent_run w = None"
    and "\<forall>l\<in>set (model_call_logs w). l_parent_run_id l = None"
  shows "parent_run (snd (model_call cfg llm a w)) = None \<and>
    (\<forall>l\<in>set (model_call_logs (snd (model_call cfg llm a w))). l_parent_run_id l = None)"
proof (cases "model_call cfg llm a w")
  case (Pair r w')
  from model_call_outcome[OF assms(1) Pair] assms(2,3) show ?thesis
    by (auto simp: call_outcome_def Pair)
qed

subsection \<open>Witnesses\<close>

definition canned_llm :: "api_response \<Rightarrow> llm" where
  "canned_llm raw rq = stmt (ret raw)"

lemma stmt_ret_outside: "outside_only (stmt (ret x))"
  unfolding outside_only_def
proof
  fix w
  obtain r v where st: "stmt (ret x) w = (r, v)" by (cases "stmt (ret x) w")
  show "\<exists>acts n xs. snd (stmt (ret x) w) = (others acts w)\<lparr>now := n, script := xs\<rparr> \<and> now w \<le> n \<and>
      (script w = [] \<longrightarrow> acts = [] \<and> xs = [])"
  proof (cases "script w = []")
    case True
    have "w = (others [] w)\<lparr>now := now w, script := []\<rparr>" using True by simp
    moreover have "v = w" using st True by simp
    ultimately show ?thesis using st by (metis order_refl snd_conv)
  next
    case False
    from st have "near w v" by (cases rule: stmt_cases) auto
    then obtain acts n xs where v: "v = (others acts w)\<lparr>now := n, script := xs\<rparr>"
      by (auto simp: near_def)
    have "keeps (\<lambda>w v. now w \<le> now v) (stmt (ret x))"
      by (auto simp: keeps_def stmt_def Let_def split: list.splits option.splits)
    from keepsD[OF this st] show ?thesis using v st False by auto
  qed
qed

lemma canned_outside: "outside_only (canned_llm raw q)"
  using stmt_ret_outside by (simp add: canned_llm_def)

definition hello :: api_response where
  "hello = \<lparr> a_content = [TextBlock ''hi''], a_stop_reason = Some ''end_turn'', a_usage = None \<rparr>"

definition sample_call :: "pystr \<Rightarrow> call_args" where
  "sample_call agent = \<lparr> ca_user = Uuid 5, ca_agent = agent, ca_model = ''m'', ca_messages = [],
     ca_system = None, ca_max_tokens = None, ca_prompt_version = None, ca_task = None,
     ca_extra = [] \<rparr>"

lemma model_call_metered_witness:
  "\<exists>r w'. model_call default_settings (canned_llm hello) (sample_call ''quick'') empty_world =
      (Inr r, w') \<and> length (token_usage w') = 1"
proof -
  have "\<exists>res v. model_call default_settings (canned_llm hello) (sample_call ''quick'') empty_world =
      (Inr res, v)"
    by (simp add: model_call_def Let_def open_run_def bindE_def attemptE_def thenE_def api_call_def
        canned_llm_def empty_world_def meter_def get_active_price_def newest_price_def
        record_usage_def sample_call_def agent_kinds_def close_run_def write_trace_def
        best_effort_def)
  then obtain res v where
    run: "model_call default_settings (canned_llm hello) (sample_call ''quick'') empty_world = (Inr res, v)"
    by blast
  from model_call_metered[OF canned_outside run] run show ?thesis
    by (auto simp: empty_world_def)
qed

lemma trace_has_no_parent_witness:
  "parent_run (snd (model_call default_settings (canned_llm hello) (sample_call ''quick'') empty_world))
     = None"
  using trace_has_no_parent[where llm = "canned_llm hello" and cfg = default_settings
      and a = "sample_call ''quick''" and w = empty_world, OF canned_outside]
  by (simp add: empty_world_def)

end
