(* ===== verification/Stores.thy ===== *)
theory Stores
  imports Registry
begin

section \<open>Plans, user tools and sandboxes\<close>

text \<open>
  \<open>src/wolfpaw/memory/procedural.py\<close> (the rows of executed plans),
  \<open>src/wolfpaw/memory/tools.py\<close> (tools the agent proposed and the user approved) and
  \<open>src/wolfpaw/sandbox/manager.py\<close> with \<open>metering.py\<close> (one live sandbox per user and task, and
  the compute ledger). The distance of two embeddings is the
  vector extension's and a parameter (\<open>dist\<close>) of the searches, which return rows with their
  distance; the similarity the source reports is one minus it. A sandbox
  backend is a parameter: how it is built and closed.
\<close>

subsection \<open>Procedural memory\<close>

abbreviation plan_lookup :: "uuid \<Rightarrow> world \<Rightarrow> stored_plan option" where
  "plan_lookup pid w \<equiv> key_lookup p_id pid (plans w)"

definition plan_store ::
  "uuid \<Rightarrow> uuid option \<Rightarrow> uuid option \<Rightarrow> pystr \<Rightarrow> vector option \<Rightarrow> json list \<Rightarrow> uuid act" where
  "plan_store user thread tid query embedding steps = stmt (\<lambda>w.
     if tid \<noteq> None \<and> task_lookup (the tid) w = None
     then (Inl (DbError ''task_id violates foreign key''), w)
     else (Inr (Uuid (next_id w)), w\<lparr>next_id := Suc (next_id w), plans := plans w @
       [\<lparr> p_id = Uuid (next_id w), p_user_id = user, p_thread_id = thread, p_task_id = tid,
          p_query = query, p_steps = steps, p_final_answer = None, p_success = None,
          p_score = None, p_error = None, p_embedding = embedding, p_created_at = now w \<rparr>]\<rparr>))"

definition nearest ::
  "(vector \<Rightarrow> vector \<Rightarrow> int) \<Rightarrow> vector \<Rightarrow> nat \<Rightarrow> ('r \<Rightarrow> vector option) \<Rightarrow> 'r list \<Rightarrow> ('r \<times> int) list" where
  "nearest dist q k vec rows =
     take k (sort_key snd (List.map_filter (\<lambda>r. map_option (\<lambda>v. (r, dist q v)) (vec r)) rows))"

definition search_similar ::
  "(vector \<Rightarrow> vector \<Rightarrow> int) \<Rightarrow> uuid \<Rightarrow> vector \<Rightarrow> nat \<Rightarrow> int option \<Rightarrow> (stored_plan \<times> int) list act" where
  "search_similar dist user q k min_score = stmt (getsE (\<lambda>w.
     nearest dist q k p_embedding (filter (\<lambda>p. p_user_id p = user \<and>
       (case (min_score, p_score p) of (Some m, Some s) \<Rightarrow> m \<le> s | _ \<Rightarrow> True)) (plans w))))"

definition keep_or :: "'a option \<Rightarrow> 'a option \<Rightarrow> 'a option" where
  "keep_or new old = (case new of None \<Rightarrow> old | Some x \<Rightarrow> Some x)"

definition set_outcome ::
  "pystr option \<Rightarrow> bool option \<Rightarrow> int option \<Rightarrow> pystr option \<Rightarrow> stored_plan \<Rightarrow> stored_plan" where
  "set_outcome final_answer success score err p = p\<lparr>
     p_final_answer := keep_or final_answer (p_final_answer p),
     p_success := keep_or success (p_success p),
     p_score := keep_or score (p_score p),
     p_error := keep_or err (p_error p) \<rparr>"

definition update_outcome ::
  "uuid \<Rightarrow> pystr option \<Rightarrow> bool option \<Rightarrow> int option \<Rightarrow> pystr option \<Rightarrow> unit act" where
  "update_outcome pid final_answer success score err =
     (if final_answer = None \<and> success = None \<and> score = None \<and> err = None then ret ()
      else stmt (modifyE (\<lambda>w. w\<lparr>plans :=
             sql_set (\<lambda>p. p_id p = pid) (set_outcome final_answer success score err) (plans w)\<rparr>)))"

interpretation outcome: row_update p_id "set_outcome f s sc e" for f s sc e
  by unfold_locales (simp add: set_outcome_def)

subsection \<open>User tools\<close>

definition store_proposed ::
  "uuid \<Rightarrow> pystr \<Rightarrow> pystr \<Rightarrow> vector option \<Rightarrow> dict \<Rightarrow> pystr \<Rightarrow> uuid option \<Rightarrow> uuid option
     \<Rightarrow> uuid act" where
  "store_proposed user name description embedding signature implementation plan_id tid = stmt (\<lambda>w.
     if \<exists>t\<in>set (user_tools w). ut_user_id t = user \<and> ut_name t = name
     then (Inl (DbError ''duplicate key value violates unique constraint tools_user_name_idx''), w)
     else if tid \<noteq> None \<and> task_lookup (the tid) w = None
     then (Inl (DbError ''source_task_id violates foreign key''), w)
     else if plan_id \<noteq> None \<and> plan_lookup (the plan_id) w = None
     then (Inl (DbError ''source_plan_id violates foreign key''), w)
     else (Inr (Uuid (next_id w)), w\<lparr>next_id := Suc (next_id w), user_tools := user_tools w @
       [\<lparr> ut_id = Uuid (next_id w), ut_user_id = user, ut_name = name,
          ut_description = description, ut_signature = signature,
          ut_implementation = implementation, ut_status = Proposed, ut_source_plan_id = plan_id,
          ut_source_task_id = tid, ut_created_at = now w, ut_approved_at = None,
          ut_embedding = embedding \<rparr>]\<rparr>))"

definition proposed :: "uuid \<Rightarrow> user_tool \<Rightarrow> bool" where
  "proposed i t = (ut_id t = i \<and> ut_status t = Proposed)"

definition mark_tool ::
  "uuid \<Rightarrow> (time \<Rightarrow> user_tool \<Rightarrow> user_tool) \<Rightarrow> bool act" where
  "mark_tool i f = stmt (\<lambda>w.
     (Inr (sql_first (proposed i) (user_tools w) \<noteq> None),
      w\<lparr>user_tools := sql_set (proposed i) (f (now w)) (user_tools w)\<rparr>))"

definition mark_tool_approved :: "uuid \<Rightarrow> bool act" where
  "mark_tool_approved i =
     mark_tool i (\<lambda>n t. t\<lparr>ut_status := Approved, ut_approved_at := Some n\<rparr>)"

definition mark_tool_rejected :: "uuid \<Rightarrow> bool act" where
  "mark_tool_rejected i = mark_tool i (\<lambda>n t. t\<lparr>ut_status := Rejected\<rparr>)"

definition find_active_by_name :: "uuid \<Rightarrow> pystr \<Rightarrow> user_tool option act" where
  "find_active_by_name user name = stmt (getsE (\<lambda>w.
     sql_first (\<lambda>t. ut_user_id t = user \<and> ut_name t = name \<and> ut_status t = Approved)
       (user_tools w)))"

definition list_approved_for_user :: "uuid \<Rightarrow> user_tool list act" where
  "list_approved_for_user user = stmt (getsE (\<lambda>w. sort_key ut_created_at
     (filter (\<lambda>t. ut_user_id t = user \<and> ut_status t = Approved) (user_tools w))))"

definition search_tools_by_task ::
  "(vector \<Rightarrow> vector \<Rightarrow> int) \<Rightarrow> uuid \<Rightarrow> vector \<Rightarrow> nat \<Rightarrow> (user_tool \<times> int) list act" where
  "search_tools_by_task dist user q k = stmt (getsE (\<lambda>w.
     nearest dist q k ut_embedding
       (filter (\<lambda>t. ut_user_id t = user \<and> ut_status t = Approved) (user_tools w))))"

lemma in_nearestD:
  assumes "(r, x) \<in> set (nearest dist q k vec rows)"
  shows "r \<in> set rows \<and> (\<exists>v. vec r = Some v \<and> x = dist q v)"
  using in_set_takeD[OF assms[unfolded nearest_def]] by (auto simp: map_filter_def)

lemma nearest_length: "length (nearest dist q k vec rows) \<le> k"
  by (simp add: nearest_def)

subsection \<open>Sandboxes and compute metering\<close>

text \<open>Seconds are measured in microseconds here; the rate is in millionths of a cent.\<close>

definition sandbox_compute_per_second_micros :: int where
  "sandbox_compute_per_second_micros = 100"

definition sandbox_cost_cents :: "time \<Rightarrow> int \<Rightarrow> int" where
  "sandbox_cost_cents elapsed per_second_micros =
     - ((- (elapsed * per_second_micros)) div (second * 1000000))"

definition round_half_even :: "int \<Rightarrow> int \<Rightarrow> int" where
  "round_half_even a b = (let q = a div b; r = a mod b in
     if 2 * r < b then q else if 2 * r > b then q + 1 else if even q then q else q + 1)"

definition upsert_sandbox_row ::
  "uuid \<Rightarrow> uuid option \<Rightarrow> pystr \<Rightarrow> int \<Rightarrow> int \<Rightarrow> world \<Rightarrow> world" where
  "upsert_sandbox_row i tid provider seconds cost w =
     (case key_lookup sr_id i (sandbox_rows w) of
        Some _ \<Rightarrow> w\<lparr>sandbox_rows := sql_set (\<lambda>r. sr_id r = i)
          (\<lambda>r. r\<lparr>sr_terminated_at := now w, sr_seconds := sr_seconds r + seconds,
                 sr_cost_cents := sr_cost_cents r + cost\<rparr>) (sandbox_rows w)\<rparr>
      | None \<Rightarrow> w\<lparr>sandbox_rows := sandbox_rows w @
          [\<lparr> sr_id = i, sr_task_id = tid, sr_provider = provider, sr_terminated_at = now w,
             sr_seconds = seconds, sr_cost_cents = cost \<rparr>]\<rparr>)"

definition record_compute ::
  "uuid \<Rightarrow> uuid option \<Rightarrow> uuid option \<Rightarrow> pystr \<Rightarrow> time \<Rightarrow> unit act" where
  "record_compute user tid sandbox provider elapsed =
     (let cost = sandbox_cost_cents elapsed sandbox_compute_per_second_micros;
          seconds = max 1 (round_half_even elapsed second)
      in thenE (case sandbox of
                  None \<Rightarrow> ret ()
                | Some i \<Rightarrow> stmt (modifyE (upsert_sandbox_row i tid provider seconds cost)))
           (stmt (modifyE (\<lambda>w. w\<lparr>compute_usage := compute_usage w @
              [\<lparr> cu_user_id = user, cu_task_id = tid, cu_sandbox_id = sandbox,
                 cu_seconds = seconds, cu_cost_cents = cost,
                 cu_created_at = now w \<rparr>]\<rparr>))))"

record backend =
  sb_build :: "uuid \<Rightarrow> uuid option \<Rightarrow> live_sandbox act"
  sb_close :: "live_sandbox \<Rightarrow> unit act"

definition sandbox_get :: "backend \<Rightarrow> uuid \<Rightarrow> uuid option \<Rightarrow> live_sandbox act" where
  "sandbox_get b user tid w =
     (case map_of (sandboxes w) (user, tid) of
        Some sb \<Rightarrow> (Inr sb, w)
      | None \<Rightarrow> bindE (sb_build b user tid) (\<lambda>sb.
          thenE (modifyE (\<lambda>w. w\<lparr>sandboxes := AList.update (user, tid) sb (sandboxes w)\<rparr>))
            (ret sb)) w)"

definition tear_down :: "backend \<Rightarrow> live_sandbox \<Rightarrow> uuid \<Rightarrow> uuid option \<Rightarrow> unit act" where
  "tear_down b sb user tid =
     finallyE (sb_close b sb)
       (whenE (lb_elapsed sb > 0)
          (best_effort (record_compute user tid (lb_id sb) (lb_provider sb) (lb_elapsed sb))))"

definition close_for_task :: "backend \<Rightarrow> uuid \<Rightarrow> uuid option \<Rightarrow> unit act" where
  "close_for_task b user tid w =
     (case map_of (sandboxes w) (user, tid) of
        None \<Rightarrow> (Inr (), w)
      | Some sb \<Rightarrow> tear_down b sb user tid
          (w\<lparr>sandboxes := AList.delete (user, tid) (sandboxes w)\<rparr>))"

fun tear_down_all ::
  "backend \<Rightarrow> ((uuid \<times> uuid option) \<times> live_sandbox) list \<Rightarrow> unit act" where
  "tear_down_all b [] = ret ()"
| "tear_down_all b (((user, tid), sb) # items) =
     thenE (tear_down b sb user tid) (tear_down_all b items)"

definition shutdown_all :: "backend \<Rightarrow> unit act" where
  "shutdown_all b w = tear_down_all b (sandboxes w) (w\<lparr>sandboxes := []\<rparr>)"

subsection \<open>Soundness\<close>

lemma plan_store_sound: "keeps sound (plan_store u th tid q em st)"
  unfolding plan_store_def by (rule sound.stmt) (auto simp: keeps_def intro!: sound_frame)

lemma update_outcome_sound: "keeps sound (update_outcome pid f s sc e)"
  unfolding update_outcome_def by (intro sound.if_ sound.ret sound.stmt sound_modify) simp

lemma user_tools_sound:
  "keeps sound (store_proposed u n d em sg im pl tid)" "keeps sound (mark_tool_approved i)"
  "keeps sound (mark_tool_rejected i)" "keeps sound (find_active_by_name u n)"
  "keeps sound (list_approved_for_user u)" "keeps sound (search_tools_by_task dist u q k)"
  "keeps sound (search_similar dist u q k ms)"
  unfolding store_proposed_def mark_tool_approved_def mark_tool_rejected_def mark_tool_def
    find_active_by_name_def list_approved_for_user_def search_tools_by_task_def search_similar_def
  by (rule sound.stmt; auto simp: keeps_def intro!: sound_frame)+

lemma upsert_frame [simp]:
  "tasks (upsert_sandbox_row i tid pr s c w) = tasks w"
  "questions (upsert_sandbox_row i tid pr s c w) = questions w"
  "task_events (upsert_sandbox_row i tid pr s c w) = task_events w"
  "token_usage (upsert_sandbox_row i tid pr s c w) = token_usage w"
  "next_id (upsert_sandbox_row i tid pr s c w) = next_id w"
  "now (upsert_sandbox_row i tid pr s c w) = now w"
  "sandboxes (upsert_sandbox_row i tid pr s c w) = sandboxes w"
  "script (upsert_sandbox_row i tid pr s c w) = script w"
  "compute_usage (upsert_sandbox_row i tid pr s c w) = compute_usage w"
  by (simp_all add: upsert_sandbox_row_def split: option.splits)

lemma record_compute_sound: "keeps sound (record_compute u tid sb pr el)"
  unfolding record_compute_def Let_def
  by (intro sound.andThen sound.opt sound.ret sound.stmt sound_modify) simp_all

definition backend_sound :: "backend \<Rightarrow> bool" where
  "backend_sound b \<longleftrightarrow> (\<forall>u t. keeps sound (sb_build b u t)) \<and> (\<forall>sb. keeps sound (sb_close b sb))"

lemma tear_down_sound: "backend_sound b \<Longrightarrow> keeps sound (tear_down b sb u tid)"
  unfolding tear_down_def
  by (intro sound.finally_ sound.when_ sound.effort record_compute_sound)
    (simp_all add: backend_sound_def)

lemma close_for_task_sound:
  assumes "backend_sound b" shows "keeps sound (close_for_task b u tid)"
  unfolding keeps_def
proof
  fix w
  show "sound w (snd (close_for_task b u tid w))"
  proof (cases "map_of (sandboxes w) (u, tid)")
    case None
    then show ?thesis by (simp add: close_for_task_def sound.refl)
  next
    case (Some sb)
    let ?w = "w\<lparr>sandboxes := AList.delete (u, tid) (sandboxes w)\<rparr>"
    have "sound w ?w" by (rule sound_frame) auto
    moreover have "sound ?w (snd (tear_down b sb u tid ?w))"
      using tear_down_sound[OF assms] by (simp add: keeps_def)
    ultimately have "sound w (snd (tear_down b sb u tid ?w))" by (rule sound.trans)
    then show ?thesis by (simp add: close_for_task_def Some)
  qed
qed

end
