(* ===== verification/Executor.thy ===== *)
theory Executor
  imports Ask_User Metering Stores
begin

section \<open>The executor\<close>

text \<open>
  \<open>src/wolfpaw/agents/executor.py\<close>: running a plan step by step. What the executor calls is
  collected in a record of collaborators: the settings and the tool registry, the language
  model's API, the system-prompt builder, the planner (for a continuation), the task service
  (for a child task), the tool creator, the adapter for user tools and the sandbox backend.
  \<open>d_order\<close> is the order in which the event loop completes the members of a parallel batch and
  \<open>d_show_elapsed\<close> renders a duration; every theorem holds for all of them.
\<close>

definition MAX_SUBAGENT_DEPTH :: nat where "MAX_SUBAGENT_DEPTH = 3"
definition MAX_TOOL_RETRIES :: nat where "MAX_TOOL_RETRIES = 1"
definition MAX_REPLANS :: nat where "MAX_REPLANS = 1"
definition MAX_STEPS :: nat where "MAX_STEPS = 50"
definition PRIOR_RESULT_TRUNCATE :: nat where "PRIOR_RESULT_TRUNCATE = 2000"
definition SYNTHESIS_TRUNCATE :: nat where "SYNTHESIS_TRUNCATE = 3000"

definition OVERWRITE_YES :: "pystr list" where
  "OVERWRITE_YES = [''y'', ''yes'', ''overwrite'', ''ok'', ''confirm'']"

record child_request =
  ch_user :: uuid
  ch_content :: pystr
  ch_title :: json
  ch_description :: pystr
  ch_parent :: uuid
  ch_budget :: json
  ch_complexity :: json

record child_outcome =
  co_task :: task
  co_answer :: pystr
  co_score :: "int option"

record deps =
  d_settings :: settings
  d_registry :: registry
  d_llm :: llm
  d_build :: "uuid \<Rightarrow> pystr \<Rightarrow> pystr act"
  d_replan :: "tool_ctx \<Rightarrow> pystr \<Rightarrow> replan_context \<Rightarrow> plan act"
  d_spawn :: "child_request \<Rightarrow> child_outcome act"
  d_create_tool :: "tool_ctx \<Rightarrow> pystr \<Rightarrow> json list option \<Rightarrow> uuid option \<Rightarrow> dict act"
  d_dynamic :: "user_tool \<Rightarrow> tool"
  d_backend :: backend
  d_order :: "nat \<Rightarrow> nat list"
  d_show_elapsed :: "time \<Rightarrow> pystr"

subsection \<open>Prompts and summaries\<close>

definition format_prior_result :: "nat \<Rightarrow> step_result \<Rightarrow> pystr" where
  "format_prior_result cap r =
     (let head = ''- '' @ r_step_id r @ '' ['' @ kind_text (r_kind r) @ '']: '' in
      if r_status r \<noteq> COMPLETED then head @ ''('' @ step_status_text (r_status r) @ '')''
      else (let out = dumps (r_output r) in
        head @ (if length out > cap then take cap out @ '' '' @ [ellipsis] @ ''(truncated)''
                else out)))"

definition build_step_prompt :: "step \<Rightarrow> plan \<Rightarrow> step_result list \<Rightarrow> pystr" where
  "build_step_prompt st plan prior = lines_of
     ([''# User request'', pl_query plan, [], ''# Plan summary'', pl_summary plan, [],
       ''# Steps so far''] @
      (if prior = [] then [''(no prior steps)'']
       else map (format_prior_result PRIOR_RESULT_TRUNCATE) prior) @
      [[], ''# Your current step'',
       st_id st @ '' ['' @ kind_text (st_kind st) @ '']: '' @ st_description st, [],
       ''Produce the output for this step now.''])"

definition build_synthesis_prompt :: "plan \<Rightarrow> step_result list \<Rightarrow> pystr" where
  "build_synthesis_prompt plan results = lines_of
     ([''# User request'', pl_query plan, [], ''# Plan summary'', pl_summary plan, [],
       ''# Step results''] @ map (format_prior_result SYNTHESIS_TRUNCATE) results @
      [[], ''Write the final user-facing answer in plain markdown.''])"

definition opt_text :: "pystr option \<Rightarrow> pystr" where
  "opt_text s = (case s of None \<Rightarrow> ''None'' | Some t \<Rightarrow> t)"

definition has_status :: "step_status \<Rightarrow> step_result \<Rightarrow> bool" where
  "has_status s r = (r_status r = s)"

definition first_failed :: "step_result list \<Rightarrow> step_result option" where
  "first_failed results = List.find (has_status FAILED) results"

definition format_failure_summary :: "step_result list \<Rightarrow> pystr" where
  "format_failure_summary results =
     (case first_failed results of
        None \<Rightarrow> ''Execution failed before any step completed.''
      | Some f \<Rightarrow>
          ''I ran into a problem on step **'' @ r_step_id f @ ''** ('' @ kind_text (r_kind f) @
          ''): '' @ opt_text (r_error f) @ [newline, newline] @
          ''Completed '' @ show_nat (length (filter (has_status COMPLETED) results)) @
          '' step(s) before this. Let me know if'' @
          '' you'd like me to try a different approach.'')"

subsection \<open>Calling the model\<close>

definition user_message :: "pystr \<Rightarrow> json" where
  "user_message content = JObj [(''role'', JStr ''user''), (''content'', JStr content)]"

definition agent_role :: pystr where
  "agent_role =
     ''You are the **Executor**. You work through one step of a multi-step plan '' @
     ''at a time.'' @
     [newline] @
     [newline] @
     ''For each step you'll see the user's original request, the full plan, results '' @
     ''from prior steps, and your current step's description. Produce concrete '' @
     ''output for the current step '' @
     [em_dash] @
     '' brief, accurate, focused on this step's task.'' @
     [newline] @
     [newline] @
     ''If your step is a synthesis step (typically the last reasoning step), write '' @
     ''the final user-facing answer in plain markdown. Otherwise produce intermediate '' @
     ''output that subsequent steps may use as input.''"

definition synthesis_agent_role :: pystr where
  "synthesis_agent_role =
     ''You are the **Executor** synthesizing the final user-facing answer from '' @
     ''a plan execution. Write in plain markdown, be direct, lead with the answer. '' @
     ''Cite step results where the user benefits from seeing them; skip the implementation '' @
     ''details otherwise.''"

definition ensure_executor_prompt :: "unit act" where
  "ensure_executor_prompt = ensure_prompt_version ''executor'' ''v1''
     [(''agent_role'', JStr agent_role), (''synthesis_agent_role'', JStr synthesis_agent_role)]"

definition ask_model :: "deps \<Rightarrow> tool_ctx \<Rightarrow> pystr \<Rightarrow> pystr \<Rightarrow> model_result act" where
  "ask_model d ctx role prompt =
     bindE (d_build d (c_user ctx) role) (\<lambda>system.
     bindE (getsE (prompt_version_id ''executor'')) (\<lambda>version.
     model_call (d_settings d) (d_llm d)
       \<lparr> ca_user = c_user ctx, ca_agent = ''executor'',
         ca_model = model_executor (d_settings d), ca_messages = [user_message prompt],
         ca_system = Some system, ca_max_tokens = None, ca_prompt_version = version,
         ca_task = c_task ctx, ca_extra = [] \<rparr>))"

definition run_reasoning :: "deps \<Rightarrow> tool_ctx \<Rightarrow> step \<Rightarrow> plan \<Rightarrow> step_result list \<Rightarrow> json act" where
  "run_reasoning d ctx st plan prior =
     bindE (ask_model d ctx agent_role (build_step_prompt st plan prior)) (\<lambda>res.
       ret (JStr (mr_text res)))"

definition run_evaluation :: "deps \<Rightarrow> tool_ctx \<Rightarrow> step \<Rightarrow> plan \<Rightarrow> step_result list \<Rightarrow> json act" where
  "run_evaluation d ctx st plan prior = run_reasoning d ctx st plan prior"

subsection \<open>Functional steps\<close>

text \<open>\<open>tool.run(ctx, **inputs)\<close>: a keyword that names a positional parameter is a \<open>TypeError\<close>.\<close>

definition invoke :: "tool \<Rightarrow> tool_ctx \<Rightarrow> dict \<Rightarrow> dict act" where
  "invoke t ctx inputs =
     (if dict_get inputs ''ctx'' \<noteq> None \<or> dict_get inputs ''self'' \<noteq> None
      then raise (OtherError ''run() got multiple values for an argument'')
      else tl_run t ctx inputs)"

definition resolve_tool :: "deps \<Rightarrow> tool_ctx \<Rightarrow> pystr \<Rightarrow> tool act" where
  "resolve_tool d ctx name =
     (case reg_get (d_registry d) name of
        Inr t \<Rightarrow> ret t
      | Inl _ \<Rightarrow>
          bindE (find_active_by_name (c_user ctx) name) (\<lambda>row.
            case row of
              None \<Rightarrow> raise (ValueError (unknown_tool name))
            | Some r \<Rightarrow> ret (d_dynamic d r)))"

definition repair_system_prompt :: pystr where
  "repair_system_prompt = ''You repair tool inputs after a recoverable failure. You'' @
     '' will be given: a step description, the tool's name +'' @
     '' input_schema, the inputs that just failed, and the'' @
     '' error message. Propose corrected inputs that address'' @
     '' the error. Do not change the tool. Do not change'' @
     '' unrelated fields. If the error names the actual valid'' @
     '' columns / files / options, use that hint directly.'' @
     '' If the inputs can't be fixed without more information,'' @
     '' set ``give_up: true`` and explain briefly.''"

definition propose_inputs_tool :: json where
  "propose_inputs_tool = JObj
     [(''name'', JStr ''propose_inputs''),
      (''description'', JStr (''Return corrected inputs for the failed tool call, or'' @
         '' set give_up=true if you can't fix them.'')),
      (''input_schema'', JObj
         [(''type'', JStr ''object''),
          (''properties'', JObj
             [(''corrected_inputs'', JObj [(''type'', JStr ''object''),
                 (''description'', JStr (''A new inputs dict to pass to the same tool.'' @
                    '' Required when give_up is false.''))]),
              (''give_up'', JObj [(''type'', JStr ''boolean''), (''default'', JBool False)]),
              (''reasoning'', JObj [(''type'', JStr ''string'')])]),
          (''required'', JArr [JStr ''reasoning''])])]"

definition repair_request :: "tool_ctx \<Rightarrow> settings \<Rightarrow> uuid option \<Rightarrow> step \<Rightarrow> tool \<Rightarrow> dict \<Rightarrow> pystr
    \<Rightarrow> call_args" where
  "repair_request ctx cfg version st t original failure =
     \<lparr> ca_user = c_user ctx, ca_agent = ''executor_recover'', ca_model = model_triage cfg,
       ca_messages = [user_message (dumps (JObj
         [(''step_description'', JStr (st_description st)), (''tool'', JStr (tl_name t)),
          (''tool_input_schema'', JObj (tl_schema t)), (''failed_inputs'', JObj original),
          (''error_message'', JStr failure)]))],
       ca_system = Some repair_system_prompt, ca_max_tokens = None, ca_prompt_version = version,
       ca_task = c_task ctx,
       ca_extra = [(''tools'', JArr [propose_inputs_tool]),
                   (''tool_choice'', JObj [(''type'', JStr ''tool''),
                                           (''name'', JStr ''propose_inputs'')])] \<rparr>"

definition read_proposal :: "api_response \<Rightarrow> dict option" where
  "read_proposal raw =
     (case find_tool_use ''propose_inputs'' (a_content raw) of
        None \<Rightarrow> None
      | Some payload \<Rightarrow>
          if truthy (get_default payload ''give_up'' JNull) then None
          else (case dict_get payload ''corrected_inputs'' of
                  Some (JObj (kv # d)) \<Rightarrow> Some (kv # d)
                | _ \<Rightarrow> None))"

definition propose_corrected_inputs ::
  "deps \<Rightarrow> tool_ctx \<Rightarrow> step \<Rightarrow> tool \<Rightarrow> dict \<Rightarrow> pystr \<Rightarrow> dict option act" where
  "propose_corrected_inputs d ctx st t original failure =
     bindE (getsE (prompt_version_id ''executor'')) (\<lambda>version.
     bindE (attemptE (model_call (d_settings d) (d_llm d)
              (repair_request ctx (d_settings d) version st t original failure))) (\<lambda>r.
       case r of
         Inl _ \<Rightarrow> ret None
       | Inr res \<Rightarrow> ret (read_proposal (mr_raw res))))"

definition overwrite_question :: "pystr \<Rightarrow> int \<Rightarrow> pystr" where
  "overwrite_question filename version =
     ''File '' @ py_repr filename @ '' already exists at v'' @ show_int version @
     ''. Overwrite it? (yes / no)''"

definition affirmative :: "dict \<Rightarrow> bool" where
  "affirmative payload =
     (lower (strip (json_str (get_default payload ''answer'' (JStr [])))) \<in> set OVERWRITE_YES)"

definition handle_workspace_collision ::
  "deps \<Rightarrow> tool_ctx \<Rightarrow> step \<Rightarrow> tool \<Rightarrow> pystr \<Rightarrow> int \<Rightarrow> dict act" where
  "handle_workspace_collision d ctx st t filename version =
     (if c_task ctx = None then raise (WorkspaceCollision filename version)
      else bindE (liftE (reg_get (d_registry d) ''ask_user'')) (\<lambda>ask.
           bindE (invoke ask ctx
                    [(''question'', JStr (overwrite_question filename version)),
                     (''options'', JArr [JStr ''yes'', JStr ''no'']),
                     (''urgency'', JStr ''normal'')]) (\<lambda>payload.
           if affirmative payload
           then invoke t ctx (dict_set ''overwrite'' (JBool True) (st_inputs st))
           else raise (WorkspaceCollision filename version))))"

text \<open>
  The exception handlers around a tool call: \<open>retry\<close> is the recursive call while attempts are
  left, \<open>None\<close> on the last attempt.
\<close>

definition on_tool_exn ::
  "deps \<Rightarrow> tool_ctx \<Rightarrow> step \<Rightarrow> tool \<Rightarrow> dict \<Rightarrow> bool \<Rightarrow> (dict \<Rightarrow> dict act) option \<Rightarrow> exn
     \<Rightarrow> dict act" where
  "on_tool_exn d ctx st t inputs emit retry e =
     (case e of
        WorkspaceCollision f v \<Rightarrow> handle_workspace_collision d ctx st t f v
      | ToolError msg \<Rightarrow>
          (case retry of
             None \<Rightarrow> raise e
           | Some again \<Rightarrow>
               bindE (propose_corrected_inputs d ctx st t inputs msg) (\<lambda>corrected.
                 case corrected of
                   None \<Rightarrow> raise e
                 | Some c \<Rightarrow>
                     thenE (maybe_emit emit ''step.recover''
                              (st_id st @ '' retrying with corrected inputs''))
                       (again c)))
      | _ \<Rightarrow> raise e)"

fun call_tool_with_recovery ::
  "nat \<Rightarrow> deps \<Rightarrow> tool_ctx \<Rightarrow> step \<Rightarrow> tool \<Rightarrow> bool \<Rightarrow> dict \<Rightarrow> dict act" where
  "call_tool_with_recovery 0 d ctx st t emit inputs =
     catchE (invoke t ctx inputs) (on_tool_exn d ctx st t inputs emit None)"
| "call_tool_with_recovery (Suc n) d ctx st t emit inputs =
     catchE (invoke t ctx inputs) (on_tool_exn d ctx st t inputs emit
       (Some (call_tool_with_recovery n d ctx st t emit)))"

definition run_functional :: "deps \<Rightarrow> tool_ctx \<Rightarrow> step \<Rightarrow> bool \<Rightarrow> json act" where
  "run_functional d ctx st emit =
     (if \<not> truthy (st_tool st)
      then raise (ValueError (''functional step '' @ py_repr (st_id st) @ '' has no `tool`''))
      else (case st_tool st of
        JStr name \<Rightarrow>
          bindE (resolve_tool d ctx name) (\<lambda>t.
          bindE (call_tool_with_recovery MAX_TOOL_RETRIES d ctx st t emit (st_inputs st)) (\<lambda>out.
          ret (JObj out)))
      | _ \<Rightarrow> raise (OtherError ''tool name is not a string'')))"

subsection \<open>Tool creator and subagent steps\<close>

definition run_tool_creator :: "deps \<Rightarrow> tool_ctx \<Rightarrow> step \<Rightarrow> plan \<Rightarrow> json act" where
  "run_tool_creator d ctx st plan =
     (if c_task ctx = None
      then raise (ValueError (''tool_creator steps require a parent task '' @ [em_dash] @
             '' the Router should have created one for this plan''))
      else (case dict_get (st_inputs st) ''intent'' of
        Some (JStr intent) \<Rightarrow>
          if strip intent = []
          then raise (ValueError (''tool_creator step '' @ py_repr (st_id st) @
                 '' missing required `inputs.intent`''))
          else bindE (d_create_tool d ctx intent
                 (Option.bind (dict_get (st_inputs st) ''required_inputs'') as_arr) (pl_id plan))
                 (\<lambda>out. ret (JObj out))
      | _ \<Rightarrow> raise (ValueError (''tool_creator step '' @ py_repr (st_id st) @
               '' missing required `inputs.intent`''))))"

datatype failure_policy = PolicyFail | PolicyDrop | PolicyRetry

definition normalize_failure_policy :: "json option \<Rightarrow> failure_policy" where
  "normalize_failure_policy raw =
     (case raw of
        Some (JStr s) \<Rightarrow>
          if s = ''drop'' then PolicyDrop else if s = ''retry'' then PolicyRetry else PolicyFail
      | _ \<Rightarrow> PolicyFail)"

definition drop_stub :: "exn \<Rightarrow> dict" where
  "drop_stub e = [(''subagent_task_id'', JNull), (''answer'', JNull), (''score'', JNull),
     (''dropped'', JBool True), (''error'', JStr (exn_str e))]"

definition augment_query :: "pystr \<Rightarrow> exn \<Rightarrow> pystr" where
  "augment_query original e =
     original @ [newline, newline] @ ''## Previous attempt failed'' @ [newline] @
     ''A prior attempt at this task failed with: '' @ exn_str e @ [newline] @
     ''Try a different approach '' @ [em_dash] @ '' don't repeat the failing strategy.''"

definition slot_count :: "uuid \<Rightarrow> world \<Rightarrow> nat" where
  "slot_count root w = (case map_of (slot_refs w) root of None \<Rightarrow> 0 | Some n \<Rightarrow> n)"

definition enter_slot :: "uuid \<Rightarrow> unit act" where
  "enter_slot root = modifyE (\<lambda>w.
     w\<lparr>slot_refs := AList.update root (slot_count root w + 1) (slot_refs w)\<rparr>)"

definition leave_slot :: "uuid \<Rightarrow> unit act" where
  "leave_slot root = modifyE (\<lambda>w.
     w\<lparr>slot_refs := (if slot_count root w \<le> 1 then AList.delete root (slot_refs w)
                     else AList.update root (slot_count root w - 1) (slot_refs w))\<rparr>)"

definition in_slot :: "uuid \<Rightarrow> 'a act \<Rightarrow> 'a act" where
  "in_slot root m = thenE (enter_slot root) (finallyE m (leave_slot root))"

definition child_result :: "child_outcome \<Rightarrow> exn + dict" where
  "child_result out =
     (if t_status (co_task out) \<noteq> Completed
      then Inl (ValueError (''subagent task '' @ uuid_text (t_id (co_task out)) @ '' ended in '' @
             status_text (t_status (co_task out)) @ '': '' @ co_answer out))
      else Inr [(''subagent_task_id'', JStr (uuid_text (t_id (co_task out)))),
                (''answer'', JStr (co_answer out)),
                (''score'', case co_score out of None \<Rightarrow> JNull | Some s \<Rightarrow> JInt s)])"

definition spawn_subagent ::
  "deps \<Rightarrow> tool_ctx \<Rightarrow> step \<Rightarrow> uuid \<Rightarrow> uuid \<Rightarrow> json \<Rightarrow> json \<Rightarrow> json \<Rightarrow> pystr \<Rightarrow> dict act" where
  "spawn_subagent d ctx st parent root title budget complexity query =
     bindE (in_slot root (d_spawn d
       \<lparr> ch_user = c_user ctx, ch_content = query, ch_title = title,
         ch_description = ''Subagent spawned by parent task '' @ uuid_text parent @
           '' for step '' @ py_repr (st_id st) @ '': '' @ st_description st,
         ch_parent = parent, ch_budget = budget, ch_complexity = complexity \<rparr>)) (\<lambda>out.
     liftE (child_result out))"

definition with_policy :: "failure_policy \<Rightarrow> (pystr \<Rightarrow> dict act) \<Rightarrow> pystr \<Rightarrow> dict act" where
  "with_policy policy spawn query =
     catchE (spawn query) (\<lambda>first_failure.
       case policy of
         PolicyDrop \<Rightarrow> ret (drop_stub first_failure)
       | PolicyRetry \<Rightarrow> spawn (augment_query query first_failure)
       | PolicyFail \<Rightarrow> raise first_failure)"

definition subagent_title :: "step \<Rightarrow> json" where
  "subagent_title st =
     get_or (st_inputs st) ''title''
       (if take 80 (st_description st) \<noteq> [] then JStr (take 80 (st_description st))
        else JStr (st_id st))"

definition depth_cap_message :: "nat \<Rightarrow> pystr" where
  "depth_cap_message depth =
     ''subagent depth cap reached (parent depth='' @ show_nat depth @ '', max='' @
     show_nat MAX_SUBAGENT_DEPTH @ '') '' @ [em_dash] @ '' flatten the plan''"

definition run_subagent :: "deps \<Rightarrow> tool_ctx \<Rightarrow> step \<Rightarrow> json act" where
  "run_subagent d ctx st =
     (case c_task ctx of
        None \<Rightarrow> raise (ValueError (''subagent steps require a parent task '' @ [em_dash] @
                 '' Triage should have routed this through the task path''))
      | Some parent \<Rightarrow>
         (case dict_get (st_inputs st) ''query'' of
            Some (JStr query) \<Rightarrow>
              if strip query = []
              then raise (ValueError (''subagent step '' @ py_repr (st_id st) @
                     '' missing required `inputs.query`''))
              else
                bindE (get_depth parent) (\<lambda>depth.
                bindE (get_root parent) (\<lambda>root.
                if depth \<ge> MAX_SUBAGENT_DEPTH then raise (ValueError (depth_cap_message depth))
                else bindE (with_policy
                       (normalize_failure_policy (dict_get (st_inputs st) ''on_failure''))
                       (spawn_subagent d ctx st parent root (subagent_title st)
                          (get_default (st_inputs st) ''budget_cents'' JNull)
                          (get_or (st_inputs st) ''complexity_hint'' (JStr ''moderate'')))
                       query) (\<lambda>out. ret (JObj out))))
          | _ \<Rightarrow> raise (ValueError (''subagent step '' @ py_repr (st_id st) @
                   '' missing required `inputs.query`''))))"

subsection \<open>One step\<close>

definition dispatch_step ::
  "deps \<Rightarrow> tool_ctx \<Rightarrow> plan \<Rightarrow> step_result list \<Rightarrow> bool \<Rightarrow> step \<Rightarrow> json act" where
  "dispatch_step d ctx plan prior emit st =
     (case st_kind st of
        Functional \<Rightarrow> run_functional d ctx st emit
      | Reasoning \<Rightarrow> run_reasoning d ctx st plan prior
      | Evaluation \<Rightarrow> run_evaluation d ctx st plan prior
      | Subagent \<Rightarrow> run_subagent d ctx st
      | Tool_Creator \<Rightarrow> run_tool_creator d ctx st plan)"

definition step_failed :: "step \<Rightarrow> exn \<Rightarrow> time \<Rightarrow> step_result" where
  "step_failed st e elapsed = \<lparr> r_step_id = st_id st, r_kind = st_kind st, r_status = FAILED,
     r_output = JNull, r_error = Some (exn_str e), r_elapsed = elapsed \<rparr>"

definition step_completed :: "step \<Rightarrow> json \<Rightarrow> time \<Rightarrow> step_result" where
  "step_completed st out elapsed = \<lparr> r_step_id = st_id st, r_kind = st_kind st,
     r_status = COMPLETED, r_output = out, r_error = None, r_elapsed = elapsed \<rparr>"

definition step_skipped :: "step \<Rightarrow> step_result" where
  "step_skipped st = \<lparr> r_step_id = st_id st, r_kind = st_kind st, r_status = SKIPPED,
     r_output = JNull, r_error = None, r_elapsed = 0 \<rparr>"

definition run_step ::
  "deps \<Rightarrow> tool_ctx \<Rightarrow> plan \<Rightarrow> step_result list \<Rightarrow> bool \<Rightarrow> step \<Rightarrow> step_result act" where
  "run_step d ctx plan prior emit st =
     thenE (maybe_emit emit ''step.start''
              (st_id st @ '' ['' @ kind_text (st_kind st) @ ''] '' @ st_description st))
    (bindE (getsE now) (\<lambda>start.
     bindE (attemptE (dispatch_step d ctx plan prior emit st)) (\<lambda>r.
     bindE (getsE now) (\<lambda>stop.
     case r of
       Inl e \<Rightarrow>
         thenE (maybe_emit emit ''step.error'' (st_id st @ '' failed: '' @ exn_str e))
           (ret (step_failed st e (stop - start)))
     | Inr out \<Rightarrow>
         thenE (maybe_emit emit ''step.end''
                  (st_id st @ '' completed in '' @ d_show_elapsed d (stop - start) @ ''s''))
           (ret (step_completed st out (stop - start)))))))"

end
