(* ===== verification/Agent_Orders.thy ===== *)
theory Agent_Orders
  imports Metering
begin

section \<open>What every agent keeps\<close>

text \<open>
  Every agent of \<open>src/wolfpaw/agents/\<close> does the same things around its own work: it registers its
  prompt, calls the model through the metered client and charges embeddings. An \<open>agent_order\<close> is
  a \<open>clock_order\<close> these three keep, so that an agent keeps it by the rules of sequencing. A
  \<open>ledger_frame\<close> is an order that does not look at the tables metering writes; every one is an
  \<open>agent_order\<close>, and an order that only fixes other tables is a \<open>ledger_frame\<close> at once.
\<close>

locale agent_order = clock_order R for R :: "world \<Rightarrow> world \<Rightarrow> bool" +
  assumes call: "(\<And>q. keeps R (llm q)) \<Longrightarrow> keeps R (model_call cfg llm a)"
    and prompt: "keeps R (ensure_prompt_version agent label template)"
    and usage: "keeps R (record_usage u ag m us c pv tid)"
begin

lemma read: "keeps R (stmt (getsE f))"
  by (intro stmt gets)

end

interpretation sound: agent_order sound
  by unfold_locales (auto intro: model_call_sound ensure_prompt_version_sound record_usage_sound)

definition ledger_step :: "world \<Rightarrow> world \<Rightarrow> bool" where
  "ledger_step w w' \<longleftrightarrow> (\<exists>tu ml pv ps pr n. w' = w\<lparr>token_usage := tu, model_call_logs := ml,
     prompt_versions := pv, prompt_seeded := ps, parent_run := pr, next_id := n\<rparr>)"

lemma ledger_stepI:
  "w' = w\<lparr>token_usage := tu, model_call_logs := ml, prompt_versions := pv, prompt_seeded := ps,
     parent_run := pr, next_id := n\<rparr> \<Longrightarrow> ledger_step w w'"
  unfolding ledger_step_def by blast

lemma world_ledger_eqI: "ledger_step w w"
  by (rule ledger_stepI[where tu = "token_usage w" and ml = "model_call_logs w"
        and pv = "prompt_versions w" and ps = "prompt_seeded w" and pr = "parent_run w"
        and n = "next_id w"]) simp

lemma ledger_steps:
  "ledger_step w (w\<lparr>next_id := n, token_usage := tu\<rparr>)"
  "ledger_step w (w\<lparr>next_id := n, prompt_versions := pv\<rparr>)"
  "ledger_step w (w\<lparr>next_id := n, parent_run := pr\<rparr>)"
  "ledger_step w (w\<lparr>next_id := n\<rparr>)"
  "ledger_step w (w\<lparr>prompt_versions := pv\<rparr>)" "ledger_step w (w\<lparr>prompt_seeded := ps\<rparr>)"
  "ledger_step w (w\<lparr>parent_run := pr\<rparr>)" "ledger_step w (w\<lparr>model_call_logs := ml\<rparr>)"
  unfolding ledger_step_def by (intro exI world.equality; simp)+

locale ledger_frame = clock_order R for R :: "world \<Rightarrow> world \<Rightarrow> bool" +
  assumes ledger: "ledger_step w w' \<Longrightarrow> R w w'"
begin

lemma ledger_fun: "(\<And>w. ledger_step w (snd (f w))) \<Longrightarrow> keeps R f"
  by (simp add: keeps_def ledger)

lemma ledger_modify: "(\<And>w. ledger_step w (f w)) \<Longrightarrow> keeps R (modifyE f)"
  by (rule modify) (rule ledger)

lemma frame_usage: "keeps R (record_usage u ag m us c pv tid)"
  unfolding record_usage_def
  by (rule stmt) (rule ledger_fun; auto intro: world_ledger_eqI ledger_steps)

lemma frame_bump: "keeps R (bump_prompt_version ag l t)"
  unfolding bump_prompt_version_def
  by (rule stmt) (rule ledger_fun; auto simp: Let_def intro: world_ledger_eqI ledger_steps
      split: option.splits)

lemma frame_prompt: "keeps R (ensure_prompt_version ag l t)"
proof -
  have "keeps R (thenE (modifyE (\<lambda>w. w\<lparr>prompt_seeded := AList.update ag None (prompt_seeded w)\<rparr>))
             (best_effort (bindE (bump_prompt_version ag l t) (\<lambda>row.
                modifyE (\<lambda>w. w\<lparr>prompt_seeded :=
                  AList.update ag (Some (v_id row)) (prompt_seeded w)\<rparr>)))))"
    by (intro andThen effort bind frame_bump ledger_modify ledger_steps)
  then show ?thesis by (simp add: keeps_def ensure_prompt_version_def refl)
qed

lemma frame_call:
  assumes "\<And>q. keeps R (llm q)" shows "keeps R (model_call cfg llm a)"
proof -
  have metered: "keeps R (meter a raw)" for raw
    unfolding meter_def Let_def get_active_price_def
    by (intro bind ret stmt gets frame_usage)
  have closed: "keeps R (close_run on a token run f)" for on token run f
    unfolding close_run_def write_trace_def
    by (intro andThen if_ ret effort stmt ledger_modify ledger_steps)
  have opened: "keeps R (open_run on)" for on
    by (rule ledger_fun) (auto simp: open_run_def intro: ledger_steps)
  show ?thesis
    unfolding model_call_def Let_def api_call_def
    by (intro bind pair sum attempt andThen ret raise opened closed metered assms)
qed

end

sublocale ledger_frame \<subseteq> agent_order
  by unfold_locales (auto intro: frame_call frame_prompt frame_usage)

subsection \<open>How much is added to a table\<close>

text \<open>
  \<open>extends f n\<close>: at most \<open>n\<close> rows were added to the table \<open>f\<close>, and those already there are as
  they were. The bounds of a sequence add up.
\<close>

definition extends :: "('w \<Rightarrow> 'a list) \<Rightarrow> nat \<Rightarrow> 'w \<Rightarrow> 'w \<Rightarrow> bool" where
  "extends f n w w' \<longleftrightarrow> (\<exists>xs. f w' = f w @ xs \<and> length xs \<le> n)"

lemma extends_0: "extends f 0 w w' \<longleftrightarrow> f w' = f w"
  by (simp add: extends_def)

lemma extends_trans: "extends f m u v \<Longrightarrow> extends f n v w \<Longrightarrow> extends f (m + n) u w"
  unfolding extends_def by (metis add_mono append.assoc length_append)

lemma extends_mono: "keeps (extends f m) p \<Longrightarrow> m \<le> n \<Longrightarrow> keeps (extends f n) p"
  unfolding keeps_def extends_def by (meson le_trans)

lemma extends_sum:
  "keeps (extends f m) p \<Longrightarrow> (\<And>x. keeps (extends f n) (g x)) \<Longrightarrow> keeps (extends f (m + n)) (bindE p g)"
proof (rule keepsI)
  fix w r w' assume p: "keeps (extends f m) p" and g: "\<And>x. keeps (extends f n) (g x)"
    and "bindE p g w = (r, w')"
  from this(3) show "extends f (m + n) w w'"
  proof (cases rule: bindE_cases)
    case (exn e)
    then have "extends f m w w'" using keepsD[OF p] by blast
    then obtain xs where "f w' = f w @ xs" "length xs \<le> m" unfolding extends_def by blast
    then show ?thesis unfolding extends_def using trans_le_add1 by blast
  next
    case (val x w1)
    have "extends f m w w1" using keepsD[OF p val(1)] .
    moreover have "extends f n w1 w'" using keepsD[OF g val(2)] .
    ultimately show ?thesis by (rule extends_trans)
  qed
qed

lemmas extends_bind = extends_sum[where m = 0, unfolded add_0]
lemmas extends_last = extends_sum[where n = 0, unfolded add_0_right]

lemma extends_then: "keeps (extends f 0) p \<Longrightarrow> keeps (extends f n) q \<Longrightarrow> keeps (extends f n) (thenE p q)"
  unfolding thenE_def by (rule extends_bind)

lemma extends_ret: "keeps (extends f n) (ret x)"
  by (simp add: keeps_def extends_def)

lemma extends_attempt: "keeps (extends f n) p \<Longrightarrow> keeps (extends f n) (attemptE p)"
  by (rule keepsI) (auto simp: attemptE_def dest: keepsD split: prod.splits)

lemma extends_if:
  "keeps (extends f n) p \<Longrightarrow> keeps (extends f n) q \<Longrightarrow> keeps (extends f n) (if b then p else q)"
  by simp

text \<open>A model call adds at most one row to the usage ledger.\<close>

lemma call_extends_usage:
  assumes "\<And>q. outside_only (llm q)" shows "keeps (extends token_usage 1) (model_call cfg llm a)"
proof (rule keepsI)
  fix w r w' assume "model_call cfg llm a w = (r, w')"
  from model_call_outcome[OF assms this] show "extends token_usage 1 w w'"
    by (auto simp: call_outcome_def extends_def split: sum.splits)
qed

text \<open>With nothing failing and a listed agent outside any task, a call returns the reply.\<close>

lemma canned_call:
  assumes "script w = []" and "ca_agent a \<in> set agent_kinds" and "ca_task a = None"
  shows "\<exists>res v. model_call cfg (canned_llm raw) a w = (Inr res, v) \<and> mr_raw res = raw \<and>
    mr_text res = extract_text raw \<and> script v = []"
  using assms
  by (simp add: model_call_def Let_def open_run_def bindE_def attemptE_def thenE_def api_call_def
      canned_llm_def meter_def get_active_price_def record_usage_def close_run_def write_trace_def
      best_effort_def)

lemma seeding_returns: "\<exists>v. ensure_prompt_version a l t w = (Inr (), v) \<and> (script w = [] \<longrightarrow> script v = [])"
proof -
  have bump: "keeps quiet (bump_prompt_version a l t)"
    unfolding bump_prompt_version_def
    by (rule quiet_stmt) (auto simp: keeps_def quiet_def Let_def split: option.splits)
  show ?thesis
    using keepsD[OF bump]
    by (auto simp: ensure_prompt_version_def thenE_def bindE_def best_effort_def quiet_def
        split: prod.splits sum.splits)
qed

subsection \<open>Silence\<close>

text \<open>\<open>silent\<close>: no chat message is written, nothing is sent, nothing is enqueued.\<close>

definition silent :: "world \<Rightarrow> world \<Rightarrow> bool" where
  "silent w w' \<longleftrightarrow> messages w' = messages w \<and> threads w' = threads w \<and> outbox w' = outbox w \<and>
     jobs w' = jobs w"

interpretation quiet: ledger_frame quiet
  by unfold_locales (auto simp: quiet_def ledger_step_def)

interpretation silent: ledger_frame silent
  by unfold_locales (auto simp: silent_def env_apply_frame ledger_step_def)

lemma silent_fun:
  "(\<And>w. messages (snd (f w)) = messages w \<and> threads (snd (f w)) = threads w \<and>
     outbox (snd (f w)) = outbox w \<and> jobs (snd (f w)) = jobs w) \<Longrightarrow> keeps silent f"
  by (simp add: keeps_def silent_def)

end
