(* ===== verification/Execution.thy ===== *)
theory Execution
  imports Executor Agent_Orders
begin

section \<open>Executing a whole plan\<close>

text \<open>
  The main loop of \<open>ExecutorAgent.execute\<close>: batches of contiguous steps that share a
  \<open>parallel_group\<close>, one replan after a failure, skipping what is left otherwise, the verdict on
  success, the final answer, the sandbox's end and the outcome's persistence. The loop recurses
  on the remaining replan budget and then on the remaining steps, so it is total.
\<close>

text \<open>\<open>==\<close> on JSON values: numbers compare by value, and a bool is a number.\<close>

fun number_of :: "json \<Rightarrow> (int \<times> nat) option" where
  "number_of (JInt i) = Some (i, 0)"
| "number_of (JBool b) = Some ((if b then 1 else 0), 0)"
| "number_of (JFloat m k) = Some (m, k)"
| "number_of _ = None"

definition py_eq :: "json \<Rightarrow> json \<Rightarrow> bool" where
  "py_eq a b =
     (case (number_of a, number_of b) of
        (Some (m, i), Some (n, j)) \<Rightarrow> m * 10 ^ j = n * 10 ^ i
      | _ \<Rightarrow> a = b)"

definition next_batch :: "step \<Rightarrow> step list \<Rightarrow> step list \<times> step list" where
  "next_batch cur rest =
     (if st_group cur = JNull then ([cur], rest)
      else (cur # takeWhile (\<lambda>s. py_eq (st_group s) (st_group cur)) rest,
            dropWhile (\<lambda>s. py_eq (st_group s) (st_group cur)) rest))"

definition run_batch ::
  "deps \<Rightarrow> tool_ctx \<Rightarrow> plan \<Rightarrow> step_result list \<Rightarrow> bool \<Rightarrow> step list \<Rightarrow> step_result list act" where
  "run_batch d ctx plan prior emit batch =
     gather (d_order d (length batch)) (map (run_step d ctx plan prior emit) batch)"

definition replan_after_failure ::
  "deps \<Rightarrow> tool_ctx \<Rightarrow> plan \<Rightarrow> step_result list \<Rightarrow> step_result \<Rightarrow> bool \<Rightarrow> plan option act" where
  "replan_after_failure d ctx original completed failed emit =
     (case List.find (\<lambda>s. st_id s = r_step_id failed) (pl_steps original) of
        None \<Rightarrow> ret None
      | Some failed_step \<Rightarrow>
          bindE (attemptE (d_replan d ctx (pl_query original)
                   \<lparr> rc_query = pl_query original, rc_completed = completed,
                     rc_failed_step = failed_step,
                     rc_error = (case r_error failed of
                       None \<Rightarrow> ''(no error message)''
                     | Some m \<Rightarrow> if m = [] then ''(no error message)'' else m) \<rparr>)) (\<lambda>r.
            case r of
              Inl _ \<Rightarrow> ret None
            | Inr new_plan \<Rightarrow>
                thenE (maybe_emit emit ''plan.replan''
                         (''continuation: '' @ show_nat (length (pl_steps new_plan)) @
                          '' step(s) after '' @ st_id failed_step @ '' failed''))
                  (ret (Some new_plan))))"

function run_loop ::
  "deps \<Rightarrow> tool_ctx \<Rightarrow> plan \<Rightarrow> bool \<Rightarrow> nat \<Rightarrow> step_result list \<Rightarrow> step list
     \<Rightarrow> step_result list act" where
  "run_loop d ctx plan emit budget results [] = ret results"
| "run_loop d ctx plan emit budget results (cur # rest) =
     bindE (run_batch d ctx plan results emit (fst (next_batch cur rest))) (\<lambda>batch_results.
       case first_failed batch_results of
         None \<Rightarrow> run_loop d ctx plan emit budget (results @ batch_results)
                   (snd (next_batch cur rest))
       | Some failed \<Rightarrow>
           (case budget of
              0 \<Rightarrow> ret (results @ batch_results @ map step_skipped (snd (next_batch cur rest)))
            | Suc budget' \<Rightarrow>
                bindE (replan_after_failure d ctx plan (results @ batch_results) failed emit)
                  (\<lambda>continuation. case continuation of
                     Some p \<Rightarrow> run_loop d ctx plan emit budget' (results @ batch_results)
                                 (pl_steps p)
                   | None \<Rightarrow> ret (results @ batch_results @
                               map step_skipped (snd (next_batch cur rest))))))"
  by pat_completeness auto
termination
  by (relation "measures [\<lambda>(d, ctx, plan, emit, budget, results, steps). budget,
        \<lambda>(d, ctx, plan, emit, budget, results, steps). length steps]")
    (auto simp: next_batch_def less_Suc_eq_le length_dropWhile_le)

definition all_steps_done :: "step_result list \<Rightarrow> bool" where
  "all_steps_done results =
     (results \<noteq> [] \<and> \<not> list_ex (has_status SKIPPED) results \<and> has_status COMPLETED (last results))"

text \<open>The synthesis reuses the last completed step's output when it was a reasoning step.\<close>

definition own_synthesis :: "step_result list \<Rightarrow> pystr option" where
  "own_synthesis results =
     (case List.find (has_status COMPLETED) (rev results) of
        Some r \<Rightarrow>
          if r_kind r = Reasoning
          then Some (if truthy (r_output r) then json_str (r_output r) else [])
          else None
      | None \<Rightarrow> None)"

definition synthesize_answer ::
  "deps \<Rightarrow> tool_ctx \<Rightarrow> plan \<Rightarrow> step_result list \<Rightarrow> pystr act" where
  "synthesize_answer d ctx plan results =
     (case own_synthesis results of
        Some answer \<Rightarrow> ret answer
      | None \<Rightarrow>
          bindE (ask_model d ctx synthesis_agent_role (build_synthesis_prompt plan results))
            (\<lambda>res. ret (if mr_text res = [] then ''(no answer produced)'' else mr_text res)))"

definition failure_message :: "step_result list \<Rightarrow> pystr option" where
  "failure_message results =
     (case first_failed results of Some f \<Rightarrow> r_error f | None \<Rightarrow> Some ''no steps completed'')"

definition conclude_execution ::
  "deps \<Rightarrow> tool_ctx \<Rightarrow> plan \<Rightarrow> step_result list \<Rightarrow> execution_plan act" where
  "conclude_execution d ctx plan results =
     (if all_steps_done results
      then bindE (synthesize_answer d ctx plan results) (\<lambda>answer.
             ret \<lparr> x_plan = plan, x_results = results, x_final_answer = answer, x_success = True,
                   x_error = None \<rparr>)
      else ret \<lparr> x_plan = plan, x_results = results,
                 x_final_answer = format_failure_summary results, x_success = False,
                 x_error = failure_message results \<rparr>)"

definition step_cap_plan :: "plan \<Rightarrow> execution_plan" where
  "step_cap_plan plan = \<lparr> x_plan = plan, x_results = [],
     x_final_answer = ''This plan has '' @ show_nat (length (pl_steps plan)) @
       '' steps which exceeds the'' @ '' per-execution cap of '' @ show_nat MAX_STEPS @
       ''. Try a tighter plan.'',
     x_success = False, x_error = Some ''step_cap_exceeded'' \<rparr>"

definition persist_execution :: "plan \<Rightarrow> execution_plan \<Rightarrow> unit act" where
  "persist_execution plan x =
     (case pl_id plan of
        None \<Rightarrow> ret ()
      | Some pid \<Rightarrow> best_effort (update_outcome pid (Some (x_final_answer x))
                      (Some (x_success x)) None (x_error x)))"

definition execute :: "deps \<Rightarrow> tool_ctx \<Rightarrow> plan \<Rightarrow> bool \<Rightarrow> execution_plan act" where
  "execute d ctx plan emit =
     thenE ensure_executor_prompt
       (if length (pl_steps plan) > MAX_STEPS then ret (step_cap_plan plan)
        else bindE
          (finallyE
             (bindE (run_loop d ctx plan emit MAX_REPLANS [] (pl_steps plan))
                (conclude_execution d ctx plan))
             (best_effort (close_for_task (d_backend d) (c_user ctx) (c_task ctx))))
          (\<lambda>x. thenE (persist_execution plan x) (ret x)))"

subsection \<open>What execution keeps\<close>

text \<open>
  A world order is an \<open>exec_order\<close> when the operations execution is built from keep it. Then a
  whole execution keeps it, as soon as the collaborators do (\<open>deps_keep\<close>).
\<close>

definition backend_keeps :: "(world \<Rightarrow> world \<Rightarrow> bool) \<Rightarrow> backend \<Rightarrow> bool" where
  "backend_keeps R b \<longleftrightarrow> (\<forall>u t. keeps R (sb_build b u t)) \<and> (\<forall>sb. keeps R (sb_close b sb))"

definition deps_keep :: "(world \<Rightarrow> world \<Rightarrow> bool) \<Rightarrow> deps \<Rightarrow> bool" where
  "deps_keep R d \<longleftrightarrow>
     (\<forall>n t ctx i. reg_get (d_registry d) n = Inr t \<longrightarrow> keeps R (tl_run t ctx i)) \<and>
     (\<forall>row ctx i. keeps R (tl_run (d_dynamic d row) ctx i)) \<and>
     (\<forall>q. keeps R (d_llm d q)) \<and> (\<forall>u r. keeps R (d_build d u r)) \<and>
     (\<forall>ctx q c. keeps R (d_replan d ctx q c)) \<and> (\<forall>r. keeps R (d_spawn d r)) \<and>
     (\<forall>ctx i r p. keeps R (d_create_tool d ctx i r p)) \<and> backend_keeps R (d_backend d)"

locale exec_order = agent_order R for R :: "world \<Rightarrow> world \<Rightarrow> bool" +
  assumes outcome: "keeps R (update_outcome pid f s sc e)"
    and close: "backend_keeps R b \<Longrightarrow> keeps R (close_for_task b u tid)"
    and slot: "keeps R m \<Longrightarrow> keeps R (in_slot root (m :: child_outcome act))"
begin

lemma lookup_tool: "keeps R (find_active_by_name u n)"
  unfolding find_active_by_name_def by (intro stmt gets)

lemma parent_of: "keeps R (parent_of tid)"
  unfolding parent_of_def by (intro stmt gets)

lemma walk_depth: "keeps R (walk_depth n k tid)"
  by (induction n arbitrary: k tid) (simp_all only: walk_depth.simps ret bind opt parent_of)

lemma walk_root: "keeps R (walk_root n tid)"
  by (induction n arbitrary: tid) (simp_all only: walk_root.simps ret bind opt parent_of)

lemma invoke_keeps: "(\<And>i. keeps R (tl_run t ctx i)) \<Longrightarrow> keeps R (invoke t ctx i)"
  unfolding invoke_def by (intro if_ raise)

lemma ask_model_keeps: "deps_keep R d \<Longrightarrow> keeps R (ask_model d ctx role p)"
  unfolding ask_model_def
  by (intro bind gets call) (auto simp: deps_keep_def)

lemma reasoning_keeps: "deps_keep R d \<Longrightarrow> keeps R (run_reasoning d ctx st plan prior)"
  unfolding run_reasoning_def by (intro bind ret ask_model_keeps)

lemma propose_keeps: "deps_keep R d \<Longrightarrow> keeps R (propose_corrected_inputs d ctx st t i m)"
  unfolding propose_corrected_inputs_def
  by (intro bind gets attempt sum ret call)
    (auto simp: deps_keep_def)

lemma collision_keeps:
  assumes "deps_keep R d" and "\<And>i. keeps R (tl_run t ctx i)"
  shows "keeps R (handle_workspace_collision d ctx st t f v)"
proof (cases "reg_get (d_registry d) ''ask_user''")
  case (Inl e)
  then show ?thesis by (simp add: handle_workspace_collision_def raise)
next
  case (Inr ask)
  then have "keeps R (tl_run ask c i)" for c i
    using assms(1) unfolding deps_keep_def by blast
  then show ?thesis
    unfolding handle_workspace_collision_def Inr liftE_Inr bindE_ret
    by (intro if_ raise bind invoke_keeps assms(2))
qed

lemma on_tool_exn_keeps:
  assumes "deps_keep R d" and "\<And>i. keeps R (tl_run t ctx i)"
    and "\<And>f c. retry = Some f \<Longrightarrow> keeps R (f c)"
  shows "keeps R (on_tool_exn d ctx st t i emit retry e)"
proof -
  have "keeps R (bindE (propose_corrected_inputs d ctx st t i msg) (\<lambda>corrected.
      case corrected of None \<Rightarrow> raise e
      | Some c \<Rightarrow> thenE (maybe_emit emit ''step.recover''
          (st_id st @ '' retrying with corrected inputs'')) (again c)))"
    if "retry = Some again" for msg again
    by (intro bind opt raise andThen emit propose_keeps assms that)
  then show ?thesis
    unfolding on_tool_exn_def
    by (cases e) (auto simp: collision_keeps assms intro!: raise opt)
qed

lemma call_tool_keeps:
  assumes "deps_keep R d" and "\<And>i. keeps R (tl_run t ctx i)"
  shows "keeps R (call_tool_with_recovery n d ctx st t emit i)"
proof (induction n arbitrary: i)
  case 0
  show ?case unfolding call_tool_with_recovery.simps
    by (intro catch invoke_keeps on_tool_exn_keeps assms) simp
next
  case (Suc n)
  show ?case unfolding call_tool_with_recovery.simps
    by (intro catch invoke_keeps on_tool_exn_keeps assms) (use Suc in auto)
qed

lemma resolved_keeps:
  assumes "deps_keep R d" and k: "\<And>out. keeps R (k out)"
  shows "keeps R (bindE (resolve_tool d ctx name) (\<lambda>t.
    bindE (call_tool_with_recovery n d ctx st t emit i) k))"
proof (cases "reg_get (d_registry d) name")
  case (Inr t)
  then have "keeps R (tl_run t ctx i)" for i using assms(1) unfolding deps_keep_def by blast
  then show ?thesis
    by (simp add: resolve_tool_def Inr) (intro bind k call_tool_keeps assms)
next
  case (Inl e)
  have dyn: "keeps R (tl_run (d_dynamic d r) ctx i)" for r i
    using assms unfolding deps_keep_def by blast
  have body: "keeps R (bindE (case row of None \<Rightarrow> raise (ValueError (unknown_tool name))
      | Some r \<Rightarrow> ret (d_dynamic d r)) (\<lambda>t. bindE (call_tool_with_recovery n d ctx st t emit i) k))"
    for row
    by (cases row) (simp_all add: raise bind call_tool_keeps dyn k assms)
  show ?thesis
  proof (rule keepsI)
    fix w r w'
    assume "bindE (resolve_tool d ctx name) (\<lambda>t.
      bindE (call_tool_with_recovery n d ctx st t emit i) k) w = (r, w')"
    then have "bindE (find_active_by_name (c_user ctx) name) (\<lambda>row.
        bindE (case row of None \<Rightarrow> raise (ValueError (unknown_tool name))
          | Some r \<Rightarrow> ret (d_dynamic d r)) (\<lambda>t. bindE (call_tool_with_recovery n d ctx st t emit i) k)) w
        = (r, w')"
      by (auto simp: resolve_tool_def Inl bindE_def split: prod.splits sum.splits)
    from keepsD[OF bind[OF lookup_tool body] this] show "R w w'" .
  qed
qed

lemma functional_keeps: "deps_keep R d \<Longrightarrow> keeps R (run_functional d ctx st emit)"
  unfolding run_functional_def
  by (cases "st_tool st") (simp_all add: raise resolved_keeps ret)

lemma spawn_keeps: "deps_keep R d \<Longrightarrow> keeps R (spawn_subagent d ctx st p r t b c q)"
  unfolding spawn_subagent_def
  by (intro bind lift slot) (simp add: deps_keep_def)

lemma with_policy_keeps: "(\<And>q. keeps R (spawn q)) \<Longrightarrow> keeps R (with_policy pol spawn q)"
  unfolding with_policy_def by (cases pol) (auto intro!: catch ret raise)

lemma subagent_keeps: "deps_keep R d \<Longrightarrow> keeps R (run_subagent d ctx st)"
proof -
  assume d: "deps_keep R d"
  have body: "keeps R (bindE (get_depth parent) (\<lambda>depth. bindE (get_root parent) (\<lambda>root.
      if depth \<ge> MAX_SUBAGENT_DEPTH then raise (ValueError (depth_cap_message depth))
      else bindE (with_policy pol (spawn_subagent d ctx st parent root t b c) q)
             (\<lambda>out. ret (JObj out)))))" for parent pol t b c q
    unfolding get_depth_def get_root_def
    by (intro bind if_ raise ret walk_depth walk_root
        with_policy_keeps spawn_keeps d)
  show ?thesis
  proof (cases "c_task ctx")
    case None
    then show ?thesis by (simp add: run_subagent_def raise)
  next
    case (Some parent)
    show ?thesis
    proof (cases "dict_get (st_inputs st) ''query''")
      case None
      with Some show ?thesis by (simp add: run_subagent_def raise)
    next
      case query: (Some j)
      show ?thesis
        by (cases j) (auto simp: run_subagent_def Some query raise intro!: body)
    qed
  qed
qed

lemma tool_creator_keeps:
  assumes "deps_keep R d" shows "keeps R (run_tool_creator d ctx st plan)"
proof -
  have make: "keeps R (bindE (d_create_tool d ctx i r p) (\<lambda>out. ret (JObj out)))" for i r p
    using assms by (intro bind ret) (simp add: deps_keep_def)
  show ?thesis
  proof (cases "dict_get (st_inputs st) ''intent''")
    case None
    then show ?thesis by (simp add: run_tool_creator_def raise)
  next
    case (Some j)
    then show ?thesis by (cases j) (auto simp: run_tool_creator_def raise intro!: make)
  qed
qed

lemma run_step_keeps: "deps_keep R d \<Longrightarrow> keeps R (run_step d ctx plan prior emit st)"
  unfolding run_step_def
proof (intro andThen emit bind gets attempt sum ret)
  assume "deps_keep R d"
  then show "keeps R (dispatch_step d ctx plan prior emit st)"
    unfolding dispatch_step_def run_evaluation_def
    by (cases "st_kind st")
      (simp_all add: functional_keeps reasoning_keeps subagent_keeps tool_creator_keeps)
qed

lemma run_batch_keeps: "deps_keep R d \<Longrightarrow> keeps R (run_batch d ctx plan prior emit batch)"
  unfolding run_batch_def by (intro gather) (auto simp: run_step_keeps)

lemma replan_keeps: "deps_keep R d \<Longrightarrow> keeps R (replan_after_failure d ctx p c f emit)"
  unfolding replan_after_failure_def
  by (intro opt ret bind attempt sum andThen emit)
    (simp add: deps_keep_def)

lemma run_loop_keeps: "deps_keep R d \<Longrightarrow> keeps R (run_loop d ctx plan emit budget results steps)"
proof (induction d ctx plan emit budget results steps rule: run_loop.induct)
  case (2 d ctx plan emit budget results cur rest)
  show ?case
    unfolding run_loop.simps
  proof (intro bind opt run_batch_keeps 2)
    fix br failed assume failed: "first_failed br = Some failed"
    show "keeps R (case budget of
              0 \<Rightarrow> ret (results @ br @ map step_skipped (snd (next_batch cur rest)))
            | Suc budget' \<Rightarrow>
                bindE (replan_after_failure d ctx plan (results @ br) failed emit)
                  (\<lambda>continuation. case continuation of
                     Some p \<Rightarrow> run_loop d ctx plan emit budget' (results @ br) (pl_steps p)
                   | None \<Rightarrow> ret (results @ br @ map step_skipped (snd (next_batch cur rest)))))"
    proof (cases budget)
      case 0
      then show ?thesis by (simp add: ret)
    next
      case (Suc b)
      then show ?thesis
        using 2(2)[OF failed Suc] 2(3)
        by (auto intro!: bind replan_keeps ret split: option.splits)
    qed
  qed
qed (simp add: ret)

lemma conclude_execution_keeps: "deps_keep R d \<Longrightarrow> keeps R (conclude_execution d ctx plan rs)"
  unfolding conclude_execution_def synthesize_answer_def
  by (intro if_ bind opt ret ask_model_keeps)

lemma execute_keeps: "deps_keep R d \<Longrightarrow> keeps R (execute d ctx plan emit)"
  unfolding execute_def persist_execution_def ensure_executor_prompt_def
  by (intro andThen if_ ret bind finally_ effort opt
      prompt run_loop_keeps conclude_execution_keeps outcome
      close) (simp_all add: deps_keep_def)

end

subsection \<open>Execution is sound\<close>

interpretation sound: exec_order sound
proof unfold_locales
  fix m :: "child_outcome act" and root
  show "keeps sound m \<Longrightarrow> keeps sound (in_slot root m)"
    unfolding in_slot_def enter_slot_def leave_slot_def
    by (intro sound.andThen sound.finally_ sound_modify) simp_all
qed (auto intro: model_call_sound ensure_prompt_version_sound update_outcome_sound
    close_for_task_sound simp: backend_sound_def backend_keeps_def)

lemmas execute_sound = sound.execute_keeps

end
