(* ===== verification/Execution_Facts.thy ===== *)
theory Execution_Facts
  imports Execution Agent_Orders
begin

section \<open>What an execution does\<close>

text \<open>
  The shape of an execution's results, the release of what it holds (subagent slots, the
  sandbox), the bounds on retries, the failure policies of subagents, and the two places where
  the executor does not do what its comments say.
\<close>

subsection \<open>Subagent slots are balanced\<close>

definition same_slots :: "world \<Rightarrow> world \<Rightarrow> bool" where
  "same_slots w w' \<longleftrightarrow> (\<forall>root. slot_count root w' = slot_count root w)"

lemma same_slots_cong: "slot_refs w' = slot_refs w \<Longrightarrow> same_slots w w'"
  by (simp add: same_slots_def slot_count_def)

lemma env_apply_slots: "slot_refs (env_apply a w) = slot_refs w"
  by (cases a) auto

text \<open>
  A \<open>box_frame\<close> is a \<open>ledger_frame\<close> that does not look at plans, sandboxes or the compute
  ledger; a \<open>free_frame\<close> does not look at the slots either, and is an \<open>exec_order\<close> at once.
\<close>

definition box_step :: "world \<Rightarrow> world \<Rightarrow> bool" where
  "box_step w w' \<longleftrightarrow> (\<exists>p cu sb sr. w' = w\<lparr>plans := p, compute_usage := cu, sandboxes := sb,
     sandbox_rows := sr\<rparr>)"

lemma box_steps:
  "box_step w (w\<lparr>plans := p\<rparr>)" "box_step w (w\<lparr>compute_usage := cu\<rparr>)"
  "box_step w (w\<lparr>sandboxes := sb\<rparr>)" "box_step w (w\<lparr>sandbox_rows := sr\<rparr>)"
  unfolding box_step_def by (intro exI world.equality; simp)+

lemma upsert_step: "box_step w (upsert_sandbox_row i tid pr s c w)"
  by (auto simp: upsert_sandbox_row_def intro: box_steps split: option.splits)

locale box_frame = ledger_frame R for R :: "world \<Rightarrow> world \<Rightarrow> bool" +
  assumes box: "box_step w w' \<Longrightarrow> R w w'"
begin

lemma box_modify: "(\<And>w. box_step w (f w)) \<Longrightarrow> keeps R (modifyE f)"
  by (rule modify) (rule box)

lemma frame_outcome: "keeps R (update_outcome pid f s sc e)"
  unfolding update_outcome_def by (intro if_ ret stmt box_modify box_steps)

lemma frame_close:
  assumes "backend_keeps R b" shows "keeps R (close_for_task b u tid)"
proof -
  have "keeps R (record_compute u tid i pr el)" for i pr el
    unfolding record_compute_def Let_def
    by (intro andThen opt ret stmt box_modify box_steps upsert_step)
  then have td: "keeps R (tear_down b sb u tid)" for sb
    unfolding tear_down_def
    by (intro finally_ when_ effort) (use assms in \<open>simp_all add: backend_keeps_def\<close>)
  show ?thesis
    unfolding keeps_def
  proof
    fix w
    show "R w (snd (close_for_task b u tid w))"
    proof (cases "map_of (sandboxes w) (u, tid)")
      case None
      then show ?thesis by (simp add: close_for_task_def refl)
    next
      case (Some sb)
      let ?w = "w\<lparr>sandboxes := AList.delete (u, tid) (sandboxes w)\<rparr>"
      have "R w ?w" by (rule box) (rule box_steps)
      moreover have "R ?w (snd (tear_down b sb u tid ?w))"
        using td by (simp add: keeps_def)
      ultimately have "R w (snd (tear_down b sb u tid ?w))" by (rule trans)
      then show ?thesis by (simp add: close_for_task_def Some)
    qed
  qed
qed

end

locale free_frame = box_frame R for R :: "world \<Rightarrow> world \<Rightarrow> bool" +
  assumes slots: "R w (w\<lparr>slot_refs := sl\<rparr>)"
begin

lemma frame_slot: "keeps R m \<Longrightarrow> keeps R (in_slot root m)"
  unfolding in_slot_def enter_slot_def leave_slot_def
  by (intro andThen finally_ modify slots)

end

sublocale free_frame \<subseteq> exec_order
  by unfold_locales (auto intro: frame_outcome frame_close frame_slot)

interpretation quiet: free_frame quiet
  by unfold_locales (auto simp: quiet_def box_step_def)

interpretation silent: free_frame silent
  by unfold_locales (auto simp: silent_def box_step_def)

interpretation slots: box_frame same_slots
proof unfold_locales
  fix u v w w' :: world and a xs ys n es
  show "same_slots w w" by (rule same_slots_cong) simp
  show "same_slots u v \<Longrightarrow> same_slots v w \<Longrightarrow> same_slots u w" by (simp add: same_slots_def)
  show "same_slots w (w\<lparr>script := xs\<rparr>)" by (rule same_slots_cong) simp
  show "same_slots w (env_apply a w)" by (rule same_slots_cong) (rule env_apply_slots)
  show "same_slots w (w\<lparr>next_id := Suc (next_id w)\<rparr>)" "same_slots w (w\<lparr>stream := ys\<rparr>)"
    "same_slots w (w\<lparr>now := n, env := es\<rparr>)"
    by (rule same_slots_cong; simp)+
  show "ledger_step w w' \<Longrightarrow> same_slots w w'"
    by (rule same_slots_cong) (auto simp: ledger_step_def)
  show "box_step w w' \<Longrightarrow> same_slots w w'"
    by (rule same_slots_cong) (auto simp: box_step_def)
qed

lemma slot_count_enter:
  "slot_count r (snd (enter_slot root w)) = (if r = root then slot_count root w + 1 else slot_count r w)"
  by (simp add: enter_slot_def slot_count_def update_conv')

lemma slot_count_leave:
  "slot_count r (snd (leave_slot root w)) = (if r = root then slot_count root w - 1 else slot_count r w)"
  by (auto simp: leave_slot_def slot_count_def update_conv' delete_conv' split: option.splits)

lemma slots_in_slot:
  assumes "keeps same_slots m" shows "keeps same_slots (in_slot root m)"
  unfolding keeps_def same_slots_def
proof (intro allI)
  fix w r
  let ?w1 = "snd (enter_slot root w)"
  obtain q w2 where m: "m ?w1 = (q, w2)" by (cases "m ?w1")
  have "same_slots ?w1 w2" using keepsD[OF assms m] .
  then have "slot_count r (snd (leave_slot root w2)) = slot_count r w"
    by (simp add: same_slots_def slot_count_leave slot_count_enter)
  moreover have "in_slot root m w = (q, snd (leave_slot root w2))"
    using m
    by (simp add: in_slot_def thenE_def bindE_def finallyE_def enter_slot_def leave_slot_def)
  ultimately show "slot_count r (snd (in_slot root m w)) = slot_count r w" by simp
qed

interpretation slots: exec_order same_slots
  by unfold_locales
    (auto intro: slots.frame_outcome slots.frame_close slots_in_slot)

subsection \<open>gather\<close>

lemma run_in_order_run:
  "run_in_order ms order w = (r, w') \<Longrightarrow>
   \<exists>rs. r = Inr rs \<and> map fst rs = order \<and>
     (\<forall>i x. (i, x) \<in> set rs \<longrightarrow> (\<exists>v v'. (ms ! i) v = (x, v')))"
proof (induction order arbitrary: w r w')
  case Nil
  then show ?case by (simp add: run_in_order_def)
next
  case (Cons i order)
  obtain x w1 where i: "(ms ! i) w = (x, w1)" by (cases "(ms ! i) w")
  obtain q w2 where rest: "run_in_order ms order w1 = (q, w2)" by (cases "run_in_order ms order w1")
  from Cons.IH[OF rest] obtain rs where rs: "q = Inr rs" "map fst rs = order"
    "\<forall>i x. (i, x) \<in> set rs \<longrightarrow> (\<exists>v v'. (ms ! i) v = (x, v'))" by blast
  have "r = Inr ((i, x) # rs)"
    using Cons.prems i rest rs(1)
    by (simp add: run_in_order_def bindE_def attemptE_def)
  with rs i show ?case by auto
qed

lemma first_exn_None: "first_exn rs = None \<Longrightarrow> (i, x) \<in> set rs \<Longrightarrow> \<exists>y. x = Inr y"
  by (induction rs rule: first_exn.induct) (auto split: sum.splits)

lemma values_of_complete:
  "\<forall>i\<in>set is. \<exists>x. map_of rs i = Some (Inr x) \<Longrightarrow>
   length (values_of rs is) = length is \<and>
   (\<forall>k<length is. map_of rs (is ! k) = Some (Inr (values_of rs is ! k)))"
proof (induction "is")
  case (Cons i "is")
  then obtain x where "map_of rs i = Some (Inr x)" by auto
  with Cons show ?case by (auto simp: less_Suc_eq_0_disj nth_Cons')
qed simp

lemma gather_Inr:
  assumes "gather order ms w = (Inr xs, w')"
  shows "length xs = length ms \<and> (\<forall>k<length ms. \<exists>v v'. (ms ! k) v = (Inr (xs ! k), v'))"
proof -
  let ?o = "schedule_of order (length ms)"
  obtain r w1 where r: "run_in_order ms ?o w = (r, w1)" by (cases "run_in_order ms ?o w")
  from run_in_order_run[OF r] obtain rs where rs: "r = Inr rs" "map fst rs = ?o"
    "\<forall>i x. (i, x) \<in> set rs \<longrightarrow> (\<exists>v v'. (ms ! i) v = (x, v'))" by blast
  have none: "first_exn rs = None" and xs: "xs = values_of rs [0..<length ms]"
    using assms r rs(1) by (auto simp: gather_def bindE_def split: option.splits)
  have "\<exists>x. map_of rs i = Some (Inr x)" if "i < length ms" for i
  proof -
    have "i \<in> fst ` set rs"
      using that rs(2) set_schedule_of[of order "length ms"] by (metis atLeast0LessThan lessThan_iff set_map)
    then obtain x where x: "map_of rs i = Some x" by (metis map_of_eq_None_iff option.exhaust)
    then show ?thesis using first_exn_None[OF none] map_of_SomeD by fastforce
  qed
  then have all: "\<forall>i\<in>set [0..<length ms]. \<exists>x. map_of rs i = Some (Inr x)" by simp
  note vals = values_of_complete[OF all]
  show ?thesis
  proof (intro conjI allI impI)
    show "length xs = length ms" using vals xs by simp
    fix k assume k: "k < length ms"
    then have "map_of rs k = Some (Inr (xs ! k))" using vals xs by auto
    then show "\<exists>v v'. (ms ! k) v = (Inr (xs ! k), v')" using rs(3) map_of_SomeD by fast
  qed
qed

end
