(* ===== verification/Loop_Trace.thy ===== *)
theory Loop_Trace
  imports Execution_Facts
begin

section \<open>What one execution leaves behind\<close>

text \<open>
  An abstract specification of the executor's loop: \<open>loop_trace\<close> says which lists of step
  results an execution may produce from a list of steps and a budget of replans. The loop is
  shown to refine it, and the verdict on success is read off it.
\<close>

subsection \<open>One step's result\<close>

definition ran :: "step \<Rightarrow> step_result \<Rightarrow> bool" where
  "ran st r \<longleftrightarrow> r_step_id r = st_id st \<and> r_kind r = st_kind st \<and>
     (r_status r = COMPLETED \<and> r_error r = None \<or>
      r_status r = FAILED \<and> r_error r \<noteq> None \<and> r_output r = JNull)"

lemma ran_not_skipped: "ran st r \<Longrightarrow> r_status r \<noteq> SKIPPED"
  by (auto simp: ran_def)

lemma run_step_result:
  assumes "run_step d ctx plan prior emit st w = (Inr r, w')"
  shows "ran st r"
  using assms
  by (auto simp: run_step_def thenE_def bindE_def attemptE_def ran_def step_failed_def
      step_completed_def split: prod.splits sum.splits)

lemma run_step_returns: "no_raise (run_step d ctx plan prior False st)"
  unfolding run_step_def
  by (simp only: maybe_emit_off)
    (intro no_raise_rules no_raise_attempt no_raise_sum)

lemma run_batch_results:
  assumes "run_batch d ctx plan prior emit batch w = (Inr rs, w')"
  shows "list_all2 ran batch rs"
proof -
  from gather_Inr[OF assms[unfolded run_batch_def]] show ?thesis
    by (auto simp: list_all2_conv_all_nth intro: run_step_result)
qed

lemma run_in_order_returns:
  assumes "\<And>i. i \<in> set order \<Longrightarrow> no_raise (ms ! i)"
  obtains rs w' where "run_in_order ms order w = (Inr rs, w')" and "first_exn rs = None"
  using assms
proof (induction order arbitrary: w thesis)
  case Nil
  then show ?case by (simp add: run_in_order_def)
next
  case (Cons i order)
  obtain x w1 where i: "(ms ! i) w = (Inr x, w1)"
    by (rule no_raiseE[OF Cons.prems(2)[of i], of w]) simp_all
  obtain rs w2 where rest: "run_in_order ms order w1 = (Inr rs, w2)" "first_exn rs = None"
    using Cons.IH[of w1] Cons.prems(2) by auto
  have "run_in_order ms (i # order) w = (Inr ((i, Inr x) # rs), w2)"
    using i rest by (simp add: run_in_order_def bindE_def attemptE_def)
  then show ?case using Cons.prems(1) rest(2) by fastforce
qed

lemma gather_returns:
  assumes "\<And>m. m \<in> set ms \<Longrightarrow> no_raise m" shows "no_raise (gather order ms)"
  unfolding no_raise_def
proof
  fix w
  have "no_raise (ms ! i)" if "i \<in> set (schedule_of order (length ms))" for i
    using assms schedule_of_bound[OF that] by simp
  then obtain rs w' where "run_in_order ms (schedule_of order (length ms)) w = (Inr rs, w')"
    and "first_exn rs = None" using run_in_order_returns[of "schedule_of order (length ms)" ms w]
    by blast
  then show "\<exists>x w'. gather order ms w = (Inr x, w')" by (simp add: gather_def bindE_def)
qed

lemma run_batch_returns: "no_raise (run_batch d ctx plan prior False batch)"
  unfolding run_batch_def by (rule gather_returns) (auto simp: run_step_returns)

subsection \<open>The specification of the loop\<close>

definition calm :: "step_result list \<Rightarrow> bool" where
  "calm rs \<longleftrightarrow> (\<forall>r\<in>set rs. r_status r \<noteq> FAILED)"

inductive loop_trace :: "nat \<Rightarrow> step list \<Rightarrow> step_result list \<Rightarrow> bool" where
  finished: "list_all2 ran steps rs \<Longrightarrow> calm rs \<Longrightarrow> loop_trace b steps rs"
| abandoned: "list_all2 ran pre rs1 \<Longrightarrow> calm rs1 \<Longrightarrow> next_batch cur rest = (batch, after) \<Longrightarrow>
    list_all2 ran batch rs2 \<Longrightarrow> \<not> calm rs2 \<Longrightarrow>
    loop_trace b (pre @ cur # rest) (rs1 @ rs2 @ map step_skipped after)"
| replanned: "list_all2 ran pre rs1 \<Longrightarrow> calm rs1 \<Longrightarrow> next_batch cur rest = (batch, after) \<Longrightarrow>
    list_all2 ran batch rs2 \<Longrightarrow> \<not> calm rs2 \<Longrightarrow> loop_trace b continuation rs3 \<Longrightarrow>
    loop_trace (Suc b) (pre @ cur # rest) (rs1 @ rs2 @ rs3)"

lemma calm_first_failed: "first_failed rs = None \<longleftrightarrow> calm rs"
  by (auto simp: first_failed_def find_None_iff calm_def has_status_def)

lemma calm_append [simp]: "calm (xs @ ys) \<longleftrightarrow> calm xs \<and> calm ys"
  by (auto simp: calm_def)

lemma next_batch_split: "fst (next_batch cur rest) @ snd (next_batch cur rest) = cur # rest"
  by (simp add: next_batch_def)

text \<open>Steps that went well before the rest of a trace.\<close>

lemma loop_trace_prefix:
  assumes "loop_trace b steps rs" and "list_all2 ran done_steps rs0" and "calm rs0"
  shows "loop_trace b (done_steps @ steps) (rs0 @ rs)"
  using assms
proof (induction rule: loop_trace.induct)
  case (finished steps rs b)
  then show ?case by (intro loop_trace.finished) (auto intro: list_all2_appendI)
next
  case (abandoned pre rs1 cur rest batch after rs2 b)
  then show ?case
    using loop_trace.abandoned[of "done_steps @ pre" "rs0 @ rs1" cur rest batch after rs2 b]
    by (auto intro: list_all2_appendI)
next
  case (replanned pre rs1 cur rest batch after rs2 b continuation rs3)
  then show ?case
    using loop_trace.replanned[of "done_steps @ pre" "rs0 @ rs1" cur rest batch after rs2 b
        continuation rs3] by (auto intro: list_all2_appendI)
qed

lemma run_loop_trace:
  "run_loop d ctx plan emit budget results steps w = (Inr out, w') \<Longrightarrow>
   \<exists>rs. out = results @ rs \<and> loop_trace budget steps rs"
proof (induction d ctx plan emit budget results steps arbitrary: w out w' rule: run_loop.induct)
  case (1 d ctx plan emit budget results)
  then show ?case by (auto intro: loop_trace.finished simp: calm_def)
next
  case (2 d ctx plan emit budget results cur rest)
  obtain batch after where nb: "next_batch cur rest = (batch, after)" by fastforce
  from 2(3) obtain br w1 where br: "run_batch d ctx plan results emit batch w = (Inr br, w1)"
    and k: "(case first_failed br of
         None \<Rightarrow> run_loop d ctx plan emit budget (results @ br) after
       | Some failed \<Rightarrow>
           (case budget of
              0 \<Rightarrow> ret (results @ br @ map step_skipped after)
            | Suc budget' \<Rightarrow>
                bindE (replan_after_failure d ctx plan (results @ br) failed emit)
                  (\<lambda>continuation. case continuation of
                     Some p \<Rightarrow> run_loop d ctx plan emit budget' (results @ br) (pl_steps p)
                   | None \<Rightarrow> ret (results @ br @ map step_skipped after)))) w1 = (Inr out, w')"
    by (cases rule: bindE_cases[OF 2(3)[unfolded run_loop.simps nb fst_conv snd_conv]]) auto
  note ran = run_batch_results[OF br]
  have split: "cur # rest = batch @ after" using next_batch_split[of cur rest] nb by simp
  have abandon: "loop_trace budget (cur # rest) (br @ map step_skipped after)" if "\<not> calm br"
    using loop_trace.abandoned[of "[]" "[]" cur rest batch after br budget] nb ran that
    by (simp add: calm_def)
  show ?case
  proof (cases "first_failed br")
    case None
    with 2(1)[OF None, of w1 out w'] k nb obtain rs where
      "out = (results @ br) @ rs" "loop_trace budget after rs" by auto
    then show ?thesis
      using loop_trace_prefix[of budget after rs batch br] ran None split
      by (auto simp: calm_first_failed)
  next
    case (Some f)
    then have bad: "\<not> calm br" using calm_first_failed[of br] by simp
    show ?thesis
    proof (cases budget)
      case 0
      then show ?thesis using k Some abandon[OF bad] by auto
    next
      case (Suc b)
      with k Some obtain c w2 where
        c: "replan_after_failure d ctx plan (results @ br) f emit w1 = (Inr c, w2)"
        and k2: "(case c of Some p \<Rightarrow> run_loop d ctx plan emit b (results @ br) (pl_steps p)
                   | None \<Rightarrow> ret (results @ br @ map step_skipped after)) w2 = (Inr out, w')"
        by (auto elim: bindE_cases)
      show ?thesis
      proof (cases c)
        case None
        then show ?thesis using k2 abandon[OF bad] by auto
      next
        case (Some p)
        with 2(2)[OF \<open>first_failed br = Some f\<close> Suc, of p w2 out w'] k2 obtain rs where
          rs: "out = (results @ br) @ rs" "loop_trace b (pl_steps p) rs" by auto
        then have "loop_trace (Suc b) (cur # rest) (br @ rs)"
          using loop_trace.replanned[of "[]" "[]" cur rest batch after br b "pl_steps p" rs]
            nb ran bad by (simp add: calm_def)
        then show ?thesis using rs Suc by auto
      qed
    qed
  qed
qed

lemma replan_returns: "no_raise (replan_after_failure d ctx p c f False)"
  unfolding replan_after_failure_def
  by (cases "List.find (\<lambda>s. st_id s = r_step_id f) (pl_steps p)")
    (auto intro!: no_raise_rules no_raise_attempt no_raise_sum)

lemma run_loop_returns: "no_raise (run_loop d ctx plan False budget results steps)"
proof (induction d ctx plan "False" budget results steps rule: run_loop.induct)
  case (1 d ctx plan budget results)
  then show ?case by (simp add: no_raise_rules)
next
  case (2 d ctx plan budget results cur rest)
  show ?case unfolding run_loop.simps
  proof (intro no_raise_bind run_batch_returns)
    fix br
    show "no_raise (case first_failed br of
         None \<Rightarrow> run_loop d ctx plan False budget (results @ br) (snd (next_batch cur rest))
       | Some failed \<Rightarrow>
           (case budget of
              0 \<Rightarrow> ret (results @ br @ map step_skipped (snd (next_batch cur rest)))
            | Suc budget' \<Rightarrow>
                bindE (replan_after_failure d ctx plan (results @ br) failed False)
                  (\<lambda>continuation. case continuation of
                     Some p \<Rightarrow> run_loop d ctx plan False budget' (results @ br) (pl_steps p)
                   | None \<Rightarrow> ret (results @ br @ map step_skipped (snd (next_batch cur rest))))))"
      using 2 by (auto intro!: no_raise_rules replan_returns split: option.splits nat.splits)
  qed
qed

end
