(* ===== verification/Execution_Props.thy ===== *)
theory Execution_Props
  imports Loop_Trace
begin

section \<open>Properties of execution\<close>

text \<open>
  The executor's properties over the whole of \<open>execute\<close>: its verdict, its totality without an
  event stream, the database invariant, what it releases, the bounds on sub-agents, and two
  places where it does not do what it means to.
\<close>

subsection \<open>The parent chain of a task\<close>

fun ancestor :: "world \<Rightarrow> nat \<Rightarrow> uuid \<Rightarrow> uuid option" where
  "ancestor w 0 tid = Some tid"
| "ancestor w (Suc n) tid =
     Option.bind (ancestor w n tid) (\<lambda>a. Option.bind (task_lookup a w) t_parent_task_id)"

lemma ancestor_from_parent:
  "ancestor w (Suc n) tid =
     Option.bind (Option.bind (task_lookup tid w) t_parent_task_id) (ancestor w n)"
  by (induction n) (auto split: Option.bind_split)

lemma ancestor_None_later: "ancestor w n tid = None \<Longrightarrow> n \<le> m \<Longrightarrow> ancestor w m tid = None"
  by (induction m) (auto simp: le_Suc_eq)

definition chain_top :: "world \<Rightarrow> nat \<Rightarrow> nat \<Rightarrow> uuid \<Rightarrow> bool" where
  "chain_top w bound m tid \<longleftrightarrow> m \<le> bound \<and> ancestor w m tid \<noteq> None \<and>
     (m < bound \<longrightarrow> ancestor w (Suc m) tid = None)"

lemma parent_of_quiet:
  "script w = [] \<Longrightarrow> parent_of tid w = (Inr (Option.bind (task_lookup tid w) t_parent_task_id), w)"
  by (simp add: parent_of_def)

lemma walks_quiet:
  assumes "script w = []"
  shows "\<exists>m. chain_top w n m tid \<and> walk_depth n k tid w = (Inr (k + m), w) \<and>
    walk_root n tid w = (Inr (the (ancestor w m tid)), w)"
proof (induction n arbitrary: k tid)
  case 0
  show ?case by (rule exI[of _ 0]) (simp add: chain_top_def)
next
  case (Suc n)
  show ?case
  proof (cases "Option.bind (task_lookup tid w) t_parent_task_id")
    case None
    then show ?thesis using parent_of_quiet[OF assms, of tid]
      by (intro exI[of _ 0]) (simp add: chain_top_def bindE_def)
  next
    case (Some p)
    note up = ancestor_from_parent[of w _ tid, unfolded Some Option.bind.simps]
    obtain m where m: "chain_top w n m p" "walk_depth n (Suc k) p w = (Inr (Suc k + m), w)"
      "walk_root n p w = (Inr (the (ancestor w m p)), w)" using Suc[of p "Suc k"] by blast
    have "chain_top w (Suc n) (Suc m) tid"
      using m(1) by (simp only: chain_top_def up) simp
    moreover have "walk_depth (Suc n) k tid w = (Inr (k + Suc m), w)"
      using m(2) parent_of_quiet[OF assms, of tid] Some by (simp add: bindE_def)
    moreover have "walk_root (Suc n) tid w = (Inr (the (ancestor w (Suc m) tid)), w)"
      using m(3) parent_of_quiet[OF assms, of tid] Some by (simp add: bindE_def up del: ancestor.simps)
    ultimately show ?thesis by blast
  qed
qed

lemma get_depth_root:
  assumes "script w = []"
  obtains m where "chain_top w MAX_DEPTH_WALK m tid" "get_depth tid w = (Inr m, w)"
    "get_root tid w = (Inr (the (ancestor w m tid)), w)"
  using walks_quiet[OF assms, of MAX_DEPTH_WALK tid 0]
  by (auto simp: get_depth_def get_root_def)

lemma chain_top_deep:
  assumes "chain_top w b m tid" and "k \<le> b" shows "k \<le> m \<longleftrightarrow> ancestor w k tid \<noteq> None"
proof
  assume "k \<le> m"
  moreover have "ancestor w m tid \<noteq> None" using assms by (simp add: chain_top_def)
  ultimately show "ancestor w k tid \<noteq> None" using ancestor_None_later[of w k tid m] by metis
next
  assume some: "ancestor w k tid \<noteq> None"
  show "k \<le> m"
  proof (rule ccontr)
    assume "\<not> k \<le> m"
    then have "ancestor w (Suc m) tid = None" and "Suc m \<le> k"
      using assms by (auto simp: chain_top_def)
    then show False using some ancestor_None_later by metis
  qed
qed

subsection \<open>Sub-agent steps\<close>

definition child_request_of ::
  "tool_ctx \<Rightarrow> step \<Rightarrow> uuid \<Rightarrow> pystr \<Rightarrow> child_request" where
  "child_request_of ctx st parent query =
     \<lparr> ch_user = c_user ctx, ch_content = query, ch_title = subagent_title st,
       ch_description = ''Subagent spawned by parent task '' @ uuid_text parent @
         '' for step '' @ py_repr (st_id st) @ '': '' @ st_description st,
       ch_parent = parent, ch_budget = get_default (st_inputs st) ''budget_cents'' JNull,
       ch_complexity = get_or (st_inputs st) ''complexity_hint'' (JStr ''moderate'') \<rparr>"

definition spawn_once ::
  "deps \<Rightarrow> tool_ctx \<Rightarrow> step \<Rightarrow> uuid \<Rightarrow> uuid \<Rightarrow> pystr \<Rightarrow> dict act" where
  "spawn_once d ctx st parent root query =
     bindE (in_slot root (d_spawn d (child_request_of ctx st parent query)))
       (\<lambda>out. liftE (child_result out))"

lemma spawn_subagent_once:
  "spawn_subagent d ctx st parent root (subagent_title st)
     (get_default (st_inputs st) ''budget_cents'' JNull)
     (get_or (st_inputs st) ''complexity_hint'' (JStr ''moderate'')) query =
   spawn_once d ctx st parent root query"
  by (simp add: spawn_subagent_def spawn_once_def child_request_of_def)

lemma run_subagent_quiet:
  assumes "script w = []" and "c_task ctx = Some parent"
    and "dict_get (st_inputs st) ''query'' = Some (JStr query)" and "strip query \<noteq> []"
  obtains m where "chain_top w MAX_DEPTH_WALK m parent"
    "run_subagent d ctx st w =
      (if MAX_SUBAGENT_DEPTH \<le> m then (Inl (ValueError (depth_cap_message m)), w)
       else bindE (with_policy (normalize_failure_policy (dict_get (st_inputs st) ''on_failure''))
              (spawn_once d ctx st parent (the (ancestor w m parent))) query)
              (\<lambda>out. ret (JObj out)) w)"
proof -
  obtain m where m: "chain_top w MAX_DEPTH_WALK m parent" "get_depth parent w = (Inr m, w)"
    "get_root parent w = (Inr (the (ancestor w m parent)), w)"
    using get_depth_root[OF assms(1)] .
  have "run_subagent d ctx st w =
      (if MAX_SUBAGENT_DEPTH \<le> m then (Inl (ValueError (depth_cap_message m)), w)
       else bindE (with_policy (normalize_failure_policy (dict_get (st_inputs st) ''on_failure''))
              (spawn_once d ctx st parent (the (ancestor w m parent))) query)
              (\<lambda>out. ret (JObj out)) w)"
    unfolding run_subagent_def assms(2,3) option.case json.case spawn_subagent_once
    using assms(4) m by (simp add: bindE_Inr[where m = "get_depth parent" and w = w, OF m(2)]
        bindE_Inr[where m = "get_root parent" and w = w, OF m(3)])
  with m(1) show ?thesis using that by blast
qed

lemma depth_guard:
  assumes "script w = []" and "c_task ctx = Some parent"
    and "dict_get (st_inputs st) ''query'' = Some (JStr query)" and "strip query \<noteq> []"
  shows "if ancestor w MAX_SUBAGENT_DEPTH parent = None
    then \<exists>root. (\<exists>m<MAX_SUBAGENT_DEPTH. ancestor w m parent = Some root \<and> ancestor w (Suc m) parent = None) \<and>
      run_subagent d ctx st w =
        bindE (with_policy (normalize_failure_policy (dict_get (st_inputs st) ''on_failure''))
              (spawn_once d ctx st parent root) query) (\<lambda>out. ret (JObj out)) w
    else \<exists>m. run_subagent d ctx st w = (Inl (ValueError (depth_cap_message m)), w)"
proof -
  obtain m where m: "chain_top w MAX_DEPTH_WALK m parent"
    and run: "run_subagent d ctx st w =
      (if MAX_SUBAGENT_DEPTH \<le> m then (Inl (ValueError (depth_cap_message m)), w)
       else bindE (with_policy (normalize_failure_policy (dict_get (st_inputs st) ''on_failure''))
              (spawn_once d ctx st parent (the (ancestor w m parent))) query)
              (\<lambda>out. ret (JObj out)) w)"
    using run_subagent_quiet[OF assms] .
  have deep: "MAX_SUBAGENT_DEPTH \<le> m \<longleftrightarrow> ancestor w MAX_SUBAGENT_DEPTH parent \<noteq> None"
    by (rule chain_top_deep[OF m]) (simp add: MAX_SUBAGENT_DEPTH_def MAX_DEPTH_WALK_def)
  show ?thesis
  proof (cases "MAX_SUBAGENT_DEPTH \<le> m")
    case True
    then show ?thesis using run deep by auto
  next
    case False
    then have "m < MAX_DEPTH_WALK" by (simp add: MAX_SUBAGENT_DEPTH_def MAX_DEPTH_WALK_def)
    then obtain root where r: "ancestor w m parent = Some root" "ancestor w (Suc m) parent = None"
      using m by (auto simp: chain_top_def)
    have "\<exists>m<MAX_SUBAGENT_DEPTH. ancestor w m parent = Some root \<and> ancestor w (Suc m) parent = None"
      using r False by (metis not_le)
    then show ?thesis using run deep False r(1) by auto
  qed
qed

subsection \<open>Input repair\<close>

lemma repair_gives_up:
  assumes "\<And>q. outside_only (d_llm d q)"
  shows "\<exists>w'. propose_corrected_inputs d ctx st t i msg w = (Inr None, w')"
proof -
  have agent: "ca_agent (repair_request ctx cfg v st t i msg) = ''executor_recover''" for cfg v
    by (simp add: repair_request_def)
  obtain e w' where "model_call (d_settings d) (d_llm d)
      (repair_request ctx (d_settings d) (prompt_version_id ''executor'' w) st t i msg) w = (Inl e, w')"
    using unlisted_agent_never_returns[where llm = "d_llm d", OF assms agent] by metis
  then show ?thesis
    by (simp add: propose_corrected_inputs_def bindE_def attemptE_def)
qed

lemma repair_never_helps:
  assumes "\<And>q. outside_only (d_llm d q)" and "invoke t ctx inputs w = (Inl (ToolError msg), w1)"
  shows "\<exists>w'. call_tool_with_recovery n d ctx st t emit inputs w = (Inl (ToolError msg), w')"
proof (cases n)
  case 0
  then show ?thesis using assms(2) by (simp add: catchE_def on_tool_exn_def)
next
  case (Suc k)
  obtain w' where "propose_corrected_inputs d ctx st t inputs msg w1 = (Inr None, w')"
    using repair_gives_up[OF assms(1)] by blast
  then show ?thesis using assms(2) Suc by (simp add: catchE_def on_tool_exn_def bindE_def)
qed

subsection \<open>The sandbox is gone\<close>









subsection \<open>The verdict\<close>

definition fair_verdict :: "execution_plan \<Rightarrow> bool" where
  "fair_verdict x \<longleftrightarrow>
     (x_success x \<longleftrightarrow> x_results x \<noteq> [] \<and> SKIPPED \<notin> r_status ` set (x_results x) \<and>
        r_status (last (x_results x)) = COMPLETED) \<and>
     (x_success x \<longrightarrow> x_error x = None) \<and>
     (\<not> x_success x \<longrightarrow> x_final_answer x = format_failure_summary (x_results x) \<and>
        (case first_failed (x_results x) of
           Some f \<Rightarrow> x_error x = r_error f | None \<Rightarrow> x_error x = Some ''no steps completed''))"

lemma conclude_verdict:
  assumes "conclude_execution d ctx plan rs w = (Inr x, w')"
  shows "x_results x = rs \<and> x_plan x = plan \<and> fair_verdict x"
proof -
  have "list_ex (has_status SKIPPED) rs \<longleftrightarrow> SKIPPED \<in> r_status ` set rs"
    by (induction rs) (auto simp: has_status_def)
  then show ?thesis
    using assms
    by (auto simp: conclude_execution_def all_steps_done_def fair_verdict_def failure_message_def
        has_status_def bindE_def split: if_splits prod.splits sum.splits option.splits)
qed

lemma execute_runs:
  assumes run: "execute d ctx plan emit w = (Inr x, w')"
  shows "if length (pl_steps plan) > MAX_STEPS
    then x = step_cap_plan plan
    else loop_trace MAX_REPLANS (pl_steps plan) (x_results x) \<and> fair_verdict x \<and> x_plan x = plan"
proof -
  let ?close = "best_effort (close_for_task (d_backend d) (c_user ctx) (c_task ctx))"
  let ?core = "bindE (run_loop d ctx plan emit MAX_REPLANS [] (pl_steps plan))
     (conclude_execution d ctx plan)"
  obtain u v where "ensure_executor_prompt w = (Inr u, v)"
    and run: "(if length (pl_steps plan) > MAX_STEPS then ret (step_cap_plan plan)
        else bindE (finallyE ?core ?close)
          (\<lambda>x. thenE (persist_execution plan x) (ret x))) v = (Inr x, w')"
    using run unfolding execute_def thenE_def by (cases rule: bindE_cases) auto
  show ?thesis
  proof (cases "length (pl_steps plan) > MAX_STEPS")
    case True
    with run show ?thesis by simp
  next
    case False
    with run obtain y v1 where core: "finallyE ?core ?close v = (Inr y, v1)"
      and rest: "thenE (persist_execution plan y) (ret y) v1 = (Inr x, w')"
      by (auto elim: bindE_cases)
    from rest have "y = x" by (auto simp: thenE_def elim: bindE_cases)
    obtain q v2 where q: "?core v = (q, v2)" by (cases "?core v")
    have "q = Inr y" using core q by (simp add: finallyE_def best_effort_def)
    with q obtain rs v3 where rs: "run_loop d ctx plan emit MAX_REPLANS [] (pl_steps plan) v = (Inr rs, v3)"
      and c: "conclude_execution d ctx plan rs v3 = (Inr y, v2)"
      by (auto elim: bindE_cases)
    from run_loop_trace[OF rs] conclude_verdict[OF c] \<open>y = x\<close> False show ?thesis by auto
  qed
qed

subsection \<open>A sample executor\<close>

definition tool_of :: "pystr \<Rightarrow> dict act \<Rightarrow> tool" where
  "tool_of n m = \<lparr> tl_name = n, tl_description = [], tl_schema = [], tl_needs_task = False,
     tl_run = (\<lambda>ctx inputs. m) \<rparr>"

definition sample_registry :: registry where
  "sample_registry = [(''good'', tool_of ''good'' (ret [])),
     (''bad'', tool_of ''bad'' (raise (ToolFatalError ''boom'')))]"

definition idle_deps :: deps where
  "idle_deps = \<lparr> d_settings = default_settings, d_registry = sample_registry,
     d_llm = canned_llm hello, d_build = (\<lambda>_ _. ret []),
     d_replan = (\<lambda>_ _ _. raise (ValueError ''no plan'')),
     d_spawn = (\<lambda>_. raise (ValueError ''no child'')),
     d_create_tool = (\<lambda>_ _ _ _. raise (ValueError ''no tool'')),
     d_dynamic = (\<lambda>row. tool_of (ut_name row) (ret [])),
     d_backend = \<lparr> sb_build = (\<lambda>_ _. raise (OtherError ''no sandbox'')), sb_close = (\<lambda>_. stmt (ret ())) \<rparr>,
     d_order = (\<lambda>n. [0..<n]), d_show_elapsed = (\<lambda>_. []) \<rparr>"

context exec_order
begin

lemma tool_of_keeps: "keeps R m \<Longrightarrow> keeps R (tl_run (tool_of n m) ctx i)"
  by (simp add: tool_of_def)

lemma idle_deps_keep: "deps_keep R idle_deps"
  unfolding deps_keep_def
proof (intro conjI allI impI)
  fix n t ctx i assume "reg_get (d_registry idle_deps) n = Inr t"
  then show "keeps R (tl_run t ctx i)"
    by (auto simp: reg_get_def idle_deps_def sample_registry_def intro: tool_of_keeps ret raise
        split: if_splits)
qed (auto simp: idle_deps_def backend_keeps_def canned_llm_def
    intro: tool_of_keeps ret raise stmt)

end

definition sample_ctx :: tool_ctx where
  "sample_ctx = \<lparr> c_user = Uuid 5, c_task = Some (Uuid 9), c_trace = None, c_channel = None,
     c_emit = False \<rparr>"

definition tool_step :: "pystr \<Rightarrow> pystr \<Rightarrow> json \<Rightarrow> step" where
  "tool_step i tool_name grp = \<lparr> st_id = i, st_kind = Functional, st_description = [],
     st_tool = JStr tool_name, st_inputs = [], st_group = grp \<rparr>"

definition sample_plan :: "step list \<Rightarrow> plan" where
  "sample_plan steps = \<lparr> pl_query = ''q'', pl_summary = ''s'', pl_steps = steps, pl_is_task = True,
     pl_model = ''m'', pl_adapted_from = None, pl_skill = JNull, pl_id = None \<rparr>"

definition result_of :: "step \<Rightarrow> step_status \<Rightarrow> step_result" where
  "result_of st s = \<lparr> r_step_id = st_id st, r_kind = st_kind st, r_status = s,
     r_output = (if s = COMPLETED then JObj [] else JNull),
     r_error = (if s = FAILED then Some ''boom'' else None), r_elapsed = 0 \<rparr>"

definition quiet_world :: world where
  "quiet_world = empty_world\<lparr>prompt_seeded := [(''executor'', None)]\<rparr>"

lemma idle_good:
  "run_step idle_deps sample_ctx p prior False (tool_step i ''good'' g) w =
     (Inr (result_of (tool_step i ''good'' g) COMPLETED), w)"
  by (simp add: run_step_def dispatch_step_def run_functional_def tool_step_def 
      resolve_tool_def reg_get_def idle_deps_def sample_registry_def invoke_def tool_of_def
      call_tool_with_recovery.simps MAX_TOOL_RETRIES_def bindE_def attemptE_def thenE_def
      catchE_def result_of_def step_completed_def dict_get_def)

lemma idle_bad:
  "run_step idle_deps sample_ctx p prior False (tool_step i ''bad'' g) w =
     (Inr (result_of (tool_step i ''bad'' g) FAILED), w)"
  by (simp add: run_step_def dispatch_step_def run_functional_def tool_step_def
      resolve_tool_def reg_get_def idle_deps_def sample_registry_def invoke_def tool_of_def
      call_tool_with_recovery.simps MAX_TOOL_RETRIES_def bindE_def attemptE_def thenE_def
      catchE_def on_tool_exn_def result_of_def step_failed_def dict_get_def)

lemma idle_order: "d_order idle_deps n = [0..<n]"
  by (simp add: idle_deps_def)

lemma idle_replan: "replan_after_failure idle_deps sample_ctx p c f False w = (Inr None, w)"
  by (simp add: replan_after_failure_def idle_deps_def bindE_def attemptE_def split: option.splits)

definition failing_pair :: "step list" where
  "failing_pair = [tool_step ''a'' ''bad'' (JInt 1), tool_step ''b'' ''good'' (JInt 1)]"

lemma failing_pair_run:
  "run_loop idle_deps sample_ctx (sample_plan failing_pair) False MAX_REPLANS [] failing_pair w =
     (Inr [result_of (tool_step ''a'' ''bad'' (JInt 1)) FAILED,
           result_of (tool_step ''b'' ''good'' (JInt 1)) COMPLETED], w)"
proof -
  have nb: "next_batch (tool_step ''a'' ''bad'' (JInt 1)) [tool_step ''b'' ''good'' (JInt 1)] =
      (failing_pair, [])"
    by (simp add: next_batch_def tool_step_def failing_pair_def py_eq_def)
  have batch: "run_batch idle_deps sample_ctx p [] False failing_pair w =
     (Inr [result_of (tool_step ''a'' ''bad'' (JInt 1)) FAILED,
           result_of (tool_step ''b'' ''good'' (JInt 1)) COMPLETED], w)" for p
    unfolding run_batch_def failing_pair_def
    by (simp add: gather_def run_in_order_def schedule_of_def idle_good idle_bad bindE_def
        attemptE_def idle_order)
  show ?thesis
    unfolding MAX_REPLANS_def
    using batch[of "sample_plan failing_pair"] idle_replan nb
    by (subst (2) failing_pair_def) (simp add: bindE_def first_failed_def has_status_def result_of_def nb)
qed

subsection \<open>Properties\<close>

text \<open>C2: Without an event stream the executor's loop always returns, whatever its tools, models,
  planner and other processes do, and what it returns is a trace its specification allows: every
  step it ran has its own result in plan order, nothing is lost or run twice, what was abandoned
  after an unrecovered failure is marked skipped, and at most one continuation was taken.\<close>

theorem loop_total_and_traced:
  "\<exists>rs w'. run_loop d ctx plan False MAX_REPLANS [] steps w = (Inr rs, w') \<and>
     loop_trace MAX_REPLANS steps rs"
proof -
  obtain rs w' where "run_loop d ctx plan False MAX_REPLANS [] steps w = (Inr rs, w')"
    using no_raiseE[OF run_loop_returns] by metis
  then show ?thesis using run_loop_trace by fastforce
qed

text \<open>C1: An execution that returns either refused an oversized plan without running anything, or
  its results are a trace the specification of the loop allows and its verdict is fair: success
  exactly when something ran, nothing was skipped and the last result completed; on failure the
  answer is the failure summary and the error is the first failed step's.\<close>

theorem execution_verdict:
  assumes "execute d ctx plan emit w = (Inr x, w')"
  shows "if length (pl_steps plan) > MAX_STEPS
    then x = step_cap_plan plan
    else loop_trace MAX_REPLANS (pl_steps plan) (x_results x) \<and> fair_verdict x \<and> x_plan x = plan"
  using execute_runs[OF assms] .

text \<open>The rule for success hides a failure: in this plan one member of a parallel batch
  fails, the other completes and replanning fails too, so nothing recovers the failure; yet
  nothing is left to skip and the last result completed, so the execution counts as done.\<close>

theorem lost_failure:
  "\<exists>rs w'. run_loop idle_deps sample_ctx (sample_plan failing_pair) False MAX_REPLANS []
      failing_pair quiet_world = (Inr rs, w') \<and>
    first_failed rs \<noteq> None \<and> all_steps_done rs"
  unfolding failing_pair_run
  by (simp add: first_failed_def all_steps_done_def has_status_def result_of_def)


text \<open>C6: An execution gives back every sub-agent slot it took, however its children end.\<close>

theorem slots_released:
  assumes "deps_keep same_slots d"
  shows "slot_count root (snd (execute d ctx plan emit w)) = slot_count root w"
  using slots.execute_keeps[OF assms, of ctx plan emit] by (simp add: keeps_def same_slots_def)


text \<open>C4: A sub-agent step is refused exactly when its task already has
  \<open>MAX_SUBAGENT_DEPTH\<close> ancestors, without spawning or writing anything; otherwise it spawns under
  the slot of the chain's topmost task, through the step's failure policy.\<close>

theorem subagent_depth_guard:
  assumes "script w = []" and "c_task ctx = Some parent"
    and "dict_get (st_inputs st) ''query'' = Some (JStr query)" and "strip query \<noteq> []"
  shows "if ancestor w MAX_SUBAGENT_DEPTH parent = None
    then \<exists>root. (\<exists>m<MAX_SUBAGENT_DEPTH. ancestor w m parent = Some root \<and> ancestor w (Suc m) parent = None) \<and>
      run_subagent d ctx st w =
        bindE (with_policy (normalize_failure_policy (dict_get (st_inputs st) ''on_failure''))
              (spawn_once d ctx st parent root) query) (\<lambda>out. ret (JObj out)) w
    else \<exists>m. run_subagent d ctx st w = (Inl (ValueError (depth_cap_message m)), w)"
  using depth_guard[OF assms] .

text \<open>C5: The repair of a failed tool's inputs never repairs anything: its model call is made as an
  agent the usage ledger refuses, so the call raises and the tool's own error comes back, with
  any number of retries.\<close>

theorem repair_never_repairs:
  assumes "\<And>q. outside_only (d_llm d q)" and "invoke t ctx inputs w = (Inl (ToolError msg), w1)"
  shows "\<exists>w'. call_tool_with_recovery n d ctx st t emit inputs w = (Inl (ToolError msg), w')"
  using repair_never_helps[OF assms] .

subsection \<open>Witnesses\<close>

definition sour_plan :: plan where
  "sour_plan = sample_plan [tool_step ''a'' ''bad'' JNull, tool_step ''b'' ''good'' JNull]"

lemma sour_plan_run:
  "\<exists>x. execute idle_deps sample_ctx sour_plan False quiet_world = (Inr x, quiet_world) \<and>
     \<not> x_success x"
proof -
  have batch: "run_batch idle_deps sample_ctx p [] False [tool_step ''a'' ''bad'' JNull] w =
      (Inr [result_of (tool_step ''a'' ''bad'' JNull) FAILED], w)" for p w
    by (simp add: run_batch_def gather_def run_in_order_def schedule_of_def idle_bad bindE_def
        attemptE_def idle_order)
  have steps: "pl_steps sour_plan = [tool_step ''a'' ''bad'' JNull, tool_step ''b'' ''good'' JNull]"
    by (simp add: sour_plan_def sample_plan_def)
  have nb: "next_batch (tool_step ''a'' ''bad'' JNull) rest = ([tool_step ''a'' ''bad'' JNull], rest)"
    for rest by (simp add: next_batch_def tool_step_def)
  let ?rs = "[result_of (tool_step ''a'' ''bad'' JNull) FAILED, step_skipped (tool_step ''b'' ''good'' JNull)]"
  have loop: "run_loop idle_deps sample_ctx sour_plan False MAX_REPLANS [] (pl_steps sour_plan) w =
      (Inr ?rs, w)" for w
    unfolding steps MAX_REPLANS_def
    by (simp add: nb bindE_def batch idle_replan first_failed_def has_status_def result_of_def)
  have "close_for_task b u tid quiet_world = (Inr (), quiet_world)" for b u tid
    by (simp add: close_for_task_def quiet_world_def empty_world_def)
  moreover have "ensure_executor_prompt quiet_world = (Inr (), quiet_world)"
    by (simp add: ensure_executor_prompt_def ensure_prompt_version_def seeded_def quiet_world_def)
  moreover have "pl_id sour_plan = None" by (simp add: sour_plan_def sample_plan_def)
  ultimately show ?thesis
    by (simp add: execute_def thenE_def bindE_def finallyE_def best_effort_def loop steps[THEN arg_cong[where f = length]]
        MAX_STEPS_def conclude_execution_def all_steps_done_def has_status_def step_skipped_def
        persist_execution_def)
qed

lemma execution_verdict_witness:
  "\<exists>x w'. execute idle_deps sample_ctx sour_plan False quiet_world = (Inr x, w') \<and>
     loop_trace MAX_REPLANS (pl_steps sour_plan) (x_results x) \<and> fair_verdict x"
proof -
  obtain x where "execute idle_deps sample_ctx sour_plan False quiet_world = (Inr x, quiet_world)"
    using sour_plan_run by blast
  with execution_verdict[OF this] show ?thesis
    by (simp add: sour_plan_def sample_plan_def MAX_STEPS_def)
qed

definition family :: world where
  "family = quiet_world\<lparr>tasks :=
     [new_task (Uuid 9) 0 (Uuid 5) [] None None None None None,
      (new_task (Uuid 10) 0 (Uuid 5) [] None None (Some (Uuid 9)) None None)\<lparr>t_status := Failed\<rparr>]\<rparr>"

lemma family_facts:
  "script family = []" "task_lookup (Uuid 9) family \<noteq> None"
  "ancestor family MAX_SUBAGENT_DEPTH (Uuid 10) = None"
  "ancestor family 0 (Uuid 10) = Some (Uuid 10)"
  "\<exists>t. task_lookup (Uuid 10) family = Some t \<and> t_status t = Failed"
  by (simp_all add: family_def quiet_world_def empty_world_def new_task_def MAX_SUBAGENT_DEPTH_def
      numeral_3_eq_3)


lemma slots_released_witness:
  "slot_count (Uuid 9) (snd (execute idle_deps sample_ctx sour_plan False
     (family\<lparr>slot_refs := [(Uuid 9, 2)]\<rparr>))) = 2"
  using slots_released[OF slots.idle_deps_keep] by (simp add: slot_count_def)



definition child_step :: step where
  "child_step = \<lparr> st_id = ''c'', st_kind = Subagent, st_description = [], st_tool = JNull,
     st_inputs = [(''query'', JStr ''go'')], st_group = JNull \<rparr>"

lemma subagent_depth_guard_witness:
  "\<exists>root m. ancestor family m (Uuid 10) = Some root \<and>
     run_subagent idle_deps (sample_ctx\<lparr>c_task := Some (Uuid 10)\<rparr>) child_step family =
       bindE (with_policy PolicyFail
          (spawn_once idle_deps (sample_ctx\<lparr>c_task := Some (Uuid 10)\<rparr>) child_step (Uuid 10) root) ''go'')
         (\<lambda>out. ret (JObj out)) family"
proof -
  have p: "c_task (sample_ctx\<lparr>c_task := Some (Uuid 10)\<rparr>) = Some (Uuid 10)" by simp
  have q: "dict_get (st_inputs child_step) ''query'' = Some (JStr ''go'')"
    "normalize_failure_policy (dict_get (st_inputs child_step) ''on_failure'') = PolicyFail"
    by (simp_all add: child_step_def normalize_failure_policy_def)
  have "strip ''go'' \<noteq> []" by code_simp
  from subagent_depth_guard[OF family_facts(1) p q(1) this, of idle_deps] family_facts(3) q(2)
  show ?thesis by auto
qed

lemma repair_never_repairs_witness:
  "\<exists>w'. call_tool_with_recovery 1 idle_deps sample_ctx (tool_step ''a'' ''flaky'' JNull)
     (tool_of ''flaky'' (raise (ToolError ''boom''))) False [] quiet_world =
     (Inl (ToolError ''boom''), w')"
proof -
  have "outside_only (d_llm idle_deps q)" for q by (simp add: idle_deps_def canned_outside)
  moreover have "invoke (tool_of ''flaky'' (raise (ToolError ''boom''))) sample_ctx [] quiet_world =
     (Inl (ToolError ''boom''), quiet_world)"
    by (simp add: invoke_def tool_of_def)
  ultimately show ?thesis by (rule repair_never_repairs)
qed

end
