(* ===== verification/Queue.thy ===== *)
theory Queue
  imports Metering
begin

section \<open>The job queue\<close>

text \<open>
  \<open>src/wolfpaw/workers/queue.py\<close>. With workers off a job is spawned on the caller's event
  loop, which does not fail; with workers on it is pushed to the queue server, which is an
  interaction with the outside and may. Either way the job is now in \<open>jobs\<close> and runs later;
  which of the two queues it is in follows from the settings.
\<close>

definition add_job :: "job \<Rightarrow> unit act" where
  "add_job j = modifyE (\<lambda>w. w\<lparr>jobs := jobs w @ [j]\<rparr>)"

definition enqueue :: "settings \<Rightarrow> job \<Rightarrow> unit act" where
  "enqueue cfg j = (if workers_enabled cfg then stmt (add_job j) else add_job j)"

definition enqueue_compact_thread :: "settings \<Rightarrow> uuid \<Rightarrow> unit act" where
  "enqueue_compact_thread cfg thread = enqueue cfg (CompactThreadJob thread)"

definition enqueue_embed_message :: "settings \<Rightarrow> uuid \<Rightarrow> uuid \<Rightarrow> pystr \<Rightarrow> unit act" where
  "enqueue_embed_message cfg thread message_id content =
     enqueue cfg (EmbedMessageJob thread message_id content)"

definition enqueue_embed_workspace_file :: "settings \<Rightarrow> uuid \<Rightarrow> pystr \<Rightarrow> unit act" where
  "enqueue_embed_workspace_file cfg file_id body = enqueue cfg (EmbedFileJob file_id body)"

definition enqueue_run_task :: "settings \<Rightarrow> uuid \<Rightarrow> unit act" where
  "enqueue_run_task cfg tid = enqueue cfg (RunTaskJob tid)"

definition enqueue_telegram_dispatch :: "settings \<Rightarrow> uuid \<Rightarrow> pystr \<Rightarrow> pystr \<Rightarrow> unit act" where
  "enqueue_telegram_dispatch cfg user chat content = enqueue cfg (TelegramJob user chat content)"

definition enqueue_sleep_cycle :: "settings \<Rightarrow> unit act" where
  "enqueue_sleep_cycle cfg = enqueue cfg SleepCycleJob"

definition enqueue_dispatch_schedules :: "settings \<Rightarrow> unit act" where
  "enqueue_dispatch_schedules cfg = enqueue cfg DispatchSchedulesJob"

definition enqueue_slack_dispatch :: "settings \<Rightarrow> uuid \<Rightarrow> pystr \<Rightarrow> pystr \<Rightarrow> pystr \<Rightarrow> unit act" where
  "enqueue_slack_dispatch cfg user token channel content =
     enqueue cfg (SlackJob user token channel content)"

lemmas enqueue_defs = enqueue_compact_thread_def enqueue_embed_message_def
  enqueue_embed_workspace_file_def enqueue_run_task_def enqueue_telegram_dispatch_def
  enqueue_sleep_cycle_def enqueue_dispatch_schedules_def enqueue_slack_dispatch_def

lemma enqueue_sound: "keeps sound (enqueue cfg j)"
  unfolding enqueue_def add_job_def by (intro sound.if_ sound.stmt sound_modify) simp_all

lemma enqueues_sound:
  "keeps sound (enqueue_compact_thread cfg th)" "keeps sound (enqueue_embed_message cfg th m c)"
  "keeps sound (enqueue_run_task cfg tid)" "keeps sound (enqueue_embed_workspace_file cfg i b)"
  by (simp_all add: enqueue_defs enqueue_sound)

end
