(* ===== verification/Conversation.thy ===== *)
theory Conversation
  imports Queue
begin

section \<open>Conversational memory\<close>

text \<open>
  \<open>src/wolfpaw/memory/conversational.py\<close>: threads, messages, their pages, the active
  summaries, and semantic recall. The distance between two embeddings is the vector
  extension's; recall takes it as a parameter \<open>dist\<close>, together with the recency bonus
  \<open>bonus\<close> as a function of the age. Distances and bonuses are integers in some fixed unit.
\<close>

definition thread_lookup :: "uuid \<Rightarrow> world \<Rightarrow> thread_row option" where
  "thread_lookup th w = key_lookup th_id th (threads w)"

definition in_thread :: "uuid \<Rightarrow> message \<Rightarrow> bool" where
  "in_thread th m = (m_thread_id m = th)"

definition stamp :: "message \<Rightarrow> time \<times> uuid" where
  "stamp m = (m_created_at m, m_id m)"

text \<open>The messages of a thread, oldest first.\<close>

definition history :: "uuid \<Rightarrow> message list \<Rightarrow> message list" where
  "history th ms = sort_key stamp (filter (in_thread th) ms)"

definition last_n :: "nat \<Rightarrow> 'a list \<Rightarrow> 'a list" where
  "last_n n xs = drop (length xs - n) xs"

subsection \<open>Threads\<close>

definition get_or_create_thread ::
  "pystr option \<Rightarrow> uuid \<Rightarrow> pystr \<Rightarrow> uuid option \<Rightarrow> uuid act" where
  "get_or_create_thread soul_version user channel thread =
     bindE (case thread of
              None \<Rightarrow> ret None
            | Some th \<Rightarrow> stmt (getsE (\<lambda>w.
                sql_first (\<lambda>r. th_id r = th \<and> th_user_id r = user) (threads w))))
       (\<lambda>found. case found of
          Some r \<Rightarrow> ret (th_id r)
        | None \<Rightarrow>
            bindE (stmt (getsE (\<lambda>w. map_option up_version
                     (sql_first (\<lambda>p. up_user_id p = user) (profiles w))))) (\<lambda>version.
            stmt (\<lambda>w.
              if channel \<notin> set channel_names
              then (Inl (DbError ''invalid input value for enum channel''), w)
              else (Inr (Uuid (next_id w)), w\<lparr>next_id := Suc (next_id w), threads := threads w @
                [\<lparr> th_id = Uuid (next_id w), th_user_id = user, th_channel = channel,
                   th_soul_version = soul_version, th_profile_version = version,
                   th_created_at = now w \<rparr>]\<rparr>))))"

definition get_most_recent_thread :: "uuid \<Rightarrow> uuid option act" where
  "get_most_recent_thread user = stmt (getsE (\<lambda>w.
     case sort_key (\<lambda>r. - th_created_at r) (filter (\<lambda>r. th_user_id r = user) (threads w)) of
       [] \<Rightarrow> None | r # _ \<Rightarrow> Some (th_id r)))"

subsection \<open>Messages\<close>

definition insert_message :: "uuid \<Rightarrow> pystr \<Rightarrow> pystr \<Rightarrow> dict \<Rightarrow> uuid act" where
  "insert_message th role content meta = stmt (\<lambda>w.
     if role \<notin> {''user'', ''assistant'', ''system'', ''tool''}
     then (Inl (DbError ''invalid input value for enum message_role''), w)
     else if thread_lookup th w = None
     then (Inl (DbError ''thread_id violates foreign key''), w)
     else (Inr (Uuid (next_id w)), w\<lparr>next_id := Suc (next_id w), messages := messages w @
       [\<lparr> m_id = Uuid (next_id w), m_thread_id = th, m_role = role, m_content = content,
          m_metadata = meta, m_created_at = now w \<rparr>]\<rparr>))"

definition embeddable :: "pystr \<Rightarrow> pystr \<Rightarrow> bool" where
  "embeddable role content = (role \<in> {''user'', ''assistant''} \<and> strip content \<noteq> [])"

definition conv_append :: "settings \<Rightarrow> uuid \<Rightarrow> pystr \<Rightarrow> pystr \<Rightarrow> dict \<Rightarrow> uuid act" where
  "conv_append cfg th role content meta =
     bindE (insert_message th role content meta) (\<lambda>i.
     thenE (whenE (embeddable role content)
              (best_effort (thenE (enqueue_embed_message cfg th i content)
                              (enqueue_compact_thread cfg th))))
       (ret i))"

definition fetch_recent :: "uuid \<Rightarrow> nat \<Rightarrow> message list act" where
  "fetch_recent th n = stmt (getsE (\<lambda>w. last_n n (history th (messages w))))"

text \<open>One page, ending just before the cursor, newest page first.\<close>

definition page_of ::
  "(time \<times> uuid) option \<Rightarrow> nat \<Rightarrow> pystr list option \<Rightarrow> message list \<Rightarrow> message list" where
  "page_of cursor limit roles ms =
     last_n limit (filter (\<lambda>m.
       (case roles of None \<Rightarrow> True | Some rs \<Rightarrow> m_role m \<in> set rs) \<and>
       (case cursor of None \<Rightarrow> True | Some c \<Rightarrow> stamp m < c)) ms)"

definition fetch_page ::
  "uuid \<Rightarrow> (time \<times> uuid) option \<Rightarrow> nat \<Rightarrow> pystr list option \<Rightarrow> message list act" where
  "fetch_page th cursor limit roles =
     stmt (getsE (\<lambda>w. page_of cursor limit roles (history th (messages w))))"

subsection \<open>Summaries\<close>

definition active_summaries :: "uuid \<Rightarrow> thread_summary list \<Rightarrow> thread_summary list" where
  "active_summaries th ss = sort_key (\<lambda>s. (- int (ts_level s), ts_created_at s))
     (filter (\<lambda>s. ts_thread_id s = th \<and> ts_folded_into s = None) ss)"

definition fetch_summaries :: "uuid \<Rightarrow> thread_summary list act" where
  "fetch_summaries th = stmt (getsE (\<lambda>w. active_summaries th (summaries w)))"

definition summary_lines :: "thread_summary \<Rightarrow> pystr list" where
  "summary_lines s =
     [''### '' @ (if ts_level s = 2 then ''Older summary'' else ''Earlier window''),
      strip (ts_text s), []]"

definition format_summaries_block :: "thread_summary list \<Rightarrow> pystr" where
  "format_summaries_block ss =
     (if ss = [] then []
      else rstrip (lines_of
        ([''## Earlier in this thread (compacted summaries, oldest first)'', []] @
         concat (map summary_lines ss))))"

definition snippet :: "pystr \<Rightarrow> pystr" where
  "snippet content =
     (let s = strip content in if length s > 400 then rstrip (take 397 s) @ ''...'' else s)"

definition format_vector_recall_block :: "(time \<Rightarrow> pystr) \<Rightarrow> message list \<Rightarrow> pystr" where
  "format_vector_recall_block show_time ms =
     (if ms = [] then []
      else lines_of
        ([''## Possibly-relevant older messages from this thread'',
          ''(retrieved by semantic similarity to the current request)'', []] @
         map (\<lambda>m. ''- **'' @ m_role m @ ''** ('' @ show_time (m_created_at m) @ ''): '' @
                  snippet (m_content m)) ms))"

subsection \<open>Semantic recall\<close>

text \<open>The hits of the search, best first, and the windows of neighbours around them.\<close>

definition recall_score :: "(uuid \<Rightarrow> int option) \<Rightarrow> (time \<Rightarrow> int) \<Rightarrow> time \<Rightarrow> message \<Rightarrow> int" where
  "recall_score distance bonus at m =
     (case distance (m_id m) of None \<Rightarrow> 0 | Some x \<Rightarrow> x) - bonus (at - m_created_at m)"

definition recall_hits ::
  "(uuid \<Rightarrow> int option) \<Rightarrow> (time \<Rightarrow> int) \<Rightarrow> time \<Rightarrow> int \<Rightarrow> nat \<Rightarrow> uuid set \<Rightarrow> message list
     \<Rightarrow> message list" where
  "recall_hits distance bonus at max_distance k recent ms =
     take k (sort_key (recall_score distance bonus at)
       (filter (\<lambda>m. m_id m \<notin> recent \<and>
          (case distance (m_id m) of None \<Rightarrow> False | Some x \<Rightarrow> x \<le> max_distance)) ms))"

definition near_hit :: "message list \<Rightarrow> nat \<Rightarrow> message list \<Rightarrow> nat \<Rightarrow> bool" where
  "near_hit thread window hits i =
     list_ex (\<lambda>h. list_ex (\<lambda>j. m_id (thread ! j) = m_id h \<and> i \<le> j + window \<and> j \<le> i + window)
       [0..<length thread]) hits"

definition recall_windows ::
  "nat \<Rightarrow> uuid set \<Rightarrow> message list \<Rightarrow> message list \<Rightarrow> message list" where
  "recall_windows window recent hits thread =
     map (\<lambda>i. thread ! i) (filter (\<lambda>i. near_hit thread window hits i \<and> m_id (thread ! i) \<notin> recent)
       [0..<length thread])"

definition recent_ids :: "uuid option \<Rightarrow> nat \<Rightarrow> message list \<Rightarrow> uuid set" where
  "recent_ids th n ms =
     (case th of None \<Rightarrow> {} | Some t \<Rightarrow> set (map m_id (last_n n (history t ms))))"

definition distance_to :: "(vector \<Rightarrow> vector \<Rightarrow> int) \<Rightarrow> vector \<Rightarrow> world \<Rightarrow> uuid \<Rightarrow> int option" where
  "distance_to dist q w i = map_option (dist q) (map_of (embedded w) i)"

definition search_relevant ::
  "(vector \<Rightarrow> vector \<Rightarrow> int) \<Rightarrow> vector \<Rightarrow> (time \<Rightarrow> int) \<Rightarrow> uuid \<Rightarrow> nat \<Rightarrow> nat \<Rightarrow> nat \<Rightarrow> int
     \<Rightarrow> message list act" where
  "search_relevant dist q bonus th k exclude_recent_n window max_distance =
     stmt (getsE (\<lambda>w.
       let thread = history th (messages w);
           recent = recent_ids (Some th) exclude_recent_n (messages w)
       in recall_windows window recent
            (recall_hits (distance_to dist q w) bonus (now w) max_distance k recent thread) thread))"

definition threads_of :: "uuid \<Rightarrow> world \<Rightarrow> uuid list" where
  "threads_of user w =
     sort (map th_id (filter (\<lambda>r. th_user_id r = user) (threads w)))"

definition search_user_messages ::
  "(vector \<Rightarrow> vector \<Rightarrow> int) \<Rightarrow> vector \<Rightarrow> (time \<Rightarrow> int) \<Rightarrow> uuid \<Rightarrow> nat \<Rightarrow> nat \<Rightarrow> int \<Rightarrow> uuid option
     \<Rightarrow> nat \<Rightarrow> message list act" where
  "search_user_messages dist q bonus user k window max_distance exclude_thread exclude_n =
     stmt (getsE (\<lambda>w.
       let recent = recent_ids exclude_thread exclude_n (messages w);
           ths = threads_of user w;
           hits = recall_hits (distance_to dist q w) bonus (now w) max_distance k recent
                    (concat (map (\<lambda>th. history th (messages w)) ths))
       in concat (map (\<lambda>th. recall_windows window recent hits (history th (messages w))) ths)))"

subsection \<open>Embedding a message\<close>

definition voyage_cents :: "int \<Rightarrow> int" where
  "voyage_cents n = max 0 (ceil_div (n * 6) 1000000)"

text \<open>What the embedder returns: a vector or none, the tokens it read and its model's name.\<close>

record embedding =
  em_vector :: "vector option"
  em_tokens :: int
  em_model :: pystr

definition usage_of_input :: "int \<Rightarrow> token_counts" where
  "usage_of_input n = no_tokens\<lparr>input_tokens := n\<rparr>"

definition message_owner :: "uuid \<Rightarrow> world \<Rightarrow> uuid option" where
  "message_owner i w =
     Option.bind (key_lookup m_id i (messages w)) (\<lambda>m.
       map_option th_user_id (thread_lookup (m_thread_id m) w))"

definition embed_and_store ::
  "(pystr \<Rightarrow> embedding act) \<Rightarrow> uuid \<Rightarrow> pystr \<Rightarrow> unit act" where
  "embed_and_store embedder i content =
     bindE (embedder content) (\<lambda>r.
     case em_vector r of None \<Rightarrow> ret ()
     | Some v \<Rightarrow> thenE (stmt (\<lambda>w.
            if key_lookup m_id i (messages w) = None
            then (Inl (DbError ''message_id violates foreign key''), w)
            else (Inr (), w\<lparr>embedded := (if map_of (embedded w) i = None
                                         then embedded w @ [(i, v)] else embedded w)\<rparr>)))
          (whenE (em_tokens r > 0)
             (best_effort (bindE (stmt (getsE (message_owner i))) (\<lambda>owner.
                case owner of
                  None \<Rightarrow> ret ()
                | Some user \<Rightarrow>
                    thenE (record_usage user ''compactor'' (em_model r) (usage_of_input (em_tokens r))
                             (voyage_cents (em_tokens r)) None None) (ret ()))))))"

subsection \<open>Soundness\<close>

lemma conversation_reads_sound:
  "keeps sound (get_most_recent_thread u)" "keeps sound (fetch_recent th n)"
  "keeps sound (fetch_page th c lim ro)" "keeps sound (fetch_summaries th)"
  "keeps sound (search_relevant di q bo th k ex win md)"
  "keeps sound (search_user_messages di q bo u k win md et en)"
  unfolding get_most_recent_thread_def fetch_recent_def fetch_page_def fetch_summaries_def
    search_relevant_def search_user_messages_def
  by (intro sound.stmt sound.gets)+

lemma thread_sound: "keeps sound (get_or_create_thread sv u c th)"
  unfolding get_or_create_thread_def
  by (intro sound.bind sound.opt sound.ret sound.stmt sound.gets)
    (auto simp: keeps_def intro!: sound_frame)

lemma insert_message_sound: "keeps sound (insert_message th r c m)"
  unfolding insert_message_def by (rule sound.stmt) (auto simp: keeps_def intro!: sound_frame)

lemma conv_append_sound: "keeps sound (conv_append cfg th r c m)"
  unfolding conv_append_def
  by (intro sound.bind sound.andThen sound.when_ sound.effort sound.ret insert_message_sound
      enqueues_sound)

lemmas conversation_sound = conversation_reads_sound thread_sound conv_append_sound

subsection \<open>Pages\<close>

definition strictly_stamped :: "message list \<Rightarrow> bool" where
  "strictly_stamped ms \<longleftrightarrow> sorted_wrt (\<lambda>a b. stamp a < stamp b) ms"

lemma history_strict:
  assumes "distinct (map m_id ms)" shows "strictly_stamped (history th ms)"
proof -
  let ?h = "history th ms"
  have sorted: "sorted (map stamp ?h)" by (simp add: history_def)
  have "mset ?h = filter_mset (in_thread th) (mset ms)"
    by (simp add: history_def mset_filter)
  then have "mset (map m_id ?h) \<subseteq># mset (map m_id ms)"
    by (metis image_mset_subseteq_mono mset_map multiset_filter_subset)
  then have "distinct (map m_id ?h)"
    using assms by (metis distinct_append mset_subset_eq_exists_conv mset_append ex_mset
        mset_eq_imp_distinct_iff)
  then have "distinct (map stamp ?h)"
    by (auto simp: distinct_map stamp_def inj_on_def)
  with sorted have "sorted_wrt (<) (map stamp ?h)" by (simp add: strict_sorted_iff)
  then show ?thesis by (simp add: strictly_stamped_def sorted_wrt_map)
qed

lemma history_members: "set (history th ms) = {m \<in> set ms. m_thread_id m = th}"
  by (auto simp: history_def in_thread_def)

definition with_roles :: "pystr list option \<Rightarrow> message list \<Rightarrow> message list" where
  "with_roles roles ms = filter (\<lambda>m. case roles of None \<Rightarrow> True | Some rs \<Rightarrow> m_role m \<in> set rs) ms"

lemma page_none: "page_of None limit roles ms = last_n limit (with_roles roles ms)"
  by (simp add: page_of_def with_roles_def)

lemma page_some:
  "page_of (Some c) limit roles ms = last_n limit (filter (\<lambda>m. stamp m < c) (with_roles roles ms))"
  by (simp add: page_of_def with_roles_def conj_commute)

lemma filter_before:
  assumes "strictly_stamped (P @ m # Q)"
  shows "filter (\<lambda>x. stamp x < stamp m) (P @ m # Q) = P"
  using assms by (auto simp: strictly_stamped_def sorted_wrt_append filter_empty_conv dest: less_asym)

lemma strictly_filter: "strictly_stamped ms \<Longrightarrow> strictly_stamped (filter p ms)"
  by (simp add: strictly_stamped_def sorted_wrt_filter)

text \<open>Scrolling back: fetch the newest page, then the page before its oldest message, and so on.\<close>

fun scroll :: "nat \<Rightarrow> uuid \<Rightarrow> (time \<times> uuid) option \<Rightarrow> nat \<Rightarrow> pystr list option \<Rightarrow> message list act" where
  "scroll 0 th cursor limit roles = ret []"
| "scroll (Suc n) th cursor limit roles =
     bindE (fetch_page th cursor limit roles) (\<lambda>page.
       case page of
         [] \<Rightarrow> ret []
       | m # rest \<Rightarrow>
           bindE (scroll n th (Some (stamp m)) limit roles) (\<lambda>older. ret (older @ m # rest)))"

lemma last_n_split: "take (length xs - n) xs @ last_n n xs = xs"
  by (simp add: last_n_def)

lemma last_n_empty: "last_n n xs = [] \<longleftrightarrow> n = 0 \<or> xs = []"
  by (cases xs) (auto simp: last_n_def)

lemma last_n_Nil [simp]: "last_n n [] = []"
  by (simp add: last_n_def)

lemma scroll_prefix:
  assumes quiet: "script w = []" and lim: "0 < limit"
    and L: "L = with_roles roles (history th (messages w))" and strict: "strictly_stamped L"
  shows "length P \<le> n \<Longrightarrow> L = P @ Q \<Longrightarrow>
    page_of cursor limit roles (history th (messages w)) = last_n limit P \<Longrightarrow>
    scroll n th cursor limit roles w = (Inr P, w)"
proof (induction n arbitrary: P Q cursor)
  case 0
  then show ?case by simp
next
  case (Suc n)
  have fetch: "fetch_page th cursor limit roles w = (Inr (last_n limit P), w)"
    using quiet Suc.prems(3) by (simp add: fetch_page_def)
  show ?case
  proof (cases "last_n limit P")
    case Nil
    then show ?thesis using fetch lim by (simp add: bindE_def last_n_empty)
  next
    case (Cons m rest)
    let ?P = "take (length P - limit) P"
    have P: "P = ?P @ m # rest" using last_n_split[of P limit] Cons by simp
    have "strictly_stamped (?P @ m # (rest @ Q))" using strict Suc.prems(2) P by (metis append.assoc append_Cons)
    then have "filter (\<lambda>x. stamp x < stamp m) L = ?P"
      using filter_before[of ?P m "rest @ Q"] Suc.prems(2) P by (metis append.assoc append_Cons)
    then have page: "page_of (Some (stamp m)) limit roles (history th (messages w)) = last_n limit ?P"
      by (simp add: page_some L[symmetric])
    have "length ?P \<le> n" using Suc.prems(1) lim Cons by (cases P) (auto simp: last_n_def)
    moreover have "L = ?P @ (m # rest @ Q)" using Suc.prems(2) P by (metis append.assoc append_Cons)
    ultimately have "scroll n th (Some (stamp m)) limit roles w = (Inr ?P, w)"
      using Suc.IH page by blast
    then show ?thesis using fetch Cons P by (simp add: bindE_def)
  qed
qed

lemma scroll_whole:
  assumes "script w = []" and "0 < limit" and "distinct (map m_id (messages w))"
    and "length (messages w) \<le> n"
  shows "scroll n th None limit roles w = (Inr (with_roles roles (history th (messages w))), w)"
proof (rule scroll_prefix[OF assms(1,2) HOL.refl, where Q = "[]"])
  show "strictly_stamped (with_roles roles (history th (messages w)))"
    unfolding with_roles_def by (intro strictly_filter history_strict assms(3))
  have "length (with_roles roles (history th (messages w))) \<le> length (history th (messages w))"
    by (simp add: with_roles_def)
  also have "\<dots> \<le> length (messages w)" by (simp add: history_def)
  finally show "length (with_roles roles (history th (messages w))) \<le> n" using assms(4) by simp
qed (simp_all add: page_none)

lemma last_n_set: "set (last_n n xs) \<subseteq> set xs"
  by (simp add: last_n_def set_drop_subset)

subsection \<open>Recall\<close>

lemma hits_bound: "length (recall_hits di bo at md k recent ms) \<le> k"
  by (simp add: recall_hits_def)

lemma hits_close:
  "h \<in> set (recall_hits di bo at md k recent ms) \<Longrightarrow>
   h \<in> set ms \<and> m_id h \<notin> recent \<and> (\<exists>x. di (m_id h) = Some x \<and> x \<le> md)"
  by (auto simp: recall_hits_def dest!: in_set_takeD split: option.splits)

lemma windows_members:
  assumes "m \<in> set (recall_windows win recent hits thread)"
  shows "m \<in> set thread \<and> m_id m \<notin> recent \<and>
    (\<exists>h\<in>set hits. \<exists>i j. i < length thread \<and> j < length thread \<and> thread ! i = m \<and>
       m_id (thread ! j) = m_id h \<and> i \<le> j + win \<and> j \<le> i + win)"
  using assms by (fastforce simp: recall_windows_def near_hit_def list_ex_iff)

lemma windows_ordered:
  assumes "strictly_stamped thread" shows "strictly_stamped (recall_windows win recent hits thread)"
proof -
  have "sorted_wrt (\<lambda>i j. stamp (thread ! i) < stamp (thread ! j)) [0..<length thread]"
    using assms by (auto simp: sorted_wrt_iff_nth_less strictly_stamped_def)
  then have "sorted_wrt (\<lambda>i j. stamp (thread ! i) < stamp (thread ! j))
      (filter (\<lambda>i. near_hit thread win hits i \<and> m_id (thread ! i) \<notin> recent) [0..<length thread])"
    by (rule sorted_wrt_filter)
  then show ?thesis by (simp add: recall_windows_def strictly_stamped_def sorted_wrt_map)
qed

subsection \<open>Properties\<close>

text \<open>Scrolling a thread back page by page, each page fetched before the oldest message shown,
  shows every message of the thread with the wanted roles exactly once, in order, for every page
  size.\<close>

theorem pages_cover_thread:
  assumes "script w = []" and "0 < limit" and "distinct (map m_id (messages w))"
    and "length (messages w) \<le> n"
  shows "scroll n th None limit roles w = (Inr (with_roles roles (history th (messages w))), w)"
  using scroll_whole[OF assms] .

text \<open>Recall in a thread gives messages of that thread, in order and without repeats, outside its
  verbatim window, each within \<open>window\<close> places of one of at most \<open>k\<close> hits close enough to the query.\<close>

theorem recall_in_thread:
  assumes "search_relevant dist q bonus th k exclude_n window max_distance w = (Inr ms, w')"
    and "script w = []" and "distinct (map m_id (messages w))"
  shows "strictly_stamped ms \<and>
    (\<forall>m\<in>set ms. m_thread_id m = th \<and>
       m \<notin> set (last_n exclude_n (history th (messages w)))) \<and>
    (\<exists>hits :: message list. length hits \<le> k \<and>
       (\<forall>h\<in>set hits. \<exists>x. distance_to dist q w (m_id h) = Some x \<and> x \<le> max_distance) \<and>
       (\<forall>m\<in>set ms. \<exists>h\<in>set hits. \<exists>i j. history th (messages w) ! i = m \<and>
          m_id (history th (messages w) ! j) = m_id h \<and> i \<le> j + window \<and> j \<le> i + window))"
proof -
  let ?thread = "history th (messages w)"
  let ?recent = "recent_ids (Some th) exclude_n (messages w)"
  let ?hits = "recall_hits (distance_to dist q w) bonus (now w) max_distance k ?recent ?thread"
  have ms: "ms = recall_windows window ?recent ?hits ?thread"
    using assms(1,2) by (auto simp: search_relevant_def Let_def)
  have "strictly_stamped ms" unfolding ms by (rule windows_ordered[OF history_strict[OF assms(3)]])
  moreover have "\<forall>m\<in>set ms. m_thread_id m = th \<and> m \<notin> set (last_n exclude_n ?thread)"
    using windows_members[of _ window ?recent ?hits ?thread] history_members[of th "messages w"]
    unfolding ms by (auto simp: recent_ids_def)
  moreover have "\<forall>h\<in>set ?hits. \<exists>x. distance_to dist q w (m_id h) = Some x \<and> x \<le> max_distance"
    using hits_close by blast
  moreover have "\<forall>m\<in>set ms. \<exists>h\<in>set ?hits. \<exists>i j. ?thread ! i = m \<and>
      m_id (?thread ! j) = m_id h \<and> i \<le> j + window \<and> j \<le> i + window"
    using windows_members[of _ window ?recent ?hits ?thread] unfolding ms by blast
  moreover have "length ?hits \<le> k" by (rule hits_bound)
  ultimately show ?thesis by (intro conjI exI[of _ ?hits])
qed

text \<open>The thread a channel is given belongs to the user it asked for: a thread of someone else,
  or one that does not exist, leads to a fresh thread of the user, and no other thread changes.\<close>

theorem thread_is_own:
  assumes "get_or_create_thread soul_version user channel thread w = (Inr th, w')"
    and "script w = []" and "key_distinct th_id (threads w)"
    and "\<And>r. r \<in> set (threads w) \<Longrightarrow> uuid_nat (th_id r) < next_id w"
  shows "\<exists>r. thread_lookup th w' = Some r \<and> th_user_id r = user \<and>
    (threads w' = threads w \<and> thread = Some th \<or> threads w' = threads w @ [r])"
proof -
  have fresh: "thread_lookup (Uuid (next_id w)) (w\<lparr>next_id := n, threads := threads w @ [r]\<rparr>) = Some r"
    if "th_id r = Uuid (next_id w)" for r n
  proof -
    have "key_lookup th_id (Uuid (next_id w)) (threads w) = None"
    proof (rule key_lookup_None)
      show "Uuid (next_id w) \<notin> th_id ` set (threads w)"
      proof
        assume "Uuid (next_id w) \<in> th_id ` set (threads w)"
        then obtain r where "r \<in> set (threads w)" "th_id r = Uuid (next_id w)" by force
        with assms(4)[of r] show False by simp
      qed
    qed
    then show ?thesis using that by (simp add: thread_lookup_def key_lookup_append)
  qed
  have make: "\<exists>r. thread_lookup th w' = Some r \<and> th_user_id r = user \<and> threads w' = threads w @ [r]"
    if "channel \<in> set channel_names" "th = Uuid (next_id w)"
      "w' = w\<lparr>next_id := Suc (next_id w), threads := threads w @
         [\<lparr> th_id = Uuid (next_id w), th_user_id = user, th_channel = channel,
            th_soul_version = soul_version, th_profile_version = v, th_created_at = now w \<rparr>]\<rparr>" for v
    using that fresh by auto
  show ?thesis
  proof (cases "Option.bind thread (\<lambda>t. sql_first (\<lambda>r. th_id r = t \<and> th_user_id r = user) (threads w))")
    case None
    then show ?thesis using assms(1,2) make
      by (auto simp: get_or_create_thread_def bindE_def split: option.splits if_splits)
  next
    case (Some r)
    then have r: "thread = Some (th_id r)" "r \<in> set (threads w)" "th_user_id r = user"
      by (auto simp: Option.bind_eq_Some_conv dest: sql_first_SomeD)
    then have "th = th_id r" "w' = w"
      using assms(1,2) Some by (auto simp: get_or_create_thread_def bindE_def)
    moreover have "thread_lookup (th_id r) w = Some r"
      using key_lookup_in[OF assms(3) r(2)] by (simp add: thread_lookup_def)
    ultimately show ?thesis using r by auto
  qed
qed

subsection \<open>Witnesses\<close>

definition sample_message :: "nat \<Rightarrow> message" where
  "sample_message n = \<lparr> m_id = Uuid n, m_thread_id = Uuid 1, m_role = ''user'', m_content = ''hi'',
     m_metadata = [], m_created_at = int n \<rparr>"

definition chatty :: world where
  "chatty = empty_world\<lparr>next_id := 10, messages := map sample_message [2, 3, 4],
     threads := [\<lparr> th_id = Uuid 1, th_user_id = Uuid 5, th_channel = ''web'',
       th_soul_version = None, th_profile_version = None, th_created_at = 0 \<rparr>]\<rparr>"

lemma chatty_facts:
  "script chatty = []" "distinct (map m_id (messages chatty))" "length (messages chatty) = 3"
  "key_distinct th_id (threads chatty)"
  "r \<in> set (threads chatty) \<Longrightarrow> uuid_nat (th_id r) < next_id chatty"
  by (auto simp: chatty_def empty_world_def sample_message_def key_distinct_def)

lemma pages_cover_thread_witness:
  "\<exists>ms. scroll 5 (Uuid 1) None 2 (Some [''user'']) chatty = (Inr ms, chatty)"
  using pages_cover_thread[OF chatty_facts(1) _ chatty_facts(2), of 2 5 "Uuid 1" "Some [''user'']"]
  by (simp add: chatty_facts(3))

lemma recall_in_thread_witness:
  "\<exists>ms. search_relevant (\<lambda>u v. 1) [] (\<lambda>a. 0) (Uuid 1) 1 1 1 2 chatty = (Inr ms, chatty) \<and>
     strictly_stamped ms"
proof -
  obtain ms where run: "search_relevant (\<lambda>u v. 1) [] (\<lambda>a. 0) (Uuid 1) 1 1 1 2 chatty = (Inr ms, chatty)"
    by (simp add: search_relevant_def chatty_facts(1))
  with recall_in_thread[OF this chatty_facts(1,2)] show ?thesis by blast
qed

lemma thread_is_own_witness:
  "\<exists>th w'. get_or_create_thread None (Uuid 6) ''web'' (Some (Uuid 1)) chatty = (Inr th, w') \<and>
     (\<exists>r. thread_lookup th w' = Some r \<and> th_user_id r = Uuid 6)"
proof -
  have "\<exists>th w'. get_or_create_thread None (Uuid 6) ''web'' (Some (Uuid 1)) chatty = (Inr th, w')"
    by (simp add: get_or_create_thread_def bindE_def chatty_def empty_world_def channel_names_def)
  then obtain th w' where run:
    "get_or_create_thread None (Uuid 6) ''web'' (Some (Uuid 1)) chatty = (Inr th, w')" by blast
  from thread_is_own[OF this chatty_facts(1,4,5)] run show ?thesis by blast
qed

end
