(* ===== verification/Skills_Dao.thy ===== *)
theory Skills_Dao
  imports Stores
begin

section \<open>Skills\<close>

text \<open>
  \<open>src/wolfpaw/memory/skills.py\<close>: the reusable procedures of a user and the shared starter
  set, their searches, supersession, emission, and the idempotent seeding of the starter set.
\<close>

definition usable_skill :: "skill \<Rightarrow> bool" where
  "usable_skill s = (sk_embedding s \<noteq> None \<and> sk_superseded_by s = None)"

definition search_skills_by_task ::
  "(vector \<Rightarrow> vector \<Rightarrow> int) \<Rightarrow> uuid \<Rightarrow> vector \<Rightarrow> nat \<Rightarrow> (skill \<times> int) list act" where
  "search_skills_by_task dist user q k = stmt (getsE (\<lambda>w.
     nearest dist q k sk_embedding
       (filter (\<lambda>s. (sk_user_id s = Some user \<or> sk_user_id s = None) \<and> usable_skill s) (skills w))))"

definition list_active_skills :: "uuid \<Rightarrow> skill list act" where
  "list_active_skills user = stmt (getsE (\<lambda>w. sort_key sk_created_at
     (filter (\<lambda>s. sk_user_id s = Some user \<and> usable_skill s) (skills w))))"

definition skill_neighbours ::
  "(vector \<Rightarrow> vector \<Rightarrow> int) \<Rightarrow> uuid \<Rightarrow> uuid \<Rightarrow> nat \<Rightarrow> (skill \<times> int) list act" where
  "skill_neighbours dist skill_id user k = stmt (getsE (\<lambda>w.
     case Option.bind (key_lookup sk_id skill_id (skills w)) sk_embedding of
       None \<Rightarrow> []
     | Some target \<Rightarrow> nearest dist target k sk_embedding
         (filter (\<lambda>s. sk_user_id s = Some user \<and> sk_id s \<noteq> skill_id \<and> usable_skill s) (skills w))))"

definition supersedable :: "uuid \<Rightarrow> skill \<Rightarrow> bool" where
  "supersedable i s = (sk_id s = i \<and> sk_superseded_by s = None)"

definition mark_superseded :: "uuid \<Rightarrow> uuid \<Rightarrow> bool act" where
  "mark_superseded skill_id survivor = stmt (\<lambda>w.
     if sql_first (supersedable skill_id) (skills w) \<noteq> None \<and>
        key_lookup sk_id survivor (skills w) = None
     then (Inl (DbError ''superseded_by_skill_id violates foreign key''), w)
     else (Inr (sql_first (supersedable skill_id) (skills w) \<noteq> None),
       w\<lparr>skills := sql_set (supersedable skill_id) (\<lambda>s. s\<lparr>sk_superseded_by := Some survivor\<rparr>)
           (skills w)\<rparr>))"

definition new_skill ::
  "uuid \<Rightarrow> time \<Rightarrow> uuid option \<Rightarrow> pystr \<Rightarrow> pystr \<Rightarrow> vector option \<Rightarrow> dict \<Rightarrow> json list \<Rightarrow> uuid option
     \<Rightarrow> int option \<Rightarrow> skill" where
  "new_skill i at user name description embedding ingredients steps plan score =
     \<lparr> sk_id = i, sk_user_id = user, sk_name = name, sk_description = description,
       sk_ingredients = ingredients, sk_steps = steps, sk_source_plan_id = plan,
       sk_score = score, sk_embedding = embedding, sk_created_at = at, sk_superseded_by = None \<rparr>"

definition store_emitted ::
  "uuid \<Rightarrow> pystr \<Rightarrow> pystr \<Rightarrow> vector \<Rightarrow> dict \<Rightarrow> json list \<Rightarrow> uuid \<Rightarrow> int option \<Rightarrow> uuid act" where
  "store_emitted user name description embedding ingredients steps plan score = stmt (\<lambda>w.
     if key_lookup p_id plan (plans w) = None
     then (Inl (DbError ''source_plan_id violates foreign key''), w)
     else (Inr (Uuid (next_id w)), w\<lparr>next_id := Suc (next_id w), skills := skills w @
       [new_skill (Uuid (next_id w)) (now w) (Some user) name description (Some embedding)
          ingredients steps (Some plan) score]\<rparr>))"

subsection \<open>The starter set\<close>

record starter =
  sa_name :: pystr
  sa_description :: pystr
  sa_ingredients :: dict
  sa_steps :: "json list"

definition starter_vendor_comparison_spreadsheet :: starter where
  "starter_vendor_comparison_spreadsheet = \<lparr>
     sa_name = ''vendor_comparison_spreadsheet'',
     sa_description = ''Research N vendors against user-supplied criteria, normalize attributes, emit a .xlsx '' @
       ''with one row per vendor + columns per criterion + a recommendation.'',
     sa_ingredients = [(''tools'', JArr [JStr ''web_search'',
        JStr ''http_get'',
        JStr ''create_spreadsheet''])],
     sa_steps = [JObj
         [(''id'', JStr ''discover''),
          (''kind'', JStr ''functional''),
          (''tool'', JStr ''web_search''),
          (''description'', JStr ''Find each vendor's homepage + product page.'')],
       JObj
         [(''id'', JStr ''fetch''),
          (''kind'', JStr ''functional''),
          (''tool'', JStr ''http_get''),
          (''description'', JStr ''Fetch the relevant pages per vendor.''),
          (''parallel_group'', JInt 1)],
       JObj
         [(''id'', JStr ''normalize''),
          (''kind'', JStr ''reasoning''),
          (''description'', JStr ''Extract the criterion values from the fetched text.'')],
       JObj
         [(''id'', JStr ''spreadsheet''),
          (''kind'', JStr ''functional''),
          (''tool'', JStr ''create_spreadsheet''),
          (''description'', JStr ''Emit the comparison + a recommendation row.'')]] \<rparr>"

definition starter_research_one_pager :: starter where
  "starter_research_one_pager = \<lparr>
     sa_name = ''research_one_pager'',
     sa_description = ''Read a paper or report (URL or upload), produce a single-page .pdf with key findings, '' @
       ''methodology, and limitations.'',
     sa_ingredients = [(''tools'', JArr [JStr ''read_doc'',
        JStr ''http_get'',
        JStr ''create_pdf''])],
     sa_steps = [JObj
         [(''id'', JStr ''load''),
          (''kind'', JStr ''functional''),
          (''tool'', JStr ''http_get''),
          (''description'', JStr ''Fetch / load the source document.'')],
       JObj
         [(''id'', JStr ''extract''),
          (''kind'', JStr ''reasoning''),
          (''description'', JStr ''Pull out findings, methodology, limitations.'')],
       JObj
         [(''id'', JStr ''render''),
          (''kind'', JStr ''functional''),
          (''tool'', JStr ''create_pdf''),
          (''description'', JStr (''Render the one-pager as HTML '' @ [arrow] @ '' PDF.''))]] \<rparr>"

definition starter_newsletter_digest :: starter where
  "starter_newsletter_digest = \<lparr>
     sa_name = ''newsletter_digest'',
     sa_description = ''Ingest forwarded newsletters over a date range, group by theme, produce a Markdown digest '' @
       ''with section headings + a links appendix.'',
     sa_ingredients = [(''tools'', JArr [JStr ''sql_query'',
        JStr ''write_doc''])],
     sa_steps = [JObj
         [(''id'', JStr ''load''),
          (''kind'', JStr ''functional''),
          (''tool'', JStr ''sql_query''),
          (''description'', JStr ''SELECT the newsletter rows in the date range.'')],
       JObj
         [(''id'', JStr ''group''),
          (''kind'', JStr ''reasoning''),
          (''description'', JStr ''Cluster items by theme.'')],
       JObj
         [(''id'', JStr ''write''),
          (''kind'', JStr ''functional''),
          (''tool'', JStr ''write_doc''),
          (''description'', JStr ''Emit Markdown digest with sections.'')]] \<rparr>"

definition starter_receipt_to_ledger :: starter where
  "starter_receipt_to_ledger = \<lparr>
     sa_name = ''receipt_to_ledger'',
     sa_description = ''Extract date, vendor, amount, and tax from a receipt (image or PDF text), append a row to '' @
       ''a sandboxed SQL table the user maintains for expenses.'',
     sa_ingredients = [(''tools'', JArr [JStr ''read_doc'',
        JStr ''sql_query'',
        JStr ''create_table''])],
     sa_steps = [JObj
         [(''id'', JStr ''read''),
          (''kind'', JStr ''functional''),
          (''tool'', JStr ''read_doc''),
          (''description'', JStr ''Load the receipt file.'')],
       JObj
         [(''id'', JStr ''extract''),
          (''kind'', JStr ''reasoning''),
          (''description'', JStr ''Pull date/vendor/amount/tax.'')],
       JObj
         [(''id'', JStr ''ensure''),
          (''kind'', JStr ''functional''),
          (''tool'', JStr ''create_table''),
          (''description'', JStr ''Create the receipts table if it doesn't exist.'')],
       JObj
         [(''id'', JStr ''insert''),
          (''kind'', JStr ''reasoning''),
          (''description'', JStr ''Append the row (via the Quick path's SQL access).'')]] \<rparr>"

definition starter_inventory_snapshot :: starter where
  "starter_inventory_snapshot = \<lparr>
     sa_name = ''inventory_snapshot'',
     sa_description = ''Read a user-supplied list of items, look up current data per item (price / stock / '' @
       ''metadata), emit an .xlsx snapshot including deltas vs the prior snapshot.'',
     sa_ingredients = [(''tools'', JArr [JStr ''read_doc'',
        JStr ''web_search'',
        JStr ''http_get'',
        JStr ''create_spreadsheet''])],
     sa_steps = [JObj
         [(''id'', JStr ''load_list''),
          (''kind'', JStr ''functional''),
          (''tool'', JStr ''read_doc''),
          (''description'', JStr ''Read the item list from workspace.'')],
       JObj
         [(''id'', JStr ''lookup''),
          (''kind'', JStr ''functional''),
          (''tool'', JStr ''http_get''),
          (''description'', JStr ''Fetch current data per item.''),
          (''parallel_group'', JInt 1)],
       JObj
         [(''id'', JStr ''compare''),
          (''kind'', JStr ''reasoning''),
          (''description'', JStr ''Diff vs the prior snapshot (if any).'')],
       JObj
         [(''id'', JStr ''snapshot''),
          (''kind'', JStr ''functional''),
          (''tool'', JStr ''create_spreadsheet''),
          (''description'', JStr ''Emit the new snapshot xlsx.'')]] \<rparr>"

definition STARTER_SKILLS :: "starter list" where
  "STARTER_SKILLS = [starter_vendor_comparison_spreadsheet,
     starter_research_one_pager,
     starter_newsletter_digest,
     starter_receipt_to_ledger,
     starter_inventory_snapshot]"

definition seeded_names :: "skill list \<Rightarrow> pystr list" where
  "seeded_names ss = map sk_name (filter (\<lambda>s. sk_user_id s = None) ss)"

definition insert_starter :: "starter \<Rightarrow> vector \<Rightarrow> unit act" where
  "insert_starter s v = stmt (modifyE (\<lambda>w. w\<lparr>next_id := Suc (next_id w), skills := skills w @
     [new_skill (Uuid (next_id w)) (now w) None (sa_name s) (sa_description s) (Some v)
        (sa_ingredients s) (sa_steps s) None None]\<rparr>))"

fun insert_starters :: "(starter \<times> vector) list \<Rightarrow> unit act" where
  "insert_starters [] = ret ()"
| "insert_starters ((s, v) # rest) = thenE (insert_starter s v) (insert_starters rest)"

definition seed_starter_skills :: "(pystr list \<Rightarrow> vector list act) \<Rightarrow> nat act" where
  "seed_starter_skills embed_all =
     bindE (stmt (getsE (\<lambda>w. seeded_names (skills w)))) (\<lambda>seeded.
     let to_insert = filter (\<lambda>s. sa_name s \<notin> set seeded) STARTER_SKILLS in
     if to_insert = [] then ret 0
     else bindE (embed_all (map sa_description to_insert)) (\<lambda>vectors.
            thenE (insert_starters (zip to_insert vectors)) (ret (length to_insert))))"

subsection \<open>Soundness\<close>

lemma skills_sound:
  "keeps sound (search_skills_by_task di u q k)" "keeps sound (list_active_skills u)"
  "keeps sound (skill_neighbours di i u k)" "keeps sound (mark_superseded i j)"
  "keeps sound (store_emitted u n d v ing st pl sc)" "keeps sound (insert_starter s v)"
  unfolding search_skills_by_task_def list_active_skills_def skill_neighbours_def
    mark_superseded_def store_emitted_def insert_starter_def
  by (rule sound.stmt; auto simp: keeps_def intro!: sound_frame)+

subsection \<open>Seeding\<close>

lemma starter_names:
  "map sa_name STARTER_SKILLS = [''vendor_comparison_spreadsheet'', ''research_one_pager'',
     ''newsletter_digest'', ''receipt_to_ledger'', ''inventory_snapshot'']"
  by (simp add: STARTER_SKILLS_def starter_vendor_comparison_spreadsheet_def
      starter_research_one_pager_def starter_newsletter_digest_def starter_receipt_to_ledger_def
      starter_inventory_snapshot_def)

lemma starter_distinct: "distinct (map sa_name STARTER_SKILLS)"
  by (simp add: starter_names)

lemma insert_starters_run:
  "script w = [] \<Longrightarrow> \<exists>w'. insert_starters ps w = (Inr (), w') \<and> script w' = [] \<and>
     seeded_names (skills w') = seeded_names (skills w) @ map (sa_name \<circ> fst) ps"
proof (induction ps arbitrary: w)
  case Nil
  then show ?case by simp
next
  case (Cons p ps)
  obtain s v where p: "p = (s, v)" by (cases p)
  obtain w1 where w1: "insert_starter s v w = (Inr (), w1)" "script w1 = []"
    "seeded_names (skills w1) = seeded_names (skills w) @ [sa_name s]"
    using Cons.prems by (simp add: insert_starter_def seeded_names_def new_skill_def)
  from Cons.IH[OF w1(2)] w1 p show ?case by (auto simp: thenE_def bindE_def)
qed

lemma seed_run:
  assumes embed: "\<And>ts v. \<exists>vs. embed_all ts v = (Inr vs, v) \<and> length vs = length ts"
    and quiet: "script w = []"
  shows "\<exists>n w'. seed_starter_skills embed_all w = (Inr n, w') \<and> script w' = [] \<and>
    seeded_names (skills w') = seeded_names (skills w) @
      filter (\<lambda>m. m \<notin> set (seeded_names (skills w))) (map sa_name STARTER_SKILLS) \<and>
    (n = 0 \<longrightarrow> w' = w) \<and>
    n = length (filter (\<lambda>m. m \<notin> set (seeded_names (skills w))) (map sa_name STARTER_SKILLS))"
proof -
  let ?new = "filter (\<lambda>s. sa_name s \<notin> set (seeded_names (skills w))) STARTER_SKILLS"
  have names: "filter (\<lambda>m. m \<notin> set (seeded_names (skills w))) (map sa_name STARTER_SKILLS) =
      map sa_name ?new" by (simp add: filter_map o_def)
  obtain vs where vs: "embed_all (map sa_description ?new) w = (Inr vs, w)" "length vs = length ?new"
    using embed[of "map sa_description ?new" w] by auto
  obtain w' where w': "insert_starters (zip ?new vs) w = (Inr (), w')" "script w' = []"
    "seeded_names (skills w') = seeded_names (skills w) @ map (sa_name \<circ> fst) (zip ?new vs)"
    using insert_starters_run[OF quiet] by blast
  have "map (sa_name \<circ> fst) (zip ?new vs) = map sa_name ?new"
    using vs(2) by (metis map_fst_zip map_map)
  then show ?thesis
    unfolding names using w' vs quiet
    by (cases "?new = []") (simp_all add: seed_starter_skills_def Let_def bindE_def thenE_def)
qed

text \<open>Seeding the starter set adds each starter skill that is missing, under its own name and
  once, leaves the skills already there alone, and seeding again does nothing.\<close>

theorem seeding_idempotent:
  assumes "\<And>ts v. \<exists>vs. embed_all ts v = (Inr vs, v) \<and> length vs = length ts"
    and "script w = []" and "distinct (seeded_names (skills w))"
  shows "\<exists>n w'. seed_starter_skills embed_all w = (Inr n, w') \<and>
    distinct (seeded_names (skills w')) \<and>
    set (seeded_names (skills w')) = set (seeded_names (skills w)) \<union> set (map sa_name STARTER_SKILLS) \<and>
    seed_starter_skills embed_all w' = (Inr 0, w')"
proof -
  obtain n w' where w': "seed_starter_skills embed_all w = (Inr n, w')" "script w' = []"
    "seeded_names (skills w') = seeded_names (skills w) @
      filter (\<lambda>m. m \<notin> set (seeded_names (skills w))) (map sa_name STARTER_SKILLS)"
    using seed_run[OF assms(1,2)] by blast
  have sets: "set (seeded_names (skills w')) =
      set (seeded_names (skills w)) \<union> set (map sa_name STARTER_SKILLS)"
    unfolding w'(3) by auto
  have dist: "distinct (seeded_names (skills w'))"
    unfolding w'(3) using assms(3) starter_distinct by (auto simp: distinct_filter)
  have none: "filter (\<lambda>m. m \<notin> set (seeded_names (skills w'))) (map sa_name STARTER_SKILLS) = []"
    using sets by (auto simp: filter_empty_conv)
  obtain k w2 where "seed_starter_skills embed_all w' = (Inr k, w2)" "k = 0 \<longrightarrow> w2 = w'" "k = 0"
    using seed_run[OF assms(1) w'(2)] unfolding none by auto
  then show ?thesis using w'(1) dist sets by auto
qed

lemma seeding_idempotent_witness:
  "\<exists>n w'. seed_starter_skills (\<lambda>ts. ret (map (\<lambda>_. []) ts)) empty_world = (Inr n, w') \<and>
     seed_starter_skills (\<lambda>ts. ret (map (\<lambda>_. []) ts)) w' = (Inr 0, w')"
proof -
  let ?e = "\<lambda>ts. ret (map (\<lambda>_. []) ts) :: vector list act"
  have e: "\<exists>vs. ?e ts v = (Inr vs, v) \<and> length vs = length ts" for ts v by simp
  have w: "script empty_world = []" "distinct (seeded_names (skills empty_world))"
    by (simp_all add: empty_world_def seeded_names_def)
  show ?thesis using seeding_idempotent[of ?e empty_world, OF e w] by metis
qed

end
