(* ===== verification/Planner.thy ===== *)
theory Planner
  imports Executor Agent_Orders Prompts Conversation Skills_Dao
begin

section \<open>The planner\<close>

text \<open>
  \<open>src/wolfpaw/agents/planner.py\<close>: retrieval of context from memory, the prompt's blocks, the
  model call with the forced \<open>generate_plan\<close> tool, reading the plan off its reply, and storing
  the plan. Parameters: the settings, the tool registry, the model's API, the system-prompt
  builder, the embedder, and what the vector extension computes (the distance of two embeddings,
  the recency bonus, the rendering of a similarity and of a date).
\<close>

record planner_deps =
  pn_settings :: settings
  pn_registry :: registry
  pn_llm :: llm
  pn_build :: "uuid \<Rightarrow> pystr \<Rightarrow> pystr act"
  pn_embed :: "pystr \<Rightarrow> embedding act"
  pn_dist :: "vector \<Rightarrow> vector \<Rightarrow> int"
  pn_bonus :: "time \<Rightarrow> int"
  pn_max_distance :: int
  pn_show_similarity :: "int \<Rightarrow> pystr"
  pn_show_time :: "time \<Rightarrow> pystr"

record plan_context =
  px_past_plans :: "(stored_plan \<times> int) list"
  px_skills :: "(skill \<times> int) list"
  px_summaries :: "thread_summary list"
  px_recall :: "message list"
  px_user_tools :: "user_tool list"
  px_integrations :: "pystr list"

definition paragraphs :: "pystr list \<Rightarrow> pystr" where
  "paragraphs ss = join [newline, newline] ss"

subsection \<open>Blocks of the prompt\<close>

definition execution_context_block :: "bool \<Rightarrow> pystr" where
  "execution_context_block human_available = lines_of
     [''## Execution context (authoritative)'',
      if human_available
      then ''This request is running INTERACTIVELY: the user is present and'' @
        '' WILL answer follow-up questions. When the request needs input'' @
        '' you don't have '' @ [em_dash] @ '' a URL, a choice, a confirmation before a'' @
        '' destructive or ambiguous action '' @ [em_dash] @ '' include an `ask_user` step.'' @
        '' Do NOT invent values, silently skip the ask, or refuse for'' @
        '' lack of input. Ignore any retrieved past plan that assumes no'' @
        '' human is available; that framing does not apply to this run.''
      else ''This request is running HEADLESS (a scheduled/background job): there'' @
        '' is no human available to answer questions. Do NOT include'' @
        '' `ask_user` steps. Act on the instruction with the information'' @
        '' available, or stop if it genuinely cannot proceed.'']"

definition format_revision_block :: "pystr \<Rightarrow> pystr" where
  "format_revision_block diagnosis = lines_of
     [''## You are revising a rejected draft'',
      ''Your previous plan for this same user request was rejected by'' @
        '' the Pre-Evaluator with this diagnosis:'', [],
      ''> '' @ strip diagnosis, [],
      ''Address the diagnosis concretely. Don't repeat the rejected'' @
        '' approach. If the diagnosis says a step is redundant, drop it.'' @
        '' If it says a step doesn't achieve the objective, replace it.'' @
        '' If it says a past plan would do better, adapt that past plan.'']"

definition format_completed_step :: "step_result \<Rightarrow> pystr" where
  "format_completed_step r =
     (let head = ''- `'' @ r_step_id r @ ''` ['' @ kind_text (r_kind r) @ ''] '' @ [arrow] @ '' '' @
                 step_status_text (r_status r)
      in if r_status r = COMPLETED \<and> r_output r \<noteq> JNull
         then (let s = json_str (r_output r);
                   shown = (if length s > 240 then take 237 s @ ''...'' else s)
               in lines_of [head, ''  output: '' @ shown])
         else (case r_error r of
                 Some e \<Rightarrow> if e = [] then head else lines_of [head, ''  error: '' @ e]
               | None \<Rightarrow> head))"

definition format_replan_block :: "replan_context \<Rightarrow> pystr" where
  "format_replan_block c =
     (let failed = rc_failed_step c in lines_of
       [''## You are writing a continuation plan after a failure'',
        ''Original user request:'', ''> '' @ strip (rc_query c), [],
        ''Steps already attempted (do NOT redo work that completed):'',
        if rc_completed c = [] then ''(none)''
        else lines_of (map format_completed_step (rc_completed c)), [],
        ''The failing step was:'',
        ''- `'' @ st_id failed @ ''` ['' @ kind_text (st_kind failed) @ ''] '' @ st_description failed,
        ''  tool: '' @ json_repr (st_tool failed) @ '', inputs: '' @ json_repr (JObj (st_inputs failed)),
        ''  error: '' @ strip (rc_error c), [],
        ''Plan ONLY what's still needed to finish the original request.'' @
          '' The error message often names a real obstacle (a missing'' @
          '' column, an unknown table, a stale assumption) '' @ [em_dash] @ '' work around'' @
          '' it, don't retry the failed step verbatim. If introspection'' @
          '' would unblock you, include a `list_tables` / `describe_table`'' @
          '' / `list_docs` / `search_docs` step first.''])"

definition score_part :: "int option \<Rightarrow> pystr" where
  "score_part s = ''score='' @ (case s of None \<Rightarrow> ''?'' | Some n \<Rightarrow> show_int n)"

definition past_plan_line :: "planner_deps \<Rightarrow> stored_plan \<times> int \<Rightarrow> pystr" where
  "past_plan_line d hit = (case hit of (p, x) \<Rightarrow> lines_of
     [''- id='' @ uuid_text (p_id p) @ '' similarity='' @ pn_show_similarity d x @ '' '' @
        score_part (p_score p),
      ''  query: '' @ p_query p, ''  steps: '' @ dumps (JArr (p_steps p))])"

definition skill_line :: "planner_deps \<Rightarrow> skill \<times> int \<Rightarrow> pystr" where
  "skill_line d hit = (case hit of (s, x) \<Rightarrow> lines_of
     [''- name='' @ sk_name s @ '' similarity='' @ pn_show_similarity d x,
      ''  description: '' @ sk_description s, ''  steps skeleton: '' @ dumps (JArr (sk_steps s))])"

definition user_tool_line :: "user_tool \<Rightarrow> pystr" where
  "user_tool_line t = lines_of
     [''- `'' @ ut_name t @ ''`: '' @ ut_description t,
      ''  input_schema: '' @ dumps (JObj (ut_signature t))]"

definition integration_lines :: "pystr list \<Rightarrow> pystr list" where
  "integration_lines connected =
     ''## OAuth integrations (provider tools the user can use)'' #
     (if connected \<noteq> []
      then map (\<lambda>p. ''- `'' @ p @ ''` connected '' @ [em_dash] @ '' `'' @ p @ ''_*` tools are usable.'')
             connected
      else [''- None connected. Do NOT pick `dropbox_*`, `notion_*`, or'' @
        '' `outlook_*` tools '' @ [em_dash] @ '' they'll surface 'not connected'' @ [squote] @
        '' errors. If a plan needs one, end the plan with a'' @
        '' reasoning step telling the user how to connect.''])"

definition unless_empty :: "'a list \<Rightarrow> pystr list \<Rightarrow> pystr list" where
  "unless_empty xs parts = (if xs = [] then [] else parts)"

definition format_context_block :: "planner_deps \<Rightarrow> plan_context \<Rightarrow> pystr" where
  "format_context_block d x =
     (let summary_block = format_summaries_block (px_summaries x);
          recall_block = format_vector_recall_block (pn_show_time d) (px_recall x)
      in paragraphs
       ([catalog_block (pn_registry d)] @
        unless_empty summary_block [summary_block] @
        unless_empty recall_block [recall_block] @
        unless_empty (px_past_plans x)
          [lines_of (''## Past plans you've run for this user (most-similar first)'' #
             map (past_plan_line d) (px_past_plans x))] @
        unless_empty (px_skills x)
          [lines_of (''## Relevant seeded skills'' # map (skill_line d) (px_skills x))] @
        unless_empty (px_user_tools x)
          [lines_of (''## User tools (approved by this user, available like builtins)'' #
             map user_tool_line (px_user_tools x))] @
        [lines_of (integration_lines (px_integrations x))]))"

subsection \<open>Reading a plan off the reply\<close>

text \<open>A tool name the model gave, as a key of the registry: a list or an object cannot be one.\<close>

fun tool_key :: "json \<Rightarrow> exn + pystr option" where
  "tool_key (JStr s) = Inr (Some s)"
| "tool_key (JArr _) = Inl (OtherError (''unhashable type: 'list'' @ [squote]))"
| "tool_key (JObj _) = Inl (OtherError (''unhashable type: 'dict'' @ [squote]))"
| "tool_key _ = Inr None"

definition needs_task :: "registry \<Rightarrow> pystr \<Rightarrow> bool" where
  "needs_task r name = (case try_get r name of None \<Rightarrow> False | Some t \<Rightarrow> tl_needs_task t)"

fun requires_task_context :: "registry \<Rightarrow> step list \<Rightarrow> exn + bool" where
  "requires_task_context r [] = Inr False"
| "requires_task_context r (st # sts) =
     (if st_kind st = Tool_Creator then Inr True
      else if \<not> truthy (st_tool st) then requires_task_context r sts
      else (case tool_key (st_tool st) of
        Inl e \<Rightarrow> Inl e
      | Inr None \<Rightarrow> requires_task_context r sts
      | Inr (Some name) \<Rightarrow> if needs_task r name then Inr True else requires_task_context r sts))"

fun sequence_steps :: "json list \<Rightarrow> exn + step list" where
  "sequence_steps [] = Inr []"
| "sequence_steps (j # js) =
     (case step_from_dict j of
        Inl e \<Rightarrow> Inl e
      | Inr st \<Rightarrow> (case sequence_steps js of Inl e \<Rightarrow> Inl e | Inr sts \<Rightarrow> Inr (st # sts)))"

fun steps_of_json :: "json \<Rightarrow> exn + step list" where
  "steps_of_json (JArr xs) = sequence_steps xs"
| "steps_of_json (JStr s) = sequence_steps (map (\<lambda>c. JStr [c]) s)"
| "steps_of_json (JObj d) = sequence_steps (map (\<lambda>(k, _). JStr k) d)"
| "steps_of_json _ = Inl (OtherError ''object is not iterable'')"

fun adapted_uuid :: "json \<Rightarrow> exn + uuid option" where
  "adapted_uuid (JStr s) = Inr (parse_uuid s)"
| "adapted_uuid j = (if truthy j then Inl (OtherError (''object has no attribute 'replace'' @ [squote])) else Inr None)"

definition fallback_plan :: "pystr \<Rightarrow> pystr \<Rightarrow> plan" where
  "fallback_plan query model = \<lparr> pl_query = query,
     pl_summary = ''(planner returned no structured plan '' @ [em_dash] @
       '' defaulting to a single reasoning step)'',
     pl_steps = [\<lparr> st_id = ''reason'', st_kind = Reasoning,
       st_description = ''Answer the user's request directly.'', st_tool = JNull, st_inputs = [],
       st_group = JNull \<rparr>],
     pl_is_task = False, pl_model = model, pl_adapted_from = None, pl_skill = JNull, pl_id = None \<rparr>"

definition plan_of_payload :: "registry \<Rightarrow> pystr \<Rightarrow> pystr \<Rightarrow> dict \<Rightarrow> exn + plan" where
  "plan_of_payload r query model payload =
     (case steps_of_json (get_or payload ''steps'' (JArr [])) of
        Inl e \<Rightarrow> Inl e
      | Inr steps \<Rightarrow>
         (case adapted_uuid (get_default payload ''adapted_from_past_plan_id'' JNull) of
            Inl e \<Rightarrow> Inl e
          | Inr adapted \<Rightarrow>
             (let flagged = truthy (get_default payload ''is_task'' (JBool False)) in
              case (if flagged then Inr True else requires_task_context r steps) of
                Inl e \<Rightarrow> Inl e
              | Inr is_task \<Rightarrow> Inr \<lparr> pl_query = query,
                  pl_summary = json_str (get_default payload ''summary'' (JStr [])),
                  pl_steps = steps, pl_is_task = is_task, pl_model = model,
                  pl_adapted_from = adapted,
                  pl_skill = get_default payload ''applied_skill_name'' JNull, pl_id = None \<rparr>)))"

definition parse_plan_from_response :: "registry \<Rightarrow> pystr \<Rightarrow> pystr \<Rightarrow> api_response \<Rightarrow> exn + plan" where
  "parse_plan_from_response r query model raw =
     (case find_tool_use ''generate_plan'' (a_content raw) of
        Some payload \<Rightarrow> plan_of_payload r query model payload
      | None \<Rightarrow> Inr (fallback_plan query model))"

subsection \<open>Retrieval\<close>

definition has_link :: "pystr \<Rightarrow> uuid \<Rightarrow> bool act" where
  "has_link provider user = stmt (getsE (\<lambda>w. (provider, user) \<in> set (oauth_links w)))"

fun connected_among :: "pystr list \<Rightarrow> uuid \<Rightarrow> pystr list act" where
  "connected_among [] user = ret []"
| "connected_among (p # ps) user =
     bindE (attemptE (has_link p user)) (\<lambda>r.
     bindE (connected_among ps user) (\<lambda>rest.
       ret (if r = Inr True then p # rest else rest)))"

definition resolve_connected_integrations :: "uuid \<Rightarrow> pystr list act" where
  "resolve_connected_integrations user = connected_among [''dropbox'', ''notion'', ''microsoft''] user"

definition retrieve ::
  "planner_deps \<Rightarrow> tool_ctx \<Rightarrow> uuid option \<Rightarrow> vector option \<Rightarrow> (message list \<times> plan_context) act" where
  "retrieve d ctx thread q =
     (let cfg = pn_settings d; window = recent_window_size cfg in
      bindE (case thread of None \<Rightarrow> ret [] | Some th \<Rightarrow> fetch_recent th window) (\<lambda>past.
      bindE (case thread of None \<Rightarrow> ret [] | Some th \<Rightarrow> fetch_summaries th) (\<lambda>summaries.
      bindE (case (thread, q) of
               (Some th, Some v) \<Rightarrow> search_user_messages (pn_dist d) v (pn_bonus d) (c_user ctx)
                 (vector_recall_k cfg) (vector_recall_window cfg) (pn_max_distance d) (Some th) window
             | _ \<Rightarrow> ret []) (\<lambda>recall.
      bindE (case q of None \<Rightarrow> ret []
             | Some v \<Rightarrow> search_similar (pn_dist d) (c_user ctx) v 3 (Some (plan_retrieval_min_score cfg)))
        (\<lambda>past_plans.
      bindE (case q of None \<Rightarrow> ret []
             | Some v \<Rightarrow> search_skills_by_task (pn_dist d) (c_user ctx) v 3) (\<lambda>skill_hits.
      bindE (list_approved_for_user (c_user ctx)) (\<lambda>own_tools.
      bindE (resolve_connected_integrations (c_user ctx)) (\<lambda>connected.
        ret (past, \<lparr> px_past_plans = past_plans, px_skills = skill_hits, px_summaries = summaries,
                     px_recall = recall, px_user_tools = own_tools, px_integrations = connected \<rparr>)))))))))"

subsection \<open>Planning\<close>

definition pick_model :: "settings \<Rightarrow> pystr \<Rightarrow> pystr" where
  "pick_model cfg complexity =
     (if complexity = ''ambitious'' then model_planner_opus cfg else model_planner cfg)"

definition ensure_planner_prompt :: "unit act" where
  "ensure_planner_prompt = ensure_prompt_version ''planner'' ''v1''
     [(''agent_role'', JStr planner_role), (''tool'', generate_plan_tool)]"

definition meter_embedding :: "tool_ctx \<Rightarrow> pystr \<Rightarrow> embedding \<Rightarrow> unit act" where
  "meter_embedding ctx agent r =
     whenE (em_tokens r > 0)
       (best_effort (bindE (getsE (prompt_version_id agent)) (\<lambda>version.
          record_usage (c_user ctx) agent (em_model r) (usage_of_input (em_tokens r))
            (voyage_cents (em_tokens r)) version (c_task ctx))))"

definition planner_role_text ::
  "planner_deps \<Rightarrow> bool \<Rightarrow> pystr option \<Rightarrow> replan_context option \<Rightarrow> plan_context \<Rightarrow> pystr" where
  "planner_role_text d human_available revision replan x =
     (let base = paragraphs [execution_context_block human_available, planner_role];
          revised = (case revision of
              None \<Rightarrow> base
            | Some dx \<Rightarrow> if dx = [] then base else paragraphs [format_revision_block dx, base]);
          replanned = (case replan of
              None \<Rightarrow> revised | Some c \<Rightarrow> paragraphs [format_replan_block c, revised]);
          context = format_context_block d x
      in if context = [] then replanned else paragraphs [replanned, context])"

definition message_json :: "message \<Rightarrow> json" where
  "message_json m = JObj [(''role'', JStr (m_role m)), (''content'', JStr (m_content m))]"

definition forced_tool :: "json \<Rightarrow> pystr \<Rightarrow> dict" where
  "forced_tool spec name =
     [(''tools'', JArr [spec]),
      (''tool_choice'', JObj [(''type'', JStr ''tool''), (''name'', JStr name)])]"

definition persist_plan ::
  "tool_ctx \<Rightarrow> uuid option \<Rightarrow> pystr \<Rightarrow> vector option \<Rightarrow> plan \<Rightarrow> plan act" where
  "persist_plan ctx thread content q p =
     bindE (attemptE (plan_store (c_user ctx) thread (c_task ctx) content q (plan_to_steps_jsonb p)))
       (\<lambda>r. case r of Inl _ \<Rightarrow> ret p | Inr i \<Rightarrow> ret (p\<lparr>pl_id := Some i\<rparr>))"

definition make_plan ::
  "planner_deps \<Rightarrow> tool_ctx \<Rightarrow> uuid option \<Rightarrow> pystr \<Rightarrow> pystr \<Rightarrow> pystr option \<Rightarrow> replan_context option
     \<Rightarrow> bool \<Rightarrow> (plan \<times> plan_context) act" where
  "make_plan d ctx thread content complexity revision replan human_available =
     thenE ensure_planner_prompt
    (bindE (pn_embed d content) (\<lambda>em.
     thenE (meter_embedding ctx ''planner'' em)
    (bindE (retrieve d ctx thread (em_vector em)) (\<lambda>(past, x).
     bindE (pn_build d (c_user ctx) (planner_role_text d human_available revision replan x)) (\<lambda>system.
     bindE (getsE (prompt_version_id ''planner'')) (\<lambda>version.
     let model = pick_model (pn_settings d) complexity in
     bindE (model_call (pn_settings d) (pn_llm d)
        \<lparr> ca_user = c_user ctx, ca_agent = ''planner'', ca_model = model,
          ca_messages = map message_json past @ [user_message content],
          ca_system = Some system, ca_max_tokens = None, ca_prompt_version = version,
          ca_task = c_task ctx, ca_extra = forced_tool generate_plan_tool ''generate_plan'' \<rparr>) (\<lambda>res.
     bindE (liftE (parse_plan_from_response (pn_registry d) content model (mr_raw res))) (\<lambda>p.
     bindE (persist_plan ctx thread content (em_vector em) p) (\<lambda>q. ret (q, x))))))))))"

subsection \<open>What planning keeps\<close>

text \<open>
  The agents keep an \<open>agent_order\<close> as soon as the model, the prompt builder and the embedder do
  (\<open>agents_keep\<close>).
\<close>

definition agents_keep :: "(world \<Rightarrow> world \<Rightarrow> bool) \<Rightarrow> planner_deps \<Rightarrow> bool" where
  "agents_keep R d \<longleftrightarrow> (\<forall>q. keeps R (pn_llm d q)) \<and> (\<forall>u r. keeps R (pn_build d u r)) \<and>
     (\<forall>s. keeps R (pn_embed d s))"

lemma agents_keepD:
  "agents_keep R d \<Longrightarrow> keeps R (pn_llm d q)" "agents_keep R d \<Longrightarrow> keeps R (pn_build d u r)"
  "agents_keep R d \<Longrightarrow> keeps R (pn_embed d s)"
  by (simp_all add: agents_keep_def)

context agent_order
begin

lemma connected_keeps: "keeps R (connected_among ps u)"
proof (induction ps)
  case Nil
  show ?case unfolding connected_among.simps by (rule ret)
next
  case (Cons p ps)
  then show ?case
    unfolding connected_among.simps has_link_def by (intro bind attempt read ret)
qed

lemma meter_embedding_keeps: "keeps R (meter_embedding ctx ag r)"
  unfolding meter_embedding_def by (intro when_ effort bind gets usage)

lemma retrieve_keeps: "keeps R (retrieve d ctx thread q)"
  unfolding retrieve_def Let_def search_user_messages_def search_similar_def
    search_skills_by_task_def list_approved_for_user_def fetch_recent_def fetch_summaries_def
    resolve_connected_integrations_def
  by (intro bind opt pair ret read connected_keeps)

lemma persist_plan_keeps:
  assumes "\<And>u th tid c em st. keeps R (plan_store u th tid c em st)"
  shows "keeps R (persist_plan ctx thread content q p)"
  unfolding persist_plan_def by (intro bind attempt assms sum ret)

lemma make_plan_keeps:
  assumes d: "agents_keep R d" and store: "\<And>u th tid c em st. keeps R (plan_store u th tid c em st)"
  shows "keeps R (make_plan d ctx thread content hint rv rp human)"
  unfolding make_plan_def Let_def ensure_planner_prompt_def
  by (intro andThen bind pair prompt meter_embedding_keeps retrieve_keeps gets lift ret
      persist_plan_keeps store call agents_keepD[OF d])

end

lemma make_plan_sound:
  "agents_keep sound d \<Longrightarrow> keeps sound (make_plan d ctx thread content hint rv rp human)"
  by (rule sound.make_plan_keeps) (simp_all add: plan_store_sound)

text \<open>Planning is silent: it writes no chat message, sends nothing and enqueues nothing.\<close>

lemma make_plan_silent:
  "agents_keep silent d \<Longrightarrow> keeps silent (make_plan d ctx thread content hint rv rp human)"
proof (rule silent.make_plan_keeps)
  show "keeps silent (plan_store u th tid c em st)" for u th tid c em st
    unfolding plan_store_def by (rule silent.stmt) (rule silent_fun; simp)
qed

subsection \<open>Which plans become tasks\<close>

definition task_bound :: "registry \<Rightarrow> step \<Rightarrow> bool" where
  "task_bound r st \<longleftrightarrow> st_kind st = Tool_Creator \<or>
     (\<exists>name. st_tool st = JStr name \<and> name \<noteq> [] \<and> needs_task r name)"

lemma tool_key_name: "tool_key j = Inr (Some n) \<longleftrightarrow> j = JStr n"
  by (cases j) auto

lemma requires_task_context_iff:
  "requires_task_context r sts = Inr b \<Longrightarrow> b \<longleftrightarrow> (\<exists>st\<in>set sts. task_bound r st)"
proof (induction sts)
  case (Cons st sts)
  have key: "tool_key (st_tool st) = Inr k \<Longrightarrow> st_kind st \<noteq> Tool_Creator \<Longrightarrow>
      task_bound r st \<longleftrightarrow> (\<exists>n. k = Some n \<and> n \<noteq> [] \<and> needs_task r n)" for k
    using tool_key_name[of "st_tool st"] by (cases k) (auto simp: task_bound_def)
  show ?case
  proof (cases "st_kind st = Tool_Creator")
    case True
    with Cons.prems show ?thesis by (auto simp: task_bound_def)
  next
    case False
    show ?thesis
    proof (cases "truthy (st_tool st)")
      case falsy: False
      then have "\<not> task_bound r st" using False by (auto simp: task_bound_def)
      with Cons False falsy show ?thesis by simp
    next
      case True
      show ?thesis
      proof (cases "tool_key (st_tool st)")
        case (Inl e)
        with Cons.prems False True show ?thesis by simp
      next
        case (Inr k)
        note bound = key[OF Inr False]
        show ?thesis
        proof (cases "\<exists>n. k = Some n \<and> needs_task r n")
          case found: True
          then obtain n where n: "k = Some n" "needs_task r n" by blast
          then have "n \<noteq> []" using True Inr tool_key_name[of "st_tool st" n] by auto
          then show ?thesis using Cons.prems False True Inr n bound by simp
        next
          case none: False
          then have "requires_task_context r sts = Inr b"
            using Cons.prems False True Inr by (auto split: option.splits)
          then show ?thesis using Cons.IH bound none by auto
        qed
      qed
    qed
  qed
qed simp

lemma requires_task_contextD:
  "requires_task_context r sts = Inr b \<Longrightarrow> st \<in> set sts \<Longrightarrow> task_bound r st \<Longrightarrow> b"
  using requires_task_context_iff by blast

lemma parsed_is_task:
  assumes "parse_plan_from_response r query model raw = Inr p"
    and "st \<in> set (pl_steps p)" and "task_bound r st"
  shows "pl_is_task p"
proof (cases "find_tool_use ''generate_plan'' (a_content raw)")
  case None
  with assms show ?thesis by (auto simp: parse_plan_from_response_def fallback_plan_def task_bound_def)
next
  case (Some payload)
  with assms show ?thesis
    by (auto simp: parse_plan_from_response_def plan_of_payload_def Let_def
        dest: requires_task_contextD split: sum.splits if_splits)
qed

text \<open>A plan that contains a step which can only run inside a task is a task, whatever the
  model said: every \<open>tool_creator\<close> step and every step whose builtin tool declares that it needs
  one. In particular \<open>ask_user\<close> is never reached without a task by way of the planner.\<close>

theorem task_bound_plans_are_tasks:
  assumes "parse_plan_from_response r query model raw = Inr p"
    and "\<not> pl_is_task p" and "st \<in> set (pl_steps p)"
  shows "st_kind st \<noteq> Tool_Creator \<and> (st_tool st = JStr name \<longrightarrow> name \<noteq> [] \<longrightarrow> \<not> needs_task r name)"
  using parsed_is_task[OF assms(1,3)] assms(2) by (auto simp: task_bound_def)

text \<open>A plan whose only step delegates to a sub-agent is not made a task, though a sub-agent
  step can only run inside one: run inline, as the router does with such a plan, the step fails
  without any sub-agent being asked.\<close>

theorem subagent_plan_stays_inline:
  assumes "c_task ctx = None"
  shows "\<exists>p. plan_of_payload r query model
        [(''steps'', JArr [JObj (step_to_dict \<lparr> st_id = i, st_kind = Subagent, st_description = ds,
            st_tool = JNull, st_inputs = ins, st_group = g \<rparr>)])] = Inr p \<and>
      \<not> pl_is_task p \<and>
      (\<forall>st\<in>set (pl_steps p). \<exists>e. dispatch_step d ctx p prior emit st w = (Inl e, w))"
proof -
  let ?st = "\<lparr> st_id = i, st_kind = Subagent, st_description = ds, st_tool = JNull,
    st_inputs = ins, st_group = g \<rparr>"
  have "steps_of_json (JArr [JObj (step_to_dict ?st)]) = Inr [?st]"
    using step_read_back[of ?st] by simp
  then show ?thesis
    by (simp add: plan_of_payload_def get_or_def get_default_def assms dispatch_step_def
        run_subagent_def Let_def del: step_from_dict.simps)
qed

subsection \<open>A stored draft is a past plan\<close>

definition searchable :: "uuid \<Rightarrow> int option \<Rightarrow> stored_plan \<Rightarrow> bool" where
  "searchable user min_score p \<longleftrightarrow> p_user_id p = user \<and>
     (case (min_score, p_score p) of (Some m, Some s) \<Rightarrow> m \<le> s | _ \<Rightarrow> True)"

lemma search_similar_run:
  "script w = [] \<Longrightarrow> search_similar dist user q k ms w =
     (Inr (nearest dist q k p_embedding (filter (searchable user ms) (plans w))), w)"
  by (simp add: search_similar_def searchable_def[abs_def])

lemma sort_key_snoc_least:
  "(\<And>y. y \<in> set ys \<Longrightarrow> f x < f y) \<Longrightarrow> sort_key f (ys @ [x]) = x # sort_key f ys"
proof (induction ys)
  case (Cons y ys)
  then have "f x < f y" "sort_key f (ys @ [x]) = x # sort_key f ys" by simp_all
  then show ?case by (auto dest: leD)
qed simp

lemma nearest_snoc_least:
  assumes "vec r = Some v" and "0 < k"
    and "\<And>s u. s \<in> set rows \<Longrightarrow> vec s = Some u \<Longrightarrow> dist q v < dist q u"
  shows "\<exists>rest. nearest dist q k vec (rows @ [r]) = (r, dist q v) # rest"
proof -
  let ?f = "\<lambda>r. map_option (\<lambda>v. (r, dist q v)) (vec r)"
  have "List.map_filter ?f (rows @ [r]) = List.map_filter ?f rows @ [(r, dist q v)]"
    using assms(1) by (simp add: List.map_filter_def)
  moreover have "snd (r, dist q v) < snd y" if "y \<in> set (List.map_filter ?f rows)" for y
    using that assms(3) by (auto simp: List.map_filter_def)
  ultimately have "nearest dist q k vec (rows @ [r]) =
      take k ((r, dist q v) # sort_key snd (List.map_filter ?f rows))"
    unfolding nearest_def by (simp only: sort_key_snoc_least)
  then show ?thesis using assms(2) by (cases k) auto
qed

text \<open>The draft of a plan is stored before the pre-evaluator has seen it, without a score, and
  the search for past plans lets plans without a score through. So when the draft is rejected,
  or fails, the planner's next attempt at the same request is shown the rejected draft as its
  most similar past plan, unless another plan is as close to the request.\<close>

theorem rejected_draft_is_past_plan:
  assumes "script w = []" and "persist_plan ctx thread content (Some v) p w = (Inr p', w1)"
    and "pl_id p' = Some i" and "pl_id p = None"
    and "\<forall>r\<in>set (plans w). \<forall>u. p_embedding r = Some u \<longrightarrow> p_user_id r = c_user ctx \<longrightarrow>
      dist v v < dist v u"
  shows "\<exists>row rest. search_similar dist (c_user ctx) v 3 (Some m) w1 =
      (Inr ((row, dist v v) # rest), w1) \<and> p_id row = i \<and> p_score row = None"
proof -
  let ?row = "\<lparr> p_id = Uuid (next_id w), p_user_id = c_user ctx, p_thread_id = thread,
    p_task_id = c_task ctx, p_query = content, p_steps = plan_to_steps_jsonb p,
    p_final_answer = None, p_success = None, p_score = None, p_error = None,
    p_embedding = Some v, p_created_at = now w \<rparr>"
  have w1: "w1 = w\<lparr>next_id := Suc (next_id w), plans := plans w @ [?row]\<rparr>" and i: "i = Uuid (next_id w)"
    using assms(1-4)
    by (auto simp: persist_plan_def plan_store_def bindE_def attemptE_def split: if_splits)
  have "filter (searchable (c_user ctx) (Some m)) (plans w1) =
      filter (searchable (c_user ctx) (Some m)) (plans w) @ [?row]"
    by (simp add: w1 searchable_def)
  moreover obtain rest where "nearest dist v 3 p_embedding
      (filter (searchable (c_user ctx) (Some m)) (plans w) @ [?row]) = (?row, dist v v) # rest"
    using nearest_snoc_least[of p_embedding ?row v 3
        "filter (searchable (c_user ctx) (Some m)) (plans w)" dist v] assms(5)
    by (auto simp: searchable_def)
  ultimately show ?thesis
    using assms(1) by (auto simp: search_similar_run w1 i)
qed

subsection \<open>Witnesses\<close>

definition sample_planner :: "api_response \<Rightarrow> planner_deps" where
  "sample_planner raw = \<lparr> pn_settings = default_settings, pn_registry = [], pn_llm = canned_llm raw,
     pn_build = (\<lambda>_ _. ret []), pn_embed = (\<lambda>_. ret \<lparr> em_vector = None, em_tokens = 0, em_model = [] \<rparr>),
     pn_dist = (\<lambda>_ _. 0), pn_bonus = (\<lambda>_. 0), pn_max_distance = 0,
     pn_show_similarity = (\<lambda>_. []), pn_show_time = (\<lambda>_. []) \<rparr>"

context clock_order
begin

lemma sample_planner_keeps:
  "keeps R (pn_llm (sample_planner raw) q)" "keeps R (pn_build (sample_planner raw) u rl)"
  "keeps R (pn_embed (sample_planner raw) s)"
proof -
  show "keeps R (pn_llm (sample_planner raw) q)"
    using stmt[OF ret] by (simp add: sample_planner_def canned_llm_def keeps_def)
  show "keeps R (pn_build (sample_planner raw) u rl)" "keeps R (pn_embed (sample_planner raw) s)"
    by (simp_all add: sample_planner_def keeps_def refl)
qed

end

definition sample_ctx0 :: tool_ctx where
  "sample_ctx0 = \<lparr> c_user = Uuid 5, c_task = None, c_trace = None, c_channel = None, c_emit = False \<rparr>"

definition needy :: registry where
  "needy = [(''ask_user'', (sample_tool ''ask_user'')\<lparr>tl_needs_task := True\<rparr>)]"

lemma task_bound_plans_are_tasks_witness:
  "\<not> needs_task needy ''send_mail''"
proof -
  let ?st = "\<lparr> st_id = ''s1'', st_kind = Functional, st_description = [],
    st_tool = JStr ''send_mail'', st_inputs = [], st_group = JNull \<rparr>"
  let ?raw = "\<lparr> a_content = [ToolUse ''t'' ''generate_plan''
      [(''steps'', JArr [JObj (step_to_dict ?st)])]], a_stop_reason = None, a_usage = None \<rparr>"
  have st: "steps_of_json (JArr [JObj (step_to_dict ?st)]) = Inr [?st]"
    using step_read_back[of ?st] by (simp del: step_from_dict.simps)
  have "\<exists>p. parse_plan_from_response needy ''q'' ''m'' ?raw = Inr p \<and> \<not> pl_is_task p \<and>
      pl_steps p = [?st]"
    using st by (simp add: parse_plan_from_response_def plan_of_payload_def get_or_def
        get_default_def Let_def needs_task_def needy_def try_get_def sample_tool_def
        del: steps_of_json.simps)
  then obtain p where p: "parse_plan_from_response needy ''q'' ''m'' ?raw = Inr p"
    "\<not> pl_is_task p" "?st \<in> set (pl_steps p)" by auto
  from task_bound_plans_are_tasks[OF p, of "''send_mail''"] show ?thesis by simp
qed

lemma subagent_plan_stays_inline_witness:
  "\<exists>p. plan_of_payload needy ''q'' ''m''
        [(''steps'', JArr [JObj (step_to_dict \<lparr> st_id = ''s'', st_kind = Subagent, st_description = [],
            st_tool = JNull, st_inputs = [], st_group = JNull \<rparr>)])] = Inr p \<and> \<not> pl_is_task p"
proof -
  let ?ctx = "\<lparr> c_user = Uuid 5, c_task = None, c_trace = None, c_channel = None, c_emit = False \<rparr>"
  obtain p where "plan_of_payload needy ''q'' ''m''
        [(''steps'', JArr [JObj (step_to_dict \<lparr> st_id = ''s'', st_kind = Subagent, st_description = [],
            st_tool = JNull, st_inputs = [], st_group = JNull \<rparr>)])] = Inr p" "\<not> pl_is_task p"
    using subagent_plan_stays_inline[of ?ctx] by (metis tool_ctx.select_convs(2))
  then show ?thesis by blast
qed

lemma rejected_draft_is_past_plan_witness:
  "\<exists>w1 row rest. search_similar (\<lambda>_ _. 0) (Uuid 5) [1] 3 (Some 50) w1 =
     (Inr ((row, 0) # rest), w1) \<and> p_id row = Uuid 1 \<and> p_score row = None"
proof -
  let ?ctx = "\<lparr> c_user = Uuid 5, c_task = None, c_trace = None, c_channel = None, c_emit = False \<rparr>"
  let ?p = "fallback_plan ''q'' ''m''"
  have "\<exists>p' w1. persist_plan ?ctx None ''q'' (Some [1]) ?p empty_world = (Inr p', w1) \<and>
      pl_id p' = Some (Uuid 1)"
    by (simp add: persist_plan_def plan_store_def bindE_def attemptE_def empty_world_def)
  then obtain p' w1 where
    "persist_plan ?ctx None ''q'' (Some [1]) ?p empty_world = (Inr p', w1)" "pl_id p' = Some (Uuid 1)"
    by blast
  from rejected_draft_is_past_plan[where dist = "\<lambda>_ _. 0" and m = 50, OF _ this] show ?thesis
    by (auto simp: empty_world_def fallback_plan_def)
qed

end
