(* ===== verification/Pre_Eval.thy ===== *)
theory Pre_Eval
  imports Planner Loop_Trace
begin

section \<open>The plan pre-evaluator\<close>

text \<open>
  \<open>src/wolfpaw/agents/plan_pre_evaluator.py\<close>: the mechanical check of a draft's tool inputs, the
  model's verdict on it, and \<open>plan_with_pre_evaluation\<close>, which asks the planner again, once, when
  the verdict rejects the draft. The agent uses the planner's collaborators.
\<close>

subsection \<open>The mechanical check\<close>

definition repr_id :: "step \<Rightarrow> pystr" where
  "repr_id st = py_repr (st_id st)"

definition no_intent_diagnosis :: "step \<Rightarrow> pystr" where
  "no_intent_diagnosis st =
     ''Step '' @ repr_id st @ '' is a `tool_creator` step but is'' @
     '' missing required `inputs.intent`. Add a'' @
     '' one-paragraph description of what the new tool'' @
     '' should do; the Tool Creator agent will turn'' @
     '' that into a concrete spec.''"

definition no_tool_diagnosis :: "step \<Rightarrow> pystr" where
  "no_tool_diagnosis st =
     ''Step '' @ repr_id st @ '' is a `functional` step with no `tool`. '' @
     ''If you need an operation that NO tool in the catalog'' @
     '' covers, change this step's `kind` to `'' @ [dquote] @ ''tool_creator'' @ [dquote] @ ''`'' @
     '' and set `inputs: {'' @ [dquote] @ ''intent'' @ [dquote] @ '': '' @ [dquote] @ ''...'' @
     [dquote] @ ''}` '' @ [em_dash] @ '' DO NOT'' @
     '' leave `tool` blank or invent a tool name. Otherwise,'' @
     '' pick the matching tool from the catalog and populate'' @
     '' its required `inputs`.''"

definition missing_input_diagnosis :: "step \<Rightarrow> pystr \<Rightarrow> pystr \<Rightarrow> pystr" where
  "missing_input_diagnosis st name field =
     ''Step '' @ repr_id st @ '' calls `'' @ name @ ''` but is missing'' @
     '' required input `'' @ field @ ''`. Read the value out'' @
     '' of the user's request and add it to `inputs`'' @
     '' (e.g. `inputs: {'' @ [dquote] @ field @ [dquote] @ '': ...}`).''"

definition input_given :: "dict \<Rightarrow> pystr \<Rightarrow> bool" where
  "input_given inputs field =
     (case dict_get inputs field of
        None \<Rightarrow> False
      | Some JNull \<Rightarrow> False
      | Some (JStr s) \<Rightarrow> strip s \<noteq> []
      | Some _ \<Rightarrow> True)"

definition required_fields :: "tool \<Rightarrow> pystr list" where
  "required_fields t = strings_in (get_or (tl_schema t) ''required'' (JArr []))"

definition step_diagnosis :: "registry \<Rightarrow> step \<Rightarrow> exn + pystr option" where
  "step_diagnosis r st =
     (if st_kind st = Tool_Creator
      then Inr (if nonblank_str (dict_get (st_inputs st) ''intent'') then None
                else Some (no_intent_diagnosis st))
      else if st_kind st \<noteq> Functional then Inr None
      else if \<not> truthy (st_tool st) then Inr (Some (no_tool_diagnosis st))
      else (case tool_key (st_tool st) of
        Inl e \<Rightarrow> Inl e
      | Inr None \<Rightarrow> Inr None
      | Inr (Some name) \<Rightarrow>
          (case reg_get r name of
             Inl _ \<Rightarrow> Inr None
           | Inr t \<Rightarrow> Inr (map_option (missing_input_diagnosis st name)
               (List.find (\<lambda>f. \<not> input_given (st_inputs st) f) (required_fields t))))))"

fun validate_functional_step_inputs :: "registry \<Rightarrow> step list \<Rightarrow> exn + pystr option" where
  "validate_functional_step_inputs r [] = Inr None"
| "validate_functional_step_inputs r (st # sts) =
     (case step_diagnosis r st of
        Inl e \<Rightarrow> Inl e
      | Inr (Some diagnosis) \<Rightarrow> Inr (Some diagnosis)
      | Inr None \<Rightarrow> validate_functional_step_inputs r sts)"

subsection \<open>The prompt\<close>

definition HIGH_SCORE_THRESHOLD :: int where "HIGH_SCORE_THRESHOLD = 80"

definition eval_context :: "bool \<Rightarrow> pystr" where
  "eval_context human_available =
     (if human_available
      then ''# Execution context (authoritative)'' @ [newline] @
        ''This run is INTERACTIVE '' @ [em_dash] @ '' a human is present and will answer'' @
        '' `ask_user` prompts. A plan that uses `ask_user` to gather'' @
        '' missing input (a URL, a choice, a confirmation) is CORRECT,'' @
        '' not a defect. Do NOT penalize `ask_user`, and ignore any past'' @
        '' plan below that assumes no human is available.''
      else ''# Execution context (authoritative)'' @ [newline] @
        ''This run is HEADLESS (scheduled/background) '' @ [em_dash] @ '' no human can'' @
        '' answer. A plan that pauses on `ask_user` cannot complete here.'')"

definition eval_step_lines :: "step \<Rightarrow> pystr list" where
  "eval_step_lines st =
     (''- '' @ st_id st @ '' ['' @ kind_text (st_kind st) @ '']'' @
        (if truthy (st_tool st) then '' '' @ [em_dash] @ '' `'' @ json_str (st_tool st) @ ''`'' else []) @
        '': '' @ st_description st @
        (if st_group st \<noteq> JNull then '' (parallel group '' @ json_str (st_group st) @ '')'' else [])) #
     (if st_inputs st \<noteq> [] then [''  inputs: '' @ dumps (JObj (st_inputs st))] else [])"

definition high_scored :: "(stored_plan \<times> int) list \<Rightarrow> (stored_plan \<times> int) list" where
  "high_scored past = filter (\<lambda>(p, _). case p_score p of
     None \<Rightarrow> False | Some s \<Rightarrow> HIGH_SCORE_THRESHOLD \<le> s) past"

definition eval_past_line :: "planner_deps \<Rightarrow> stored_plan \<times> int \<Rightarrow> pystr" where
  "eval_past_line d hit = (case hit of (p, x) \<Rightarrow> lines_of
     [''- past plan '' @ uuid_text (p_id p) @ '': '' @ score_part (p_score p) @ '', similarity='' @
        pn_show_similarity d x,
      ''  query: '' @ p_query p, ''  steps: '' @ dumps (JArr (p_steps p))])"

definition build_eval_prompt ::
  "planner_deps \<Rightarrow> pystr \<Rightarrow> plan \<Rightarrow> (stored_plan \<times> int) list \<Rightarrow> bool \<Rightarrow> pystr" where
  "build_eval_prompt d content p past human_available =
     (let relevant = high_scored past in lines_of
       ([eval_context human_available, [], ''# User request'', content, [],
         ''# Plan to evaluate'', ''Summary: '' @ pl_summary p,
         ''is_task: '' @ json_repr (JBool (pl_is_task p)), ''model_used: '' @ pl_model p, [],
         ''## Steps''] @
        concat (map eval_step_lines (pl_steps p)) @ [[]] @
        (if relevant \<noteq> []
         then (''# Past plans for context (score '' @ [geq_sign] @ '' 80)'') #
              map (eval_past_line d) relevant
         else [lines_of [''# Past plans for context'',
                 ''(none with score '' @ [geq_sign] @ '' 80 '' @ [em_dash] @
                 '' pass `better_than_past_plans=True`)'']]) @
        [[], ''Call `evaluate_plan` now.'']))"

subsection \<open>The verdict\<close>

definition approve_by_default :: "pystr \<Rightarrow> pre_verdict" where
  "approve_by_default reason = \<lparr> ev_approved = True, ev_achieves = True, ev_simplifiable = False,
     ev_better = True, ev_diagnosis = reason \<rparr>"

definition structural_rejection :: "pystr \<Rightarrow> pre_verdict" where
  "structural_rejection diagnosis = \<lparr> ev_approved = False, ev_achieves = False,
     ev_simplifiable = False, ev_better = True, ev_diagnosis = diagnosis \<rparr>"

definition verdict_of_payload :: "dict \<Rightarrow> pre_verdict" where
  "verdict_of_payload payload =
     (let achieves = truthy (get_default payload ''achieves_objective'' (JBool True));
          simplifiable = truthy (get_default payload ''simplifiable'' (JBool False));
          better = truthy (get_default payload ''better_than_past_plans'' (JBool True))
      in \<lparr> ev_approved = (achieves \<and> \<not> simplifiable \<and> better), ev_achieves = achieves,
           ev_simplifiable = simplifiable, ev_better = better,
           ev_diagnosis = json_str (get_default payload ''diagnosis'' (JStr [])) \<rparr>)"

definition verdict_of_response :: "api_response \<Rightarrow> pre_verdict" where
  "verdict_of_response raw =
     (case find_tool_use ''evaluate_plan'' (a_content raw) of
        Some payload \<Rightarrow> verdict_of_payload payload
      | None \<Rightarrow> approve_by_default ''(pre-evaluator returned no tool_use)'')"

definition ensure_pre_evaluator_prompt :: "unit act" where
  "ensure_pre_evaluator_prompt = ensure_prompt_version ''pre_evaluator'' ''v1''
     [(''agent_role'', JStr pre_evaluator_role), (''tool'', evaluate_plan_tool)]"

definition ask_pre_evaluator ::
  "planner_deps \<Rightarrow> tool_ctx \<Rightarrow> pystr \<Rightarrow> plan \<Rightarrow> (stored_plan \<times> int) list \<Rightarrow> bool \<Rightarrow> model_result act" where
  "ask_pre_evaluator d ctx content p past human_available =
     bindE (pn_build d (c_user ctx) pre_evaluator_role) (\<lambda>system.
     bindE (getsE (prompt_version_id ''pre_evaluator'')) (\<lambda>version.
     model_call (pn_settings d) (pn_llm d)
       \<lparr> ca_user = c_user ctx, ca_agent = ''pre_evaluator'',
         ca_model = model_post_evaluator (pn_settings d),
         ca_messages = [user_message (build_eval_prompt d content p past human_available)],
         ca_system = Some system, ca_max_tokens = None, ca_prompt_version = version,
         ca_task = c_task ctx, ca_extra = forced_tool evaluate_plan_tool ''evaluate_plan'' \<rparr>))"

definition pre_evaluate ::
  "planner_deps \<Rightarrow> tool_ctx \<Rightarrow> pystr \<Rightarrow> plan \<Rightarrow> (stored_plan \<times> int) list \<Rightarrow> bool \<Rightarrow> pre_verdict act" where
  "pre_evaluate d ctx content p past human_available =
     thenE ensure_pre_evaluator_prompt
    (bindE (liftE (validate_functional_step_inputs (pn_registry d) (pl_steps p))) (\<lambda>structural.
     case structural of
       Some diagnosis \<Rightarrow> ret (structural_rejection diagnosis)
     | None \<Rightarrow>
         bindE (attemptE (ask_pre_evaluator d ctx content p past human_available)) (\<lambda>r.
         case r of
           Inl _ \<Rightarrow> ret (approve_by_default ''(pre-evaluator model call failed)'')
         | Inr res \<Rightarrow> ret (verdict_of_response (mr_raw res)))))"

subsection \<open>Planning with one revision\<close>

definition failed_checks :: "pre_verdict \<Rightarrow> pystr list" where
  "failed_checks v =
     (if ev_achieves v then [] else [''doesn't-achieve-objective'']) @
     (if ev_simplifiable v then [''simplifiable''] else []) @
     (if ev_better v then [] else [''worse-than-past-plan''])"

definition summarize_verdict :: "pre_verdict \<Rightarrow> nat \<Rightarrow> pystr" where
  "summarize_verdict v attempt =
     (if ev_approved v then ''approved (attempt '' @ show_nat attempt @ ''): '' @ ev_diagnosis v
      else ''rejected (attempt '' @ show_nat attempt @ ''): '' @
        (if failed_checks v = [] then ''?'' else join '','' (failed_checks v)) @
        '' '' @ [em_dash] @ '' '' @ ev_diagnosis v)"

definition plan_with_pre_evaluation ::
  "planner_deps \<Rightarrow> tool_ctx \<Rightarrow> uuid option \<Rightarrow> pystr \<Rightarrow> pystr \<Rightarrow> bool \<Rightarrow> bool
     \<Rightarrow> (plan \<times> pre_verdict \<times> bool) act" where
  "plan_with_pre_evaluation d ctx thread content complexity emit human_available =
     bindE (make_plan d ctx thread content complexity None None human_available) (\<lambda>(p, x).
     bindE (pre_evaluate d ctx content p (px_past_plans x) human_available) (\<lambda>v.
     thenE (maybe_emit emit ''pre_eval'' (summarize_verdict v 1))
    (if ev_approved v then ret (p, v, False)
     else bindE (make_plan d ctx thread content complexity (Some (ev_diagnosis v)) None
                   human_available) (\<lambda>(p2, _).
          thenE (maybe_emit emit ''pre_eval''
                   ''retry (attempt 2): shipping Planner's revised draft unchecked'')
            (ret (p2, v, True))))))"

subsection \<open>What pre-evaluation keeps\<close>

context agent_order
begin

lemma pre_evaluate_keeps:
  assumes d: "agents_keep R d" shows "keeps R (pre_evaluate d ctx content p past human)"
  unfolding pre_evaluate_def ensure_pre_evaluator_prompt_def ask_pre_evaluator_def
  by (intro andThen bind opt attempt sum lift ret gets prompt call agents_keepD[OF d])

lemma plan_with_pre_evaluation_keeps:
  assumes d: "agents_keep R d" and store: "\<And>u th tid c em st. keeps R (plan_store u th tid c em st)"
  shows "keeps R (plan_with_pre_evaluation d ctx thread content hint em human)"
  unfolding plan_with_pre_evaluation_def
  by (intro bind pair andThen emit if_ ret make_plan_keeps pre_evaluate_keeps d store)

end

lemma plan_with_pre_evaluation_sound:
  "agents_keep sound d \<Longrightarrow> keeps sound (plan_with_pre_evaluation d ctx thread content hint em human)"
  by (rule sound.plan_with_pre_evaluation_keeps) (simp_all add: plan_store_sound)

subsection \<open>At most two drafts\<close>

abbreviation adds :: "nat \<Rightarrow> world \<Rightarrow> world \<Rightarrow> bool" where
  "adds \<equiv> extends plans"

interpretation adds: ledger_frame "adds 0"
  by unfold_locales (auto simp: extends_0 env_apply_frame ledger_step_def)

lemma plan_store_adds: "keeps (adds 1) (plan_store u th tid c em st)"
proof (rule keepsI)
  fix w r w' assume "plan_store u th tid c em st w = (r, w')"
  then show "adds 1 w w'"
    unfolding plan_store_def
    by (cases rule: stmt_cases) (auto simp: extends_def near_frame split: if_splits)
qed

lemma make_plan_adds:
  assumes d: "agents_keep (adds 0) d"
  shows "keeps (adds 1) (make_plan d ctx thread content hint rv rp human)"
proof -
  have persist: "keeps (adds 1) (persist_plan ctx thread content q p)" for q p
    unfolding persist_plan_def
  proof (rule extends_last)
    show "keeps (adds 1) (attemptE (plan_store (c_user ctx) thread (c_task ctx) content q (plan_to_steps_jsonb p)))"
      by (intro extends_attempt plan_store_adds)
    show "keeps (adds 0) (case x of Inl _ \<Rightarrow> ret p | Inr i \<Rightarrow> ret (p\<lparr>pl_id := Some i\<rparr>))" for x
      by (intro adds.sum adds.ret)
  qed
  have pair: "(\<And>a b. keeps (adds 1) (f a b)) \<Longrightarrow> keeps (adds 1) (case x of (a, b) \<Rightarrow> f a b)"
    for f :: "message list \<Rightarrow> plan_context \<Rightarrow> (plan \<times> plan_context) act" and x
    by (cases x) simp
  show ?thesis
    unfolding make_plan_def Let_def ensure_planner_prompt_def
    by (intro extends_then[OF adds.prompt] extends_bind[OF agents_keepD(3)[OF d]]
        extends_then[OF adds.meter_embedding_keeps] extends_bind[OF adds.retrieve_keeps] pair
        extends_bind[OF agents_keepD(2)[OF d]] extends_bind[OF adds.gets]
        extends_bind[OF adds.call[OF agents_keepD(1)[OF d]]] extends_bind[OF adds.lift]
        extends_last[OF persist] adds.ret)
qed

lemma evaluation_adds:
  assumes d: "agents_keep (adds 0) d"
  shows "keeps (adds 2) (plan_with_pre_evaluation d ctx thread content hint em human)"
proof -
  have second: "keeps (adds 1) (bindE (make_plan d ctx thread content hint rv None human)
      (\<lambda>(p2, _). thenE (maybe_emit em ev ds) (ret (p2, v, True))))" for rv ev ds and v :: pre_verdict
    by (intro extends_last make_plan_adds d adds.pair adds.andThen adds.emit adds.ret)
  have body: "keeps (adds 1) (bindE (pre_evaluate d ctx content p past human) (\<lambda>v.
      thenE (maybe_emit em ev (summarize_verdict v 1))
       (if ev_approved v then ret (p, v, False)
        else bindE (make_plan d ctx thread content hint (Some (ev_diagnosis v)) None human)
               (\<lambda>(p2, _). thenE (maybe_emit em ev ds) (ret (p2, v, True))))))" for p past ev ds
  proof (intro extends_bind[OF adds.pre_evaluate_keeps[OF d]] extends_then[OF adds.emit])
    show "keeps (adds 1) (if ev_approved v then ret (p, v, False)
        else bindE (make_plan d ctx thread content hint (Some (ev_diagnosis v)) None human)
               (\<lambda>(p2, _). thenE (maybe_emit em ev ds) (ret (p2, v, True))))" for v :: pre_verdict
      by (rule extends_if[OF extends_ret second])
  qed
  have "keeps (adds (1 + 1)) (plan_with_pre_evaluation d ctx thread content hint em human)"
    unfolding plan_with_pre_evaluation_def
  proof (rule extends_sum[OF make_plan_adds[OF d]])
    show "keeps (adds 1) (case x of (p, x) \<Rightarrow>
        bindE (pre_evaluate d ctx content p (px_past_plans x) human) (\<lambda>v.
        thenE (maybe_emit em ''pre_eval'' (summarize_verdict v 1))
         (if ev_approved v then ret (p, v, False)
          else bindE (make_plan d ctx thread content hint (Some (ev_diagnosis v)) None human)
                 (\<lambda>(p2, _). thenE (maybe_emit em ''pre_eval''
                    ''retry (attempt 2): shipping Planner's revised draft unchecked'')
                    (ret (p2, v, True))))))" for x
      by (cases x) (use body in simp)
  qed
  then show ?thesis by (simp only: one_add_one)
qed

subsection \<open>What an approval means\<close>

lemma find_None_all: "List.find P xs = None \<longleftrightarrow> (\<forall>x\<in>set xs. \<not> P x)"
  by (auto simp: find_None_iff)

definition runnable :: "registry \<Rightarrow> step \<Rightarrow> bool" where
  "runnable r st \<longleftrightarrow>
     (st_kind st = Tool_Creator \<longrightarrow> nonblank_str (dict_get (st_inputs st) ''intent'')) \<and>
     (st_kind st = Functional \<longrightarrow> truthy (st_tool st) \<and>
        (\<forall>name t. st_tool st = JStr name \<longrightarrow> reg_get r name = Inr t \<longrightarrow>
           (\<forall>f\<in>set (required_fields t). input_given (st_inputs st) f)))"

lemma step_diagnosis_None: "step_diagnosis r st = Inr None \<Longrightarrow> runnable r st"
  by (auto simp: step_diagnosis_def runnable_def find_None_all split: if_splits sum.splits option.splits)

lemma validate_None:
  "validate_functional_step_inputs r sts = Inr None \<Longrightarrow> st \<in> set sts \<Longrightarrow> runnable r st"
  by (induction sts) (auto dest: step_diagnosis_None split: sum.splits option.splits)

lemma approved_runnable:
  assumes "pre_evaluate d ctx content p past human w = (Inr v, w')" and "ev_approved v"
    and "st \<in> set (pl_steps p)"
  shows "runnable (pn_registry d) st"
proof (rule validate_None[OF _ assms(3)])
  show "validate_functional_step_inputs (pn_registry d) (pl_steps p) = Inr None"
    using assms(1,2)
    by (auto simp: pre_evaluate_def bindE_def thenE_def structural_rejection_def
        split: prod.splits sum.splits option.splits)
qed

lemma validate_hashable:
  "(\<forall>st\<in>set sts. \<exists>k. tool_key (st_tool st) = Inr k) \<Longrightarrow>
   \<exists>x. validate_functional_step_inputs r sts = Inr x"
  by (induction sts) (auto simp: step_diagnosis_def split: sum.splits option.splits)

lemma pre_evaluate_returns:
  assumes "\<forall>st\<in>set (pl_steps p). \<exists>k. tool_key (st_tool st) = Inr k"
  shows "no_raise (pre_evaluate d ctx content p past human)"
proof -
  obtain x where x: "validate_functional_step_inputs (pn_registry d) (pl_steps p) = Inr x"
    using validate_hashable[OF assms] by blast
  have seed: "no_raise (ensure_prompt_version a l t)" for a l t
    by (simp add: no_raise_def ensure_prompt_version_def thenE_def bindE_def best_effort_def)
  show ?thesis
    unfolding pre_evaluate_def ensure_pre_evaluator_prompt_def x liftE_Inr bindE_ret
    by (cases x) (auto intro!: no_raise_rules no_raise_attempt no_raise_sum seed)
qed

subsection \<open>Properties\<close>

text \<open>Planning with pre-evaluation asks the planner for at most two plans: whatever the models
  answer and whatever fails, at most two rows are added to the plans table and the plans already
  there are not touched.\<close>

theorem at_most_two_drafts:
  assumes "\<forall>q. keeps (adds 0) (pn_llm d q)" and "\<forall>u r. keeps (adds 0) (pn_build d u r)"
    and "\<forall>s. keeps (adds 0) (pn_embed d s)"
    and "plan_with_pre_evaluation d ctx thread content hint em human w = (r, w')"
  shows "\<exists>ps. plans w' = plans w @ ps \<and> length ps \<le> 2"
proof -
  have "agents_keep (adds 0) d" using assms(1-3) by (simp add: agents_keep_def)
  from keepsD[OF evaluation_adds[OF this] assms(4)] show ?thesis by (simp add: extends_def)
qed

text \<open>C13: What the pre-evaluator approves can be run as far as it can be told from the plan: every
  functional step names a tool, every required field of a builtin tool it calls is given and
  not blank, and every \<open>tool_creator\<close> step states its intent.\<close>

theorem approved_plans_are_runnable:
  assumes "pre_evaluate d ctx content p past human w = (Inr v, w')" and "ev_approved v"
    and "st \<in> set (pl_steps p)"
  shows "(st_kind st = Tool_Creator \<longrightarrow> nonblank_str (dict_get (st_inputs st) ''intent'')) \<and>
    (st_kind st = Functional \<longrightarrow> truthy (st_tool st) \<and>
      (\<forall>name t. st_tool st = JStr name \<longrightarrow> reg_get (pn_registry d) name = Inr t \<longrightarrow>
        (\<forall>f\<in>set (required_fields t). input_given (st_inputs st) f)))"
  using approved_runnable[OF assms] by (simp add: runnable_def)

text \<open>The pre-evaluator never stands in the way: for a plan whose tools are named by hashable
  values it returns a verdict on every world, whatever the model, the prompt builder or the
  database do, and it rejects only for a reason it gives: a missing input, or the model's own
  negative answer to one of the three questions.\<close>

theorem pre_evaluator_returns_verdict:
  assumes "\<forall>st\<in>set (pl_steps p). \<exists>k. tool_key (st_tool st) = Inr k"
  shows "\<exists>v w'. pre_evaluate d ctx content p past human w = (Inr v, w') \<and>
    (\<not> ev_approved v \<longrightarrow>
       validate_functional_step_inputs (pn_registry d) (pl_steps p) = Inr (Some (ev_diagnosis v)) \<or>
       \<not> ev_achieves v \<or> ev_simplifiable v \<or> \<not> ev_better v)"
proof -
  obtain v w' where run: "pre_evaluate d ctx content p past human w = (Inr v, w')"
    using pre_evaluate_returns[OF assms] by (rule no_raiseE)
  have "ev_approved v \<or> \<not> ev_achieves v \<or> ev_simplifiable v \<or> \<not> ev_better v"
    using run
    by (auto simp: pre_evaluate_def bindE_def thenE_def structural_rejection_def
        approve_by_default_def verdict_of_response_def verdict_of_payload_def Let_def
        split: prod.splits sum.splits option.splits)
  with run show ?thesis by blast
qed

subsection \<open>Witnesses\<close>

lemma at_most_two_drafts_witness:
  "\<exists>ps. plans (snd (plan_with_pre_evaluation (sample_planner hello) sample_ctx0 None ''q'' ''m'' False
      True empty_world)) = plans empty_world @ ps \<and> length ps \<le> 2"
  using at_most_two_drafts[where d = "sample_planner hello" and w = empty_world]
    adds.sample_planner_keeps by (metis prod.collapse)

definition blank_call :: step where
  "blank_call = \<lparr> st_id = ''s'', st_kind = Functional, st_description = [], st_tool = JNull,
     st_inputs = [], st_group = JNull \<rparr>"

lemma pre_evaluator_returns_verdict_witness:
  "\<exists>v w'. pre_evaluate (sample_planner hello) sample_ctx0 ''q''
     ((fallback_plan ''q'' ''m'')\<lparr>pl_steps := [blank_call]\<rparr>) [] True empty_world = (Inr v, w')"
proof -
  have "\<forall>st\<in>set (pl_steps ((fallback_plan ''q'' ''m'')\<lparr>pl_steps := [blank_call]\<rparr>)).
      \<exists>k. tool_key (st_tool st) = Inr k"
    by (simp add: blank_call_def)
  from pre_evaluator_returns_verdict[OF this] show ?thesis by blast
qed

lemma approved_plans_are_runnable_witness:
  "\<exists>v w'. pre_evaluate (sample_planner hello) sample_ctx0 ''q''
      ((fallback_plan ''q'' ''m'')\<lparr>pl_steps := [blank_call\<lparr>st_tool := JStr ''mine''\<rparr>]\<rparr>) [] True empty_world
    = (Inr v, w') \<and> ev_approved v \<and> truthy (st_tool (blank_call\<lparr>st_tool := JStr ''mine''\<rparr>))"
proof -
  let ?p = "(fallback_plan ''q'' ''m'')\<lparr>pl_steps := [blank_call\<lparr>st_tool := JStr ''mine''\<rparr>]\<rparr>"
  have ok: "validate_functional_step_inputs [] (pl_steps ?p) = Inr None"
    by (simp add: blank_call_def step_diagnosis_def reg_get_def)
  have "no_raise (pre_evaluate (sample_planner hello) sample_ctx0 ''q'' ?p [] True)"
    by (rule pre_evaluate_returns) (simp add: blank_call_def)
  then obtain v w' where
    run: "pre_evaluate (sample_planner hello) sample_ctx0 ''q'' ?p [] True empty_world = (Inr v, w')"
    by (rule no_raiseE)
  have "ask_pre_evaluator (sample_planner hello) c q p x h u = (Inr res, u') \<Longrightarrow> mr_raw res = hello"
    for c q p x h u res u'
    by (auto simp: ask_pre_evaluator_def sample_planner_def model_call_def Let_def bindE_def
        thenE_def attemptE_def api_call_def canned_llm_def stmt_def raise_def ret_def
        split: prod.splits sum.splits list.splits option.splits if_splits)
  then have "ev_approved v"
    using run ok
    by (auto simp: pre_evaluate_def bindE_def thenE_def attemptE_def approve_by_default_def
        sample_planner_def verdict_of_response_def hello_def split: prod.splits sum.splits)
  with run approved_plans_are_runnable[OF run this, of "blank_call\<lparr>st_tool := JStr ''mine''\<rparr>"]
  show ?thesis by (auto simp: blank_call_def)
qed

end
