(* ===== verification/Triage.thy ===== *)
theory Triage
  imports Planner
begin

section \<open>The triage agent\<close>

text \<open>
  \<open>src/wolfpaw/agents/triage.py\<close>: the first model call on an inbound message, which chooses
  between the quick path and the planner and guesses the complexity. Whatever the model
  answers, the verdict is one of the two routes and one of the three complexities.
\<close>

datatype route = Quick | Plan

fun route_text :: "route \<Rightarrow> pystr" where
  "route_text Quick = ''quick''"
| "route_text Plan = ''plan''"

definition complexities :: "pystr list" where
  "complexities = [''simple'', ''moderate'', ''ambitious'']"

record triage_verdict =
  tv_route :: route
  tv_complexity :: pystr
  tv_reasoning :: json

definition triage_of_payload :: "dict \<Rightarrow> triage_verdict" where
  "triage_of_payload payload =
     \<lparr> tv_route = (if get_default payload ''route'' (JStr ''quick'') = JStr ''plan'' then Plan
                   else Quick),
       tv_complexity = (case get_default payload ''complexity'' (JStr ''simple'') of
           JStr s \<Rightarrow> if s \<in> set complexities then s else ''simple'' | _ \<Rightarrow> ''simple''),
       tv_reasoning = get_default payload ''reasoning'' (JStr []) \<rparr>"

definition triage_of_response :: "api_response \<Rightarrow> triage_verdict" where
  "triage_of_response raw =
     (case find_tool_use ''classify'' (a_content raw) of
        Some payload \<Rightarrow> triage_of_payload payload
      | None \<Rightarrow> \<lparr> tv_route = Quick, tv_complexity = ''simple'',
          tv_reasoning = JStr ''defaulted: model did not call classify'' \<rparr>)"

definition ensure_triage_prompt :: "unit act" where
  "ensure_triage_prompt = ensure_prompt_version ''triage'' ''v1''
     [(''agent_role'', JStr triage_role), (''tool'', classify_tool)]"

definition with_summaries :: "pystr \<Rightarrow> thread_summary list \<Rightarrow> pystr" where
  "with_summaries role ss =
     (let block = format_summaries_block ss
      in if block = [] then role else paragraphs [role, block])"

definition classify :: "planner_deps \<Rightarrow> tool_ctx \<Rightarrow> uuid \<Rightarrow> pystr \<Rightarrow> triage_verdict act" where
  "classify d ctx thread content =
     thenE ensure_triage_prompt
    (bindE (fetch_recent thread (recent_window_size (pn_settings d))) (\<lambda>past.
     bindE (fetch_summaries thread) (\<lambda>ss.
     bindE (pn_build d (c_user ctx) (with_summaries triage_role ss)) (\<lambda>system.
     bindE (getsE (prompt_version_id ''triage'')) (\<lambda>version.
     bindE (model_call (pn_settings d) (pn_llm d)
       \<lparr> ca_user = c_user ctx, ca_agent = ''triage'', ca_model = model_triage (pn_settings d),
         ca_messages = map message_json past @ [user_message content], ca_system = Some system,
         ca_max_tokens = None, ca_prompt_version = version, ca_task = c_task ctx,
         ca_extra = forced_tool classify_tool ''classify'' \<rparr>) (\<lambda>res.
     ret (triage_of_response (mr_raw res))))))))"

context agent_order
begin

lemma classify_keeps:
  assumes d: "agents_keep R d" shows "keeps R (classify d ctx thread content)"
  unfolding classify_def ensure_triage_prompt_def fetch_recent_def fetch_summaries_def
  by (intro andThen bind gets ret read prompt call agents_keepD[OF d])

end

lemma triage_complexity: "tv_complexity (triage_of_response raw) \<in> set complexities"
  by (auto simp: triage_of_response_def triage_of_payload_def complexities_def
      split: option.splits json.splits)

lemma classify_complexity:
  assumes "classify d ctx thread content w = (Inr v, w')"
  shows "tv_complexity v \<in> set complexities"
proof -
  obtain raw where "v = triage_of_response raw"
    using assms by (auto simp: classify_def thenE_def bindE_def split: prod.splits sum.splits)
  then show ?thesis using triage_complexity by simp
qed

end
