(* ===== verification/Post_Eval.thy ===== *)
theory Post_Eval
  imports Planner
begin

section \<open>The post-evaluator\<close>

text \<open>
  \<open>src/wolfpaw/agents/post_evaluator.py\<close>: the model scores an execution through the forced
  \<open>record_score\<close> tool. Every score a verdict carries is between 0 and 100, whatever the model
  wrote.
\<close>

definition EVAL_OUTPUT_TRUNCATE :: nat where "EVAL_OUTPUT_TRUNCATE = 1500"

definition post_step_line :: "step \<Rightarrow> pystr" where
  "post_step_line st =
     ''- '' @ st_id st @ '' ['' @ kind_text (st_kind st) @ '']'' @
     (if truthy (st_tool st) then '' '' @ [em_dash] @ '' `'' @ json_str (st_tool st) @ ''`'' else []) @
     '': '' @ st_description st @
     (if st_group st \<noteq> JNull then '' (parallel group '' @ json_str (st_group st) @ '')'' else [])"

definition post_result_line :: "step_result \<Rightarrow> pystr" where
  "post_result_line r =
     (let head = ''- '' @ r_step_id r @ '' ('' @ kind_text (r_kind r) @ ''): '' in
      if r_status r = COMPLETED
      then (let out = dumps (r_output r) in
        head @ ''COMPLETED '' @ [em_dash] @ '' '' @
          (if length out > EVAL_OUTPUT_TRUNCATE
           then take EVAL_OUTPUT_TRUNCATE out @ '' '' @ [ellipsis] @ ''(truncated)'' else out))
      else if r_status r = FAILED
      then head @ ''FAILED '' @ [em_dash] @ '' '' @ (case r_error r of None \<Rightarrow> [] | Some e \<Rightarrow> e)
      else head @ step_status_text (r_status r))"

definition build_score_prompt :: "plan \<Rightarrow> execution_plan \<Rightarrow> pystr" where
  "build_score_prompt p x = lines_of
     ([''# User request'', pl_query p, [], ''# Plan summary'', pl_summary p, [],
       ''# Steps the plan took''] @ map post_step_line (pl_steps p) @
      [[], ''# Step outcomes''] @ map post_result_line (x_results x) @
      [[], ''# Final answer Wolfpaw returned to the user'', x_final_answer x, [],
       ''# Execution succeeded: '' @ json_repr (JBool (x_success x))] @
      (case x_error x of
         None \<Rightarrow> [] | Some e \<Rightarrow> if e = [] then [] else [''# Execution error: '' @ e]) @
      [[], ''Score this on the 0-100 scale and call the `record_score` tool now.''])"

definition clamp_int :: "json \<Rightarrow> int \<Rightarrow> int \<Rightarrow> int \<Rightarrow> int" where
  "clamp_int v lo hi dflt = (case py_int v of Inl _ \<Rightarrow> dflt | Inr i \<Rightarrow> max lo (min hi i))"

definition score_of_payload :: "dict \<Rightarrow> post_verdict" where
  "score_of_payload payload = (let field = (\<lambda>k. json_str (get_default payload k (JStr []))) in
     \<lparr> pv_score = clamp_int (get_default payload ''score'' JNull) 0 100 0,
       pv_summary = field ''summary'', pv_well = field ''what_went_well'',
       pv_wrong = field ''what_went_wrong'', pv_improvements = field ''improvements'' \<rparr>)"

definition default_score :: "execution_plan \<Rightarrow> post_verdict" where
  "default_score x = \<lparr> pv_score = (if x_success x then 50 else 0),
     pv_summary = ''(post-evaluator returned no structured verdict; defaulted)'',
     pv_well = [], pv_wrong = [], pv_improvements = [] \<rparr>"

definition score_of_response :: "execution_plan \<Rightarrow> api_response \<Rightarrow> post_verdict" where
  "score_of_response x raw =
     (case find_tool_use ''record_score'' (a_content raw) of
        Some payload \<Rightarrow> score_of_payload payload
      | None \<Rightarrow> default_score x)"

definition ensure_post_evaluator_prompt :: "unit act" where
  "ensure_post_evaluator_prompt = ensure_prompt_version ''post_evaluator'' ''v1''
     [(''agent_role'', JStr post_evaluator_role), (''tool'', record_score_tool)]"

definition post_evaluate :: "planner_deps \<Rightarrow> tool_ctx \<Rightarrow> plan \<Rightarrow> execution_plan \<Rightarrow> post_verdict act" where
  "post_evaluate d ctx p x =
     thenE ensure_post_evaluator_prompt
    (bindE (pn_build d (c_user ctx) post_evaluator_role) (\<lambda>system.
     bindE (getsE (prompt_version_id ''post_evaluator'')) (\<lambda>version.
     bindE (model_call (pn_settings d) (pn_llm d)
       \<lparr> ca_user = c_user ctx, ca_agent = ''post_evaluator'',
         ca_model = model_post_evaluator (pn_settings d),
         ca_messages = [user_message (build_score_prompt p x)], ca_system = Some system,
         ca_max_tokens = None, ca_prompt_version = version, ca_task = c_task ctx,
         ca_extra = forced_tool record_score_tool ''record_score'' \<rparr>) (\<lambda>res.
     ret (score_of_response x (mr_raw res))))))"

context agent_order
begin

lemma post_evaluate_keeps:
  assumes d: "agents_keep R d" shows "keeps R (post_evaluate d ctx p x)"
  unfolding post_evaluate_def ensure_post_evaluator_prompt_def
  by (intro andThen bind gets ret prompt call agents_keepD[OF d])

end

lemma clamp_bounds: "lo \<le> hi \<Longrightarrow> lo \<le> dflt \<Longrightarrow> dflt \<le> hi \<Longrightarrow>
    lo \<le> clamp_int v lo hi dflt \<and> clamp_int v lo hi dflt \<le> hi"
  by (auto simp: clamp_int_def split: sum.splits)

lemma score_of_response_bounds:
  "0 \<le> pv_score (score_of_response x raw) \<and> pv_score (score_of_response x raw) \<le> 100"
  using clamp_bounds[of 0 100 0]
  by (auto simp: score_of_response_def score_of_payload_def default_score_def Let_def
      split: option.splits)

lemma post_evaluate_bounds:
  assumes "post_evaluate d ctx p x w = (Inr v, w')" shows "0 \<le> pv_score v \<and> pv_score v \<le> 100"
proof -
  obtain raw where "v = score_of_response x raw"
    using assms
    by (auto simp: post_evaluate_def thenE_def bindE_def split: prod.splits sum.splits)
  then show ?thesis using score_of_response_bounds by simp
qed

end
