(* ===== verification/Quick.thy ===== *)
theory Quick
  imports Triage Post_Eval Pre_Eval Execution
begin

section \<open>The quick agent\<close>

text \<open>
  \<open>src/wolfpaw/agents/quick.py\<close>: the tool loop that answers a message without a plan, and runs
  scheduled tasks. The loop calls the model at most \<open>MAX_ITERATIONS\<close> times; a tool's failure is
  reported to the model and never raised; a turn the model did not finish runs no tool.
\<close>

definition MAX_ITERATIONS :: nat where "MAX_ITERATIONS = 10"

definition ALLOWED_TOOL_NAMES :: "pystr list" where
  "ALLOWED_TOOL_NAMES = [''calculator'', ''http_get'', ''web_search'', ''sql_query'',
     ''sql_insert'', ''sql_update'', ''sql_delete'', ''create_table'', ''list_tables'',
     ''describe_table'', ''read_doc'', ''write_doc'', ''list_docs'', ''search_docs'',
     ''recall_memory'', ''send_telegram_message'', ''schedule_task'', ''list_schedules'',
     ''cancel_schedule'']"

fun allowed_specs :: "registry \<Rightarrow> pystr list \<Rightarrow> exn + json list" where
  "allowed_specs r [] = Inr []"
| "allowed_specs r (n # ns) =
     (case reg_get r n of
        Inl e \<Rightarrow> Inl e
      | Inr t \<Rightarrow> (case allowed_specs r ns of
          Inl e \<Rightarrow> Inl e | Inr js \<Rightarrow> Inr (JObj (tool_to_schema t) # js)))"

definition ensure_quick_prompt :: "unit act" where
  "ensure_quick_prompt = ensure_prompt_version ''quick'' ''v1'' [(''agent_role'', JStr quick_role)]"

subsection \<open>One tool call\<close>

definition tool_result :: "pystr \<Rightarrow> pystr \<Rightarrow> bool \<Rightarrow> json" where
  "tool_result use_id content is_error = JObj
     ([(''type'', JStr ''tool_result''), (''tool_use_id'', JStr use_id),
       (''content'', JStr content)] @ (if is_error then [(''is_error'', JBool True)] else []))"

definition quick_tool_exn :: "pystr \<Rightarrow> exn \<Rightarrow> json" where
  "quick_tool_exn use_id e = tool_result use_id
     (case e of ToolError s \<Rightarrow> s | _ \<Rightarrow> ''Unexpected tool error: '' @ exn_str e) True"

definition quick_run_tool :: "registry \<Rightarrow> tool_ctx \<Rightarrow> pystr \<Rightarrow> dict \<Rightarrow> pystr \<Rightarrow> json act" where
  "quick_run_tool r ctx name inputs use_id =
     (if name \<notin> set ALLOWED_TOOL_NAMES
      then ret (tool_result use_id
        (''Tool '' @ py_repr name @ '' is not available to this agent.'') True)
      else (case reg_get r name of
        Inl _ \<Rightarrow> ret (tool_result use_id
          (''Tool '' @ py_repr name @ '' not found in the registry.'') True)
      | Inr t \<Rightarrow>
          bindE (attemptE (invoke t ctx inputs)) (\<lambda>out. ret (case out of
            Inr d \<Rightarrow> tool_result use_id (dumps (JObj d)) False
          | Inl e \<Rightarrow> quick_tool_exn use_id e))))"

definition summarize_input :: "dict \<Rightarrow> pystr" where
  "summarize_input d = join '', ''
     (map (\<lambda>(k, v). let s = json_repr v in
             k @ ''='' @ (if length s > 30 then take 27 s @ ''...'' else s)) (take 3 d) @
      (if length d > 3 then [[ellipsis]] else []))"

fun tool_blocks :: "block list \<Rightarrow> (pystr \<times> pystr \<times> dict) list" where
  "tool_blocks [] = []"
| "tool_blocks (TextBlock s # bs) = tool_blocks bs"
| "tool_blocks (ToolUse i n d # bs) = (i, n, d) # tool_blocks bs"

fun block_json :: "block \<Rightarrow> json" where
  "block_json (TextBlock s) = JObj [(''type'', JStr ''text''), (''text'', JStr s)]"
| "block_json (ToolUse i n d) = JObj [(''type'', JStr ''tool_use''), (''id'', JStr i),
     (''name'', JStr n), (''input'', JObj d)]"

definition run_tool_blocks ::
  "registry \<Rightarrow> tool_ctx \<Rightarrow> bool \<Rightarrow> (pystr \<times> pystr \<times> dict) list \<Rightarrow> json list act" where
  "run_tool_blocks r ctx emit uses =
     mapE (\<lambda>(i, n, d).
       thenE (maybe_emit emit ''tool'' (n @ ''('' @ summarize_input d @ '')''))
             (quick_run_tool r ctx n d i)) uses"

subsection \<open>The loop\<close>

definition truncated_call :: "pystr \<Rightarrow> pystr" where
  "truncated_call name =
     ''I started to call `'' @ name @ ''` but hit my output'' @
     '' length limit before finishing, so nothing was saved.'' @
     '' This usually means the content was too large for one'' @
     '' response '' @ [em_dash] @ '' try sending it in smaller pieces, or ask'' @
     '' an operator to raise WOLFPAW_MODEL_MAX_TOKENS.''"

definition truncated_text :: "pystr \<Rightarrow> pystr" where
  "truncated_text s = s @ [newline, newline] @ ''_(response truncated '' @ [em_dash] @
     '' hit the output length limit)_''"

definition out_of_steps :: pystr where
  "out_of_steps =
     ''I ran out of steps trying to answer that. Try asking a more'' @
     '' specific question, or break the request into smaller pieces.''"

definition quick_call ::
  "planner_deps \<Rightarrow> tool_ctx \<Rightarrow> pystr \<Rightarrow> json list \<Rightarrow> json list \<Rightarrow> model_result act" where
  "quick_call d ctx system specs msgs =
     bindE (getsE (prompt_version_id ''quick'')) (\<lambda>version.
     model_call (pn_settings d) (pn_llm d)
       \<lparr> ca_user = c_user ctx, ca_agent = ''quick'', ca_model = model_quick (pn_settings d),
         ca_messages = msgs, ca_system = Some system, ca_max_tokens = None,
         ca_prompt_version = version, ca_task = c_task ctx,
         ca_extra = [(''tools'', JArr specs)] \<rparr>)"

definition assistant_turn :: "api_response \<Rightarrow> json" where
  "assistant_turn raw = JObj [(''role'', JStr ''assistant''),
     (''content'', JArr (map block_json (a_content raw)))]"

definition results_turn :: "json list \<Rightarrow> json" where
  "results_turn results = JObj [(''role'', JStr ''user''), (''content'', JArr results)]"

fun quick_iterate ::
  "nat \<Rightarrow> planner_deps \<Rightarrow> tool_ctx \<Rightarrow> bool \<Rightarrow> pystr \<Rightarrow> json list \<Rightarrow> json list \<Rightarrow> pystr act" where
  "quick_iterate 0 d ctx emit system specs msgs = ret out_of_steps"
| "quick_iterate (Suc n) d ctx emit system specs msgs =
     bindE (quick_call d ctx system specs msgs) (\<lambda>res.
     let raw = mr_raw res; uses = tool_blocks (a_content raw) in
     if a_stop_reason raw = Some ''max_tokens''
     then ret (case uses of
                 (i, name, inputs) # _ \<Rightarrow> truncated_call name
               | [] \<Rightarrow> truncated_text (mr_text res))
     else if a_stop_reason raw \<noteq> Some ''tool_use'' then ret (mr_text res)
     else bindE (run_tool_blocks (pn_registry d) ctx emit uses) (\<lambda>results.
       quick_iterate n d ctx emit system specs (msgs @ [assistant_turn raw, results_turn results])))"

definition quick_loop ::
  "planner_deps \<Rightarrow> tool_ctx \<Rightarrow> bool \<Rightarrow> json list \<Rightarrow> json list \<Rightarrow> thread_summary list \<Rightarrow> pystr act" where
  "quick_loop d ctx emit specs msgs ss =
     bindE (pn_build d (c_user ctx) (with_summaries quick_role ss)) (\<lambda>system.
       quick_iterate MAX_ITERATIONS d ctx emit system specs msgs)"

definition channel_meta :: "tool_ctx \<Rightarrow> dict" where
  "channel_meta ctx = (case c_channel ctx of
     None \<Rightarrow> [] | Some c \<Rightarrow> if c = [] then [] else [(''channel'', JStr c)])"

definition quick_specs :: "planner_deps \<Rightarrow> exn + json list" where
  "quick_specs d = allowed_specs (pn_registry d) (sort ALLOWED_TOOL_NAMES)"

definition quick_handle :: "planner_deps \<Rightarrow> tool_ctx \<Rightarrow> uuid \<Rightarrow> pystr \<Rightarrow> bool \<Rightarrow> pystr act" where
  "quick_handle d ctx thread content emit =
     thenE ensure_quick_prompt
    (bindE (fetch_recent thread (recent_window_size (pn_settings d))) (\<lambda>past.
     bindE (fetch_summaries thread) (\<lambda>ss.
     bindE (conv_append (pn_settings d) thread ''user'' content (channel_meta ctx)) (\<lambda>_.
     bindE (liftE (quick_specs d)) (\<lambda>specs.
     bindE (quick_loop d ctx emit specs (map message_json past @ [user_message content]) ss)
       (\<lambda>final.
     bindE (conv_append (pn_settings d) thread ''assistant'' final (channel_meta ctx)) (\<lambda>_.
     ret final)))))))"

definition run_headless :: "planner_deps \<Rightarrow> tool_ctx \<Rightarrow> pystr \<Rightarrow> bool \<Rightarrow> pystr act" where
  "run_headless d ctx content emit =
     thenE ensure_quick_prompt
    (bindE (liftE (quick_specs d)) (\<lambda>specs.
     quick_loop d ctx emit specs [user_message content] []))"

subsection \<open>What the quick agent keeps\<close>

context clock_order
begin

lemma quick_tool_keeps:
  assumes "\<And>n t i. reg_get r n = Inr t \<Longrightarrow> keeps R (tl_run t ctx i)"
  shows "keeps R (quick_run_tool r ctx name inputs use_id)"
proof (cases "reg_get r name")
  case (Inl e)
  then show ?thesis unfolding quick_run_tool_def Inl by (intro if_ ret sum) simp
next
  case (Inr t)
  show ?thesis
    unfolding quick_run_tool_def Inr invoke_def
    by (intro if_ ret sum bind attempt raise) (use assms Inr in auto)
qed

lemma quick_blocks_keep:
  assumes "\<And>n t i. reg_get r n = Inr t \<Longrightarrow> keeps R (tl_run t ctx i)"
  shows "keeps R (run_tool_blocks r ctx em uses)"
  unfolding run_tool_blocks_def
  by (intro map_ pair andThen emit quick_tool_keeps assms)

end

context agent_order
begin

lemma quick_iterate_keeps:
  assumes d: "agents_keep R d" and t: "\<And>n t i. reg_get (pn_registry d) n = Inr t \<Longrightarrow> keeps R (tl_run t ctx i)"
  shows "keeps R (quick_iterate n d ctx em system specs msgs)"
proof (induction n arbitrary: msgs)
  case 0
  show ?case unfolding quick_iterate.simps by (rule ret)
next
  case (Suc n)
  show ?case
    unfolding quick_iterate.simps quick_call_def Let_def
    by (intro bind gets if_ ret quick_blocks_keep t call agents_keepD[OF d] Suc)
qed

lemma quick_loop_keeps:
  assumes "agents_keep R d" and "\<And>n t i. reg_get (pn_registry d) n = Inr t \<Longrightarrow> keeps R (tl_run t ctx i)"
  shows "keeps R (quick_loop d ctx em specs msgs ss)"
  unfolding quick_loop_def
  by (intro bind quick_iterate_keeps agents_keepD assms)

lemma run_headless_keeps:
  assumes "agents_keep R d" and "\<And>n t i. reg_get (pn_registry d) n = Inr t \<Longrightarrow> keeps R (tl_run t ctx i)"
  shows "keeps R (run_headless d ctx content em)"
  unfolding run_headless_def ensure_quick_prompt_def
  by (intro andThen bind lift prompt quick_loop_keeps assms)

lemma quick_handle_keeps:
  assumes "agents_keep R d" and "\<And>n t i. reg_get (pn_registry d) n = Inr t \<Longrightarrow> keeps R (tl_run t ctx i)"
    and append: "\<And>role c m. keeps R (conv_append (pn_settings d) thread role c m)"
  shows "keeps R (quick_handle d ctx thread content em)"
  unfolding quick_handle_def ensure_quick_prompt_def fetch_recent_def fetch_summaries_def
  by (intro andThen bind lift prompt read ret append quick_loop_keeps assms)

end

subsection \<open>What a turn costs and records\<close>

interpretation usage: clock_order "extends token_usage 0"
  by unfold_locales (auto simp: extends_0 env_apply_frame)

interpretation msgs: ledger_frame "extends messages 0"
  by unfold_locales (auto simp: extends_0 env_apply_frame ledger_step_def)

lemma quick_iterate_usage:
  assumes llm: "\<And>q. outside_only (pn_llm d q)"
    and tools: "\<And>n t i. reg_get (pn_registry d) n = Inr t \<Longrightarrow> keeps (extends token_usage 0) (tl_run t ctx i)"
  shows "keeps (extends token_usage n) (quick_iterate n d ctx em system specs ms)"
proof (induction n arbitrary: ms)
  case 0
  show ?case unfolding quick_iterate.simps by (rule extends_ret)
next
  case (Suc n)
  have call: "keeps (extends token_usage 1) (quick_call d ctx system specs ms)"
    unfolding quick_call_def by (intro extends_bind[OF usage.gets] call_extends_usage llm)
  have "keeps (extends token_usage (1 + n)) (quick_iterate (Suc n) d ctx em system specs ms)"
    unfolding quick_iterate.simps Let_def
    by (intro extends_sum[OF call] extends_if extends_ret Suc
        extends_bind[OF usage.quick_blocks_keep] tools)
  then show ?case by simp
qed

lemma enqueue_messages: "keeps (extends messages 0) (enqueue cfg j)"
  unfolding enqueue_def add_job_def
  by (intro msgs.if_ msgs.stmt msgs.modify) (simp_all add: extends_0)

lemma insert_message_cases:
  assumes "insert_message th role content meta w = (res, w')"
  obtains (stored) i row where "res = Inr i" "messages w' = messages w @ [row]" "m_id row = i"
      "m_thread_id row = th" "m_role row = role" "m_content row = content" "m_metadata row = meta"
  | (failed) e where "res = Inl e" "messages w' = messages w"
proof -
  from assms show thesis
    unfolding insert_message_def
  proof (cases rule: stmt_cases)
    case (run v)
    then show thesis
      using near_frame(9)[OF run(1)] by (auto split: if_splits intro: stored failed)
  next
    case (fail e)
    then show thesis using near_frame(9)[OF fail(1)] failed by blast
  qed
qed

lemma conv_append_cases:
  assumes "conv_append cfg th role content meta w = (res, w')"
  obtains (stored) i row where "res = Inr i" "messages w' = messages w @ [row]" "m_id row = i"
      "m_thread_id row = th" "m_role row = role" "m_content row = content" "m_metadata row = meta"
  | (failed) e where "res = Inl e" "messages w' = messages w"
proof -
  have tail: "keeps (extends messages 0) (thenE (whenE b (best_effort
      (thenE (enqueue_embed_message cfg th i content) (enqueue_compact_thread cfg th)))) (ret i))" for b i
    by (simp only: enqueue_embed_message_def enqueue_compact_thread_def)
      (intro msgs.andThen msgs.when_ msgs.effort msgs.ret enqueue_messages)
  have ok: "\<exists>u. thenE (whenE b (best_effort m)) (ret i) w1 = (Inr i, u)" for b m w1 and i :: uuid
    by (cases b) (simp_all add: whenE_def thenE_def bindE_def best_effort_def)
  from assms show thesis
    unfolding conv_append_def
  proof (cases rule: bindE_cases)
    case (exn e)
    from exn(1) show thesis
      by (cases rule: insert_message_cases) (use exn failed in auto)
  next
    case (val i w1)
    have r: "res = Inr i" using ok[of _ _ i w1] val(2) by (metis Pair_inject)
    have w': "messages w' = messages w1" using keepsD[OF tail val(2)] by (simp add: extends_0)
    from val(1) show thesis
      by (cases rule: insert_message_cases) (use stored r w' in auto)
  qed
qed

definition recorded :: "uuid \<Rightarrow> pystr \<Rightarrow> pystr \<Rightarrow> dict \<Rightarrow> message \<Rightarrow> bool" where
  "recorded th role content meta m \<longleftrightarrow>
     m_thread_id m = th \<and> m_role m = role \<and> m_content m = content \<and> m_metadata m = meta"

definition turn_written ::
  "uuid \<Rightarrow> dict \<Rightarrow> pystr \<Rightarrow> message list \<Rightarrow> exn + pystr \<Rightarrow> message list \<Rightarrow> bool" where
  "turn_written th meta content ms r ms' \<longleftrightarrow>
     (case r of
        Inr final \<Rightarrow> \<exists>u a. ms' = ms @ [u, a] \<and> recorded th ''user'' content meta u \<and>
          recorded th ''assistant'' final meta a
      | Inl e \<Rightarrow> ms' = ms \<or> (\<exists>u. ms' = ms @ [u] \<and> recorded th ''user'' content meta u))"

lemma bind_frame:
  "keeps (extends messages 0) m \<Longrightarrow> bindE m f w = (r, w') \<Longrightarrow>
   (\<exists>e. r = Inl e \<and> messages w' = messages w) \<or>
   (\<exists>x v. messages v = messages w \<and> f x v = (r, w'))"
  by (erule bindE_cases) (auto dest: keepsD simp: extends_0)

lemma thenE_frame:
  "keeps (extends messages 0) m \<Longrightarrow> thenE m k w = (r, w') \<Longrightarrow>
   (\<exists>e. r = Inl e \<and> messages w' = messages w) \<or> (\<exists>v. messages v = messages w \<and> k v = (r, w'))"
  unfolding thenE_def by (drule (1) bind_frame) blast

lemma quick_answer_written:
  assumes loop: "keeps (extends messages 0) m" and u: "messages v = ms @ [u]" "recorded th ''user'' content meta u"
    and run: "bindE m (\<lambda>final. bindE (conv_append cfg th ''assistant'' final meta) (\<lambda>_. ret final)) v = (r, w')"
  shows "turn_written th meta content ms r (messages w')"
  using bind_frame[OF loop run]
proof (elim disjE exE conjE)
  fix e assume "r = Inl e" "messages w' = messages v"
  then show ?thesis using u by (auto simp: turn_written_def)
next
  fix final v2 assume v2: "messages v2 = messages v"
    and run: "bindE (conv_append cfg th ''assistant'' final meta) (\<lambda>_. ret final) v2 = (r, w')"
  from run show ?thesis
  proof (cases rule: bindE_cases)
    case (exn e)
    from exn(1) show ?thesis
      by (cases rule: conv_append_cases) (use exn v2 u in \<open>auto simp: turn_written_def\<close>)
  next
    case (val i w1)
    from val(1) show ?thesis
      by (cases rule: conv_append_cases)
        (use val(2) v2 u in \<open>auto simp: turn_written_def recorded_def\<close>)
  qed
qed

lemma quick_handle_written:
  assumes d: "agents_keep (extends messages 0) d"
    and tools: "\<And>n t i. reg_get (pn_registry d) n = Inr t \<Longrightarrow> keeps (extends messages 0) (tl_run t ctx i)"
    and run: "quick_handle d ctx th content em w = (r, w')"
  shows "turn_written th (channel_meta ctx) content (messages w) r (messages w')"
proof -
  let ?ok = "\<lambda>ms r ms'. turn_written th (channel_meta ctx) content ms r ms'"
  have fail: "r = Inl e \<Longrightarrow> ms' = ms \<Longrightarrow> ?ok ms r ms'" for e ms and ms' :: "message list"
    by (simp add: turn_written_def)
  let ?body = "\<lambda>past ss. bindE (conv_append (pn_settings d) th ''user'' content (channel_meta ctx)) (\<lambda>_.
     bindE (liftE (quick_specs d)) (\<lambda>specs.
     bindE (quick_loop d ctx em specs (map message_json past @ [user_message content]) ss)
       (\<lambda>final.
     bindE (conv_append (pn_settings d) th ''assistant'' final (channel_meta ctx)) (\<lambda>_.
     ret final))))"
  have body: "?ok (messages v) r (messages w')" if go: "?body past ss v = (r, w')" for past ss v
    using go
  proof (cases rule: bindE_cases)
    case (exn e)
    from exn(1) show ?thesis by (cases rule: conv_append_cases) (use exn fail in auto)
  next
    case (val i v1)
    from val(1) obtain u where u: "messages v1 = messages v @ [u]"
      "recorded th ''user'' content (channel_meta ctx) u"
      by (cases rule: conv_append_cases) (auto simp: recorded_def)
    from bind_frame[OF msgs.lift val(2)] show ?thesis
    proof (elim disjE exE conjE)
      fix e assume "r = Inl e" "messages w' = messages v1"
      then show ?thesis using u by (auto simp: turn_written_def)
    next
      fix specs v2
      assume v2: "messages v2 = messages v1" and rest: "bindE (quick_loop d ctx em specs
         (map message_json past @ [user_message content]) ss) (\<lambda>final.
         bindE (conv_append (pn_settings d) th ''assistant'' final (channel_meta ctx)) (\<lambda>_. ret final)) v2 = (r, w')"
      have loop: "keeps (extends messages 0) (quick_loop d ctx em specs
         (map message_json past @ [user_message content]) ss)"
        by (rule msgs.quick_loop_keeps[OF d tools])
      from v2 u have "messages v2 = messages v @ [u]" by simp
      from quick_answer_written[OF loop this u(2) rest] show ?thesis .
    qed
  qed
  have seed: "keeps (extends messages 0) ensure_quick_prompt"
    unfolding ensure_quick_prompt_def by (rule msgs.prompt)
  have reads: "keeps (extends messages 0) (fetch_recent th n)" "keeps (extends messages 0) (fetch_summaries th)" for n
    unfolding fetch_recent_def fetch_summaries_def by (rule msgs.read)+
  from thenE_frame[OF seed run[unfolded quick_handle_def]] show ?thesis
  proof (elim disjE exE conjE)
    fix v assume v: "messages v = messages w"
      and run: "bindE (fetch_recent th (recent_window_size (pn_settings d))) (\<lambda>past.
        bindE (fetch_summaries th) (\<lambda>ss. ?body past ss)) v = (r, w')"
    from bind_frame[OF reads(1) run] show ?thesis
    proof (elim disjE exE conjE)
      fix past v1 assume v1: "messages v1 = messages v"
        and run: "bindE (fetch_summaries th) (\<lambda>ss. ?body past ss) v1 = (r, w')"
      from bind_frame[OF reads(2) run] show ?thesis
      proof (elim disjE exE conjE)
        fix ss v2 assume v2: "messages v2 = messages v1" and run: "?body past ss v2 = (r, w')"
        from body[OF run] show ?thesis unfolding v2 v1 v .
      qed (use fail v v1 in auto)
    qed (use fail v in auto)
  qed (use fail in auto)
qed

subsection \<open>Properties\<close>

text \<open>A message answered on the quick path leaves exactly two rows in the conversation, the
  user's message and the answer that is returned, in this order and on this thread; a turn that
  raises has recorded the user's message or nothing, and never an answer.\<close>

theorem quick_turn_recorded:
  assumes "agents_keep (extends messages 0) d"
    and "\<forall>n t i. reg_get (pn_registry d) n = Inr t \<longrightarrow> keeps (extends messages 0) (tl_run t ctx i)"
    and "quick_handle d ctx th content em w = (r, w')"
  shows "case r of
      Inr final \<Rightarrow> \<exists>u a. messages w' = messages w @ [u, a] \<and>
        recorded th ''user'' content (channel_meta ctx) u \<and>
        recorded th ''assistant'' final (channel_meta ctx) a
    | Inl e \<Rightarrow> messages w' = messages w \<or>
        (\<exists>u. messages w' = messages w @ [u] \<and> recorded th ''user'' content (channel_meta ctx) u)"
proof -
  have "turn_written th (channel_meta ctx) content (messages w) r (messages w')"
    by (rule quick_handle_written[OF assms(1) _ assms(3)]) (use assms(2) in blast)
  then show ?thesis by (simp add: turn_written_def)
qed

text \<open>The quick agent's loop calls the model at most ten times a turn: with tools that bill
  nothing themselves it adds at most ten rows to the usage ledger, whatever the model asks for.\<close>

theorem quick_loop_bounded:
  assumes "\<forall>q. outside_only (pn_llm d q)"
    and "\<forall>n t i. reg_get (pn_registry d) n = Inr t \<longrightarrow> keeps (extends token_usage 0) (tl_run t ctx i)"
  shows "\<exists>rows. token_usage (snd (quick_iterate MAX_ITERATIONS d ctx em system specs ms w)) =
      token_usage w @ rows \<and> length rows \<le> 10"
proof -
  have "keeps (extends token_usage MAX_ITERATIONS) (quick_iterate MAX_ITERATIONS d ctx em system specs ms)"
    by (rule quick_iterate_usage) (use assms in blast)+
  then show ?thesis by (simp add: keeps_def extends_def MAX_ITERATIONS_def)
qed

text \<open>When the model was cut off by its output limit no tool of that reply runs, and the user
  is told: the world is left as the model call left it, and the text returned either names the
  unfinished call or ends with the truncation notice.\<close>

theorem truncated_turn_runs_nothing:
  assumes "quick_call d ctx system specs ms w = (Inr res, v)"
    and "a_stop_reason (mr_raw res) = Some ''max_tokens''"
  shows "\<exists>s. quick_iterate (Suc n) d ctx em system specs ms w = (Inr s, v) \<and>
    ((\<exists>i name inputs. (i, name, inputs) \<in> set (tool_blocks (a_content (mr_raw res))) \<and>
        s = truncated_call name) \<or>
     (tool_blocks (a_content (mr_raw res)) = [] \<and> s = truncated_text (mr_text res)))"
  using assms by (cases "tool_blocks (a_content (mr_raw res))") (auto simp: bindE_Inr Let_def)

text \<open>Triage reads and never writes: no message, no thread, nothing sent, nothing enqueued;
  and the verdict it returns is a route with one of the three complexities, whatever the model
  answered.\<close>

theorem triage_is_read_only:
  assumes "\<forall>q. keeps silent (pn_llm d q)" and "\<forall>u r. keeps silent (pn_build d u r)"
    and "\<forall>s. keeps silent (pn_embed d s)" and "classify d ctx th content w = (r, w')"
  shows "messages w' = messages w \<and> threads w' = threads w \<and> outbox w' = outbox w \<and>
    jobs w' = jobs w \<and>
    (\<forall>v. r = Inr v \<longrightarrow> tv_complexity v \<in> {''simple'', ''moderate'', ''ambitious''})"
proof -
  have "agents_keep silent d" using assms(1-3) by (simp add: agents_keep_def)
  from keepsD[OF silent.classify_keeps[OF this] assms(4)] classify_complexity[of d ctx th content w _ w'] assms(4)
  show ?thesis by (auto simp: silent_def complexities_def)
qed

text \<open>The score a post-evaluation returns is between 0 and 100, whatever the model wrote in
  the score field or whether it called the tool at all.\<close>

theorem score_in_range:
  assumes "post_evaluate d ctx p x w = (Inr v, w')"
  shows "0 \<le> pv_score v \<and> pv_score v \<le> 100"
  using post_evaluate_bounds[OF assms] .

subsection \<open>Witnesses\<close>

definition talk :: world where
  "talk = empty_world\<lparr>threads := [\<lparr> th_id = Uuid 7, th_user_id = Uuid 5, th_channel = ''web'',
     th_soul_version = None, th_profile_version = None, th_created_at = 0 \<rparr>], next_id := 8\<rparr>"

lemma talk_script: "script talk = []" "messages talk = []" "token_usage talk = []"
  by (simp_all add: talk_def empty_world_def)

lemma sample_registry_empty: "reg_get (pn_registry (sample_planner raw)) n = Inr t \<Longrightarrow> False"
  by (simp add: sample_planner_def reg_get_def)

lemma quick_turn_recorded_witness:
  "length (messages (snd (quick_handle (sample_planner hello) sample_ctx0 (Uuid 7) ''hi'' False talk))) \<le> 2"
proof -
  obtain r w' where run: "quick_handle (sample_planner hello) sample_ctx0 (Uuid 7) ''hi'' False talk = (r, w')"
    by (cases "quick_handle (sample_planner hello) sample_ctx0 (Uuid 7) ''hi'' False talk")
  have "agents_keep (extends messages 0) (sample_planner hello)"
    by (simp add: agents_keep_def msgs.sample_planner_keeps)
  moreover have "\<forall>n t i. reg_get (pn_registry (sample_planner hello)) n = Inr t \<longrightarrow>
      keeps (extends messages 0) (tl_run t sample_ctx0 i)"
    using sample_registry_empty by blast
  ultimately show ?thesis
    using quick_turn_recorded[OF _ _ run] by (auto simp: run talk_script split: sum.splits)
qed

lemma quick_loop_bounded_witness:
  "\<exists>rows. token_usage (snd (quick_iterate MAX_ITERATIONS (sample_planner hello) sample_ctx0 False [] []
      [] talk)) = rows \<and> length rows \<le> 10"
proof -
  have "\<forall>q. outside_only (pn_llm (sample_planner hello) q)"
    using canned_outside by (simp add: sample_planner_def)
  from quick_loop_bounded[OF this, of sample_ctx0 False "[]" "[]" "[]" talk] sample_registry_empty
  show ?thesis by (auto simp: talk_script)
qed

definition cut_off :: api_response where
  "cut_off = \<lparr> a_content = [TextBlock ''I will save that.'', ToolUse ''u'' ''write_doc'' []],
     a_stop_reason = Some ''max_tokens'', a_usage = None \<rparr>"

lemma truncated_turn_runs_nothing_witness:
  "\<exists>v. quick_iterate 10 (sample_planner cut_off) sample_ctx0 False [] [] [] talk =
     (Inr (truncated_call ''write_doc''), v)"
proof -
  let ?a = "\<lparr> ca_user = Uuid 5, ca_agent = ''quick'', ca_model = model_quick default_settings,
     ca_messages = [], ca_system = Some [], ca_max_tokens = None,
     ca_prompt_version = prompt_version_id ''quick'' talk, ca_task = None,
     ca_extra = [(''tools'', JArr [])] \<rparr>"
  obtain res v where m: "model_call default_settings (canned_llm cut_off) ?a talk = (Inr res, v)"
    and raw: "mr_raw res = cut_off"
    using canned_call[of talk ?a default_settings cut_off] by (auto simp: talk_script agent_kinds_def)
  have call: "quick_call (sample_planner cut_off) sample_ctx0 [] [] [] talk = (Inr res, v)"
    using m by (simp add: quick_call_def bindE_def sample_planner_def sample_ctx0_def)
  have stop: "a_stop_reason (mr_raw res) = Some ''max_tokens''" by (simp add: raw cut_off_def)
  from truncated_turn_runs_nothing[OF call stop, of 9 False] show ?thesis
    by (auto simp: raw cut_off_def)
qed

lemma triage_is_read_only_witness:
  "messages (snd (classify (sample_planner hello) sample_ctx0 (Uuid 7) ''hi'' talk)) = []"
proof -
  obtain r w' where run: "classify (sample_planner hello) sample_ctx0 (Uuid 7) ''hi'' talk = (r, w')"
    by (cases "classify (sample_planner hello) sample_ctx0 (Uuid 7) ''hi'' talk")
  from triage_is_read_only[OF _ _ _ run] silent.sample_planner_keeps show ?thesis
    by (simp add: run talk_script)
qed

lemma score_in_range_witness:
  "\<exists>v w'. post_evaluate (sample_planner hello) sample_ctx0 (fallback_plan ''q'' ''m'')
      (step_cap_plan (fallback_plan ''q'' ''m'')) talk = (Inr v, w') \<and> pv_score v \<le> 100"
proof -
  obtain v1 where seed: "ensure_post_evaluator_prompt talk = (Inr (), v1)" "script v1 = []"
    using seeding_returns talk_script(1) unfolding ensure_post_evaluator_prompt_def by metis
  let ?p = "fallback_plan ''q'' ''m''"
  let ?a = "\<lparr> ca_user = Uuid 5, ca_agent = ''post_evaluator'',
     ca_model = model_post_evaluator default_settings,
     ca_messages = [user_message (build_score_prompt ?p (step_cap_plan ?p))], ca_system = Some [],
     ca_max_tokens = None, ca_prompt_version = prompt_version_id ''post_evaluator'' v1,
     ca_task = None, ca_extra = forced_tool record_score_tool ''record_score'' \<rparr>"
  obtain res v where m: "model_call default_settings (canned_llm hello) ?a v1 = (Inr res, v)"
    using canned_call[of v1 ?a default_settings hello] seed(2) by (auto simp: agent_kinds_def)
  have run: "post_evaluate (sample_planner hello) sample_ctx0 ?p (step_cap_plan ?p) talk =
      (Inr (score_of_response (step_cap_plan ?p) (mr_raw res)), v)"
    using m by (simp add: post_evaluate_def bindE_def thenE_def seed(1) sample_planner_def sample_ctx0_def)
  from score_in_range[OF run] run show ?thesis by blast
qed

end
