(* ===== verification/Task_Service.thy ===== *)
theory Task_Service
  imports Pre_Eval Quick Execution Ask_User
begin

section \<open>The task service\<close>

text \<open>
  \<open>src/wolfpaw/tasks/service.py\<close>: a task from its creation to a terminal status. The service
  owns the agents; the executor inside it spawns sub-tasks through the service again, which
  \<open>service_at\<close> unrolls: \<open>service_at n s\<close> can nest \<open>n\<close> levels of sub-tasks. The executor refuses to
  spawn below \<open>MAX_SUBAGENT_DEPTH\<close> levels, so more than that many are never asked for.
  \<open>sv_distill\<close> is the skill distiller, called after a scored execution.
\<close>

record service =
  sv_agents :: planner_deps
  sv_exec :: deps
  sv_distill :: "tool_ctx \<Rightarrow> plan \<Rightarrow> execution_plan \<Rightarrow> post_verdict \<Rightarrow> bool \<Rightarrow> unit act"
  sv_channels :: channels

record task_outcome =
  o_task :: task
  o_plan :: "plan option"
  o_execution :: "execution_plan option"
  o_verdict :: "post_verdict option"
  o_answer :: pystr

subsection \<open>Transitions\<close>

definition transition :: "uuid \<Rightarrow> pystr \<Rightarrow> task option act \<Rightarrow> dict \<Rightarrow> unit act" where
  "transition tid event_type op extra =
     best_effort (bindE op (\<lambda>updated. case updated of
         None \<Rightarrow> ret ()
       | Some t \<Rightarrow> thenE (append_event (Some tid) event_type
           (dict_union extra [(''status'', JStr (status_text (t_status t)))])) (ret ())))"

definition roll_up :: "uuid \<Rightarrow> unit act" where
  "roll_up tid = best_effort (rollup_spent_cents tid)"

definition fail_task :: "uuid \<Rightarrow> pystr \<Rightarrow> unit act" where
  "fail_task tid reason =
     thenE (transition tid ''status.failed'' (mark_failed tid reason) [(''reason'', JStr reason)])
           (roll_up tid)"

definition reload_required :: "uuid \<Rightarrow> uuid \<Rightarrow> task act" where
  "reload_required tid user =
     bindE (get_task_by_id user tid) (\<lambda>t. case t of
       None \<Rightarrow> raise (ValueError (''Task '' @ uuid_text tid @ '' disappeared during run''))
     | Some t \<Rightarrow> ret t)"

definition finish ::
  "uuid \<Rightarrow> uuid \<Rightarrow> plan option \<Rightarrow> execution_plan option \<Rightarrow> post_verdict option \<Rightarrow> pystr
     \<Rightarrow> task_outcome act" where
  "finish tid user p x v answer =
     bindE (reload_required tid user) (\<lambda>t.
       ret \<lparr> o_task = t, o_plan = p, o_execution = x, o_verdict = v, o_answer = answer \<rparr>)"

subsection \<open>Creating a task\<close>

record task_request =
  tr_user :: uuid
  tr_thread :: "uuid option"
  tr_content :: pystr
  tr_title :: pystr
  tr_description :: "pystr option"
  tr_completion :: "pystr option"
  tr_channel :: "pystr option"
  tr_complexity :: json
  tr_parent :: "uuid option"
  tr_budget :: "int option"
  tr_agentic :: bool

definition pending_content :: "task \<Rightarrow> task_request \<Rightarrow> dict" where
  "pending_content t q =
     [(''title'', JStr (t_title t)), (''content'', JStr (tr_content q)),
      (''thread_id'', opt_str (map_option uuid_text (tr_thread q))),
      (''complexity_hint'', tr_complexity q)] @
     (case tr_channel q of None \<Rightarrow> [] | Some c \<Rightarrow> if c = [] then [] else [(''channel'', JStr c)]) @
     (if tr_agentic q then [(''agentic'', JBool True)] else []) @
     (case tr_parent q of None \<Rightarrow> [] | Some p \<Rightarrow> [(''parent_task_id'', JStr (uuid_text p))])"

definition service_create :: "task_request \<Rightarrow> task act" where
  "service_create q =
     bindE (task_create (tr_user q) (tr_title q) (tr_description q) (tr_completion q) (tr_parent q)
              (tr_budget q) None) (\<lambda>t.
     thenE (append_event (Some (t_id t)) ''status.pending'' (pending_content t q)) (ret t))"

subsection \<open>The pipeline\<close>

text \<open>A complexity hint is only compared with the strings of triage.\<close>

definition hint_text :: "json \<Rightarrow> pystr" where
  "hint_text j = (case j of JStr s \<Rightarrow> s | _ \<Rightarrow> [])"

definition plan_phase ::
  "service \<Rightarrow> tool_ctx \<Rightarrow> uuid \<Rightarrow> uuid option \<Rightarrow> pystr \<Rightarrow> json \<Rightarrow> bool \<Rightarrow> plan option \<Rightarrow> plan act" where
  "plan_phase s ctx tid thread content hint emit precomputed =
     bindE (case precomputed of
              Some p \<Rightarrow> ret p
            | None \<Rightarrow> bindE (plan_with_pre_evaluation (sv_agents s) ctx thread content
                (hint_text hint) emit True) (\<lambda>(p, _, _). ret p)) (\<lambda>p.
     thenE (case pl_id p of None \<Rightarrow> ret () | Some i \<Rightarrow> attach_plan tid i) (ret p))"

definition score_event :: "uuid \<Rightarrow> post_verdict \<Rightarrow> dict" where
  "score_event plan_id v = (''plan_id'', JStr (uuid_text plan_id)) # post_verdict_to_jsonb v"

definition emit_score :: "bool \<Rightarrow> post_verdict \<Rightarrow> unit act" where
  "emit_score emit v = maybe_emit emit ''score''
     (show_int (pv_score v) @ ''/100 '' @ [em_dash] @ '' '' @ pv_summary v)"

definition persist_score :: "uuid option \<Rightarrow> uuid option \<Rightarrow> post_verdict \<Rightarrow> unit act" where
  "persist_score tid plan_id v =
     (case plan_id of
        None \<Rightarrow> ret ()
      | Some i \<Rightarrow>
          thenE (update_outcome i None None (Some (pv_score v)) None)
         (thenE (append_event tid ''plan_scored'' (score_event i v)) (ret ())))"

definition score_phase ::
  "service \<Rightarrow> tool_ctx \<Rightarrow> uuid \<Rightarrow> plan \<Rightarrow> execution_plan \<Rightarrow> bool \<Rightarrow> post_verdict option act" where
  "score_phase s ctx tid p x emit =
     bindE (attemptE (post_evaluate (sv_agents s) ctx p x)) (\<lambda>r. case r of
       Inl _ \<Rightarrow> ret None
     | Inr v \<Rightarrow>
         thenE (best_effort (thenE (emit_score emit v) (persist_score (Some tid) (pl_id p) v)))
               (ret (Some v)))"

definition distill_phase ::
  "service \<Rightarrow> tool_ctx \<Rightarrow> plan \<Rightarrow> execution_plan \<Rightarrow> post_verdict option \<Rightarrow> bool \<Rightarrow> unit act" where
  "distill_phase s ctx p x verdict emit =
     (case verdict of None \<Rightarrow> ret () | Some v \<Rightarrow> best_effort (sv_distill s ctx p x v emit))"

definition terminal_phase :: "uuid \<Rightarrow> execution_plan \<Rightarrow> unit act" where
  "terminal_phase tid x =
     (if x_success x then transition tid ''status.completed'' (mark_completed tid) []
      else transition tid ''status.failed''
        (mark_failed tid (case x_error x of
           None \<Rightarrow> ''execution failed'' | Some e \<Rightarrow> if e = [] then ''execution failed'' else e))
        [(''error'', opt_str (x_error x))])"

definition run_agentic :: "service \<Rightarrow> tool_ctx \<Rightarrow> uuid \<Rightarrow> uuid \<Rightarrow> pystr \<Rightarrow> bool \<Rightarrow> task_outcome act" where
  "run_agentic s ctx user tid content emit =
     bindE (attemptE (run_headless (sv_agents s) ctx content emit)) (\<lambda>r. case r of
       Inl e \<Rightarrow>
         thenE (fail_task tid (''agentic run crashed: '' @ exn_str e))
               (finish tid user None None None (''The scheduled run failed: '' @ exn_str e))
     | Inr answer \<Rightarrow>
         thenE (transition tid ''status.completed'' (mark_completed tid)
                  [(''final_answer'', JStr (take 2000 answer))])
        (thenE (roll_up tid) (finish tid user None None None answer)))"

definition run_ctx :: "uuid \<Rightarrow> uuid \<Rightarrow> bool \<Rightarrow> pystr option \<Rightarrow> tool_ctx" where
  "run_ctx user tid emit channel = \<lparr> c_user = user, c_task = Some tid, c_trace = None,
     c_channel = channel, c_emit = emit \<rparr>"

definition run_inner ::
  "service \<Rightarrow> uuid \<Rightarrow> uuid \<Rightarrow> uuid option \<Rightarrow> pystr \<Rightarrow> json \<Rightarrow> bool \<Rightarrow> plan option \<Rightarrow> bool
     \<Rightarrow> pystr option \<Rightarrow> task_outcome act" where
  "run_inner s user tid thread content hint emit precomputed agentic channel =
     (let ctx = run_ctx user tid emit channel in
      thenE (transition tid ''status.running'' (mark_started tid) [])
     (if agentic then run_agentic s ctx user tid content emit
      else bindE (attemptE (plan_phase s ctx tid thread content hint emit precomputed)) (\<lambda>planned.
        case planned of
          Inl e \<Rightarrow>
            thenE (fail_task tid (''planner failed: '' @ exn_str e))
                  (finish tid user None None None (''I couldn't plan that: '' @ exn_str e))
        | Inr p \<Rightarrow>
            bindE (attemptE (execute (sv_exec s) ctx p emit)) (\<lambda>executed. case executed of
              Inl e \<Rightarrow>
                thenE (fail_task tid (''executor crashed: '' @ exn_str e))
                      (finish tid user (Some p) None None (''The plan failed: '' @ exn_str e))
            | Inr x \<Rightarrow>
                bindE (score_phase s ctx tid p x emit) (\<lambda>verdict.
                thenE (distill_phase s ctx p x verdict emit)
               (thenE (terminal_phase tid x)
               (thenE (roll_up tid)
                  (finish tid user (Some p) (Some x) verdict (x_final_answer x)))))))))"

subsection \<open>Entry points\<close>

definition service_create_and_run ::
  "service \<Rightarrow> task_request \<Rightarrow> bool \<Rightarrow> plan option \<Rightarrow> task_outcome act" where
  "service_create_and_run s q emit precomputed =
     bindE (service_create (q\<lparr>tr_agentic := False\<rparr>)) (\<lambda>t.
     thenE (maybe_emit emit ''task'' (uuid_text (t_id t)))
           (run_inner s (tr_user q) (t_id t) (tr_thread q) (tr_content q) (tr_complexity q) emit
              precomputed False (tr_channel q)))"

definition deliver_completion :: "service \<Rightarrow> uuid \<Rightarrow> pystr option \<Rightarrow> task_outcome \<Rightarrow> unit act" where
  "deliver_completion s user channel out =
     (let answer = strip (o_answer out) in
      case channel of
        None \<Rightarrow> ret ()
      | Some name \<Rightarrow>
          if name = [] \<or> answer = [] then ret ()
          else (case get_channel (sv_channels s) name of
                  None \<Rightarrow> ret ()
                | Some send \<Rightarrow> best_effort (send user answer)))"

definition first_pending :: "uuid \<Rightarrow> world \<Rightarrow> task_event option" where
  "first_pending tid w =
     (case sort_key e_created_at (filter (\<lambda>e. e_task_id e = Some tid \<and>
         e_event_type e = ''status.pending'') (task_events w)) of
        [] \<Rightarrow> None | e # _ \<Rightarrow> Some e)"

definition thread_of_json :: "json \<Rightarrow> exn + uuid option" where
  "thread_of_json j =
     (case j of
        JStr s \<Rightarrow> if s = [] then Inr None
                  else (case parse_uuid s of
                    Some u \<Rightarrow> Inr (Some u)
                  | None \<Rightarrow> Inl (ValueError ''badly formed hexadecimal UUID string''))
      | _ \<Rightarrow> if truthy j then Inl (OtherError ''UUID() argument must be a string'') else Inr None)"

definition service_run :: "service \<Rightarrow> uuid \<Rightarrow> bool \<Rightarrow> task_outcome act" where
  "service_run s tid emit =
     bindE (stmt (getsE (task_lookup tid))) (\<lambda>found. case found of
       None \<Rightarrow> raise (ValueError (''Task '' @ uuid_text tid @ '' not found''))
     | Some t \<Rightarrow>
     bindE (stmt (getsE (first_pending tid))) (\<lambda>event. case event of
       None \<Rightarrow> raise (ValueError (''Task '' @ uuid_text tid @ '' has no status.pending event;'' @
                '' cannot recover run inputs''))
     | Some e \<Rightarrow>
         (let ev = e_content e; agentic = truthy (get_default ev ''agentic'' JNull) in
          bindE (liftE (thread_of_json (get_default ev ''thread_id'' JNull))) (\<lambda>thread.
          bindE (run_inner s (t_user_id t) tid thread
                   (json_str (get_or ev ''content'' (JStr [])))
                   (get_or ev ''complexity_hint'' (JStr ''moderate'')) emit None agentic
                   (as_str (get_default ev ''channel'' JNull))) (\<lambda>out.
          thenE (if agentic then ret ()
                 else deliver_completion s (t_user_id t) (t_channel_for_completion t) out)
                (ret out))))))"

subsection \<open>Sub-tasks\<close>

definition child_task_request :: "child_request \<Rightarrow> exn + task_request" where
  "child_task_request q =
     (case (ch_title q, ch_budget q) of
        (JStr title, b) \<Rightarrow>
          if b = JNull \<or> as_int b \<noteq> None
          then Inr \<lparr> tr_user = ch_user q, tr_thread = None, tr_content = ch_content q,
            tr_title = title, tr_description = Some (ch_description q), tr_completion = None,
            tr_channel = None, tr_complexity = ch_complexity q, tr_parent = Some (ch_parent q),
            tr_budget = as_int b, tr_agentic = False \<rparr>
          else Inl (DbError ''invalid input for query argument: budget_cents'')
      | _ \<Rightarrow> Inl (DbError ''invalid input for query argument: title''))"

definition spawn_child :: "service \<Rightarrow> child_request \<Rightarrow> child_outcome act" where
  "spawn_child s q =
     bindE (liftE (child_task_request q)) (\<lambda>r.
     bindE (service_create_and_run s r False None) (\<lambda>out.
       ret \<lparr> co_task = o_task out, co_answer = o_answer out,
             co_score = map_option pv_score (o_verdict out) \<rparr>))"

definition replan :: "planner_deps \<Rightarrow> tool_ctx \<Rightarrow> pystr \<Rightarrow> replan_context \<Rightarrow> plan act" where
  "replan d ctx query rc =
     bindE (make_plan d ctx None query ''moderate'' None (Some rc) True) (\<lambda>(p, _). ret p)"

fun service_at :: "nat \<Rightarrow> service \<Rightarrow> service" where
  "service_at 0 s = s\<lparr>sv_exec := (sv_exec s)\<lparr>d_replan := replan (sv_agents s),
     d_spawn := (\<lambda>_. raise (OtherError ''no level left for a sub-task''))\<rparr>\<rparr>"
| "service_at (Suc n) s = s\<lparr>sv_exec := (sv_exec s)\<lparr>d_replan := replan (sv_agents s),
     d_spawn := spawn_child (service_at n s)\<rparr>\<rparr>"

end
