(* ===== verification/Service_Facts.thy ===== *)
theory Service_Facts
  imports Task_Service Execution_Props
begin

section \<open>What the task service keeps and promises\<close>

text \<open>
  A \<open>service_order\<close> is kept by the operations of the task table and the event log too; the whole
  service keeps it, to any depth of sub-tasks, as soon as its collaborators do. It is used for
  \<open>sound\<close> (the database invariant) and \<open>quiet\<close> (no failure appears from nowhere), which together
  give that a run ends with its task in a terminal status.
\<close>

definition service_keeps :: "(world \<Rightarrow> world \<Rightarrow> bool) \<Rightarrow> service \<Rightarrow> bool" where
  "service_keeps R s \<longleftrightarrow> agents_keep R (sv_agents s) \<and> deps_keep R (sv_exec s) \<and>
     (\<forall>ctx p x v em. keeps R (sv_distill s ctx p x v em)) \<and>
     (\<forall>n t ctx i. reg_get (pn_registry (sv_agents s)) n = Inr t \<longrightarrow> keeps R (tl_run t ctx i)) \<and>
     (\<forall>n send u c. get_channel (sv_channels s) n = Some send \<longrightarrow> keeps R (send u c))"

lemma service_keepsD:
  assumes "service_keeps R s"
  shows "agents_keep R (sv_agents s)" "deps_keep R (sv_exec s)"
    "keeps R (sv_distill s ctx p x v em)"
    "reg_get (pn_registry (sv_agents s)) n = Inr t \<Longrightarrow> keeps R (tl_run t ctx i)"
    "get_channel (sv_channels s) n = Some send \<Longrightarrow> keeps R (send u c)"
  using assms unfolding service_keeps_def by blast+

locale service_order = exec_order R for R :: "world \<Rightarrow> world \<Rightarrow> bool" +
  assumes store: "keeps R (plan_store u th pt c em st)"
    and attach: "keeps R (attach_plan tid i)"
    and moves: "keeps R (mark_started tid)" "keeps R (mark_completed tid)" "keeps R (mark_failed tid r)"
    and event: "keeps R (append_event et ev ct)"
    and spent: "keeps R (rollup_spent_cents tid)"
    and create: "keeps R (task_create u ti ds ch p b pat)"
begin

lemma transition_keeps: "keeps R op \<Longrightarrow> keeps R (transition tid ev op extra)"
  unfolding transition_def by (intro effort bind opt ret andThen event)

lemma fail_task_keeps: "keeps R (fail_task tid reason)"
  unfolding fail_task_def roll_up_def by (intro andThen transition_keeps moves effort spent)

lemma finish_keeps: "keeps R (finish tid user p x v a)"
  unfolding finish_def reload_required_def get_task_by_id_def by (intro bind opt ret raise read)

lemma plan_phase_keeps:
  "service_keeps R s \<Longrightarrow> keeps R (plan_phase s ctx tid th c h em pre)"
  unfolding plan_phase_def
  by (intro bind andThen opt ret pair attach plan_with_pre_evaluation_keeps service_keepsD store)

lemma persist_score_keeps: "keeps R (persist_score t i v)"
  unfolding persist_score_def by (intro opt ret andThen outcome event)

lemma score_phase_keeps: "service_keeps R s \<Longrightarrow> keeps R (score_phase s ctx tid p x em)"
  unfolding score_phase_def emit_score_def
  by (intro bind attempt sum ret andThen effort emit persist_score_keeps post_evaluate_keeps service_keepsD)

lemma distill_phase_keeps: "service_keeps R s \<Longrightarrow> keeps R (distill_phase s ctx p x v em)"
  unfolding distill_phase_def by (intro opt ret effort service_keepsD)

lemma terminal_phase_keeps: "keeps R (terminal_phase tid x)"
  unfolding terminal_phase_def by (intro if_ transition_keeps moves)

lemma run_agentic_keeps: "service_keeps R s \<Longrightarrow> keeps R (run_agentic s ctx user tid c em)"
  unfolding run_agentic_def roll_up_def
  by (intro bind attempt sum andThen fail_task_keeps finish_keeps transition_keeps moves effort
      spent run_headless_keeps service_keepsD)

lemma run_inner_keeps:
  "service_keeps R s \<Longrightarrow> keeps R (run_inner s user tid th c h em pre ag ch)"
  unfolding run_inner_def Let_def roll_up_def
  by (intro andThen if_ bind attempt sum transition_keeps moves fail_task_keeps finish_keeps effort
      spent terminal_phase_keeps distill_phase_keeps score_phase_keeps run_agentic_keeps
      plan_phase_keeps execute_keeps service_keepsD)

lemma service_create_keeps: "keeps R (service_create q)"
  unfolding service_create_def by (intro bind andThen ret create event)

lemma create_and_run_keeps:
  "service_keeps R s \<Longrightarrow> keeps R (service_create_and_run s q em pre)"
  unfolding service_create_and_run_def
  by (intro bind andThen emit service_create_keeps run_inner_keeps)

lemma service_run_keeps: "service_keeps R s \<Longrightarrow> keeps R (service_run s tid em)"
  unfolding service_run_def deliver_completion_def Let_def
  by (intro bind read opt raise lift andThen if_ ret effort run_inner_keeps service_keepsD(5)[where s = s])

lemma spawn_child_keeps: "service_keeps R s \<Longrightarrow> keeps R (spawn_child s q)"
  unfolding spawn_child_def by (intro bind lift ret create_and_run_keeps)

lemma planner_replan_keeps: "agents_keep R d \<Longrightarrow> keeps R (replan d ctx q rc)"
  unfolding replan_def by (intro bind pair ret make_plan_keeps store)

lemma service_at_keeps: "service_keeps R s \<Longrightarrow> service_keeps R (service_at n s)"
proof (induction n)
  case 0
  then show ?case by (auto simp: service_keeps_def deps_keep_def intro: raise planner_replan_keeps)
next
  case (Suc n)
  then have "keeps R (spawn_child (service_at n s) q)" for q by (intro spawn_child_keeps) simp
  with Suc.prems show ?case by (auto simp: service_keeps_def deps_keep_def intro: planner_replan_keeps)
qed

end

interpretation sound: service_order sound
  by unfold_locales (auto intro: plan_store_sound attach_plan_sound task_updates_sound
      append_event_sound rollup_sound task_create_sound)

interpretation quiet: service_order quiet
proof unfold_locales
  have upd: "keeps quiet (update_task p f)" for p f
    unfolding update_task_def by (rule quiet.stmt) (simp add: keeps_def quiet_def)
  show "keeps quiet (mark_started tid)" "keeps quiet (mark_completed tid)"
    "keeps quiet (mark_failed tid r)" for tid r
    unfolding mark_started_def mark_completed_def mark_failed_def by (rule upd)+
  show "keeps quiet (plan_store u th pt c em st)" "keeps quiet (attach_plan tid i)"
    "keeps quiet (append_event t ev ct)" "keeps quiet (task_create u ti ds ch p b pat)"
    for u th tid pt c em st i t ev ct ti ds ch p b pat
    unfolding plan_store_def attach_plan_def append_event_def task_create_def
    by (rule quiet.stmt; auto simp: keeps_def quiet_def Let_def)+
  show "keeps quiet (rollup_spent_cents tid)" for tid
    unfolding rollup_spent_cents_def Let_def
    by (intro quiet.bind quiet.read quiet.ret quiet.andThen upd)
qed

subsection \<open>Total correctness\<close>

text \<open>\<open>total P m Q\<close>: from every world with \<open>P\<close> the program returns, in a world with \<open>Q\<close>.\<close>

definition total :: "('w \<Rightarrow> bool) \<Rightarrow> ('w, 'a) io \<Rightarrow> ('a \<Rightarrow> 'w \<Rightarrow> bool) \<Rightarrow> bool" where
  "total P m Q \<longleftrightarrow> (\<forall>w. P w \<longrightarrow> (\<exists>x w'. m w = (Inr x, w') \<and> Q x w'))"

lemma total_bind: "total P m Q \<Longrightarrow> (\<And>x. total (Q x) (f x) S) \<Longrightarrow> total P (bindE m f) S"
  unfolding total_def by (metis bindE_Inr)

lemma total_then: "total P m (\<lambda>_. Q) \<Longrightarrow> total Q k S \<Longrightarrow> total P (thenE m k) S"
  unfolding thenE_def by (erule total_bind)

lemma total_if: "(b \<Longrightarrow> total P m Q) \<Longrightarrow> (\<not> b \<Longrightarrow> total P k Q) \<Longrightarrow> total P (if b then m else k) Q"
  by simp

lemma total_sum:
  "(\<And>a. total P (f a) Q) \<Longrightarrow> (\<And>b. total P (g b) Q) \<Longrightarrow>
   total P (case x of Inl a \<Rightarrow> f a | Inr b \<Rightarrow> g b) Q"
  by (cases x) simp_all

definition owned :: "uuid \<Rightarrow> uuid \<Rightarrow> world \<Rightarrow> bool" where
  "owned tid user w \<longleftrightarrow> script w = [] \<and> (\<exists>t. task_lookup tid w = Some t \<and> t_user_id t = user)"

definition settled :: "uuid \<Rightarrow> uuid \<Rightarrow> world \<Rightarrow> bool" where
  "settled tid user w \<longleftrightarrow> script w = [] \<and>
     (\<exists>t. task_lookup tid w = Some t \<and> t_user_id t = user \<and> terminal (t_status t))"

lemma sound_task:
  assumes "sound w w'" and "task_lookup tid w = Some t"
  obtains t' where "task_lookup tid w' = Some t'" "t_user_id t' = t_user_id t"
    "terminal (t_status t) \<Longrightarrow> terminal (t_status t')"
proof -
  from soundD(1)[OF assms(1)] assms(2) obtain t' where "task_lookup tid w' = Some t'"
    "task_evolves t t'" unfolding evolves_def by blast
  moreover have "t_user_id t' = t_user_id t"
    using \<open>task_evolves t t'\<close> by (simp add: task_evolves_def same_identity_def)
  moreover have "terminal (t_status t')" if "terminal (t_status t)"
    using \<open>task_evolves t t'\<close> that by (auto simp: task_evolves_def dest: status_steps_terminal)
  ultimately show thesis using that by blast
qed

lemma keeps_owned:
  assumes "keeps sound m" "keeps quiet m" "m w = (r, w')" "owned tid user w"
  shows "owned tid user w'"
  using keepsD[OF assms(1,3)] keepsD[OF assms(2,3)] assms(4)
  by (auto simp: owned_def quiet_def elim!: sound_task)

lemma keeps_settled:
  assumes "keeps sound m" "keeps quiet m" "m w = (r, w')" "settled tid user w"
  shows "settled tid user w'"
  using keepsD[OF assms(1,3)] keepsD[OF assms(2,3)] assms(4)
  by (auto simp: settled_def quiet_def elim!: sound_task)

lemma total_owned:
  "keeps sound m \<Longrightarrow> keeps quiet m \<Longrightarrow> no_raise m \<Longrightarrow> total (owned tid u) m (\<lambda>_. owned tid u)"
  unfolding total_def by (metis keeps_owned no_raise_def)

lemma total_settled:
  "keeps sound m \<Longrightarrow> keeps quiet m \<Longrightarrow> no_raise m \<Longrightarrow> total (settled tid u) m (\<lambda>_. settled tid u)"
  unfolding total_def by (metis keeps_settled no_raise_def)

lemma transition_returns: "no_raise (transition tid ev op extra)"
  unfolding transition_def by (rule no_raise_best_effort)

lemma roll_up_returns: "no_raise (roll_up tid)"
  unfolding roll_up_def by (rule no_raise_best_effort)

lemma roll_up_keeps: "keeps sound (roll_up tid)" "keeps quiet (roll_up tid)"
  unfolding roll_up_def
  by (intro sound.effort sound.spent quiet.effort quiet.spent)+

text \<open>A terminal transition of a live task settles it, and finds a finished task settled.\<close>

lemma end_transition:
  assumes f: "\<And>at t. t_id (f at t) = t_id t \<and> t_user_id (f at t) = t_user_id t \<and> terminal (t_status (f at t))"
  shows "total (owned tid user) (transition tid ev (update_task (live tid) f) extra) (\<lambda>_. settled tid user)"
  unfolding total_def
proof (intro allI impI)
  fix w assume "owned tid user w"
  then obtain t where w: "script w = []" "task_lookup tid w = Some t" "t_user_id t = user"
    by (auto simp: owned_def)
  let ?w = "w\<lparr>tasks := sql_set (live tid) (f (now w)) (tasks w)\<rparr>"
  have upd: "update_task (live tid) f w = (Inr (sql_returning (live tid) (f (now w)) (tasks w)), ?w)"
    using w by (simp add: update_task_def)
  have "task_lookup tid ?w = Some (if live tid t then f (now w) t else t)"
    using w(2) f by (simp add: row_update.lookup_set row_update_def)
  moreover have "t_id t = tid" using key_lookup_SomeD[OF w(2)] by simp
  ultimately have s: "settled tid user ?w"
    using w f by (auto simp: settled_def live_def)
  show "\<exists>x w'. transition tid ev (update_task (live tid) f) extra w = (Inr x, w') \<and> settled tid user w'"
  proof (cases "sql_returning (live tid) (f (now w)) (tasks w)")
    case None
    with upd have "update_task (live tid) f w = (Inr None, ?w)" by simp
    then show ?thesis using s by (simp add: transition_def best_effort_def bindE_def)
  next
    case (Some t')
    let ?ev = "append_event (Some tid) ev (dict_union extra [(''status'', JStr (status_text (t_status t')))])"
    obtain r w' where r: "?ev ?w = (r, w')" by (cases "?ev ?w")
    from keeps_settled[OF sound.event quiet.event r s] have "settled tid user w'" .
    then show ?thesis
      using upd[unfolded Some] r by (cases r) (auto simp: transition_def best_effort_def bindE_def thenE_def)
  qed
qed

lemma set_ends:
  "t_id (set_completed at t) = t_id t \<and> t_user_id (set_completed at t) = t_user_id t \<and>
     terminal (t_status (set_completed at t))"
  "t_id (set_failed r at t) = t_id t \<and> t_user_id (set_failed r at t) = t_user_id t \<and>
     terminal (t_status (set_failed r at t))"
  by (simp_all add: set_completed_def set_failed_def)

lemma completed_settles:
  "total (owned tid user) (transition tid ev (mark_completed tid) extra) (\<lambda>_. settled tid user)"
  unfolding mark_completed_def by (rule end_transition) (rule set_ends)

lemma failed_settles:
  "total (owned tid user) (transition tid ev (mark_failed tid r) extra) (\<lambda>_. settled tid user)"
  unfolding mark_failed_def by (rule end_transition) (rule set_ends)

lemma roll_up_settled: "total (settled tid user) (roll_up tid) (\<lambda>_. settled tid user)"
  by (rule total_settled[OF roll_up_keeps roll_up_returns])

lemma fail_task_settles: "total (owned tid user) (fail_task tid reason) (\<lambda>_. settled tid user)"
  unfolding fail_task_def by (rule total_then[OF failed_settles roll_up_settled])

definition ended :: "uuid \<Rightarrow> uuid \<Rightarrow> task_outcome \<Rightarrow> world \<Rightarrow> bool" where
  "ended tid user out w \<longleftrightarrow> t_id (o_task out) = tid \<and> t_user_id (o_task out) = user \<and>
     terminal (t_status (o_task out))"

lemma sql_first_key:
  "key_lookup key k rows = Some r \<Longrightarrow> P r \<Longrightarrow> sql_first (\<lambda>r. key r = k \<and> P r) rows = Some r"
  by (induction rows) (auto split: if_splits)

lemma finish_ends: "total (settled tid user) (finish tid user p x v a) (ended tid user)"
  unfolding total_def
proof (intro allI impI)
  fix w assume "settled tid user w"
  then obtain t where w: "script w = []" "task_lookup tid w = Some t" "t_user_id t = user"
    "terminal (t_status t)" by (auto simp: settled_def)
  then have "get_task_by_id user tid w = (Inr (Some t), w)"
    by (simp add: get_task_by_id_def sql_first_key)
  with w key_lookup_SomeD[OF w(2)]
  show "\<exists>out w'. finish tid user p x v a w = (Inr out, w') \<and> ended tid user out w'"
    by (simp add: finish_def reload_required_def bindE_def ended_def)
qed

lemma attempt_owned:
  "keeps sound m \<Longrightarrow> keeps quiet m \<Longrightarrow> total (owned tid u) (attemptE m) (\<lambda>_. owned tid u)"
  by (intro total_owned no_raise_attempt sound.attempt quiet.attempt)

lemma terminal_phase_settles:
  "total (owned tid user) (terminal_phase tid x) (\<lambda>_. settled tid user)"
  unfolding terminal_phase_def by (intro total_if completed_settles failed_settles)

lemma tail_ends:
  "total (owned tid user) (thenE (terminal_phase tid x) (thenE (roll_up tid) (finish tid user p xx v a)))
     (ended tid user)"
  by (rule total_then[OF terminal_phase_settles total_then[OF roll_up_settled finish_ends]])

lemma fail_ends:
  "total (owned tid user) (thenE (fail_task tid reason) (finish tid user p x v a)) (ended tid user)"
  by (rule total_then[OF fail_task_settles finish_ends])

lemma score_owned:
  assumes s: "service_keeps sound s" and q: "service_keeps quiet s"
  shows "total (owned tid user) (score_phase s ctx tid p x em) (\<lambda>_. owned tid user)"
proof (rule total_owned[OF sound.score_phase_keeps[OF s] quiet.score_phase_keeps[OF q]])
  show "no_raise (score_phase s ctx tid p x em)"
    unfolding score_phase_def by (intro no_raise_rules no_raise_attempt no_raise_sum)
qed

lemma distill_owned:
  assumes s: "service_keeps sound s" and q: "service_keeps quiet s"
  shows "total (owned tid user) (distill_phase s ctx p x v em) (\<lambda>_. owned tid user)"
proof (rule total_owned[OF sound.distill_phase_keeps[OF s] quiet.distill_phase_keeps[OF q]])
  show "no_raise (distill_phase s ctx p x v em)"
    unfolding distill_phase_def by (cases v) (simp_all add: no_raise_ret no_raise_best_effort)
qed

lemma agentic_ends:
  assumes s: "service_keeps sound s" and q: "service_keeps quiet s"
  shows "total (owned tid user) (run_agentic s ctx user tid c em) (ended tid user)"
  unfolding run_agentic_def
proof (rule total_bind[OF attempt_owned])
  show "keeps sound (run_headless (sv_agents s) ctx c em)"
    by (rule sound.run_headless_keeps[OF service_keepsD(1)[OF s] service_keepsD(4)[OF s]])
  show "keeps quiet (run_headless (sv_agents s) ctx c em)"
    by (rule quiet.run_headless_keeps[OF service_keepsD(1)[OF q] service_keepsD(4)[OF q]])
qed (intro total_sum fail_ends total_then[OF completed_settles] total_then[OF roll_up_settled]
    finish_ends)

lemma run_inner_ends:
  assumes s: "service_keeps sound s" and q: "service_keeps quiet s"
  shows "total (owned tid user) (run_inner s user tid th c h em pre ag ch) (ended tid user)"
proof -
  let ?ctx = "run_ctx user tid em ch"
  have start: "total (owned tid user) (transition tid ev (mark_started tid) extra) (\<lambda>_. owned tid user)" for ev extra
    by (rule total_owned[OF sound.transition_keeps quiet.transition_keeps transition_returns])
      (rule sound.moves quiet.moves)+
  have planned: "total (owned tid user) (attemptE (plan_phase s ?ctx tid th c h em pre)) (\<lambda>_. owned tid user)"
    by (rule attempt_owned[OF sound.plan_phase_keeps[OF s] quiet.plan_phase_keeps[OF q]])
  have executed: "total (owned tid user) (attemptE (execute (sv_exec s) ?ctx p em)) (\<lambda>_. owned tid user)" for p
    by (rule attempt_owned[OF sound.execute_keeps[OF service_keepsD(2)[OF s]]
          quiet.execute_keeps[OF service_keepsD(2)[OF q]]])
  show ?thesis
    unfolding run_inner_def Let_def
    by (intro total_then[OF start] total_if agentic_ends[OF s q] total_bind[OF planned] total_sum fail_ends
        total_bind[OF executed] total_bind[OF score_owned[OF s q]] total_then[OF distill_owned[OF s q]] tail_ends)
qed

subsection \<open>What creation stamps is what a run reads\<close>

definition later_event :: "uuid \<Rightarrow> world \<Rightarrow> bool" where
  "later_event i w \<longleftrightarrow> (\<forall>e\<in>set (task_events w). e_task_id e \<noteq> Some i)"

lemma create_quiet:
  assumes "service_create q w = (Inr t, w')" and "script w = []"
  shows "t = new_task (Uuid (next_id w)) (now w) (tr_user q) (tr_title q) (tr_description q)
      (tr_completion q) (tr_parent q) (tr_budget q) None"
    and "tasks w' = tasks w @ [t]" and "script w' = []"
    and "\<exists>e. task_events w' = task_events w @ [e] \<and> e_task_id e = Some (t_id t) \<and>
      e_event_type e = ''status.pending'' \<and> e_content e = pending_content t q"
  using assms
  by (auto simp: service_create_def task_create_def append_event_def bindE_def thenE_def Let_def
      split: if_splits prod.splits sum.splits)

lemma first_pending_snoc:
  assumes "later_event i w" and "task_events v = task_events w @ [e]" and "e_task_id e = Some i"
    and "e_event_type e = ''status.pending''"
  shows "first_pending i v = Some e"
proof -
  have "filter (\<lambda>e. e_task_id e = Some i \<and> e_event_type e = ''status.pending'') (task_events w) = []"
    using assms(1) by (simp add: later_event_def filter_empty_conv)
  then show ?thesis using assms(2-4) by (simp add: first_pending_def)
qed

lemma pending_reads:
  assumes "\<And>u. tr_thread q = Some u \<Longrightarrow> valid_uuid u" and "tr_channel q \<noteq> Some []"
  shows "thread_of_json (get_default (pending_content t q) ''thread_id'' JNull) = Inr (tr_thread q)"
    "json_str (get_or (pending_content t q) ''content'' (JStr [])) = tr_content q"
    "truthy (get_default (pending_content t q) ''agentic'' JNull) = tr_agentic q"
    "as_str (get_default (pending_content t q) ''channel'' JNull) = tr_channel q"
    "get_or (pending_content t q) ''complexity_hint'' (JStr ''moderate'') =
       (if truthy (tr_complexity q) then tr_complexity q else JStr ''moderate'')"
proof -
  show "thread_of_json (get_default (pending_content t q) ''thread_id'' JNull) = Inr (tr_thread q)"
    using assms(1) uuid_text_nonempty
    by (cases "tr_thread q") (auto simp: pending_content_def get_default_def thread_of_json_def opt_str_def
        parse_uuid_text)
  show "json_str (get_or (pending_content t q) ''content'' (JStr [])) = tr_content q"
    by (simp add: pending_content_def get_or_def)
  show "truthy (get_default (pending_content t q) ''agentic'' JNull) = tr_agentic q"
    by (auto simp: pending_content_def get_default_def dict_get_append split: option.splits)
  show "as_str (get_default (pending_content t q) ''channel'' JNull) = tr_channel q"
    using assms(2)
    by (auto simp: pending_content_def get_default_def dict_get_append split: option.splits)
  show "get_or (pending_content t q) ''complexity_hint'' (JStr ''moderate'') =
       (if truthy (tr_complexity q) then tr_complexity q else JStr ''moderate'')"
    by (simp add: pending_content_def get_or_def)
qed

subsection \<open>Properties\<close>


text \<open>C15: Whatever fails and whatever other processes do, running a task with all its sub-tasks
  keeps the database's invariant and the state machine of every task: identities never change
  and a finished task stays finished.\<close>

theorem service_run_sound:
  assumes "service_keeps sound s" and "task_lookup i w = Some t"
  shows "\<exists>t'. task_lookup i (snd (service_run (service_at n s) tid em w)) = Some t' \<and>
      task_evolves t t' \<and> (terminal (t_status t) \<longrightarrow> t_status t' = t_status t) \<and>
      (db_ok w \<longrightarrow> db_ok (snd (service_run (service_at n s) tid em w)))"
proof -
  have k: "sound w (snd (service_run (service_at n s) tid em w))"
    using sound.service_run_keeps[OF sound.service_at_keeps[OF assms(1)]] by (simp add: keeps_def)
  obtain t' where t': "task_lookup i (snd (service_run (service_at n s) tid em w)) = Some t'"
    "task_evolves t t'"
    using soundD(1)[OF k] assms(2) unfolding evolves_def by blast
  moreover have "terminal (t_status t) \<longrightarrow> t_status t' = t_status t"
    using t'(2) by (auto simp: task_evolves_def dest: status_steps_terminal)
  moreover have "db_ok w \<longrightarrow> db_ok (snd (service_run (service_at n s) tid em w))"
    using k by (simp add: sound_def)
  ultimately show ?thesis by blast
qed

text \<open>A task created for the worker is run with the inputs it was created with: what
  \<open>create\<close> writes into the pending event is what \<open>run\<close> reads back, the thread, the text, the
  channel, the hint and the kind of run.\<close>

theorem created_task_runs_as_asked:
  assumes "service_create q w = (Inr t, w')" and "script w = []"
    and "\<forall>e\<in>set (task_events w). e_task_id e \<noteq> Some (Uuid (next_id w))"
    and "\<forall>r\<in>set (tasks w). t_id r \<noteq> Uuid (next_id w)"
    and "\<forall>u. tr_thread q = Some u \<longrightarrow> valid_uuid u" and "tr_channel q \<noteq> Some []"
  shows "service_run s (t_id t) em w' =
    bindE (run_inner s (tr_user q) (t_id t) (tr_thread q) (tr_content q)
      (if truthy (tr_complexity q) then tr_complexity q else JStr ''moderate'') em None (tr_agentic q)
      (tr_channel q)) (\<lambda>out.
    thenE (if tr_agentic q then ret () else deliver_completion s (tr_user q) (tr_completion q) out)
      (ret out)) w'"
proof -
  note c = create_quiet[OF assms(1,2)]
  have "later_event (t_id t) w" using assms(3) c(1) by (simp add: later_event_def new_task_def)
  then obtain e where e: "first_pending (t_id t) w' = Some e" "e_content e = pending_content t q"
    using c(4) first_pending_snoc by metis
  have "task_lookup (t_id t) w = None"
    using assms(4) c(1) by (auto simp: key_lookup_def sql_first_None_iff new_task_def)
  then have "task_lookup (t_id t) w' = Some t" by (simp add: c(2) key_lookup_append)
  moreover have "t_user_id t = tr_user q" "t_channel_for_completion t = tr_completion q"
    using c(1) by (simp_all add: new_task_def)
  ultimately show ?thesis
    using c(3) e assms(5,6)
    by (simp add: service_run_def bindE_def[of "stmt _"] Let_def pending_reads cong: if_cong)
qed

text \<open>Running a task that is already finished is not a no-op, though the service's docs call it
  idempotent: its plan is executed again from the same state, and the answer of this second
  execution is what the run returns.\<close>

theorem finished_task_runs_again:
  assumes "script w = []" and "db_ok w" and "task_lookup tid w = Some t" and "terminal (t_status t)"
    and "pl_id p = None" and "execute (sv_exec s) (run_ctx user tid em ch) p em w = (Inr x, v)"
    and "run_inner s user tid th c h em (Some p) False ch w = (Inr out, w')"
  shows "o_execution out = Some x \<and> o_answer out = x_final_answer x"
proof -
  have "sql_first (live tid) (tasks w) = None"
    using sql_first_guarded[of t_id "tasks w" tid "\<lambda>r. \<not> terminal (t_status r)"] assms(2-4)
    by (simp add: db_ok_def tasks_ok_def live_def[abs_def])
  then have "update_task (live tid) f w = (Inr None, w)" for f
    using assms(1) by (simp add: update_task_def sql_set_none)
  then have start: "transition tid ev (mark_started tid) extra w = (Inr (), w)" for ev extra
    by (simp add: mark_started_def transition_def best_effort_def bindE_def)
  have "plan_phase s ctx tid th c h em (Some p) w = (Inr p, w)" for ctx
    by (simp add: plan_phase_def assms(5))
  with start assms(6,7) show ?thesis
    by (auto simp: run_inner_def Let_def thenE_def bindE_def attemptE_def finish_def
        reload_required_def split: prod.splits sum.splits option.splits)
qed

subsection \<open>Witnesses\<close>

definition sample_service :: service where
  "sample_service = \<lparr> sv_agents = sample_planner hello, sv_exec = idle_deps,
     sv_distill = (\<lambda>_ _ _ _ _. ret ()), sv_channels = \<lparr> loaded = [], builtin = [] \<rparr> \<rparr>"

context service_order
begin

lemma sample_service_keeps: "service_keeps R sample_service"
proof -
  have "agents_keep R (sample_planner hello)"
    by (simp add: agents_keep_def sample_planner_keeps)
  moreover have "reg_get (pn_registry (sample_planner hello)) n \<noteq> Inr t" for n t
    by (simp add: sample_planner_def reg_get_def)
  moreover have "keeps R (ret ())" by (rule ret)
  ultimately show ?thesis
    using idle_deps_keep by (simp add: service_keeps_def sample_service_def get_channel_def)
qed

end

definition closed_case :: world where
  "closed_case = quiet_world\<lparr>next_id := 20,
     tasks := [set_cancelled 0 (new_task (Uuid 9) 0 (Uuid 5) [] None None None None None)]\<rparr>"

lemma closed_case_facts:
  "script closed_case = []" "now closed_case = 0" "sandboxes closed_case = []"
  "questions closed_case = []" "next_id closed_case = 20"
  "tasks closed_case = [set_cancelled 0 (new_task (Uuid 9) 0 (Uuid 5) [] None None None None None)]"
  "prompt_seeded closed_case = prompt_seeded quiet_world"
  by (simp_all add: closed_case_def quiet_world_def empty_world_def)

lemma closed_case_ok: "db_ok closed_case"
  by (simp add: db_ok_def tasks_ok_def questions_ok_def closed_case_facts key_distinct_def row_ok_def
      link_ok_def set_cancelled_def new_task_def)

lemma closed_case_task:
  "\<exists>t. task_lookup (Uuid 9) closed_case = Some t \<and> t_user_id t = Uuid 5 \<and> terminal (t_status t)"
  by (simp add: closed_case_facts set_cancelled_def new_task_def)


lemma service_run_sound_witness:
  "\<exists>t'. task_lookup (Uuid 9) (snd (service_run (service_at 3 sample_service) (Uuid 9) False closed_case))
      = Some t' \<and> terminal (t_status t') \<and>
    db_ok (snd (service_run (service_at 3 sample_service) (Uuid 9) False closed_case))"
proof -
  obtain t where t: "task_lookup (Uuid 9) closed_case = Some t" "terminal (t_status t)"
    using closed_case_task by blast
  from service_run_sound[OF sound.sample_service_keeps t(1), where n = 3] t(2) closed_case_ok
  show ?thesis by (metis (no_types))
qed

definition sample_request :: task_request where
  "sample_request = \<lparr> tr_user = Uuid 5, tr_thread = Some (Uuid 7), tr_content = ''q'', tr_title = ''t'',
     tr_description = None, tr_completion = Some ''web'', tr_channel = Some ''web'',
     tr_complexity = JStr ''simple'', tr_parent = None, tr_budget = None, tr_agentic = True \<rparr>"

lemma created_task_runs_as_asked_witness:
  "\<exists>t w'. service_create sample_request talk = (Inr t, w') \<and>
     service_run sample_service (t_id t) False w' =
       bindE (run_inner sample_service (Uuid 5) (t_id t) (Some (Uuid 7)) ''q'' (JStr ''simple'') False None
         True (Some ''web'')) (\<lambda>out. thenE (ret ()) (ret out)) w'"
proof -
  have "\<exists>t w'. service_create sample_request talk = (Inr t, w')"
    by (simp add: service_create_def task_create_def append_event_def bindE_def thenE_def Let_def
        sample_request_def valid_channel_def channel_names_def talk_script new_task_def
        talk_def empty_world_def)
  then obtain t w' where c: "service_create sample_request talk = (Inr t, w')" by blast
  have "valid_uuid (Uuid 7)" by (simp add: valid_uuid_def)
  with created_task_runs_as_asked[OF c talk_script(1), where s = sample_service and em = False]
  have "service_run sample_service (t_id t) False w' =
       bindE (run_inner sample_service (Uuid 5) (t_id t) (Some (Uuid 7)) ''q'' (JStr ''simple'') False None
         True (Some ''web'')) (\<lambda>out. thenE (ret ()) (ret out)) w'"
    by (simp add: sample_request_def talk_def empty_world_def)
  with c show ?thesis by blast
qed

lemma finished_task_runs_again_witness:
  "\<exists>x out w'. run_inner sample_service (Uuid 5) (Uuid 9) None ''q'' JNull False (Some (sample_plan []))
      False None closed_case = (Inr out, w') \<and> o_execution out = Some x"
proof -
  obtain t where t: "task_lookup (Uuid 9) closed_case = Some t" "t_user_id t = Uuid 5"
    "terminal (t_status t)"
    using closed_case_task by blast
  have "ensure_executor_prompt closed_case = (Inr (), closed_case)"
    by (simp add: ensure_executor_prompt_def ensure_prompt_version_def seeded_def closed_case_facts
        quiet_world_def)
  moreover have "close_for_task b u i closed_case = (Inr (), closed_case)" for b u i
    by (simp add: close_for_task_def closed_case_facts)
  ultimately obtain x where x: "execute (sv_exec sample_service) (run_ctx (Uuid 5) (Uuid 9) False None)
      (sample_plan []) False closed_case = (Inr x, closed_case)"
    by (simp add: execute_def thenE_def bindE_def finallyE_def best_effort_def sample_plan_def
        conclude_execution_def all_steps_done_def persist_execution_def)
  have "owned (Uuid 9) (Uuid 5) closed_case" using t closed_case_facts by (simp add: owned_def)
  then obtain out w' where run: "run_inner sample_service (Uuid 5) (Uuid 9) None ''q'' JNull False
      (Some (sample_plan [])) False None closed_case = (Inr out, w')"
    using run_inner_ends[OF sound.sample_service_keeps quiet.sample_service_keeps]
    unfolding total_def by blast
  have "pl_id (sample_plan []) = None" by (simp add: sample_plan_def)
  from finished_task_runs_again[OF closed_case_facts(1) closed_case_ok t(1,3) this x run] run
  show ?thesis by blast
qed

end
