(* ===== verification/Router.thy ===== *)
theory Router
  imports Service_Facts
begin

section \<open>The router\<close>

text \<open>
  \<open>src/wolfpaw/agents/router.py\<close>: what every channel calls with an inbound message. Triage
  chooses the quick agent or the planner; a plan is executed inline or as a task, which with
  workers on and nobody to ask on an open stream is left to a worker.
\<close>

definition TASK_TITLE_MAX :: nat where "TASK_TITLE_MAX = 80"

definition title_from_content :: "pystr \<Rightarrow> pystr" where
  "title_from_content content =
     (let line = strip (before newline (strip content));
          first_line = (if line = [] then ''Task'' else line)
      in if length first_line > TASK_TITLE_MAX
         then rstrip (take (TASK_TITLE_MAX - 1) first_line) @ [ellipsis] else first_line)"

definition summarize_plan_for_event :: "plan \<Rightarrow> pystr" where
  "summarize_plan_for_event p =
     (let n = length (pl_steps p) in join '', ''
       ([show_nat n @ '' step'' @ (if n \<noteq> 1 then ''s'' else [])] @
        (if truthy (pl_skill p) then [''skill='' @ json_str (pl_skill p)] else []) @
        (case pl_adapted_from p of None \<Rightarrow> [] | Some u \<Rightarrow> [''adapted_from='' @ uuid_text u]) @
        (if pl_is_task p then [''would create a Task''] else [])))"

definition record_turn :: "settings \<Rightarrow> tool_ctx \<Rightarrow> uuid \<Rightarrow> pystr \<Rightarrow> pystr \<Rightarrow> unit act" where
  "record_turn cfg ctx thread content final =
     best_effort
       (thenE (conv_append cfg thread ''user'' content (channel_meta ctx))
              (conv_append cfg thread ''assistant'' final (channel_meta ctx)))"

definition score_and_persist ::
  "service \<Rightarrow> tool_ctx \<Rightarrow> plan \<Rightarrow> execution_plan \<Rightarrow> bool \<Rightarrow> unit act" where
  "score_and_persist s ctx p x emit =
     bindE (attemptE (post_evaluate (sv_agents s) ctx p x)) (\<lambda>r. case r of
       Inl _ \<Rightarrow> ret ()
     | Inr v \<Rightarrow>
         thenE (emit_score emit v)
        (thenE (best_effort (sv_distill s ctx p x v emit))
               (best_effort (persist_score (c_task ctx) (pl_id p) v))))"

definition reply_channel :: "tool_ctx \<Rightarrow> pystr" where
  "reply_channel ctx = (case c_channel ctx of
     None \<Rightarrow> ''web'' | Some c \<Rightarrow> if c = [] then ''web'' else c)"

definition started_note :: "uuid \<Rightarrow> pystr" where
  "started_note tid =
     ''Started Task '' @ uuid_text tid @ '' in the background '' @ [em_dash] @ '' '' @
     ''check `/task '' @ uuid_text tid @ ''` for progress, or wait for the'' @
     '' push when it finishes.''"

definition plan_request :: "tool_ctx \<Rightarrow> uuid \<Rightarrow> pystr \<Rightarrow> pystr \<Rightarrow> task_request" where
  "plan_request ctx thread content complexity =
     \<lparr> tr_user = c_user ctx, tr_thread = Some thread, tr_content = content,
       tr_title = title_from_content content, tr_description = Some content,
       tr_completion = Some (reply_channel ctx), tr_channel = c_channel ctx,
       tr_complexity = JStr complexity, tr_parent = None, tr_budget = None, tr_agentic = False \<rparr>"

definition background_task :: "service \<Rightarrow> task_request \<Rightarrow> bool \<Rightarrow> pystr act" where
  "background_task s q emit =
     bindE (service_create q) (\<lambda>t.
     thenE (maybe_emit emit ''task'' (uuid_text (t_id t)))
    (thenE (enqueue_run_task (pn_settings (sv_agents s)) (t_id t))
           (ret (started_note (t_id t)))))"

definition run_plan_as_task ::
  "service \<Rightarrow> tool_ctx \<Rightarrow> uuid \<Rightarrow> pystr \<Rightarrow> pystr \<Rightarrow> plan \<Rightarrow> bool \<Rightarrow> pystr act" where
  "run_plan_as_task s ctx thread content complexity p emit =
     (let cfg = pn_settings (sv_agents s); q = plan_request ctx thread content complexity in
      bindE (liftE (requires_task_context (pn_registry (sv_agents s)) (pl_steps p))) (\<lambda>needs_live_user.
      bindE (if workers_enabled cfg \<and> \<not> (needs_live_user \<and> emit)
             then background_task s q emit
             else bindE (service_create_and_run s q emit (Some p)) (\<lambda>out. ret (o_answer out)))
        (\<lambda>final. thenE (record_turn cfg ctx thread content final) (ret final))))"

definition run_plan_inline ::
  "service \<Rightarrow> tool_ctx \<Rightarrow> uuid \<Rightarrow> pystr \<Rightarrow> plan \<Rightarrow> bool \<Rightarrow> pystr act" where
  "run_plan_inline s ctx thread content p emit =
     bindE (execute (sv_exec s) ctx p emit) (\<lambda>x.
     thenE (score_and_persist s ctx p x emit)
    (thenE (record_turn (pn_settings (sv_agents s)) ctx thread content (x_final_answer x))
           (ret (x_final_answer x))))"

definition handle_plan ::
  "service \<Rightarrow> tool_ctx \<Rightarrow> uuid \<Rightarrow> pystr \<Rightarrow> pystr \<Rightarrow> bool \<Rightarrow> pystr act" where
  "handle_plan s ctx thread content complexity emit =
     bindE (plan_with_pre_evaluation (sv_agents s) ctx (Some thread) content complexity emit True)
       (\<lambda>(p, _, _).
     thenE (maybe_emit emit ''plan'' (summarize_plan_for_event p))
    (if pl_is_task p then run_plan_as_task s ctx thread content complexity p emit
     else run_plan_inline s ctx thread content p emit))"

definition router_handle :: "service \<Rightarrow> tool_ctx \<Rightarrow> uuid \<Rightarrow> pystr \<Rightarrow> bool \<Rightarrow> pystr act" where
  "router_handle s ctx thread content emit =
     bindE (classify (sv_agents s) ctx thread content) (\<lambda>v.
     thenE (maybe_emit emit ''triage''
              (route_text (tv_route v) @ '' '' @ [em_dash] @ '' '' @ json_str (tv_reasoning v)))
    (case tv_route v of
       Quick \<Rightarrow> quick_handle (sv_agents s) ctx thread content emit
     | Plan \<Rightarrow> handle_plan s ctx thread content (tv_complexity v) emit))"

subsection \<open>What routing keeps\<close>

context service_order
begin

lemma score_and_persist_keeps: "service_keeps R s \<Longrightarrow> keeps R (score_and_persist s ctx p x em)"
  unfolding score_and_persist_def emit_score_def
  by (intro bind attempt sum ret andThen emit effort persist_score_keeps post_evaluate_keeps
      service_keepsD)

lemma router_keeps:
  assumes s: "service_keeps R s" and append: "\<And>th r c m. keeps R (conv_append (pn_settings (sv_agents s)) th r c m)"
    and queue: "\<And>j. keeps R (enqueue (pn_settings (sv_agents s)) j)"
  shows "keeps R (router_handle s ctx th c em)"
proof -
  have "keeps R (quick_handle (sv_agents s) ctx th c em)"
    by (rule quick_handle_keeps[OF service_keepsD(1)[OF s] service_keepsD(4)[OF s] append])
  moreover have "keeps R (handle_plan s ctx th c h em)" for h
    unfolding handle_plan_def run_plan_as_task_def run_plan_inline_def background_task_def Let_def
      enqueue_run_task_def record_turn_def
    by (intro bind pair andThen if_ emit lift ret effort append queue service_create_keeps
        create_and_run_keeps execute_keeps score_and_persist_keeps plan_with_pre_evaluation_keeps
        service_keepsD store s)
  ultimately show ?thesis
    unfolding router_handle_def
    by (intro bind andThen emit classify_keeps service_keepsD s) (simp split: route.split)
qed

end

lemma router_sound:
  assumes "service_keeps sound s" shows "keeps sound (router_handle s ctx th c em)"
  by (rule sound.router_keeps[OF assms conv_append_sound enqueue_sound])

subsection \<open>The title of a task\<close>

lemma rstrip_cons: "s \<noteq> [] \<Longrightarrow> \<not> is_space (hd s) \<Longrightarrow> rstrip s \<noteq> []"
  by (cases s) (auto simp: rstrip_def dropWhile_eq_Nil_conv)

lemma title_length: "length (title_from_content c) \<le> TASK_TITLE_MAX \<and> title_from_content c \<noteq> []"
proof -
  let ?l = "strip (before newline (strip c))"
  have "length (rstrip (take (TASK_TITLE_MAX - 1) s)) \<le> TASK_TITLE_MAX - 1" for s
    using length_rstrip[of "take (TASK_TITLE_MAX - 1) s"] by simp
  then have "length (rstrip (take (TASK_TITLE_MAX - 1) s) @ [ellipsis]) \<le> TASK_TITLE_MAX" for s
    by (simp add: TASK_TITLE_MAX_def le_diff_conv2)
  then show ?thesis
    by (auto simp: title_from_content_def Let_def TASK_TITLE_MAX_def)
qed

subsection \<open>What a handled message leaves in the conversation\<close>

interpretation msgs: free_frame "extends messages 0"
  by unfold_locales (auto simp: extends_0 box_step_def)

interpretation msgs: service_order "extends messages 0"
proof unfold_locales
  have upd: "keeps (extends messages 0) (update_task p f)" for p f
    unfolding update_task_def by (rule msgs.stmt) (simp add: keeps_def extends_0)
  show "keeps (extends messages 0) (mark_started tid)" "keeps (extends messages 0) (mark_completed tid)"
    "keeps (extends messages 0) (mark_failed tid r)" for tid r
    unfolding mark_started_def mark_completed_def mark_failed_def by (rule upd)+
  show "keeps (extends messages 0) (plan_store u th pt c em st)"
    "keeps (extends messages 0) (attach_plan tid i)" "keeps (extends messages 0) (append_event t ev ct)"
    "keeps (extends messages 0) (task_create u ti ds ch p b pat)"
    for u th tid pt c em st i t ev ct ti ds ch p b pat
    unfolding plan_store_def attach_plan_def append_event_def task_create_def
    by (rule msgs.stmt; auto simp: keeps_def extends_0 Let_def)+
  show "keeps (extends messages 0) (rollup_spent_cents tid)" for tid
    unfolding rollup_spent_cents_def Let_def
    by (intro msgs.bind msgs.read msgs.ret msgs.andThen upd)
qed

definition turn_ok ::
  "uuid \<Rightarrow> dict \<Rightarrow> pystr \<Rightarrow> message list \<Rightarrow> exn + pystr \<Rightarrow> message list \<Rightarrow> bool" where
  "turn_ok th meta content ms r ms' \<longleftrightarrow>
     (\<exists>rows. ms' = ms @ rows \<and>
        (rows = [] \<or> (\<exists>u. rows = [u] \<and> recorded th ''user'' content meta u) \<or>
         (\<exists>final u a. r = Inr final \<and> rows = [u, a] \<and> recorded th ''user'' content meta u \<and>
            recorded th ''assistant'' final meta a)))"

lemma turn_ok_fail: "turn_ok th meta c ms r ms"
  by (simp add: turn_ok_def)

lemma turn_ok_written: "turn_written th meta c ms r ms' \<Longrightarrow> turn_ok th meta c ms r ms'"
  by (auto simp: turn_written_def turn_ok_def split: sum.splits)

lemma turn_bind:
  assumes "keeps (extends messages 0) m" and "bindE m f w = (r, w')"
    and "\<And>x v. messages v = messages w \<Longrightarrow> f x v = (r, w') \<Longrightarrow> turn_ok th meta c (messages v) r (messages w')"
  shows "turn_ok th meta c (messages w) r (messages w')"
  using bind_frame[OF assms(1,2)] assms(3) turn_ok_fail by metis

lemma turn_then:
  assumes "keeps (extends messages 0) m" and "thenE m k w = (r, w')"
    and "\<And>v. messages v = messages w \<Longrightarrow> k v = (r, w') \<Longrightarrow> turn_ok th meta c (messages v) r (messages w')"
  shows "turn_ok th meta c (messages w) r (messages w')"
  using turn_bind[OF assms(1) assms(2)[unfolded thenE_def]] assms(3) by blast

lemma record_turn_ok:
  assumes "thenE (record_turn cfg ctx th content final) (ret final) w = (r, w')"
  shows "turn_ok th (channel_meta ctx) content (messages w) r (messages w')"
proof -
  let ?app = "\<lambda>role c. conv_append cfg th role c (channel_meta ctx)"
  obtain r1 w1 where one: "?app ''user'' content w = (r1, w1)" by (cases "?app ''user'' content w")
  from one show ?thesis
  proof (cases rule: conv_append_cases)
    case (failed e)
    then show ?thesis
      using assms one
      by (simp add: record_turn_def thenE_def bindE_def best_effort_def) (metis turn_ok_fail)
  next
    case (stored i u)
    obtain r2 w2 where two: "?app ''assistant'' final w1 = (r2, w2)"
      by (cases "?app ''assistant'' final w1")
    have r: "r = Inr final" "w' = w2"
      using assms one two stored(1)
      by (auto simp: record_turn_def thenE_def bindE_def best_effort_def split: sum.splits)
    from two show ?thesis
    proof (cases rule: conv_append_cases)
      case (stored i' a)
      then show ?thesis using \<open>messages w1 = _\<close> \<open>m_thread_id u = _\<close> \<open>m_role u = _\<close> \<open>m_content u = _\<close>
          \<open>m_metadata u = _\<close> r by (auto simp: turn_ok_def recorded_def)
    next
      case (failed e)
      then show ?thesis using stored r by (auto simp: turn_ok_def recorded_def)
    qed
  qed
qed

lemma handle_plan_turn:
  assumes s: "service_keeps (extends messages 0) s" and run: "handle_plan s ctx th c h em w = (r, w')"
  shows "turn_ok th (channel_meta ctx) c (messages w) r (messages w')"
proof -
  let ?ok = "\<lambda>v. turn_ok th (channel_meta ctx) c (messages v) r (messages w')"
  note d = service_keepsD(1)[OF s]
  have inline: "?ok v" if "run_plan_inline s ctx th c p em v = (r, w')" for p v
    using that unfolding run_plan_inline_def
  proof (rule turn_bind[OF msgs.execute_keeps[OF service_keepsD(2)[OF s]]])
    fix x v1 assume "thenE (score_and_persist s ctx p x em)
      (thenE (record_turn (pn_settings (sv_agents s)) ctx th c (x_final_answer x))
        (ret (x_final_answer x))) v1 = (r, w')"
    then show "?ok v1"
      by (rule turn_then[OF msgs.score_and_persist_keeps[OF s]]) (rule record_turn_ok)
  qed
  have pick: "keeps (extends messages 0) (if b then background_task s q em
      else bindE (service_create_and_run s q em (Some p)) (\<lambda>out. ret (o_answer out)))" for b q p
    unfolding background_task_def enqueue_run_task_def
    by (intro msgs.if_ msgs.bind msgs.andThen msgs.emit msgs.ret msgs.service_create_keeps
        msgs.create_and_run_keeps s enqueue_messages)
  have as_task: "?ok v" if "run_plan_as_task s ctx th c h p em v = (r, w')" for p v
    using that unfolding run_plan_as_task_def Let_def
  proof (rule turn_bind[OF msgs.lift])
    fix needs v1
    assume "bindE (if workers_enabled (pn_settings (sv_agents s)) \<and> \<not> (needs \<and> em)
             then background_task s (plan_request ctx th c h) em
             else bindE (service_create_and_run s (plan_request ctx th c h) em (Some p))
                    (\<lambda>out. ret (o_answer out)))
        (\<lambda>final. thenE (record_turn (pn_settings (sv_agents s)) ctx th c final) (ret final)) v1 = (r, w')"
    then show "?ok v1" by (rule turn_bind[OF pick]) (rule record_turn_ok)
  qed
  have rest: "?ok v" if "(case x of (p, y, z) \<Rightarrow> thenE (maybe_emit em ''plan'' (summarize_plan_for_event p))
    (if pl_is_task p then run_plan_as_task s ctx th c h p em else run_plan_inline s ctx th c p em)) v = (r, w')"
    for x :: "plan \<times> pre_verdict \<times> bool" and v
  proof -
    obtain p y z where x: "x = (p, y, z)" by (cases x)
    from that[unfolded x, simplified] show ?thesis
    proof (rule turn_then[OF msgs.emit])
      fix u assume "(if pl_is_task p then run_plan_as_task s ctx th c h p em
        else run_plan_inline s ctx th c p em) u = (r, w')"
      then show "?ok u" by (cases "pl_is_task p") (simp_all only: if_True if_False inline as_task)
    qed
  qed
  show ?thesis
    using run unfolding handle_plan_def
    by (rule turn_bind[OF msgs.plan_with_pre_evaluation_keeps[OF d msgs.store]]) (rule rest)
qed

lemma router_turn:
  assumes s: "service_keeps (extends messages 0) s" and run: "router_handle s ctx th c em w = (r, w')"
  shows "turn_ok th (channel_meta ctx) c (messages w) r (messages w')"
  using run unfolding router_handle_def
proof (rule turn_bind[OF msgs.classify_keeps[OF service_keepsD(1)[OF s]]])
  fix v u
  let ?ok = "\<lambda>v. turn_ok th (channel_meta ctx) c (messages v) r (messages w')"
  assume "thenE (maybe_emit em ''triage''
              (route_text (tv_route v) @ '' '' @ [em_dash] @ '' '' @ json_str (tv_reasoning v)))
    (case tv_route v of
       Quick \<Rightarrow> quick_handle (sv_agents s) ctx th c em
     | Plan \<Rightarrow> handle_plan s ctx th c (tv_complexity v) em) u = (r, w')"
  then show "?ok u"
  proof (rule turn_then[OF msgs.emit])
    fix u' assume "(case tv_route v of
       Quick \<Rightarrow> quick_handle (sv_agents s) ctx th c em
     | Plan \<Rightarrow> handle_plan s ctx th c (tv_complexity v) em) u' = (r, w')"
    then show "?ok u'"
      using turn_ok_written[OF quick_handle_written[OF service_keepsD(1)[OF s] service_keepsD(4)[OF s]]]
        handle_plan_turn[OF s]
      by (auto split: route.splits)
  qed
qed

subsection \<open>Properties\<close>

text \<open>C16: Whichever path a message takes, quick, inline plan, background or inline task, with any
  depth of sub-tasks and whatever fails, it adds at most two rows to the conversation, on its own
  thread: the user's message, and after it the answer that is returned. No answer is recorded
  for a message that raised, and none without its question.\<close>

theorem router_turn_recorded:
  assumes "service_keeps (extends messages 0) s"
    and "router_handle (service_at n s) ctx th c em w = (r, w')"
  shows "\<exists>rows. messages w' = messages w @ rows \<and>
    (rows = [] \<or> (\<exists>u. rows = [u] \<and> recorded th ''user'' c (channel_meta ctx) u) \<or>
     (\<exists>final u a. r = Inr final \<and> rows = [u, a] \<and>
        recorded th ''user'' c (channel_meta ctx) u \<and>
        recorded th ''assistant'' final (channel_meta ctx) a))"
  using router_turn[OF msgs.service_at_keeps[OF assms(1)] assms(2)] unfolding turn_ok_def .

text \<open>The title of a task made from a message is never empty and never longer than 80
  characters, whatever the message is.\<close>

theorem title_in_bounds:
  "0 < length (title_from_content c) \<and> length (title_from_content c) \<le> 80"
  using title_length[of c] by (simp add: TASK_TITLE_MAX_def)

subsection \<open>Witnesses\<close>

lemma router_turn_recorded_witness:
  "length (messages (snd (router_handle (service_at 3 sample_service) sample_ctx0 (Uuid 7) ''hi''
      False talk))) \<le> 2"
proof -
  obtain r w' where run: "router_handle (service_at 3 sample_service) sample_ctx0 (Uuid 7) ''hi''
      False talk = (r, w')"
    by (cases "router_handle (service_at 3 sample_service) sample_ctx0 (Uuid 7) ''hi'' False talk")
  from router_turn_recorded[OF msgs.sample_service_keeps run] show ?thesis
    by (auto simp: run talk_script)
qed

end
