(* ===== verification/Commands.thy ===== *)
theory Commands
  imports Tasks_Dao Conversation
begin

section \<open>Slash commands\<close>

text \<open>
  \<open>src/wolfpaw/channels/commands.py\<close>, the dispatcher every channel asks before it calls the
  router, with its commands \<open>/help\<close> and \<open>/reset\<close>, and \<open>src/wolfpaw/tasks/commands.py\<close>:
  \<open>/tasks\<close>, \<open>/task\<close> and \<open>/cancel\<close>. The dispatcher is a list of specifications, one per name;
  \<open>strftime\<close> is a parameter of the commands that print times.
\<close>

record inbound_message =
  im_user :: uuid
  im_content :: pystr
  im_channel :: pystr
  im_thread :: "uuid option"
  im_metadata :: dict

record command_result =
  cr_text :: pystr
  cr_clear_thread :: bool

definition said :: "pystr \<Rightarrow> command_result" where
  "said s = \<lparr> cr_text = s, cr_clear_thread = False \<rparr>"

record command_spec =
  cs_name :: pystr
  cs_description :: pystr
  cs_handler :: "inbound_message \<Rightarrow> pystr \<Rightarrow> command_result act"

type_synonym dispatcher = "command_spec list"

definition command_key :: "pystr \<Rightarrow> pystr" where
  "command_key name = lower (dropWhile (\<lambda>c. c = CHR ''/'') name)"

definition find_command :: "dispatcher \<Rightarrow> pystr \<Rightarrow> command_spec option" where
  "find_command d name = find (\<lambda>s. cs_name s = name) d"

definition register_command :: "dispatcher \<Rightarrow> command_spec \<Rightarrow> exn + dispatcher" where
  "register_command d spec =
     (let key = command_key (cs_name spec); s = spec\<lparr>cs_name := key\<rparr>
      in if key = [] then Inl (ValueError ''command name cannot be empty'')
         else if find_command d key = None then Inr (d @ [s])
         else Inr (map (\<lambda>old. if cs_name old = key then s else old) d))"

definition sorted_commands :: "dispatcher \<Rightarrow> dispatcher" where
  "sorted_commands d = sort_key (\<lambda>s. map code (cs_name s)) d"

definition split_command :: "pystr \<Rightarrow> (pystr \<times> pystr) option" where
  "split_command s =
     (let body = lstrip s; name = takeWhile (\<lambda>c. \<not> is_space c) body
      in if body = [] then None
         else Some (name, lstrip (dropWhile (\<lambda>c. \<not> is_space c) body)))"

definition dispatch :: "dispatcher \<Rightarrow> inbound_message \<Rightarrow> command_result option act" where
  "dispatch d message =
     (let content = strip (im_content message) in
      if \<not> starts_with ''/'' content \<or> length content < 2 then ret None
      else case split_command (tl content) of
        None \<Rightarrow> ret None
      | Some (word, args) \<Rightarrow>
          (case find_command d (lower word) of
             None \<Rightarrow> ret (Some (said (''Unknown command: /'' @ lower word @ ''. Try /help.'')))
           | Some spec \<Rightarrow> bindE (cs_handler spec message args) (\<lambda>r. ret (Some r))))"

subsection \<open>The commands of the dispatcher itself\<close>

definition help_text :: "dispatcher \<Rightarrow> pystr" where
  "help_text d = lines_of (''Available commands:'' #
     map (\<lambda>s. ''  /'' @ cs_name s @ '' '' @ [em_dash] @ '' '' @ cs_description s) (sorted_commands d))"

definition help_command :: "dispatcher \<Rightarrow> inbound_message \<Rightarrow> pystr \<Rightarrow> command_result act" where
  "help_command d message args = ret (said (help_text d))"

definition reset_command ::
  "pystr option \<Rightarrow> inbound_message \<Rightarrow> pystr \<Rightarrow> command_result act" where
  "reset_command soul_version message args =
     bindE (attemptE (get_or_create_thread soul_version (im_user message) (im_channel message) None))
       (\<lambda>r. case r of
          Inl _ \<Rightarrow> ret (said (''Couldn'' @ [squote] @
            ''t reset the thread right now. Try again in a moment.''))
        | Inr _ \<Rightarrow> ret \<lparr> cr_text = ''Thread reset. Your next message starts a fresh conversation.'',
            cr_clear_thread = True \<rparr>)"

subsection \<open>The commands of tasks\<close>

definition pad :: "nat \<Rightarrow> pystr \<Rightarrow> pystr" where
  "pad n s = s @ replicate (n - length s) CHR '' ''"

definition couldnt :: "pystr \<Rightarrow> exn \<Rightarrow> command_result" where
  "couldnt what e = said (''Couldn'' @ [squote] @ ''t '' @ what @ '': '' @ exn_str e)"

definition task_line :: "(time \<Rightarrow> pystr) \<Rightarrow> task \<Rightarrow> pystr" where
  "task_line date t =
     ''  ['' @ pad 14 (status_text (t_status t)) @ ''] '' @ uuid_text (t_id t) @ ''  '' @ t_title t @
     ''  ('' @ date (case t_last_active_at t of None \<Rightarrow> t_created_at t | Some at \<Rightarrow> at) @ '')'' @
     (case t_blocking_reason t of None \<Rightarrow> []
      | Some r \<Rightarrow> if r = [] then [] else '' '' @ [em_dash] @ '' blocked: '' @ r)"

definition tasks_command :: "(time \<Rightarrow> pystr) \<Rightarrow> inbound_message \<Rightarrow> pystr \<Rightarrow> command_result act" where
  "tasks_command date message args =
     bindE (attemptE (list_tasks_for_user (im_user message) [] 20)) (\<lambda>r. case r of
       Inl e \<Rightarrow> ret (couldnt ''list tasks'' e)
     | Inr rows \<Rightarrow> ret (said (if rows = [] then ''No tasks yet.''
         else lines_of (''Recent tasks:'' # map (task_line date) rows))))"

definition event_line :: "(time \<Rightarrow> pystr) \<Rightarrow> task_event \<Rightarrow> pystr" where
  "event_line clock e = ''    '' @ clock (e_created_at e) @ ''  '' @ e_event_type e"

definition last_items :: "nat \<Rightarrow> 'a list \<Rightarrow> 'a list" where
  "last_items n xs = drop (length xs - n) xs"

definition optional_line :: "pystr \<Rightarrow> pystr option \<Rightarrow> pystr list" where
  "optional_line label v = (case v of None \<Rightarrow> [] | Some s \<Rightarrow> if s = [] then [] else [label @ s])"

definition task_detail :: "(time \<Rightarrow> pystr) \<Rightarrow> task \<Rightarrow> task_event list \<Rightarrow> pystr" where
  "task_detail clock t events = lines_of
     ([''Task '' @ uuid_text (t_id t), ''  Title:  '' @ t_title t,
       ''  Status: '' @ status_text (t_status t),
       ''  Spent:  '' @ show_int (t_spent_cents t) @ [cent_sign]] @
      optional_line ''  Blocking: '' (t_blocking_reason t) @
      optional_line ''  Description: '' (t_description t) @
      (if events = [] then [] else ''  Events:'' # map (event_line clock) (last_items 15 events)))"

definition task_command :: "(time \<Rightarrow> pystr) \<Rightarrow> inbound_message \<Rightarrow> pystr \<Rightarrow> command_result act" where
  "task_command clock message args =
     (case parse_uuid (strip args) of
        None \<Rightarrow> ret (said ''Usage: /task <id>. Use /tasks to find an id.'')
      | Some tid \<Rightarrow>
          bindE (attemptE
            (bindE (get_task_by_id (im_user message) tid) (\<lambda>t.
             bindE (if t = None then ret [] else fetch_events_for_task tid 50) (\<lambda>events.
             ret (t, events))))) (\<lambda>r. case r of
            Inl e \<Rightarrow> ret (couldnt ''load task'' e)
          | Inr (None, _) \<Rightarrow> ret (said (''No task with id '' @ uuid_text tid @ '' (for you).''))
          | Inr (Some t, events) \<Rightarrow> ret (said (task_detail clock t events))))"

definition cancel_task :: "uuid \<Rightarrow> uuid \<Rightarrow> task option act" where
  "cancel_task user tid =
     bindE (task_cancel user tid) (\<lambda>cancelled.
     thenE (whenE (cancelled \<noteq> None)
       (bindE (append_event (Some tid) ''status.cancelled'' [(''by'', JStr ''user'')]) (\<lambda>_.
        bindE (rollup_spent_cents tid) (\<lambda>_. ret ()))))
       (ret cancelled))"

definition cancel_command :: "inbound_message \<Rightarrow> pystr \<Rightarrow> command_result act" where
  "cancel_command message args =
     (case parse_uuid (strip args) of
        None \<Rightarrow> ret (said ''Usage: /cancel <id>.'')
      | Some tid \<Rightarrow>
          bindE (attemptE (cancel_task (im_user message) tid)) (\<lambda>r. case r of
            Inl e \<Rightarrow> ret (couldnt ''cancel'' e)
          | Inr None \<Rightarrow> ret (said (''Task '' @ uuid_text tid @ '' couldn'' @ [squote] @
              ''t be cancelled '' @ [em_dash] @ '' it'' @ [squote] @
              ''s either already terminal or doesn'' @ [squote] @ ''t belong to you.''))
          | Inr (Some _) \<Rightarrow> ret (said (''Cancelled task '' @ uuid_text tid @ ''.''))))"

subsection \<open>Dispatching\<close>

lemma find_command_in: "find_command d name = Some spec \<Longrightarrow> spec \<in> set d \<and> cs_name spec = name"
  by (auto simp: find_command_def find_Some_iff)

lemma register_finds:
  assumes "register_command d spec = Inr d'"
  shows "find_command d' (command_key (cs_name spec)) =
    Some (spec\<lparr>cs_name := command_key (cs_name spec)\<rparr>)"
proof -
  let ?k = "command_key (cs_name spec)" and ?s = "spec\<lparr>cs_name := command_key (cs_name spec)\<rparr>"
  have replaced: "find (\<lambda>s. cs_name s = ?k) (map (\<lambda>old. if cs_name old = ?k then ?s else old) d) = Some ?s"
    if "find (\<lambda>s. cs_name s = ?k) d \<noteq> None"
    using that by (induction d) auto
  have added: "find (\<lambda>s. cs_name s = ?k) (d @ [?s]) = Some ?s" if "find (\<lambda>s. cs_name s = ?k) d = None"
    using that by (induction d) (auto split: if_splits)
  show ?thesis
    using assms replaced added by (auto simp: register_command_def find_command_def Let_def split: if_splits)
qed

lemma strip_last: "strip s = [] \<or> \<not> is_space (last (strip s))"
proof -
  let ?r = "dropWhile is_space (rev (lstrip s))"
  have "?r = [] \<or> \<not> is_space (hd ?r)" using hd_dropWhile[of is_space "rev (lstrip s)"] by blast
  then show ?thesis by (auto simp: strip_def rstrip_def last_rev)
qed

lemma command_body: "length (strip s) \<ge> 2 \<Longrightarrow> lstrip (tl (strip s)) \<noteq> []"
proof -
  assume long: "length (strip s) \<ge> 2"
  then obtain a b c where s: "strip s = a # b # c" by (cases "strip s"; cases "tl (strip s)") auto
  then have "\<not> is_space (last (b # c))" using strip_last[of s] by simp
  then have "\<exists>x\<in>set (b # c). \<not> is_space x" using last_in_set[of "b # c"] by blast
  then show ?thesis by (simp add: s lstrip_def dropWhile_eq_Nil_conv)
qed

definition is_command :: "pystr \<Rightarrow> bool" where
  "is_command content \<longleftrightarrow> starts_with ''/'' (strip content) \<and> length (strip content) \<ge> 2"

lemma dispatch_plain: "\<not> is_command (im_content m) \<Longrightarrow> dispatch d m w = (Inr None, w)"
  by (auto simp: dispatch_def is_command_def Let_def)

lemma dispatch_command: "is_command (im_content m) \<Longrightarrow> dispatch d m w \<noteq> (Inr None, w')"
proof -
  assume "is_command (im_content m)"
  then have c: "starts_with ''/'' (strip (im_content m))" "\<not> length (strip (im_content m)) < 2"
    and body: "lstrip (tl (strip (im_content m))) \<noteq> []"
    using command_body by (auto simp: is_command_def)
  then show ?thesis
    by (auto simp: dispatch_def Let_def split_command_def bindE_def split: option.splits sum.splits prod.splits)
qed

subsection \<open>What a cancelled task is\<close>

definition cancelled_for :: "uuid \<Rightarrow> uuid \<Rightarrow> world \<Rightarrow> bool" where
  "cancelled_for user tid w \<longleftrightarrow>
     (\<exists>t. task_lookup tid w = Some t \<and> t_user_id t = user \<and> t_status t = Cancelled)"

lemma cancelled_stays: "evolves w w' \<Longrightarrow> cancelled_for u tid w \<Longrightarrow> cancelled_for u tid w'"
  unfolding evolves_def cancelled_for_def task_evolves_def same_identity_def
  by (metis status_steps_terminal terminal.simps(3))

lemma task_cancel_effect:
  assumes "task_cancel u tid w = (Inr (Some t), w')" and "db_ok w"
  shows "cancelled_for u tid w'"
proof -
  let ?p = "\<lambda>t. live tid t \<and> t_user_id t = u"
  have "stmt (\<lambda>w. (Inr (sql_returning ?p (set_cancelled (now w)) (tasks w)),
      w\<lparr>tasks := sql_set ?p (set_cancelled (now w)) (tasks w)\<rparr>)) w = (Inr (Some t), w')"
    using assms(1) by (simp add: task_cancel_def update_task_def)
  then show ?thesis
  proof (cases rule: sound.stmt_split)
    case (run v)
    then have keys: "key_distinct t_id (tasks v)"
      using soundD(3)[OF run(1) assms(2)] by (simp add: db_ok_def tasks_ok_def)
    obtain t0 where "sql_first ?p (tasks v) = Some t0"
      using run(2) by (auto simp: sql_returning_def)
    then have t0: "t0 \<in> set (tasks v)" "?p t0" by (auto dest: sql_first_SomeD)
    then have "task_lookup tid v = Some t0" using key_lookup_in[OF keys t0(1)] by (simp add: live_def)
    then show ?thesis
      using run(2) t0(2) cancelled.lookup_set_hit[of tid "tasks v" t0 ?p "now v"]
      by (auto simp: cancelled_for_def set_cancelled_def)
  qed simp
qed

lemma cancel_task_effect:
  assumes run: "cancel_task u tid w = (Inr (Some t), w')" and ok: "db_ok w"
  shows "cancelled_for u tid w'"
proof -
  from run obtain c w1 where one: "task_cancel u tid w = (Inr c, w1)"
    and two: "thenE (whenE (c \<noteq> None)
       (bindE (append_event (Some tid) ''status.cancelled'' [(''by'', JStr ''user'')]) (\<lambda>_.
        bindE (rollup_spent_cents tid) (\<lambda>_. ret ())))) (ret c) w1 = (Inr (Some t), w')"
    unfolding cancel_task_def by (cases rule: bindE_cases) auto
  have "c = Some t" using two by (auto simp: thenE_def bindE_def split: sum.splits prod.splits)
  then have "cancelled_for u tid w1" using task_cancel_effect one ok by blast
  moreover have "evolves w1 w'"
    using two by (rule keepsD[rotated]) (intro evolves.andThen evolves.when_ evolves.bind evolves.ret task_dao_evolves)
  ultimately show ?thesis by (rule cancelled_stays[rotated])
qed

lemma cancel_command_effect:
  assumes "parse_uuid (strip args) = Some tid" and "cancel_command m args w = (r, w')" and "db_ok w"
  shows "\<exists>reply. r = Inr reply \<and> (cr_text reply = ''Cancelled task '' @ uuid_text tid @ ''.'' \<longrightarrow>
    cancelled_for (im_user m) tid w')"
proof -
  obtain q w1 where c: "cancel_task (im_user m) tid w = (q, w1)" by (cases "cancel_task (im_user m) tid w")
  show ?thesis
    using assms(1,2) c cancel_task_effect[of "im_user m" tid w _ w1] assms(3)
    by (auto simp: cancel_command_def bindE_def attemptE_def couldnt_def said_def
        split: sum.splits option.splits)
qed

subsection \<open>Properties\<close>

text \<open>A message reaches the agents (the dispatcher answers None) exactly when, stripped, it
  does not start with a slash or is a lone slash; deciding so changes nothing. Every other message
  is answered by a command, by the hint for unknown commands, or by an exception, so no slash
  command is ever sent to a model.\<close>

theorem commands_never_leak:
  "dispatch d m w = (Inr None, w') \<longleftrightarrow>
     \<not> (starts_with ''/'' (strip (im_content m)) \<and> length (strip (im_content m)) \<ge> 2) \<and> w' = w"
  using dispatch_plain[of m d w] dispatch_command[of m d w w']
  by (cases "is_command (im_content m)") (auto simp: is_command_def)

text \<open>Whatever other processes do and whatever fails meanwhile, \<open>/cancel\<close> always replies; when
  the reply is that the task was cancelled, the task is the user's own, is cancelled, and the
  reply names it.\<close>

theorem cancel_tells_truth:
  assumes "parse_uuid (strip args) = Some tid" and "cancel_command m args w = (r, w')" and "db_ok w"
  shows "\<exists>reply. r = Inr reply \<and> (cr_text reply = ''Cancelled task '' @ uuid_text tid @ ''.'' \<longrightarrow>
    (\<exists>t. task_lookup tid w' = Some t \<and> t_user_id t = im_user m \<and> t_status t = Cancelled))"
  using cancel_command_effect[OF assms] unfolding cancelled_for_def .

text \<open>The converse does not hold: when the event of a cancellation cannot be written, the reply
  is that the task could not be cancelled although it was, since the update is already committed.\<close>

definition cancel_asked :: inbound_message where
  "cancel_asked = \<lparr> im_user = Uuid 1, im_content = ''/cancel '' @ uuid_text (Uuid 5),
     im_channel = ''web'', im_thread = None, im_metadata = [] \<rparr>"

definition cancel_case :: world where
  "cancel_case = empty_world\<lparr>next_id := 9, now := 100,
     tasks := [new_task (Uuid 5) 50 (Uuid 1) ''t'' None None None None None],
     script := [([], None), ([], Some (DbError ''gone''))]\<rparr>"

lemma cancel_denies_its_effect:
  "\<exists>w'. cancel_command cancel_asked (uuid_text (Uuid 5)) cancel_case
      = (Inr (said (''Couldn'' @ [squote] @ ''t cancel: gone'')), w') \<and>
    (\<exists>t. task_lookup (Uuid 5) w' = Some t \<and> t_status t = Cancelled)"
proof -
  have "parse_uuid (strip (uuid_text (Uuid 5))) = Some (Uuid 5)"
    by (simp add: strip_uuid_text parse_uuid_text valid_uuid_def)
  then show ?thesis
    by (simp add: cancel_command_def cancel_task_def cancel_asked_def cancel_case_def task_cancel_def
        update_task_def append_event_def stmt_def others_def bindE_def thenE_def attemptE_def whenE_def
        Let_def couldnt_def live_def new_task_def sql_returning_def set_cancelled_def empty_world_def)
qed

subsection \<open>Witnesses\<close>

definition quiet_cancel :: world where
  "quiet_cancel = cancel_case\<lparr>script := []\<rparr>"

lemma quiet_cancel_ok: "db_ok quiet_cancel"
  by (simp add: quiet_cancel_def cancel_case_def empty_world_def db_ok_def tasks_ok_def questions_ok_def
      key_distinct_def row_ok_def link_ok_def new_task_def)

lemma cancel_tells_truth_witness:
  "\<exists>t. task_lookup (Uuid 5) (snd (cancel_command cancel_asked (uuid_text (Uuid 5)) quiet_cancel)) = Some t \<and>
     t_user_id t = Uuid 1 \<and> t_status t = Cancelled"
proof -
  obtain r w' where run: "cancel_command cancel_asked (uuid_text (Uuid 5)) quiet_cancel = (r, w')"
    by (cases "cancel_command cancel_asked (uuid_text (Uuid 5)) quiet_cancel")
  have id: "parse_uuid (strip (uuid_text (Uuid 5))) = Some (Uuid 5)"
    by (simp add: strip_uuid_text parse_uuid_text valid_uuid_def)
  then have "r = Inr (said (''Cancelled task '' @ uuid_text (Uuid 5) @ ''.''))"
    using run
    by (simp add: cancel_command_def cancel_task_def cancel_asked_def quiet_cancel_def cancel_case_def
        task_cancel_def update_task_def append_event_def bindE_def thenE_def attemptE_def whenE_def
        Let_def live_def new_task_def sql_returning_def set_cancelled_def empty_world_def
        rollup_spent_cents_def split: prod.splits sum.splits)
  moreover have "im_user cancel_asked = Uuid 1" by (simp add: cancel_asked_def)
  ultimately show ?thesis
    unfolding run snd_conv using cancel_tells_truth[OF id run quiet_cancel_ok] by (auto simp: said_def)
qed

end
