(* ===== verification/Compaction.thy ===== *)
theory Compaction
  imports Executor Agent_Orders Conversation
begin

section \<open>Compaction of threads\<close>

text \<open>
  \<open>src/wolfpaw/workers/jobs/compact_thread.py\<close>: the job that folds the older messages of a
  thread into level-1 summaries, those into level-2 summaries, and those into one level-3 digest
  that is rewritten in place. The summarizer is a parameter of the folds; \<open>haiku_summarizer\<close>
  is the one the program uses, a metered model call. \<open>isoformat\<close> is its parameter \<open>date\<close>.

  The three loops of the source are \<open>while True\<close>; here each takes fuel, and \<open>False\<close> is the value
  of a loop that ran out of it. \<open>compact_thread\<close> gives a loop one unit more than the rows it can
  still fold, and the theorems show that this is enough.
\<close>

subsection \<open>What the summarizer reads\<close>

datatype fold_item =
    MessageItem pystr pystr time
  | L1Item pystr time
  | L2Item pystr time
  | DigestItem pystr

type_synonym summarizer = "fold_item list \<Rightarrow> uuid \<Rightarrow> pystr act"

definition l1_system_prompt :: pystr where
  "l1_system_prompt = lines_of
     [''You are the **Compactor**. You distill an excerpt of a chat thread into a tight Markdown '' @
      ''summary that preserves the parts a future agent will need to keep a coherent '' @
      ''conversation: who asked what, what was answered, decisions made, deliverables produced, '' @
      ''and any open threads. Lose pleasantries, repetition, and filler.'',
      [],
      ''Write 3-8 short bullets. Be concrete. Lead each bullet with the most-load-bearing noun. '' @
      ''Don't hedge.'']"

definition l2_system_prompt :: pystr where
  "l2_system_prompt = lines_of
     [''You are the **Compactor**, folding several mid-level summaries of the same chat thread '' @
      ''into a single higher-level summary. Preserve the load-bearing facts: persistent context '' @
      ''about who this user is and what they've been working on, plus a chronological skeleton of '' @
      ''the major turns.'',
      [],
      ''Write 4-10 short bullets. Be concrete. The reader is a future agent picking up the thread '' @
      ''cold.'']"

definition l3_system_prompt :: pystr where
  "l3_system_prompt = lines_of
     [''You are the **Compactor** maintaining the long-term memory digest of a very long-running '' @
      ''chat thread. You are given the CURRENT digest (if one exists) followed by newer mid-level '' @
      ''summaries that now need to be absorbed into it. Rewrite the whole thing into a SINGLE '' @
      ''consolidated digest.'',
      [],
      ''This digest is fixed-budget: it lands in every future prompt, so it must not grow. Keep '' @
      ''the most durable, load-bearing facts '' @ [em_dash] @
      '' who this user is, standing preferences and '' @
      ''context, long-running projects, major decisions and outcomes '' @ [em_dash] @
      '' and let older, '' @
      ''less-important specifics compress away or drop entirely. Recent material deserves more '' @
      ''detail than distant material. It is expected and acceptable that the digest becomes '' @
      ''vaguer about the distant past over time.'',
      [],
      ''Write tight Markdown, at most ~12 short bullets, grouped sensibly (e.g. '' @ [dquote] @
      ''About the user'' @ [dquote] @ '', '' @ [dquote] @ ''Ongoing work'' @ [dquote] @ '', '' @
      [dquote] @ ''History'' @ [dquote] @
      ''). Be concrete. The reader is a future agent picking up the '' @
      ''thread cold. Return ONLY the rewritten digest.'']"

datatype fold_mode = FoldMessages | FoldL1 | FoldL2

fun is_upper_item :: "fold_item \<Rightarrow> bool" where
  "is_upper_item (L2Item _ _) = True"
| "is_upper_item (DigestItem _) = True"
| "is_upper_item _ = False"

fun is_l1_item :: "fold_item \<Rightarrow> bool" where
  "is_l1_item (L1Item _ _) = True"
| "is_l1_item _ = False"

definition mode_of :: "fold_item list \<Rightarrow> fold_mode" where
  "mode_of items = (if list_ex is_upper_item items then FoldL2
     else if list_ex is_l1_item items then FoldL1 else FoldMessages)"

fun item_text :: "fold_item \<Rightarrow> pystr" where
  "item_text (MessageItem _ c _) = c"
| "item_text (L1Item s _) = s"
| "item_text (L2Item s _) = s"
| "item_text (DigestItem s) = s"

fun excerpt_lines :: "(time \<Rightarrow> pystr) \<Rightarrow> fold_item \<Rightarrow> pystr list" where
  "excerpt_lines date (MessageItem role content at) =
     [''**'' @ role @ ''** ('' @ date at @ ''):'', content, []]"
| "excerpt_lines date _ = []"

definition ruled :: "fold_item list \<Rightarrow> pystr list" where
  "ruled items = concat (map (\<lambda>i. [''---'', item_text i]) items) @ [''---'']"

definition format_items_for_prompt :: "(time \<Rightarrow> pystr) \<Rightarrow> fold_item list \<Rightarrow> fold_mode \<Rightarrow> pystr" where
  "format_items_for_prompt date items mode = lines_of (case mode of
     FoldL2 \<Rightarrow>
       (let (digest, rest) = (case items of DigestItem s # more_items \<Rightarrow> (s, more_items)
              | _ \<Rightarrow> (''(none yet '' @ [em_dash] @ '' this is the first digest)'', items))
        in [''# Current long-term digest'' @ [newline], digest, [],
            ''# New summaries to absorb (chronological)'' @ [newline]] @ ruled rest @
           [[newline] @ ''Rewrite the current digest and the new summaries into one'' @
            '' consolidated fixed-budget digest.''])
   | FoldL1 \<Rightarrow>
       [''# Previous summaries (chronological)'' @ [newline]] @ ruled items @
       [[newline] @ ''Fold the above into one higher-level summary.'']
   | FoldMessages \<Rightarrow>
       [''# Conversation excerpt (chronological)'' @ [newline]] @
       concat (map (excerpt_lines date) items) @ [''Summarize the above excerpt.''])"

definition haiku_summarizer :: "settings \<Rightarrow> llm \<Rightarrow> (time \<Rightarrow> pystr) \<Rightarrow> summarizer" where
  "haiku_summarizer cfg llm date items user =
     (if items = [] then ret []
      else let mode = mode_of items in
        bindE (model_call cfg llm
          \<lparr> ca_user = user, ca_agent = ''compactor'', ca_model = model_triage cfg,
            ca_messages = [user_message (format_items_for_prompt date items mode)],
            ca_system = Some (case mode of FoldMessages \<Rightarrow> l1_system_prompt
              | FoldL1 \<Rightarrow> l2_system_prompt | FoldL2 \<Rightarrow> l3_system_prompt),
            ca_max_tokens = Some (if mode = FoldL2 then l3_max_tokens cfg else 600),
            ca_prompt_version = None, ca_task = None, ca_extra = [] \<rparr>)
          (\<lambda>r. ret (strip (mr_text r))))"

subsection \<open>The statements\<close>

definition latest :: "time list \<Rightarrow> time option" where
  "latest ts = (case ts of [] \<Rightarrow> None | t # rest \<Rightarrow> Some (fold max rest t))"

definition end_time :: "world \<Rightarrow> thread_summary \<Rightarrow> time option" where
  "end_time w s =
     Option.bind (ts_end s) (\<lambda>i. map_option m_created_at (key_lookup m_id i (messages w)))"

definition at_level :: "uuid \<Rightarrow> nat \<Rightarrow> thread_summary \<Rightarrow> bool" where
  "at_level th n s = (ts_thread_id s = th \<and> ts_level s = n)"

definition covered_end :: "uuid \<Rightarrow> world \<Rightarrow> time option" where
  "covered_end th w = latest (List.map_filter (end_time w) (filter (at_level th 1) (summaries w)))"

definition unsummarized_older :: "uuid \<Rightarrow> nat \<Rightarrow> nat \<Rightarrow> world \<Rightarrow> message list" where
  "unsummarized_older th recent limit w =
     take limit (filter (\<lambda>m. m_id m \<notin> recent_ids (Some th) recent (messages w) \<and>
         (case covered_end th w of None \<Rightarrow> True | Some t \<Rightarrow> t < m_created_at m))
       (history th (messages w)))"

definition message_missing :: "uuid option \<Rightarrow> world \<Rightarrow> bool" where
  "message_missing i w = (case i of None \<Rightarrow> False | Some u \<Rightarrow> key_lookup m_id u (messages w) = None)"

definition insert_summary ::
  "uuid \<Rightarrow> nat \<Rightarrow> pystr \<Rightarrow> uuid option \<Rightarrow> uuid option \<Rightarrow> uuid act" where
  "insert_summary th level summary start_id end_id = stmt (\<lambda>w.
     if thread_lookup th w = None \<or> message_missing start_id w \<or> message_missing end_id w
     then (Inl (DbError ''violates foreign key''), w)
     else (Inr (Uuid (next_id w)), w\<lparr>next_id := Suc (next_id w), summaries := summaries w @
       [\<lparr> ts_id = Uuid (next_id w), ts_thread_id = th, ts_level = level, ts_text = summary,
          ts_start = start_id, ts_end = end_id, ts_created_at = now w, ts_folded_into = None \<rparr>]\<rparr>))"

definition unfolded :: "uuid \<Rightarrow> nat \<Rightarrow> thread_summary \<Rightarrow> bool" where
  "unfolded th n s = (at_level th n s \<and> ts_folded_into s = None)"

definition oldest_unfolded :: "uuid \<Rightarrow> nat \<Rightarrow> nat \<Rightarrow> world \<Rightarrow> thread_summary list" where
  "oldest_unfolded th n limit w =
     take limit (sort_key (\<lambda>s. (ts_created_at s, ts_id s)) (filter (unfolded th n) (summaries w)))"

definition stamp_folded :: "uuid \<Rightarrow> uuid list \<Rightarrow> unit act" where
  "stamp_folded parent ids = stmt (modifyE (\<lambda>w. w\<lparr>summaries :=
     sql_set (\<lambda>s. ts_id s \<in> set ids) (\<lambda>s. s\<lparr>ts_folded_into := Some parent\<rparr>) (summaries w)\<rparr>))"

definition find_digest :: "uuid \<Rightarrow> thread_summary option act" where
  "find_digest th = stmt (getsE (\<lambda>w. sql_first (at_level th 3) (summaries w)))"

definition rewrite_digest ::
  "uuid \<Rightarrow> pystr \<Rightarrow> uuid option \<Rightarrow> uuid option \<Rightarrow> unit act" where
  "rewrite_digest i summary start_id end_id = stmt (\<lambda>w.
     if message_missing start_id w \<or> message_missing end_id w
     then (Inl (DbError ''violates foreign key''), w)
     else (Inr (), w\<lparr>summaries := sql_set (\<lambda>s. ts_id s = i)
       (\<lambda>s. s\<lparr>ts_text := summary, ts_start := start_id, ts_end := end_id, ts_created_at := now w\<rparr>)
       (summaries w)\<rparr>))"

subsection \<open>The three folds\<close>

definition index_error :: exn where
  "index_error = OtherError ''list index out of range''"

fun drain_l1 :: "nat \<Rightarrow> settings \<Rightarrow> summarizer \<Rightarrow> uuid \<Rightarrow> uuid \<Rightarrow> bool act" where
  "drain_l1 0 cfg sm th user = ret False"
| "drain_l1 (Suc n) cfg sm th user =
     bindE (stmt (getsE (\<lambda>w. length (filter (in_thread th) (messages w))))) (\<lambda>total.
     if total < compaction_trigger_threshold cfg then ret True
     else bindE (stmt (getsE (unsummarized_older th (recent_window_size cfg)
                               (compaction_window_size cfg)))) (\<lambda>old.
     if length old < compaction_window_size cfg then ret True
     else bindE (sm (map (\<lambda>m. MessageItem (m_role m) (m_content m) (m_created_at m)) old) user)
       (\<lambda>summary.
     if summary = [] then ret True
     else if old = [] then raise index_error
     else bindE (insert_summary th 1 summary (Some (m_id (hd old))) (Some (m_id (last old)))) (\<lambda>_.
       drain_l1 n cfg sm th user))))"

fun drain_l2 :: "nat \<Rightarrow> settings \<Rightarrow> summarizer \<Rightarrow> uuid \<Rightarrow> uuid \<Rightarrow> bool act" where
  "drain_l2 0 cfg sm th user = ret False"
| "drain_l2 (Suc n) cfg sm th user =
     bindE (stmt (getsE (oldest_unfolded th 1 (l2_fold_threshold cfg)))) (\<lambda>l1s.
     if length l1s < l2_fold_threshold cfg then ret True
     else bindE (sm (map (\<lambda>s. L1Item (ts_text s) (ts_created_at s)) l1s) user) (\<lambda>summary.
     if summary = [] then ret True
     else if l1s = [] then raise index_error
     else bindE (insert_summary th 2 summary (ts_start (hd l1s)) (ts_end (last l1s))) (\<lambda>l2_id.
       thenE (stamp_folded l2_id (map ts_id l1s)) (drain_l2 n cfg sm th user))))"

definition digest_items :: "thread_summary option \<Rightarrow> thread_summary list \<Rightarrow> fold_item list" where
  "digest_items l3 l2s = (case l3 of None \<Rightarrow> [] | Some d \<Rightarrow> [DigestItem (ts_text d)]) @
     map (\<lambda>s. L2Item (ts_text s) (ts_created_at s)) l2s"

definition truncation_note :: pystr where
  "truncation_note = [newline, newline, ellipsis] @ ''[digest truncated]''"

definition cap_digest :: "nat \<Rightarrow> pystr \<Rightarrow> pystr" where
  "cap_digest cap digest =
     (if length digest > cap then rstrip (take cap digest) @ truncation_note else digest)"

definition write_digest ::
  "uuid \<Rightarrow> thread_summary option \<Rightarrow> pystr \<Rightarrow> thread_summary list \<Rightarrow> uuid act" where
  "write_digest th l3 digest l2s =
     (case l3 of
        Some d \<Rightarrow> thenE (rewrite_digest (ts_id d) digest (ts_start d) (ts_end (last l2s))) (ret (ts_id d))
      | None \<Rightarrow> insert_summary th 3 digest (ts_start (hd l2s)) (ts_end (last l2s)))"

fun drain_l3 :: "nat \<Rightarrow> settings \<Rightarrow> summarizer \<Rightarrow> uuid \<Rightarrow> uuid \<Rightarrow> bool act" where
  "drain_l3 0 cfg sm th user = ret False"
| "drain_l3 (Suc n) cfg sm th user =
     bindE (stmt (getsE (oldest_unfolded th 2 (l3_fold_threshold cfg)))) (\<lambda>l2s.
     if length l2s < l3_fold_threshold cfg then ret True
     else bindE (find_digest th) (\<lambda>l3.
     bindE (sm (digest_items l3 l2s) user) (\<lambda>raw.
     if raw = [] then ret True
     else if l2s = [] then raise index_error
     else bindE (write_digest th l3 (cap_digest (l3_char_cap cfg) raw) l2s) (\<lambda>l3_id.
       thenE (stamp_folded l3_id (map ts_id l2s)) (drain_l3 n cfg sm th user)))))"

definition thread_owner :: "uuid \<Rightarrow> uuid option act" where
  "thread_owner th = stmt (getsE (\<lambda>w. map_option th_user_id (thread_lookup th w)))"

definition message_fuel :: "nat act" where
  "message_fuel = getsE (\<lambda>w. Suc (length (messages w)))"

definition summary_fuel :: "nat act" where
  "summary_fuel = getsE (\<lambda>w. Suc (length (summaries w)))"

definition drains :: "settings \<Rightarrow> summarizer \<Rightarrow> uuid \<Rightarrow> uuid \<Rightarrow> bool act" where
  "drains cfg sm th user =
     bindE message_fuel (\<lambda>n1. bindE (drain_l1 n1 cfg sm th user) (\<lambda>b1.
     bindE summary_fuel (\<lambda>n2. bindE (drain_l2 n2 cfg sm th user) (\<lambda>b2.
     bindE summary_fuel (\<lambda>n3. bindE (drain_l3 n3 cfg sm th user) (\<lambda>b3.
     ret (b1 \<and> b2 \<and> b3)))))))"

definition compact_thread :: "settings \<Rightarrow> summarizer \<Rightarrow> uuid \<Rightarrow> bool act" where
  "compact_thread cfg sm th =
     catchE (bindE (thread_owner th) (\<lambda>owner. case owner of
               None \<Rightarrow> ret True
             | Some user \<Rightarrow> drains cfg sm th user))
       (\<lambda>_. ret True)"

subsection \<open>The jobs\<close>

definition compact_thread_job :: "settings \<Rightarrow> summarizer \<Rightarrow> pystr \<Rightarrow> bool act" where
  "compact_thread_job cfg sm thread_text =
     (case parse_uuid thread_text of
        None \<Rightarrow> raise (ValueError ''badly formed hexadecimal UUID string'')
      | Some th \<Rightarrow> compact_thread cfg sm th)"

definition embed_message_job ::
  "(pystr \<Rightarrow> embedding act) \<Rightarrow> pystr \<Rightarrow> pystr \<Rightarrow> pystr \<Rightarrow> unit act" where
  "embed_message_job embedder thread_text message_text content =
     (case parse_uuid message_text of
        None \<Rightarrow> raise (ValueError ''badly formed hexadecimal UUID string'')
      | Some i \<Rightarrow> embed_and_store embedder i content)"

end
