(* ===== verification/Compaction_Folds.thy ===== *)
theory Compaction_Folds
  imports Compaction
begin

section \<open>The folds of a compaction\<close>

text \<open>
  Rules for the statements of \<open>Compaction\<close>, the steps a fold is made of (\<open>fold_step\<close>) with what
  they keep, and the three loops: each is a sequence of such steps and ends within its fuel. The
  summarizer only has to leave the messages, threads and summaries alone (locale \<open>chat_frame\<close>).
\<close>

definition same_tables :: "world \<Rightarrow> world \<Rightarrow> bool" where
  "same_tables w w' \<longleftrightarrow> messages w' = messages w \<and> summaries w' = summaries w \<and> threads w' = threads w"

definition same_chat :: "world \<Rightarrow> world \<Rightarrow> bool" where
  "same_chat w w' \<longleftrightarrow> same_tables w w' \<and> next_id w \<le> next_id w'"

interpretation tables: ledger_frame same_tables
  by unfold_locales (auto simp: same_tables_def env_apply_frame ledger_step_def)

interpretation chat: world_order same_chat
  by unfold_locales (auto simp: same_chat_def same_tables_def)

lemma same_chatD:
  assumes "same_chat w v"
  shows "messages v = messages w" "summaries v = summaries w" "threads v = threads w" "next_id w \<le> next_id v"
  using assms by (auto simp: same_chat_def same_tables_def)

lemma haiku_keeps:
  assumes "\<And>q. keeps same_tables (llm q)" and "\<And>q. keeps sound (llm q)"
  shows "keeps same_chat (haiku_summarizer cfg llm date items user)"
proof -
  have "keeps same_tables (haiku_summarizer cfg llm date items user)"
    unfolding haiku_summarizer_def Let_def by (intro tables.if_ tables.bind tables.ret tables.call assms)
  moreover have "keeps sound (haiku_summarizer cfg llm date items user)"
    unfolding haiku_summarizer_def Let_def by (intro sound.if_ sound.bind sound.ret sound.call assms)
  ultimately show ?thesis by (auto simp: keeps_def same_chat_def dest: soundD(6))
qed

lemma near_chat: "near w v \<Longrightarrow> same_chat w v"
  by (simp add: same_chat_def same_tables_def near_frame)

subsection \<open>Rules for one statement\<close>

text \<open>\<open>runs m w Q\<close>: the run of \<open>m\<close> from \<open>w\<close>, returned or raised, satisfies \<open>Q\<close>. Each
  statement has a rule that starts in any state of the same chat as \<open>w\<close>.\<close>

definition runs :: "'a act \<Rightarrow> world \<Rightarrow> (exn + 'a \<Rightarrow> world \<Rightarrow> bool) \<Rightarrow> bool" where
  "runs m w Q \<longleftrightarrow> Q (fst (m w)) (snd (m w))"

lemma runsD: "runs m w Q \<Longrightarrow> m w = (r, w') \<Longrightarrow> Q r w'"
  by (simp add: runs_def)

lemma runsI: "(\<And>r w'. m w = (r, w') \<Longrightarrow> Q r w') \<Longrightarrow> runs m w Q"
  by (simp add: runs_def prod_eq_iff)

lemma runs_mono: "runs m w P \<Longrightarrow> (\<And>r v. P r v \<Longrightarrow> Q r v) \<Longrightarrow> runs m w Q"
  by (simp add: runs_def)

lemma runs_ret: "Q (Inr x) w \<Longrightarrow> runs (ret x) w Q" by (simp add: runs_def)
lemma runs_raise: "Q (Inl e) w \<Longrightarrow> runs (raise e) w Q" by (simp add: runs_def)
lemma runs_if: "(b \<Longrightarrow> runs m w Q) \<Longrightarrow> (\<not> b \<Longrightarrow> runs k w Q) \<Longrightarrow> runs (if b then m else k) w Q"
  by simp

lemma runs_bind:
  assumes "\<And>e u. m w = (Inl e, u) \<Longrightarrow> Q (Inl e) u"
    and "\<And>x u. m w = (Inr x, u) \<Longrightarrow> runs (f x) u Q"
  shows "runs (bindE m f) w Q"
  using assms by (cases "m w"; cases "fst (m w)") (auto simp: runs_def bindE_def)

lemma runs_then:
  "\<lbrakk>\<And>e u. m w = (Inl e, u) \<Longrightarrow> Q (Inl e) u; \<And>x u. m w = (Inr x, u) \<Longrightarrow> runs k u Q\<rbrakk> \<Longrightarrow> runs (thenE m k) w Q"
  unfolding thenE_def by (rule runs_bind)

lemma read_rule:
  assumes w: "same_chat w v" and fail: "\<And>u e. same_chat w u \<Longrightarrow> Q (Inl e) u"
    and run: "\<And>u. same_chat w u \<Longrightarrow> runs (k (f u)) u Q"
  shows "runs (bindE (stmt (getsE f)) k) v Q"
proof (rule runsI)
  fix r w' assume "bindE (stmt (getsE f)) k v = (r, w')"
  then show "Q r w'"
    by (cases rule: read_cases) (blast intro: fail runsD[OF run] chat.trans[OF w near_chat])+
qed

definition added :: "uuid \<Rightarrow> nat \<Rightarrow> thread_summary \<Rightarrow> world \<Rightarrow> world \<Rightarrow> bool" where
  "added th level row w u \<longleftrightarrow> summaries u = summaries w @ [row] \<and> messages u = messages w \<and>
     threads u = threads w \<and> at_level th level row \<and> ts_folded_into row = None \<and>
     next_id w \<le> uuid_nat (ts_id row) \<and> uuid_nat (ts_id row) < next_id u"

definition stamped :: "uuid \<Rightarrow> uuid list \<Rightarrow> thread_summary list \<Rightarrow> thread_summary list" where
  "stamped p ids ss = sql_set (\<lambda>s. ts_id s \<in> set ids) (\<lambda>s. s\<lparr>ts_folded_into := Some p\<rparr>) ss"

definition rewritten :: "uuid \<Rightarrow> pystr \<Rightarrow> uuid option \<Rightarrow> uuid option \<Rightarrow> time \<Rightarrow> thread_summary list
    \<Rightarrow> thread_summary list" where
  "rewritten i txt a b at ss = sql_set (\<lambda>s. ts_id s = i)
     (\<lambda>s. s\<lparr>ts_text := txt, ts_start := a, ts_end := b, ts_created_at := at\<rparr>) ss"

definition with_summaries :: "thread_summary list \<Rightarrow> world \<Rightarrow> world \<Rightarrow> bool" where
  "with_summaries ss w u \<longleftrightarrow> summaries u = ss \<and> messages u = messages w \<and> threads u = threads w \<and>
     next_id w \<le> next_id u"

lemma insert_rule:
  assumes w: "same_chat w v" and fail: "\<And>u e. same_chat w u \<Longrightarrow> Q (Inl e) u"
    and run: "\<And>row u. \<lbrakk>added th level row w u; ts_start row = a; ts_end row = b\<rbrakk> \<Longrightarrow> runs (k (ts_id row)) u Q"
  shows "runs (bindE (insert_summary th level txt a b) k) v Q"
proof (rule runs_bind)
  fix e u assume "insert_summary th level txt a b v = (Inl e, u)"
  then show "Q (Inl e) u" unfolding insert_summary_def
    by (cases rule: stmt_cases) (use fail chat.trans[OF w near_chat] in \<open>auto split: if_splits\<close>)
next
  fix i u assume "insert_summary th level txt a b v = (Inr i, u)"
  then show "runs (k i) u Q" unfolding insert_summary_def
  proof (cases rule: stmt_cases)
    case (run x)
    let ?row = "\<lparr> ts_id = Uuid (next_id x), ts_thread_id = th, ts_level = level, ts_text = txt,
      ts_start = a, ts_end = b, ts_created_at = now x, ts_folded_into = None \<rparr>"
    have "added th level ?row w u" "i = ts_id ?row"
      using run same_chatD[OF chat.trans[OF w near_chat[OF run(1)]]]
      by (auto simp: added_def at_level_def split: if_splits)
    with assms(3)[of ?row u] show ?thesis by simp
  qed simp
qed

lemma stamp_rule:
  assumes w: "same_chat w v" and fail: "\<And>u e. same_chat w u \<Longrightarrow> Q (Inl e) u"
    and run: "\<And>u. with_summaries (stamped p ids (summaries w)) w u \<Longrightarrow> runs k u Q"
  shows "runs (thenE (stamp_folded p ids) k) v Q"
proof (rule runs_then)
  fix e u assume "stamp_folded p ids v = (Inl e, u)"
  then show "Q (Inl e) u" unfolding stamp_folded_def
    by (cases rule: stmt_cases) (use fail chat.trans[OF w near_chat] in auto)
next
  fix x u assume "stamp_folded p ids v = (Inr x, u)"
  then show "runs k u Q" unfolding stamp_folded_def
  proof (cases rule: stmt_cases)
    case (run y)
    show ?thesis
      by (rule assms(3))
        (use run same_chatD[OF chat.trans[OF w near_chat[OF run(1)]]] in
          \<open>auto simp: with_summaries_def stamped_def\<close>)
  qed simp
qed

lemma rewrite_rule:
  assumes w: "same_chat w v" and fail: "\<And>u e. same_chat w u \<Longrightarrow> Q (Inl e) u"
    and run: "\<And>at u. with_summaries (rewritten i txt a b at (summaries w)) w u \<Longrightarrow> runs k u Q"
  shows "runs (thenE (rewrite_digest i txt a b) k) v Q"
proof (rule runs_then)
  fix e u assume "rewrite_digest i txt a b v = (Inl e, u)"
  then show "Q (Inl e) u" unfolding rewrite_digest_def
    by (cases rule: stmt_cases) (use fail chat.trans[OF w near_chat] in \<open>auto split: if_splits\<close>)
next
  fix x u assume "rewrite_digest i txt a b v = (Inr x, u)"
  then show "runs k u Q" unfolding rewrite_digest_def
  proof (cases rule: stmt_cases)
    case (run y)
    show ?thesis
      by (rule assms(3)[where at = "now y"])
        (use run same_chatD[OF chat.trans[OF w near_chat[OF run(1)]]] in
          \<open>auto simp: with_summaries_def rewritten_def split: if_splits\<close>)
  qed simp
qed

subsection \<open>The newest covered message\<close>

lemma latest_snoc: "latest (ts @ [t]) = Some (case latest ts of None \<Rightarrow> t | Some u \<Rightarrow> max t u)"
  by (simp add: latest_def split: list.splits)

lemma covered_end_snoc:
  assumes "summaries w' = summaries w @ [row]" and "messages w' = messages w"
    and "at_level th 1 row" and "end_time w row = Some t"
  shows "covered_end th w' = Some (case covered_end th w of None \<Rightarrow> t | Some u \<Rightarrow> max t u)"
proof -
  have e: "end_time w' = end_time w" using assms(2) by (simp add: end_time_def fun_eq_iff)
  have "List.map_filter (end_time w') (filter (at_level th 1) (summaries w')) =
    List.map_filter (end_time w) (filter (at_level th 1) (summaries w)) @ [t]"
    using assms by (simp add: e List.map_filter_def)
  then show ?thesis unfolding covered_end_def by (simp add: latest_snoc)
qed

definition uncovered :: "uuid \<Rightarrow> world \<Rightarrow> message \<Rightarrow> bool" where
  "uncovered th w m \<longleftrightarrow> in_thread th m \<and>
     (case covered_end th w of None \<Rightarrow> True | Some t \<Rightarrow> t < m_created_at m)"

lemma covered_end_cong:
  "messages w' = messages w \<Longrightarrow> summaries w' = summaries w \<Longrightarrow> covered_end th w' = covered_end th w"
  by (simp add: covered_end_def end_time_def[abs_def])

lemma unsummarized_cong:
  "messages w' = messages w \<Longrightarrow> summaries w' = summaries w \<Longrightarrow>
   unsummarized_older th n k w' = unsummarized_older th n k w"
  using covered_end_cong[of w' w th] by (simp add: unsummarized_older_def)

lemma uncovered_cong: "same_chat w w' \<Longrightarrow> uncovered th w' = uncovered th w"
  using covered_end_cong[of w' w th] by (simp add: uncovered_def[abs_def] same_chatD)

lemma unsummarized_uncovered:
  "m \<in> set (unsummarized_older th n k w) \<Longrightarrow> m \<in> set (messages w) \<and> uncovered th w m"
  by (auto simp: unsummarized_older_def history_def uncovered_def dest!: in_set_takeD)

lemma filter_fewer:
  "\<lbrakk>\<And>x. P x \<Longrightarrow> Q x; x \<in> set xs; Q x; \<not> P x\<rbrakk> \<Longrightarrow> length (filter P xs) < length (filter Q xs)"
proof (induction xs)
  case (Cons y ys)
  have "length (filter P ys) \<le> length (filter Q ys)"
    using Cons.prems(1) by (induction ys) (auto simp: le_Suc_eq)
  with Cons show ?case by (auto simp: less_Suc_eq_le)
qed simp

text \<open>A new summary up to an uncovered message covers it, and uncovers none.\<close>

lemma cover_step:
  assumes "summaries w' = summaries w @ [row]" "messages w' = messages w" "at_level th 1 row"
    and ends: "ts_end row = Some (m_id m)" and m: "m \<in> set (messages w)" "uncovered th w m"
    and keys: "key_distinct m_id (messages w)"
  shows "length (filter (uncovered th w') (messages w')) < length (filter (uncovered th w) (messages w))"
proof -
  have "end_time w row = Some (m_created_at m)"
    using ends key_lookup_in[OF keys m(1)] by (simp add: end_time_def)
  then have c: "covered_end th w' = Some (case covered_end th w of None \<Rightarrow> m_created_at m
      | Some u \<Rightarrow> max (m_created_at m) u)"
    by (rule covered_end_snoc[OF assms(1-3)])
  then have "uncovered th w' x \<Longrightarrow> uncovered th w x" for x
    by (auto simp: uncovered_def split: option.splits)
  moreover have "\<not> uncovered th w' m" using c m(2) by (auto simp: uncovered_def split: option.splits)
  ultimately show ?thesis
    unfolding assms(2) using m by (intro filter_fewer)
qed

subsection \<open>The loops end\<close>

definition digested :: "uuid \<Rightarrow> world \<Rightarrow> world \<Rightarrow> bool" where
  "digested th w u \<longleftrightarrow>
     (case sql_first (at_level th 3) (summaries w) of
        None \<Rightarrow> \<exists>row. added th 3 row w u
      | Some d \<Rightarrow> \<exists>body a b tm. with_summaries (rewritten (ts_id d) body a b tm (summaries w)) w u)"

lemma bindE_thenE: "bindE (thenE m (ret x)) k = thenE m (k x)"
  by (rule ext) (simp add: bindE_def thenE_def split: prod.splits sum.splits)

lemma digest_rule:
  assumes w: "same_chat w v" and fail: "\<And>u e. same_chat w u \<Longrightarrow> Q (Inl e) u"
    and run: "\<And>u i. digested th w u \<Longrightarrow> runs (k i) u Q"
  shows "runs (bindE (write_digest th (sql_first (at_level th 3) (summaries w)) body l2s) k) v Q"
proof (cases "sql_first (at_level th 3) (summaries w)")
  case None
  show ?thesis unfolding write_digest_def None option.case
    by (rule insert_rule[OF w]) (auto simp: digested_def None intro!: run fail)
next
  case (Some d)
  show ?thesis unfolding write_digest_def Some option.case bindE_thenE
    by (rule rewrite_rule[OF w]) (auto simp: digested_def Some intro!: run fail, blast)
qed

definition reticent :: "summarizer \<Rightarrow> bool" where
  "reticent sm \<longleftrightarrow> (\<exists>items user w w'. items \<noteq> [] \<and> sm items user w = (Inr [], w'))"

lemma same_chat_views:
  assumes "same_chat w v"
  shows "unsummarized_older th n k v = unsummarized_older th n k w"
    "oldest_unfolded th l n v = oldest_unfolded th l n w"
    "filter (in_thread th) (messages v) = filter (in_thread th) (messages w)"
  using unsummarized_cong[of v w] by (auto simp: same_chatD[OF assms] oldest_unfolded_def)

subsection \<open>The steps of a fold, and what they keep\<close>

inductive fold_step :: "uuid \<Rightarrow> nat set \<Rightarrow> world \<Rightarrow> world \<Rightarrow> bool" for th lv where
  idle: "same_chat w v \<Longrightarrow> fold_step th lv w v"
| add: "added th l row w v \<Longrightarrow> l \<in> lv \<Longrightarrow>
    (l = 3 \<Longrightarrow> sql_first (at_level th 3) (summaries w) = None) \<Longrightarrow> fold_step th lv w v"
| stamp: "with_summaries (stamped p ids (summaries w)) w v \<Longrightarrow> fold_step th lv w v"
| redigest: "with_summaries (rewritten (ts_id d) txt a b tm (summaries w)) w v \<Longrightarrow>
    d \<in> set (summaries w) \<Longrightarrow> at_level th 3 d \<Longrightarrow> fold_step th lv w v"

abbreviation folds :: "uuid \<Rightarrow> nat set \<Rightarrow> world \<Rightarrow> world \<Rightarrow> bool" where
  "folds th lv \<equiv> (fold_step th lv)\<^sup>*\<^sup>*"

definition ids_ok :: "world \<Rightarrow> bool" where
  "ids_ok w \<longleftrightarrow> key_distinct ts_id (summaries w) \<and> (\<forall>s\<in>set (summaries w). uuid_nat (ts_id s) < next_id w)"

definition count_at :: "uuid \<Rightarrow> nat \<Rightarrow> world \<Rightarrow> nat" where
  "count_at th n w = length (filter (at_level th n) (summaries w))"

definition backlog :: "uuid \<Rightarrow> nat \<Rightarrow> world \<Rightarrow> nat" where
  "backlog th n w = length (filter (unfolded th n) (summaries w))"

definition levels_ok :: "uuid \<Rightarrow> world \<Rightarrow> bool" where
  "levels_ok th w \<longleftrightarrow> (\<forall>s\<in>set (summaries w). ts_thread_id s = th \<longrightarrow> ts_level s \<in> {1, 2, 3})"

definition ranges :: "uuid \<Rightarrow> world \<Rightarrow> (uuid option \<times> uuid option) list" where
  "ranges th w = map (\<lambda>s. (ts_start s, ts_end s)) (filter (at_level th 1) (summaries w))"

lemma filter_sql_set:
  "(\<And>s. p s \<Longrightarrow> q (f s) = q s) \<Longrightarrow> filter q (sql_set p f rows) = sql_set p f (filter q rows)"
  by (induction rows) auto

lemma stamped_levels: "filter (at_level th n) (stamped p ids ss) = stamped p ids (filter (at_level th n) ss)"
  unfolding stamped_def by (rule filter_sql_set) (simp add: at_level_def)

lemma rewritten_levels:
  "filter (at_level th n) (rewritten i t a b tm ss) = rewritten i t a b tm (filter (at_level th n) ss)"
  unfolding rewritten_def by (rule filter_sql_set) (simp add: at_level_def)

lemma map_ids [simp]:
  "map ts_id (stamped p ids ss) = map ts_id ss" "map ts_id (rewritten i t a b tm ss) = map ts_id ss"
  unfolding stamped_def rewritten_def by (induction ss) auto

lemma length_rewrites [simp]:
  "length (stamped p ids ss) = length ss" "length (rewritten i t a b tm ss) = length ss"
  by (simp_all add: stamped_def rewritten_def)

lemma ids_ok_map:
  "ids_ok w \<longleftrightarrow> distinct (map ts_id (summaries w)) \<and> (\<forall>i\<in>set (map ts_id (summaries w)). uuid_nat i < next_id w)"
  by (simp add: ids_ok_def key_distinct_def)

lemma ids_okD: "map ts_id (summaries v) = map ts_id (summaries w) \<Longrightarrow> next_id w \<le> next_id v \<Longrightarrow> ids_ok w \<Longrightarrow> ids_ok v"
  unfolding ids_ok_map by (simp only:) (meson order_less_le_trans)

lemma fold_ids: "fold_step th lv w v \<Longrightarrow> ids_ok w \<Longrightarrow> ids_ok v"
proof (induction rule: fold_step.induct)
  case (add l row w v)
  then show ?case
    by (fastforce simp: ids_ok_def added_def key_distinct_def)
next
  case (idle w v)
  then show ?case using same_chatD[OF idle(1)] ids_okD[of v w] by simp
qed (auto simp: with_summaries_def intro: ids_okD)

lemma fold_levels: "fold_step th lv w v \<Longrightarrow> lv \<subseteq> {1, 2, 3} \<Longrightarrow> levels_ok th w \<Longrightarrow> levels_ok th v"
proof (induction rule: fold_step.induct)
  case (idle w v)
  then show ?case using same_chatD[OF idle(1)] by (simp add: levels_ok_def)
qed (auto simp: levels_ok_def with_summaries_def added_def at_level_def stamped_def rewritten_def set_sql_set)

lemma fold_one_digest: "fold_step th lv w v \<Longrightarrow> count_at th 3 w \<le> 1 \<Longrightarrow> count_at th 3 v \<le> 1"
proof (induction rule: fold_step.induct)
  case (add l row w v)
  have "filter (at_level th 3) (summaries w) = []" if "l = 3"
    using add(3)[OF that] by (auto simp: sql_first_None_iff filter_empty_conv)
  then show ?case using add by (cases "l = 3") (auto simp: count_at_def added_def at_level_def)
next
  case (idle w v)
  then show ?case using same_chatD[OF idle(1)] by (simp add: count_at_def)
qed (auto simp: count_at_def with_summaries_def stamped_levels rewritten_levels)

lemma fold_backlog: "fold_step th lv w v \<Longrightarrow> n \<notin> lv \<Longrightarrow> backlog th n v \<le> backlog th n w"
proof (induction rule: fold_step.induct)
  case (stamp p ids w v)
  have "length (filter (unfolded th n) (stamped p ids ss)) \<le> length (filter (unfolded th n) ss)" for ss
    by (induction ss) (auto simp: stamped_def unfolded_def at_level_def)
  then show ?case using stamp by (simp add: backlog_def with_summaries_def)
next
  case (redigest d new_text a b tm w v)
  have "length (filter (unfolded th n) (rewritten i new_text a b tm ss)) = length (filter (unfolded th n) ss)" for i ss
    by (induction ss) (auto simp: rewritten_def unfolded_def at_level_def)
  then show ?case using redigest by (simp add: backlog_def with_summaries_def)
next
  case (idle w v)
  then show ?case using same_chatD[OF idle(1)] by (simp add: backlog_def)
qed (auto simp: backlog_def added_def unfolded_def at_level_def)

lemma ids_inj:
  "ids_ok w \<Longrightarrow> s \<in> set (summaries w) \<Longrightarrow> d \<in> set (summaries w) \<Longrightarrow> ts_id s = ts_id d \<Longrightarrow> s = d"
  unfolding ids_ok_def by (metis key_lookup_in option.inject)

lemma fold_ranges:
  "fold_step th lv w v \<Longrightarrow> 1 \<notin> lv \<Longrightarrow> ids_ok w \<Longrightarrow> ranges th v = ranges th w"
proof (induction rule: fold_step.induct)
  case (stamp p ids w v)
  have "map (\<lambda>s. (ts_start s, ts_end s)) (stamped p ids ss) = map (\<lambda>s. (ts_start s, ts_end s)) ss" for ss
    by (induction ss) (auto simp: stamped_def)
  then show ?case using stamp by (simp add: ranges_def with_summaries_def stamped_levels)
next
  case (redigest d new_text a b tm w v)
  have "rewritten (ts_id d) new_text a b tm (filter (at_level th 1) (summaries w)) = filter (at_level th 1) (summaries w)"
    unfolding rewritten_def
  proof (rule sql_set_ident)
    fix s assume "s \<in> set (filter (at_level th 1) (summaries w))"
    then have "s \<in> set (summaries w)" "s \<noteq> d" using redigest(3) by (auto simp: at_level_def)
    then show "ts_id s \<noteq> ts_id d" using ids_inj[OF redigest(5)] redigest(2) by blast
  qed
  then show ?case using redigest by (simp add: ranges_def with_summaries_def rewritten_levels)
next
  case (idle w v)
  then show ?case using same_chatD[OF idle(1)] by (simp add: ranges_def)
qed (auto simp: ranges_def added_def at_level_def)

lemma fold_messages: "fold_step th lv w v \<Longrightarrow> messages v = messages w"
  by (induction rule: fold_step.induct) (auto simp: added_def with_summaries_def intro: same_chatD(1))

lemma folds_keep:
  assumes "folds th lv w v"
  shows "messages v = messages w" "ids_ok w \<Longrightarrow> ids_ok v" "lv \<subseteq> {1, 2, 3} \<Longrightarrow> levels_ok th w \<Longrightarrow> levels_ok th v"
    "count_at th 3 w \<le> 1 \<Longrightarrow> count_at th 3 v \<le> 1" "n \<notin> lv \<Longrightarrow> backlog th n v \<le> backlog th n w"
    "1 \<notin> lv \<Longrightarrow> ids_ok w \<Longrightarrow> ranges th v = ranges th w"
  using assms
proof (induction rule: rtranclp_induct)
  case (step u v)
  {
    case 1
    show ?case using step by (simp add: fold_messages)
  next
    case 2
    then show ?case using step fold_ids by blast
  next
    case 3
    then show ?case using step fold_levels by blast
  next
    case 4
    then show ?case using step fold_one_digest by blast
  next
    case 5
    then show ?case using step fold_backlog le_trans by blast
  next
    case 6
    then show ?case using step fold_ranges by metis
  }
qed auto

lemma digested_fold: "digested th w u \<Longrightarrow> fold_step th {3} w u"
  by (auto simp: digested_def dest!: sql_first_SomeD intro: fold_step.intros split: option.splits)

lemma old_in:
  "s \<in> set (oldest_unfolded th l k w) \<Longrightarrow> s \<in> set (summaries w) \<and> unfolded th l s"
  by (auto simp: oldest_unfolded_def dest!: in_set_takeD)

lemma idle_backlog:
  "oldest_unfolded th l k w = [] \<or> length (oldest_unfolded th l k w) < k \<Longrightarrow> k = 0 \<or> backlog th l w < k"
  by (auto simp: oldest_unfolded_def backlog_def dest: arg_cong[where f = length])

lemma stamp_fewer:
  assumes "s \<in> set ss" "unfolded th l s" "ts_id s \<in> set ids"
  shows "length (filter (unfolded th l) (stamped p ids ss)) < length (filter (unfolded th l) ss)"
proof -
  let ?f = "\<lambda>s. if ts_id s \<in> set ids then s\<lparr>ts_folded_into := Some p\<rparr> else s"
  have "length (filter (\<lambda>s. unfolded th l (?f s)) ss) < length (filter (unfolded th l) ss)"
    by (rule filter_fewer[where x = s]) (use assms in \<open>auto simp: unfolded_def at_level_def split: if_splits\<close>)
  then show ?thesis by (simp add: stamped_def sql_set_def filter_map o_def)
qed

text \<open>Stamping the oldest rows after their parent was written makes the backlog smaller.\<close>

lemma fold_fewer:
  assumes u: "fold_step th lv w u" "l \<notin> lv" and old: "oldest_unfolded th l k w \<noteq> []"
    and ids: "\<And>s. s \<in> set (summaries w) \<Longrightarrow> unfolded th l s \<Longrightarrow>
      \<exists>s'\<in>set (summaries u). unfolded th l s' \<and> ts_id s' = ts_id s"
    and v: "with_summaries (stamped p (map ts_id (oldest_unfolded th l k w)) (summaries u)) u v"
  shows "backlog th l v < backlog th l w"
proof -
  let ?s = "hd (oldest_unfolded th l k w)"
  have "?s \<in> set (oldest_unfolded th l k w)" using old by simp
  with old_in ids obtain s' where "s' \<in> set (summaries u)" "unfolded th l s'" "ts_id s' = ts_id ?s"
    by metis
  then have "backlog th l v < backlog th l u"
    using v stamp_fewer[of s' "summaries u" th l] \<open>?s \<in> _\<close> by (simp add: backlog_def with_summaries_def)
  also have "\<dots> \<le> backlog th l w" by (rule fold_backlog[OF u])
  finally show ?thesis .
qed

lemma added_ids:
  "added th l' row w u \<Longrightarrow> s \<in> set (summaries w) \<Longrightarrow> unfolded th l s \<Longrightarrow>
   \<exists>s'\<in>set (summaries u). unfolded th l s' \<and> ts_id s' = ts_id s"
  by (auto simp: added_def)

lemma digested_ids:
  assumes "digested th w u" "s \<in> set (summaries w)" "unfolded th l s"
  shows "\<exists>s'\<in>set (summaries u). unfolded th l s' \<and> ts_id s' = ts_id s"
proof (cases "sql_first (at_level th 3) (summaries w)")
  case None
  then show ?thesis using assms added_ids by (auto simp: digested_def)
next
  case (Some d)
  then obtain body a b tm where u: "summaries u = rewritten (ts_id d) body a b tm (summaries w)"
    using assms(1) by (auto simp: digested_def with_summaries_def)
  show ?thesis
    unfolding u rewritten_def set_sql_set using assms(2,3)
    by (intro bexI[OF _ imageI[OF assms(2)]]) (simp add: unfolded_def at_level_def)
qed

locale chat_frame =
  fixes sm :: summarizer
  assumes quiet_summarizer: "keeps same_chat (sm items user)"
begin

lemma ask_rule:
  assumes w: "same_chat w v" and fail: "\<And>u e. same_chat w u \<Longrightarrow> Q (Inl e) u"
    and run: "\<And>s u. \<lbrakk>same_chat w u; s = [] \<Longrightarrow> items = [] \<or> reticent sm\<rbrakk> \<Longrightarrow> runs (k s) u Q"
  shows "runs (bindE (sm items user) k) v Q"
proof (rule runs_bind)
  fix e u assume "sm items user v = (Inl e, u)"
  then show "Q (Inl e) u" using fail chat.trans[OF w keepsD[OF quiet_summarizer]] by blast
next
  fix s u assume ask: "sm items user v = (Inr s, u)"
  then have "s = [] \<Longrightarrow> items = [] \<or> reticent sm" unfolding reticent_def by blast
  then show "runs (k s) u Q" using run chat.trans[OF w keepsD[OF quiet_summarizer ask]] by blast
qed

lemma drain_l1_step:
  fixes cfg th w
  defines "old \<equiv> unsummarized_older th (recent_window_size cfg) (compaction_window_size cfg) w"
  assumes stop: "\<And>v r. \<lbrakk>same_chat w v; \<And>b. r = Inr b \<Longrightarrow> b \<and> (old = [] \<or> reticent sm \<or>
      length (filter (in_thread th) (messages w)) < compaction_trigger_threshold cfg \<or>
      length old < compaction_window_size cfg)\<rbrakk> \<Longrightarrow> Q r v"
    and fold: "\<And>row v. \<lbrakk>length old \<ge> compaction_window_size cfg; old \<noteq> [];
      added th 1 row w v; ts_start row = Some (m_id (hd old)); ts_end row = Some (m_id (last old))\<rbrakk> \<Longrightarrow> runs (drain_l1 n cfg sm th user) v Q"
  shows "runs (drain_l1 (Suc n) cfg sm th user) w Q"
  unfolding drain_l1.simps
proof (rule read_rule[OF chat.refl], goal_cases)
  case 1
  then show ?case by (rule stop) simp
next
  case (2 v)
  note v = same_chat_views[OF 2]
  show ?case
  proof (intro runs_if runs_ret read_rule[OF 2], goal_cases)
    case (4 u)
    have old: "unsummarized_older th (recent_window_size cfg) (compaction_window_size cfg) u = old"
      by (simp add: same_chat_views[OF 4(2)] old_def)
    note long = 4(3)[unfolded old]
    show ?case unfolding old
    proof (rule ask_rule[OF 4(2)], goal_cases)
      case (2 s x)
      show ?case
        by (intro runs_if runs_ret runs_raise insert_rule[OF 2(1)] fold)
          (use 2 stop long in auto)
    qed (rule stop; simp)
  qed (use 2 v stop in \<open>auto simp: old_def same_chat_views\<close>)
qed

lemma drain_l2_step:
  fixes cfg th w
  defines "old \<equiv> oldest_unfolded th 1 (l2_fold_threshold cfg) w"
  assumes stop: "\<And>v r. \<lbrakk>same_chat w v; \<And>b. r = Inr b \<Longrightarrow> b \<and> (old = [] \<or> reticent sm \<or>
      length old < l2_fold_threshold cfg)\<rbrakk> \<Longrightarrow> Q r v"
    and broken: "\<And>row u v e. \<lbrakk>added th 2 row w u; same_chat u v\<rbrakk> \<Longrightarrow> Q (Inl e) v"
    and fold: "\<And>row u v. \<lbrakk>old \<noteq> []; added th 2 row w u;
      with_summaries (stamped (ts_id row) (map ts_id old) (summaries u)) u v\<rbrakk>
      \<Longrightarrow> runs (drain_l2 n cfg sm th user) v Q"
  shows "runs (drain_l2 (Suc n) cfg sm th user) w Q"
  unfolding drain_l2.simps
proof (rule read_rule[OF chat.refl], goal_cases)
  case 1
  then show ?case by (rule stop) simp
next
  case (2 v)
  have old: "oldest_unfolded th 1 (l2_fold_threshold cfg) v = old"
    by (simp add: same_chat_views[OF 2] old_def)
  show ?case unfolding old
  proof (intro runs_if runs_ret runs_raise ask_rule[OF 2], goal_cases)
    case (5 s u)
    show ?case
    proof (intro insert_rule[OF 5(2)] stamp_rule[OF chat.refl], goal_cases)
      case (2 row x y e)
      show ?case by (rule broken[OF 2(1,4)])
    next
      case (3 row x y)
      show ?case by (rule fold) (use 3 5 in auto)
    qed (use 5 stop in auto)
  qed (use 2 stop in auto)
qed

lemma drain_l3_step:
  fixes cfg th w
  defines "old \<equiv> oldest_unfolded th 2 (l3_fold_threshold cfg) w"
  assumes stop: "\<And>v r. \<lbrakk>same_chat w v; \<And>b. r = Inr b \<Longrightarrow> b \<and> (old = [] \<or> reticent sm \<or>
      length old < l3_fold_threshold cfg)\<rbrakk> \<Longrightarrow> Q r v"
    and broken: "\<And>u v e. \<lbrakk>digested th w u; same_chat u v\<rbrakk> \<Longrightarrow> Q (Inl e) v"
    and fold: "\<And>i u v. \<lbrakk>old \<noteq> []; digested th w u;
      with_summaries (stamped i (map ts_id old) (summaries u)) u v\<rbrakk>
      \<Longrightarrow> runs (drain_l3 n cfg sm th user) v Q"
  shows "runs (drain_l3 (Suc n) cfg sm th user) w Q"
  unfolding drain_l3.simps find_digest_def
proof (rule read_rule[OF chat.refl], goal_cases)
  case 1
  then show ?case by (rule stop) simp
next
  case (2 v)
  have old: "oldest_unfolded th 2 (l3_fold_threshold cfg) v = old"
    by (simp add: same_chat_views[OF 2] old_def)
  show ?case unfolding old
  proof (intro runs_if runs_ret read_rule[OF 2], goal_cases)
    case (3 u)
    show ?case unfolding same_chatD(2)[OF 3(2)]
    proof (intro runs_if runs_ret runs_raise ask_rule[OF 3(2)], goal_cases)
      case (4 s x)
      show ?case
      proof (intro digest_rule[OF 4(1)] stamp_rule[OF chat.refl], goal_cases)
        case (2 y i z e)
        show ?case by (rule broken[OF 2])
      next
        case (3 y i z)
        show ?case by (rule fold) (use 3 4 in auto)
      qed (use 4 stop in auto)
    qed (use 3 stop in \<open>auto simp: digest_items_def split: option.splits\<close>)
  qed (use 2 stop in auto)
qed

subsubsection \<open>The loops keep their invariants and end\<close>

lemma drain_l1_folds: "runs (drain_l1 n cfg sm th user) w (\<lambda>r. folds th {1} w)"
proof (induction n arbitrary: w)
  case (Suc n)
  show ?case
  proof (rule drain_l1_step, goal_cases)
    case (1 v r)
    then show ?case by (blast intro: fold_step.idle)
  next
    case (2 row v)
    from 2(3) have "fold_step th {1} w v" by (rule fold_step.add) auto
    then show ?case using runs_mono[OF Suc] converse_rtranclp_into_rtranclp by metis
  qed
qed (simp add: runs_ret)

lemma drain_l2_folds: "runs (drain_l2 n cfg sm th user) w (\<lambda>r. folds th {2} w)"
proof (induction n arbitrary: w)
  case (Suc n)
  have grow: "fold_step th {2} w u" if "added th 2 row w u" for row u
    using that by (rule fold_step.add) auto
  show ?case
  proof (rule drain_l2_step, goal_cases)
    case (2 row u v e)
    then show ?case using grow fold_step.idle by (metis rtranclp.simps)
  next
    case (3 row u v)
    have "folds th {2} w v" using grow[OF 3(2)] fold_step.stamp[OF 3(3)] by (metis rtranclp.simps)
    then show ?case by (auto intro: runs_mono[OF Suc] rtranclp_trans)
  qed (blast intro: fold_step.idle)
qed (simp add: runs_ret)

lemma drain_l3_folds: "runs (drain_l3 n cfg sm th user) w (\<lambda>r. folds th {3} w)"
proof (induction n arbitrary: w)
  case (Suc n)
  show ?case
  proof (rule drain_l3_step, goal_cases)
    case (2 u v e)
    then show ?case using digested_fold fold_step.idle by (metis rtranclp.simps)
  next
    case (3 i u v)
    have "folds th {3} w v" using digested_fold[OF 3(2)] fold_step.stamp[OF 3(3)] by (metis rtranclp.simps)
    then show ?case by (auto intro: runs_mono[OF Suc] rtranclp_trans)
  qed (blast intro: fold_step.idle)
qed (simp add: runs_ret)

lemma drain_l1_ends:
  "key_distinct m_id (messages w) \<Longrightarrow> length (filter (uncovered th w) (messages w)) < n \<Longrightarrow>
   runs (drain_l1 n cfg sm th user) w (\<lambda>r v. \<forall>b. r = Inr b \<longrightarrow> b)"
proof (induction n arbitrary: w)
  case (Suc n)
  let ?old = "unsummarized_older th (recent_window_size cfg) (compaction_window_size cfg) w"
  show ?case
  proof (rule drain_l1_step)
    fix row v assume f: "?old \<noteq> []" "added th 1 row w v" "ts_end row = Some (m_id (last ?old))"
    have "last ?old \<in> set (messages w) \<and> uncovered th w (last ?old)"
      using f(1) unsummarized_uncovered last_in_set by metis
    then have "length (filter (uncovered th v) (messages v)) < length (filter (uncovered th w) (messages w))"
      using f(2,3) Suc.prems(1) by (intro cover_step[of v w row th "last ?old"]) (auto simp: added_def)
    then show "runs (drain_l1 n cfg sm th user) v (\<lambda>r v. \<forall>b. r = Inr b \<longrightarrow> b)"
      using Suc f(2) by (intro Suc.IH) (auto simp: added_def)
  qed auto
qed simp

lemma drain_l2_ends:
  "backlog th 1 w < n \<Longrightarrow> runs (drain_l2 n cfg sm th user) w (\<lambda>r v. \<forall>b. r = Inr b \<longrightarrow>
     b \<and> (reticent sm \<or> l2_fold_threshold cfg = 0 \<or> backlog th 1 v < l2_fold_threshold cfg))"
proof (induction n arbitrary: w)
  case (Suc n)
  show ?case
  proof (rule drain_l2_step, goal_cases)
    case (1 v r)
    then show ?case using idle_backlog[of th 1 _ w] same_chatD(2)[OF 1(1)] by (auto simp: backlog_def)
  next
    case (3 row u v)
    have "backlog th 1 v < backlog th 1 w"
      by (rule fold_fewer[OF fold_step.add[OF 3(2)] _ 3(1) added_ids[OF 3(2)] 3(3)]) auto
    then show ?case using Suc by simp
  qed simp
qed simp

lemma drain_l3_ends:
  "backlog th 2 w < n \<Longrightarrow> runs (drain_l3 n cfg sm th user) w (\<lambda>r v. \<forall>b. r = Inr b \<longrightarrow>
     b \<and> (reticent sm \<or> l3_fold_threshold cfg = 0 \<or> backlog th 2 v < l3_fold_threshold cfg))"
proof (induction n arbitrary: w)
  case (Suc n)
  show ?case
  proof (rule drain_l3_step, goal_cases)
    case (1 v r)
    then show ?case using idle_backlog[of th 2 _ w] same_chatD(2)[OF 1(1)] by (auto simp: backlog_def)
  next
    case (3 i u v)
    have "backlog th 2 v < backlog th 2 w"
      by (rule fold_fewer[OF digested_fold[OF 3(2)] _ 3(1) digested_ids[OF 3(2)] 3(3)]) auto
    then show ?case using Suc by simp
  qed simp
qed simp

end

end
