(* ===== verification/Compaction_Props.thy ===== *)
theory Compaction_Props
  imports Compaction_Folds
begin

section \<open>What compaction does to a thread\<close>

text \<open>
  Three facts about \<open>Compaction\<close>: the job always ends, its level-1 summaries tile the thread in
  windows without gaps or overlaps, and after it has run the summaries a prompt shows are fewer
  than the two fold thresholds together.
\<close>

subsection \<open>Windows\<close>

definition window :: "nat \<Rightarrow> message list \<Rightarrow> nat \<Rightarrow> uuid option \<times> uuid option" where
  "window W ms i = (Some (m_id (ms ! (i * W))), Some (m_id (ms ! (i * W + W - 1))))"

definition tiled :: "settings \<Rightarrow> uuid \<Rightarrow> world \<Rightarrow> nat \<Rightarrow> bool" where
  "tiled cfg th w k \<longleftrightarrow> (let W = compaction_window_size cfg; ms = history th (messages w) in
     ranges th w = map (window W ms) [0..<k] \<and> k * W \<le> length ms - recent_window_size cfg)"

definition chronicle :: "uuid \<Rightarrow> world \<Rightarrow> bool" where
  "chronicle th w \<longleftrightarrow> key_distinct m_id (messages w) \<and>
     sorted_wrt (<) (map m_created_at (history th (messages w)))"

lemma filter_interval:
  assumes "\<And>i. i < length xs \<Longrightarrow> P (xs ! i) \<longleftrightarrow> a \<le> i \<and> i < b"
  shows "filter P xs = drop a (take b xs)"
proof -
  have "filter P (drop b xs) = []" using assms by (auto simp: filter_empty_conv in_set_conv_nth)
  moreover have "filter P (take a (take b xs)) = []" using assms by (auto simp: filter_empty_conv in_set_conv_nth)
  moreover have "filter P (drop a (take b xs)) = drop a (take b xs)"
  proof -
    have "drop a (take b xs) ! i = xs ! (a + i)" if "i < length (drop a (take b xs))" for i
      using that by (subst nth_drop) auto
    then show ?thesis using assms by (auto simp: filter_id_conv in_set_conv_nth)
  qed
  moreover have "filter P xs = filter P (take a (take b xs)) @ filter P (drop a (take b xs)) @ filter P (drop b xs)"
    by (metis append_assoc append_take_drop_id filter_append)
  ultimately show ?thesis by simp
qed

lemma fits: "(a :: nat) \<le> n - m \<Longrightarrow> 0 < a \<Longrightarrow> a + m \<le> n"
  by simp

lemma latest_increasing:
  assumes "\<And>i j. i < j \<Longrightarrow> j < k \<Longrightarrow> f i < f j"
  shows "latest (map f [0..<k]) = (if k = 0 then None else Some (f (k - 1)))"
  using assms
proof (induction k)
  case (Suc k)
  then have "latest (map f [0..<k]) = (if k = 0 then None else Some (f (k - 1)))" by simp
  moreover have "k \<noteq> 0 \<Longrightarrow> f (k - 1) < f k" using Suc.prems by simp
  ultimately show ?case by (auto simp: latest_snoc)
qed (simp add: latest_def)

lemma map_filter_Some: "List.map_filter f xs = ys" if "map f xs = map Some ys"
  using that by (induction xs arbitrary: ys) (auto simp: List.map_filter_def)

lemma covered_end_tiled:
  assumes t: "tiled cfg th w k" and c: "chronicle th w" and W: "compaction_window_size cfg > 0"
  shows "covered_end th w = (if k = 0 then None
    else Some (m_created_at (history th (messages w) ! (k * compaction_window_size cfg - 1))))"
proof -
  let ?W = "compaction_window_size cfg" and ?ms = "history th (messages w)"
  let ?rows = "filter (at_level th 1) (summaries w)"
  let ?f = "\<lambda>i. m_created_at (?ms ! (i * ?W + ?W - 1))"
  have bound: "i < k \<Longrightarrow> i * ?W + ?W - 1 < length ?ms" for i
  proof -
    assume "i < k"
    then have "Suc i * ?W \<le> k * ?W" by (intro mult_right_mono) auto
    then show ?thesis using t W by (auto simp: tiled_def Let_def)
  qed
  have created: "map_option m_created_at (key_lookup m_id (m_id m) (messages w)) = Some (m_created_at m)"
    if "m \<in> set ?ms" for m
    using that c key_lookup_in[of m_id "messages w" m] by (auto simp: chronicle_def history_def)
  have "map ts_end ?rows = map snd (ranges th w)" by (simp add: ranges_def)
  also have "\<dots> = map (\<lambda>i. Some (m_id (?ms ! (i * ?W + ?W - 1)))) [0..<k]"
    using t by (simp add: tiled_def Let_def window_def)
  finally have e: "map ts_end ?rows = map (\<lambda>i. Some (m_id (?ms ! (i * ?W + ?W - 1)))) [0..<k]" .
  have "map (end_time w) ?rows = map (\<lambda>e. Option.bind e (\<lambda>i. map_option m_created_at (key_lookup m_id i (messages w))))
      (map ts_end ?rows)" by (simp add: end_time_def)
  also have "\<dots> = map Some (map ?f [0..<k])"
    unfolding e using created[OF nth_mem[OF bound]] by simp
  finally have "List.map_filter (end_time w) ?rows = map ?f [0..<k]" by (rule map_filter_Some)
  moreover have "?f i < ?f j" if "i < j" "j < k" for i j
  proof -
    have "Suc i * ?W \<le> j * ?W" using that by (intro mult_right_mono) auto
    then have "i * ?W + ?W - 1 < j * ?W + ?W - 1" using W by simp
    then show ?thesis
      using c bound[OF that(2)] by (simp add: chronicle_def sorted_wrt_iff_nth_less)
  qed
  ultimately show ?thesis
    using latest_increasing[of k ?f] W unfolding covered_end_def
    by (cases k) (simp_all add: add.commute)
qed

lemma in_last_n:
  assumes "distinct (map f xs)" "i < length xs"
  shows "f (xs ! i) \<in> set (map f (last_n n xs)) \<longleftrightarrow> length xs - n \<le> i"
proof
  assume "f (xs ! i) \<in> set (map f (last_n n xs))"
  then obtain j where j: "j < length (last_n n xs)" "f (xs ! i) = f (last_n n xs ! j)"
    by (auto simp: in_set_conv_nth)
  then have "f (xs ! i) = f (xs ! (length xs - n + j))" "length xs - n + j < length xs"
    by (auto simp: last_n_def nth_drop)
  then have "i = length xs - n + j"
    using nth_eq_iff_index_eq[OF assms(1), of i "length xs - n + j"] assms(2) by simp
  then show "length xs - n \<le> i" by simp
next
  assume "length xs - n \<le> i"
  then have "xs ! i = last_n n xs ! (i - (length xs - n))" "i - (length xs - n) < length (last_n n xs)"
    using assms(2) by (auto simp: last_n_def nth_drop)
  then show "f (xs ! i) \<in> set (map f (last_n n xs))" by (metis in_set_conv_nth image_eqI set_map)
qed

lemma history_ids: "key_distinct m_id (messages w) \<Longrightarrow> distinct (map m_id (history th (messages w)))"
proof -
  assume "key_distinct m_id (messages w)"
  then have "distinct (map m_id (filter (in_thread th) (messages w)))"
    by (simp add: key_distinct_def distinct_map_filter)
  then show ?thesis
    unfolding history_def by (metis distinct_map distinct_sort set_sort)
qed

lemma old_tiled:
  assumes t: "tiled cfg th w k" and c: "chronicle th w" and W: "compaction_window_size cfg > 0"
  shows "unsummarized_older th (recent_window_size cfg) (compaction_window_size cfg) w =
    take (compaction_window_size cfg) (drop (k * compaction_window_size cfg)
      (take (length (history th (messages w)) - recent_window_size cfg) (history th (messages w))))"
proof -
  let ?W = "compaction_window_size cfg" and ?ms = "history th (messages w)"
  let ?n = "length ?ms - recent_window_size cfg"
  have ids: "distinct (map m_id ?ms)" using c by (auto simp: chronicle_def intro: history_ids)
  have "k * ?W \<le> ?n" using t by (simp add: tiled_def Let_def)
  have later: "m_created_at (?ms ! i) < m_created_at (?ms ! j) \<longleftrightarrow> i < j" if "i < length ?ms" "j < length ?ms" for i j
    using that c unfolding chronicle_def
    by (metis (no_types, lifting) length_map linorder_neqE_nat nth_map order_less_asym sorted_wrt_nth_less)
  have "filter (\<lambda>m. m_id m \<notin> recent_ids (Some th) (recent_window_size cfg) (messages w) \<and>
      (case covered_end th w of None \<Rightarrow> True | Some t \<Rightarrow> t < m_created_at m)) ?ms = drop (k * ?W) (take ?n ?ms)"
  proof (rule filter_interval)
    fix i assume i: "i < length ?ms"
    have "m_id (?ms ! i) \<notin> recent_ids (Some th) (recent_window_size cfg) (messages w) \<longleftrightarrow> i < ?n"
      using in_last_n[OF ids i] by (simp add: recent_ids_def not_le)
    moreover have "(case covered_end th w of None \<Rightarrow> True | Some t \<Rightarrow> t < m_created_at (?ms ! i)) \<longleftrightarrow> k * ?W \<le> i"
    proof (cases "k = 0")
      case False
      then have pos: "k * ?W > 0" using W by simp
      have "k * ?W \<le> length ?ms" by (rule le_trans[OF \<open>k * ?W \<le> ?n\<close>]) simp
      then have "k * ?W - 1 < length ?ms" using pos by linarith
      then have "m_created_at (?ms ! (k * ?W - 1)) < m_created_at (?ms ! i) \<longleftrightarrow> k * ?W - 1 < i"
        using later i by blast
      moreover have "k * ?W - 1 < i \<longleftrightarrow> k * ?W \<le> i" using pos by linarith
      ultimately show ?thesis unfolding covered_end_tiled[OF t c W] using False by simp
    qed (use covered_end_tiled[OF t c W] in simp)
    ultimately show "(m_id (?ms ! i) \<notin> recent_ids (Some th) (recent_window_size cfg) (messages w) \<and>
      (case covered_end th w of None \<Rightarrow> True | Some t \<Rightarrow> t < m_created_at (?ms ! i))) \<longleftrightarrow> k * ?W \<le> i \<and> i < ?n"
      by blast
  qed
  then show ?thesis by (simp add: unsummarized_older_def)
qed

lemma tiled_cong: "same_chat w v \<Longrightarrow> tiled cfg th w k \<Longrightarrow> tiled cfg th v k"
  by (simp add: tiled_def ranges_def same_chatD)

context chat_frame
begin

lemma drain_l1_tiles:
  assumes W: "compaction_window_size cfg > 0"
  shows "tiled cfg th w k \<Longrightarrow> chronicle th w \<Longrightarrow>
    runs (drain_l1 n cfg sm th user) w (\<lambda>r v. \<exists>k'\<ge>k. tiled cfg th v k' \<and> (r = Inr True \<longrightarrow>
      reticent sm \<or> length (history th (messages w)) < compaction_trigger_threshold cfg \<or>
      length (history th (messages w)) - recent_window_size cfg < Suc k' * compaction_window_size cfg))"
proof (induction n arbitrary: w k)
  case (Suc n)
  let ?W = "compaction_window_size cfg" and ?ms = "history th (messages w)"
  let ?old = "unsummarized_older th (recent_window_size cfg) ?W w"
  let ?n = "length ?ms - recent_window_size cfg"
  note old = old_tiled[OF Suc.prems W]
  have len: "length ?old = min ?W (?n - k * ?W)" by (simp add: old)
  show ?case
  proof (rule drain_l1_step, goal_cases)
    case (1 v r)
    have "length (filter (in_thread th) (messages w)) = length ?ms" by (simp add: history_def)
    moreover have "?n < Suc k * ?W" if "?old = [] \<or> length ?old < ?W"
      using that len W by auto
    ultimately show ?case using 1(2)[of True] tiled_cong[OF 1(1) Suc.prems(1)] by (intro exI[of _ k]) auto
  next
    case (2 row v)
    then have "length ?old = ?W" "?W \<le> ?n - k * ?W" using len by linarith+
    then have full: "length ?old = ?W" "Suc k * ?W \<le> ?n" using fits[of ?W ?n "k * ?W"] W by simp_all
    have "hd ?old = ?ms ! (k * ?W)" "last ?old = ?ms ! (k * ?W + ?W - 1)"
      using full W 2(2) by (simp_all add: hd_conv_nth last_conv_nth) (simp_all add: old)
    then have "(ts_start row, ts_end row) = window ?W ?ms k" using 2 by (simp add: window_def)
    moreover have "ranges th v = ranges th w @ [(ts_start row, ts_end row)]" "messages v = messages w"
      using 2(3) by (simp_all add: ranges_def added_def)
    ultimately have "tiled cfg th v (Suc k)"
      using Suc.prems(1) full(2) by (simp add: tiled_def Let_def)
    moreover have "chronicle th v" "messages v = messages w" using Suc.prems(2) 2(3) by (auto simp: chronicle_def added_def)
    ultimately have "runs (drain_l1 n cfg sm th user) v (\<lambda>r x. \<exists>k'\<ge>Suc k. tiled cfg th x k' \<and> (r = Inr True \<longrightarrow>
      reticent sm \<or> length ?ms < compaction_trigger_threshold cfg \<or> ?n < Suc k' * ?W))"
      using Suc.IH[of v "Suc k"] by simp
    then show ?case by (rule runs_mono) (meson Suc_leD)
  qed
qed (auto intro!: runs_ret)

subsubsection \<open>A whole run of the job\<close>

lemma drains_run:
  assumes keys: "key_distinct m_id (messages w)"
    and l1: "\<And>n. runs (drain_l1 n cfg sm th user) w P"
  shows "runs (drains cfg sm th user) w (\<lambda>r v. \<exists>r1 u1 u2. P r1 u1 \<and> folds th {1} w u1 \<and>
    folds th {2} u1 u2 \<and> folds th {3} u2 v \<and> (\<forall>b. r = Inr b \<longrightarrow> b \<and> r1 = Inr True \<and>
      (reticent sm \<or> l2_fold_threshold cfg = 0 \<or> backlog th 1 v < l2_fold_threshold cfg) \<and>
      (reticent sm \<or> l3_fold_threshold cfg = 0 \<or> backlog th 2 v < l3_fold_threshold cfg)))"
proof (rule runsI)
  fix r v assume run: "drains cfg sm th user w = (r, v)"
  let ?l1 = "drain_l1 (Suc (length (messages w))) cfg sm th user w"
  obtain r1 u1 where one: "?l1 = (r1, u1)" by (cases ?l1)
  let ?l2 = "drain_l2 (Suc (length (summaries u1))) cfg sm th user u1"
  obtain r2 u2 where two: "?l2 = (r2, u2)" by (cases ?l2)
  let ?l3 = "drain_l3 (Suc (length (summaries u2))) cfg sm th user u2"
  obtain r3 u3 where three: "?l3 = (r3, u3)" by (cases ?l3)
  have few: "length (filter p xs) < Suc (length xs)" for p and xs :: "'b list"
    by (simp add: le_imp_less_Suc)
  have few_rows: "backlog th n u < Suc (length (summaries u))" for n u
    by (simp add: backlog_def le_imp_less_Suc)
  note p1 = runsD[OF l1 one]
  note f1 = runsD[OF drain_l1_folds one] and f2 = runsD[OF drain_l2_folds two] and f3 = runsD[OF drain_l3_folds three]
  note e1 = runsD[OF drain_l1_ends[OF keys few] one]
  note e2 = runsD[OF drain_l2_ends[OF few_rows] two]
  note e3 = runsD[OF drain_l3_ends[OF few_rows] three]
  have less: "backlog th 1 u3 \<le> backlog th 1 u2" using folds_keep(5)[OF f3] by simp
  have d: "drains cfg sm th user w = (case r1 of Inl e \<Rightarrow> (Inl e, u1) | Inr b1 \<Rightarrow>
    (case r2 of Inl e \<Rightarrow> (Inl e, u2) | Inr b2 \<Rightarrow>
    (case r3 of Inl e \<Rightarrow> (Inl e, u3) | Inr b3 \<Rightarrow> (Inr (b1 \<and> b2 \<and> b3), u3))))"
    using one two three
    by (auto simp: drains_def message_fuel_def summary_fuel_def bindE_def split: sum.splits)
  show "\<exists>r1 u1 u2. P r1 u1 \<and> folds th {1} w u1 \<and>
    folds th {2} u1 u2 \<and> folds th {3} u2 v \<and> (\<forall>b. r = Inr b \<longrightarrow> b \<and> r1 = Inr True \<and>
      (reticent sm \<or> l2_fold_threshold cfg = 0 \<or> backlog th 1 v < l2_fold_threshold cfg) \<and>
      (reticent sm \<or> l3_fold_threshold cfg = 0 \<or> backlog th 2 v < l3_fold_threshold cfg))"
  proof (cases r1)
    case (Inl e)
    then have "r = Inl e" "v = u1" using d run by auto
    then show ?thesis using p1 f1 by blast
  next
    case r1: (Inr b1)
    show ?thesis
    proof (cases r2)
      case (Inl e)
      then have "r = Inl e" "v = u2" using d run r1 by auto
      then show ?thesis using p1 f1 f2 by blast
    next
      case r2: (Inr b2)
      then have v: "v = u3" using d run r1 by (auto split: sum.splits)
      have "b \<and> r1 = Inr True \<and>
        (reticent sm \<or> l2_fold_threshold cfg = 0 \<or> backlog th 1 v < l2_fold_threshold cfg) \<and>
        (reticent sm \<or> l3_fold_threshold cfg = 0 \<or> backlog th 2 v < l3_fold_threshold cfg)" if "r = Inr b" for b
        using that d run r1 r2 e1 e2 e3 less v by (cases r3) auto
      then show ?thesis using p1 f1 f2 f3 v by blast
    qed
  qed
qed

lemma compact_cases:
  assumes "compact_thread cfg sm th w = (r, w')"
  obtains (idle) "same_chat w w'" "r = Inr True"
  | (ran) user q v where "same_chat w v" "drains cfg sm th user v = (q, w')" "r = (case q of Inl e \<Rightarrow> Inr True | Inr b \<Rightarrow> Inr b)"
proof -
  obtain q w1 where q: "bindE (thread_owner th) (\<lambda>owner. case owner of
      None \<Rightarrow> ret True | Some user \<Rightarrow> drains cfg sm th user) w = (q, w1)" by fastforce
  have r: "r = (case q of Inl e \<Rightarrow> Inr True | Inr b \<Rightarrow> Inr b)" "w' = w1"
    using assms q by (auto simp: compact_thread_def catchE_def split: sum.splits)
  from q[unfolded thread_owner_def] show thesis
  proof (cases rule: read_cases)
    case (fail e)
    then show thesis using idle near_chat r by auto
  next
    case (run v)
    show thesis
    proof (cases "map_option th_user_id (thread_lookup th v)")
      case None
      then show thesis using run idle near_chat r by auto
    next
      case (Some user)
      then have "drains cfg sm th user v = (q, w1)" using run(2) by auto
      then show thesis using ran[OF near_chat[OF run(1)]] r by simp
    qed
  qed
qed

lemma compact_ends:
  assumes keys: "key_distinct m_id (messages w)" and run: "compact_thread cfg sm th w = (r, w')"
  shows "r = Inr True"
  using run
proof (cases rule: compact_cases)
  case (ran user q v)
  have "key_distinct m_id (messages v)" using keys same_chatD[OF ran(1)] by simp
  from runsD[OF drains_run[OF this, where P = "\<lambda>_ _. True"] ran(2)] show ?thesis
    using ran(3) by (auto simp: runs_def split: sum.splits)
qed

lemma drains_tile:
  assumes W: "compaction_window_size cfg > 0" and t: "tiled cfg th w k" and c: "chronicle th w"
    and ids: "ids_ok w" and run: "drains cfg sm th user w = (r, w')"
  shows "\<exists>k'\<ge>k. tiled cfg th w' k' \<and> messages w' = messages w"
proof -
  have keys: "key_distinct m_id (messages w)" using c by (simp add: chronicle_def)
  from runsD[OF drains_run[OF keys drain_l1_tiles[OF W t c]] run]
  obtain u1 u2 k' where k: "k' \<ge> k" "tiled cfg th u1 k'" and f: "folds th {1} w u1" "folds th {2} u1 u2" "folds th {3} u2 w'"
    by blast
  have "ids_ok u1" "ids_ok u2" using folds_keep(2)[OF f(1)] folds_keep(2)[OF f(2)] ids by auto
  then have "ranges th w' = ranges th u1" using folds_keep(6)[OF f(2)] folds_keep(6)[OF f(3)] by simp
  moreover have "messages w' = messages u1" "messages u1 = messages w"
    using folds_keep(1)[OF f(1)] folds_keep(1)[OF f(2)] folds_keep(1)[OF f(3)] by simp_all
  ultimately show ?thesis using k by (auto simp: tiled_def)
qed

lemma compact_tiles:
  assumes W: "compaction_window_size cfg > 0" and t: "tiled cfg th w k" and c: "chronicle th w"
    and ids: "ids_ok w" and run: "compact_thread cfg sm th w = (r, w')"
  shows "\<exists>k'\<ge>k. tiled cfg th w' k' \<and> messages w' = messages w"
  using run
proof (cases rule: compact_cases)
  case idle
  then show ?thesis using tiled_cong[OF idle(1) t] same_chatD(1)[OF idle(1)] by blast
next
  case (ran user q v)
  note v = same_chatD[OF ran(1)]
  have "chronicle th v" "ids_ok v" using c ids v ids_okD[of v w] by (simp_all add: chronicle_def)
  from drains_tile[OF W tiled_cong[OF ran(1) t] this ran(2)] v(1) show ?thesis by simp
qed

lemma active_count:
  assumes "levels_ok th w"
  shows "length (active_summaries th (summaries w)) \<le> backlog th 1 w + backlog th 2 w + count_at th 3 w"
proof -
  have "length (filter (\<lambda>s. ts_thread_id s = th \<and> ts_folded_into s = None) ss) \<le>
      length (filter (unfolded th 1) ss) + length (filter (unfolded th 2) ss) + length (filter (at_level th 3) ss)"
    if "\<forall>s\<in>set ss. ts_thread_id s = th \<longrightarrow> ts_level s \<in> {1, 2, 3}" for ss
    using that by (induction ss) (auto simp: unfolded_def at_level_def)
  then show ?thesis using assms by (simp add: active_summaries_def backlog_def count_at_def levels_ok_def)
qed

lemma layer_bound:
  assumes keys: "key_distinct m_id (messages w)" and lv: "levels_ok th w" and one: "count_at th 3 w \<le> 1"
    and th: "l2_fold_threshold cfg > 0" "l3_fold_threshold cfg > 0" and talks: "\<not> reticent sm"
    and run: "drains cfg sm th user w = (Inr b, w')"
  shows "length (active_summaries th (summaries w')) < l2_fold_threshold cfg + l3_fold_threshold cfg"
proof -
  from runsD[OF drains_run[OF keys, where P = "\<lambda>_ _. True"] run] th talks
  obtain u1 u2 where f: "folds th {1} w u1" "folds th {2} u1 u2" "folds th {3} u2 w'"
    and few: "backlog th 1 w' < l2_fold_threshold cfg" "backlog th 2 w' < l3_fold_threshold cfg"
    by (auto simp: runs_def)
  have "levels_ok th w'" using folds_keep(3)[OF f(3)] folds_keep(3)[OF f(2)] folds_keep(3)[OF f(1)] lv by simp
  moreover have "count_at th 3 w' \<le> 1" using folds_keep(4)[OF f(3)] folds_keep(4)[OF f(2)] folds_keep(4)[OF f(1)] one by simp
  ultimately show ?thesis using active_count[of th w'] few by linarith
qed

end

subsection \<open>The metered summarizer\<close>

lemma haiku_frame: "(\<And>q. outside_only (llm q)) \<Longrightarrow> chat_frame (haiku_summarizer cfg llm date)"
  by unfold_locales (rule haiku_keeps; rule tables.outside sound.outside; simp)

interpretation haiku: chat_frame "haiku_summarizer cfg (canned_llm raw) date" for cfg raw date
  by (rule haiku_frame) (rule canned_outside)

subsection \<open>Properties\<close>

text \<open>C18: The compaction of a thread always ends and never raises: each of its three \<open>while True\<close>
  loops has stopped within one pass more than there were messages, or summaries, to fold, whatever
  the model answers, whatever fails and whatever the settings are.\<close>

theorem compaction_ends:
  assumes "\<And>q. outside_only (llm q)" and "key_distinct m_id (messages w)"
    and "compact_thread cfg (haiku_summarizer cfg llm date) th w = (r, w')"
  shows "r = Inr True"
  by (rule chat_frame.compact_ends[OF haiku_frame[OF assms(1)] assms(2,3)])



subsection \<open>Witnesses\<close>

definition sample_chat :: world where
  "sample_chat = chatty\<lparr>messages := map (\<lambda>i. (sample_message i)\<lparr>m_created_at := int i\<rparr>) [2, 3, 4]\<rparr>"

definition small_windows :: settings where
  "small_windows = default_settings\<lparr>compaction_window_size := 2, recent_window_size := 1,
     compaction_trigger_threshold := 3\<rparr>"

lemma sample_chat_facts:
  "key_distinct m_id (messages sample_chat)" "summaries sample_chat = []"
  "sorted_wrt (<) (map m_created_at (history (Uuid 1) (messages sample_chat)))"
  by (auto simp: sample_chat_def chatty_def empty_world_def sample_message_def key_distinct_def
      history_def in_thread_def stamp_def)

lemma compaction_ends_witness:
  "fst (compact_thread default_settings (haiku_summarizer default_settings (canned_llm hello) (\<lambda>t. []))
     (Uuid 1) sample_chat) = Inr True"
  by (rule compaction_ends[OF canned_outside sample_chat_facts(1) prod.collapse[symmetric]])


definition terse :: summarizer where
  "terse items user = ret ''-''"


lemma one_window:
  "ranges (Uuid 1) (snd (drains small_windows terse (Uuid 1) (Uuid 5) sample_chat)) =
     [(Some (Uuid 2), Some (Uuid 3))]"
  by code_simp

end
