(* ===== verification/Schedules.thy ===== *)
theory Schedules
  imports Task_Service
begin

section \<open>Schedules\<close>

text \<open>
  \<open>src/wolfpaw/memory/schedules.py\<close>, \<open>src/wolfpaw/workers/jobs/dispatch_schedules.py\<close> and the tools
  \<open>schedule_task\<close>, \<open>update_schedule_state\<close>, \<open>list_schedules\<close> and \<open>cancel_schedule\<close>.

  Dates are UTC instants. What the libraries for dates do is collected in a \<open>calendar\<close>: the next
  match of a cron expression in a time zone (\<open>croniter\<close>), the validity of expressions and zones,
  \<open>datetime.fromisoformat\<close> (an instant, and whether it carried an offset), the conversion of a
  naive date in a zone, and \<open>isoformat\<close>. The context and the state of a schedule are JSON columns:
  reading a row turns them into dictionaries, which raises on a value that is none.
\<close>

record calendar =
  cal_cron_next :: "pystr \<Rightarrow> pystr \<Rightarrow> time \<Rightarrow> exn + time"
  cal_cron_valid :: "pystr \<Rightarrow> bool"
  cal_zone_valid :: "pystr \<Rightarrow> bool"
  cal_parse :: "pystr \<Rightarrow> (time \<times> bool) option"
  cal_localize :: "pystr \<Rightarrow> time \<Rightarrow> time"
  cal_isoformat :: "time \<Rightarrow> pystr"

subsection \<open>Rows\<close>

text \<open>\<open>dict(value)\<close> of a JSON value; keys of pairs are kept as text.\<close>

fun pair_of :: "json \<Rightarrow> exn + (pystr \<times> json)" where
  "pair_of (JStr [a, b]) = Inr ([a], JStr [b])"
| "pair_of (JArr [JArr x, v]) = Inl (OtherError ''unhashable type: 'list' '')"
| "pair_of (JArr [JObj x, v]) = Inl (OtherError ''unhashable type: 'dict' '')"
| "pair_of (JArr [k, v]) = Inr (json_str k, v)"
| "pair_of (JObj [(a, x), (b, y)]) = Inr (a, JStr b)"
| "pair_of _ = Inl (ValueError ''dictionary update sequence element has the wrong length; 2 is required'')"

fun pairs_of :: "json list \<Rightarrow> exn + dict" where
  "pairs_of [] = Inr []"
| "pairs_of (x # xs) =
     (case pair_of x of Inl e \<Rightarrow> Inl e
      | Inr p \<Rightarrow> (case pairs_of xs of Inl e \<Rightarrow> Inl e | Inr d \<Rightarrow> Inr (p # d)))"

definition loads_dict :: "json \<Rightarrow> exn + dict" where
  "loads_dict j =
     (if \<not> truthy j then Inr []
      else case j of
        JObj d \<Rightarrow> Inr d
      | JArr xs \<Rightarrow> (case pairs_of xs of Inl e \<Rightarrow> Inl e
          | Inr ps \<Rightarrow> Inr (fold (\<lambda>(k, v) d. dict_set k v d) ps []))
      | JStr s \<Rightarrow> Inl (ValueError ''dictionary update sequence element #0 has length 1; 2 is required'')
      | _ \<Rightarrow> Inl (OtherError ''object is not iterable''))"

text \<open>\<open>_row_to_schedule\<close>: the row with its two JSON columns as dictionaries.\<close>

definition row_to_schedule :: "schedule \<Rightarrow> exn + schedule" where
  "row_to_schedule r =
     (case loads_dict (s_context r) of Inl e \<Rightarrow> Inl e
      | Inr context \<Rightarrow>
          (case loads_dict (s_state r) of Inl e \<Rightarrow> Inl e
           | Inr state \<Rightarrow> Inr (r\<lparr>s_context := JObj context, s_state := JObj state,
               s_timezone := (if s_timezone r = [] then ''UTC'' else s_timezone r)\<rparr>)))"

fun rows_to_schedules :: "schedule list \<Rightarrow> exn + schedule list" where
  "rows_to_schedules [] = Inr []"
| "rows_to_schedules (r # rs) =
     (case row_to_schedule r of Inl e \<Rightarrow> Inl e
      | Inr s \<Rightarrow> (case rows_to_schedules rs of Inl e \<Rightarrow> Inl e | Inr ss \<Rightarrow> Inr (s # ss)))"

subsection \<open>When a schedule fires next\<close>

definition compute_next_run_at ::
  "calendar \<Rightarrow> recurrence \<Rightarrow> time \<Rightarrow> pystr option \<Rightarrow> int option \<Rightarrow> pystr \<Rightarrow> exn + time option" where
  "compute_next_run_at cal recurrence at cron_expr interval zone =
     (case recurrence of
        Once \<Rightarrow> Inr None
      | Interval \<Rightarrow>
          (case interval of
             Some n \<Rightarrow> if n \<le> 0 then Inl (ValueError ''interval recurrence needs interval_seconds > 0'')
                       else Inr (Some (at + n * second))
           | None \<Rightarrow> Inl (ValueError ''interval recurrence needs interval_seconds > 0''))
      | Cron \<Rightarrow>
          (case cron_expr of
             Some (c # cs) \<Rightarrow>
               (case cal_cron_next cal (c # cs) (if cal_zone_valid cal zone then zone else ''UTC'') at of
                  Inl e \<Rightarrow> Inl e | Inr t \<Rightarrow> Inr (Some t))
           | _ \<Rightarrow> Inl (ValueError ''cron recurrence needs cron_expr'')))"

definition next_after_fire :: "calendar \<Rightarrow> schedule \<Rightarrow> time \<Rightarrow> exn + (time option \<times> schedule_status)" where
  "next_after_fire cal s at =
     (if (case s_max_runs s of None \<Rightarrow> False | Some m \<Rightarrow> s_run_count s + 1 \<ge> m) then Inr (None, SDone)
      else case compute_next_run_at cal (s_recurrence s) at (s_cron_expr s) (s_interval_seconds s)
             (s_timezone s) of
        Inl e \<Rightarrow> Inl e
      | Inr None \<Rightarrow> Inr (None, SDone)
      | Inr (Some t) \<Rightarrow>
          if (case s_until s of None \<Rightarrow> False | Some u \<Rightarrow> t > u) then Inr (None, SDone)
          else Inr (Some t, SActive))"

subsection \<open>The table\<close>

record schedule_request =
  sq_instruction :: pystr
  sq_recurrence :: recurrence
  sq_next_run_at :: time
  sq_cron_expr :: "pystr option"
  sq_interval_seconds :: "int option"
  sq_timezone :: pystr
  sq_context :: json
  sq_channel :: "pystr option"
  sq_title :: "pystr option"
  sq_max_runs :: "int option"
  sq_until :: "time option"

definition new_schedule :: "uuid \<Rightarrow> time \<Rightarrow> uuid \<Rightarrow> schedule_request \<Rightarrow> schedule" where
  "new_schedule i at user q =
     \<lparr> s_id = i, s_user_id = user, s_instruction = sq_instruction q,
       s_context = (if truthy (sq_context q) then sq_context q else JObj []), s_state = JObj [],
       s_recurrence = sq_recurrence q, s_cron_expr = sq_cron_expr q,
       s_interval_seconds = sq_interval_seconds q, s_timezone = sq_timezone q,
       s_next_run_at = Some (sq_next_run_at q), s_last_run_at = None, s_run_count = 0,
       s_max_runs = sq_max_runs q, s_until = sq_until q, s_channel = sq_channel q,
       s_status = SActive, s_title = sq_title q, s_created_at = at, s_updated_at = at \<rparr>"

definition schedule_create :: "uuid \<Rightarrow> schedule_request \<Rightarrow> schedule act" where
  "schedule_create user q =
     bindE (stmt (\<lambda>w.
       if \<not> valid_channel (sq_channel q) then (Inl (DbError ''invalid input value for enum channel''), w)
       else let row = new_schedule (Uuid (next_id w)) (now w) user q in
         (Inr row, w\<lparr>next_id := Suc (next_id w), schedules := schedules w @ [row]\<rparr>)))
       (\<lambda>row. liftE (row_to_schedule row))"

definition schedule_get :: "uuid \<Rightarrow> uuid \<Rightarrow> schedule option act" where
  "schedule_get user sid =
     bindE (stmt (getsE (\<lambda>w. sql_first (\<lambda>s. s_id s = sid \<and> s_user_id s = user) (schedules w))))
       (\<lambda>row. case row of None \<Rightarrow> ret None
         | Some r \<Rightarrow> bindE (liftE (row_to_schedule r)) (\<lambda>s. ret (Some s)))"

definition open_schedule :: "schedule \<Rightarrow> bool" where
  "open_schedule s = (s_status s = SActive \<or> s_status s = SPaused)"

definition next_key :: "schedule \<Rightarrow> bool \<times> time" where
  "next_key s = (case s_next_run_at s of None \<Rightarrow> (True, 0) | Some t \<Rightarrow> (False, t))"

definition list_schedules_for_user :: "uuid \<Rightarrow> bool \<Rightarrow> nat \<Rightarrow> schedule list act" where
  "list_schedules_for_user user include_terminal limit =
     bindE (stmt (getsE (\<lambda>w.
       let own = filter (\<lambda>s. s_user_id s = user) (schedules w) in
       take limit (if include_terminal then sort_key (\<lambda>s. - s_created_at s) own
                   else sort_key next_key (filter open_schedule own)))))
       (\<lambda>rows. liftE (rows_to_schedules rows))"

definition cancelled_schedule :: "time \<Rightarrow> schedule \<Rightarrow> schedule" where
  "cancelled_schedule at s =
     s\<lparr>s_status := SCancelled, s_next_run_at := None, s_updated_at := at\<rparr>"

definition schedule_cancel :: "uuid \<Rightarrow> uuid \<Rightarrow> schedule option act" where
  "schedule_cancel user sid =
     bindE (stmt (\<lambda>w.
       let p = (\<lambda>s. s_id s = sid \<and> s_user_id s = user \<and> open_schedule s) in
       (Inr (sql_returning p (cancelled_schedule (now w)) (schedules w)),
        w\<lparr>schedules := sql_set p (cancelled_schedule (now w)) (schedules w)\<rparr>)))
       (\<lambda>row. case row of None \<Rightarrow> ret None
         | Some r \<Rightarrow> bindE (liftE (row_to_schedule r)) (\<lambda>s. ret (Some s)))"

definition update_schedule_state :: "uuid \<Rightarrow> uuid \<Rightarrow> dict \<Rightarrow> bool act" where
  "update_schedule_state user sid state = stmt (\<lambda>w.
     let p = (\<lambda>s. s_id s = sid \<and> s_user_id s = user) in
     (Inr (sql_first p (schedules w) \<noteq> None),
      w\<lparr>schedules := sql_set p (\<lambda>s. s\<lparr>s_state := JObj state, s_updated_at := now w\<rparr>) (schedules w)\<rparr>))"

subsection \<open>Claiming what is due\<close>

text \<open>The transaction writes the schedules only: an exception puts them back.\<close>

definition schedules_transaction :: "'a act \<Rightarrow> 'a act" where
  "schedules_transaction m w =
     (case m w of (Inl e, w') \<Rightarrow> (Inl e, w'\<lparr>schedules := schedules w\<rparr>) | (Inr x, w') \<Rightarrow> (Inr x, w'))"

definition due_at :: "time \<Rightarrow> schedule \<Rightarrow> bool" where
  "due_at at s = (s_status s = SActive \<and>
     (case s_next_run_at s of None \<Rightarrow> False | Some t \<Rightarrow> t \<le> at))"

definition due_rows :: "time \<Rightarrow> nat \<Rightarrow> world \<Rightarrow> schedule list" where
  "due_rows at limit w = take limit (sort_key next_key (filter (due_at at) (schedules w)))"

definition advanced :: "time option \<Rightarrow> schedule_status \<Rightarrow> time \<Rightarrow> time \<Rightarrow> schedule \<Rightarrow> schedule" where
  "advanced nxt st at upd s = s\<lparr>s_next_run_at := nxt, s_status := st, s_last_run_at := Some at,
     s_run_count := s_run_count s + 1, s_updated_at := upd\<rparr>"

definition claim_one :: "calendar \<Rightarrow> time \<Rightarrow> schedule \<Rightarrow> schedule act" where
  "claim_one cal at row =
     bindE (liftE (row_to_schedule row)) (\<lambda>s.
     bindE (liftE (next_after_fire cal s at)) (\<lambda>(nxt, st).
     thenE (stmt (modifyE (\<lambda>w. w\<lparr>schedules :=
              sql_set (\<lambda>r. s_id r = s_id s) (advanced nxt st at (now w)) (schedules w)\<rparr>)))
           (ret s)))"

definition claim_and_advance_due :: "calendar \<Rightarrow> time \<Rightarrow> nat \<Rightarrow> schedule list act" where
  "claim_and_advance_due cal at limit = schedules_transaction
     (bindE (stmt (getsE (due_rows at limit))) (mapE (claim_one cal at)))"

subsection \<open>The dispatcher\<close>

record dispatch_result =
  dr_claimed :: nat
  dr_spawned :: nat
  dr_errors :: nat

definition dict_of :: "json \<Rightarrow> dict" where
  "dict_of j = (case j of JObj d \<Rightarrow> d | _ \<Rightarrow> [])"

definition render_content :: "schedule \<Rightarrow> pystr" where
  "render_content s = lines_of
     ([strip (s_instruction s), []] @
      (if dict_of (s_context s) = [] then []
       else ''[Scheduling context]'' #
         map (\<lambda>(k, v). ''- '' @ k @ '': '' @ json_str v) (dict_of (s_context s)) @ [[]]) @
      (if dict_of (s_state s) = [] then []
       else [''[Notes you left on previous runs] '' @ dumps (s_state s), []]) @
      [''You are running as scheduled job '' @ uuid_text (s_id s) @ '' '' @ [em_dash] @ '' there is no human'' @
       '' available to answer questions, so do not ask any; act on the'' @
       '' instruction and stop. Reach out to the user only if the'' @
       '' instruction says to (e.g. via send_telegram_message). If you need'' @
       '' to remember something so a future run doesn't repeat itself (for'' @
       '' example, that you already notified the user), call'' @
       '' update_schedule_state with schedule_id='' @ [dquote] @ uuid_text (s_id s) @ [dquote] @ ''.''])"

definition scheduled_request :: "schedule \<Rightarrow> task_request" where
  "scheduled_request s =
     \<lparr> tr_user = s_user_id s, tr_thread = None, tr_content = render_content s,
       tr_title = (case s_title s of None \<Rightarrow> ''Scheduled task''
                   | Some t \<Rightarrow> if t = [] then ''Scheduled task'' else t),
       tr_description = None, tr_completion = s_channel s, tr_channel = None,
       tr_complexity = JStr ''moderate'', tr_parent = None, tr_budget = None, tr_agentic = True \<rparr>"

definition link_task :: "uuid \<Rightarrow> uuid \<Rightarrow> unit act" where
  "link_task tid sid = stmt (modifyE (\<lambda>w. w\<lparr>tasks :=
     sql_set (\<lambda>t. t_id t = tid) (\<lambda>t. t\<lparr>t_schedule_id := Some sid\<rparr>) (tasks w)\<rparr>))"

definition spawn_run :: "settings \<Rightarrow> schedule \<Rightarrow> unit act" where
  "spawn_run cfg s =
     bindE (service_create (scheduled_request s)) (\<lambda>t.
     thenE (best_effort (link_task (t_id t) (s_id s)))
           (enqueue_run_task cfg (t_id t)))"

fun spawn_all :: "settings \<Rightarrow> schedule list \<Rightarrow> (nat \<times> nat) act" where
  "spawn_all cfg [] = ret (0, 0)"
| "spawn_all cfg (s # ss) =
     bindE (attemptE (spawn_run cfg s)) (\<lambda>r.
     bindE (spawn_all cfg ss) (\<lambda>(spawned, errors).
     ret (case r of Inr _ \<Rightarrow> (Suc spawned, errors) | Inl _ \<Rightarrow> (spawned, Suc errors))))"

definition nothing_dispatched :: dispatch_result where
  "nothing_dispatched = \<lparr> dr_claimed = 0, dr_spawned = 0, dr_errors = 0 \<rparr>"

definition dispatch_schedules :: "calendar \<Rightarrow> settings \<Rightarrow> dispatch_result act" where
  "dispatch_schedules cal cfg =
     (if \<not> schedules_enabled cfg then ret nothing_dispatched
      else bindE (getsE now) (\<lambda>at.
        bindE (claim_and_advance_due cal at (schedules_dispatch_batch cfg)) (\<lambda>claimed.
        if claimed = [] then ret nothing_dispatched
        else bindE (spawn_all cfg claimed) (\<lambda>(spawned, errors).
          ret \<lparr> dr_claimed = length claimed, dr_spawned = spawned, dr_errors = errors \<rparr>))))"

definition dispatch_schedules_job :: "calendar \<Rightarrow> settings \<Rightarrow> dict act" where
  "dispatch_schedules_job cal cfg =
     bindE (dispatch_schedules cal cfg) (\<lambda>r.
     ret [(''claimed'', JInt (int (dr_claimed r))), (''spawned'', JInt (int (dr_spawned r))),
          (''errors'', JInt (int (dr_errors r)))])"

end
