(* ===== verification/Schedule_Tools.thy ===== *)
theory Schedule_Tools
  imports Schedules
begin

section \<open>The tools for schedules\<close>

text \<open>
  \<open>src/wolfpaw/toolbox/tools/schedule_task.py\<close>, \<open>update_schedule_state.py\<close>, \<open>list_schedules.py\<close>
  and \<open>cancel_schedule.py\<close>. A numeric limit of Python's dates (the year 9999) is not modelled.
\<close>

subsection \<open>Reading the inputs of \<open>schedule_task\<close>\<close>

definition parse_dt :: "calendar \<Rightarrow> pystr \<Rightarrow> pystr \<Rightarrow> exn + time" where
  "parse_dt cal raw zone =
     (case cal_parse cal (replace ''Z'' ''+00:00'' (strip raw)) of
        None \<Rightarrow> Inl (ToolError (''could not parse datetime '' @ py_repr raw @ '': Invalid isoformat string: '' @
                  py_repr (replace ''Z'' ''+00:00'' (strip raw))))
      | Some (t, aware) \<Rightarrow>
          Inr (if aware then t else if cal_zone_valid cal zone then cal_localize cal zone t else t))"

definition read_zone :: "calendar \<Rightarrow> json \<Rightarrow> exn + pystr option" where
  "read_zone cal override =
     (if \<not> truthy override then Inr None
      else case override of
        JStr z \<Rightarrow> if cal_zone_valid cal z then Inr (Some z)
                  else Inl (ToolError (''invalid timezone '' @ py_repr z))
      | _ \<Rightarrow> Inl (ToolError (''invalid timezone '' @ json_repr override)))"

definition profile_zone :: "uuid \<Rightarrow> world \<Rightarrow> pystr" where
  "profile_zone user w =
     (case sql_first (\<lambda>p. up_user_id p = user) (profiles w) of
        None \<Rightarrow> ''UTC'' | Some p \<Rightarrow> if up_timezone p = [] then ''UTC'' else up_timezone p)"

definition resolve_timezone :: "calendar \<Rightarrow> uuid \<Rightarrow> json \<Rightarrow> pystr act" where
  "resolve_timezone cal user override =
     bindE (liftE (read_zone cal override)) (\<lambda>z. case z of
       Some zone \<Rightarrow> ret zone
     | None \<Rightarrow> stmt (getsE (profile_zone user)))"

definition read_recurrence :: "json \<Rightarrow> exn + recurrence" where
  "read_recurrence j =
     (if j = JStr ''once'' then Inr Once else if j = JStr ''interval'' then Inr Interval
      else if j = JStr ''cron'' then Inr Cron
      else Inl (ToolError ''`recurrence` must be once|interval|cron''))"

definition read_schedule_channel :: "json \<Rightarrow> exn + pystr" where
  "read_schedule_channel j =
     (case (if truthy j then j else JStr ''telegram'') of
        JStr c \<Rightarrow> if lower c = ''telegram'' then Inr (lower c)
                  else Inl (ToolError (''`channel` must be one of ['' @ py_repr ''telegram'' @ '']''))
      | _ \<Rightarrow> Inl (OtherError ''object has no attribute 'lower' ''))"

text \<open>\<open>int(x)\<close> of a positive number, in whole seconds.\<close>

definition read_delay :: "json \<Rightarrow> exn + int" where
  "read_delay j =
     (let bad = Inl (ToolError ''`delay_seconds` must be a positive number'') in
      case j of
        JInt n \<Rightarrow> if n \<le> 0 then bad else Inr n
      | JBool b \<Rightarrow> if b then Inr 1 else bad
      | JFloat m k \<Rightarrow> if m \<le> 0 then bad else Inr (m div 10 ^ k)
      | _ \<Rightarrow> bad)"

definition first_once :: "calendar \<Rightarrow> time \<Rightarrow> pystr \<Rightarrow> dict \<Rightarrow> exn + time" where
  "first_once cal at zone inputs =
     (let delay = get_default inputs ''delay_seconds'' JNull; run_at = get_default inputs ''run_at'' JNull in
      if delay \<noteq> JNull then
        (case read_delay delay of Inl e \<Rightarrow> Inl e | Inr n \<Rightarrow> Inr (at + n * second))
      else if truthy run_at then
        (case parse_dt cal (json_str run_at) zone of Inl e \<Rightarrow> Inl e
         | Inr t \<Rightarrow> if t \<le> at then Inl (ToolError ''`run_at` must be in the future'') else Inr t)
      else Inl (ToolError (''recurrence='once' requires `delay_seconds` (for 'in'' @
        '' N minutes') or `run_at` (an absolute ISO-8601 time)'')))"

definition read_interval :: "settings \<Rightarrow> json \<Rightarrow> exn + int" where
  "read_interval cfg j =
     (case as_int j of
        None \<Rightarrow> Inl (ToolError ''recurrence='interval' requires positive `interval_seconds`'')
      | Some n \<Rightarrow>
          if n \<le> 0 then Inl (ToolError ''recurrence='interval' requires positive `interval_seconds`'')
          else if n < schedules_min_interval_seconds cfg
          then Inl (ToolError (''`interval_seconds` must be >= '' @ show_int (schedules_min_interval_seconds cfg)))
          else Inr n)"

definition some_time :: "exn + time option \<Rightarrow> exn + time" where
  "some_time r = (case r of Inl e \<Rightarrow> Inl e | Inr (Some t) \<Rightarrow> Inr t
     | Inr None \<Rightarrow> Inl (OtherError ''AssertionError''))"

definition first_interval :: "calendar \<Rightarrow> time \<Rightarrow> pystr \<Rightarrow> int \<Rightarrow> dict \<Rightarrow> exn + time" where
  "first_interval cal at zone n inputs =
     (let run_at = get_default inputs ''run_at'' JNull in
      if truthy run_at then parse_dt cal (json_str run_at) zone
      else some_time (compute_next_run_at cal Interval at None (Some n) ''UTC''))"

definition read_cron :: "calendar \<Rightarrow> json \<Rightarrow> exn + pystr" where
  "read_cron cal j =
     (case j of
        JStr c \<Rightarrow> if c = [] then Inl (ToolError ''recurrence='cron' requires `cron_expr`'')
                  else if cal_cron_valid cal c then Inr c
                  else Inl (ToolError (''invalid cron expression '' @ py_repr c))
      | _ \<Rightarrow> Inl (ToolError ''recurrence='cron' requires `cron_expr`''))"

text \<open>The cadence: the cron expression, the interval and the first run.\<close>

definition read_cadence ::
  "calendar \<Rightarrow> settings \<Rightarrow> time \<Rightarrow> pystr \<Rightarrow> recurrence \<Rightarrow> dict
     \<Rightarrow> exn + (pystr option \<times> int option \<times> time)" where
  "read_cadence cal cfg at zone recurrence inputs =
     (case recurrence of
        Once \<Rightarrow> (case first_once cal at zone inputs of Inl e \<Rightarrow> Inl e | Inr t \<Rightarrow> Inr (None, None, t))
      | Interval \<Rightarrow>
          (case read_interval cfg (get_default inputs ''interval_seconds'' JNull) of Inl e \<Rightarrow> Inl e
           | Inr n \<Rightarrow> (case first_interval cal at zone n inputs of Inl e \<Rightarrow> Inl e
               | Inr t \<Rightarrow> Inr (None, Some n, t)))
      | Cron \<Rightarrow>
          (case read_cron cal (get_default inputs ''cron_expr'' JNull) of Inl e \<Rightarrow> Inl e
           | Inr c \<Rightarrow> (case some_time (compute_next_run_at cal Cron at (Some c) None zone) of Inl e \<Rightarrow> Inl e
               | Inr t \<Rightarrow> Inr (Some c, None, t))))"

definition read_until :: "calendar \<Rightarrow> pystr \<Rightarrow> json \<Rightarrow> exn + time option" where
  "read_until cal zone j =
     (if truthy j then (case parse_dt cal (json_str j) zone of Inl e \<Rightarrow> Inl e | Inr t \<Rightarrow> Inr (Some t))
      else Inr None)"

definition read_max_runs :: "json \<Rightarrow> exn + int option" where
  "read_max_runs j =
     (if j = JNull then Inr None
      else case as_int j of
        Some n \<Rightarrow> if n \<le> 0 then Inl (ToolError ''`max_runs` must be a positive integer'') else Inr (Some n)
      | None \<Rightarrow> Inl (ToolError ''`max_runs` must be a positive integer''))"

definition read_title :: "json \<Rightarrow> exn + pystr option" where
  "read_title j = (case j of JNull \<Rightarrow> Inr None | JStr s \<Rightarrow> Inr (Some s)
     | _ \<Rightarrow> Inl (DbError ''invalid input for query argument: expected str''))"

definition recurrence_text :: "recurrence \<Rightarrow> pystr" where
  "recurrence_text r = (case r of Once \<Rightarrow> ''once'' | Interval \<Rightarrow> ''interval'' | Cron \<Rightarrow> ''cron'')"

fun schedule_status_text :: "schedule_status \<Rightarrow> pystr" where
  "schedule_status_text SActive = ''active''"
| "schedule_status_text SPaused = ''paused''"
| "schedule_status_text SDone = ''done''"
| "schedule_status_text SCancelled = ''cancelled''"

definition time_json :: "calendar \<Rightarrow> time option \<Rightarrow> json" where
  "time_json cal t = (case t of None \<Rightarrow> JNull | Some x \<Rightarrow> JStr (cal_isoformat cal x))"

subsection \<open>The tools\<close>

definition schedule_task_run :: "calendar \<Rightarrow> settings \<Rightarrow> tool_ctx \<Rightarrow> dict \<Rightarrow> dict act" where
  "schedule_task_run cal cfg ctx inputs =
     (case dict_get inputs ''instruction'' of
        Some (JStr instruction) \<Rightarrow>
          if strip instruction = [] then raise (ToolError ''`instruction` must be a non-empty string'')
          else
            bindE (liftE (read_recurrence (get_default inputs ''recurrence'' JNull))) (\<lambda>recurrence.
            bindE (liftE (read_schedule_channel (get_default inputs ''channel'' JNull))) (\<lambda>channel.
            bindE (resolve_timezone cal (c_user ctx) (get_default inputs ''timezone'' JNull)) (\<lambda>zone.
            bindE (getsE now) (\<lambda>at.
            bindE (liftE (read_cadence cal cfg at zone recurrence inputs)) (\<lambda>(cron_expr, interval, first).
            bindE (liftE (read_until cal zone (get_default inputs ''until'' JNull))) (\<lambda>until.
            bindE (liftE (read_max_runs (get_default inputs ''max_runs'' JNull))) (\<lambda>max_runs.
            bindE (liftE (read_title (get_default inputs ''title'' JNull))) (\<lambda>title.
            bindE (schedule_create (c_user ctx)
              \<lparr> sq_instruction = instruction, sq_recurrence = recurrence, sq_next_run_at = first,
                sq_cron_expr = cron_expr, sq_interval_seconds = interval, sq_timezone = zone,
                sq_context = get_or inputs ''context'' (JObj []), sq_channel = Some channel,
                sq_title = title, sq_max_runs = max_runs, sq_until = until \<rparr>) (\<lambda>s.
            ret [(''schedule_id'', JStr (uuid_text (s_id s))),
                 (''recurrence'', JStr (recurrence_text (s_recurrence s))),
                 (''next_run_at'', time_json cal (s_next_run_at s)),
                 (''timezone'', JStr (s_timezone s)), (''title'', opt_str (s_title s))])))))))))
      | _ \<Rightarrow> raise (ToolError ''`instruction` must be a non-empty string''))"

definition read_schedule_id :: "dict \<Rightarrow> exn + uuid" where
  "read_schedule_id inputs =
     (let raw = get_default inputs ''schedule_id'' JNull in
      case parse_uuid (json_str raw) of
        None \<Rightarrow> Inl (ToolError (''invalid schedule_id '' @ json_repr raw))
      | Some sid \<Rightarrow> Inr sid)"

definition update_schedule_state_run :: "tool_ctx \<Rightarrow> dict \<Rightarrow> dict act" where
  "update_schedule_state_run ctx inputs =
     bindE (liftE (read_schedule_id inputs)) (\<lambda>sid.
     case dict_get inputs ''state'' of
       Some (JObj state) \<Rightarrow>
         bindE (update_schedule_state (c_user ctx) sid state) (\<lambda>ok.
         if \<not> ok then raise (ToolError ''No schedule with that id for this user; state not saved.'')
         else ret [(''updated'', JBool True), (''schedule_id'', JStr (uuid_text sid))])
     | _ \<Rightarrow> raise (ToolError ''`state` must be an object''))"

definition schedule_entry :: "calendar \<Rightarrow> schedule \<Rightarrow> json" where
  "schedule_entry cal s = JObj
     [(''schedule_id'', JStr (uuid_text (s_id s))), (''title'', opt_str (s_title s)),
      (''instruction'', JStr (s_instruction s)), (''recurrence'', JStr (recurrence_text (s_recurrence s))),
      (''status'', JStr (schedule_status_text (s_status s))),
      (''next_run_at'', time_json cal (s_next_run_at s)), (''run_count'', JInt (s_run_count s))]"

definition list_schedules_run :: "calendar \<Rightarrow> tool_ctx \<Rightarrow> dict \<Rightarrow> dict act" where
  "list_schedules_run cal ctx inputs =
     bindE (list_schedules_for_user (c_user ctx) (truthy (get_default inputs ''include_terminal'' JNull)) 100)
       (\<lambda>rows. ret [(''schedules'', JArr (map (schedule_entry cal) rows))])"

definition cancel_schedule_run :: "tool_ctx \<Rightarrow> dict \<Rightarrow> dict act" where
  "cancel_schedule_run ctx inputs =
     bindE (liftE (read_schedule_id inputs)) (\<lambda>sid.
     bindE (schedule_cancel (c_user ctx) sid) (\<lambda>cancelled. case cancelled of
       None \<Rightarrow> raise (ToolError (''No active schedule with that id (it may not exist, belong to'' @
                 '' someone else, or already be finished).''))
     | Some s \<Rightarrow> ret [(''cancelled'', JBool True), (''schedule_id'', JStr (uuid_text (s_id s)))]))"

definition schedule_task_tool :: "calendar \<Rightarrow> settings \<Rightarrow> tool" where
  "schedule_task_tool cal cfg =
     \<lparr> tl_name = ''schedule_task'',
       tl_description =
         ''Schedule an instruction to run later '' @ [em_dash] @
         '' once, on an interval, or on a cron schedule. Do '' @
         ''NOT compute timestamps yourself. For one-time 'in N minutes/hours' use recurrence='once' '' @
         ''with `delay_seconds` (e.g. 'in 2 minutes' -> delay_seconds=120); never put relative text '' @
         ''in `run_at`. For a specific clock time ('at 8pm') use recurrence='cron' with the matching '' @
         ''expression (e.g. '0 20 * * *') and max_runs=1. For recurring use interval_seconds or '' @
         ''cron. Split the request: cadence -> recurrence args; a self-contained single-run '' @
         ''imperative -> `instruction` (cadence removed, any 'message me if'' @ [ellipsis] @ [squote] @
         '' condition and '' @ [squote] @
         ''otherwise stay silent' made explicit). Returns immediately.'',
       tl_schema =
         [(''type'', JStr ''object''),
          (''properties'', JObj
            [(''instruction'', JObj
              [(''type'', JStr ''string''),
               (''description'', JStr ''Self-contained imperative for ONE run, cadence removed.'')]),
             (''recurrence'', JObj
              [(''type'', JStr ''string''),
               (''enum'', JArr [JStr ''once'',
                JStr ''interval'',
                JStr ''cron''])]),
             (''delay_seconds'', JObj
              [(''type'', JStr ''integer''),
               (''description'', JStr (''Run once this many seconds from now (use for 'in N minutes/hours'). Preferred over run_at '' @
                      ''for relative times.''))]),
             (''run_at'', JObj
              [(''type'', JStr ''string''),
               (''description'', JStr (''Absolute ISO-8601 time for recurrence='once'. Only use if you have a real timestamp; for '' @
                      ''relative times use delay_seconds instead.''))]),
             (''interval_seconds'', JObj
              [(''type'', JStr ''integer''),
               (''description'', JStr ''Seconds between runs for recurrence='interval'.'')]),
             (''cron_expr'', JObj
              [(''type'', JStr ''string''),
               (''description'', JStr ''5-field cron for recurrence='cron' (e.g. '0 8 * * *').'')]),
             (''timezone'', JObj
              [(''type'', JStr ''string''),
               (''description'', JStr ''IANA tz (defaults to the user's profile tz).'')]),
             (''title'', JObj
              [(''type'', JStr ''string''),
               (''description'', JStr ''Short human label.'')]),
             (''context'', JObj
              [(''type'', JStr ''object''),
               (''description'', JStr ''Resolved params for the run (location, etc.).'')]),
             (''channel'', JObj
              [(''type'', JStr ''string''),
               (''description'', JStr ''Delivery channel; defaults to 'telegram'.'')]),
             (''max_runs'', JObj
              [(''type'', JStr ''integer''),
               (''description'', JStr ''Optional cap on total runs.'')]),
             (''until'', JObj
              [(''type'', JStr ''string''),
               (''description'', JStr ''Optional ISO-8601 end time for recurring schedules.'')])]),
          (''required'', JArr [JStr ''instruction'',
            JStr ''recurrence''])],
       tl_needs_task = False,
       tl_run = schedule_task_run cal cfg \<rparr>"

definition update_schedule_state_tool :: "tool" where
  "update_schedule_state_tool =
     \<lparr> tl_name = ''update_schedule_state'',
       tl_description =
         ''Save state for a schedule so future runs don't repeat work (e.g. record that you already '' @
         ''notified the user). Replaces the schedule's stored state with the object you pass. Use '' @
         ''the schedule_id given in your run prompt. Only valid inside a scheduled run.'',
       tl_schema =
         [(''type'', JStr ''object''),
          (''properties'', JObj
            [(''schedule_id'', JObj
              [(''type'', JStr ''string''),
               (''description'', JStr ''The schedule's id (from your run prompt).'')]),
             (''state'', JObj
              [(''type'', JStr ''object''),
               (''description'', JStr ''The full new state object to store.'')])]),
          (''required'', JArr [JStr ''schedule_id'',
            JStr ''state''])],
       tl_needs_task = False,
       tl_run = update_schedule_state_run \<rparr>"

definition list_schedules_tool :: "calendar \<Rightarrow> tool" where
  "list_schedules_tool cal =
     \<lparr> tl_name = ''list_schedules'',
       tl_description =
         ''List the user's active and paused schedules (reminders / recurring tasks), soonest first. '' @
         ''Returns each schedule's id, title, instruction, recurrence, and next run time.'',
       tl_schema =
         [(''type'', JStr ''object''),
          (''properties'', JObj
            [(''include_terminal'', JObj
              [(''type'', JStr ''boolean''),
               (''description'', JStr ''Also include done/cancelled schedules.'')])])],
       tl_needs_task = False,
       tl_run = list_schedules_run cal \<rparr>"

definition cancel_schedule_tool :: "tool" where
  "cancel_schedule_tool =
     \<lparr> tl_name = ''cancel_schedule'',
       tl_description =
         ''Cancel a schedule by id so it stops running. Get the id from list_schedules. Fails if the '' @
         ''id is unknown or already finished.'',
       tl_schema =
         [(''type'', JStr ''object''),
          (''properties'', JObj
            [(''schedule_id'', JObj
              [(''type'', JStr ''string''),
               (''description'', JStr ''The schedule's id (UUID).'')])]),
          (''required'', JArr [JStr ''schedule_id''])],
       tl_needs_task = False,
       tl_run = cancel_schedule_run \<rparr>"

end
