(* ===== verification/Schedule_Props.thy ===== *)
theory Schedule_Props
  imports Schedule_Tools
begin

section \<open>What schedules keep\<close>

text \<open>
  A claim moves every row it takes past the instant of the claim and leaves the others alone; a
  row that cannot be read, or whose next run cannot be computed, makes the whole claim raise and
  roll back; and no operation lets a schedule fire more often than its \<open>max_runs\<close>.
\<close>

subsection \<open>One claim\<close>

lemma row_to_schedule_same:
  assumes "row_to_schedule r = Inr s"
  shows "s_id s = s_id r" "s_run_count s = s_run_count r" "s_max_runs s = s_max_runs r"
    "s_until s = s_until r" "s_status s = s_status r" "s_next_run_at s = s_next_run_at r"
  using assms by (auto simp: row_to_schedule_def split: sum.splits)


lemma advance_keeps_id: "row_update s_id (advanced nxt st at upd)"
  by (simp add: row_update_def advanced_def)

lemma claim_one_cases:
  assumes "claim_one cal at row w = (r, w')"
  obtains (claimed) s nxt st upd where "r = Inr s" "row_to_schedule row = Inr s"
      "next_after_fire cal s at = Inr (nxt, st)"
      "schedules w' = sql_set (\<lambda>x. s_id x = s_id row) (advanced nxt st at upd) (schedules w)"
  | (failed) e where "r = Inl e" "schedules w' = schedules w"
  using assms unfolding claim_one_def
proof (cases rule: bindE_cases)
  case (exn e)
  then show ?thesis using failed by simp
next
  case (val s w1)
  then have s: "row_to_schedule row = Inr s" "w1 = w" by auto
  from val(2) show ?thesis
  proof (cases rule: bindE_cases)
    case (exn e)
    then show ?thesis using failed s by simp
  next
    case (val p w2)
    obtain nxt st where p: "p = (nxt, st)" by (cases p)
    then have n: "next_after_fire cal s at = Inr (nxt, st)" "w2 = w" using val(1) s by auto
    from val(2)[unfolded p prod.case thenE_def] show ?thesis
    proof (cases rule: bindE_cases)
      case (exn e)
      from exn(1) show ?thesis
        by (cases rule: stmt_cases) (use exn(2) failed n(2) near_frame(7) in auto)
    next
      case (val u w3)
      from val(1) show ?thesis
      proof (cases rule: stmt_cases)
        case (run v)
        then show ?thesis
          using claimed[OF _ s(1) n(1), of "now v"] val(2) n(2) s near_frame(7)[OF run(1)]
            row_to_schedule_same(1)[OF s(1)] by auto
      qed simp
    qed
  qed
qed

lemma distinct_head: "distinct (map f (x # xs)) \<Longrightarrow> y \<in> set xs \<Longrightarrow> f y \<noteq> f x"
  by (metis distinct.simps(2) image_eqI list.map(2) set_map)


lemma due_rows_facts:
  assumes "key_distinct s_id (schedules w)"
  shows "distinct (map s_id (due_rows at limit w))"
    "r \<in> set (due_rows at limit w) \<Longrightarrow> key_lookup s_id (s_id r) (schedules w) = Some r \<and> due_at at r"
proof -
  have "distinct (map s_id (filter (due_at at) (schedules w)))"
    using assms by (simp add: key_distinct_def distinct_map_filter)
  then have "distinct (map s_id (sort_key next_key (filter (due_at at) (schedules w))))"
    by (metis distinct_map distinct_sort set_sort)
  then show "distinct (map s_id (due_rows at limit w))"
    by (simp add: due_rows_def distinct_take flip: take_map)
  show "r \<in> set (due_rows at limit w) \<Longrightarrow> key_lookup s_id (s_id r) (schedules w) = Some r \<and> due_at at r"
    using key_lookup_in[OF assms] by (auto simp: due_rows_def dest!: in_set_takeD)
qed

lemma due_rows_cong: "schedules v = schedules w \<Longrightarrow> due_rows at limit v = due_rows at limit w"
  by (simp add: due_rows_def)

lemma claim_runs:
  assumes "claim_and_advance_due cal at limit w = (r, w')"
  obtains (read_failed) e where "r = Inl e" "schedules w' = schedules w"
  | (ran) v q u where "schedules v = schedules w"
      "mapE (claim_one cal at) (due_rows at limit w) v = (q, u)" "r = q"
      "\<And>e. q = Inl e \<Longrightarrow> schedules w' = schedules w" "\<And>x. q = Inr x \<Longrightarrow> w' = u"
proof -
  obtain q u where q: "bindE (stmt (getsE (due_rows at limit))) (mapE (claim_one cal at)) w = (q, u)" by fastforce
  have r: "r = q" "\<And>e. q = Inl e \<Longrightarrow> schedules w' = schedules w" "\<And>x. q = Inr x \<Longrightarrow> w' = u"
    using assms q by (auto simp: claim_and_advance_due_def schedules_transaction_def split: sum.splits)
  from q show thesis
  proof (cases rule: read_cases)
    case (run v)
    have same: "schedules v = schedules w" using near_frame(7)[OF run(1)] .
    show thesis using ran[OF same] run(2) r due_rows_cong[OF same] by metis
  next
    case (fail e)
    then show thesis using read_failed r by blast
  qed
qed

lemma bad_row_raises:
  assumes "row \<in> set rows"
    and "\<And>s. row_to_schedule row = Inr s \<Longrightarrow> \<exists>e. next_after_fire cal s at = Inl e"
  shows "mapE (claim_one cal at) rows w \<noteq> (Inr ss, w')"
  using assms(1)
proof (induction rows arbitrary: w ss)
  case (Cons x rows)
  have "claim_one cal at row v \<noteq> (Inr s, v')" for v v' s
    using assms(2) by (auto elim!: claim_one_cases)
  then show ?case
    using Cons by (auto simp: bindE_def split: prod.splits sum.splits)
qed simp

subsection \<open>The number of runs\<close>

definition within_runs :: "schedule \<Rightarrow> bool" where
  "within_runs s \<longleftrightarrow> (case s_max_runs s of None \<Rightarrow> True
     | Some m \<Rightarrow> s_run_count s \<le> m \<and> (s_status s = SActive \<longrightarrow> s_run_count s < m))"

definition capped :: "world \<Rightarrow> world \<Rightarrow> bool" where
  "capped w w' \<longleftrightarrow> (\<forall>s\<in>set (schedules w). within_runs s) \<longrightarrow> (\<forall>s\<in>set (schedules w'). within_runs s)"

lemma capped_cong: "schedules w' = schedules w \<Longrightarrow> capped w w'"
  by (simp add: capped_def)

interpretation capped: clock_order capped
  by unfold_locales (auto simp: capped_def env_apply_frame)

lemma capped_stmt: "(\<And>w. schedules (snd (f w)) = schedules w) \<Longrightarrow> keeps capped (stmt f)"
  by (rule capped.stmt) (simp add: keeps_def capped_cong)

lemma capped_update:
  assumes "\<And>s. within_runs s \<Longrightarrow> p s \<Longrightarrow> within_runs (f s)"
  shows "capped w (w\<lparr>schedules := sql_set p f (schedules w)\<rparr>)"
  using assms by (auto simp: capped_def set_sql_set)

lemma capped_reads:
  "keeps capped (schedule_get u sid)" "keeps capped (list_schedules_for_user u t n)"
  "keeps capped (resolve_timezone cal u z)"
  unfolding schedule_get_def list_schedules_for_user_def resolve_timezone_def
  by (intro capped.bind capped.opt capped.ret capped.lift capped.stmt capped.gets)+

lemma capped_cancel: "keeps capped (schedule_cancel u sid)"
  unfolding schedule_cancel_def Let_def
  by (intro capped.bind capped.opt capped.ret capped.lift capped.stmt)
    (auto simp: keeps_def within_runs_def cancelled_schedule_def intro!: capped_update split: option.splits)

lemma capped_state: "keeps capped (update_schedule_state u sid d)"
  unfolding update_schedule_state_def Let_def
  by (intro capped.stmt) (auto simp: keeps_def within_runs_def intro!: capped_update split: option.splits)

lemma capped_create:
  "(case sq_max_runs q of None \<Rightarrow> True | Some m \<Rightarrow> 0 < m) \<Longrightarrow> keeps capped (schedule_create u q)"
  unfolding schedule_create_def
  by (intro capped.bind capped.lift capped.stmt)
    (auto simp: keeps_def capped_def within_runs_def new_schedule_def Let_def split: option.splits)

lemma read_max_runs_pos: "read_max_runs j = Inr (Some m) \<Longrightarrow> 0 < m"
  by (auto simp: read_max_runs_def split: if_splits option.splits)

lemma tools_capped:
  "keeps capped (schedule_task_run cal cfg ctx inputs)" "keeps capped (cancel_schedule_run ctx inputs)"
  "keeps capped (update_schedule_state_run ctx inputs)" "keeps capped (list_schedules_run cal ctx inputs)"
proof -
  have lift: "keeps capped (bindE (liftE x) f)" if "\<And>y. x = Inr y \<Longrightarrow> keeps capped (f y)" for x f
    using that by (cases x) (auto simp: capped.raise)
  show "keeps capped (schedule_task_run cal cfg ctx inputs)"
    unfolding schedule_task_run_def
    by (intro capped.opt lift capped.bind capped.pair capped.if_ capped.raise capped.ret capped.gets capped_reads
        capped_create | simp add: capped.raise split: json.split option.split
        | auto dest: read_max_runs_pos split: option.splits)+
  show "keeps capped (cancel_schedule_run ctx inputs)" "keeps capped (list_schedules_run cal ctx inputs)"
    unfolding cancel_schedule_run_def list_schedules_run_def
    by (intro lift capped.bind capped.opt capped.raise capped.ret capped_cancel capped_reads)+
  show "keeps capped (update_schedule_state_run ctx inputs)"
    unfolding update_schedule_state_run_def
    by (intro lift) (auto split: option.split json.split intro!: capped.bind capped.if_ capped.raise capped.ret capped_state)
qed

lemma claim_one_capped:
  assumes "\<And>s. s \<in> set (schedules w) \<Longrightarrow> within_runs s"
    and "key_distinct s_id (schedules w)" and "key_lookup s_id (s_id row) (schedules w) = Some row"
    and "s_status row = SActive" and "claim_one cal at row w = (r, w')"
  shows "\<forall>s\<in>set (schedules w'). within_runs s"
  using assms(5)
proof (cases rule: claim_one_cases)
  case (claimed s nxt st upd)
  have row: "within_runs row" using key_lookup_SomeD[OF assms(3)] assms(1) by blast
  have "within_runs (advanced nxt st at upd row)"
    using row assms(4) claimed(3) row_to_schedule_same[OF claimed(2)]
    by (auto simp: within_runs_def advanced_def next_after_fire_def split: option.splits if_splits sum.splits)
  moreover have "x = row" if "x \<in> set (schedules w)" "s_id x = s_id row" for x
    using key_lookup_in[OF assms(2) that(1)] that(2) assms(3) by simp
  ultimately show ?thesis using assms(1) by (auto simp: claimed(4) set_sql_set)
qed (use assms(1) in simp)

lemma claims_capped:
  assumes "\<forall>s\<in>set (schedules w). within_runs s" and "key_distinct s_id (schedules w)"
    and "distinct (map s_id rows)"
    and "\<And>r. r \<in> set rows \<Longrightarrow> key_lookup s_id (s_id r) (schedules w) = Some r \<and> s_status r = SActive"
    and "mapE (claim_one cal at) rows w = (q, w')"
  shows "\<forall>s\<in>set (schedules w'). within_runs s"
  using assms
proof (induction rows arbitrary: w q)
  case (Cons row rows)
  obtain r w1 where one: "claim_one cal at row w = (r, w1)" by fastforce
  have w1: "\<forall>s\<in>set (schedules w1). within_runs s"
    by (rule claim_one_capped[OF _ Cons.prems(2) _ _ one]) (use Cons.prems in auto)
  show ?case
  proof (cases r)
    case (Inl e)
    then show ?thesis using one w1 Cons.prems(5) by (auto simp: bindE_def)
  next
    case (Inr s)
    obtain q2 w2 where two: "mapE (claim_one cal at) rows w1 = (q2, w2)" by fastforce
    have w2: "w2 = w'" using Cons.prems(5) one two Inr by (auto simp: bindE_def split: sum.splits)
    from one Inr obtain nxt st upd where
      s1: "schedules w1 = sql_set (\<lambda>x. s_id x = s_id row) (advanced nxt st at upd) (schedules w)"
      by (cases rule: claim_one_cases) auto
    have keys: "key_distinct s_id (schedules w1)"
      using Cons.prems(2) unfolding s1 by (simp add: row_update.distinct_set advance_keeps_id)
    have "key_lookup s_id (s_id r) (schedules w1) = Some r \<and> s_status r = SActive" if "r \<in> set rows" for r
    proof -
      have "s_id r \<noteq> s_id row" by (rule distinct_head[OF Cons.prems(3) that])
      then show ?thesis
        using Cons.prems(4)[of r] that unfolding s1 by (simp add: row_update.lookup_set advance_keeps_id)
    qed
    then show ?thesis using Cons.IH[OF w1 keys _ _ two[unfolded w2]] Cons.prems(3) by simp
  qed
qed simp

lemma claim_capped:
  assumes "\<forall>s\<in>set (schedules w). within_runs s" and keys: "key_distinct s_id (schedules w)"
    and "claim_and_advance_due cal at limit w = (r, w')"
  shows "\<forall>s\<in>set (schedules w'). within_runs s"
  using assms(3)
proof (cases rule: claim_runs)
  case (ran v q u)
  have "\<forall>s\<in>set (schedules u). within_runs s"
  proof (rule claims_capped[OF _ _ _ _ ran(2)])
    show "key_lookup s_id (s_id x) (schedules v) = Some x \<and> s_status x = SActive" if "x \<in> set (due_rows at limit w)" for x
      using due_rows_facts(2)[OF keys that] ran(1) by (simp add: due_at_def)
  qed (use assms(1) keys ran(1) due_rows_facts(1)[OF keys] in simp_all)
  then show ?thesis using ran(4,5) assms(1) by (cases q) auto
qed (use assms(1) in simp)

subsection \<open>Properties\<close>


text \<open>C22: One schedule that cannot be processed blocks every other: when a due row cannot be read,
  or its next run cannot be computed, the claim raises and changes no schedule, so nothing of its
  batch fires, in this minute or, as the rows stay due, in any later one.\<close>

theorem poison_row_blocks_batch:
  assumes "row \<in> set (due_rows at limit w)"
    and "\<And>s. row_to_schedule row = Inr s \<Longrightarrow> \<exists>e. next_after_fire cal s at = Inl e"
    and "claim_and_advance_due cal at limit w = (r, w')"
  shows "(\<exists>e. r = Inl e) \<and> schedules w' = schedules w"
  using assms(3)
proof (cases rule: claim_runs)
  case (ran v q u)
  then show ?thesis using bad_row_raises[OF assms(1,2)] by (cases q) auto
qed simp

text \<open>C21: No schedule fires more often than its \<open>max_runs\<close>: the claim of the dispatcher keeps every
  row's \<open>run_count\<close> at or below \<open>max_runs\<close>, and strictly below for a schedule that is still
  active.\<close>

theorem runs_within_max:
  assumes "key_distinct s_id (schedules w)"
    and "\<And>s. s \<in> set (schedules w) \<Longrightarrow> within_runs s"
    and "claim_and_advance_due cal at limit w = (r, w')"
    and "s \<in> set (schedules w')" and "s_max_runs s = Some m"
  shows "s_run_count s \<le> m \<and> (s_status s = SActive \<longrightarrow> s_run_count s < m)"
  using claim_capped[OF _ assms(1,3)] assms(2,4,5) by (auto simp: within_runs_def)

subsection \<open>Witnesses\<close>

definition sample_calendar :: calendar where
  "sample_calendar = \<lparr> cal_cron_next = (\<lambda>c z t. Inr (t + second)), cal_cron_valid = (\<lambda>c. True),
     cal_zone_valid = (\<lambda>z. z = ''UTC''), cal_parse = (\<lambda>s. None), cal_localize = (\<lambda>z t. t),
     cal_isoformat = show_int \<rparr>"

definition hourly :: schedule_request where
  "hourly = \<lparr> sq_instruction = ''look'', sq_recurrence = Interval, sq_next_run_at = 10,
     sq_cron_expr = None, sq_interval_seconds = Some 3600, sq_timezone = ''UTC'', sq_context = JObj [],
     sq_channel = Some ''telegram'', sq_title = None, sq_max_runs = Some 2, sq_until = Some 5 \<rparr>"

definition due_case :: world where
  "due_case = empty_world\<lparr>now := 100, next_id := 9,
     schedules := [new_schedule (Uuid 4) 0 (Uuid 1) hourly]\<rparr>"

lemma due_case_facts:
  "key_distinct s_id (schedules due_case)" "s \<in> set (schedules due_case) \<Longrightarrow> within_runs s"
  by (auto simp: due_case_def empty_world_def key_distinct_def new_schedule_def hourly_def within_runs_def)



lemma runs_within_max_witness:
  "list_all (\<lambda>s. s_run_count s \<le> 2) (schedules (snd (claim_and_advance_due sample_calendar 100 5 due_case)))"
proof -
  obtain r w' where run: "claim_and_advance_due sample_calendar 100 5 due_case = (r, w')" by fastforce
  have "list_all (\<lambda>s. s_max_runs s = Some 2) (schedules (snd (claim_and_advance_due sample_calendar 100 5 due_case)))"
    by code_simp
  then have "s_max_runs s = Some 2" if "s \<in> set (schedules w')" for s
    using run that by (simp add: list_all_iff)
  then have "s_run_count s \<le> 2" if "s \<in> set (schedules w')" for s
    using runs_within_max[OF due_case_facts(1) due_case_facts(2) run that] that by simp
  then show ?thesis using run by (simp add: list_all_iff)
qed

text \<open>A context that is not an object, which \<open>schedule_task\<close> accepts and stores, makes such a row.\<close>

definition poisoned :: world where
  "poisoned = due_case\<lparr>schedules := new_schedule (Uuid 5) 0 (Uuid 1) (hourly\<lparr>sq_context := JArr [JInt 1]\<rparr>)
     # schedules due_case\<rparr>"

lemma poisoned_row:
  "list_ex (\<lambda>row. isl (row_to_schedule row)) (due_rows 100 50 poisoned)"
  by code_simp

lemma poison_row_blocks_batch_witness:
  "\<exists>e. fst (claim_and_advance_due sample_calendar 100 50 poisoned) = Inl e"
proof -
  obtain row where row: "row \<in> set (due_rows 100 50 poisoned)" "isl (row_to_schedule row)"
    using poisoned_row by (auto simp: list_ex_iff)
  have "\<exists>e. next_after_fire sample_calendar s 100 = Inl e" if "row_to_schedule row = Inr s" for s
    using row(2) that by simp
  from poison_row_blocks_batch[OF row(1) this prod.collapse[symmetric]] show ?thesis by blast
qed

end
