(* ===== verification/User_Data.thy ===== *)
theory User_Data
  imports Effects
begin

section \<open>The user's private SQL workspace (toolbox/user_data.py)\<close>

text \<open>
  The module as written: schema names, the check and the quoting of identifiers, the placeholder of
  a value, and the reads of \<open>information_schema\<close>.

  The tables a user creates have no fixed layout, so Postgres is a parameter here: a \<open>connection\<close>
  sends a statement, its text and its parameters, and gives back a status or rows, as a program on
  some state of the server. \<open>q_undefined\<close> says which exceptions are an undefined column or table.
\<close>

record 'w connection =
  q_execute :: "pystr \<Rightarrow> json list \<Rightarrow> ('w, pystr) io"
  q_fetch :: "pystr \<Rightarrow> json list \<Rightarrow> ('w, dict list) io"
  q_begin_readonly :: "('w, unit) io"
  q_commit :: "('w, unit) io"
  q_rollback :: "('w, unit) io"
  q_undefined :: "exn \<Rightarrow> bool"

definition user_data_schema :: "uuid \<Rightarrow> pystr" where
  "user_data_schema u = ''user_data_'' @ uuid_hex u"

subsection \<open>Identifiers\<close>

definition ident_start :: "char \<Rightarrow> bool" where
  "ident_start c = (is_lower c \<or> c = CHR ''_'')"

definition ident_char :: "char \<Rightarrow> bool" where
  "ident_char c = (ident_start c \<or> is_digit c)"

text \<open>\<open>^[a-z_][a-z0-9_]{0,62}$\<close>; in Python \<open>$\<close> also matches before a final newline.\<close>

definition ident_word :: "pystr \<Rightarrow> bool" where
  "ident_word s = (case s of [] \<Rightarrow> False
     | c # cs \<Rightarrow> ident_start c \<and> list_all ident_char cs \<and> length cs \<le> 62)"

definition ident_matches :: "pystr \<Rightarrow> bool" where
  "ident_matches s = (ident_word s \<or> (s \<noteq> [] \<and> last s = newline \<and> ident_word (butlast s)))"

definition validate_identifier :: "pystr \<Rightarrow> exn + pystr" where
  "validate_identifier name =
     (if ident_matches name then Inr name
      else Inl (ValueError (''invalid identifier '' @ py_repr name @
                            '': must match ^[a-z_][a-z0-9_]{0,62}$'')))"

fun validate_all :: "pystr list \<Rightarrow> exn + unit" where
  "validate_all [] = Inr ()"
| "validate_all (c # cs) =
     (case validate_identifier c of Inl e \<Rightarrow> Inl e | Inr _ \<Rightarrow> validate_all cs)"

definition quote_ident :: "pystr \<Rightarrow> pystr" where
  "quote_ident name = [dquote] @ replace [dquote] [dquote, dquote] name @ [dquote]"

subsection \<open>Placeholders\<close>

definition temporal_casts :: "(pystr \<times> pystr) list" where
  "temporal_casts =
     [(''date'', ''date''),
      (''timestamp without time zone'', ''timestamp''),
      (''timestamp with time zone'', ''timestamptz''),
      (''time without time zone'', ''time''),
      (''time with time zone'', ''timetz'')]"

definition temporal_cast :: "json option \<Rightarrow> pystr option" where
  "temporal_cast t = (case t of Some (JStr s) \<Rightarrow> map_of temporal_casts s | _ \<Rightarrow> None)"

fun is_text :: "json \<Rightarrow> bool" where
  "is_text (JStr s) = True"
| "is_text _ = False"

definition value_placeholder :: "nat \<Rightarrow> json \<Rightarrow> json option \<Rightarrow> pystr" where
  "value_placeholder idx v t =
     (case temporal_cast t of
        Some cast \<Rightarrow> if is_text v then ''$'' @ show_nat idx @ ''::text::'' @ cast
                     else ''$'' @ show_nat idx
      | None \<Rightarrow> ''$'' @ show_nat idx)"

subsection \<open>The catalogue\<close>

definition ensure_schema :: "'w connection \<Rightarrow> uuid \<Rightarrow> ('w, pystr) io" where
  "ensure_schema q u =
     (let schema = user_data_schema u in
      thenE (q_execute q (''CREATE SCHEMA IF NOT EXISTS '' @ [dquote] @ schema @ [dquote]) [])
        (ret schema))"

text \<open>\<open>row["k"]\<close> on a record.\<close>

definition row_get :: "dict \<Rightarrow> pystr \<Rightarrow> exn + json" where
  "row_get r k = (case dict_get r k of Some v \<Rightarrow> Inr v | None \<Rightarrow> Inl (KeyError k))"

definition column_info :: "dict \<Rightarrow> ('w, dict) io" where
  "column_info r =
     bindE (liftE (row_get r ''column_name'')) (\<lambda>n.
     bindE (liftE (row_get r ''data_type'')) (\<lambda>t.
     bindE (liftE (row_get r ''is_nullable'')) (\<lambda>y.
       ret [(''name'', n), (''type'', t), (''not_null'', JBool (y = JStr ''NO''))])))"

definition columns_sql :: pystr where
  "columns_sql = lines_of
     [[],
      ''        SELECT column_name, data_type, is_nullable'',
      ''        FROM information_schema.columns'',
      ''        WHERE table_schema = $1 AND table_name = $2'',
      ''        ORDER BY ordinal_position'',
      ''        '']"

definition describe_columns :: "'w connection \<Rightarrow> pystr \<Rightarrow> pystr \<Rightarrow> ('w, dict list) io" where
  "describe_columns q schema table =
     bindE (q_fetch q columns_sql [JStr schema, JStr table]) (mapE column_info)"

definition explain_column_error ::
  "'w connection \<Rightarrow> pystr \<Rightarrow> pystr \<Rightarrow> exn \<Rightarrow> ('w, pystr) io" where
  "explain_column_error q schema table e =
     bindE (describe_columns q schema table) (\<lambda>cols.
       ret (if cols = []
            then exn_str e @ '' '' @ [em_dash] @ '' table '' @ py_repr table @
                 '' does not exist in the user's SQL workspace; call `list_tables` first''
            else exn_str e @ '' '' @ [em_dash] @ '' actual columns on '' @ py_repr table @ '': ['' @
                 join '', '' (map (\<lambda>c. json_str (get_default c ''name'' JNull)) cols) @ '']''))"

definition tables_sql :: pystr where
  "tables_sql = lines_of
     [[],
      ''        SELECT table_name, column_name, data_type, is_nullable'',
      ''        FROM information_schema.columns'',
      ''        WHERE table_schema = $1'',
      ''        ORDER BY table_name, ordinal_position'',
      ''        '']"

text \<open>\<open>tables.setdefault(name, []).append(column)\<close>: the tables in the order they are met.\<close>

fun add_column :: "pystr \<Rightarrow> dict \<Rightarrow> (pystr \<times> dict list) list \<Rightarrow> (pystr \<times> dict list) list" where
  "add_column t c [] = [(t, [c])]"
| "add_column t c ((t', cs) # ts) =
     (if t' = t then (t', cs @ [c]) # ts else (t', cs) # add_column t c ts)"

definition table_column :: "dict \<Rightarrow> ('w, pystr \<times> dict) io" where
  "table_column r =
     bindE (liftE (row_get r ''table_name'')) (\<lambda>t.
     bindE (column_info r) (\<lambda>c. ret (json_str t, c)))"

definition list_user_tables :: "'w connection \<Rightarrow> uuid \<Rightarrow> ('w, (pystr \<times> dict list) list) io" where
  "list_user_tables q u =
     bindE (q_fetch q tables_sql [JStr (user_data_schema u)]) (\<lambda>rows.
     bindE (mapE table_column rows) (\<lambda>cs.
       ret (fold (\<lambda>(t, c). add_column t c) cs [])))"

subsection \<open>What the catalogue reads return\<close>

text \<open>Listing the tables loses no column: the columns of one table are the rows that name it, in
  the catalogue's order, and each table is listed once.\<close>

lemma add_column_of:
  "map_of (add_column t c ts) t' =
     (if t' = t then Some (case map_of ts t of None \<Rightarrow> [c] | Some cs \<Rightarrow> cs @ [c]) else map_of ts t')"
  by (induction ts) (auto split: option.splits)

lemma add_column_keys: "fst ` set (add_column t c ts) = insert t (fst ` set ts)"
proof (induction ts)
  case (Cons p ts)
  then show ?case by (cases p) (simp add: insert_commute)
qed simp

lemma distinct_add_column:
  "distinct (map fst ts) \<Longrightarrow> distinct (map fst (add_column t c ts))"
proof (induction ts)
  case (Cons p ts)
  then show ?case using add_column_keys[of t c ts] by (cases p) auto
qed simp

lemma add_columns_of:
  "map_of (fold (\<lambda>(t, c). add_column t c) cs ts) t =
     (case map_of ts t of
        None \<Rightarrow> (if t \<in> fst ` set cs then Some (map snd (filter (\<lambda>p. fst p = t) cs)) else None)
      | Some old \<Rightarrow> Some (old @ map snd (filter (\<lambda>p. fst p = t) cs)))"
  by (induction cs arbitrary: ts) (auto simp: add_column_of split: option.splits)

lemma distinct_add_columns:
  "distinct (map fst ts) \<Longrightarrow> distinct (map fst (fold (\<lambda>(t, c). add_column t c) cs ts))"
  by (induction cs arbitrary: ts) (auto intro: distinct_add_column)

end
