(* ===== verification/Sql_Tools.thy ===== *)
theory Sql_Tools
  imports User_Data
begin

section \<open>The SQL tools (toolbox/tools/sql_*.py, create_table.py, list_tables.py, describe_table.py)\<close>

text \<open>
  The seven tools on the user's private tables, each with its checks of the inputs, the statements it
  sends and the result it returns. The statements are texts, assembled as the source assembles
  them; \<open>Sql_Reader\<close> says what a database reads in those texts.
\<close>

subsection \<open>Shared steps\<close>

definition read_table :: "dict \<Rightarrow> exn + pystr" where
  "read_table inputs = (case dict_get inputs ''table_name'' of
     Some (JStr t) \<Rightarrow> validate_identifier t
   | _ \<Rightarrow> Inl (ToolError ''`table_name` must be a string''))"

text \<open>The type of a column, as \<open>{c["name"]: c["type"] for c in ...}.get(c)\<close> finds it.\<close>

definition column_type :: "dict list \<Rightarrow> pystr \<Rightarrow> json option" where
  "column_type cols c =
     map_of (rev (map (\<lambda>d. (get_default d ''name'' JNull, get_default d ''type'' JNull)) cols)) (JStr c)"

text \<open>Clauses \<open>"col" = $n\<close> for the entries of a map, numbered after the parameters so far.\<close>

fun equations :: "(pystr \<Rightarrow> json option) \<Rightarrow> nat \<Rightarrow> dict \<Rightarrow> pystr list" where
  "equations types n [] = []"
| "equations types n ((c, v) # d) =
     (quote_ident c @ '' = '' @ value_placeholder (Suc n) v (types c)) # equations types (Suc n) d"

definition qualified_table :: "pystr \<Rightarrow> pystr \<Rightarrow> pystr" where
  "qualified_table schema table = quote_ident schema @ ''.'' @ quote_ident table"

definition where_sql :: "(pystr \<Rightarrow> json option) \<Rightarrow> nat \<Rightarrow> dict \<Rightarrow> pystr" where
  "where_sql types n wh =
     (if wh = [] then [] else '' WHERE '' @ join '' AND '' (equations types n wh))"

text \<open>\<open>await conn.execute(...)\<close> with the handler that turns an undefined column or table into a
  \<open>ToolError\<close> naming the columns that exist.\<close>

definition execute_explained ::
  "'w connection \<Rightarrow> pystr \<Rightarrow> pystr \<Rightarrow> pystr \<Rightarrow> json list \<Rightarrow> ('w, pystr) io" where
  "execute_explained q schema table sql params =
     catchE (q_execute q sql params) (\<lambda>e.
       if q_undefined q e
       then bindE (explain_column_error q schema table e) (\<lambda>hint. raise (ToolError hint))
       else raise e)"

text \<open>\<open>status.split()[-1]\<close> when it is a number and not the only word.\<close>

fun split_blanks :: "pystr \<Rightarrow> pystr \<Rightarrow> pystr list" where
  "split_blanks word [] = (if word = [] then [] else [word])"
| "split_blanks word (c # s) =
     (if is_space c then (if word = [] then split_blanks [] s else word # split_blanks [] s)
      else split_blanks (word @ [c]) s)"

definition py_isdigit :: "char \<Rightarrow> bool" where
  "py_isdigit c = (is_digit c \<or> code c \<in> {178, 179, 185})"

definition row_count_from_status :: "pystr \<Rightarrow> exn + int" where
  "row_count_from_status status =
     (let parts = split_blanks [] status in
      if length parts \<ge> 2 \<and> list_all py_isdigit (last parts) then py_int (JStr (last parts))
      else Inr 0)"

subsection \<open>sql_insert\<close>

definition MAX_ROWS_PER_CALL :: nat where "MAX_ROWS_PER_CALL = 500"

fun same_columns :: "pystr list \<Rightarrow> json \<Rightarrow> bool" where
  "same_columns cols (JObj r) = (set (map fst r) = set cols)"
| "same_columns cols _ = False"

definition row_dict :: "json \<Rightarrow> dict" where
  "row_dict j = (case j of JObj r \<Rightarrow> r | _ \<Rightarrow> [])"

definition normalize_rows :: "json option \<Rightarrow> exn + dict list" where
  "normalize_rows j = (case j of
     Some (JArr (first # rest)) \<Rightarrow>
       if length (first # rest) > MAX_ROWS_PER_CALL
       then Inl (ToolError ''too many rows in one call (max 500)'')
       else (case first of
          JObj (kv # r) \<Rightarrow>
            let cols = map fst (kv # r) in
            if \<not> list_all (same_columns cols) rest
            then Inl (ToolError ''all rows must share the same column set'')
            else (case validate_all cols of
                Inl e \<Rightarrow> Inl e
              | Inr _ \<Rightarrow> Inr (map row_dict (first # rest)))
        | _ \<Rightarrow> Inl (ToolError ''each row must be a non-empty object''))
   | _ \<Rightarrow> Inl (ToolError ''`rows` must be a non-empty list of row objects''))"

text \<open>One group of the \<open>VALUES\<close> list: the placeholder and the value of each column.\<close>

definition row_values :: "pystr list \<Rightarrow> dict \<Rightarrow> json list" where
  "row_values cols r = map (\<lambda>c. get_default r c JNull) cols"

fun placeholders :: "(pystr \<Rightarrow> json option) \<Rightarrow> nat \<Rightarrow> pystr list \<Rightarrow> json list \<Rightarrow> pystr list" where
  "placeholders types n (c # cols) (v # vs) =
     value_placeholder (Suc n) v (types c) # placeholders types (Suc n) cols vs"
| "placeholders types n _ _ = []"

fun value_groups ::
  "(pystr \<Rightarrow> json option) \<Rightarrow> pystr list \<Rightarrow> nat \<Rightarrow> dict list \<Rightarrow> pystr list" where
  "value_groups types cols i [] = []"
| "value_groups types cols i (r # rs) =
     (''('' @ join '', '' (placeholders types (i * length cols) cols (row_values cols r)) @ '')'')
       # value_groups types cols (Suc i) rs"

definition insert_sql :: "(pystr \<Rightarrow> json option) \<Rightarrow> pystr \<Rightarrow> pystr \<Rightarrow> pystr list \<Rightarrow> dict list \<Rightarrow> pystr" where
  "insert_sql types schema table cols rows =
     ''INSERT INTO '' @ qualified_table schema table @
     '' ('' @ join '', '' (map quote_ident cols) @ '') VALUES '' @
     join '', '' (value_groups types cols 0 rows)"

definition sql_insert_run :: "'w connection \<Rightarrow> uuid \<Rightarrow> dict \<Rightarrow> ('w, dict) io" where
  "sql_insert_run q u inputs =
     bindE (liftE (read_table inputs)) (\<lambda>table.
     bindE (liftE (normalize_rows (dict_get inputs ''rows''))) (\<lambda>rows.
     let cols = map fst (hd rows) in
     bindE (ensure_schema q u) (\<lambda>schema.
     bindE (describe_columns q schema table) (\<lambda>info.
     bindE (execute_explained q schema table
              (insert_sql (column_type info) schema table cols rows)
              (concat (map (row_values cols) rows))) (\<lambda>_.
       ret [(''inserted'', JInt (int (length rows))), (''schema'', JStr schema),
            (''table'', JStr table)])))))"

subsection \<open>sql_update and sql_delete\<close>

definition normalize_assignments :: "json option \<Rightarrow> exn + dict" where
  "normalize_assignments j = (case j of
     Some (JObj (kv # d)) \<Rightarrow>
       (case validate_all (map fst (kv # d)) of Inl e \<Rightarrow> Inl e | Inr _ \<Rightarrow> Inr (kv # d))
   | _ \<Rightarrow> Inl (ToolError ''`set` must be a non-empty object''))"

text \<open>The filter of both tools, \<open>verb\<close> being what they say they would do to every row.\<close>

definition read_where :: "pystr \<Rightarrow> dict \<Rightarrow> exn + dict" where
  "read_where verb inputs =
     (let wh = get_or inputs ''where'' (JObj []);
          all = truthy (get_default inputs ''where_all'' (JBool False)) in
      if \<not> truthy wh \<and> \<not> all
      then Inl (ToolError (''`where` is empty '' @ [em_dash] @ '' pass `where_all: true` to '' @
                           verb @ '' every row''))
      else if truthy wh \<and> all
      then Inl (ToolError ''pass either `where` or `where_all`, not both'')
      else (case wh of
          JObj d \<Rightarrow> (case validate_all (map fst d) of Inl e \<Rightarrow> Inl e | Inr _ \<Rightarrow> Inr d)
        | _ \<Rightarrow> Inl (ToolError (''`where` must be an object of column '' @ [arrow] @ '' value''))))"

definition update_sql ::
  "(pystr \<Rightarrow> json option) \<Rightarrow> pystr \<Rightarrow> pystr \<Rightarrow> dict \<Rightarrow> dict \<Rightarrow> pystr" where
  "update_sql types schema table st wh =
     ''UPDATE '' @ qualified_table schema table @ '' SET '' @ join '', '' (equations types 0 st) @
     where_sql types (length st) wh"

definition sql_update_run :: "'w connection \<Rightarrow> uuid \<Rightarrow> dict \<Rightarrow> ('w, dict) io" where
  "sql_update_run q u inputs =
     bindE (liftE (read_table inputs)) (\<lambda>table.
     bindE (liftE (normalize_assignments (dict_get inputs ''set''))) (\<lambda>st.
     bindE (liftE (read_where ''update'' inputs)) (\<lambda>wh.
     bindE (ensure_schema q u) (\<lambda>schema.
     bindE (describe_columns q schema table) (\<lambda>info.
     bindE (execute_explained q schema table
              (update_sql (column_type info) schema table st wh)
              (map snd st @ map snd wh)) (\<lambda>status.
     bindE (liftE (row_count_from_status status)) (\<lambda>n.
       ret [(''updated'', JInt n), (''schema'', JStr schema), (''table'', JStr table)])))))))"

definition delete_sql :: "(pystr \<Rightarrow> json option) \<Rightarrow> pystr \<Rightarrow> pystr \<Rightarrow> dict \<Rightarrow> pystr" where
  "delete_sql types schema table wh =
     ''DELETE FROM '' @ qualified_table schema table @ where_sql types 0 wh"

definition sql_delete_run :: "'w connection \<Rightarrow> uuid \<Rightarrow> dict \<Rightarrow> ('w, dict) io" where
  "sql_delete_run q u inputs =
     bindE (liftE (read_table inputs)) (\<lambda>table.
     bindE (liftE (read_where ''delete'' inputs)) (\<lambda>wh.
     bindE (ensure_schema q u) (\<lambda>schema.
     bindE (describe_columns q schema table) (\<lambda>info.
     bindE (execute_explained q schema table
              (delete_sql (column_type info) schema table wh) (map snd wh)) (\<lambda>status.
     bindE (liftE (row_count_from_status status)) (\<lambda>n.
       ret [(''deleted'', JInt n), (''schema'', JStr schema), (''table'', JStr table)]))))))"

subsection \<open>sql_query\<close>

text \<open>\<open>_LEADING_COMMENT\<close> consumes as many blanks, line comments and block comments as it can; a
  comment that is not closed is not one.\<close>

fun drop_line :: "pystr \<Rightarrow> pystr option" where
  "drop_line [] = None"
| "drop_line (c # s) = (if c = newline then Some s else drop_line s)"

fun drop_block :: "pystr \<Rightarrow> pystr option" where
  "drop_block [] = None"
| "drop_block [c] = None"
| "drop_block (c # d # s) =
     (if c = CHR ''*'' \<and> d = CHR ''/'' then Some s else drop_block (d # s))"

definition drop_comment :: "pystr \<Rightarrow> pystr option" where
  "drop_comment s =
     (if starts_with ''--'' s then drop_line (drop 2 s)
      else if starts_with ''/*'' s then drop_block (drop 2 s)
      else None)"

lemma drop_line_shorter: "drop_line s = Some t \<Longrightarrow> length t < length s"
  by (induction s) (auto split: if_splits)

lemma drop_block_shorter: "drop_block s = Some t \<Longrightarrow> length t < length s"
  by (induction s rule: drop_block.induct) (auto split: if_splits)

lemma drop_comment_shorter:
  assumes "drop_comment s = Some t" shows "length t < length s"
proof -
  have "length t < length (drop 2 s)"
    using assms by (auto simp: drop_comment_def split: if_splits
        dest: drop_line_shorter drop_block_shorter)
  then show ?thesis by simp
qed

function strip_leading_comments :: "pystr \<Rightarrow> pystr" where
  "strip_leading_comments s =
     (case s of
        [] \<Rightarrow> []
      | c # r \<Rightarrow>
          if is_space c then strip_leading_comments r
          else (case drop_comment s of Some t \<Rightarrow> strip_leading_comments t | None \<Rightarrow> s))"
  by pat_completeness auto
termination
  by (relation "measure length") (auto dest: drop_comment_shorter)

declare strip_leading_comments.simps [simp del]

definition upper_char :: "char \<Rightarrow> char" where
  "upper_char c = (if is_lower c then char_of (code c - 32) else c)"

text \<open>\<open>.upper().startswith(...)\<close> for a word of ASCII letters.\<close>

definition starts_upper :: "pystr \<Rightarrow> pystr \<Rightarrow> bool" where
  "starts_upper p s = starts_with p (map upper_char s)"

definition validate_select :: "pystr \<Rightarrow> exn + unit" where
  "validate_select sql =
     (let stripped = strip_leading_comments sql in
      if starts_upper ''SELECT'' stripped \<or> starts_upper ''WITH'' stripped then Inr ()
      else Inl (ToolError (''sql_query only accepts SELECT / WITH statements '' @ [em_dash] @
                 '' use sql_insert / sql_update / sql_delete for writes'')))"

definition read_query :: "dict \<Rightarrow> exn + pystr" where
  "read_query inputs = (case dict_get inputs ''query'' of
     Some (JStr query) \<Rightarrow>
       if strip query = [] then Inl (ToolError ''`query` must be a non-empty string'')
       else (case validate_select query of Inl e \<Rightarrow> Inl e | Inr _ \<Rightarrow> Inr query)
   | _ \<Rightarrow> Inl (ToolError ''`query` must be a non-empty string''))"

definition read_limit :: "dict \<Rightarrow> exn + int" where
  "read_limit inputs =
     map_sum id (\<lambda>n. max 1 (min 1000 n)) (py_int (get_or inputs ''limit'' (JInt 200)))"

text \<open>\<open>async with conn.transaction(readonly=True)\<close>.\<close>

definition readonly_transaction :: "'w connection \<Rightarrow> ('w, 'a) io \<Rightarrow> ('w, 'a) io" where
  "readonly_transaction q m =
     thenE (q_begin_readonly q)
       (bindE (attemptE m) (\<lambda>r. case r of
          Inr x \<Rightarrow> thenE (q_commit q) (ret x)
        | Inl e \<Rightarrow> thenE (q_rollback q) (raise e)))"

definition search_path_sql :: "pystr \<Rightarrow> pystr" where
  "search_path_sql schema =
     ''SET LOCAL search_path TO '' @ [dquote] @ schema @ [dquote] @ '', public''"

definition sql_query_run :: "'w connection \<Rightarrow> uuid \<Rightarrow> dict \<Rightarrow> ('w, dict) io" where
  "sql_query_run q u inputs =
     bindE (liftE (read_query inputs)) (\<lambda>query.
     bindE (liftE (read_limit inputs)) (\<lambda>limit.
     bindE (ensure_schema q u) (\<lambda>schema.
     bindE (readonly_transaction q
              (thenE (q_execute q (search_path_sql schema) []) (q_fetch q query []))) (\<lambda>rows.
     let kept = take (nat limit) rows in
       ret [(''row_count'', JInt (int (length kept))),
            (''truncated'', JBool (int (length rows) > limit)),
            (''rows'', JArr (map JObj kept))]))))"

subsection \<open>create_table, list_tables and describe_table\<close>

definition type_whitelist :: "(pystr \<times> pystr) list" where
  "type_whitelist =
     [(''text'', ''TEXT''), (''integer'', ''INTEGER''), (''bigint'', ''BIGINT''),
      (''double'', ''DOUBLE PRECISION''), (''boolean'', ''BOOLEAN''),
      (''timestamptz'', ''TIMESTAMPTZ''), (''date'', ''DATE''), (''jsonb'', ''JSONB''),
      (''numeric'', ''NUMERIC'')]"

text \<open>\<open>x["name"]\<close> on a value that need not be a dictionary.\<close>

fun subscript_name :: "json \<Rightarrow> exn + json" where
  "subscript_name (JObj d) = row_get d ''name''"
| "subscript_name (JArr xs) = Inl (OtherError ''list indices must be integers or slices, not str'')"
| "subscript_name (JStr s) = Inl (OtherError (''string indices must be integers, not '' @ [squote] @ ''str'' @ [squote]))"
| "subscript_name JNull = Inl (OtherError (squote # ''NoneType' object is not subscriptable''))"
| "subscript_name (JBool b) = Inl (OtherError (squote # ''bool' object is not subscriptable''))"
| "subscript_name (JInt i) = Inl (OtherError (squote # ''int' object is not subscriptable''))"
| "subscript_name (JFloat m k) = Inl (OtherError (squote # ''float' object is not subscriptable''))"

definition column_clause :: "json \<Rightarrow> exn + pystr" where
  "column_clause col = (case subscript_name col of
     Inl e \<Rightarrow> Inl e
   | Inr (JStr raw) \<Rightarrow>
       (case validate_identifier raw of
          Inl e \<Rightarrow> Inl e
        | Inr name \<Rightarrow>
            let raw_type = lower (json_str (get_default (row_dict col) ''type'' (JStr []))) in
            case map_of type_whitelist raw_type of
              None \<Rightarrow> Inl (ToolError (''unsupported column type '' @ py_repr raw_type @
                        ''; choose from '' @ json_repr (JArr (map JStr (sort (map fst type_whitelist))))))
            | Some pg_type \<Rightarrow>
                Inr (quote_ident name @ '' '' @ pg_type @
                     (if truthy (get_default (row_dict col) ''not_null'' JNull)
                      then '' NOT NULL'' else [])))
   | Inr _ \<Rightarrow> Inl (OtherError ''expected string or bytes-like object''))"

fun column_clauses :: "json list \<Rightarrow> exn + pystr list" where
  "column_clauses [] = Inr []"
| "column_clauses (c # cs) = (case column_clause c of
     Inl e \<Rightarrow> Inl e
   | Inr s \<Rightarrow> (case column_clauses cs of Inl e \<Rightarrow> Inl e | Inr ss \<Rightarrow> Inr (s # ss)))"

definition read_columns :: "dict \<Rightarrow> exn + json list" where
  "read_columns inputs = (case dict_get inputs ''columns'' of
     Some (JArr (c # cs)) \<Rightarrow> Inr (c # cs)
   | _ \<Rightarrow> Inl (ToolError ''`columns` must be a non-empty list''))"

definition create_table_sql :: "pystr \<Rightarrow> pystr \<Rightarrow> pystr list \<Rightarrow> pystr" where
  "create_table_sql schema table clauses =
     ''CREATE TABLE '' @ qualified_table schema table @ '' ('' @ join '', '' clauses @ '')''"

definition create_table_run :: "'w connection \<Rightarrow> uuid \<Rightarrow> dict \<Rightarrow> ('w, dict) io" where
  "create_table_run q u inputs = (case dict_get inputs ''table_name'' of
     Some (JStr raw) \<Rightarrow>
       bindE (liftE (read_columns inputs)) (\<lambda>columns.
       bindE (liftE (validate_identifier raw)) (\<lambda>table.
       bindE (liftE (column_clauses columns)) (\<lambda>clauses.
       bindE (ensure_schema q u) (\<lambda>schema.
       bindE (describe_columns q schema table) (\<lambda>before.
       let existed = (before \<noteq> []) in
       bindE (if existed then ret before
              else thenE (q_execute q (create_table_sql schema table clauses) [])
                     (describe_columns q schema table)) (\<lambda>existing.
         ret [(''schema'', JStr schema), (''table'', JStr table), (''existed'', JBool existed),
              (''columns'', JArr (map JObj existing))]))))))
   | _ \<Rightarrow> raise (ToolError ''`table_name` must be a string''))"

definition list_tables_run :: "'w connection \<Rightarrow> uuid \<Rightarrow> dict \<Rightarrow> ('w, dict) io" where
  "list_tables_run q u inputs =
     bindE (ensure_schema q u) (\<lambda>schema.
     bindE (list_user_tables q u) (\<lambda>tables.
       ret [(''schema'', JStr schema), (''table_count'', JInt (int (length tables))),
            (''tables'', JArr (map (\<lambda>(name, cols).
               JObj [(''name'', JStr name), (''columns'', JArr (map JObj cols))])
               (sort_key fst tables)))]))"

definition describe_table_run :: "'w connection \<Rightarrow> uuid \<Rightarrow> dict \<Rightarrow> ('w, dict) io" where
  "describe_table_run q u inputs =
     bindE (liftE (read_table inputs)) (\<lambda>table.
     bindE (ensure_schema q u) (\<lambda>schema.
     bindE (describe_columns q schema table) (\<lambda>cols.
       if cols = []
       then raise (ToolError (''table '' @ py_repr table @
              '' does not exist in the user's SQL workspace '' @ [em_dash] @
              '' call `list_tables` to see what's available''))
       else ret [(''schema'', JStr schema), (''table'', JStr table),
                 (''columns'', JArr (map JObj cols))])))"

end
