(* ===== verification/Sql_Catalog.thy ===== *)
theory Sql_Catalog
  imports Sql_Tools Registry
begin

section \<open>The SQL tools as the registry lists them\<close>

text \<open>The name, the description and the input schema of each SQL tool, with its \<open>run\<close>.\<close>

definition sql_insert_tool :: "world connection \<Rightarrow> tool" where
  "sql_insert_tool q =
     \<lparr> tl_name = ''sql_insert'',
       tl_description =
         ''Insert one or more rows into a table in the user's private SQL workspace. All rows must '' @
         ''share the same columns. Returns the number of rows inserted.'',
       tl_schema =
         [(''type'', JStr ''object''),
          (''properties'', JObj
            [(''table_name'', JObj
              [(''type'', JStr ''string'')]),
             (''rows'', JObj
              [(''type'', JStr ''array''),
               (''minItems'', JInt 1),
               (''maxItems'', JInt 500),
               (''items'', JObj
                [(''type'', JStr ''object''),
                 (''description'', JStr (''Column '' @ [arrow] @
                        '' value map. Keys must match columns on the target table; all rows in one call '' @
                        ''must share the same key set.''))])])]),
          (''required'', JArr [JStr ''table_name'',
            JStr ''rows''])],
       tl_needs_task = False,
       tl_run = (\<lambda>ctx. sql_insert_run q (c_user ctx)) \<rparr>"

definition sql_update_tool :: "world connection \<Rightarrow> tool" where
  "sql_update_tool q =
     \<lparr> tl_name = ''sql_update'',
       tl_description =
         ''Update rows in a table in the user's private SQL workspace. `set` is a column '' @ [arrow] @
         '' new-value '' @ ''map. `where` is a column '' @ [arrow] @
         '' value map AND'd together (equality only). To update every row, '' @
         ''pass `where_all: true` instead of `where`. Returns the number of rows updated.'',
       tl_schema =
         [(''type'', JStr ''object''),
          (''properties'', JObj
            [(''table_name'', JObj
              [(''type'', JStr ''string'')]),
             (''set'', JObj
              [(''type'', JStr ''object''),
               (''description'', JStr (''Column '' @ [arrow] @ '' new value. At least one entry.''))]),
             (''where'', JObj
              [(''type'', JStr ''object''),
               (''description'', JStr (''Column '' @ [arrow] @
                      '' value, AND'd together (equality). Required unless `where_all` is true.''))]),
             (''where_all'', JObj
              [(''type'', JStr ''boolean''),
               (''default'', JBool False),
               (''description'', JStr ''Set true to update every row (no WHERE). Required when `where` is absent or empty.'')])]),
          (''required'', JArr [JStr ''table_name'',
            JStr ''set''])],
       tl_needs_task = False,
       tl_run = (\<lambda>ctx. sql_update_run q (c_user ctx)) \<rparr>"

definition sql_delete_tool :: "world connection \<Rightarrow> tool" where
  "sql_delete_tool q =
     \<lparr> tl_name = ''sql_delete'',
       tl_description =
         ''Delete rows from a table in the user's private SQL workspace. `where` is a column '' @
         [arrow] @ '' value '' @
         ''map AND'd together (equality). To delete every row, pass `where_all: true` instead of '' @
         ''`where`. Returns the number of rows deleted.'',
       tl_schema =
         [(''type'', JStr ''object''),
          (''properties'', JObj
            [(''table_name'', JObj
              [(''type'', JStr ''string'')]),
             (''where'', JObj
              [(''type'', JStr ''object''),
               (''description'', JStr (''Column '' @ [arrow] @
                      '' value, AND'd together (equality). Required unless `where_all` is true.''))]),
             (''where_all'', JObj
              [(''type'', JStr ''boolean''),
               (''default'', JBool False),
               (''description'', JStr ''Set true to delete every row (no WHERE). Required when `where` is absent or empty.'')])]),
          (''required'', JArr [JStr ''table_name''])],
       tl_needs_task = False,
       tl_run = (\<lambda>ctx. sql_delete_run q (c_user ctx)) \<rparr>"

definition sql_query_tool :: "world connection \<Rightarrow> tool" where
  "sql_query_tool q =
     \<lparr> tl_name = ''sql_query'',
       tl_description =
         ''Run a read-only SELECT against the user's private SQL workspace. Tables created via '' @
         ''`create_table` are visible here. Limited to 200 rows by default; pass `limit` (max 1000) '' @
         ''to override.'',
       tl_schema =
         [(''type'', JStr ''object''),
          (''properties'', JObj
            [(''query'', JObj
              [(''type'', JStr ''string''),
               (''description'', JStr ''A single SELECT or CTE.'')]),
             (''limit'', JObj
              [(''type'', JStr ''integer''),
               (''minimum'', JInt 1),
               (''maximum'', JInt 1000),
               (''default'', JInt 200)])]),
          (''required'', JArr [JStr ''query''])],
       tl_needs_task = False,
       tl_run = (\<lambda>ctx. sql_query_run q (c_user ctx)) \<rparr>"

definition create_table_tool :: "world connection \<Rightarrow> tool" where
  "create_table_tool q =
     \<lparr> tl_name = ''create_table'',
       tl_description =
         ''Create a table in the user's private SQL workspace. Idempotent (CREATE TABLE IF NOT '' @
         ''EXISTS). Column types restricted to: bigint, boolean, date, double, integer, jsonb, '' @
         ''numeric, text, timestamptz.'',
       tl_schema =
         [(''type'', JStr ''object''),
          (''properties'', JObj
            [(''table_name'', JObj
              [(''type'', JStr ''string'')]),
             (''columns'', JObj
              [(''type'', JStr ''array''),
               (''minItems'', JInt 1),
               (''items'', JObj
                [(''type'', JStr ''object''),
                 (''properties'', JObj
                  [(''name'', JObj
                    [(''type'', JStr ''string'')]),
                   (''type'', JObj
                    [(''type'', JStr ''string'')]),
                   (''not_null'', JObj
                    [(''type'', JStr ''boolean'')])]),
                 (''required'', JArr [JStr ''name'',
                  JStr ''type''])])])]),
          (''required'', JArr [JStr ''table_name'',
            JStr ''columns''])],
       tl_needs_task = False,
       tl_run = (\<lambda>ctx. create_table_run q (c_user ctx)) \<rparr>"

definition list_tables_tool :: "world connection \<Rightarrow> tool" where
  "list_tables_tool q =
     \<lparr> tl_name = ''list_tables'',
       tl_description =
         ''List every table in the user's private SQL workspace, with each table's column names and '' @
         ''types. Call this when you're about to read or write and you're not already sure what '' @
         ''tables exist or what columns they have.'',
       tl_schema =
         [(''type'', JStr ''object''),
          (''properties'', JObj
            []),
          (''required'', JArr [])],
       tl_needs_task = False,
       tl_run = (\<lambda>ctx. list_tables_run q (c_user ctx)) \<rparr>"

definition describe_table_tool :: "world connection \<Rightarrow> tool" where
  "describe_table_tool q =
     \<lparr> tl_name = ''describe_table'',
       tl_description =
         ''Show the columns of one table in the user's private SQL workspace. Call this before '' @
         ''sql_insert/update/delete if the exact column list isn't already known from this '' @
         ''conversation.'',
       tl_schema =
         [(''type'', JStr ''object''),
          (''properties'', JObj
            [(''table_name'', JObj
              [(''type'', JStr ''string'')])]),
          (''required'', JArr [JStr ''table_name''])],
       tl_needs_task = False,
       tl_run = (\<lambda>ctx. describe_table_run q (c_user ctx)) \<rparr>"


end
