(* ===== verification/Sql_Reader.thy ===== *)
theory Sql_Reader
  imports Sql_Tools
begin

section \<open>What a database reads in a statement\<close>

text \<open>
  A statement is a text, so whether a tool can be made to send something else than it means is a
  question about reading the text back. \<open>lex_sql\<close> is the part of Postgres's lexical structure that these
  statements use: a quoted identifier ends at a quote that is not doubled, \<open>$n\<close> is a parameter, and
  everything else is a word or a symbol. An unclosed quote is \<open>None\<close>; a literal or a comment would show as
  the symbols \<open>'\<close>, \<open>-\<close> or \<open>/\<close>.

  \<open>reads s ts\<close> says that the text \<open>s\<close> is the tokens \<open>ts\<close> in any context that does not glue
  something to its last word; \<open>reads_any\<close> that it is so in every context. Both compose along the
  concatenations of the program, which gives the tokens of every statement of the tools.
\<close>

datatype sql_token = Word pystr | Name pystr | Param nat | Sym char

definition word_char :: "char \<Rightarrow> bool" where
  "word_char c = (is_lower c \<or> is_upper c \<or> is_digit c \<or> c = CHR ''_'')"

fun read_name :: "pystr \<Rightarrow> (pystr \<times> pystr) option" where
  "read_name [] = None"
| "read_name (c # s) =
     (if c \<noteq> dquote then map_option (apfst (Cons c)) (read_name s)
      else (case s of
          [] \<Rightarrow> Some ([], [])
        | d # t \<Rightarrow> if d = dquote then map_option (apfst (Cons dquote)) (read_name t) else Some ([], s)))"

lemma read_name_shorter: "read_name s = Some (n, t) \<Longrightarrow> length t < length s"
  by (induction s arbitrary: n t rule: read_name.induct)
    (fastforce split: if_splits list.splits simp: apfst_def map_prod_def)+

function lex_sql :: "pystr \<Rightarrow> sql_token list option" where
  "lex_sql [] = Some []"
| "lex_sql (c # s) =
     (if is_space c then lex_sql s
      else if c = dquote then
        (case read_name s of None \<Rightarrow> None | Some (n, t) \<Rightarrow> map_option (Cons (Name n)) (lex_sql t))
      else if c = CHR ''$'' then
        map_option (Cons (Param (nat_of_digits 0 (takeWhile is_digit s)))) (lex_sql (dropWhile is_digit s))
      else if word_char c then
        map_option (Cons (Word (c # takeWhile word_char s))) (lex_sql (dropWhile word_char s))
      else map_option (Cons (Sym c)) (lex_sql s))"
  by pat_completeness auto
termination
  by (relation "measure length")
    (auto dest: read_name_shorter simp: less_Suc_eq_le length_dropWhile_le)

declare lex_sql.simps(2) [simp del]

definition free_start :: "pystr \<Rightarrow> bool" where
  "free_start s = (case s of [] \<Rightarrow> True | c # _ \<Rightarrow> \<not> word_char c \<and> c \<noteq> dquote)"

definition reads :: "pystr \<Rightarrow> sql_token list \<Rightarrow> bool" where
  "reads s ts = (\<forall>t. free_start t \<longrightarrow> lex_sql (s @ t) = map_option (append ts) (lex_sql t))"

definition reads_any :: "pystr \<Rightarrow> sql_token list \<Rightarrow> bool" where
  "reads_any s ts = (\<forall>t. lex_sql (s @ t) = map_option (append ts) (lex_sql t))"

lemma reads_lex: "reads s ts \<Longrightarrow> lex_sql s = Some ts"
  by (auto simp: reads_def free_start_def dest: spec[of _ "[]"])

lemma reads_any_reads: "reads_any s ts \<Longrightarrow> reads s ts"
  by (simp add: reads_def reads_any_def)

lemma append_ops: "append [] = id" "append (x # xs) = Cons x \<circ> append xs"
  by (auto simp: fun_eq_iff)

lemma reads_Nil: "reads [] []"
  by (simp add: reads_def append_ops option.map_id)

lemma map_append_append:
  "map_option (append ts) (map_option (append us) x) = map_option (append (ts @ us)) x"
  by (cases x) auto

lemma reads_append:
  assumes "reads a ts" "reads b us" "free_start b" shows "reads (a @ b) (ts @ us)"
proof -
  have "free_start (b @ t)" if "free_start t" for t
    using assms(3) that by (auto simp: free_start_def split: list.splits)
  then show ?thesis
    using assms(1,2) by (simp add: reads_def map_append_append)
qed

lemma reads_after:
  assumes "reads_any a ts" "reads b us" shows "reads (a @ b) (ts @ us)"
  using assms by (simp add: reads_def reads_any_def map_append_append)

lemma reads_then_any:
  assumes "reads a ts" "reads_any b us" "free_start b" "b \<noteq> []" shows "reads_any (a @ b) (ts @ us)"
proof -
  have "free_start (b @ t)" for t
    using assms(3,4) by (auto simp: free_start_def split: list.splits)
  then show ?thesis
    using assms(1,2) by (simp add: reads_def reads_any_def map_append_append)
qed

subsection \<open>The pieces\<close>

lemmas char_facts = is_space_def word_char_def is_lower_def is_upper_def is_digit_def code_def Let_def

lemma replace_quote:
  "replace [q] [q, q] (c # s) = (if c = q then [q, q] else [c]) @ replace [q] [q, q] s"
  by (simp add: starts_with_def)

lemma read_name_quoted:
  assumes "free_start t"
  shows "read_name (replace [dquote] [dquote, dquote] n @ dquote # t) = Some (n, t)"
proof (induction n)
  case Nil
  then show ?case using assms by (auto simp: free_start_def split: list.splits)
next
  case (Cons c n)
  then show ?case by (simp add: replace_quote del: replace.simps)
qed

lemma dquote_plain: "\<not> is_space dquote" "\<not> word_char dquote" "dquote \<noteq> CHR ''$''"
  by (simp_all add: char_facts dquote_def)

lemma reads_name: "reads (quote_ident n) [Name n]"
proof -
  have "lex_sql (quote_ident n @ t) = map_option (append [Name n]) (lex_sql t)" if "free_start t" for t
    using read_name_quoted[OF that, of n]
    by (simp add: quote_ident_def lex_sql.simps dquote_plain append_ops del: replace.simps)
  then show ?thesis by (simp add: reads_def)
qed

lemma digit_word: "is_digit c \<Longrightarrow> word_char c"
  by (simp add: word_char_def)

lemma split_at_stop:
  assumes "list_all p s" "t = [] \<or> \<not> p (hd t)"
  shows "takeWhile p (s @ t) = s \<and> dropWhile p (s @ t) = t"
  using assms by (induction s) (cases t; simp)+

lemma free_start_stop:
  assumes "free_start t" "\<And>c. p c \<Longrightarrow> word_char c" shows "t = [] \<or> \<not> p (hd t)"
  using assms by (auto simp: free_start_def split: list.splits)

lemma reads_param: "reads (CHR ''$'' # show_nat i) [Param i]"
proof -
  have "lex_sql (CHR ''$'' # show_nat i @ t) = map_option (append [Param i]) (lex_sql t)"
    if "free_start t" for t
  proof -
    have digits: "list_all is_digit (show_nat i)" using show_nat_digits by (simp add: list_all_iff)
    have "takeWhile is_digit (show_nat i @ t) = show_nat i \<and> dropWhile is_digit (show_nat i @ t) = t"
      using split_at_stop[of is_digit "show_nat i" t] digits free_start_stop[OF that, of is_digit]
        digit_word by blast
    moreover have "\<not> is_space (CHR ''$'')" "CHR ''$'' \<noteq> dquote" by (simp_all add: char_facts dquote_def)
    ultimately show ?thesis
      by (simp only: lex_sql.simps if_False if_True refl nat_of_digits_show append_ops comp_id)
  qed
  then show ?thesis by (simp add: reads_def)
qed

lemma reads_word:
  assumes "w \<noteq> []" "list_all word_char w" shows "reads w [Word w]"
proof -
  obtain c v where w: "w = c # v" using assms(1) by (cases w) auto
  then have c: "\<not> is_space c" "c \<noteq> CHR ''$''" "c \<noteq> dquote" "word_char c" and v: "list_all word_char v"
    using assms(2) by (auto simp: char_facts dquote_def)
  have "lex_sql (c # v @ t) = map_option (append [Word (c # v)]) (lex_sql t)" if "free_start t" for t
  proof -
    have "takeWhile word_char (v @ t) = v \<and> dropWhile word_char (v @ t) = t"
      using split_at_stop[of word_char v t] v free_start_stop[OF that, of word_char] by blast
    with c show ?thesis by (simp only: lex_sql.simps if_False if_True append_ops comp_id)
  qed
  then show ?thesis by (simp add: reads_def w)
qed

lemma reads_sym:
  assumes "\<not> is_space c" "\<not> word_char c" "c \<noteq> dquote" "c \<noteq> CHR ''$''"
  shows "reads_any [c] [Sym c]"
  using assms by (simp add: reads_any_def lex_sql.simps append_ops)

lemma reads_space: "is_space c \<Longrightarrow> reads_any [c] []"
  by (simp add: reads_any_def lex_sql.simps append_ops option.map_id)

lemmas sym_reads = reads_sym[of "CHR ''.''"] reads_sym[of "CHR ''(''"] reads_sym[of "CHR '')''"]
  reads_sym[of "CHR '',''"] reads_sym[of "CHR ''=''"] reads_sym[of "CHR '':''"]

lemma keyword_reads:
  "reads_any ''INSERT INTO '' [Word ''INSERT'', Word ''INTO'']"
  "reads_any ''UPDATE '' [Word ''UPDATE'']"
  "reads_any ''DELETE FROM '' [Word ''DELETE'', Word ''FROM'']"
  "reads_any '' SET '' [Word ''SET'']"
  "reads_any '' WHERE '' [Word ''WHERE'']"
  "reads_any '' AND '' [Word ''AND'']"
  "reads_any '' = '' [Sym (CHR ''='')]"
  "reads_any '', '' [Sym (CHR '','')]"
  "reads_any ''.'' [Sym (CHR ''.'')]"
  "reads_any '' ('' [Sym (CHR ''('')]"
  "reads_any ''('' [Sym (CHR ''('')]"
  "reads_any '')'' [Sym (CHR '')'')]"
  "reads_any '') VALUES '' [Sym (CHR '')''), Word ''VALUES'']"
  "reads_any ''CREATE SCHEMA IF NOT EXISTS '' (map Word [''CREATE'', ''SCHEMA'', ''IF'', ''NOT'', ''EXISTS''])"
  "reads_any ''::'' [Sym (CHR '':''), Sym (CHR '':'')]"
  by (simp_all add: reads_any_def lex_sql.simps char_facts dquote_def append_ops option.map_comp)

subsection \<open>The statements\<close>

fun sep_by :: "'a list \<Rightarrow> 'a list list \<Rightarrow> 'a list" where
  "sep_by st [] = []"
| "sep_by st [ts] = ts"
| "sep_by st (ts # us # tss) = ts @ st @ sep_by st (us # tss)"

lemma reads_join:
  assumes "reads_any sep st" "free_start sep" "sep \<noteq> []"
  shows "list_all2 reads ss tss \<Longrightarrow> reads (join sep ss) (sep_by st tss)"
proof (induction ss arbitrary: tss rule: induct_list012)
  case (3 s u ss)
  from "3.prems" obtain ts us tss' where tss: "tss = ts # us # tss'" and s: "reads s ts"
    and rest: "list_all2 reads (u # ss) (us # tss')"
    by (auto simp: list_all2_Cons1)
  have "reads (sep @ join sep (u # ss)) (st @ sep_by st (us # tss'))"
    by (rule reads_after[OF assms(1) "3.IH"(2)[OF rest]])
  moreover have "free_start (sep @ join sep (u # ss))"
    using assms(2,3) by (cases sep) (auto simp: free_start_def)
  ultimately show ?case using reads_append[OF s] by (simp add: tss)
qed (auto simp: reads_Nil list_all2_Cons1)

definition placeholder_tokens :: "nat \<Rightarrow> json \<Rightarrow> json option \<Rightarrow> sql_token list" where
  "placeholder_tokens i v t = Param i # (case temporal_cast t of
     Some cast \<Rightarrow> if is_text v
       then [Sym (CHR '':''), Sym (CHR '':''), Word ''text'', Sym (CHR '':''), Sym (CHR '':''), Word cast] else []
   | None \<Rightarrow> [])"

lemma temporal_cast_word: "temporal_cast t = Some c \<Longrightarrow> c \<noteq> [] \<and> list_all word_char c"
  by (auto simp: temporal_cast_def temporal_casts_def char_facts split: option.splits json.splits if_splits)

lemma free_starts:
  "free_start ('', '' @ s)" "free_start ('' = '' @ s)" "free_start ('' AND '' @ s)" "free_start (''::'' @ s)"
  "free_start (''.'' @ s)" "free_start ('')'' @ s)" "free_start ('') VALUES '' @ s)"
  "free_start ('' ('' @ s)" "free_start ('' SET '' @ s)" "free_start ('' WHERE '' @ s)" "free_start []"
  by (simp_all add: free_start_def char_facts dquote_def)

lemma reads_cast:
  assumes "c \<noteq> []" "list_all word_char c"
  shows "reads (''::'' @ c) ([Sym (CHR '':''), Sym (CHR '':'')] @ [Word c])"
  by (rule reads_after[OF keyword_reads(15) reads_word[OF assms]])

lemma reads_placeholder: "reads (value_placeholder i v t) (placeholder_tokens i v t)"
proof (cases "temporal_cast t")
  case (Some c)
  have "reads (''::'' @ ''text'') ([Sym (CHR '':''), Sym (CHR '':'')] @ [Word ''text''])"
    by (rule reads_cast) (simp_all add: char_facts)
  from reads_append[OF this reads_cast[of c] free_starts(4)] temporal_cast_word[OF Some]
  have "reads ((''::'' @ ''text'') @ ''::'' @ c)
      (([Sym (CHR '':''), Sym (CHR '':'')] @ [Word ''text'']) @ [Sym (CHR '':''), Sym (CHR '':'')] @ [Word c])"
    by blast
  from reads_append[OF reads_param[of i] this] free_starts(4)
  show ?thesis using reads_param by (simp add: value_placeholder_def placeholder_tokens_def Some)
qed (use reads_param in \<open>simp add: value_placeholder_def placeholder_tokens_def\<close>)

fun equation_tokens :: "(pystr \<Rightarrow> json option) \<Rightarrow> nat \<Rightarrow> dict \<Rightarrow> sql_token list list" where
  "equation_tokens types n [] = []"
| "equation_tokens types n ((c, v) # d) =
     ([Name c, Sym (CHR ''='')] @ placeholder_tokens (Suc n) v (types c)) # equation_tokens types (Suc n) d"

lemma reads_equation:
  "reads (quote_ident c @ '' = '' @ value_placeholder i v t) ([Name c, Sym (CHR ''='')] @ placeholder_tokens i v t)"
proof -
  have "reads (quote_ident c @ '' = '' @ value_placeholder i v t)
      ([Name c] @ [Sym (CHR ''='')] @ placeholder_tokens i v t)"
    by (intro reads_append reads_name free_starts reads_after keyword_reads reads_placeholder)
  then show ?thesis by simp
qed

lemma reads_equations: "list_all2 reads (equations types n d) (equation_tokens types n d)"
  using reads_equation by (induction types n d rule: equations.induct) auto

definition table_tokens :: "pystr \<Rightarrow> pystr \<Rightarrow> sql_token list" where
  "table_tokens schema table = [Name schema, Sym (CHR ''.''), Name table]"

lemma reads_table: "reads (qualified_table schema table) (table_tokens schema table)"
proof -
  have "reads (quote_ident schema @ ''.'' @ quote_ident table) ([Name schema] @ [Sym (CHR ''.'')] @ [Name table])"
    by (intro reads_append[OF reads_name] reads_after[OF keyword_reads(9)] reads_name free_starts)
  then show ?thesis by (simp add: qualified_table_def table_tokens_def)
qed

definition where_tokens :: "(pystr \<Rightarrow> json option) \<Rightarrow> nat \<Rightarrow> dict \<Rightarrow> sql_token list" where
  "where_tokens types n wh =
     (if wh = [] then [] else Word ''WHERE'' # sep_by [Word ''AND''] (equation_tokens types n wh))"

lemma reads_where: "reads (where_sql types n wh) (where_tokens types n wh)"
proof -
  have "reads ('' WHERE '' @ join '' AND '' (equations types n wh))
      ([Word ''WHERE''] @ sep_by [Word ''AND''] (equation_tokens types n wh))"
    by (intro reads_after[OF keyword_reads(5)] reads_join[OF keyword_reads(6)] reads_equations)
      (use free_starts(3)[of "[]"] in simp_all)
  then show ?thesis by (simp add: where_sql_def where_tokens_def reads_Nil)
qed

lemma free_where: "free_start (where_sql types n wh)"
  using free_starts by (simp add: where_sql_def)

definition comma :: "sql_token list" where "comma = [Sym (CHR '','')]"

lemma reads_commas: "list_all2 reads ss tss \<Longrightarrow> reads (join '', '' ss) (sep_by comma tss)"
  unfolding comma_def by (rule reads_join[OF keyword_reads(8)]) (use free_starts(1)[of "[]"] in simp_all)

definition delete_tokens :: "(pystr \<Rightarrow> json option) \<Rightarrow> pystr \<Rightarrow> pystr \<Rightarrow> dict \<Rightarrow> sql_token list" where
  "delete_tokens types schema table wh =
     [Word ''DELETE'', Word ''FROM''] @ table_tokens schema table @ where_tokens types 0 wh"

lemma delete_reads: "lex_sql (delete_sql types schema table wh) = Some (delete_tokens types schema table wh)"
  unfolding delete_sql_def delete_tokens_def
  by (intro reads_lex reads_after[OF keyword_reads(3)] reads_append[OF reads_table] reads_where free_where)

definition update_tokens ::
  "(pystr \<Rightarrow> json option) \<Rightarrow> pystr \<Rightarrow> pystr \<Rightarrow> dict \<Rightarrow> dict \<Rightarrow> sql_token list" where
  "update_tokens types schema table st wh =
     [Word ''UPDATE''] @ table_tokens schema table @ [Word ''SET''] @
     sep_by comma (equation_tokens types 0 st) @ where_tokens types (length st) wh"

lemma update_reads:
  "lex_sql (update_sql types schema table st wh) = Some (update_tokens types schema table st wh)"
  unfolding update_sql_def update_tokens_def
  by (intro reads_lex reads_after[OF keyword_reads(2)] reads_append[OF reads_table]
        reads_after[OF keyword_reads(4)] reads_append[OF reads_commas] reads_equations reads_where
        free_where free_starts)

fun row_tokens :: "(pystr \<Rightarrow> json option) \<Rightarrow> nat \<Rightarrow> pystr list \<Rightarrow> json list \<Rightarrow> sql_token list list" where
  "row_tokens types n (c # cols) (v # vs) =
     placeholder_tokens (Suc n) v (types c) # row_tokens types (Suc n) cols vs"
| "row_tokens types n _ _ = []"

lemma reads_row: "list_all2 reads (placeholders types n cols vs) (row_tokens types n cols vs)"
  by (induction types n cols vs rule: placeholders.induct) (simp_all add: reads_placeholder)

fun group_tokens ::
  "(pystr \<Rightarrow> json option) \<Rightarrow> pystr list \<Rightarrow> nat \<Rightarrow> dict list \<Rightarrow> sql_token list list" where
  "group_tokens types cols i [] = []"
| "group_tokens types cols i (r # rs) =
     ([Sym (CHR ''('')] @ sep_by comma (row_tokens types (i * length cols) cols (row_values cols r)) @
      [Sym (CHR '')'')]) # group_tokens types cols (Suc i) rs"

lemma reads_group:
  "list_all2 reads ss tss \<Longrightarrow>
   reads (''('' @ join '', '' ss @ '')'') ([Sym (CHR ''('')] @ sep_by comma tss @ [Sym (CHR '')'')])"
  by (intro reads_after[OF keyword_reads(11)] reads_append[OF reads_commas] reads_any_reads keyword_reads)
    (use free_starts(7)[of "[]"] in \<open>simp_all add: free_start_def char_facts dquote_def\<close>)

lemma reads_groups: "list_all2 reads (value_groups types cols i rows) (group_tokens types cols i rows)"
  using reads_group[OF reads_row]
  by (induction types cols i rows rule: value_groups.induct) (simp_all del: append.simps)

definition insert_tokens ::
  "(pystr \<Rightarrow> json option) \<Rightarrow> pystr \<Rightarrow> pystr \<Rightarrow> pystr list \<Rightarrow> dict list \<Rightarrow> sql_token list" where
  "insert_tokens types schema table cols rows =
     [Word ''INSERT'', Word ''INTO''] @ table_tokens schema table @
     [Sym (CHR ''('')] @ sep_by comma (map (\<lambda>c. [Name c]) cols) @ [Sym (CHR '')''), Word ''VALUES''] @
     sep_by comma (group_tokens types cols 0 rows)"

lemma insert_reads:
  "lex_sql (insert_sql types schema table cols rows) = Some (insert_tokens types schema table cols rows)"
proof -
  have cols: "list_all2 reads (map quote_ident cols) (map (\<lambda>c. [Name c]) cols)"
    by (simp add: list_all2_conv_all_nth reads_name)
  have "reads (insert_sql types schema table cols rows) (insert_tokens types schema table cols rows)"
    unfolding insert_sql_def insert_tokens_def
    by (intro reads_after[OF keyword_reads(1)] reads_append[OF reads_table] reads_after[OF keyword_reads(10)]
          reads_append[OF reads_commas[OF cols]] reads_after[OF keyword_reads(13)] reads_commas reads_groups
          free_starts)
  then show ?thesis by (rule reads_lex)
qed

end
