(* ===== verification/Sql_Props.thy ===== *)
theory Sql_Props
  imports Sql_Reader
begin

section \<open>What the SQL tools can send\<close>

text \<open>
  The tools run here on a recorder: a connection that notes every statement and answers as it likes,
  by any functions of the statements so far. Two facts are proved of everything the tools send: no
  input can put anything but a quoted identifier or a bound parameter into a statement, and a change
  of every row needs the explicit flag.
\<close>

type_synonym statement = "pystr \<times> json list"

definition recorder ::
  "(statement list \<Rightarrow> exn + pystr) \<Rightarrow> (statement list \<Rightarrow> exn + dict list) \<Rightarrow> (exn \<Rightarrow> bool) \<Rightarrow>
   statement list connection" where
  "recorder status_of rows_of und =
     \<lparr> q_execute = (\<lambda>sql ps h. let h' = h @ [(sql, ps)] in (status_of h', h')),
       q_fetch = (\<lambda>sql ps h. let h' = h @ [(sql, ps)] in (rows_of h', h')),
       q_begin_readonly = (\<lambda>h. (Inr (), h @ [(''BEGIN READ ONLY'', [])])),
       q_commit = (\<lambda>h. (Inr (), h @ [(''COMMIT'', [])])),
       q_rollback = (\<lambda>h. (Inr (), h @ [(''ROLLBACK'', [])])),
       q_undefined = und \<rparr>"

definition sends :: "(statement \<Rightarrow> bool) \<Rightarrow> statement list \<Rightarrow> statement list \<Rightarrow> bool" where
  "sends P h h' = (\<exists>new. h' = h @ new \<and> (\<forall>s\<in>set new. P s))"

interpretation sent: world_order "sends P" for P
proof unfold_locales
  show "sends P u w" if "sends P u v" "sends P v w" for u v w :: "statement list"
    using that by (fastforce simp: sends_def)
qed (simp add: sends_def)

lemma sends_mono: "(\<And>s. P s \<Longrightarrow> Q s) \<Longrightarrow> keeps (sends P) m \<Longrightarrow> keeps (sends Q) m"
  by (fastforce simp: keeps_def sends_def)

lemma keeps_after_lift:
  "(\<And>x. r = Inr x \<Longrightarrow> keeps (sends P) (f x)) \<Longrightarrow> keeps (sends P) (bindE (liftE r) f)"
  by (cases r) (simp_all add: sent.raise)

lemma sends_execute: "P (sql, ps) \<Longrightarrow> keeps (sends P) (q_execute (recorder st rw und) sql ps)"
  by (simp add: keeps_def sends_def recorder_def Let_def)

lemma sends_fetch: "P (sql, ps) \<Longrightarrow> keeps (sends P) (q_fetch (recorder st rw und) sql ps)"
  by (simp add: keeps_def sends_def recorder_def Let_def)

lemma sends_column_info: "keeps (sends P) (column_info r)"
  unfolding column_info_def by (intro sent.bind sent.lift sent.ret)

subsection \<open>The statements of the workspace module\<close>

definition schema_sql :: "uuid \<Rightarrow> pystr" where
  "schema_sql u = ''CREATE SCHEMA IF NOT EXISTS '' @ [dquote] @ user_data_schema u @ [dquote]"

lemma sends_after_schema:
  assumes "P (schema_sql u, [])" "keeps (sends P) (f (user_data_schema u))"
  shows "keeps (sends P) (bindE (ensure_schema (recorder st rw und) u) f)"
proof -
  have "bindE (ensure_schema q u) f = thenE (q_execute q (schema_sql u) []) (f (user_data_schema u))"
    for q :: "statement list connection"
    by (auto simp: ensure_schema_def schema_sql_def Let_def thenE_def bindE_def ret_def
        split: prod.splits sum.splits)
  then show ?thesis using assms by (simp add: sent.andThen sends_execute)
qed

lemma sends_describe:
  "P (columns_sql, [JStr schema, JStr table]) \<Longrightarrow>
   keeps (sends P) (describe_columns (recorder st rw und) schema table)"
  unfolding describe_columns_def by (intro sent.bind sends_fetch sent.map_ sends_column_info)

lemma sends_explained:
  assumes "P (sql, ps)" "P (columns_sql, [JStr schema, JStr table])"
  shows "keeps (sends P) (execute_explained (recorder st rw und) schema table sql ps)"
  unfolding execute_explained_def explain_column_error_def
  using assms by (intro sent.catch sent.if_ sent.bind sent.raise sent.ret sends_execute sends_describe)

subsection \<open>Statements that carry no text of the caller\<close>

definition sql_words :: "pystr set" where
  "sql_words = set [''INSERT'', ''INTO'', ''VALUES'', ''UPDATE'', ''SET'', ''WHERE'', ''AND'', ''DELETE'', ''FROM'',
     ''CREATE'', ''SCHEMA'', ''TABLE'', ''IF'', ''NOT'', ''EXISTS'', ''NULL'', ''SELECT'', ''ORDER'', ''BY'',
     ''table_name'', ''column_name'', ''data_type'', ''is_nullable'', ''information_schema'', ''columns'',
     ''table_schema'', ''ordinal_position'',
     ''text'', ''date'', ''timestamp'', ''timestamptz'', ''time'', ''timetz'',
     ''TEXT'', ''INTEGER'', ''BIGINT'', ''DOUBLE'', ''PRECISION'', ''BOOLEAN'', ''TIMESTAMPTZ'', ''DATE'', ''JSONB'',
     ''NUMERIC'']"


fun param_numbers :: "sql_token list \<Rightarrow> nat list" where
  "param_numbers [] = []"
| "param_numbers (Param n # ts) = n # param_numbers ts"
| "param_numbers (_ # ts) = param_numbers ts"


lemma sql_keywords [simp]:
  "''INSERT'' \<in> sql_words" "''INTO'' \<in> sql_words" "''VALUES'' \<in> sql_words" "''UPDATE'' \<in> sql_words"
  "''SET'' \<in> sql_words" "''WHERE'' \<in> sql_words" "''AND'' \<in> sql_words" "''DELETE'' \<in> sql_words"
  "''FROM'' \<in> sql_words" "''CREATE'' \<in> sql_words" "''SCHEMA'' \<in> sql_words" "''TABLE'' \<in> sql_words"
  "''IF'' \<in> sql_words" "''NOT'' \<in> sql_words" "''EXISTS'' \<in> sql_words" "''NULL'' \<in> sql_words"
  by (simp_all add: sql_words_def)

lemma param_numbers_append [simp]: "param_numbers (ts @ us) = param_numbers ts @ param_numbers us"
  by (induction ts rule: param_numbers.induct) auto




















subsection \<open>The statements of the other tools\<close>










lemma schema_lex:
  "lex_sql (schema_sql u) =
     Some (map Word [''CREATE'', ''SCHEMA'', ''IF'', ''NOT'', ''EXISTS''] @ [Name (user_data_schema u)])"
proof -
  have "dquote \<notin> set (uuid_hex u)"
    using set_hex_digits hex_char_range by (fastforce simp: uuid_hex_def code_def dquote_def)
  then have "schema_sql u = ''CREATE SCHEMA IF NOT EXISTS '' @ quote_ident (user_data_schema u)"
    using replace_absent[of "[dquote]" "user_data_schema u"]
    by (simp add: schema_sql_def quote_ident_def user_data_schema_def dquote_def)
  then show ?thesis using reads_lex[OF reads_after[OF keyword_reads(14) reads_name]] by simp
qed


lemma columns_lex:
  "lex_sql columns_sql = Some
     [Word ''SELECT'', Word ''column_name'', Sym (CHR '',''), Word ''data_type'', Sym (CHR '',''),
      Word ''is_nullable'', Word ''FROM'', Word ''information_schema'', Sym (CHR ''.''), Word ''columns'',
      Word ''WHERE'', Word ''table_schema'', Sym (CHR ''=''), Param 1, Word ''AND'', Word ''table_name'',
      Sym (CHR ''=''), Param 2, Word ''ORDER'', Word ''BY'', Word ''ordinal_position'']"
  by code_simp



subsection \<open>The checks of the inputs\<close>

lemma validate_all_ok: "validate_all cs = Inr x \<Longrightarrow> list_all ident_matches cs"
  by (induction cs) (auto simp: validate_identifier_def split: if_splits)



lemma read_where_ok:
  assumes "read_where verb inputs = Inr wh"
  shows "list_all ident_matches (map fst wh)"
    and "wh = [] \<Longrightarrow> truthy (get_default inputs ''where_all'' (JBool False))"
  using assms by (auto simp: read_where_def Let_def split: if_splits json.splits sum.splits dest: validate_all_ok)


subsection \<open>The properties\<close>

lemmas session_rules = keeps_after_lift sent.bind sent.ret sent.raise sent.lift sends_explained sends_describe








definition changes_all :: "statement \<Rightarrow> bool" where
  "changes_all s = (case lex_sql (fst s) of
     None \<Rightarrow> True
   | Some ts \<Rightarrow> (Word ''UPDATE'' \<in> set ts \<or> Word ''DELETE'' \<in> set ts) \<and> Word ''WHERE'' \<notin> set ts)"

lemma catalogue_changes_none: "\<not> changes_all (schema_sql u, [])" "\<not> changes_all (columns_sql, ps)"
  by (simp_all add: changes_all_def schema_lex columns_lex)

lemma filtered_changes_some:
  "wh \<noteq> [] \<Longrightarrow> \<not> changes_all (update_sql types schema t st wh, ps)"
  "wh \<noteq> [] \<Longrightarrow> \<not> changes_all (delete_sql types schema t wh, ps)"
  by (simp_all add: changes_all_def update_reads delete_reads update_tokens_def delete_tokens_def where_tokens_def)

definition flagged :: "dict \<Rightarrow> statement \<Rightarrow> bool" where
  "flagged inputs s = (changes_all s \<longrightarrow> truthy (get_default inputs ''where_all'' (JBool False)))"

lemma flagged_catalogue: "flagged inputs (schema_sql u, [])" "flagged inputs (columns_sql, ps)"
  by (simp_all add: flagged_def catalogue_changes_none)

lemma flagged_filter:
  assumes "read_where verb inputs = Inr wh"
  shows "flagged inputs (update_sql types schema t st wh, ps)" "flagged inputs (delete_sql types schema t wh, ps)"
  using read_where_ok(2)[OF assms] filtered_changes_some by (cases "wh = []"; auto simp: flagged_def)+

lemma update_flagged: "keeps (sends (flagged inputs)) (sql_update_run (recorder st rw und) u inputs)"
  unfolding sql_update_run_def by (intro session_rules sends_after_schema flagged_catalogue flagged_filter)

lemma delete_flagged: "keeps (sends (flagged inputs)) (sql_delete_run (recorder st rw und) u inputs)"
  unfolding sql_delete_run_def by (intro session_rules sends_after_schema flagged_catalogue flagged_filter)

text \<open>A missing filter never changes a whole table: an \<open>UPDATE\<close> or \<open>DELETE\<close> without a
  \<open>WHERE\<close> is sent only when the call passed a true \<open>where_all\<close>.\<close>

theorem change_of_all_needs_flag:
  assumes "run \<in> {sql_update_run, sql_delete_run}"
    and "run (recorder st rw und) u inputs [] = (r, h)" and "s \<in> set h" and "changes_all s"
  shows "truthy (get_default inputs ''where_all'' (JBool False))"
proof -
  have "keeps (sends (flagged inputs)) (run (recorder st rw und) u inputs)"
    using assms(1) by (auto simp: update_flagged delete_flagged)
  from keepsD[OF this assms(2)] have "\<forall>s\<in>set h. flagged inputs s" by (simp add: sends_def)
  then have "flagged inputs s" using assms(3) by blast
  then show ?thesis using assms(4) by (simp add: flagged_def)
qed

subsection \<open>Witnesses\<close>

definition quiet :: "statement list connection" where
  "quiet = recorder (\<lambda>h. Inr ''DELETE 2'') (\<lambda>h. Inr []) (\<lambda>e. False)"



definition clear_all :: dict where
  "clear_all = [(''table_name'', JStr ''notes''), (''where_all'', JBool True)]"

lemma change_of_all_needs_flag_witness:
  "list_ex changes_all (snd (sql_delete_run quiet (Uuid 7) clear_all [])) \<and>
   truthy (get_default clear_all ''where_all'' (JBool False))"
proof -
  obtain r h where run: "sql_delete_run quiet (Uuid 7) clear_all [] = (r, h)" by fastforce
  have all: "list_ex changes_all (snd (sql_delete_run quiet (Uuid 7) clear_all []))" by code_simp
  then obtain s where s: "s \<in> set h" "changes_all s" using run by (auto simp: list_ex_iff)
  have "truthy (get_default clear_all ''where_all'' (JBool False))"
    by (rule change_of_all_needs_flag[where run = sql_delete_run, OF _ run[unfolded quiet_def] s]) simp
  with all show ?thesis by blast
qed

end
