(* ===== verification/Distiller.thy ===== *)
theory Distiller
  imports Post_Eval Learning_Prompts
begin

section \<open>The skill distiller\<close>

text \<open>
  \<open>src/wolfpaw/agents/skill_distiller.py\<close>: a plan that scored well and looks reusable is generalized by
  the model into a skill, unless one of the user's or of the starter set is already close to the request.
  Every step may fail, and then nothing is stored. The collaborators are the planner's; \<open>close\<close> says
  which distances count as the similarity \<open>skill_dedup_similarity_threshold\<close> or more.
\<close>

subsection \<open>The prompt\<close>

definition distill_step_lines :: "step \<Rightarrow> pystr list" where
  "distill_step_lines st =
     post_step_line st #
     (if st_inputs st = [] then [] else [''  inputs: '' @ dumps (JObj (st_inputs st))])"

definition distill_result_line :: "step_result \<Rightarrow> pystr" where
  "distill_result_line r =
     (let head = ''- '' @ r_step_id r @ '': '' in
      if r_status r = COMPLETED
      then (let out = dumps (r_output r) in
        head @ ''COMPLETED '' @ [em_dash] @ '' '' @
          (if length out > 400 then take 400 out @ '' '' @ [ellipsis] @ ''(truncated)'' else out))
      else if r_status r = FAILED
      then head @ ''FAILED '' @ [em_dash] @ '' '' @ (case r_error r of None \<Rightarrow> [] | Some e \<Rightarrow> e)
      else head @ step_status_text (r_status r))"

definition build_distill_prompt :: "plan \<Rightarrow> execution_plan \<Rightarrow> post_verdict \<Rightarrow> pystr" where
  "build_distill_prompt p x v = lines_of
     ([''# User request that produced the high-scoring plan'', pl_query p, [],
       ''# Plan (the specific instance to generalize)'', ''summary: '' @ pl_summary p, [],
       ''## Steps the plan took''] @ concat (map distill_step_lines (pl_steps p)) @
      [[], ''## How it went'', ''score: '' @ show_int (pv_score v) @ ''/100'',
       ''summary: '' @ pv_summary v] @
      (if pv_well v = [] then [] else [''what_went_well: '' @ pv_well v]) @
      (if pv_improvements v = [] then [] else [''improvements (next time): '' @ pv_improvements v]) @
      [[], ''## Step outcomes (truncated)''] @ map distill_result_line (x_results x) @
      [[], ''Generalize this into a reusable Skill via the `emit_skill` tool.''])"

subsection \<open>Reading the reply\<close>

record raw_skill =
  rs_name :: pystr
  rs_description :: pystr
  rs_ingredients :: dict
  rs_steps :: "json list"

text \<open>\<open>(payload.get(k) or "").strip()\<close>: a truthy value that is no text has no \<open>strip\<close>.\<close>

definition stripped_field :: "dict \<Rightarrow> pystr \<Rightarrow> exn + pystr" where
  "stripped_field payload k = (case get_or payload k (JStr []) of
     JStr s \<Rightarrow> Inr (strip s)
   | _ \<Rightarrow> Inl (OtherError (''object has no attribute 'strip'' @ [squote])))"

fun is_object :: "json \<Rightarrow> bool" where
  "is_object (JObj d) = True"
| "is_object _ = False"

definition normalize_distilled :: "dict \<Rightarrow> exn + raw_skill option" where
  "normalize_distilled payload =
     (case stripped_field payload ''name'' of Inl e \<Rightarrow> Inl e
      | Inr name \<Rightarrow>
     (case stripped_field payload ''description'' of Inl e \<Rightarrow> Inl e
      | Inr description \<Rightarrow>
      if name = [] \<or> description = [] then Inr None
      else (case get_default payload ''generalized_steps'' JNull of
          JArr steps \<Rightarrow>
            (let cleaned = filter is_object steps in
             if cleaned = [] then Inr None
             else Inr (Some \<lparr> rs_name = name, rs_description = description,
                 rs_ingredients = (case get_default payload ''ingredients'' JNull of JObj d \<Rightarrow> d | _ \<Rightarrow> []),
                 rs_steps = cleaned \<rparr>))
        | _ \<Rightarrow> Inr None)))"

definition skill_of_response :: "api_response \<Rightarrow> exn + raw_skill option" where
  "skill_of_response raw =
     (case find_tool_use ''emit_skill'' (a_content raw) of
        Some payload \<Rightarrow> normalize_distilled payload
      | None \<Rightarrow> Inr None)"

subsection \<open>Distilling\<close>

definition ensure_distiller_prompt :: "unit act" where
  "ensure_distiller_prompt = ensure_prompt_version ''skill_distiller'' ''v1''
     [(''agent_role'', JStr skill_distiller_role), (''tool'', emit_skill_tool)]"

definition distill ::
  "planner_deps \<Rightarrow> tool_ctx \<Rightarrow> plan \<Rightarrow> execution_plan \<Rightarrow> post_verdict \<Rightarrow> raw_skill option act" where
  "distill d ctx p x v =
     thenE ensure_distiller_prompt
    (bindE (pn_build d (c_user ctx) skill_distiller_role) (\<lambda>system.
     bindE (getsE (prompt_version_id ''skill_distiller'')) (\<lambda>version.
     bindE (model_call (pn_settings d) (pn_llm d)
       \<lparr> ca_user = c_user ctx, ca_agent = ''skill_distiller'', ca_model = model_planner (pn_settings d),
         ca_messages = [user_message (build_distill_prompt p x v)], ca_system = Some system,
         ca_max_tokens = None, ca_prompt_version = version, ca_task = c_task ctx,
         ca_extra = forced_tool emit_skill_tool ''emit_skill'' \<rparr>) (\<lambda>res.
     liftE (skill_of_response (mr_raw res))))))"

definition is_reusable :: "plan \<Rightarrow> bool" where
  "is_reusable p = (length (pl_steps p) \<ge> 2 \<and>
     list_ex (\<lambda>s. st_kind s = Functional \<or> st_kind s = Subagent) (pl_steps p))"

text \<open>\<open>_record_voyage\<close>, also the end of the tool creator's \<open>_embed_description\<close>.\<close>

definition record_voyage :: "pystr \<Rightarrow> tool_ctx \<Rightarrow> embedding \<Rightarrow> unit act" where
  "record_voyage agent ctx em =
     whenE (em_tokens em > 0)
       (best_effort (record_usage (c_user ctx) agent (em_model em) (usage_of_input (em_tokens em))
          (voyage_cents (em_tokens em)) None (c_task ctx)))"

definition has_near_duplicate :: "(int \<Rightarrow> bool) \<Rightarrow> planner_deps \<Rightarrow> uuid \<Rightarrow> vector \<Rightarrow> bool act" where
  "has_near_duplicate close d user q =
     bindE (attemptE (search_skills_by_task (pn_dist d) user q 1)) (\<lambda>matches.
       ret (case matches of Inr ((s, dist) # _) \<Rightarrow> close dist | _ \<Rightarrow> False))"

definition embed_query :: "planner_deps \<Rightarrow> tool_ctx \<Rightarrow> pystr \<Rightarrow> vector option act" where
  "embed_query d ctx query =
     catchE (bindE (pn_embed d query) (\<lambda>em.
       thenE (record_voyage ''skill_distiller'' ctx em) (ret (em_vector em))))
       (\<lambda>e. ret None)"

definition embed_skill :: "planner_deps \<Rightarrow> tool_ctx \<Rightarrow> pystr \<Rightarrow> vector option act" where
  "embed_skill d ctx description =
     catchE (bindE (pn_embed d description) (\<lambda>em. case em_vector em of
         None \<Rightarrow> ret None
       | Some vec \<Rightarrow> thenE (record_voyage ''skill_distiller'' ctx em) (ret (Some vec))))
       (\<lambda>e. ret None)"

definition stored_skill :: "uuid \<Rightarrow> tool_ctx \<Rightarrow> uuid \<Rightarrow> post_verdict \<Rightarrow> raw_skill \<Rightarrow> skill" where
  "stored_skill i ctx plan_id v s =
     \<lparr> sk_id = i, sk_user_id = Some (c_user ctx), sk_name = rs_name s, sk_description = rs_description s,
       sk_ingredients = rs_ingredients s, sk_steps = rs_steps s, sk_source_plan_id = Some plan_id,
       sk_score = Some (pv_score v), sk_embedding = None, sk_created_at = 0, sk_superseded_by = None \<rparr>"

definition persist_skill ::
  "tool_ctx \<Rightarrow> uuid \<Rightarrow> post_verdict \<Rightarrow> bool \<Rightarrow> raw_skill \<Rightarrow> vector \<Rightarrow> skill option act" where
  "persist_skill ctx plan_id v emit s vec =
     bindE (attemptE (store_emitted (c_user ctx) (rs_name s) (rs_description s) vec (rs_ingredients s)
                        (rs_steps s) plan_id (Some (pv_score v)))) (\<lambda>r. case r of
       Inl e \<Rightarrow> ret None
     | Inr i \<Rightarrow> thenE (maybe_emit emit ''skill_emitted'' (rs_name s))
                  (ret (Some (stored_skill i ctx plan_id v s))))"

definition distill_new ::
  "planner_deps \<Rightarrow> tool_ctx \<Rightarrow> plan \<Rightarrow> uuid \<Rightarrow> execution_plan \<Rightarrow> post_verdict \<Rightarrow> bool \<Rightarrow> skill option act" where
  "distill_new d ctx p plan_id x v emit =
     bindE (attemptE (distill d ctx p x v)) (\<lambda>distilled. case distilled of
       Inr (Some s) \<Rightarrow>
         bindE (embed_skill d ctx (rs_description s)) (\<lambda>vec. case vec of
           None \<Rightarrow> ret None
         | Some vec \<Rightarrow> persist_skill ctx plan_id v emit s vec)
     | _ \<Rightarrow> ret None)"

definition maybe_distill_skill ::
  "(int \<Rightarrow> bool) \<Rightarrow> planner_deps \<Rightarrow> tool_ctx \<Rightarrow> plan \<Rightarrow> execution_plan \<Rightarrow> post_verdict \<Rightarrow> bool
     \<Rightarrow> skill option act" where
  "maybe_distill_skill close d ctx p x v emit =
     (if pv_score v < skill_emit_min_score (pn_settings d) \<or> \<not> is_reusable p then ret None
      else case pl_id p of
        None \<Rightarrow> ret None
      | Some plan_id \<Rightarrow>
          bindE (embed_query d ctx (pl_query p)) (\<lambda>q. case q of
            None \<Rightarrow> ret None
          | Some q \<Rightarrow>
              bindE (has_near_duplicate close d (c_user ctx) q) (\<lambda>dup.
                if dup then ret None else distill_new d ctx p plan_id x v emit)))"

text \<open>The distiller as the task service and the router call it.\<close>

definition distill_skill ::
  "(int \<Rightarrow> bool) \<Rightarrow> planner_deps \<Rightarrow> tool_ctx \<Rightarrow> plan \<Rightarrow> execution_plan \<Rightarrow> post_verdict \<Rightarrow> bool \<Rightarrow> unit act" where
  "distill_skill close d ctx p x v emit =
     bindE (maybe_distill_skill close d ctx p x v emit) (\<lambda>_. ret ())"

subsection \<open>What distilling keeps\<close>

text \<open>A step that adds one row satisfying \<open>P\<close> to a table, or none.\<close>

definition adds_one :: "(world \<Rightarrow> 'a list) \<Rightarrow> ('a \<Rightarrow> bool) \<Rightarrow> world \<Rightarrow> world \<Rightarrow> bool" where
  "adds_one f P w w' = (f w' = f w \<or> (\<exists>x. f w' = f w @ [x] \<and> P x))"

lemma adds_one_frame: "keeps (extends f 0) m \<Longrightarrow> keeps (adds_one f P) m"
  by (simp add: keeps_def adds_one_def extends_0)

lemma adds_one_bind:
  assumes m: "keeps (extends f 0) m" and g: "\<And>x. keeps (adds_one f P) (g x)"
  shows "keeps (adds_one f P) (bindE m g)"
proof (rule keepsI)
  fix w r w' assume "bindE m g w = (r, w')"
  then show "adds_one f P w w'"
  proof (cases rule: bindE_cases)
    case (exn e)
    then show ?thesis using keepsD[OF m] by (simp add: extends_0 adds_one_def)
  next
    case (val x u)
    from keepsD[OF m val(1)] keepsD[OF g val(2)] show ?thesis by (simp add: extends_0 adds_one_def)
  qed
qed

lemma adds_one_then:
  assumes m: "keeps (adds_one f P) m" and g: "\<And>x. keeps (extends f 0) (g x)"
  shows "keeps (adds_one f P) (bindE m g)"
proof (rule keepsI)
  fix w r w' assume "bindE m g w = (r, w')"
  then show "adds_one f P w w'"
  proof (cases rule: bindE_cases)
    case (exn e)
    then show ?thesis using keepsD[OF m] by (simp add: adds_one_def)
  next
    case (val x u)
    from keepsD[OF m val(1)] keepsD[OF g val(2)] show ?thesis by (simp add: extends_0 adds_one_def)
  qed
qed

lemma adds_one_attempt: "keeps (adds_one f P) m \<Longrightarrow> keeps (adds_one f P) (attemptE m)"
  by (rule keepsI) (auto simp: attemptE_def dest: keepsD split: prod.splits)

interpretation skills0: ledger_frame "extends skills 0"
  by unfold_locales (auto simp: extends_0 env_apply_frame ledger_step_def)

context agent_order
begin

lemma record_voyage_keeps: "keeps R (record_voyage agent ctx em)"
  unfolding record_voyage_def by (intro when_ effort usage)

lemma distill_keeps:
  assumes d: "agents_keep R d" shows "keeps R (distill d ctx p x v)"
  unfolding distill_def ensure_distiller_prompt_def
  by (intro andThen bind gets lift prompt call agents_keepD[OF d])

lemma embed_query_keeps: "agents_keep R d \<Longrightarrow> keeps R (embed_query d ctx s)"
  unfolding embed_query_def by (intro catch bind andThen ret record_voyage_keeps agents_keepD)

lemma embed_skill_keeps: "agents_keep R d \<Longrightarrow> keeps R (embed_skill d ctx s)"
  unfolding embed_skill_def by (intro catch bind opt andThen ret record_voyage_keeps agents_keepD)

lemma duplicate_keeps: "keeps R (has_near_duplicate close d u q)"
  unfolding has_near_duplicate_def search_skills_by_task_def by (intro bind attempt ret read)

text \<open>The whole distiller keeps the order once a stored skill does.\<close>

lemma distill_skill_keeps:
  assumes d: "agents_keep R d" and store: "\<And>u n t e i s p c. keeps R (store_emitted u n t e i s p c)"
    and out: "\<And>ev data. keeps R (maybe_emit emit ev data)"
  shows "keeps R (distill_skill close d ctx p x v emit)"
proof -
  have "keeps R (persist_skill ctx i v emit s vec)" for i s vec
    unfolding persist_skill_def by (intro bind attempt sum ret andThen store out)
  then have "keeps R (distill_new d ctx p i x v emit)" for i
    unfolding distill_new_def by (intro bind attempt sum opt ret distill_keeps embed_skill_keeps d)
  then show ?thesis
    unfolding distill_skill_def maybe_distill_skill_def
    by (intro bind if_ opt ret embed_query_keeps duplicate_keeps d)
qed

end

subsection \<open>Which skills are stored\<close>

definition distilled_from :: "planner_deps \<Rightarrow> tool_ctx \<Rightarrow> plan \<Rightarrow> post_verdict \<Rightarrow> skill \<Rightarrow> bool" where
  "distilled_from d ctx p v s =
     (skill_emit_min_score (pn_settings d) \<le> pv_score v \<and> sk_score s = Some (pv_score v) \<and>
      is_reusable p \<and> sk_user_id s = Some (c_user ctx) \<and> sk_source_plan_id s = pl_id p \<and> pl_id p \<noteq> None \<and>
      sk_embedding s \<noteq> None \<and> sk_superseded_by s = None)"

lemma persist_skill_adds:
  assumes "\<And>i at n t vec g ss. distilled_from d ctx p v
      (new_skill i at (Some (c_user ctx)) n t (Some vec) g ss (Some plan_id) (Some (pv_score v)))"
  shows "keeps (adds_one skills (distilled_from d ctx p v)) (persist_skill ctx plan_id v emit s vec)"
  unfolding persist_skill_def
proof (rule adds_one_then[OF adds_one_attempt[OF keepsI]])
  fix w r w'
  assume "store_emitted (c_user ctx) (rs_name s) (rs_description s) vec (rs_ingredients s) (rs_steps s)
      plan_id (Some (pv_score v)) w = (r, w')"
  then show "adds_one skills (distilled_from d ctx p v) w w'"
    unfolding store_emitted_def
    by (cases rule: stmt_cases) (auto simp: adds_one_def near_frame assms split: if_splits)
next
  fix x
  show "keeps (extends skills 0) (case x of Inl e \<Rightarrow> ret None
      | Inr i \<Rightarrow> thenE (maybe_emit emit ''skill_emitted'' (rs_name s)) (ret (Some (stored_skill i ctx plan_id v s))))"
    by (intro skills0.sum skills0.ret skills0.andThen skills0.emit)
qed

text \<open>C25: A skill is stored only for a plan that deserves one: whatever the model answers and whatever
  fails on the way, distilling adds at most one skill, the user's own, with an embedding, from a stored
  multi-step plan that acts, at a score that reaches the threshold.\<close>

theorem skills_from_good_plans:
  assumes "agents_keep (extends skills 0) d"
    and "maybe_distill_skill close d ctx p x v emit w = (r, w')"
  shows "skills w' = skills w \<or> (\<exists>s. skills w' = skills w @ [s] \<and> distilled_from d ctx p v s)"
proof -
  let ?S = "adds_one skills (distilled_from d ctx p v)"
  have same: "keeps ?S (ret y)" for y :: "skill option" by (intro adds_one_frame skills0.ret)
  have new: "keeps ?S (distill_new d ctx p i x v emit)"
    if "pl_id p = Some i" "skill_emit_min_score (pn_settings d) \<le> pv_score v" "is_reusable p" for i
  proof -
    have "distilled_from d ctx p v (new_skill k at (Some (c_user ctx)) n t (Some vec) g ss (Some i)
        (Some (pv_score v)))" for k at n t vec g ss
      using that by (simp add: distilled_from_def new_skill_def)
    note persist = persist_skill_adds[OF this]
    show ?thesis
      unfolding distill_new_def
      by (intro adds_one_bind[OF skills0.attempt] skills0.distill_keeps assms(1) skills0.sum)
        (auto intro!: same adds_one_bind skills0.embed_skill_keeps assms(1) persist
          split: sum.split option.split)
  qed
  have "keeps ?S (maybe_distill_skill close d ctx p x v emit)"
    unfolding maybe_distill_skill_def
    by (auto intro!: same adds_one_bind skills0.embed_query_keeps skills0.duplicate_keeps new assms(1)
        split: option.split)
  from keepsD[OF this assms(2)] show ?thesis by (simp add: adds_one_def)
qed

text \<open>Distilling without a live stream never raises.\<close>

lemma distilling_returns: "no_raise (maybe_distill_skill close d ctx p x v False)"
proof -
  have "no_raise (distill_new d ctx p i x v False)" for i
    unfolding distill_new_def embed_skill_def persist_skill_def maybe_emit_off
    by (auto intro!: no_raise_rules no_raise_attempt split: sum.split option.split)
  then show ?thesis
    unfolding maybe_distill_skill_def embed_query_def has_near_duplicate_def
    by (auto intro!: no_raise_rules no_raise_attempt split: option.split)
qed

subsection \<open>Witness\<close>

definition skill_reply :: api_response where
  "skill_reply = \<lparr> a_content = [ToolUse ''t'' ''emit_skill''
     [(''name'', JStr ''weekly_digest''), (''description'', JStr ''Collect and summarize.''),
      (''generalized_steps'', JArr [JObj [(''id'', JStr ''a'')]])]], a_stop_reason = None, a_usage = None \<rparr>"

definition learner :: planner_deps where
  "learner = (sample_planner skill_reply)\<lparr>pn_embed := (\<lambda>_. ret \<lparr> em_vector = Some [1], em_tokens = 0, em_model = [] \<rparr>)\<rparr>"

definition good_step :: "pystr \<Rightarrow> step" where
  "good_step i = \<lparr> st_id = i, st_kind = Functional, st_description = [], st_tool = JStr ''web_search'',
     st_inputs = [], st_group = JNull \<rparr>"

definition good_plan :: plan where
  "good_plan = (fallback_plan ''digest'' ''m'')\<lparr>pl_steps := [good_step ''a'', good_step ''b''], pl_id := Some (Uuid 3)\<rparr>"

definition good_verdict :: post_verdict where
  "good_verdict = \<lparr> pv_score = 95, pv_summary = [], pv_well = [], pv_wrong = [], pv_improvements = [] \<rparr>"

definition good_execution :: execution_plan where
  "good_execution = \<lparr> x_plan = good_plan, x_results = [], x_final_answer = [], x_success = True, x_error = None \<rparr>"

definition planned_world :: world where
  "planned_world = snd (plan_store (Uuid 5) None None ''digest'' None [] (empty_world\<lparr>next_id := 3\<rparr>))"

lemma learner_keeps: "agents_keep (extends skills 0) learner"
  using skills0.sample_planner_keeps[of skill_reply]
  by (simp add: agents_keep_def learner_def skills0.ret)

lemma skills_from_good_plans_witness:
  "\<exists>s. skills (snd (maybe_distill_skill (\<lambda>x. x < 1) learner sample_ctx0 good_plan good_execution good_verdict
      False planned_world)) = [s] \<and> distilled_from learner sample_ctx0 good_plan good_verdict s"
proof -
  obtain r w' where run: "maybe_distill_skill (\<lambda>x. x < 1) learner sample_ctx0 good_plan good_execution
      good_verdict False planned_world = (r, w')" by fastforce
  have "length (skills (snd (maybe_distill_skill (\<lambda>x. x < 1) learner sample_ctx0 good_plan good_execution
      good_verdict False planned_world))) = 1 \<and> skills planned_world = []" by code_simp
  then show ?thesis using skills_from_good_plans[OF learner_keeps run] run by auto
qed

end
