(* ===== verification/Tool_Proposals.thy ===== *)
theory Tool_Proposals
  imports Distiller Service_Facts
begin

section \<open>The tool creator\<close>

text \<open>
  \<open>src/wolfpaw/agents/tool_creator.py\<close>: the model proposes a tool, a close duplicate among the user's
  approved tools ends the matter, the proposal is stored, the user is asked with the full text of the
  proposal, and the answer approves or rejects it. \<open>close\<close> says which distances count as the similarity
  \<open>tool_dedup_similarity_threshold\<close> or more. A tool is dispatchable only when it is approved.
\<close>

subsection \<open>Reading a proposal\<close>

record proposed_spec =
  ps_name :: pystr
  ps_description :: pystr
  ps_schema :: dict
  ps_implementation :: pystr

text \<open>\<open>^[a-z][a-z0-9_]{1,63}$\<close> on a stripped text, which has no final newline.\<close>

definition tool_name_ok :: "pystr \<Rightarrow> bool" where
  "tool_name_ok s = (case s of [] \<Rightarrow> False
     | c # cs \<Rightarrow> is_lower c \<and> cs \<noteq> [] \<and> length cs \<le> 63 \<and>
         list_all (\<lambda>d. is_lower d \<or> is_digit d \<or> d = CHR ''_'') cs)"

definition normalize_spec :: "dict \<Rightarrow> exn + proposed_spec option" where
  "normalize_spec payload =
     (case stripped_field payload ''name'' of Inl e \<Rightarrow> Inl e
      | Inr name \<Rightarrow>
     (case stripped_field payload ''description'' of Inl e \<Rightarrow> Inl e
      | Inr description \<Rightarrow>
     (case stripped_field payload ''implementation'' of Inl e \<Rightarrow> Inl e
      | Inr implementation \<Rightarrow>
        if name = [] \<or> description = [] \<or> implementation = [] \<or> \<not> tool_name_ok name then Inr None
        else (case get_default payload ''input_schema'' JNull of
            JObj schema \<Rightarrow>
              if get_default schema ''type'' JNull = JStr ''object'' \<and>
                 is_object (get_default schema ''properties'' JNull)
              then Inr (Some \<lparr> ps_name = name, ps_description = description, ps_schema = schema,
                     ps_implementation = implementation \<rparr>)
              else Inr None
          | _ \<Rightarrow> Inr None))))"

definition spec_of_response :: "api_response \<Rightarrow> exn + proposed_spec option" where
  "spec_of_response raw =
     (case find_tool_use ''propose_tool'' (a_content raw) of
        Some payload \<Rightarrow> normalize_spec payload
      | None \<Rightarrow> Inr None)"

subsection \<open>Prompt and question\<close>

definition build_propose_prompt ::
  "pystr \<Rightarrow> json list option \<Rightarrow> pystr list \<Rightarrow> user_tool list \<Rightarrow> pystr" where
  "build_propose_prompt intent hints builtins own = lines_of
     ([''# Intent'', intent, []] @
      (case hints of
         Some (h # hs) \<Rightarrow> [''# Required inputs (hints from the Planner)''] @
           map (\<lambda>x. ''- '' @ json_str x) (h # hs) @ [[]]
       | _ \<Rightarrow> []) @
      [''# Existing builtin tools (don't duplicate)''] @ map (\<lambda>n. ''- `'' @ n @ ''`'') builtins @ [[]] @
      (if own = [] then []
       else [''# This user's approved tools (also don't duplicate)''] @
         map (\<lambda>t. ''- `'' @ ut_name t @ ''`: '' @ ut_description t) own @ [[]]) @
      [''Design a new tool that fills the intent and doesn't overlap'' @
       '' with what's listed. Call `propose_tool` now.''])"

text \<open>\<open>json.dumps(x, indent=2)\<close>.\<close>

definition indentation :: "nat \<Rightarrow> pystr" where
  "indentation n = newline # replicate (2 * n) (CHR '' '')"

fun dumps_indent :: "nat \<Rightarrow> json \<Rightarrow> pystr" where
  "dumps_indent n (JArr xs) =
     (if xs = [] then ''[]''
      else ''['' @ indentation (Suc n) @ join ('','' @ indentation (Suc n)) (map (dumps_indent (Suc n)) xs) @
           indentation n @ '']'')"
| "dumps_indent n (JObj d) =
     (if d = [] then ''{}''
      else ''{'' @ indentation (Suc n) @
           join ('','' @ indentation (Suc n))
             (map (\<lambda>(k, v). dumps (JStr k) @ '': '' @ dumps_indent (Suc n) v) d) @
           indentation n @ ''}'')"
| "dumps_indent n j = dumps j"

definition format_approval_question :: "proposed_spec \<Rightarrow> pystr" where
  "format_approval_question s = lines_of
     [''**Proposed new tool '' @ [em_dash] @ '' please review:**'', [],
      ''- **name**: `'' @ ps_name s @ ''`'', ''- **description**: '' @ ps_description s, [],
      ''**input_schema:**'', ''```json'', dumps_indent 0 (JObj (ps_schema s)), ''```'', [],
      ''**implementation (runs in your sandbox):**'', ''```python'', ps_implementation s, ''```'', [],
      ''Approve to add this tool to your toolkit; reject to skip.'']"

subsection \<open>The pipeline\<close>

datatype creation_status = Created_Approved | Created_Rejected | Created_Duplicate

fun creation_status_text :: "creation_status \<Rightarrow> pystr" where
  "creation_status_text Created_Approved = ''approved''"
| "creation_status_text Created_Rejected = ''rejected''"
| "creation_status_text Created_Duplicate = ''duplicate''"

record creation_outcome =
  tc_status :: creation_status
  tc_tool_id :: "uuid option"
  tc_name :: pystr
  tc_message :: pystr

definition outcome_to_jsonb :: "creation_outcome \<Rightarrow> dict" where
  "outcome_to_jsonb c =
     [(''status'', JStr (creation_status_text (tc_status c))),
      (''tool_id'', case tc_tool_id c of Some i \<Rightarrow> JStr (uuid_text i) | None \<Rightarrow> JNull),
      (''name'', JStr (tc_name c)), (''message'', JStr (tc_message c))]"

definition ensure_creator_prompt :: "unit act" where
  "ensure_creator_prompt = ensure_prompt_version ''tool_creator'' ''v1''
     [(''agent_role'', JStr tool_creator_role), (''tool'', propose_tool_tool)]"

definition propose :: "planner_deps \<Rightarrow> tool_ctx \<Rightarrow> pystr \<Rightarrow> json list option \<Rightarrow> proposed_spec option act" where
  "propose d ctx intent hints =
     bindE (list_approved_for_user (c_user ctx)) (\<lambda>own.
     bindE (pn_build d (c_user ctx) tool_creator_role) (\<lambda>system.
     bindE (getsE (prompt_version_id ''tool_creator'')) (\<lambda>version.
     bindE (model_call (pn_settings d) (pn_llm d)
       \<lparr> ca_user = c_user ctx, ca_agent = ''tool_creator'', ca_model = model_planner (pn_settings d),
         ca_messages = [user_message (build_propose_prompt intent hints (reg_names (pn_registry d)) own)],
         ca_system = Some system, ca_max_tokens = Some 2048, ca_prompt_version = version,
         ca_task = c_task ctx, ca_extra = forced_tool propose_tool_tool ''propose_tool'' \<rparr>) (\<lambda>res.
     liftE (spec_of_response (mr_raw res))))))"

definition embed_description :: "planner_deps \<Rightarrow> tool_ctx \<Rightarrow> pystr \<Rightarrow> vector option act" where
  "embed_description d ctx description =
     bindE (attemptE (pn_embed d description)) (\<lambda>r. case r of
       Inl e \<Rightarrow> ret None
     | Inr em \<Rightarrow> (case em_vector em of
           None \<Rightarrow> ret None
         | Some v \<Rightarrow> thenE (record_voyage ''tool_creator'' ctx em) (ret (Some v))))"

definition find_duplicate :: "(int \<Rightarrow> bool) \<Rightarrow> planner_deps \<Rightarrow> uuid \<Rightarrow> vector option \<Rightarrow> user_tool option act" where
  "find_duplicate close d user q = (case q of
     None \<Rightarrow> ret None
   | Some v \<Rightarrow>
       bindE (attemptE (search_tools_by_task (pn_dist d) user v 1)) (\<lambda>matches.
         ret (case matches of
                Inr ((t, dist) # _) \<Rightarrow> if close dist then Some t else None
              | _ \<Rightarrow> None)))"

definition YES_WORDS :: "pystr list" where
  "YES_WORDS = [''approve'', ''yes'', ''y'', ''ok'', ''confirm'']"

definition says_yes :: "dict \<Rightarrow> bool" where
  "says_yes payload = (lower (strip (json_str (get_default payload ''answer'' (JStr [])))) \<in> set YES_WORDS)"

definition approval_inputs :: "proposed_spec \<Rightarrow> dict" where
  "approval_inputs s =
     [(''question'', JStr (format_approval_question s)),
      (''options'', JArr [JStr ''approve'', JStr ''reject'']), (''urgency'', JStr ''normal'')]"

definition decide :: "tool_ctx \<Rightarrow> tool \<Rightarrow> proposed_spec \<Rightarrow> uuid \<Rightarrow> creation_outcome act" where
  "decide ctx ask s tool_id =
     bindE (tl_run ask ctx (approval_inputs s)) (\<lambda>payload.
     if says_yes payload
     then thenE (best_effort (mark_tool_approved tool_id))
       (ret \<lparr> tc_status = Created_Approved, tc_tool_id = Some tool_id, tc_name = ps_name s,
              tc_message = ''User approved the new tool `'' @ ps_name s @ ''` '' @ [em_dash] @
                '' subsequent steps can call it like any builtin.'' \<rparr>)
     else thenE (best_effort (mark_tool_rejected tool_id))
       (ret \<lparr> tc_status = Created_Rejected, tc_tool_id = Some tool_id, tc_name = ps_name s,
              tc_message = ''User rejected the proposed tool `'' @ ps_name s @ ''`.'' \<rparr>))"

definition ask_and_decide :: "planner_deps \<Rightarrow> tool_ctx \<Rightarrow> proposed_spec \<Rightarrow> uuid \<Rightarrow> creation_outcome act" where
  "ask_and_decide d ctx s tool_id =
     (case reg_get (pn_registry d) ''ask_user'' of
        Inl e \<Rightarrow> raise (ToolError (''ask_user tool not registered '' @ [em_dash] @
                  '' Tool Creator can't surface the proposal for approval''))
      | Inr ask \<Rightarrow> decide ctx ask s tool_id)"

definition persist_and_ask ::
  "planner_deps \<Rightarrow> tool_ctx \<Rightarrow> uuid option \<Rightarrow> proposed_spec \<Rightarrow> vector option \<Rightarrow> creation_outcome act" where
  "persist_and_ask d ctx plan_id s v =
     bindE (catchE (store_proposed (c_user ctx) (ps_name s) (ps_description s) v (ps_schema s)
                      (ps_implementation s) plan_id (c_task ctx))
              (\<lambda>e. raise (ToolError (''failed to persist proposed tool: '' @ exn_str e)))) (\<lambda>tool_id.
       ask_and_decide d ctx s tool_id)"

definition duplicate_outcome :: "user_tool \<Rightarrow> creation_outcome" where
  "duplicate_outcome t =
     \<lparr> tc_status = Created_Duplicate, tc_tool_id = Some (ut_id t), tc_name = ut_name t,
       tc_message = ''An existing approved tool `'' @ ut_name t @ ''` already covers this '' @ [em_dash] @
         '' use it instead of creating a new one.'' \<rparr>"

definition create_tool ::
  "(int \<Rightarrow> bool) \<Rightarrow> planner_deps \<Rightarrow> tool_ctx \<Rightarrow> pystr \<Rightarrow> json list option \<Rightarrow> uuid option \<Rightarrow> creation_outcome act" where
  "create_tool close d ctx intent hints plan_id =
     (if c_task ctx = None
      then raise (ToolError (''tool_creator requires a Task context '' @ [em_dash] @ '' the Triage Agent'' @
             '' should have routed this through the task path''))
      else if \<not> tool_creator_enabled (pn_settings d)
      then raise (ToolError (''tool_creator is disabled'' @ '' (WOLFPAW_TOOL_CREATOR_ENABLED=false)''))
      else thenE ensure_creator_prompt
     (bindE (propose d ctx intent hints) (\<lambda>spec. case spec of
        None \<Rightarrow> raise (ToolError (''Tool Creator didn't return a structured proposal'' @
                  '' (no tool_use block)''))
      | Some s \<Rightarrow>
          bindE (embed_description d ctx (ps_description s)) (\<lambda>v.
          bindE (find_duplicate close d (c_user ctx) v) (\<lambda>dup. case dup of
            Some t \<Rightarrow> ret (duplicate_outcome t)
          | None \<Rightarrow> persist_and_ask d ctx plan_id s v)))))"

text \<open>The creator as the executor calls it.\<close>

definition creator_for_executor ::
  "(int \<Rightarrow> bool) \<Rightarrow> planner_deps \<Rightarrow> tool_ctx \<Rightarrow> pystr \<Rightarrow> json list option \<Rightarrow> uuid option \<Rightarrow> dict act" where
  "creator_for_executor close d ctx intent hints plan_id =
     bindE (create_tool close d ctx intent hints plan_id) (\<lambda>c. ret (outcome_to_jsonb c))"

subsection \<open>What the creator keeps\<close>

context agent_order
begin

lemma propose_keeps: "agents_keep R d \<Longrightarrow> keeps R (propose d ctx intent hints)"
  unfolding propose_def list_approved_for_user_def
  by (intro bind gets lift read call agents_keepD)

lemma embed_description_keeps: "agents_keep R d \<Longrightarrow> keeps R (embed_description d ctx s)"
  unfolding embed_description_def
  by (intro bind attempt sum opt andThen ret record_voyage_keeps agents_keepD)

lemma find_duplicate_keeps: "keeps R (find_duplicate close d u q)"
  unfolding find_duplicate_def search_tools_by_task_def by (intro opt bind attempt ret read)

lemma creator_prompt_keeps: "keeps R ensure_creator_prompt"
  unfolding ensure_creator_prompt_def by (rule prompt)

text \<open>The whole creator keeps an order that the tool table's statements and the question keep.\<close>

lemma create_tool_keeps:
  assumes d: "agents_keep R d"
    and store: "\<And>u n t v sg im p i. keeps R (store_proposed u n t v sg im p i)"
    and mark: "\<And>i f. keeps R (mark_tool i f)"
    and ask: "\<And>ask i. reg_get (pn_registry d) ''ask_user'' = Inr ask \<Longrightarrow> keeps R (tl_run ask ctx i)"
  shows "keeps R (create_tool close d ctx intent hints plan_id)"
proof -
  have "keeps R (ask_and_decide d ctx s i)" for s i
    unfolding ask_and_decide_def decide_def mark_tool_approved_def mark_tool_rejected_def
    by (intro sum raise bind if_ andThen effort ret mark ask)
  then have "keeps R (persist_and_ask d ctx plan_id s v)" for s v
    unfolding persist_and_ask_def by (intro bind catch raise store)
  then show ?thesis
    unfolding create_tool_def
    by (intro if_ raise andThen bind opt ret creator_prompt_keeps propose_keeps embed_description_keeps
        find_duplicate_keeps d)
qed

end

subsection \<open>No tool without a yes\<close>

interpretation tools0: ledger_frame "extends user_tools 0"
  by unfold_locales (auto simp: extends_0 env_apply_frame ledger_step_def)

text \<open>\<open>agreed\<close>: the user was asked with the very text the tool has, and said yes.\<close>

definition agreed :: "planner_deps \<Rightarrow> tool_ctx \<Rightarrow> user_tool \<Rightarrow> bool" where
  "agreed d ctx t \<longleftrightarrow> (\<exists>ask s payload u u'. reg_get (pn_registry d) ''ask_user'' = Inr ask \<and>
     tl_run ask ctx (approval_inputs s) u = (Inr payload, u') \<and> says_yes payload \<and>
     ps_name s = ut_name t \<and> ps_description s = ut_description t \<and> ps_schema s = ut_signature t \<and>
     ps_implementation s = ut_implementation t)"

definition tool_earned :: "planner_deps \<Rightarrow> tool_ctx \<Rightarrow> user_tool \<Rightarrow> bool" where
  "tool_earned d ctx t \<longleftrightarrow> ut_user_id t = c_user ctx \<and> (ut_status t = Approved \<longrightarrow> agreed d ctx t)"

definition tool_ids_ok :: "world \<Rightarrow> bool" where
  "tool_ids_ok w \<longleftrightarrow> (\<forall>t\<in>set (user_tools w). uuid_nat (ut_id t) < next_id w)"

definition steady :: "(user_tool \<Rightarrow> bool) \<Rightarrow> 'a act \<Rightarrow> bool" where
  "steady P m \<longleftrightarrow> (\<forall>w. tool_ids_ok w \<longrightarrow> adds_one user_tools P w (snd (m w)))"

definition tools_frame :: "'a act \<Rightarrow> bool" where
  "tools_frame m \<longleftrightarrow> keeps sound m \<and> keeps (extends user_tools 0) m"

lemma tools_frame_run:
  assumes "tools_frame m" "tool_ids_ok w" "m w = (r, w')"
  shows "user_tools w' = user_tools w \<and> tool_ids_ok w'"
proof -
  have "sound w w'" using assms(1) keepsD[of sound m w r w'] assms(3) by (simp add: tools_frame_def)
  then have n: "next_id w \<le> next_id w'" by (simp add: sound_def)
  have t: "user_tools w' = user_tools w"
    using assms(1) keepsD[of "extends user_tools 0" m w r w'] assms(3) by (simp add: tools_frame_def extends_0)
  show ?thesis using n t assms(2) by (fastforce simp: tool_ids_ok_def)
qed

lemma steady_frame: "tools_frame m \<Longrightarrow> steady P m"
  by (simp add: steady_def adds_one_def tools_frame_def keeps_def extends_0)

lemma steady_bind:
  assumes m: "tools_frame m" and g: "\<And>x. steady P (g x)" shows "steady P (bindE m g)"
  unfolding steady_def
proof (intro allI impI)
  fix w assume w: "tool_ids_ok w"
  obtain r w' where run: "bindE m g w = (r, w')" by fastforce
  then have "adds_one user_tools P w w'"
  proof (cases rule: bindE_cases)
    case (exn e)
    then show ?thesis using tools_frame_run[OF m w] by (auto simp: adds_one_def)
  next
    case (val x u)
    from tools_frame_run[OF m w val(1)] have u: "user_tools u = user_tools w" "tool_ids_ok u" by simp_all
    then show ?thesis using g[of x] val(2) by (auto simp: steady_def adds_one_def)
  qed
  then show "adds_one user_tools P w (snd (bindE m g w))" using run by simp
qed

lemma mark_tool_last:
  assumes "mark_tool i f w = (r, w')" and "user_tools w = old @ [t]" and "\<forall>x\<in>set old. ut_id x \<noteq> i"
  shows "user_tools w' = old @ [t] \<or> (\<exists>n. proposed i t \<and> user_tools w' = old @ [f n t])"
  using assms(1) unfolding mark_tool_def
proof (cases rule: stmt_cases)
  case (run v)
  then have v: "user_tools v = old @ [t]" using assms(2) near_frame by auto
  have "sql_set (proposed i) (f (now v)) old = old"
    by (rule sql_set_ident) (use assms(3) in \<open>auto simp: proposed_def\<close>)
  then have "sql_set (proposed i) (f (now v)) (old @ [t]) = old @ [if proposed i t then f (now v) t else t]"
    by (simp add: sql_set_def)
  then show ?thesis using run(2) v by (auto split: if_splits)
next
  case (fail e)
  then show ?thesis using assms(2) near_frame by auto
qed

lemma decide_last:
  assumes frame: "tools_frame (tl_run ask ctx (approval_inputs s))"
    and ask: "reg_get (pn_registry d) ''ask_user'' = Inr ask"
    and run: "decide ctx ask s i w = (r, w')"
    and tools: "user_tools w = old @ [t]" "\<forall>x\<in>set old. ut_id x \<noteq> i"
    and t: "ut_user_id t = c_user ctx" "ut_status t = Proposed" "ut_name t = ps_name s"
      "ut_description t = ps_description s" "ut_signature t = ps_schema s" "ut_implementation t = ps_implementation s"
  shows "\<exists>t'. user_tools w' = old @ [t'] \<and> tool_earned d ctx t'"
  using run unfolding decide_def
proof (cases rule: bindE_cases)
  case (exn e)
  have "user_tools w' = old @ [t]"
    using frame keepsD[of "extends user_tools 0" _ w _ w'] exn(1) tools(1)
    by (auto simp: tools_frame_def extends_0)
  then show ?thesis using t by (auto simp: tool_earned_def)
next
  case (val payload u)
  have u: "user_tools u = old @ [t]"
    using frame keepsD[of "extends user_tools 0" _ w _ u] val(1) tools(1)
    by (auto simp: tools_frame_def extends_0)
  obtain f where f: "w' = snd (mark_tool i f u)"
    and st: "\<And>n. f n t = t\<lparr>ut_status := Rejected\<rparr> \<or>
      (f n t = t\<lparr>ut_status := Approved, ut_approved_at := Some n\<rparr> \<and> says_yes payload)"
  proof (cases "says_yes payload")
    case True
    with val(2) that[of "\<lambda>n t. t\<lparr>ut_status := Approved, ut_approved_at := Some n\<rparr>"] show thesis
      by (auto simp: mark_tool_approved_def thenE_def best_effort_def bindE_def ret_def)
  next
    case False
    with val(2) that[of "\<lambda>n t. t\<lparr>ut_status := Rejected\<rparr>"] show thesis
      by (auto simp: mark_tool_rejected_def thenE_def best_effort_def bindE_def ret_def)
  qed
  obtain q where mark: "mark_tool i f u = (q, w')" using f by (metis prod.collapse)
  have yes: "agreed d ctx t'" if "says_yes payload" "ut_name t' = ut_name t" "ut_description t' = ut_description t"
    "ut_signature t' = ut_signature t" "ut_implementation t' = ut_implementation t" for t'
    unfolding agreed_def using that t ask val(1) by metis
  from mark_tool_last[OF mark u tools(2)] consider "user_tools w' = old @ [t]" | n where "user_tools w' = old @ [f n t]"
    by blast
  then show ?thesis
  proof cases
    case 1
    then show ?thesis using t by (auto simp: tool_earned_def)
  next
    case (2 n)
    have "tool_earned d ctx (f n t)" using st[of n] t(1) yes by (auto simp: tool_earned_def)
    with 2 show ?thesis by blast
  qed
qed

lemma persist_steady:
  assumes "\<And>ask i. reg_get (pn_registry d) ''ask_user'' = Inr ask \<Longrightarrow> tools_frame (tl_run ask ctx i)"
  shows "steady (tool_earned d ctx) (persist_and_ask d ctx plan_id s v)"
  unfolding steady_def
proof (intro allI impI)
  fix w assume w: "tool_ids_ok w"
  obtain r w' where run: "persist_and_ask d ctx plan_id s v w = (r, w')" by fastforce
  let ?store = "store_proposed (c_user ctx) (ps_name s) (ps_description s) v (ps_schema s)
      (ps_implementation s) plan_id (c_task ctx)"
  have stored: "user_tools u = user_tools w \<and> (\<exists>e. q = Inl e) \<or>
      (\<exists>i t. q = Inr i \<and> user_tools u = user_tools w @ [t] \<and> ut_id t = i \<and> ut_user_id t = c_user ctx \<and>
        ut_status t = Proposed \<and> ut_name t = ps_name s \<and> ut_description t = ps_description s \<and>
        ut_signature t = ps_schema s \<and> ut_implementation t = ps_implementation s \<and>
        next_id w \<le> uuid_nat i)" if "?store w = (q, u)" for q u
    using that unfolding store_proposed_def
    by (cases rule: stmt_cases) (auto simp: near_frame split: if_splits)
  have "adds_one user_tools (tool_earned d ctx) w w'"
    using run unfolding persist_and_ask_def
  proof (cases rule: bindE_cases)
    case (exn e)
    from exn(1) show ?thesis
      by (cases rule: catchE_cases) (use stored in \<open>auto simp: adds_one_def\<close>)
  next
    case (val i u)
    from val(1) have store: "?store w = (Inr i, u)" by (cases rule: catchE_cases) auto
    then obtain t where t: "user_tools u = user_tools w @ [t]" "ut_id t = i" "ut_user_id t = c_user ctx"
      "ut_status t = Proposed" "ut_name t = ps_name s" "ut_description t = ps_description s"
      "ut_signature t = ps_schema s" "ut_implementation t = ps_implementation s" "next_id w \<le> uuid_nat i"
      using stored by blast
    have other: "\<forall>x\<in>set (user_tools w). ut_id x \<noteq> i" using w t(9) by (auto simp: tool_ids_ok_def)
    show ?thesis
    proof (cases "reg_get (pn_registry d) ''ask_user''")
      case (Inl e)
      then have "user_tools w' = user_tools w @ [t]" using val(2) t(1) by (simp add: ask_and_decide_def)
      then show ?thesis using t by (auto simp: adds_one_def tool_earned_def)
    next
      case (Inr ask)
      then have "decide ctx ask s i u = (r, w')" using val(2) by (simp add: ask_and_decide_def)
      from decide_last[OF assms[OF Inr] Inr this t(1) other t(3-8)] show ?thesis
        by (auto simp: adds_one_def)
    qed
  qed
  then show "adds_one user_tools (tool_earned d ctx) w (snd (persist_and_ask d ctx plan_id s v w))"
    using run by simp
qed

text \<open>C24: No user tool becomes callable without the user's yes to its very text: creating a tool adds at
  most one row, the user's own, and that row is approved only if the \<open>ask_user\<close> tool was asked with
  the name, the description, the schema and the implementation the row holds and answered with one of the
  words for yes. Nothing the model writes and no failure on the way changes that.\<close>

theorem no_tool_without_yes:
  assumes "tool_ids_ok w"
    and "agents_keep sound d" and "agents_keep (extends user_tools 0) d"
    and "\<And>ask i. reg_get (pn_registry d) ''ask_user'' = Inr ask \<Longrightarrow> keeps sound (tl_run ask ctx i)"
    and "\<And>ask i. reg_get (pn_registry d) ''ask_user'' = Inr ask \<Longrightarrow>
           keeps (extends user_tools 0) (tl_run ask ctx i)"
    and "create_tool close d ctx intent hints plan_id w = (r, w')"
  shows "user_tools w' = user_tools w \<or>
    (\<exists>t. user_tools w' = user_tools w @ [t] \<and> ut_user_id t = c_user ctx \<and>
      (ut_status t = Approved \<longrightarrow> agreed d ctx t))"
proof -
  let ?P = "tool_earned d ctx"
  have pure: "steady ?P (ret x)" "steady ?P (raise e)" for x :: creation_outcome and e
    by (rule steady_frame; simp add: tools_frame_def sound.ret sound.raise tools0.ret tools0.raise)+
  have asks: "tools_frame (tl_run ask ctx i)" if "reg_get (pn_registry d) ''ask_user'' = Inr ask" for ask i
    using assms(4,5)[OF that] by (simp add: tools_frame_def)
  have frames: "tools_frame ensure_creator_prompt" "tools_frame (propose d ctx intent hints)"
    "tools_frame (embed_description d ctx t)" "tools_frame (find_duplicate close d u q)" for t u q
    using assms(2,3) unfolding tools_frame_def
    by (blast intro: sound.creator_prompt_keeps tools0.creator_prompt_keeps sound.propose_keeps
        tools0.propose_keeps sound.embed_description_keeps tools0.embed_description_keeps
        sound.find_duplicate_keeps tools0.find_duplicate_keeps)+
  have dup: "steady ?P (case dup of Some t \<Rightarrow> ret (duplicate_outcome t)
      | None \<Rightarrow> persist_and_ask d ctx plan_id s v)" for dup s v
    using persist_steady[OF asks] pure by (cases dup) simp_all
  have spec: "steady ?P (case spec of None \<Rightarrow> raise e | Some s \<Rightarrow>
      bindE (embed_description d ctx (ps_description s)) (\<lambda>v.
      bindE (find_duplicate close d (c_user ctx) v) (\<lambda>dup. case dup of
        Some t \<Rightarrow> ret (duplicate_outcome t) | None \<Rightarrow> persist_and_ask d ctx plan_id s v)))" for spec e
    using pure by (cases spec) (simp_all add: steady_bind frames dup)
  have "steady ?P (create_tool close d ctx intent hints plan_id)"
    unfolding create_tool_def thenE_def using pure by (auto intro!: steady_bind frames spec)
  then show ?thesis using assms(1,6) by (fastforce simp: steady_def adds_one_def tool_earned_def)
qed

subsection \<open>Witness\<close>

definition tool_reply :: api_response where
  "tool_reply = \<lparr> a_content = [ToolUse ''t'' ''propose_tool''
     [(''name'', JStr ''count_words''), (''description'', JStr ''Counts words.''),
      (''input_schema'', JObj [(''type'', JStr ''object''), (''properties'', JObj [])]),
      (''implementation'', JStr ''result = {}'')]], a_stop_reason = None, a_usage = None \<rparr>"

definition yes_tool :: tool where
  "yes_tool = (sample_tool ''ask_user'')\<lparr>tl_run := (\<lambda>_ _. ret [(''answer'', JStr ''Approve'')])\<rparr>"

definition creator :: planner_deps where
  "creator = (sample_planner tool_reply)\<lparr>pn_registry := [(''ask_user'', yes_tool)]\<rparr>"

definition creator_ctx :: tool_ctx where
  "creator_ctx = sample_ctx0\<lparr>c_task := Some (Uuid 1)\<rparr>"

definition creator_world :: world where
  "creator_world = empty_world\<lparr>next_id := 2,
     tasks := [new_task (Uuid 1) 0 (Uuid 5) ''t'' None None None None None]\<rparr>"

lemma no_tool_without_yes_witness:
  "\<exists>t. user_tools (snd (create_tool (\<lambda>x. False) creator creator_ctx ''count'' None None creator_world)) = [t] \<and>
     ut_status t = Approved \<and> agreed creator creator_ctx t"
proof -
  obtain r w' where run: "create_tool (\<lambda>x. False) creator creator_ctx ''count'' None None creator_world = (r, w')"
    by fastforce
  have made: "map ut_status (user_tools (snd (create_tool (\<lambda>x. False) creator creator_ctx ''count'' None None
      creator_world))) = [Approved] \<and> user_tools creator_world = []" by code_simp
  have deps: "agents_keep sound creator" "agents_keep (extends user_tools 0) creator"
    using sound.sample_planner_keeps[of tool_reply] tools0.sample_planner_keeps[of tool_reply]
    by (simp_all add: agents_keep_def creator_def)
  have ask: "reg_get (pn_registry creator) ''ask_user'' = Inr ask \<Longrightarrow> ask = yes_tool" for ask
    by (simp add: creator_def reg_get_def)
  have "keeps sound (tl_run yes_tool ctx i)" "keeps (extends user_tools 0) (tl_run yes_tool ctx i)" for ctx i
    by (simp_all add: yes_tool_def sound.ret tools0.ret)
  with ask have ok: "user_tools w' = user_tools creator_world \<or> (\<exists>t. user_tools w' = user_tools creator_world @ [t] \<and>
      ut_user_id t = c_user creator_ctx \<and> (ut_status t = Approved \<longrightarrow> agreed creator creator_ctx t))"
    by (intro no_tool_without_yes[OF _ deps _ _ run]) (auto simp: tool_ids_ok_def creator_world_def empty_world_def)
  then show ?thesis using made run by auto
qed

subsection \<open>A service that learns\<close>

text \<open>
  The task service takes its skill distiller and its tool creator as parameters. Here they are the
  modelled ones, as \<open>agents/skill_distiller.py\<close> and \<open>agents/tool_creator.py\<close> provide them, on the
  service's own agents; the service then keeps the database invariant as before.
\<close>

definition learning_service :: "(int \<Rightarrow> bool) \<Rightarrow> (int \<Rightarrow> bool) \<Rightarrow> service \<Rightarrow> service" where
  "learning_service close_skill close_tool s =
     s\<lparr>sv_distill := distill_skill close_skill (sv_agents s),
       sv_exec := (sv_exec s)\<lparr>d_create_tool := creator_for_executor close_tool (sv_agents s)\<rparr>\<rparr>"

text \<open>Any order the service's statements keep and those on skills and tools keep.\<close>

context service_order
begin

lemma learning_service_keeps:
  assumes s: "service_keeps R s"
    and skill: "\<And>u n t e i s p c. keeps R (store_emitted u n t e i s p c)"
    and tool: "\<And>u n t v sg im p i. keeps R (store_proposed u n t v sg im p i)"
    and mark: "\<And>i f. keeps R (mark_tool i f)"
  shows "service_keeps R (learning_service close_skill close_tool s)"
proof -
  have distill: "keeps R (distill_skill close_skill (sv_agents s) ctx p x v em)" for ctx p x v em
    by (intro distill_skill_keeps service_keepsD(1)[OF s] skill emit)
  have make: "keeps R (creator_for_executor close_tool (sv_agents s) ctx i h p)" for ctx i h p
    unfolding creator_for_executor_def
    by (intro bind ret create_tool_keeps service_keepsD(1)[OF s] tool mark service_keepsD(4)[OF s])
  show ?thesis
    using s distill make by (simp add: service_keeps_def deps_keep_def learning_service_def)
qed

end

lemma learning_service_sound:
  "service_keeps sound s \<Longrightarrow> service_keeps sound (learning_service close_skill close_tool s)"
proof (rule sound.learning_service_keeps)
  show "keeps sound (mark_tool i f)" for i f
    unfolding mark_tool_def by (rule sound.stmt) (auto simp: keeps_def intro!: sound_frame)
qed (rule skills_sound user_tools_sound | assumption)+

lemma learning_service_quiet:
  "service_keeps quiet s \<Longrightarrow> service_keeps quiet (learning_service close_skill close_tool s)"
  by (rule quiet.learning_service_keeps)
    (auto simp: store_emitted_def store_proposed_def mark_tool_def
      intro!: quiet.stmt simp: keeps_def quiet_def Let_def)

text \<open>So a learning service too leaves every task it runs in a terminal status
  (\<open>Service_Facts.run_inner_ends\<close>), to any depth of sub-tasks.\<close>

lemmas learning_run_ends =
  run_inner_ends[OF sound.service_at_keeps[OF learning_service_sound]
    quiet.service_at_keeps[OF learning_service_quiet]]

end
