(* ===== verification/Storage.thy ===== *)
theory Storage
  imports Stores Conversation
begin

section \<open>Storage of bytes\<close>

text \<open>
  \<open>src/wolfpaw/storage/base.py\<close> and \<open>local.py\<close>. \<open>storage\<close> is the abstract class: what the workspace
  calls of a backend. \<open>LocalStorage\<close> keeps one file per user and name under its root, which is the
  component \<open>blobs\<close> of the world; every access to the disk is an interaction with the outside that may
  raise. \<open>sha256\<close> is a parameter of the backend. The pseudo-presigned URLs are in \<open>Signing\<close>; the S3
  backend only calls its client library and is any other \<open>storage\<close>.
\<close>

record storage_object =
  so_url :: pystr
  so_size :: int
  so_sha256 :: pystr

record storage =
  sg_name :: pystr
  sg_put :: "uuid \<Rightarrow> pystr \<Rightarrow> bytes \<Rightarrow> storage_object act"
  sg_get :: "uuid \<Rightarrow> pystr \<Rightarrow> bytes act"
  sg_delete :: "uuid \<Rightarrow> pystr \<Rightarrow> unit act"
  sg_exists :: "uuid \<Rightarrow> pystr \<Rightarrow> bool act"

subsection \<open>Names\<close>

definition name_char :: "char \<Rightarrow> bool" where
  "name_char c \<longleftrightarrow> is_upper c \<or> is_lower c \<or> is_digit c \<or> c \<in> {CHR ''.'', CHR ''_'', CHR ''-''}"

definition name_shape :: "pystr \<Rightarrow> bool" where
  "name_shape s = (case s of [] \<Rightarrow> False
     | c # cs \<Rightarrow> name_char c \<and> length cs \<le> 254 \<and> list_all (\<lambda>d. name_char d \<or> d = CHR '' '') cs)"

text \<open>\<open>$\<close> also matches before a final newline.\<close>

definition valid_filename :: "pystr \<Rightarrow> bool" where
  "valid_filename s \<longleftrightarrow> name_shape s \<or> (s \<noteq> [] \<and> last s = newline \<and> name_shape (butlast s))"

definition validate_filename :: "pystr \<Rightarrow> exn + pystr" where
  "validate_filename s =
     (if s = [] \<or> s = ''.'' \<or> s = ''..'' then Inl (ValueError ''filename is empty or reserved'')
      else if CHR ''/'' \<in> set s \<or> backslash \<in> set s \<or> CHR 0x00 \<in> set s
      then Inl (ValueError ''filename must not contain path separators or NUL'')
      else if \<not> valid_filename s then Inl (ValueError ''filename contains disallowed characters'')
      else Inr s)"

subsection \<open>The local backend\<close>

definition local_put :: "(bytes \<Rightarrow> pystr) \<Rightarrow> uuid \<Rightarrow> pystr \<Rightarrow> bytes \<Rightarrow> storage_object act" where
  "local_put sha user filename data =
     bindE (liftE (validate_filename filename)) (\<lambda>_.
     stmt (\<lambda>w. (Inr \<lparr> so_url = ''local://'' @ uuid_hex user @ ''/'' @ filename,
                       so_size = int (length data), so_sha256 = sha data \<rparr>,
                w\<lparr>blobs := AList.update (user, filename) data (blobs w)\<rparr>)))"

definition local_get :: "uuid \<Rightarrow> pystr \<Rightarrow> bytes act" where
  "local_get user filename =
     bindE (liftE (validate_filename filename)) (\<lambda>_.
     bindE (stmt (getsE (\<lambda>w. map_of (blobs w) (user, filename)))) (\<lambda>found. case found of
       None \<Rightarrow> raise (FileNotFoundError filename)
     | Some data \<Rightarrow> ret data))"

definition local_delete :: "uuid \<Rightarrow> pystr \<Rightarrow> unit act" where
  "local_delete user filename =
     bindE (liftE (validate_filename filename)) (\<lambda>_.
     stmt (modifyE (\<lambda>w. w\<lparr>blobs := AList.delete (user, filename) (blobs w)\<rparr>)))"

definition local_exists :: "uuid \<Rightarrow> pystr \<Rightarrow> bool act" where
  "local_exists user filename =
     bindE (liftE (validate_filename filename)) (\<lambda>_.
     stmt (getsE (\<lambda>w. map_of (blobs w) (user, filename) \<noteq> None)))"

definition local_storage :: "(bytes \<Rightarrow> pystr) \<Rightarrow> storage" where
  "local_storage sha = \<lparr> sg_name = ''local'', sg_put = local_put sha, sg_get = local_get,
     sg_delete = local_delete, sg_exists = local_exists \<rparr>"

text \<open>A name with a separator never reaches the disk: no file of another user can be named.\<close>

lemma validate_filename_ok:
  assumes "validate_filename s = Inr t"
  shows "t = s" "CHR ''/'' \<notin> set s" "s \<noteq> ''..''" "s \<noteq> []"
  using assms by (auto simp: validate_filename_def split: if_splits)

subsection \<open>What a client of a storage may rely on\<close>

text \<open>
  The contract of the abstract class: without failures, what was put is what is found until the next
  put of that name, of the size that was reported, and storing bytes does not touch the tables. A
  storage only has to hold this for the names it accepts.
\<close>

locale storage_contract =
  fixes put :: "uuid \<Rightarrow> pystr \<Rightarrow> bytes \<Rightarrow> storage_object act"
    and get :: "uuid \<Rightarrow> pystr \<Rightarrow> bytes act"
    and accepts :: "pystr \<Rightarrow> bool"
  assumes put_ok: "script w = [] \<Longrightarrow> accepts f \<Longrightarrow>
      \<exists>obj b. put u f d w = (Inr obj, w\<lparr>blobs := b\<rparr>) \<and> so_size obj = int (length d)"
    and refused: "\<not> accepts f \<Longrightarrow> \<exists>e. put u f d w = (Inl (ValueError e), w)"
    and get_put: "script w = [] \<Longrightarrow> put u f d w = (Inr obj, w1) \<Longrightarrow> blobs v = blobs w1 \<Longrightarrow> script v = [] \<Longrightarrow>
      get u f v = (Inr d, v)"
begin

lemma stored:
  assumes "script w = []" and "put u f d w = (Inr obj, w1)"
  obtains b where "w1 = w\<lparr>blobs := b\<rparr>" "so_size obj = int (length d)"
proof -
  have "accepts f" using refused[of f u d w] assms(2) by auto
  from put_ok[OF assms(1) this, of u d] assms(2) show ?thesis using that by auto
qed

end

definition accepted :: "pystr \<Rightarrow> bool" where
  "accepted s \<longleftrightarrow> (case validate_filename s of Inl e \<Rightarrow> False | Inr t \<Rightarrow> True)"

lemma refused_is_value_error: "validate_filename s = Inl e \<Longrightarrow> \<exists>m. e = ValueError m"
  by (auto simp: validate_filename_def split: if_splits)

lemma local_put_run:
  "script w = [] \<Longrightarrow> validate_filename f = Inr t \<Longrightarrow> local_put sha u f d w =
     (Inr \<lparr> so_url = ''local://'' @ uuid_hex u @ ''/'' @ f, so_size = int (length d), so_sha256 = sha d \<rparr>,
      w\<lparr>blobs := AList.update (u, f) d (blobs w)\<rparr>)"
  by (simp add: local_put_def bindE_def liftE_def ret_def)

interpretation disk: storage_contract "local_put sha" local_get accepted
proof unfold_locales
  fix w w1 v :: world and f u d obj
  show "\<exists>obj b. local_put sha u f d w = (Inr obj, w\<lparr>blobs := b\<rparr>) \<and> so_size obj = int (length d)"
    if w: "script w = []" and ok: "accepted f"
  proof -
    obtain t where "validate_filename f = Inr t" using ok by (auto simp: accepted_def split: sum.splits)
    from local_put_run[OF w this] show ?thesis by (metis storage_object.select_convs(2))
  qed
  show "\<not> accepted f \<Longrightarrow> \<exists>e. local_put sha u f d w = (Inl (ValueError e), w)"
    by (cases "validate_filename f")
      (auto simp: local_put_def accepted_def bindE_def liftE_def dest: refused_is_value_error)
  assume w: "script w = []" and put: "local_put sha u f d w = (Inr obj, w1)" and v: "blobs v = blobs w1" "script v = []"
  then have "validate_filename f = Inr f" and "blobs w1 = AList.update (u, f) d (blobs w)"
    using validate_filename_ok(1)[of f]
    by (cases "validate_filename f"; auto simp: local_put_def bindE_def liftE_def)+
  then have "validate_filename f = Inr f" "map_of (blobs v) (u, f) = Some d"
    using v(1) by (simp_all add: update_conv)
  then show "local_get u f v = (Inr d, v)"
    using v(2) by (simp add: local_get_def bindE_def liftE_def ret_def)
qed

end
