(* ===== verification/Json_Reader.thy ===== *)
theory Json_Reader
  imports Bytes
begin

section \<open>Reading JSON\<close>

text \<open>
  \<open>json.loads\<close> of the standard library, as the tools on the sandbox and the signed tokens use it: the
  whole grammar, with escapes, surrogate pairs, numbers with fraction and exponent, and the last of
  repeated keys. The three extensions \<open>NaN\<close>, \<open>Infinity\<close> and \<open>-Infinity\<close> have no \<open>json\<close> value and
  are refused here. The reader is a recursive descent with the length of the text as fuel; what
  \<open>json.dumps\<close> wrote, with or without blanks after the separators, is read back.
\<close>

subsection \<open>Strings\<close>

definition simple_escape :: "char \<Rightarrow> char option" where
  "simple_escape e = map_of
     [(dquote, dquote), (backslash, backslash), (CHR ''/'', CHR ''/''), (CHR ''b'', CHR 0x08),
      (CHR ''f'', CHR 0x0C), (CHR ''n'', newline), (CHR ''r'', CHR 0x0D), (CHR ''t'', CHR 0x09)] e"

definition hex4 :: "pystr \<Rightarrow> nat option" where
  "hex4 s = (if length s < 4 then None else hex_number 0 (take 4 s))"

text \<open>The low half of a surrogate pair, when the text goes on with one.\<close>

definition low_surrogate :: "nat \<Rightarrow> pystr \<Rightarrow> nat option" where
  "low_surrogate n s =
     (if 0xD800 \<le> n \<and> n < 0xDC00 \<and> starts_with [backslash, CHR ''u''] s
      then (case hex4 (drop 2 s) of
              Some m \<Rightarrow> if 0xDC00 \<le> m \<and> m < 0xE000
                then Some (0x10000 + (n - 0xD800) * 1024 + (m - 0xDC00)) else None
            | None \<Rightarrow> None)
      else None)"

definition cons_char :: "char \<Rightarrow> (pystr \<times> pystr) option \<Rightarrow> (pystr \<times> pystr) option" where
  "cons_char c = map_option (\<lambda>(s, rest). (c # s, rest))"

function json_string :: "pystr \<Rightarrow> (pystr \<times> pystr) option" where
  "json_string [] = None"
| "json_string (c # s) =
     (if c = dquote then Some ([], s)
      else if c \<noteq> backslash then (if code c < 32 then None else cons_char c (json_string s))
      else case s of
          [] \<Rightarrow> None
        | e # t \<Rightarrow>
            if e = CHR ''u''
            then (case hex4 t of
                None \<Rightarrow> None
              | Some n \<Rightarrow> (case low_surrogate n (drop 4 t) of
                    Some p \<Rightarrow> cons_char (char_of_point p) (json_string (drop 10 t))
                  | None \<Rightarrow> cons_char (char_of_point n) (json_string (drop 4 t))))
            else (case simple_escape e of None \<Rightarrow> None | Some x \<Rightarrow> cons_char x (json_string t)))"
  by pat_completeness auto
termination
  by (relation "measure length") auto

declare json_string.simps(2) [simp del]

subsection \<open>Numbers\<close>

fun normal_float :: "int \<Rightarrow> nat \<Rightarrow> json" where
  "normal_float m 0 = JFloat m 0"
| "normal_float m (Suc k) =
     (if m mod 10 = 0 then normal_float (m div 10) k else JFloat m (Suc k))"

definition scaled :: "int \<Rightarrow> int \<Rightarrow> json" where
  "scaled m e = (if e < 0 then normal_float m (nat (- e)) else JFloat (m * 10 ^ nat e) 0)"

text \<open>The digits of \<open>0|[1-9][0-9]*\<close>, of \<open>\.[0-9]+\<close> and of \<open>[eE][-+]?[0-9]+\<close> at the head of a text.\<close>

definition int_digits :: "pystr \<Rightarrow> pystr" where
  "int_digits s = (let ds = takeWhile is_digit s in
     if ds \<noteq> [] \<and> hd ds = CHR ''0'' then [CHR ''0''] else ds)"

definition frac_digits :: "pystr \<Rightarrow> pystr" where
  "frac_digits s = (case s of c # t \<Rightarrow> if c = CHR ''.'' then takeWhile is_digit t else [] | [] \<Rightarrow> [])"

definition exponent :: "pystr \<Rightarrow> (int \<times> pystr) option" where
  "exponent s = (case s of
       c # t \<Rightarrow>
         if c = CHR ''e'' \<or> c = CHR ''E''
         then (let neg = starts_with ''-'' t;
                   u = (if neg \<or> starts_with ''+'' t then drop 1 t else t);
                   ds = takeWhile is_digit u; n = int (nat_of_digits 0 ds)
               in if ds = [] then None else Some (if neg then - n else n, drop (length ds) u))
         else None
     | [] \<Rightarrow> None)"

definition json_number :: "pystr \<Rightarrow> (json \<times> pystr) option" where
  "json_number s0 =
     (let neg = starts_with ''-'' s0; s = (if neg then drop 1 s0 else s0); ds = int_digits s in
      if ds = [] then None
      else let t = drop (length ds) s; fs = frac_digits t;
               u = (if fs = [] then t else drop (Suc (length fs)) t);
               m = int (nat_of_digits 0 (ds @ fs)); v = (if neg then - m else m)
           in case exponent u of
                Some (e, r) \<Rightarrow> Some (scaled v (e - int (length fs)), r)
              | None \<Rightarrow> Some (if fs = [] then JInt v else scaled v (- int (length fs)), u))"

subsection \<open>Values\<close>

definition json_space :: "char \<Rightarrow> bool" where
  "json_space c \<longleftrightarrow> c = CHR '' '' \<or> c = CHR 0x09 \<or> c = newline \<or> c = CHR 0x0D"

definition skip_space :: "pystr \<Rightarrow> pystr" where
  "skip_space s = dropWhile json_space s"

definition literal :: "pystr \<Rightarrow> (json \<times> pystr) option" where
  "literal s =
     (if starts_with ''null'' s then Some (JNull, drop 4 s)
      else if starts_with ''true'' s then Some (JBool True, drop 4 s)
      else if starts_with ''false'' s then Some (JBool False, drop 5 s)
      else json_number s)"

definition of_pairs :: "dict \<Rightarrow> dict" where
  "of_pairs kvs = dict_union [] kvs"

definition open_brace :: char where "open_brace = CHR 0x7B"
definition close_brace :: char where "close_brace = CHR 0x7D"
definition open_bracket :: char where "open_bracket = CHR 0x5B"
definition close_bracket :: char where "close_bracket = CHR 0x5D"

fun json_value :: "nat \<Rightarrow> pystr \<Rightarrow> (json \<times> pystr) option"
and json_items :: "nat \<Rightarrow> pystr \<Rightarrow> (json list \<times> pystr) option"
and json_members :: "nat \<Rightarrow> pystr \<Rightarrow> (dict \<times> pystr) option" where
  "json_value 0 s = None"
| "json_value (Suc n) s =
     (case s of
        [] \<Rightarrow> None
      | c # t \<Rightarrow>
          if c = dquote then map_option (\<lambda>(x, r). (JStr x, r)) (json_string t)
          else if c = open_bracket
          then (if starts_with [close_bracket] (skip_space t) then Some (JArr [], drop 1 (skip_space t))
                else map_option (\<lambda>(xs, r). (JArr xs, r)) (json_items n (skip_space t)))
          else if c = open_brace
          then (if starts_with [close_brace] (skip_space t) then Some (JObj [], drop 1 (skip_space t))
                else map_option (\<lambda>(kvs, r). (JObj (of_pairs kvs), r)) (json_members n (skip_space t)))
          else literal s)"
| "json_items 0 s = None"
| "json_items (Suc n) s =
     (case json_value n s of
        None \<Rightarrow> None
      | Some (x, r) \<Rightarrow> (case skip_space r of
            c # t \<Rightarrow>
              if c = close_bracket then Some ([x], t)
              else if c = CHR '',''
              then map_option (\<lambda>(xs, z). (x # xs, z)) (json_items n (skip_space t))
              else None
          | [] \<Rightarrow> None))"
| "json_members 0 s = None"
| "json_members (Suc n) s =
     (if \<not> starts_with [dquote] s then None
      else case json_string (drop 1 s) of
        None \<Rightarrow> None
      | Some (k, u) \<Rightarrow>
          if \<not> starts_with '':'' (skip_space u) then None
          else (case json_value n (skip_space (drop 1 (skip_space u))) of
              None \<Rightarrow> None
            | Some (x, r) \<Rightarrow> (case skip_space r of
                  c # t \<Rightarrow>
                    if c = close_brace then Some ([(k, x)], t)
                    else if c = CHR '',''
                    then map_option (\<lambda>(kvs, z). ((k, x) # kvs, z)) (json_members n (skip_space t))
                    else None
                | [] \<Rightarrow> None)))"

definition loads :: "pystr \<Rightarrow> json option" where
  "loads s = (case json_value (Suc (length s)) (skip_space s) of
       Some (j, r) \<Rightarrow> if skip_space r = [] then Some j else None
     | None \<Rightarrow> None)"

subsection \<open>Writing with either separator\<close>

text \<open>\<open>sp\<close> is the blank after a separator: one space by default, none for \<open>separators=(",", ":")\<close>.\<close>

fun dumps_by :: "pystr \<Rightarrow> json \<Rightarrow> pystr" where
  "dumps_by sp JNull = ''null''"
| "dumps_by sp (JBool b) = (if b then ''true'' else ''false'')"
| "dumps_by sp (JInt i) = show_int i"
| "dumps_by sp (JFloat m k) = show_float m k"
| "dumps_by sp (JStr s) = dumps_str s"
| "dumps_by sp (JArr xs) = ''['' @ join ('','' @ sp) (map (dumps_by sp) xs) @ '']''"
| "dumps_by sp (JObj d) =
     ''{'' @ join ('','' @ sp) (map (\<lambda>(k, v). dumps_str k @ '':'' @ sp @ dumps_by sp v) d) @ ''}''"

definition dumps_compact :: "json \<Rightarrow> pystr" where
  "dumps_compact j = dumps_by [] j"

lemma dumps_by_space: "dumps_by '' '' j = dumps j"
proof (induction j)
  case (JArr xs)
  then show ?case by (simp cong: map_cong)
next
  case (JObj d)
  then have "join '', '' (map (\<lambda>(k, v). dumps_str k @ '':'' @ '' '' @ dumps_by '' '' v) d) =
      join '', '' (map (\<lambda>(k, v). dumps_str k @ '': '' @ dumps v) d)"
    by (intro arg_cong[where f = "join '', ''"] map_cong refl) (force simp: snds.simps)
  then show ?case by simp
qed simp_all

subsection \<open>The round trip\<close>

lemma unicode_point_small: "unicode_point c < 65536"
proof -
  have "\<forall>n\<in>set cp1252_high. n < 65536" by (simp add: cp1252_high_def)
  moreover have "code c < 256" by (simp add: code_def)
  ultimately show ?thesis
    using cp1252_high_facts(1) by (auto simp: unicode_point_def Let_def dest: nth_mem)
qed

lemma json_string_dumps_char: "json_string (dumps_char c @ t) = cons_char c (json_string t)"
proof -
  consider "c = dquote \<or> c = backslash" | "c = newline" | "c = CHR 0x0D" | "c = CHR 0x09" | "c = CHR 0x0C"
    | "c = CHR 0x08" | (plain) "c \<noteq> dquote" "c \<noteq> backslash" "c \<noteq> newline" "c \<noteq> CHR 0x0D" "c \<noteq> CHR 0x09"
        "c \<noteq> CHR 0x0C" "c \<noteq> CHR 0x08" "32 \<le> code c \<and> code c \<le> 126"
    | (escaped) "c \<noteq> dquote" "c \<noteq> backslash" "c \<noteq> newline" "c \<noteq> CHR 0x0D" "c \<noteq> CHR 0x09"
        "c \<noteq> CHR 0x0C" "c \<noteq> CHR 0x08" "\<not> (32 \<le> code c \<and> code c \<le> 126)" by blast
  then show ?thesis
  proof cases
    case plain
    then show ?thesis by (simp add: dumps_char_def json_string.simps(2))
  next
    case escaped
    let ?n = "unicode_point c"
    have "hex_number 0 (hex_digits 4 ?n) = Some ?n"
      by (rule hex_number_digits) (use unicode_point_small[of c] in simp)
    then have "hex4 (hex_digits 4 ?n @ t) = Some ?n" by (simp add: hex4_def)
    moreover have "low_surrogate ?n u = None" for u
      using char_points(2)[of c] by (auto simp: low_surrogate_def scalar_def)
    ultimately show ?thesis
      using escaped by (simp add: dumps_char_def json_string.simps(2) backslash_def dquote_def)
  qed (auto simp: dumps_char_def json_string.simps(2) simple_escape_def dquote_def backslash_def newline_def)
qed

lemma json_string_dumps: "json_string (concat (map dumps_char s) @ dquote # rest) = Some (s, rest)"
  by (induction s) (simp_all add: json_string.simps(2) json_string_dumps_char cons_char_def)

lemma show_nat_hd: "0 < n \<Longrightarrow> hd (show_nat n) \<noteq> CHR ''0''"
proof (induction n rule: show_nat.induct)
  case (1 n)
  show ?case
  proof (cases "n < 10")
    case True
    then have "code (digit_char n) \<noteq> code (CHR ''0'')" using 1 by (simp add: code_digit_char) (simp add: code_def)
    then show ?thesis using True by (subst show_nat.simps) auto
  next
    case False
    then have "hd (show_nat (n div 10)) \<noteq> CHR ''0''" using 1 by simp
    then show ?thesis using False by (subst show_nat.simps) simp
  qed
qed

text \<open>What may follow a value: nothing that prolongs a number.\<close>

definition value_ends :: "pystr \<Rightarrow> bool" where
  "value_ends r \<longleftrightarrow> (case r of [] \<Rightarrow> True | c # _ \<Rightarrow> \<not> is_digit c \<and> c \<noteq> CHR ''.'' \<and> c \<noteq> CHR ''e'' \<and> c \<noteq> CHR ''E'')"

lemma digit_zero: "digit_char 0 = CHR ''0''" by code_simp

lemma int_digits_show:
  assumes "value_ends r" shows "int_digits (show_nat n @ r) = show_nat n"
proof -
  have "takeWhile is_digit r = []" using assms by (cases r) (auto simp: value_ends_def)
  then have "takeWhile is_digit (show_nat n @ r) = show_nat n"
    using show_nat_digits[of n] by (simp add: takeWhile_append2)
  moreover have "show_nat 0 = ''0''" by (subst show_nat.simps) (simp add: digit_zero)
  ultimately show ?thesis
    using show_nat_hd[of n] by (cases "n = 0") (auto simp: int_digits_def Let_def)
qed

lemma show_nat_head: "\<exists>c t. show_nat n = c # t \<and> is_digit c"
  using show_nat_digits[of n] by (cases "show_nat n") auto

lemma json_number_show:
  assumes "value_ends r" shows "json_number (show_int i @ r) = Some (JInt i, r)"
proof -
  have tail: "frac_digits r = []" "exponent r = None"
    using assms by (auto simp: value_ends_def frac_digits_def exponent_def split: list.splits)
  have digits: "\<not> starts_with ''-'' (show_nat n @ r)" for n
  proof -
    obtain c t where ct: "show_nat n = c # t" "is_digit c" using show_nat_head by blast
    then have "c \<noteq> CHR ''-''" by (auto simp: is_digit_def code_def)
    then show ?thesis using ct(1) by (simp add: starts_with_def)
  qed
  have pos: "json_number (show_nat n @ r) = Some (JInt (int n), r)" for n
    using digits[of n] tail by (simp add: json_number_def Let_def int_digits_show[OF assms] nat_of_digits_show)
  have minus: "starts_with ''-'' (CHR ''-'' # t)" for t by (simp add: starts_with_def)
  have neg: "json_number (CHR ''-'' # show_nat n @ r) = Some (JInt (- int n), r)" for n
    using minus tail by (simp add: json_number_def Let_def int_digits_show[OF assms] nat_of_digits_show)
  show ?thesis
  proof (cases "i < 0")
    case True
    then show ?thesis using neg[of "nat (- i)"] by (simp add: show_int_def)
  next
    case False
    then show ?thesis using pos[of "nat i"] by (simp add: show_int_def)
  qed
qed

lemma digit_literal:
  assumes "is_digit c \<or> c = CHR ''-''" shows "literal (c # t) = json_number (c # t)"
  using assms by (auto simp: literal_def starts_with_def is_digit_def code_def)

lemma literal_show:
  assumes "value_ends r" shows "literal (show_int i @ r) = Some (JInt i, r)"
proof -
  obtain c t where "show_int i = c # t" "is_digit c \<or> c = CHR ''-''"
    using show_nat_head[of "nat i"] by (cases "i < 0") (auto simp: show_int_def)
  then show ?thesis using json_number_show[OF assms, of i] digit_literal[of c "t @ r"] by simp
qed

text \<open>The values \<open>dumps\<close> keeps apart: no floats, whose digits may be rounded, and no repeated keys.\<close>

fun json_plain :: "json \<Rightarrow> bool" where
  "json_plain (JFloat m k) = False"
| "json_plain (JArr xs) = list_all json_plain xs"
| "json_plain (JObj d) = (distinct (map fst d) \<and> list_all (\<lambda>(k, v). json_plain v) d)"
| "json_plain _ = True"

lemma dict_set_new: "k \<notin> fst ` set d \<Longrightarrow> dict_set k v d = d @ [(k, v)]"
  by (induction d) auto

lemma dict_union_new: "distinct (map fst (d @ e)) \<Longrightarrow> dict_union d e = d @ e"
proof (induction e arbitrary: d)
  case (Cons kv e)
  obtain k v where kv: "kv = (k, v)" by (cases kv)
  have "dict_union d (kv # e) = dict_union (dict_set k v d) e" by (simp add: dict_union_def kv)
  also have "dict_set k v d = d @ [kv]" using Cons.prems by (intro trans[OF dict_set_new]) (auto simp: kv)
  finally show ?case using Cons.IH[of "d @ [kv]"] Cons.prems by simp
qed (simp add: dict_union_def)

lemma of_pairs_distinct: "distinct (map fst kvs) \<Longrightarrow> of_pairs kvs = kvs"
  using dict_union_new[of "[]" kvs] by (simp add: of_pairs_def)

text \<open>How a value starts: with no blank and no closing bracket.\<close>

definition value_head :: "char \<Rightarrow> bool" where
  "value_head c \<longleftrightarrow> \<not> json_space c \<and> c \<noteq> close_bracket"

lemma dumps_by_head: "\<exists>c t. dumps_by sp j = c # t \<and> value_head c"
proof (cases j)
  case (JInt i)
  obtain c t where "show_nat (nat i) = c # t" "is_digit c" using show_nat_head by blast
  then show ?thesis
    by (cases "i < 0") (auto simp: JInt show_int_def value_head_def json_space_def close_bracket_def
        newline_def is_digit_def code_def)
next
  case (JFloat m k)
  obtain c t where "show_nat (nat \<bar>m\<bar> div 10 ^ k) = c # t" "is_digit c" using show_nat_head by blast
  then show ?thesis
    by (auto simp: JFloat show_float_def Let_def value_head_def json_space_def close_bracket_def
        newline_def is_digit_def code_def)
qed (auto simp: value_head_def json_space_def close_bracket_def newline_def dumps_str_def dquote_def)

lemma skip_space_id: "\<not> json_space c \<Longrightarrow> skip_space (c # t) = c # t"
  by (simp add: skip_space_def)

lemma skip_value: "skip_space (dumps_by sp j @ r) = dumps_by sp j @ r"
  using dumps_by_head[of sp j] by (auto simp: value_head_def skip_space_id)

lemma skip_blanks: "list_all json_space sp \<Longrightarrow> skip_space (sp @ s) = skip_space s"
  by (induction sp) (auto simp: skip_space_def)

lemma not_bracket: "\<not> starts_with [close_bracket] (dumps_by sp j @ r)"
  using dumps_by_head[of sp j] by (auto simp: value_head_def starts_with_def)

lemma ends_by_bracket [simp]:
  "value_ends []" "value_ends (close_bracket # r)" "value_ends (close_brace # r)" "value_ends (CHR '','' # r)"
  by (simp_all add: value_ends_def is_digit_def code_def close_bracket_def close_brace_def)

lemma skip_closing [simp]:
  "skip_space (close_bracket # r) = close_bracket # r" "skip_space (close_brace # r) = close_brace # r"
  "skip_space (CHR '','' # r) = CHR '','' # r" "skip_space (CHR '':'' # r) = CHR '':'' # r"
  "skip_space (dquote # r) = dquote # r"
  by (simp_all add: skip_space_id json_space_def close_bracket_def close_brace_def newline_def dquote_def)

lemma comma_open [simp]: "CHR '','' \<noteq> close_bracket" "CHR '','' \<noteq> close_brace"
  by (simp_all add: close_bracket_def close_brace_def)

lemma join_Cons: "ss \<noteq> [] \<Longrightarrow> join sep (s # ss) = s @ sep @ join sep ss"
  by (cases ss) simp_all

text \<open>\<open>reads_back sp x\<close>: with enough fuel the value is read, whatever ends it.\<close>

definition reads_back :: "pystr \<Rightarrow> json \<Rightarrow> bool" where
  "reads_back sp x \<longleftrightarrow> (\<forall>F r. length (dumps_by sp x) < F \<longrightarrow> value_ends r \<longrightarrow>
     json_value F (dumps_by sp x @ r) = Some (x, r))"

lemma reads_backD:
  "reads_back sp x \<Longrightarrow> length (dumps_by sp x) < F \<Longrightarrow> value_ends r \<Longrightarrow>
     json_value F (dumps_by sp x @ r) = Some (x, r)"
  by (simp add: reads_back_def)

lemma items_read:
  assumes sp: "list_all json_space sp"
  shows "xs \<noteq> [] \<Longrightarrow> \<forall>x\<in>set xs. reads_back sp x \<Longrightarrow>
    Suc (length (join ('','' @ sp) (map (dumps_by sp) xs))) < F \<Longrightarrow>
    json_items F (join ('','' @ sp) (map (dumps_by sp) xs) @ close_bracket # r) = Some (xs, r)"
proof (induction xs arbitrary: F rule: list_nonempty_induct)
  case (single x)
  then obtain G where "F = Suc G" by (cases F) auto
  with single show ?case by (simp add: reads_backD)
next
  case (cons x xs)
  then obtain G where G: "F = Suc G" by (cases F) auto
  let ?rest = "join ('','' @ sp) (map (dumps_by sp) xs) @ close_bracket # r"
  have "\<exists>j u. ?rest = dumps_by sp j @ u"
    using cons.hyps by (cases xs rule: list.exhaust; cases "tl xs") (auto simp: join_Cons)
  then have "skip_space ?rest = ?rest" using skip_value by metis
  then have skip: "skip_space (sp @ ?rest) = ?rest" using skip_blanks[OF sp] by simp
  have x: "json_value G (dumps_by sp x @ CHR '','' # sp @ ?rest) = Some (x, CHR '','' # sp @ ?rest)"
    using cons.prems G cons.hyps by (intro reads_backD) (auto simp: join_Cons)
  have "json_items G ?rest = Some (xs, r)"
    using cons.prems G cons.hyps dumps_by_head[of sp x] by (intro cons.IH) (auto simp: join_Cons)
  with x skip G cons.hyps show ?case by (simp add: join_Cons)
qed

lemma string_read: "json_string (drop 1 (dumps_str k) @ r) = Some (k, r)"
  using json_string_dumps[of k r] by (simp add: dumps_str_def)

lemma members_read:
  assumes sp: "list_all json_space sp"
  defines "member \<equiv> \<lambda>(k, v). dumps_str k @ '':'' @ sp @ dumps_by sp v"
  shows "kvs \<noteq> [] \<Longrightarrow> \<forall>(k, x)\<in>set kvs. reads_back sp x \<Longrightarrow>
    Suc (length (join ('','' @ sp) (map member kvs))) < F \<Longrightarrow>
    json_members F (join ('','' @ sp) (map member kvs) @ close_brace # r) = Some (kvs, r)"
proof (induction kvs arbitrary: F rule: list_nonempty_induct)
  case (single kv)
  obtain k x where kv: "kv = (k, x)" by (cases kv)
  obtain G where G: "F = Suc G" using single by (cases F) auto
  have "skip_space (sp @ dumps_by sp x @ u) = dumps_by sp x @ u" for u
    using skip_blanks[OF sp] skip_value by simp
  moreover have "json_value G (dumps_by sp x @ close_brace # r) = Some (x, close_brace # r)"
    using single kv G by (intro reads_backD) (auto simp: member_def)
  ultimately show ?case
    using json_string_dumps[of k "CHR '':'' # sp @ dumps_by sp x @ close_brace # r"]
    by (simp add: kv member_def G dumps_str_def starts_with_def)
next
  case (cons kv kvs)
  obtain k x where kv: "kv = (k, x)" by (cases kv)
  obtain G where G: "F = Suc G" using cons by (cases F) auto
  let ?rest = "join ('','' @ sp) (map member kvs) @ close_brace # r"
  have "\<exists>u. ?rest = dquote # u"
    using cons.hyps by (cases kvs; cases "tl kvs") (auto simp: join_Cons member_def dumps_str_def)
  then have skip: "skip_space (sp @ ?rest) = ?rest" using skip_blanks[OF sp] by auto
  have val: "skip_space (sp @ dumps_by sp x @ u) = dumps_by sp x @ u" for u
    using skip_blanks[OF sp] skip_value by simp
  have x: "json_value G (dumps_by sp x @ CHR '','' # sp @ ?rest) = Some (x, CHR '','' # sp @ ?rest)"
    using cons.prems G cons.hyps kv by (intro reads_backD) (auto simp: join_Cons member_def)
  have "json_members G ?rest = Some (kvs, r)"
    using cons.prems G cons.hyps by (intro cons.IH) (auto simp: join_Cons member_def kv dumps_str_def)
  with x skip val G cons.hyps show ?case
    using json_string_dumps[of k "CHR '':'' # sp @ dumps_by sp x @ CHR '','' # sp @ ?rest"]
    by (simp add: kv member_def dumps_str_def starts_with_def join_Cons)
qed

lemma value_read:
  assumes sp: "list_all json_space sp"
  shows "json_plain j \<Longrightarrow> reads_back sp j"
proof (induction j)
  case (JStr s)
  show ?case
    unfolding reads_back_def
  proof (intro allI impI)
    fix F r assume "length (dumps_by sp (JStr s)) < F"
    then obtain G where "F = Suc G" by (cases F) auto
    then show "json_value F (dumps_by sp (JStr s) @ r) = Some (JStr s, r)"
      using json_string_dumps[of s r] by (simp add: dumps_str_def)
  qed
next
  case (JArr xs)
  show ?case
    unfolding reads_back_def
  proof (intro allI impI)
    fix F r assume F: "length (dumps_by sp (JArr xs)) < F"
    then obtain G where G: "F = Suc G" by (cases F) auto
    have ok: "\<forall>x\<in>set xs. reads_back sp x" using JArr by (auto simp: list_all_iff)
    have "json_value F (open_bracket # join ('','' @ sp) (map (dumps_by sp) xs) @ close_bracket # r) = Some (JArr xs, r)"
    proof (cases xs)
      case Nil
      then show ?thesis by (simp add: G starts_with_def open_bracket_def dquote_def)
    next
      case (Cons x ys)
      then obtain u where u: "join ('','' @ sp) (map (dumps_by sp) xs) @ close_bracket # r = dumps_by sp x @ u"
        by (cases ys) auto
      have "json_items G (join ('','' @ sp) (map (dumps_by sp) xs) @ close_bracket # r) = Some (xs, r)"
        by (rule items_read[OF sp _ ok]) (use Cons F G in auto)
      then show ?thesis
        unfolding u using not_bracket[of sp x u] by (simp add: G open_bracket_def dquote_def skip_value)
    qed
    then show "json_value F (dumps_by sp (JArr xs) @ r) = Some (JArr xs, r)"
      by (simp add: open_bracket_def close_bracket_def)
  qed
next
  case (JObj d)
  let ?m = "\<lambda>(k, v). dumps_str k @ '':'' @ sp @ dumps_by sp v"
  show ?case
    unfolding reads_back_def
  proof (intro allI impI)
    fix F r assume F: "length (dumps_by sp (JObj d)) < F"
    then obtain G where G: "F = Suc G" by (cases F) auto
    have ok: "\<forall>(k, x)\<in>set d. reads_back sp x"
      using JObj by (fastforce simp: list_all_iff snds.simps)
    have "json_value F (open_brace # join ('','' @ sp) (map ?m d) @ close_brace # r) = Some (JObj d, r)"
    proof (cases d)
      case Nil
      then show ?thesis by (simp add: G starts_with_def open_bracket_def open_brace_def dquote_def)
    next
      case (Cons kv ys)
      then obtain u where u: "join ('','' @ sp) (map ?m d) @ close_brace # r = dquote # u"
        by (cases ys; cases kv) (auto simp: dumps_str_def)
      have "json_members G (join ('','' @ sp) (map ?m d) @ close_brace # r) = Some (d, r)"
        by (rule members_read[OF sp _ ok]) (use Cons F G in auto)
      then show ?thesis
        using JObj.prems unfolding u
        by (simp add: G open_bracket_def open_brace_def close_brace_def dquote_def starts_with_def of_pairs_distinct
            skip_closing(5)[unfolded dquote_def])
    qed
    then show "json_value F (dumps_by sp (JObj d) @ r) = Some (JObj d, r)"
      by (simp add: open_brace_def close_brace_def)
  qed
next
  case (JInt i)
  show ?case
    unfolding reads_back_def
  proof (intro allI impI)
    fix F r assume F: "length (dumps_by sp (JInt i)) < F" and r: "value_ends r"
    obtain G where G: "F = Suc G" using F by (cases F) auto
    obtain c t where ct: "show_int i = c # t" "is_digit c \<or> c = CHR ''-''"
      using show_nat_head[of "nat i"] by (cases "i < 0") (auto simp: show_int_def)
    then have "c \<noteq> dquote" "c \<noteq> open_bracket" "c \<noteq> open_brace"
      by (auto simp: is_digit_def code_def dquote_def open_bracket_def open_brace_def)
    then show "json_value F (dumps_by sp (JInt i) @ r) = Some (JInt i, r)"
      using ct literal_show[OF r, of i] by (simp add: G)
  qed
next
  case (JBool b)
  then show ?case
    by (auto simp: reads_back_def gr0_conv_Suc less_Suc_eq_0_disj literal_def starts_with_def dquote_def
        open_bracket_def open_brace_def split: nat.splits elim!: less_natE)
next
  case JNull
  then show ?case
    by (auto simp: reads_back_def literal_def starts_with_def dquote_def open_bracket_def open_brace_def
        elim!: less_natE)
qed simp

theorem loads_dumps_by:
  assumes "list_all json_space sp" and "json_plain j"
  shows "loads (dumps_by sp j) = Some j"
  using reads_backD[OF value_read[OF assms], of "Suc (length (dumps_by sp j))" "[]"] skip_value[of sp j "[]"]
  by (simp add: loads_def skip_space_def)

lemma loads_dumps: "json_plain j \<Longrightarrow> loads (dumps j) = Some j"
  using loads_dumps_by[of "'' ''" j] by (simp add: dumps_by_space json_space_def)

lemma loads_dumps_compact: "json_plain j \<Longrightarrow> loads (dumps_compact j) = Some j"
  by (simp add: dumps_compact_def loads_dumps_by)

end
