(* ===== verification/Signing.thy ===== *)
theory Signing
  imports Storage Json_Reader
begin

section \<open>Signed tokens\<close>

text \<open>
  \<open>src/wolfpaw/storage/signing.py\<close> and the pseudo-presigned URLs of \<open>storage/local.py\<close>. The keyed hash
  \<open>hmac(secret, body)\<close> is a parameter; base64 is the standard library's, with the decoder's tolerance for
  characters outside its alphabet. A token's body that is no UTF-8 is refused here (\<open>json.loads\<close> would
  also try UTF-16 and UTF-32, which the program never signs).
\<close>

subsection \<open>URL-safe base64 without padding\<close>

definition base64_alphabet :: pystr where
  "base64_alphabet = ''ABCDEFGHIJKLMNOPQRSTUVWXYZabcdefghijklmnopqrstuvwxyz0123456789-_''"

definition sextet_char :: "nat \<Rightarrow> char" where
  "sextet_char v = base64_alphabet ! v"

fun b64 :: "bytes \<Rightarrow> pystr" where
  "b64 [] = []"
| "b64 [a] = [sextet_char (unat a div 4), sextet_char (unat a mod 4 * 16)]"
| "b64 [a, b] =
     [sextet_char (unat a div 4), sextet_char (unat a mod 4 * 16 + unat b div 16),
      sextet_char (unat b mod 16 * 4)]"
| "b64 (a # b # c # rest) =
     [sextet_char (unat a div 4), sextet_char (unat a mod 4 * 16 + unat b div 16),
      sextet_char (unat b mod 16 * 4 + unat c div 64), sextet_char (unat c mod 64)] @ b64 rest"

text \<open>The value of a character for the decoder, which also knows the standard alphabet.\<close>

definition sextet :: "char \<Rightarrow> nat option" where
  "sextet c =
     (if is_upper c then Some (code c - 65) else if is_lower c then Some (code c - 71)
      else if is_digit c then Some (code c + 4)
      else if c = CHR ''-'' \<or> c = CHR ''+'' then Some 62
      else if c = CHR ''_'' \<or> c = CHR ''/'' then Some 63 else None)"

text \<open>\<open>q\<close> characters of the current group were read, \<open>left\<close> are their bits not yet used, \<open>pads\<close> the
  equal signs since.\<close>

fun a2b :: "nat \<Rightarrow> nat \<Rightarrow> nat \<Rightarrow> pystr \<Rightarrow> bytes option" where
  "a2b q left pads [] = (if q = 0 then Some [] else None)"
| "a2b q left pads (c # s) =
     (if c = CHR ''=''
      then (if 2 \<le> q \<and> 4 \<le> q + Suc pads then Some []
            else a2b q left (if 2 \<le> q then Suc pads else pads) s)
      else case sextet c of
        None \<Rightarrow> a2b q left pads s
      | Some v \<Rightarrow>
          if q = 0 then a2b 1 v 0 s
          else if q = 1 then map_option ((#) (of_nat (left * 4 + v div 16))) (a2b 2 (v mod 16) 0 s)
          else if q = 2 then map_option ((#) (of_nat (left * 16 + v div 4))) (a2b 3 (v mod 4) 0 s)
          else map_option ((#) (of_nat (left * 64 + v))) (a2b 0 0 0 s))"

definition unb64 :: "pystr \<Rightarrow> bytes option" where
  "unb64 s = (if list_all (\<lambda>c. code c < 128) s
     then a2b 0 0 0 (s @ replicate ((4 - length s mod 4) mod 4) (CHR ''='')) else None)"

subsection \<open>Tokens\<close>

text \<open>The file name and the operation are whatever JSON value the signed body has.\<close>

record token_payload =
  tp_user :: uuid
  tp_filename :: json
  tp_op :: json
  tp_max :: int
  tp_exp :: int

type_synonym keyed_hash = "bytes \<Rightarrow> bytes \<Rightarrow> bytes"

definition token_body :: "token_payload \<Rightarrow> bytes" where
  "token_body p = utf8_encode (dumps_compact (JObj
     [(''u'', JStr (uuid_text (tp_user p))), (''f'', tp_filename p), (''op'', tp_op p),
      (''max'', JInt (tp_max p)), (''exp'', JInt (tp_exp p))]))"

definition mint_token :: "keyed_hash \<Rightarrow> bytes \<Rightarrow> token_payload \<Rightarrow> pystr" where
  "mint_token hmac secret p =
     b64 (token_body p) @ ''.'' @ b64 (hmac secret (token_body p))"

definition payload_of :: "json \<Rightarrow> token_payload option" where
  "payload_of j = (case j of
     JObj d \<Rightarrow>
       (case (Option.bind (Option.bind (dict_get d ''u'') as_str) parse_uuid, dict_get d ''f'', dict_get d ''op'',
              map_option py_int (dict_get d ''max''), map_option py_int (dict_get d ''exp'')) of
          (Some u, Some f, Some oper, Some (Inr m), Some (Inr e)) \<Rightarrow>
            Some \<lparr> tp_user = u, tp_filename = f, tp_op = oper, tp_max = m, tp_exp = e \<rparr>
        | _ \<Rightarrow> None)
   | _ \<Rightarrow> None)"

definition token_parts :: "pystr \<Rightarrow> (bytes \<times> bytes) option" where
  "token_parts token = (case split_on (CHR ''.'') token of
     [b, s] \<Rightarrow> (case (unb64 b, unb64 s) of (Some body, Some sig) \<Rightarrow> Some (body, sig) | _ \<Rightarrow> None)
   | _ \<Rightarrow> None)"

definition verify_token :: "keyed_hash \<Rightarrow> bytes \<Rightarrow> int \<Rightarrow> pystr \<Rightarrow> exn + token_payload" where
  "verify_token hmac secret current token =
     (case token_parts token of
        None \<Rightarrow> Inl (ValueError ''malformed token'')
      | Some (body, sig) \<Rightarrow>
          if hmac secret body \<noteq> sig then Inl (ValueError ''bad signature'')
          else (case Option.bind (Option.bind (utf8_decode body) loads) payload_of of
              None \<Rightarrow> Inl (ValueError ''malformed payload'')
            | Some p \<Rightarrow>
                if tp_op p \<notin> {JStr ''upload'', JStr ''download''}
                then Inl (ValueError (''unknown op '' @ json_repr (tp_op p)))
                else if tp_exp p \<le> current then Inl (ValueError ''token expired'')
                else Inr p))"

subsection \<open>URLs of the local backend\<close>

record local_config =
  lc_base_url :: pystr
  lc_secret :: bytes
  lc_ttl :: int
  lc_max_bytes :: int

record signed_url =
  su_url :: pystr
  su_headers :: dict
  su_max_bytes :: int
  su_expires :: int

definition unix_now :: "world \<Rightarrow> int" where
  "unix_now w = now w div second"

definition blob_url :: "local_config \<Rightarrow> pystr \<Rightarrow> pystr \<Rightarrow> pystr" where
  "blob_url cfg oper token =
     rev (dropWhile (\<lambda>c. c = CHR ''/'') (rev (lc_base_url cfg))) @ ''/workspace/blob/'' @ oper @
       ''?token='' @ token"

definition issue_upload_url ::
  "keyed_hash \<Rightarrow> local_config \<Rightarrow> uuid \<Rightarrow> pystr \<Rightarrow> int option \<Rightarrow> signed_url act" where
  "issue_upload_url hmac cfg user filename max_bytes =
     bindE (liftE (validate_filename filename)) (\<lambda>_.
     bindE (getsE unix_now) (\<lambda>t.
       let m = (case max_bytes of None \<Rightarrow> lc_max_bytes cfg | Some n \<Rightarrow> n); e = t + lc_ttl cfg;
           token = mint_token hmac (lc_secret cfg)
             \<lparr> tp_user = user, tp_filename = JStr filename, tp_op = JStr ''upload'', tp_max = m, tp_exp = e \<rparr>
       in ret \<lparr> su_url = blob_url cfg ''upload'' token,
                su_headers = [(''content-type'', JStr ''application/octet-stream'')],
                su_max_bytes = m, su_expires = e \<rparr>))"

definition issue_download_url ::
  "keyed_hash \<Rightarrow> local_config \<Rightarrow> uuid \<Rightarrow> pystr \<Rightarrow> signed_url act" where
  "issue_download_url hmac cfg user filename =
     bindE (liftE (validate_filename filename)) (\<lambda>_.
     bindE (getsE unix_now) (\<lambda>t.
       let e = t + lc_ttl cfg;
           token = mint_token hmac (lc_secret cfg)
             \<lparr> tp_user = user, tp_filename = JStr filename, tp_op = JStr ''download'', tp_max = 0, tp_exp = e \<rparr>
       in ret \<lparr> su_url = blob_url cfg ''download'' token, su_headers = [], su_max_bytes = 0, su_expires = e \<rparr>))"

subsection \<open>Round trips\<close>

lemma sextet_char_facts:
  "list_all (\<lambda>c. sextet c \<noteq> None \<and> c \<noteq> CHR ''='' \<and> code c < 128 \<and> c \<noteq> CHR ''.'') base64_alphabet"
  "map sextet base64_alphabet = map Some [0..<64]" "length base64_alphabet = 64"
  by code_simp+

lemma sextet_inverse [simp]:
  assumes "v < 64"
  shows "sextet (sextet_char v) = Some v" "sextet_char v \<noteq> CHR ''=''" "code (sextet_char v) < 128"
    "sextet_char v \<noteq> CHR ''.''"
proof -
  have "map sextet base64_alphabet ! v = map Some [0..<64] ! v" by (simp only: sextet_char_facts(2))
  then show "sextet (sextet_char v) = Some v"
    using assms sextet_char_facts(3) by (simp add: sextet_char_def del: upt_Suc)
  have "base64_alphabet ! v \<in> set base64_alphabet" using assms sextet_char_facts(3) by simp
  then show "sextet_char v \<noteq> CHR ''=''" "code (sextet_char v) < 128" "sextet_char v \<noteq> CHR ''.''"
    using sextet_char_facts(1) unfolding sextet_char_def list_all_iff by blast+
qed

lemma byte_range: "unat (a :: byte) < 256"
  using unsigned_less[of a] by simp

lemma byte_parts:
  "unat (a :: byte) div 4 < 64" "unat a mod 4 * 16 < 64" "unat a mod 4 * 16 + unat (b :: byte) div 16 < 64"
  "unat a mod 16 * 4 < 64" "unat a mod 16 * 4 + unat b div 64 < 64" "unat a mod 64 < 64"
  using byte_range[of a] byte_range[of b] by (auto simp: div_less_iff_less_mult)

lemma byte_sums:
  "unat (a :: byte) div 4 * 4 + unat a mod 4 = unat a"
  "unat a mod 16 * 4 div 4 = unat a mod 16"
  "unat a div 16 * 16 + unat a mod 16 = unat a"
  "unat a div 64 * 64 + unat a mod 64 = unat a"
  "(unat a mod 4 * 16 + unat (b :: byte) div 16) div 16 = unat a mod 4"
  "(unat a mod 4 * 16 + unat b div 16) mod 16 = unat b div 16"
  "(unat a mod 16 * 4 + unat b div 64) div 4 = unat a mod 16"
  "(unat a mod 16 * 4 + unat b div 64) mod 4 = unat b div 64"
  "unat b div 16 mod 16 = unat b div 16" "unat b div 64 mod 4 = unat b div 64"
  using byte_range[of a] byte_range[of b] by (simp_all add: div_less_iff_less_mult)

lemma a2b_quad:
  assumes "v1 < 64" "v2 < 64" "v3 < 64" "v4 < 64"
  shows "a2b 0 l p (sextet_char v1 # sextet_char v2 # sextet_char v3 # sextet_char v4 # s) =
     map_option (\<lambda>bs. of_nat (v1 * 4 + v2 div 16) # of_nat (v2 mod 16 * 16 + v3 div 4) #
       of_nat (v3 mod 4 * 64 + v4) # bs) (a2b 0 0 0 s)"
  using assms by (simp add: option.map_comp comp_def)

lemmas a2b_Cons = a2b.simps(2)
declare a2b.simps(2) [simp del]

lemma a2b_b64:
  "a2b 0 0 0 (b64 bs @ replicate ((4 - length (b64 bs) mod 4) mod 4) (CHR ''='')) = Some bs"
proof (induction bs rule: b64.induct)
  case (2 a)
  then show ?case by (simp add: a2b_Cons byte_parts byte_sums numeral_2_eq_2)
next
  case (3 a b)
  have "length (b64 [a, b]) = 3" by simp
  then have "replicate ((4 - length (b64 [a, b]) mod 4) mod 4) (CHR ''='') = [CHR ''='']" by (simp only:) simp
  then show ?case by (simp only:) (simp add: a2b_Cons byte_parts byte_sums del: of_nat_add of_nat_mult)
next
  case (4 a b c rest)
  let ?pad = "replicate ((4 - length (b64 rest) mod 4) mod 4) (CHR ''='')"
  have "a2b 0 0 0 (b64 (a # b # c # rest) @ ?pad) =
      map_option (\<lambda>bs. a # b # c # bs) (a2b 0 0 0 (b64 rest @ ?pad))"
    using a2b_quad[OF byte_parts(1)[of a] byte_parts(3)[of a b] byte_parts(5)[of b c] byte_parts(6)[of c],
        of 0 0 "b64 rest @ ?pad"]
    by (simp add: byte_sums del: of_nat_add of_nat_mult)
  then show ?case using 4 by simp
qed simp

lemma b64_chars: "list_all (\<lambda>c. code c < 128 \<and> c \<noteq> CHR ''.'') (b64 bs)"
  by (induction bs rule: b64.induct) (simp_all add: byte_parts)

lemma b64_plain: "list_all (\<lambda>c. code c < 128) (b64 bs)" "CHR ''.'' \<notin> set (b64 bs)"
  using b64_chars[of bs] unfolding list_all_iff by blast+

lemma unb64_b64 [simp]: "unb64 (b64 bs) = Some bs"
  using a2b_b64[of bs] b64_plain(1)[of bs] by (simp add: unb64_def)

lemma token_parts_mint: "token_parts (b64 body @ ''.'' @ b64 sig) = Some (body, sig)"
proof -
  have "split_on (CHR ''.'') (b64 body @ ''.'' @ b64 sig) = [b64 body, b64 sig]"
    by (simp add: split_on_app split_on_none b64_plain)
  then show ?thesis by (simp add: token_parts_def)
qed

lemma mint_then_verify:
  assumes "valid_uuid (tp_user p)" and "json_plain (tp_filename p)"
    and "tp_op p \<in> {JStr ''upload'', JStr ''download''}" and "current < tp_exp p"
  shows "verify_token hmac secret current (mint_token hmac secret p) = Inr p"
proof -
  let ?d = "[(''u'', JStr (uuid_text (tp_user p))), (''f'', tp_filename p), (''op'', tp_op p),
      (''max'', JInt (tp_max p)), (''exp'', JInt (tp_exp p))]"
  have "json_plain (JObj ?d)" using assms(2,3) by auto
  then have "Option.bind (utf8_decode (token_body p)) loads = Some (JObj ?d)"
    by (simp add: token_body_def loads_dumps_compact)
  moreover have "payload_of (JObj ?d) = Some p"
    using parse_uuid_text[OF assms(1)] by (simp add: payload_of_def)
  ultimately show ?thesis
    using assms(3,4) by (simp add: verify_token_def mint_token_def token_parts_mint del: append.simps)
qed

text \<open>What a verified token shows: whoever made it knew the hash of its body under the secret.\<close>

lemma verified_token:
  assumes "verify_token hmac secret current token = Inr p"
  obtains body sig where "token_parts token = Some (body, sig)" "hmac secret body = sig"
    "Option.bind (Option.bind (utf8_decode body) loads) payload_of = Some p"
    "tp_op p \<in> {JStr ''upload'', JStr ''download''}" "current < tp_exp p"
  using assms unfolding verify_token_def
  by (auto split: option.splits prod.splits if_splits)

end
