(* ===== verification/Workspace_Files.thy ===== *)
theory Workspace_Files
  imports Storage
begin

section \<open>The table of workspace files\<close>

text \<open>
  \<open>src/wolfpaw/workspace/files.py\<close>: append-only versions of the user's files. Postgres orders file names
  by a collation; here it is the order of their code points. \<open>similar\<close> turns a distance into the
  similarity \<open>1 - d\<close>.
\<close>

definition WORKSPACE_SOURCE :: "file_source \<Rightarrow> pystr" where
  "WORKSPACE_SOURCE s = (case s of UserUpload \<Rightarrow> ''user_upload'' | AgentOutput \<Rightarrow> ''agent_output'')"

subsection \<open>Reading\<close>

text \<open>\<open>SELECT DISTINCT ON (filename) ... ORDER BY filename, version DESC\<close>.\<close>

definition newest_versions :: "uuid \<Rightarrow> workspace_file list \<Rightarrow> workspace_file list" where
  "newest_versions user rows =
     (let mine = filter (\<lambda>f. wf_user_id f = user) rows
      in sort_key wf_filename (filter (\<lambda>f.
           list_all (\<lambda>g. wf_filename g = wf_filename f \<longrightarrow> wf_version g \<le> wf_version f) mine) mine))"

definition list_latest :: "uuid \<Rightarrow> workspace_file list act" where
  "list_latest user = stmt (getsE (\<lambda>w.
     sort_key (\<lambda>f. - wf_created_at f) (newest_versions user (workspace_files w))))"

definition get_file_by_id :: "uuid \<Rightarrow> uuid \<Rightarrow> workspace_file option act" where
  "get_file_by_id user file_id = stmt (getsE (\<lambda>w.
     sql_first (\<lambda>f. wf_id f = file_id \<and> wf_user_id f = user) (workspace_files w)))"

definition versions_of :: "uuid \<Rightarrow> pystr \<Rightarrow> workspace_file list \<Rightarrow> workspace_file list" where
  "versions_of user filename rows = filter (\<lambda>f. wf_user_id f = user \<and> wf_filename f = filename) rows"

definition newest_of :: "uuid \<Rightarrow> pystr \<Rightarrow> workspace_file list \<Rightarrow> workspace_file option" where
  "newest_of user filename rows =
     (case sort_key (\<lambda>f. - wf_version f) (versions_of user filename rows) of
        [] \<Rightarrow> None | f # _ \<Rightarrow> Some f)"

definition get_latest_by_filename :: "uuid \<Rightarrow> pystr \<Rightarrow> workspace_file option act" where
  "get_latest_by_filename user filename =
     stmt (getsE (\<lambda>w. newest_of user filename (workspace_files w)))"

definition search_latest_by_embedding ::
  "(vector \<Rightarrow> vector \<Rightarrow> int) \<Rightarrow> uuid \<Rightarrow> vector \<Rightarrow> nat \<Rightarrow> (workspace_file \<times> int) list act" where
  "search_latest_by_embedding dist user q k = stmt (getsE (\<lambda>w.
     nearest dist q k wf_embedding (newest_versions user (workspace_files w))))"

subsection \<open>Writing\<close>

definition new_file ::
  "world \<Rightarrow> uuid \<Rightarrow> file_source \<Rightarrow> pystr \<Rightarrow> pystr \<Rightarrow> int \<Rightarrow> pystr option \<Rightarrow> pystr option \<Rightarrow> uuid option
     \<Rightarrow> uuid option \<Rightarrow> int \<Rightarrow> workspace_file" where
  "new_file w user source filename url nbytes mime sha tid supersedes version =
     \<lparr> wf_id = Uuid (next_id w), wf_user_id = user, wf_task_id = tid, wf_source = source,
       wf_filename = filename, wf_mime_type = mime, wf_storage_url = url, wf_size_bytes = nbytes,
       wf_version = version, wf_supersedes_id = supersedes, wf_sha256 = sha, wf_created_at = now w,
       wf_embedding = None \<rparr>"

definition register_file ::
  "uuid \<Rightarrow> file_source \<Rightarrow> pystr \<Rightarrow> pystr \<Rightarrow> int \<Rightarrow> pystr option \<Rightarrow> pystr option \<Rightarrow> uuid option
     \<Rightarrow> uuid option \<Rightarrow> int \<Rightarrow> workspace_file act" where
  "register_file user source filename url nbytes mime sha tid supersedes version = stmt (\<lambda>w.
     let f = new_file w user source filename url nbytes mime sha tid supersedes version in
     if tid \<noteq> None \<and> task_lookup (the tid) w = None
     then (Inl (DbError ''task_id violates foreign key''), w)
     else case insert_file f (workspace_files w) of
       None \<Rightarrow> (Inl (DbError (''duplicate key value violates unique constraint '' @
                  ''workspace_files_user_id_filename_version_key'')), w)
     | Some fs \<Rightarrow> (Inr f, w\<lparr>next_id := Suc (next_id w), workspace_files := fs\<rparr>))"

definition update_embedding :: "uuid \<Rightarrow> vector \<Rightarrow> unit act" where
  "update_embedding file_id v = stmt (modifyE (\<lambda>w. w\<lparr>workspace_files :=
     sql_set (\<lambda>f. wf_id f = file_id) (\<lambda>f. f\<lparr>wf_embedding := Some v\<rparr>) (workspace_files w)\<rparr>))"

definition file_owner :: "uuid \<Rightarrow> uuid option act" where
  "file_owner file_id = stmt (getsE (\<lambda>w. map_option wf_user_id (key_lookup wf_id file_id (workspace_files w))))"

definition embed_and_store_doc :: "(pystr \<Rightarrow> embedding act) \<Rightarrow> uuid \<Rightarrow> pystr \<Rightarrow> unit act" where
  "embed_and_store_doc embedder file_id body =
     (if body = [] then ret ()
      else bindE (embedder body) (\<lambda>r. case em_vector r of
        None \<Rightarrow> ret ()
      | Some v \<Rightarrow> thenE (update_embedding file_id v)
          (bindE (file_owner file_id) (\<lambda>owner. case owner of
             None \<Rightarrow> ret ()
           | Some user \<Rightarrow> whenE (em_tokens r > 0)
               (best_effort (record_usage user ''workspace_embed'' (em_model r)
                  (usage_of_input (em_tokens r)) (voyage_cents (em_tokens r)) None None))))))"

text \<open>\<open>embed_workspace_file_job\<close> of \<open>workers/jobs/compact_thread.py\<close>.\<close>

definition embed_workspace_file_job :: "(pystr \<Rightarrow> embedding act) \<Rightarrow> pystr \<Rightarrow> pystr \<Rightarrow> unit act" where
  "embed_workspace_file_job embedder raw body = (case parse_uuid raw of
       None \<Rightarrow> raise (ValueError ''badly formed hexadecimal UUID string'')
     | Some file_id \<Rightarrow> embed_and_store_doc embedder file_id body)"

section \<open>The tools on the workspace\<close>

text \<open>
  \<open>src/wolfpaw/toolbox/tools/write_doc.py\<close>, \<open>read_doc.py\<close>, \<open>list_docs.py\<close> and \<open>search_docs.py\<close>. A tool
  gets the storage backend (\<open>get_storage()\<close>), the settings, the embedder and, where it renders a date or
  a similarity, the function that does it (\<open>isoformat\<close>, \<open>round(1 - d, 4)\<close>) as arguments.
\<close>

subsection \<open>Shared reading of inputs\<close>

definition text_input :: "dict \<Rightarrow> pystr \<Rightarrow> pystr option" where
  "text_input inputs k = Option.bind (dict_get inputs k) as_str"

definition filename_input :: "dict \<Rightarrow> exn + pystr" where
  "filename_input inputs = (case text_input inputs ''filename'' of
     Some f \<Rightarrow> if f = [] then Inl (ToolError ''`filename` must be a non-empty string'') else Inr f
   | None \<Rightarrow> Inl (ToolError ''`filename` must be a non-empty string''))"

subsection \<open>write_doc\<close>

text \<open>The version and the link of the row that follows an existing one, and the row itself.\<close>

definition next_version :: "workspace_file option \<Rightarrow> int" where
  "next_version existing = (case existing of None \<Rightarrow> 1 | Some f \<Rightarrow> wf_version f + 1)"

definition save_output ::
  "tool_ctx \<Rightarrow> pystr \<Rightarrow> pystr \<Rightarrow> workspace_file option \<Rightarrow> storage_object \<Rightarrow> workspace_file act" where
  "save_output ctx filename mime existing obj =
     register_file (c_user ctx) AgentOutput filename (so_url obj) (so_size obj) (Some mime)
       (Some (so_sha256 obj)) (c_task ctx) (map_option wf_id existing) (next_version existing)"

definition value_error_as_tool_error :: "'a act \<Rightarrow> 'a act" where
  "value_error_as_tool_error m = catchE m (\<lambda>e. case e of
     ValueError s \<Rightarrow> raise (ToolError s) | _ \<Rightarrow> raise e)"

text \<open>A MIME type that is no text is refused by the driver, after the bytes are stored.\<close>

definition mime_param :: "json \<Rightarrow> exn + pystr" where
  "mime_param j = (case as_str j of Some m \<Rightarrow> Inr m
     | None \<Rightarrow> Inl (DbError ''invalid input for query argument $5 (expected str)''))"

definition write_new_version ::
  "settings \<Rightarrow> storage \<Rightarrow> tool_ctx \<Rightarrow> pystr \<Rightarrow> pystr \<Rightarrow> json \<Rightarrow> workspace_file option \<Rightarrow> dict act" where
  "write_new_version cfg so ctx filename content mime existing =
     bindE (value_error_as_tool_error (sg_put so (c_user ctx) filename (utf8_encode content))) (\<lambda>obj.
     bindE (liftE (mime_param mime)) (\<lambda>m.
     bindE (save_output ctx filename m existing obj) (\<lambda>f.
     thenE (enqueue_embed_workspace_file cfg (wf_id f) content)
       (ret [(''file_id'', JStr (uuid_text (wf_id f))), (''filename'', JStr (wf_filename f)),
             (''version'', JInt (wf_version f)), (''size_bytes'', JInt (wf_size_bytes f)),
             (''sha256'', opt_str (wf_sha256 f))]))))"

definition write_doc_run :: "settings \<Rightarrow> storage \<Rightarrow> tool_ctx \<Rightarrow> dict \<Rightarrow> dict act" where
  "write_doc_run cfg so ctx inputs =
     (case filename_input inputs of
        Inl e \<Rightarrow> raise e
      | Inr filename \<Rightarrow> (case text_input inputs ''content'' of
          None \<Rightarrow> raise (ToolError ''`content` must be a string'')
        | Some content \<Rightarrow>
            bindE (get_latest_by_filename (c_user ctx) filename) (\<lambda>existing.
              case existing of
                Some f \<Rightarrow>
                  if \<not> truthy (get_default inputs ''overwrite'' JNull)
                  then raise (WorkspaceCollision (wf_filename f) (wf_version f))
                  else write_new_version cfg so ctx filename content
                         (get_or inputs ''mime_type'' (JStr ''text/markdown'')) existing
              | None \<Rightarrow> write_new_version cfg so ctx filename content
                         (get_or inputs ''mime_type'' (JStr ''text/markdown'')) None)))"

subsection \<open>read_doc\<close>

definition missing_doc :: "pystr \<Rightarrow> workspace_file list \<Rightarrow> exn" where
  "missing_doc filename available =
     (if available \<noteq> []
      then ToolError (''no workspace file named '' @ py_repr filename @ '' '' @ [em_dash] @ '' available'' @
             '' files include: ['' @ join '', '' (map (\<lambda>f. py_repr (wf_filename f)) (take 10 available)) @
             '']. Call `list_docs` for'' @ '' the full list or `search_docs` to find by content.'')
      else ToolError (''no workspace file named '' @ py_repr filename @ '' '' @ [em_dash] @ '' the user's'' @
             '' workspace is empty''))"

definition stored_bytes :: "storage \<Rightarrow> uuid \<Rightarrow> pystr \<Rightarrow> bytes act" where
  "stored_bytes so user filename = catchE (sg_get so user filename) (\<lambda>e. case e of
     FileNotFoundError _ \<Rightarrow> raise (ToolError (''workspace_files row exists for '' @ py_repr filename @
                                           '' but storage has no bytes''))
   | _ \<Rightarrow> raise e)"

definition read_doc_run :: "storage \<Rightarrow> tool_ctx \<Rightarrow> dict \<Rightarrow> dict act" where
  "read_doc_run so ctx inputs =
     (case filename_input inputs of
        Inl e \<Rightarrow> raise e
      | Inr filename \<Rightarrow>
          bindE (get_latest_by_filename (c_user ctx) filename) (\<lambda>existing. case existing of
            None \<Rightarrow> bindE (list_latest (c_user ctx)) (\<lambda>available. raise (missing_doc filename available))
          | Some f \<Rightarrow>
              bindE (stored_bytes so (c_user ctx) filename) (\<lambda>data. case utf8_decode data of
                None \<Rightarrow> raise (ToolError (py_repr filename @ '' is not UTF-8 text; read_doc is for text files only''))
              | Some body \<Rightarrow> ret [(''filename'', JStr (wf_filename f)), (''version'', JInt (wf_version f)),
                                  (''size_bytes'', JInt (wf_size_bytes f)), (''text'', JStr body)])))"

subsection \<open>list_docs and search_docs\<close>

definition doc_entry :: "(time \<Rightarrow> pystr) \<Rightarrow> workspace_file \<Rightarrow> json" where
  "doc_entry date f = JObj
     [(''filename'', JStr (wf_filename f)), (''version'', JInt (wf_version f)),
      (''size_bytes'', JInt (wf_size_bytes f)), (''mime_type'', opt_str (wf_mime_type f)),
      (''created_at'', JStr (date (wf_created_at f)))]"

definition list_docs_run :: "(time \<Rightarrow> pystr) \<Rightarrow> tool_ctx \<Rightarrow> dict \<Rightarrow> dict act" where
  "list_docs_run date ctx inputs =
     bindE (list_latest (c_user ctx)) (\<lambda>fs.
       ret [(''file_count'', JInt (int (length fs))), (''files'', JArr (map (doc_entry date) fs))])"

definition search_limit :: "dict \<Rightarrow> exn + nat" where
  "search_limit inputs = (case py_int (get_or inputs ''k'' (JInt 5)) of
     Inl e \<Rightarrow> Inl e | Inr k \<Rightarrow> Inr (nat (max 1 (min 25 k))))"

definition doc_hit :: "(int \<Rightarrow> json) \<Rightarrow> workspace_file \<times> int \<Rightarrow> json" where
  "doc_hit similarity h = (case h of (f, d) \<Rightarrow> JObj
     [(''filename'', JStr (wf_filename f)), (''version'', JInt (wf_version f)),
      (''size_bytes'', JInt (wf_size_bytes f)), (''similarity'', similarity d)])"

definition search_result :: "pystr \<Rightarrow> json list \<Rightarrow> dict" where
  "search_result query hits =
     [(''query'', JStr query), (''result_count'', JInt (int (length hits))), (''results'', JArr hits)]"

definition search_docs_run ::
  "(pystr \<Rightarrow> embedding act) \<Rightarrow> (vector \<Rightarrow> vector \<Rightarrow> int) \<Rightarrow> (int \<Rightarrow> json) \<Rightarrow> tool_ctx \<Rightarrow> dict \<Rightarrow> dict act" where
  "search_docs_run embedder dist similarity ctx inputs =
     (if \<not> nonblank_str (dict_get inputs ''query'') then raise (ToolError ''`query` must be a non-empty string'')
      else case (text_input inputs ''query'', search_limit inputs) of
        (Some query, Inr k) \<Rightarrow>
          bindE (embedder query) (\<lambda>r. case em_vector r of
            None \<Rightarrow> ret (search_result query [])
          | Some q \<Rightarrow> bindE (search_latest_by_embedding dist (c_user ctx) q k) (\<lambda>hits.
              ret (search_result query (map (doc_hit similarity) hits))))
      | (_, Inl e) \<Rightarrow> raise e
      | (None, Inr k) \<Rightarrow> raise (ToolError ''`query` must be a non-empty string''))"

end
