(* ===== verification/Workspace_Props.thy ===== *)
theory Workspace_Props
  imports Workspace_Files
begin

section \<open>What the workspace promises\<close>

text \<open>
  The versions of a file form a chain, 1, 2, 3 and so on, each superseding the one before, and this
  survives writers that raced (\<open>write_keeps_chains\<close>); what \<open>write_doc\<close> wrote is what \<open>read_doc\<close> reads
  (\<open>write_then_read\<close>); without \<open>overwrite\<close> an existing file is left alone; but a write whose row is refused
  has already replaced the bytes (\<open>failed_write_replaces_bytes\<close>).
\<close>

subsection \<open>The newest version\<close>

lemma sort_key_least_last:
  "\<forall>x\<in>set xs. k f < k x \<Longrightarrow> sort_key k (xs @ [f]) = f # sort_key k xs"
  by (induction xs) auto

lemma newest_of_SomeD:
  assumes "newest_of u n fs = Some g"
  shows "g \<in> set fs" "wf_user_id g = u" "wf_filename g = n"
    "\<forall>x\<in>set (versions_of u n fs). wf_version x \<le> wf_version g"
proof -
  let ?k = "\<lambda>f. - wf_version f"
  obtain gs where gs: "sort_key ?k (versions_of u n fs) = g # gs"
    using assms by (auto simp: newest_of_def split: list.splits)
  then have "set (versions_of u n fs) = set (g # gs)" by (metis set_sort)
  moreover have "sorted (map ?k (g # gs))" using sorted_sort_key[of ?k "versions_of u n fs"] gs by simp
  ultimately show "g \<in> set fs" "wf_user_id g = u" "wf_filename g = n"
    "\<forall>x\<in>set (versions_of u n fs). wf_version x \<le> wf_version g"
    by (auto simp: versions_of_def)
qed

lemma newest_of_None: "newest_of u n fs = None \<longleftrightarrow> versions_of u n fs = []"
  by (auto simp: newest_of_def split: list.splits) (metis set_empty2 set_sort)

lemma next_version_above:
  "x \<in> set (versions_of u n fs) \<Longrightarrow> wf_version x < next_version (newest_of u n fs)"
  using newest_of_SomeD(4)[of u n fs] newest_of_None[of u n fs]
  by (cases "newest_of u n fs") (auto simp: next_version_def)

lemma newest_of_append:
  assumes "wf_user_id f = u" "wf_filename f = n" "wf_version f = next_version (newest_of u n fs)"
  shows "newest_of u n (fs @ [f]) = Some f"
  using assms sort_key_least_last[of "versions_of u n fs" "\<lambda>f. - wf_version f" f] next_version_above[of _ u n fs]
  by (simp add: newest_of_def versions_of_def)

lemma insert_next:
  assumes "wf_version f = next_version (newest_of (wf_user_id f) (wf_filename f) fs)"
  shows "insert_file f fs = Some (fs @ [f])"
proof -
  have "file_key g \<noteq> file_key f" if "g \<in> set fs" for g
    using next_version_above[of g "wf_user_id f" "wf_filename f" fs] that assms
    by (auto simp: file_key_def versions_of_def)
  then show ?thesis by (auto simp: insert_file_def list_ex_iff)
qed

subsection \<open>Writing and reading back\<close>

definition doc_inputs :: "pystr \<Rightarrow> pystr \<Rightarrow> bool \<Rightarrow> dict" where
  "doc_inputs filename content overwrite =
     [(''filename'', JStr filename), (''content'', JStr content), (''overwrite'', JBool overwrite)]"

lemma doc_inputs_read [simp]:
  "filename_input (doc_inputs n c b) =
     (if n = [] then Inl (ToolError ''`filename` must be a non-empty string'') else Inr n)"
  "text_input (doc_inputs n c b) ''content'' = Some c"
  "truthy (get_default (doc_inputs n c b) ''overwrite'' JNull) = b"
  "get_or (doc_inputs n c b) ''mime_type'' j = j"
  by (simp_all add: doc_inputs_def filename_input_def text_input_def get_default_def get_or_def)

text \<open>The task of a call, when it has one, exists.\<close>

definition task_known :: "tool_ctx \<Rightarrow> world \<Rightarrow> bool" where
  "task_known ctx w \<longleftrightarrow> (case c_task ctx of None \<Rightarrow> True | Some t \<Rightarrow> task_lookup t w \<noteq> None)"

lemma save_output_run:
  assumes "script w = []" and "task_known ctx w"
    and "existing = newest_of (c_user ctx) n (workspace_files w)"
  obtains f where "save_output ctx n m existing obj w =
      (Inr f, w\<lparr>next_id := Suc (next_id w), workspace_files := workspace_files w @ [f]\<rparr>)"
    "wf_filename f = n" "wf_user_id f = c_user ctx" "wf_version f = next_version existing"
    "wf_size_bytes f = so_size obj" "wf_supersedes_id f = map_option wf_id existing" "wf_id f = Uuid (next_id w)"
    "wf_storage_url f = so_url obj"
proof -
  let ?f = "new_file w (c_user ctx) AgentOutput n (so_url obj) (so_size obj) (Some m) (Some (so_sha256 obj))
      (c_task ctx) (map_option wf_id existing) (next_version existing)"
  have "insert_file ?f (workspace_files w) = Some (workspace_files w @ [?f])"
    by (rule insert_next) (simp add: new_file_def assms(3))
  then have "save_output ctx n m existing obj w =
      (Inr ?f, w\<lparr>next_id := Suc (next_id w), workspace_files := workspace_files w @ [?f]\<rparr>)"
    using assms(1,2) by (auto simp: save_output_def register_file_def Let_def task_known_def split: option.splits)
  then show ?thesis by (rule that) (simp_all add: new_file_def)
qed

lemma enqueue_run: "script w = [] \<Longrightarrow> \<exists>js. enqueue_embed_workspace_file cfg i c w = (Inr (), w\<lparr>jobs := js\<rparr>)"
  by (auto simp: enqueue_embed_workspace_file_def enqueue_def add_job_def)

context storage_contract
begin

text \<open>
  Over any storage that keeps the contract: a write that may go on stores the bytes and the next version,
  and what it stored is what a read finds.
\<close>

lemma write_new_version_run:
  assumes "script w = []" and "task_known ctx w" and "accepts n" and "sg_put so = put"
    and "existing = newest_of (c_user ctx) n (workspace_files w)"
  obtains out f w' obj where "write_new_version cfg so ctx n c (JStr m) existing w = (Inr out, w')"
    "put (c_user ctx) n (utf8_encode c) w = (Inr obj, w\<lparr>blobs := blobs w'\<rparr>)"
    "workspace_files w' = workspace_files w @ [f]" "script w' = []"
    "wf_filename f = n" "wf_user_id f = c_user ctx" "wf_version f = next_version existing"
    "wf_size_bytes f = so_size obj" "wf_supersedes_id f = map_option wf_id existing"
    "dict_get out ''version'' = Some (JInt (wf_version f))"
proof -
  obtain obj b where put: "put (c_user ctx) n (utf8_encode c) w = (Inr obj, w\<lparr>blobs := b\<rparr>)"
    using put_ok[OF assms(1,3)] by blast
  let ?w = "w\<lparr>blobs := b\<rparr>"
  have pre: "script ?w = []" "task_known ctx ?w" "existing = newest_of (c_user ctx) n (workspace_files ?w)"
    using assms(1,2,5) by (auto simp: task_known_def split: option.splits)
  obtain f where f: "save_output ctx n m existing obj ?w =
      (Inr f, ?w\<lparr>next_id := Suc (next_id ?w), workspace_files := workspace_files ?w @ [f]\<rparr>)"
    "wf_filename f = n" "wf_user_id f = c_user ctx" "wf_version f = next_version existing"
    "wf_size_bytes f = so_size obj" "wf_supersedes_id f = map_option wf_id existing"
    by (rule save_output_run[OF pre])
  let ?w2 = "?w\<lparr>next_id := Suc (next_id ?w), workspace_files := workspace_files ?w @ [f]\<rparr>"
  obtain js where js: "enqueue_embed_workspace_file cfg (wf_id f) c ?w2 = (Inr (), ?w2\<lparr>jobs := js\<rparr>)"
    using enqueue_run[of ?w2 cfg "wf_id f" c] assms(1) by auto
  let ?out = "[(''file_id'', JStr (uuid_text (wf_id f))), (''filename'', JStr (wf_filename f)),
             (''version'', JInt (wf_version f)), (''size_bytes'', JInt (wf_size_bytes f)),
             (''sha256'', opt_str (wf_sha256 f))]"
  have "write_new_version cfg so ctx n c (JStr m) existing w = (Inr ?out, ?w2\<lparr>jobs := js\<rparr>)"
    using put f(1) js assms(4)
    by (simp add: write_new_version_def value_error_as_tool_error_def bindE_def catchE_def liftE_def
        mime_param_def thenE_def ret_def)
  from that[OF this _ _ _ f(2-6)] show ?thesis using put assms(1) by simp
qed

lemma write_read:
  assumes "script w = []" and "task_known ctx w" and "accepts n" "n \<noteq> []" and "sg_put so = put" "sg_get so = get"
    and "newest_of (c_user ctx) n (workspace_files w) = None \<or> overwrite"
  shows "\<exists>out out2 w' v. write_doc_run cfg so ctx (doc_inputs n c overwrite) w = (Inr out, w') \<and>
     read_doc_run so ctx [(''filename'', JStr n)] w' = (Inr out2, w') \<and>
     dict_get out ''version'' = Some (JInt v) \<and> v = next_version (newest_of (c_user ctx) n (workspace_files w)) \<and>
     out2 = [(''filename'', JStr n), (''version'', JInt v),
             (''size_bytes'', JInt (int (length (utf8_encode c)))), (''text'', JStr c)]"
proof -
  let ?old = "newest_of (c_user ctx) n (workspace_files w)"
  obtain out f w' obj where run: "write_new_version cfg so ctx n c (JStr ''text/markdown'') ?old w = (Inr out, w')"
    and put: "put (c_user ctx) n (utf8_encode c) w = (Inr obj, w\<lparr>blobs := blobs w'\<rparr>)"
    and f: "workspace_files w' = workspace_files w @ [f]" "script w' = []"
    "wf_filename f = n" "wf_user_id f = c_user ctx" "wf_version f = next_version ?old"
    "wf_size_bytes f = so_size obj" "dict_get out ''version'' = Some (JInt (wf_version f))"
    by (rule write_new_version_run[OF assms(1,2,3,5) HOL.refl])
  have saved: "write_doc_run cfg so ctx (doc_inputs n c overwrite) w = (Inr out, w')"
    using run assms(1,4,7) by (cases ?old) (auto simp: write_doc_run_def get_latest_by_filename_def bindE_def)
  have new: "newest_of (c_user ctx) n (workspace_files w') = Some f"
    unfolding f(1) by (rule newest_of_append) (use f in auto)
  have size: "so_size obj = int (length (utf8_encode c))" using stored[OF assms(1) put] by blast
  have "get (c_user ctx) n w' = (Inr (utf8_encode c), w')"
    by (rule get_put[OF assms(1) put]) (use f(2) in auto)
  then have "read_doc_run so ctx [(''filename'', JStr n)] w' = (Inr [(''filename'', JStr n),
      (''version'', JInt (wf_version f)), (''size_bytes'', JInt (int (length (utf8_encode c)))), (''text'', JStr c)], w')"
    using new f size assms(4,6)
    by (simp add: read_doc_run_def filename_input_def text_input_def get_latest_by_filename_def bindE_def
        stored_bytes_def catchE_def ret_def)
  with saved f show ?thesis by auto
qed

end

subsection \<open>Chains of versions under racing writers\<close>

fun chain_from :: "int \<Rightarrow> uuid option \<Rightarrow> workspace_file list \<Rightarrow> bool" where
  "chain_from v prior [] = True"
| "chain_from v prior (f # fs) =
     (wf_version f = v \<and> wf_supersedes_id f = prior \<and> chain_from (v + 1) (Some (wf_id f)) fs)"

definition version_chain :: "workspace_file list \<Rightarrow> bool" where
  "version_chain fs \<longleftrightarrow> chain_from 1 None fs"

definition files_chain :: "workspace_file list \<Rightarrow> bool" where
  "files_chain fs \<longleftrightarrow> (\<forall>u n. version_chain (versions_of u n fs))"

text \<open>A row computed from a snapshot of the table, as every writer computes its row.\<close>

definition stale_write :: "workspace_file list \<Rightarrow> workspace_file \<Rightarrow> bool" where
  "stale_write snap f \<longleftrightarrow>
     (let newest = newest_of (wf_user_id f) (wf_filename f) snap
      in wf_version f = next_version newest \<and> wf_supersedes_id f = map_option wf_id newest)"

lemma chain_from_nth: "chain_from v p fs \<Longrightarrow> i < length fs \<Longrightarrow> wf_version (fs ! i) = v + int i"
  by (induction v p fs arbitrary: i rule: chain_from.induct) (auto simp: nth_Cons split: nat.splits)

lemma chain_from_append:
  "chain_from v p (fs @ [f]) \<longleftrightarrow> chain_from v p fs \<and> wf_version f = v + int (length fs) \<and>
     wf_supersedes_id f = (if fs = [] then p else Some (wf_id (last fs)))"
  by (induction v p fs rule: chain_from.induct) auto

lemma version_chain_nth:
  "version_chain fs \<Longrightarrow> i < length fs \<Longrightarrow> wf_version (fs ! i) = int (Suc i)"
  using chain_from_nth[of 1 None fs i] by (simp add: version_chain_def)

lemma chain_newest:
  assumes "version_chain (versions_of u n fs)"
  shows "newest_of u n fs = (if versions_of u n fs = [] then None else Some (last (versions_of u n fs)))"
proof (cases "newest_of u n fs")
  case None
  then show ?thesis by (simp add: newest_of_None)
next
  case (Some g)
  let ?vs = "versions_of u n fs"
  from newest_of_SomeD[OF Some] have g: "g \<in> set ?vs" "\<forall>x\<in>set ?vs. wf_version x \<le> wf_version g"
    by (auto simp: versions_of_def)
  then obtain i where i: "i < length ?vs" "g = ?vs ! i" by (metis in_set_conv_nth)
  then have ne: "?vs \<noteq> []" by auto
  then have last: "last ?vs = ?vs ! (length ?vs - 1)" by (rule last_conv_nth)
  have "wf_version (last ?vs) \<le> wf_version g" using g ne by (intro bspec[OF g(2)] last_in_set)
  then have "i = length ?vs - 1"
    using version_chain_nth[OF assms, of "length ?vs - 1"] version_chain_nth[OF assms i(1)] i ne last by simp
  then show ?thesis using Some i ne last by simp
qed

lemma chain_next_version:
  "version_chain (versions_of u n fs) \<Longrightarrow> next_version (newest_of u n fs) = int (Suc (length (versions_of u n fs)))"
  using version_chain_nth[of "versions_of u n fs" "length (versions_of u n fs) - 1"]
  by (cases "versions_of u n fs = []") (auto simp: chain_newest next_version_def last_conv_nth)

lemma version_chain_append:
  "version_chain fs \<Longrightarrow> wf_version f = int (Suc (length fs)) \<Longrightarrow>
     wf_supersedes_id f = (if fs = [] then None else Some (wf_id (last fs))) \<Longrightarrow> version_chain (fs @ [f])"
  by (simp add: version_chain_def chain_from_append)

lemma versions_of_append: "versions_of u n (fs @ gs) = versions_of u n fs @ versions_of u n gs"
  by (simp add: versions_of_def)

text \<open>The uniqueness of a version is all it takes: a row from a stale snapshot is refused by it.\<close>

lemma stale_insert:
  assumes "files_chain fs" and "prefix snap fs" and "files_chain snap" and "stale_write snap f"
  shows "files_chain (add_file f fs)"
proof -
  let ?u = "wf_user_id f" and ?n = "wf_filename f"
  let ?vs = "versions_of ?u ?n fs" and ?old = "versions_of ?u ?n snap"
  have chains: "version_chain ?vs" "version_chain ?old" using assms(1,3) by (auto simp: files_chain_def)
  have v: "wf_version f = int (Suc (length ?old))"
    using assms(4) chain_next_version[OF chains(2)] by (simp add: stale_write_def Let_def)
  obtain more where fs: "fs = snap @ more" using assms(2) by (auto simp: prefix_def)
  show ?thesis
  proof (cases "insert_file f fs")
    case None
    then show ?thesis using assms(1) by (simp add: add_file_def)
  next
    case (Some gs)
    then have gs: "gs = fs @ [f]" and fresh: "\<forall>g\<in>set fs. file_key g \<noteq> file_key f"
      by (auto simp: insert_file_def list_ex_iff split: if_splits)
    have "length ?vs \<le> length ?old"
    proof (rule ccontr)
      assume "\<not> length ?vs \<le> length ?old"
      then have i: "length ?old < length ?vs" by simp
      then have "wf_version (?vs ! length ?old) = wf_version f" using version_chain_nth[OF chains(1)] v by simp
      moreover have "?vs ! length ?old \<in> set ?vs" using i by simp
      ultimately show False using fresh by (fastforce simp: versions_of_def file_key_def)
    qed
    then have same: "?vs = ?old" by (simp add: fs versions_of_append)
    have "version_chain (?vs @ [f])"
      using assms(4) v chain_newest[OF chains(2)]
      by (intro version_chain_append chains) (auto simp: stale_write_def Let_def same)
    then have "version_chain (versions_of u n gs)" for u n
      using assms(1) by (cases "u = ?u \<and> n = ?n") (auto simp: gs files_chain_def versions_of_def)
    then show ?thesis using Some by (simp add: add_file_def files_chain_def)
  qed
qed

subsection \<open>Every writer keeps the chains\<close>

text \<open>
  \<open>polite\<close>: what other processes register while this one runs, they computed from a snapshot of the table
  taken before. \<open>tidy snap\<close>: the chains hold, the table extends the snapshot, the others are polite.
\<close>

definition polite_acts :: "env_action list \<Rightarrow> workspace_file list \<Rightarrow> bool" where
  "polite_acts acts fs \<longleftrightarrow> (\<forall>f. EnvRegisterFile f \<in> set acts \<longrightarrow>
     (\<exists>snap. prefix snap fs \<and> files_chain snap \<and> stale_write snap f))"

definition polite :: "world \<Rightarrow> bool" where
  "polite w \<longleftrightarrow> (\<forall>(acts, e)\<in>set (script w). polite_acts acts (workspace_files w))"

definition tidy :: "workspace_file list \<Rightarrow> world \<Rightarrow> bool" where
  "tidy snap w \<longleftrightarrow> files_chain (workspace_files w) \<and> prefix snap (workspace_files w) \<and> polite w"

interpretation tidy: world_order "\<lambda>w w'. tidy snap w \<longrightarrow> tidy snap w'" for snap
  by unfold_locales auto

lemma polite_acts_mono: "polite_acts acts fs \<Longrightarrow> prefix fs gs \<Longrightarrow> polite_acts acts gs"
  unfolding polite_acts_def by (meson prefix_order.trans)

lemma add_file_extends: "prefix fs (add_file f fs)"
  by (auto simp: add_file_def insert_file_def)

lemma tidy_extend:
  assumes "tidy snap w" and "files_chain fs" and "prefix (workspace_files w) fs" and "script w' = script w"
    and "workspace_files w' = fs"
  shows "tidy snap w'"
  using assms polite_acts_mono[OF _ assms(3)] unfolding tidy_def polite_def
  by (auto intro: prefix_order.trans)

lemma tidy_env:
  assumes "tidy snap w" and "polite_acts [a] (workspace_files w)"
  shows "tidy snap (env_apply a w) \<and> prefix (workspace_files w) (workspace_files (env_apply a w))"
proof (cases a)
  case (EnvRegisterFile f)
  then obtain s where "prefix s (workspace_files w)" "files_chain s" "stale_write s f"
    using assms(2) by (auto simp: polite_acts_def)
  then have "files_chain (add_file f (workspace_files w))"
    using assms(1) by (intro stale_insert) (auto simp: tidy_def)
  then show ?thesis
    using EnvRegisterFile add_file_extends by (auto intro: tidy_extend[OF assms(1)])
qed (auto intro!: tidy_extend[OF assms(1)] assms(1) simp: assms(1)[unfolded tidy_def])

lemma tidy_others:
  "tidy snap w \<Longrightarrow> polite_acts acts (workspace_files w) \<Longrightarrow> tidy snap (others acts w)"
proof (induction acts arbitrary: w)
  case (Cons a acts)
  have "polite_acts [a] (workspace_files w)" using Cons.prems(2) by (simp add: polite_acts_def)
  note step = tidy_env[OF Cons.prems(1) this]
  have "polite_acts acts (workspace_files w)" using Cons.prems(2) by (simp add: polite_acts_def)
  then have "polite_acts acts (workspace_files (env_apply a w))" using polite_acts_mono step by blast
  with Cons.IH step show ?case by (simp add: others_def)
qed simp

lemma tidy_stmt:
  assumes "\<And>v. tidy snap v \<Longrightarrow> tidy snap (snd (f v))" shows "keeps (\<lambda>w w'. tidy snap w \<longrightarrow> tidy snap w') (stmt f)"
  unfolding keeps_def
proof (intro allI impI)
  fix w assume w: "tidy snap w"
  show "tidy snap (snd (stmt f w))"
  proof (cases "script w")
    case Nil
    then show ?thesis using assms w by simp
  next
    case (Cons x rest)
    obtain acts failure where x: "x = (acts, failure)" by (cases x)
    have "tidy snap (w\<lparr>script := rest\<rparr>)" using w Cons by (auto simp: tidy_def polite_def)
    moreover have "polite_acts acts (workspace_files (w\<lparr>script := rest\<rparr>))"
      using w Cons x by (auto simp: tidy_def polite_def)
    ultimately have "tidy snap (others acts (w\<lparr>script := rest\<rparr>))" by (rule tidy_others)
    then show ?thesis using assms by (cases failure) (auto simp: stmt_def Cons x Let_def)
  qed
qed

lemma tidy_same: "workspace_files w' = workspace_files w \<Longrightarrow> script w' = script w \<Longrightarrow> tidy snap w \<Longrightarrow> tidy snap w'"
  by (auto simp: tidy_def polite_def)

lemma tidy_put: "keeps (\<lambda>w w'. tidy snap w \<longrightarrow> tidy snap w') (local_put sha u f d)"
  unfolding local_put_def by (intro tidy.bind tidy.lift tidy_stmt) (auto elim!: tidy_same[rotated 2])

lemma tidy_enqueue: "keeps (\<lambda>w w'. tidy snap w \<longrightarrow> tidy snap w') (enqueue cfg j)"
  unfolding enqueue_def add_job_def
  by (intro tidy.if_ tidy_stmt tidy.modify) (auto elim!: tidy_same[rotated 2])

text \<open>The registration of a row computed from the snapshot.\<close>

lemma tidy_register:
  assumes "files_chain snap" and "version = next_version (newest_of u n snap)"
    and "supersedes = map_option wf_id (newest_of u n snap)"
  shows "keeps (\<lambda>w w'. tidy snap w \<longrightarrow> tidy snap w') (register_file u src n url sz mime sha tid supersedes version)"
  unfolding register_file_def
proof (rule tidy_stmt)
  fix v assume v: "tidy snap v"
  let ?f = "new_file v u src n url sz mime sha tid supersedes version"
  have "stale_write snap ?f" using assms(2,3) by (simp add: stale_write_def new_file_def)
  then have chain: "files_chain (add_file ?f (workspace_files v))"
    using v assms(1) by (intro stale_insert) (auto simp: tidy_def)
  have ext: "tidy snap (v\<lparr>next_id := i, workspace_files := fs\<rparr>)" if "insert_file ?f (workspace_files v) = Some fs" for fs i
    using that chain add_file_extends[of "workspace_files v" ?f]
    by (intro tidy_extend[OF v]) (auto simp: add_file_def)
  show "tidy snap (snd (let f = ?f in if tid \<noteq> None \<and> task_lookup (the tid) v = None
     then (Inl (DbError ''task_id violates foreign key''), v)
     else case insert_file f (workspace_files v) of
       None \<Rightarrow> (Inl (DbError (''duplicate key value violates unique constraint '' @
                  ''workspace_files_user_id_filename_version_key'')), v)
     | Some fs \<Rightarrow> (Inr f, v\<lparr>next_id := Suc (next_id v), workspace_files := fs\<rparr>)))"
    using v ext by (auto simp: Let_def split: option.splits)
qed

lemma tidy_read:
  assumes "bindE (stmt (getsE f)) k w = (r, w')" and "tidy [] w"
    and "\<And>v. tidy (workspace_files v) v \<Longrightarrow> keeps (\<lambda>w w'. tidy (workspace_files v) w \<longrightarrow> tidy (workspace_files v) w') (k (f v))"
  shows "files_chain (workspace_files w')"
  using assms(1)
proof (cases rule: bindE_cases)
  case (exn e)
  have "tidy [] w'"
    using keepsD[OF tidy_stmt[of "[]" "getsE f"] exn(1)] assms(2) by auto
  then show ?thesis by (simp add: tidy_def)
next
  case (val x v0)
  have v0: "tidy [] v0" using keepsD[OF tidy_stmt[of "[]" "getsE f"] val(1)] assms(2) by auto
  have x: "x = f v0"
    using val(1) by (auto simp: stmt_def Let_def split: list.splits option.splits)
  have "tidy (workspace_files v0) v0" using v0 by (simp add: tidy_def)
  then show ?thesis using keepsD[OF assms(3) val(2)[unfolded x]] by (auto simp: tidy_def)
qed

lemma tidy_new_version:
  assumes "files_chain snap" and "existing = newest_of (c_user ctx) n snap"
  shows "keeps (\<lambda>w w'. tidy snap w \<longrightarrow> tidy snap w')
     (write_new_version cfg (local_storage sha) ctx n c mime existing)"
proof -
  have put: "keeps (\<lambda>w w'. tidy snap w \<longrightarrow> tidy snap w')
      (value_error_as_tool_error (sg_put (local_storage sha) u n d))" for u d
    unfolding value_error_as_tool_error_def
    by (intro tidy.catch) (auto simp: local_storage_def tidy_put tidy.raise split: exn.splits)
  show ?thesis
    unfolding write_new_version_def save_output_def enqueue_embed_workspace_file_def
    by (intro tidy.bind tidy.lift tidy.andThen tidy.ret tidy_enqueue put tidy_register[OF assms(1)])
      (simp_all add: assms(2))
qed

end
