(* ===== verification/Workspace_Routes.thy ===== *)
theory Workspace_Routes
  imports Signing Workspace_Props
begin

section \<open>The HTTP interface of the workspace\<close>

text \<open>
  \<open>src/wolfpaw/workspace/routes.py\<close>: the handlers, with the user the session authenticated as an argument
  and \<open>HTTPException\<close> as an exception; parsing of requests is the framework's. The blob routes are the
  ones the tokens of \<open>Signing\<close> open.
\<close>

definition file_response :: "(time \<Rightarrow> pystr) \<Rightarrow> workspace_file \<Rightarrow> dict" where
  "file_response date f =
     [(''id'', JStr (uuid_text (wf_id f))), (''filename'', JStr (wf_filename f)),
      (''mime_type'', opt_str (wf_mime_type f)), (''size_bytes'', JInt (wf_size_bytes f)),
      (''version'', JInt (wf_version f)), (''source'', JStr (WORKSPACE_SOURCE (wf_source f))),
      (''sha256'', opt_str (wf_sha256 f)), (''created_at'', JStr (date (wf_created_at f)))]"

definition list_files_route :: "(time \<Rightarrow> pystr) \<Rightarrow> uuid \<Rightarrow> dict act" where
  "list_files_route date user = bindE (list_latest user) (\<lambda>fs.
     ret [(''files'', JArr (map (\<lambda>f. JObj (file_response date f)) fs))])"

definition upload_url_route ::
  "keyed_hash \<Rightarrow> local_config \<Rightarrow> uuid \<Rightarrow> pystr \<Rightarrow> int option \<Rightarrow> signed_url act" where
  "upload_url_route hmac cfg user filename max_bytes =
     catchE (issue_upload_url hmac cfg user filename max_bytes) (\<lambda>e. case e of
       ValueError s \<Rightarrow> raise (HTTPException 400 s) | _ \<Rightarrow> raise e)"

definition register_file_route ::
  "storage \<Rightarrow> (time \<Rightarrow> pystr) \<Rightarrow> uuid \<Rightarrow> pystr \<Rightarrow> int \<Rightarrow> pystr option \<Rightarrow> pystr option \<Rightarrow> dict act" where
  "register_file_route so date user filename nbytes mime sha =
     bindE (sg_exists so user filename) (\<lambda>found.
     if \<not> found then raise (HTTPException 409 (''no bytes found in storage for '' @ py_repr filename))
     else bindE (get_latest_by_filename user filename) (\<lambda>latest.
          bindE (register_file user UserUpload filename
                   (sg_name so @ ''://'' @ uuid_hex user @ ''/'' @ filename) nbytes mime sha None
                   (map_option wf_id latest) (next_version latest)) (\<lambda>f.
            ret (file_response date f))))"

definition download_url_route :: "keyed_hash \<Rightarrow> local_config \<Rightarrow> uuid \<Rightarrow> uuid \<Rightarrow> (pystr \<times> int) act" where
  "download_url_route hmac cfg user file_id =
     bindE (get_file_by_id user file_id) (\<lambda>found. case found of
       None \<Rightarrow> raise (HTTPException 404 ''file not found'')
     | Some f \<Rightarrow> bindE (issue_download_url hmac cfg user (wf_filename f)) (\<lambda>signed.
         ret (su_url signed, su_expires signed)))"

subsection \<open>The blob routes\<close>

definition verify_blob_token :: "keyed_hash \<Rightarrow> local_config \<Rightarrow> pystr \<Rightarrow> pystr \<Rightarrow> token_payload act" where
  "verify_blob_token hmac cfg token expected =
     bindE (getsE unix_now) (\<lambda>t. case verify_token hmac (lc_secret cfg) t token of
       Inl e \<Rightarrow> raise (HTTPException 403 (''invalid token: '' @ exn_str e))
     | Inr p \<Rightarrow>
         if tp_op p \<noteq> JStr expected
         then raise (HTTPException 403 (''token op mismatch: got '' @ json_repr (tp_op p)))
         else ret p)"

text \<open>A signed name is always a text; anything else fails in the storage.\<close>

definition payload_name :: "token_payload \<Rightarrow> exn + pystr" where
  "payload_name p = (case as_str (tp_filename p) of
     Some n \<Rightarrow> Inr n | None \<Rightarrow> Inl (OtherError ''argument is not a string''))"

definition blob_upload ::
  "keyed_hash \<Rightarrow> local_config \<Rightarrow> storage \<Rightarrow> pystr \<Rightarrow> bytes \<Rightarrow> unit act" where
  "blob_upload hmac cfg so token body =
     bindE (verify_blob_token hmac cfg token ''upload'') (\<lambda>p.
     if tp_max p \<noteq> 0 \<and> int (length body) > tp_max p
     then raise (HTTPException 413 ''upload exceeds max_bytes'')
     else bindE (liftE (payload_name p)) (\<lambda>n.
          bindE (sg_put so (tp_user p) n body) (\<lambda>_. ret ())))"

definition blob_download :: "keyed_hash \<Rightarrow> local_config \<Rightarrow> storage \<Rightarrow> pystr \<Rightarrow> bytes act" where
  "blob_download hmac cfg so token =
     bindE (verify_blob_token hmac cfg token ''download'') (\<lambda>p.
     bindE (liftE (payload_name p)) (\<lambda>n.
       catchE (sg_get so (tp_user p) n) (\<lambda>e. case e of
         FileNotFoundError _ \<Rightarrow> raise (HTTPException 404 ''file not found'') | _ \<Rightarrow> raise e)))"

subsection \<open>What a token opens\<close>

lemma verify_blob_token_run:
  assumes "verify_blob_token hmac cfg token oper w = (Inr p, w')"
  shows "w' = w" "verify_token hmac (lc_secret cfg) (unix_now w) token = Inr p" "tp_op p = JStr oper"
  using assms unfolding verify_blob_token_def
  by (auto simp: bindE_def ret_def raise_def split: sum.splits if_splits)

lemma verify_blob_token_fail:
  assumes "verify_blob_token hmac cfg token oper w = (Inl e, w')" shows "w' = w"
  using assms unfolding verify_blob_token_def
  by (auto simp: bindE_def ret_def raise_def split: sum.splits if_splits)

text \<open>A token the server minted opens the route it was minted for.\<close>

lemma upload_run:
  assumes "script w = []" and "valid_uuid user" and "validate_filename n = Inr t" and "unix_now w < e"
    and "limit = 0 \<or> int (length body) \<le> limit"
  shows "blob_upload hmac cfg (local_storage sha) (mint_token hmac (lc_secret cfg)
      \<lparr> tp_user = user, tp_filename = JStr n, tp_op = JStr ''upload'', tp_max = limit, tp_exp = e \<rparr>) body w =
    (Inr (), w\<lparr>blobs := AList.update (user, n) body (blobs w)\<rparr>)"
proof -
  let ?p = "\<lparr> tp_user = user, tp_filename = JStr n, tp_op = JStr ''upload'', tp_max = limit, tp_exp = e \<rparr>"
  have "verify_token hmac (lc_secret cfg) (unix_now w) (mint_token hmac (lc_secret cfg) ?p) = Inr ?p"
    by (rule mint_then_verify) (use assms in simp_all)
  then show ?thesis
    using local_put_run[OF assms(1,3), of sha user body] assms(5)
    by (auto simp: blob_upload_def verify_blob_token_def bindE_def payload_name_def local_storage_def ret_def)
qed

lemma download_run:
  assumes "script w = []" and "valid_uuid user" and "validate_filename n = Inr t" and "unix_now w < e"
    and "blobs w = AList.update (user, n) body old"
  shows "blob_download hmac cfg (local_storage sha) (mint_token hmac (lc_secret cfg)
      \<lparr> tp_user = user, tp_filename = JStr n, tp_op = JStr ''download'', tp_max = 0, tp_exp = e \<rparr>) w = (Inr body, w)"
proof -
  let ?p = "\<lparr> tp_user = user, tp_filename = JStr n, tp_op = JStr ''download'', tp_max = 0, tp_exp = e \<rparr>"
  have "verify_token hmac (lc_secret cfg) (unix_now w) (mint_token hmac (lc_secret cfg) ?p) = Inr ?p"
    by (rule mint_then_verify) (use assms in simp_all)
  moreover have "local_get user n w = (Inr body, w)"
    using assms(1,3,5) by (simp add: local_get_def bindE_def ret_def update_conv)
  ultimately show ?thesis
    by (simp add: blob_download_def verify_blob_token_def bindE_def payload_name_def local_storage_def
        catchE_def ret_def)
qed

text \<open>C28: Bytes reach the disk through the upload route only by a token signed with the server's secret: the
  request leaves every stored byte as it was, or it stores exactly the body, under the user and the file name
  of the token, which is unexpired, made for an upload, and whose limit (when it has one) the body respects.\<close>

theorem uploads_are_signed:
  assumes "script w = []" and "blob_upload hmac cfg (local_storage sha) token body w = (r, w')"
  shows "w' = w \<or> (\<exists>p n signed.
     verify_token hmac (lc_secret cfg) (unix_now w) token = Inr p \<and>
     token_parts token = Some (signed, hmac (lc_secret cfg) signed) \<and>
     Option.bind (Option.bind (utf8_decode signed) loads) payload_of = Some p \<and>
     tp_op p = JStr ''upload'' \<and> unix_now w < tp_exp p \<and> tp_filename p = JStr n \<and> accepted n \<and>
     (tp_max p = 0 \<or> int (length body) \<le> tp_max p) \<and>
     w' = w\<lparr>blobs := AList.update (tp_user p, n) body (blobs w)\<rparr>)"
  using assms(2) unfolding blob_upload_def
proof (cases rule: bindE_cases)
  case (exn e)
  then show ?thesis using verify_blob_token_fail by blast
next
  case (val p u)
  note tok = verify_blob_token_run[OF val(1)]
  from verified_token[OF tok(2)] obtain signed sig where sig: "token_parts token = Some (signed, sig)"
    "hmac (lc_secret cfg) signed = sig" "Option.bind (Option.bind (utf8_decode signed) loads) payload_of = Some p"
    "unix_now w < tp_exp p" by metis
  show ?thesis
  proof (cases "tp_max p \<noteq> 0 \<and> int (length body) > tp_max p")
    case True
    then show ?thesis using val(2) tok(1) by (simp add: raise_def)
  next
    case False
    show ?thesis
    proof (cases "tp_filename p")
      case (JStr n)
      show ?thesis
      proof (cases "validate_filename n")
        case (Inl e)
        then show ?thesis
          using val(2) False tok(1) JStr
          by (auto simp: payload_name_def local_storage_def local_put_def bindE_def raise_def)
      next
        case (Inr t)
        then have "w' = w\<lparr>blobs := AList.update (tp_user p, n) body (blobs w)\<rparr>"
          using val(2) False tok(1) JStr local_put_run[OF assms(1) Inr]
          by (simp add: payload_name_def local_storage_def bindE_def ret_def)
        moreover have "accepted n" using Inr by (simp add: accepted_def)
        moreover have "tp_max p = 0 \<or> int (length body) \<le> tp_max p" using False by auto
        ultimately show ?thesis using tok sig JStr by blast
      qed
    qed (use val(2) False tok(1) in \<open>auto simp: payload_name_def bindE_def raise_def\<close>)
  qed
qed

text \<open>C29: The whole transfer works: with the URL the server signed for an upload, a body within the limit is
  accepted, and with the URL it then signs for a download the very same bytes come back.\<close>

theorem upload_then_download:
  assumes "script w = []" and "valid_uuid user" and "accepted n" and "0 < lc_ttl cfg"
    and "limit = (case max_bytes of None \<Rightarrow> lc_max_bytes cfg | Some m \<Rightarrow> m)"
    and "limit = 0 \<or> int (length body) \<le> limit"
  shows "\<exists>up down up_token down_token w1.
     issue_upload_url hmac cfg user n max_bytes w = (Inr up, w) \<and>
     su_url up = blob_url cfg ''upload'' up_token \<and>
     blob_upload hmac cfg (local_storage sha) up_token body w = (Inr (), w1) \<and>
     issue_download_url hmac cfg user n w1 = (Inr down, w1) \<and>
     su_url down = blob_url cfg ''download'' down_token \<and>
     blob_download hmac cfg (local_storage sha) down_token w1 = (Inr body, w1)"
proof -
  let ?e = "unix_now w + lc_ttl cfg"
  let ?up = "\<lparr> tp_user = user, tp_filename = JStr n, tp_op = JStr ''upload'', tp_max = limit, tp_exp = ?e \<rparr>"
  let ?down = "\<lparr> tp_user = user, tp_filename = JStr n, tp_op = JStr ''download'', tp_max = 0, tp_exp = ?e \<rparr>"
  obtain t where name: "validate_filename n = Inr t" using assms(3) by (auto simp: accepted_def split: sum.splits)
  have live: "unix_now w < ?e" using assms(4) by simp
  let ?w1 = "w\<lparr>blobs := AList.update (user, n) body (blobs w)\<rparr>"
  have sent: "blob_upload hmac cfg (local_storage sha) (mint_token hmac (lc_secret cfg) ?up) body w = (Inr (), ?w1)"
    by (rule upload_run[OF assms(1,2) name live assms(6)])
  have got: "blob_download hmac cfg (local_storage sha) (mint_token hmac (lc_secret cfg) ?down) ?w1 = (Inr body, ?w1)"
    by (rule download_run[where t = t and old = "blobs w"]) (use assms(1,2) name live in \<open>simp_all add: unix_now_def\<close>)
  have urls: "issue_upload_url hmac cfg user n max_bytes w =
      (Inr \<lparr> su_url = blob_url cfg ''upload'' (mint_token hmac (lc_secret cfg) ?up),
             su_headers = [(''content-type'', JStr ''application/octet-stream'')],
             su_max_bytes = limit, su_expires = ?e \<rparr>, w)"
    "issue_download_url hmac cfg user n ?w1 =
      (Inr \<lparr> su_url = blob_url cfg ''download'' (mint_token hmac (lc_secret cfg) ?down), su_headers = [],
             su_max_bytes = 0, su_expires = ?e \<rparr>, ?w1)"
    using name assms(5) by (simp_all add: issue_upload_url_def issue_download_url_def bindE_def Let_def ret_def
        unix_now_def)
  show ?thesis using urls sent got by fastforce
qed

subsection \<open>Witnesses\<close>

definition plain_hash :: keyed_hash where
  "plain_hash secret body = secret @ body"

definition sample_local :: local_config where
  "sample_local = \<lparr> lc_base_url = ''http://localhost'', lc_secret = [1, 2], lc_ttl = 600, lc_max_bytes = 10 \<rparr>"

definition sample_sha :: "bytes \<Rightarrow> pystr" where
  "sample_sha data = show_nat (length data)"

definition sample_upload :: token_payload where
  "sample_upload = \<lparr> tp_user = Uuid 5, tp_filename = JStr ''a.md'', tp_op = JStr ''upload'', tp_max = 10, tp_exp = 600 \<rparr>"

lemma sample_name: "validate_filename ''a.md'' = Inr ''a.md''" "accepted ''a.md''"
  by code_simp+

lemma sample_upload_run:
  "blob_upload plain_hash sample_local (local_storage sample_sha) (mint_token plain_hash [1, 2] sample_upload)
     [7, 8] empty_world =
   (Inr (), empty_world\<lparr>blobs := AList.update (Uuid 5, ''a.md'') [7, 8] (blobs empty_world)\<rparr>)"
  using upload_run[of empty_world "Uuid 5" "''a.md''" "''a.md''" 600 10 "[7, 8]" plain_hash sample_local sample_sha]
    sample_name(1)
  by (simp add: sample_upload_def sample_local_def empty_world_def valid_uuid_def unix_now_def)

lemma uploads_are_signed_witness:
  "\<exists>p n. verify_token plain_hash [1, 2] 0 (mint_token plain_hash [1, 2] sample_upload) = Inr p \<and>
     tp_op p = JStr ''upload'' \<and> tp_filename p = JStr n \<and> (tp_max p = 0 \<or> 2 \<le> tp_max p) \<and>
     snd (blob_upload plain_hash sample_local (local_storage sample_sha)
       (mint_token plain_hash [1, 2] sample_upload) [7, 8] empty_world) =
     empty_world\<lparr>blobs := AList.update (tp_user p, n) [7, 8] (blobs empty_world)\<rparr>"
proof -
  let ?w = "empty_world\<lparr>blobs := AList.update (Uuid 5, ''a.md'') [7, 8] (blobs empty_world)\<rparr>"
  have facts: "script empty_world = []" "unix_now empty_world = 0" "lc_secret sample_local = [1, 2]"
    by (simp_all add: empty_world_def unix_now_def sample_local_def)
  have "blobs ?w \<noteq> blobs empty_world" by (simp add: empty_world_def)
  then have "?w \<noteq> empty_world" by metis
  with uploads_are_signed[OF facts(1) sample_upload_run] obtain p n where
    "verify_token plain_hash (lc_secret sample_local) (unix_now empty_world)
       (mint_token plain_hash [1, 2] sample_upload) = Inr p"
    "tp_op p = JStr ''upload''" "tp_filename p = JStr n"
    "tp_max p = 0 \<or> int (length [7, 8 :: byte]) \<le> tp_max p"
    "?w = empty_world\<lparr>blobs := AList.update (tp_user p, n) [7, 8] (blobs empty_world)\<rparr>" by blast
  then show ?thesis unfolding sample_upload_run snd_conv facts by (intro exI[of _ p] exI[of _ n]) simp
qed

lemma upload_then_download_witness:
  "\<exists>up_token down_token w1.
     blob_upload plain_hash sample_local (local_storage sample_sha) up_token [7, 8] empty_world = (Inr (), w1) \<and>
     blob_download plain_hash sample_local (local_storage sample_sha) down_token w1 = (Inr [7, 8], w1)"
proof -
  have "script empty_world = []" "valid_uuid (Uuid 5)" "0 < lc_ttl sample_local"
    "(10::int) = (case None of None \<Rightarrow> lc_max_bytes sample_local | Some m \<Rightarrow> m)"
    "(10::int) = 0 \<or> int (length [7, 8 :: byte]) \<le> 10"
    by (simp_all add: empty_world_def valid_uuid_def sample_local_def)
  from upload_then_download[OF this(1,2) sample_name(2) this(3,4,5)] show ?thesis by blast
qed

end
