(* ===== verification/Sandbox_Tools.thy ===== *)
theory Sandbox_Tools
  imports Workspace_Files Json_Reader
begin

section \<open>The tools on the task's sandbox\<close>

text \<open>
  \<open>src/wolfpaw/sandbox/base.py\<close> (what a provider offers), the tools \<open>run_python\<close>, \<open>install_package\<close>,
  \<open>sandbox_read_file\<close> and \<open>sandbox_write_file\<close>, and \<open>_dynamic_user_tool.py\<close>, the adapter that runs a tool
  the user approved. The provider is the parameter \<open>sandbox_ops\<close>; the sandbox of the task comes from the
  manager of \<open>Stores\<close>. Seconds are measured in microseconds; the text of a JSON error is abbreviated.
\<close>

record code_result =
  cr_stdout :: pystr
  cr_stderr :: pystr
  cr_exit_code :: int
  cr_elapsed :: time
  cr_timed_out :: bool

record install_result =
  in_package :: pystr
  in_ok :: bool
  in_log :: pystr

record sandbox_ops =
  sx_run :: "live_sandbox \<Rightarrow> pystr \<Rightarrow> int option \<Rightarrow> code_result act"
  sx_install :: "live_sandbox \<Rightarrow> pystr \<Rightarrow> install_result act"
  sx_read :: "live_sandbox \<Rightarrow> pystr \<Rightarrow> bytes act"
  sx_write :: "live_sandbox \<Rightarrow> pystr \<Rightarrow> bytes \<Rightarrow> unit act"

definition seconds_json :: "time \<Rightarrow> json" where
  "seconds_json t = normal_float t 6"

text \<open>\<open>f"{t:.1f}s"\<close>.\<close>

definition seconds_text :: "time \<Rightarrow> pystr" where
  "seconds_text t = show_float (round_half_even t 100000) 1 @ ''s''"

subsection \<open>The four tools\<close>

definition timeout_input :: "dict \<Rightarrow> exn + int option" where
  "timeout_input inputs = (let t = get_default inputs ''timeout_seconds'' JNull in
     if truthy t then (case py_int t of Inl e \<Rightarrow> Inl e | Inr n \<Rightarrow> Inr (Some n)) else Inr None)"

definition run_python_run :: "backend \<Rightarrow> sandbox_ops \<Rightarrow> tool_ctx \<Rightarrow> dict \<Rightarrow> dict act" where
  "run_python_run b ops ctx inputs =
     (case text_input inputs ''code'' of
        None \<Rightarrow> raise (ToolError ''`code` must be a non-empty string'')
      | Some body \<Rightarrow>
          if strip body = [] then raise (ToolError ''`code` must be a non-empty string'')
          else bindE (sandbox_get b (c_user ctx) (c_task ctx)) (\<lambda>sb.
               bindE (liftE (timeout_input inputs)) (\<lambda>timeout.
               bindE (sx_run ops sb body timeout) (\<lambda>r.
                 ret [(''stdout'', JStr (cr_stdout r)), (''stderr'', JStr (cr_stderr r)),
                      (''exit_code'', JInt (cr_exit_code r)), (''elapsed_seconds'', seconds_json (cr_elapsed r)),
                      (''timed_out'', JBool (cr_timed_out r))]))))"

text \<open>\<open>_PACKAGE_RE\<close>: a name, extras in brackets, a version constraint. No part can be read in two ways.\<close>

definition package_char :: "char \<Rightarrow> bool" where
  "package_char c \<longleftrightarrow> is_upper c \<or> is_lower c \<or> is_digit c \<or> c \<in> {CHR ''_'', CHR ''.'', CHR ''-''}"

definition drop_extras :: "pystr \<Rightarrow> pystr option" where
  "drop_extras s = (case s of
     c # t \<Rightarrow> if c = CHR 0x5B
       then (let es = takeWhile (\<lambda>d. package_char d \<or> d = CHR '','') t; u = drop (length es) t in
             if es \<noteq> [] \<and> starts_with [CHR 0x5D] u then Some (drop 1 u) else None)
       else Some s
   | [] \<Rightarrow> Some [])"

definition constraint_ok :: "pystr \<Rightarrow> bool" where
  "constraint_ok s = (s = [] \<or> s = [newline] \<or> (case s of
     c # t \<Rightarrow> c \<in> {CHR ''<'', CHR ''>'', CHR ''='', CHR ''!'', CHR 0x7E} \<and>
       (let u = (if starts_with ''='' t then drop 1 t else t); vs = takeWhile package_char u
        in vs \<noteq> [] \<and> drop (length vs) u \<in> {[], [newline]})
   | [] \<Rightarrow> True))"

definition package_ok :: "pystr \<Rightarrow> bool" where
  "package_ok s = (let name = takeWhile package_char s in
     name \<noteq> [] \<and> (case drop_extras (drop (length name) s) of None \<Rightarrow> False | Some r \<Rightarrow> constraint_ok r))"

definition install_package_run :: "backend \<Rightarrow> sandbox_ops \<Rightarrow> tool_ctx \<Rightarrow> dict \<Rightarrow> dict act" where
  "install_package_run b ops ctx inputs =
     (case text_input inputs ''package'' of
        None \<Rightarrow> raise (ToolError ''`package` must be a valid PyPI distribution spec'')
      | Some package \<Rightarrow>
          if \<not> package_ok package then raise (ToolError ''`package` must be a valid PyPI distribution spec'')
          else bindE (sandbox_get b (c_user ctx) (c_task ctx)) (\<lambda>sb.
               bindE (sx_install ops sb package) (\<lambda>r.
                 ret [(''package'', JStr (in_package r)), (''ok'', JBool (in_ok r)), (''log'', JStr (in_log r))])))"

definition path_input :: "dict \<Rightarrow> exn + pystr" where
  "path_input inputs = (case text_input inputs ''path'' of
     Some p \<Rightarrow> if p = [] then Inl (ToolError ''`path` must be a non-empty string'') else Inr p
   | None \<Rightarrow> Inl (ToolError ''`path` must be a non-empty string''))"

text \<open>\<open>try: sandbox.read_file(path) except FileNotFoundError: raise ToolError(...)\<close>.\<close>

definition read_or :: "sandbox_ops \<Rightarrow> live_sandbox \<Rightarrow> pystr \<Rightarrow> pystr \<Rightarrow> bytes act" where
  "read_or ops sb path msg = catchE (sx_read ops sb path) (\<lambda>e. case e of
     FileNotFoundError _ \<Rightarrow> raise (ToolError msg) | _ \<Rightarrow> raise e)"

definition sandbox_read_file_run :: "backend \<Rightarrow> sandbox_ops \<Rightarrow> tool_ctx \<Rightarrow> dict \<Rightarrow> dict act" where
  "sandbox_read_file_run b ops ctx inputs =
     bindE (liftE (path_input inputs)) (\<lambda>path.
     bindE (sandbox_get b (c_user ctx) (c_task ctx)) (\<lambda>sb.
     bindE (read_or ops sb path (''no such file in sandbox: '' @ path)) (\<lambda>data.
     case utf8_decode data of
       None \<Rightarrow> raise (ToolError (py_repr path @ '' is not UTF-8 text; use `run_python` for binary I/O''))
     | Some body \<Rightarrow> ret [(''path'', JStr path), (''size_bytes'', JInt (int (length data))), (''text'', JStr body)])))"

definition sandbox_write_file_run :: "backend \<Rightarrow> sandbox_ops \<Rightarrow> tool_ctx \<Rightarrow> dict \<Rightarrow> dict act" where
  "sandbox_write_file_run b ops ctx inputs =
     bindE (liftE (path_input inputs)) (\<lambda>path.
     case text_input inputs ''content'' of
       None \<Rightarrow> raise (ToolError ''`content` must be a string'')
     | Some content \<Rightarrow>
         bindE (sandbox_get b (c_user ctx) (c_task ctx)) (\<lambda>sb.
         thenE (sx_write ops sb path (utf8_encode content))
           (ret [(''path'', JStr path), (''size_bytes'', JInt (int (length (utf8_encode content))))])))"

subsection \<open>\<open>textwrap.dedent\<close>\<close>

text \<open>Lines of blanks and tabs only are emptied; the longest common margin of the others is removed.\<close>

definition margin_char :: "char \<Rightarrow> bool" where
  "margin_char c \<longleftrightarrow> c = CHR '' '' \<or> c = CHR 0x09"

definition margins :: "pystr list \<Rightarrow> pystr list" where
  "margins ls = map (takeWhile margin_char) (filter (\<lambda>l. l \<noteq> []) ls)"

definition common_margin :: "pystr list \<Rightarrow> pystr" where
  "common_margin ms = (case ms of [] \<Rightarrow> [] | m # rest \<Rightarrow> fold (\<lambda>a b. longest_common_prefix b a) rest m)"

definition dedent :: "pystr \<Rightarrow> pystr" where
  "dedent s =
     (let ls = map (\<lambda>l. if list_all margin_char l then [] else l) (split_on newline s);
          m = common_margin (margins ls)
      in lines_of (map (\<lambda>l. if starts_with m l then drop (length m) l else l) ls))"

subsection \<open>A user's tool\<close>

definition wrapper_script :: "pystr \<Rightarrow> pystr" where
  "wrapper_script implementation = lines_of
     [''import json'', [],
      ''with open('' @ py_repr ''inputs.json'' @ '', '' @ [dquote] @ ''r'' @ [dquote] @ '') as _fh:'',
      ''    inputs = json.load(_fh)'', [],
      ''result = None'', [],
      ''# --- user implementation begins ---'',
      rstrip (dedent implementation),
      ''# --- user implementation ends ---'', [],
      ''if result is None:'',
      ''    raise SystemExit('',
      ''        '' @ [dquote] @ ''user-tool implementation did not set `result`'' @ [dquote],
      ''    )'', [],
      ''with open('' @ py_repr ''output.json'' @ '', '' @ [dquote] @ ''w'' @ [dquote] @ '') as _fh:'',
      ''    json.dump(result, _fh, default=str)'', []]"

definition dynamic_schema :: "user_tool \<Rightarrow> dict" where
  "dynamic_schema t = (if ut_signature t \<noteq> [] then ut_signature t
     else [(''type'', JStr ''object''), (''properties'', JObj [])])"

text \<open>\<open>stderr.strip() or stdout.strip() or "no output"\<close>.\<close>

definition run_output :: "code_result \<Rightarrow> pystr" where
  "run_output r = (if strip (cr_stderr r) \<noteq> [] then strip (cr_stderr r)
     else if strip (cr_stdout r) \<noteq> [] then strip (cr_stdout r) else ''no output'')"

definition check_run :: "pystr \<Rightarrow> pystr \<Rightarrow> code_result \<Rightarrow> unit act" where
  "check_run timed_out failed r =
     (if cr_timed_out r then raise (ToolError (timed_out @ seconds_text (cr_elapsed r)))
      else if cr_exit_code r \<noteq> 0
      then raise (ToolError (failed @ '' (exit_code='' @ show_int (cr_exit_code r) @ ''): '' @ run_output r))
      else ret ())"

definition json_output :: "pystr \<Rightarrow> bytes \<Rightarrow> exn + json" where
  "json_output what data = (case Option.bind (utf8_decode data) loads of
     None \<Rightarrow> Inl (ToolError (what @ '' wrote non-JSON output''))
   | Some j \<Rightarrow> Inr j)"

definition dynamic_tool_run :: "backend \<Rightarrow> sandbox_ops \<Rightarrow> user_tool \<Rightarrow> tool_ctx \<Rightarrow> dict \<Rightarrow> json act" where
  "dynamic_tool_run b ops t ctx inputs =
     (let what = ''user-tool '' @ py_repr (ut_name t) in
      if c_task ctx = None
      then raise (ToolError (what @ '' requires a Task context '' @ [em_dash] @ '' the'' @
             '' Executor only dispatches it inside a task pipeline.''))
      else bindE (sandbox_get b (c_user ctx) (c_task ctx)) (\<lambda>sb.
           thenE (sx_write ops sb ''inputs.json'' (utf8_encode (dumps (JObj inputs))))
          (bindE (sx_run ops sb (wrapper_script (ut_implementation t)) None) (\<lambda>r.
           thenE (check_run (what @ '' timed out after '') (what @ '' crashed'') r)
          (bindE (read_or ops sb ''output.json'' (what @ '' produced no output.json'')) (\<lambda>data.
           liftE (json_output what data)))))))"

end
