(* ===== verification/Artifacts.thy ===== *)
theory Artifacts
  imports Sandbox_Tools
begin

section \<open>Artifacts\<close>

text \<open>
  \<open>src/wolfpaw/toolbox/tools/_artifact.py\<close> and the four tools over it: a spreadsheet, slides, a PDF and a
  chart are made by a constant script in the sandbox from validated inputs, and stored as a new version
  of a workspace file. What the scripts do inside the sandbox is their libraries' business.
\<close>

record artifact_spec =
  as_filename :: pystr
  as_mime :: pystr
  as_inputs :: dict
  as_script :: pystr
  as_output :: pystr
  as_overwrite :: bool

definition make_artifact :: "backend \<Rightarrow> sandbox_ops \<Rightarrow> tool_ctx \<Rightarrow> artifact_spec \<Rightarrow> bytes act" where
  "make_artifact b ops ctx spec =
     bindE (sandbox_get b (c_user ctx) (c_task ctx)) (\<lambda>sb.
     thenE (sx_write ops sb ''inputs.json'' (utf8_encode (dumps (JObj (as_inputs spec)))))
    (bindE (sx_run ops sb (as_script spec) None) (\<lambda>r.
     thenE (check_run ''artifact generation timed out after '' ''artifact script failed'' r)
       (read_or ops sb (as_output spec)
          (''artifact script completed but produced no '' @ as_output spec)))))"

definition produce_artifact ::
  "backend \<Rightarrow> sandbox_ops \<Rightarrow> storage \<Rightarrow> tool_ctx \<Rightarrow> artifact_spec \<Rightarrow> workspace_file option \<Rightarrow> dict act" where
  "produce_artifact b ops so ctx spec existing =
     bindE (make_artifact b ops ctx spec) (\<lambda>data.
     bindE (sg_put so (c_user ctx) (as_filename spec) data) (\<lambda>obj.
     bindE (save_output ctx (as_filename spec) (as_mime spec) existing obj) (\<lambda>f.
       ret [(''file_id'', JStr (uuid_text (wf_id f))), (''filename'', JStr (wf_filename f)),
            (''version'', JInt (wf_version f)), (''size_bytes'', JInt (wf_size_bytes f)),
            (''mime_type'', opt_str (wf_mime_type f)), (''sha256'', opt_str (wf_sha256 f))])))"

definition emit_artifact ::
  "backend \<Rightarrow> sandbox_ops \<Rightarrow> storage \<Rightarrow> tool_ctx \<Rightarrow> artifact_spec \<Rightarrow> dict act" where
  "emit_artifact b ops so ctx spec =
     bindE (get_latest_by_filename (c_user ctx) (as_filename spec)) (\<lambda>existing. case existing of
         None \<Rightarrow> produce_artifact b ops so ctx spec None
       | Some f \<Rightarrow>
           if as_overwrite spec then produce_artifact b ops so ctx spec existing
           else raise (WorkspaceCollision (wf_filename f) (wf_version f)))"

subsection \<open>The scripts\<close>

definition chart_script :: pystr where
  "chart_script = lines_of
     [[],
      ''import json'',
      ''import matplotlib'',
      ''matplotlib.use('' @ [dquote] @ ''Agg'' @ [dquote] @ '')  # no display, no GUI backend'',
      ''import matplotlib.pyplot as plt'',
      [],
      ''with open('' @ [dquote] @ ''inputs.json'' @ [dquote] @ '') as f:'',
      ''    spec = json.load(f)'',
      [],
      ''fig, ax = plt.subplots(figsize=(8, 5))'',
      ''chart_type = spec['' @ [dquote] @ ''type'' @ [dquote] @ '']'',
      ''for s in spec['' @ [dquote] @ ''series'' @ [dquote] @ '']:'',
      ''    x = s['' @ [dquote] @ ''x'' @ [dquote] @ '']'',
      ''    y = s['' @ [dquote] @ ''y'' @ [dquote] @ '']'',
      ''    label = s.get('' @ [dquote] @ ''name'' @ [dquote] @ '', '' @ [dquote] @ [dquote] @
      '')'',
      ''    if chart_type == '' @ [dquote] @ ''line'' @ [dquote] @ '':'',
      ''        ax.plot(x, y, label=label)'',
      ''    elif chart_type == '' @ [dquote] @ ''bar'' @ [dquote] @ '':'',
      ''        ax.bar(x, y, label=label)'',
      ''    elif chart_type == '' @ [dquote] @ ''scatter'' @ [dquote] @ '':'',
      ''        ax.scatter(x, y, label=label)'',
      [],
      ''if spec.get('' @ [dquote] @ ''title'' @ [dquote] @ ''):    ax.set_title(spec['' @ [dquote] @
      ''title'' @ [dquote] @ ''])'',
      ''if spec.get('' @ [dquote] @ ''x_label'' @ [dquote] @ ''):  ax.set_xlabel(spec['' @ [dquote] @
      ''x_label'' @ [dquote] @ ''])'',
      ''if spec.get('' @ [dquote] @ ''y_label'' @ [dquote] @ ''):  ax.set_ylabel(spec['' @ [dquote] @
      ''y_label'' @ [dquote] @ ''])'',
      ''if any(s.get('' @ [dquote] @ ''name'' @ [dquote] @ '') for s in spec['' @ [dquote] @
      ''series'' @ [dquote] @ '']):'',
      ''    ax.legend()'',
      [],
      ''fig.tight_layout()'',
      ''fig.savefig(spec['' @ [dquote] @ ''output'' @ [dquote] @ ''])'',
      []]"

definition pdf_script :: pystr where
  "pdf_script = lines_of
     [[],
      ''import json'',
      ''try:'',
      ''    from weasyprint import HTML'',
      ''except ImportError as e:'',
      ''    raise SystemExit('',
      ''        '' @ [dquote] @ ''weasyprint is not installed in this sandbox.'' @ [dquote],
      ''        '' @ [dquote] @ '' Install with `pip install wolfpaw[pdf]` (host)'' @ [dquote],
      ''        '' @ [dquote] @ '' or bake into the sandbox image (docker/e2b).'' @ [dquote],
      ''    )'',
      [],
      ''with open('' @ [dquote] @ ''inputs.json'' @ [dquote] @ '') as f:'',
      ''    spec = json.load(f)'',
      [],
      ''HTML(string=spec['' @ [dquote] @ ''html'' @ [dquote] @ '']).write_pdf('' @ [dquote] @
      ''output.pdf'' @ [dquote] @ '')'',
      []]"

definition slides_script :: pystr where
  "slides_script = lines_of
     [[],
      ''import json'',
      ''from pptx import Presentation'',
      [],
      ''with open('' @ [dquote] @ ''inputs.json'' @ [dquote] @ '') as f:'',
      ''    spec = json.load(f)'',
      [],
      ''prs = Presentation()'',
      ''title_layout = prs.slide_layouts[0]      # title slide'',
      ''content_layout = prs.slide_layouts[1]    # title + content'',
      [],
      ''for i, slide_def in enumerate(spec['' @ [dquote] @ ''slides'' @ [dquote] @ '']):'',
      ''    layout = title_layout if i == 0 and not (slide_def.get('' @ [dquote] @ ''bullets'' @
      [dquote] @ '') or '' @ ''slide_def.get('' @ [dquote] @ ''body'' @ [dquote] @
      '')) else content_layout'',
      ''    slide = prs.slides.add_slide(layout)'',
      ''    if slide.shapes.title and slide_def.get('' @ [dquote] @ ''title'' @ [dquote] @ ''):'',
      ''        slide.shapes.title.text = slide_def['' @ [dquote] @ ''title'' @ [dquote] @ '']'',
      ''    # Content placeholder is shape index 1 on the content_layout.'',
      ''    if len(slide.placeholders) > 1:'',
      ''        body = slide.placeholders[1]'',
      ''        tf = body.text_frame'',
      ''        bullets = slide_def.get('' @ [dquote] @ ''bullets'' @ [dquote] @ '')'',
      ''        if bullets:'',
      ''            tf.text = bullets[0]'',
      ''            for line in bullets[1:]:'',
      ''                p = tf.add_paragraph()'',
      ''                p.text = line'',
      ''        elif slide_def.get('' @ [dquote] @ ''body'' @ [dquote] @ ''):'',
      ''            tf.text = slide_def['' @ [dquote] @ ''body'' @ [dquote] @ '']'',
      [],
      ''prs.save('' @ [dquote] @ ''output.pptx'' @ [dquote] @ '')'',
      []]"

definition spreadsheet_script :: pystr where
  "spreadsheet_script = lines_of
     [[],
      ''import json'',
      ''import openpyxl'',
      [],
      ''with open('' @ [dquote] @ ''inputs.json'' @ [dquote] @ '') as f:'',
      ''    spec = json.load(f)'',
      [],
      ''wb = openpyxl.Workbook()'',
      ''# Drop the default sheet '' @ [em_dash] @ '' we add our own from spec.'',
      ''wb.remove(wb.active)'',
      ''for sheet in spec['' @ [dquote] @ ''sheets'' @ [dquote] @ '']:'',
      ''    ws = wb.create_sheet(title=sheet['' @ [dquote] @ ''name'' @ [dquote] @
      ''][:31])  # excel sheet-name cap'',
      ''    for row in sheet.get('' @ [dquote] @ ''rows'' @ [dquote] @ '', []):'',
      ''        ws.append(row)'',
      ''wb.save('' @ [dquote] @ ''output.xlsx'' @ [dquote] @ '')'',
      []]"

subsection \<open>The four tools\<close>

definition ends_with :: "pystr \<Rightarrow> pystr \<Rightarrow> bool" where
  "ends_with ext s \<longleftrightarrow> starts_with (rev ext) (rev s)"

definition named_with :: "dict \<Rightarrow> pystr \<Rightarrow> exn + pystr" where
  "named_with inputs ext = (case text_input inputs ''filename'' of
     Some f \<Rightarrow> if ends_with ext f then Inr f else Inl (ToolError (''`filename` must end with '' @ ext))
   | None \<Rightarrow> Inl (ToolError (''`filename` must end with '' @ ext)))"

definition overwrite_input :: "dict \<Rightarrow> bool" where
  "overwrite_input inputs \<longleftrightarrow> truthy (get_default inputs ''overwrite'' JNull)"

text \<open>A non-empty list whose members all pass a check.\<close>

definition list_input :: "dict \<Rightarrow> pystr \<Rightarrow> (json \<Rightarrow> bool) \<Rightarrow> pystr \<Rightarrow> exn + json list" where
  "list_input inputs k ok msg = (case get_default inputs k JNull of
     JArr (x # xs) \<Rightarrow> if list_all ok (x # xs) then Inr (x # xs) else Inl (ToolError msg)
   | _ \<Rightarrow> Inl (ToolError (''`'' @ k @ ''` must be a non-empty list'')))"

definition create_pdf_run :: "backend \<Rightarrow> sandbox_ops \<Rightarrow> storage \<Rightarrow> tool_ctx \<Rightarrow> dict \<Rightarrow> dict act" where
  "create_pdf_run b ops so ctx inputs =
     bindE (liftE (named_with inputs ''.pdf'')) (\<lambda>filename.
     case text_input inputs ''html'' of
       Some html \<Rightarrow>
         if strip html = [] then raise (ToolError ''`html` must be a non-empty string'')
         else emit_artifact b ops so ctx
           \<lparr> as_filename = filename, as_mime = ''application/pdf'', as_inputs = [(''html'', JStr html)],
             as_script = pdf_script, as_output = ''output.pdf'', as_overwrite = overwrite_input inputs \<rparr>
     | None \<Rightarrow> raise (ToolError ''`html` must be a non-empty string''))"

definition create_slides_run :: "backend \<Rightarrow> sandbox_ops \<Rightarrow> storage \<Rightarrow> tool_ctx \<Rightarrow> dict \<Rightarrow> dict act" where
  "create_slides_run b ops so ctx inputs =
     bindE (liftE (named_with inputs ''.pptx'')) (\<lambda>filename.
     bindE (liftE (list_input inputs ''slides'' (\<lambda>s. as_obj s \<noteq> None) ''each slide must be an object'')) (\<lambda>slides.
       emit_artifact b ops so ctx
         \<lparr> as_filename = filename,
           as_mime = ''application/vnd.openxmlformats-officedocument.presentationml.presentation'',
           as_inputs = [(''slides'', JArr slides)], as_script = slides_script,
           as_output = ''output.pptx'', as_overwrite = overwrite_input inputs \<rparr>))"

definition is_sheet :: "json \<Rightarrow> bool" where
  "is_sheet j = (case j of JObj d \<Rightarrow> dict_get d ''name'' \<noteq> None \<and> dict_get d ''rows'' \<noteq> None | _ \<Rightarrow> False)"

definition create_spreadsheet_run :: "backend \<Rightarrow> sandbox_ops \<Rightarrow> storage \<Rightarrow> tool_ctx \<Rightarrow> dict \<Rightarrow> dict act" where
  "create_spreadsheet_run b ops so ctx inputs =
     bindE (liftE (named_with inputs ''.xlsx'')) (\<lambda>filename.
     bindE (liftE (list_input inputs ''sheets'' is_sheet ''each sheet needs `name` and `rows`'')) (\<lambda>sheets.
       emit_artifact b ops so ctx
         \<lparr> as_filename = filename,
           as_mime = ''application/vnd.openxmlformats-officedocument.spreadsheetml.sheet'',
           as_inputs = [(''sheets'', JArr sheets)], as_script = spreadsheet_script,
           as_output = ''output.xlsx'', as_overwrite = overwrite_input inputs \<rparr>))"

definition mime_for :: "pystr \<Rightarrow> exn + pystr" where
  "mime_for filename =
     (if ends_with ''.png'' (lower filename) then Inr ''image/png''
      else if ends_with ''.svg'' (lower filename) then Inr ''image/svg+xml''
      else Inl (ToolError ''`filename` must end with .png or .svg''))"

definition chart_types :: "pystr list" where
  "chart_types = [''bar'', ''line'', ''scatter'']"

definition chart_type_input :: "json \<Rightarrow> exn + json" where
  "chart_type_input j = (case j of
     JArr _ \<Rightarrow> Inl (OtherError (''unhashable type: '' @ py_repr ''list''))
   | JObj _ \<Rightarrow> Inl (OtherError (''unhashable type: '' @ py_repr ''dict''))
   | _ \<Rightarrow> if j \<in> JStr ` set chart_types then Inr j
       else Inl (ToolError (''`type` must be one of '' @ json_repr (JArr (map JStr chart_types)))))"

definition is_series :: "json \<Rightarrow> bool" where
  "is_series j = (case j of
     JObj d \<Rightarrow> (case (get_default d ''x'' JNull, get_default d ''y'' JNull) of
         (JArr xs, JArr ys) \<Rightarrow> length xs = length ys | _ \<Rightarrow> False)
   | _ \<Rightarrow> False)"

definition create_chart_run :: "backend \<Rightarrow> sandbox_ops \<Rightarrow> storage \<Rightarrow> tool_ctx \<Rightarrow> dict \<Rightarrow> dict act" where
  "create_chart_run b ops so ctx inputs =
     (case text_input inputs ''filename'' of
        None \<Rightarrow> raise (ToolError ''`filename` must be a string'')
      | Some filename \<Rightarrow>
          bindE (liftE (mime_for filename)) (\<lambda>mime.
          bindE (liftE (chart_type_input (get_default inputs ''type'' JNull))) (\<lambda>chart_type.
          bindE (liftE (list_input inputs ''series'' is_series
                   ''each series needs equal-length `x` and `y` arrays'')) (\<lambda>series.
          let output = (if mime = ''image/png'' then ''output.png'' else ''output.svg'') in
          emit_artifact b ops so ctx
            \<lparr> as_filename = filename, as_mime = mime,
              as_inputs = [(''type'', chart_type), (''title'', get_default inputs ''title'' JNull),
                (''x_label'', get_default inputs ''x_label'' JNull),
                (''y_label'', get_default inputs ''y_label'' JNull), (''series'', JArr series),
                (''output'', JStr output)],
              as_script = chart_script, as_output = output, as_overwrite = overwrite_input inputs \<rparr>))))"

end
