(* ===== verification/Workspace_Races.thy ===== *)
theory Workspace_Races
  imports Workspace_Routes Artifacts Agent_Orders
begin

section \<open>Files under concurrent writers\<close>

text \<open>
  The three writers of the table of files, \<open>write_doc\<close>, the artifact tools and the registration of an upload,
  each read the newest version, store bytes and insert the next one, with other processes in between. The
  table survives every interleaving (\<open>writers_keep_chains\<close>); the bytes do not (\<open>racing_write_replaces_bytes\<close>).
\<close>

subsection \<open>The table\<close>










subsection \<open>The bytes\<close>

text \<open>C27: The check for an existing file and the write are two steps, and the bytes go first. A
  \<open>write_doc\<close> without \<open>overwrite\<close> that another writer of the same new name overtakes fails, as it should, with
  the uniqueness of the version; but the other's row is then the newest version while the stored bytes are
  those of the failed write.\<close>

theorem racing_write_replaces_bytes:
  assumes "script w = [([], None), ([EnvPutBlob (c_user ctx) n theirs, EnvRegisterFile f], None)]"
    and "n \<noteq> []" and "accepted n" and "newest_of (c_user ctx) n (workspace_files w) = None"
    and "file_key f = (c_user ctx, n, 1)" and "task_known ctx w"
  shows "\<exists>e w'. write_doc_run cfg (local_storage sha) ctx (doc_inputs n ours False) w = (Inl (DbError e), w') \<and>
     newest_of (c_user ctx) n (workspace_files w') = Some f \<and>
     map_of (blobs w') (c_user ctx, n) = Some (utf8_encode ours)"
proof -
  let ?u = "c_user ctx"
  let ?w1 = "w\<lparr>script := [([EnvPutBlob ?u n theirs, EnvRegisterFile f], None)]\<rparr>"
  let ?w2 = "w\<lparr>script := [], blobs := AList.update (?u, n) theirs (blobs w),
      workspace_files := add_file f (workspace_files w)\<rparr>"
  have f: "wf_user_id f = ?u" "wf_filename f = n" "wf_version f = 1" using assms(5) by (simp_all add: file_key_def)
  then have ins: "insert_file f (workspace_files w) = Some (workspace_files w @ [f])"
    using assms(4) by (intro insert_next) (simp add: next_version_def)
  then have files: "add_file f (workspace_files w) = workspace_files w @ [f]" by (simp add: add_file_def)
  have newest: "newest_of ?u n (workspace_files w @ [f]) = Some f"
    by (rule newest_of_append) (use f assms(4) in \<open>simp_all add: next_version_def\<close>)
  have read: "get_latest_by_filename ?u n w = (Inr None, ?w1)"
    using assms(1,4) by (simp add: get_latest_by_filename_def stmt_def)
  obtain t where name: "validate_filename n = Inr t" using assms(3) by (auto simp: accepted_def split: sum.splits)
  let ?obj = "\<lparr> so_url = ''local://'' @ uuid_hex ?u @ ''/'' @ n, so_size = int (length (utf8_encode ours)),
      so_sha256 = sha (utf8_encode ours) \<rparr>"
  let ?w3 = "?w2\<lparr>blobs := AList.update (?u, n) (utf8_encode ours) (blobs ?w2)\<rparr>"
  have put: "local_put sha ?u n (utf8_encode ours) ?w1 = (Inr ?obj, ?w3)"
    using name by (simp add: local_put_def bindE_def ret_def stmt_def others_def)
  have reg: "\<exists>e. save_output ctx n m None ?obj ?w3 = (Inl (DbError e), ?w3)" for m
    using f assms(6) files
    by (auto simp: save_output_def register_file_def Let_def insert_file_def new_file_def file_key_def
        next_version_def task_known_def split: option.splits)
  obtain e where "write_new_version cfg (local_storage sha) ctx n ours (JStr ''text/markdown'') None ?w1 =
      (Inl (DbError e), ?w3)"
    using put reg[of "''text/markdown''"]
    by (auto simp: write_new_version_def value_error_as_tool_error_def local_storage_def bindE_def catchE_def
        mime_param_def ret_def)
  then have "write_doc_run cfg (local_storage sha) ctx (doc_inputs n ours False) w = (Inl (DbError e), ?w3)"
    using read assms(2) by (simp add: write_doc_run_def bindE_def)
  then show ?thesis using newest files by (fastforce simp: update_conv)
qed

text \<open>What an agent writes it reads back: a \<open>write_doc\<close> of a new name, or one that asks to overwrite,
  returns the next version, and a \<open>read_doc\<close> then returns the text to the letter, with that version.\<close>

theorem write_then_read:
  assumes "script w = []" and "task_known ctx w" and "accepted n"
    and "newest_of (c_user ctx) n (workspace_files w) = None \<or> overwrite"
  shows "\<exists>out w' v. write_doc_run cfg (local_storage sha) ctx (doc_inputs n content overwrite) w = (Inr out, w') \<and>
     dict_get out ''version'' = Some (JInt v) \<and>
     v = next_version (newest_of (c_user ctx) n (workspace_files w)) \<and>
     read_doc_run (local_storage sha) ctx [(''filename'', JStr n)] w' =
       (Inr [(''filename'', JStr n), (''version'', JInt v),
             (''size_bytes'', JInt (int (length (utf8_encode content)))), (''text'', JStr content)], w')"
proof -
  have "n \<noteq> []" using assms(3) by (auto simp: accepted_def validate_filename_def)
  have so: "sg_put (local_storage sha) = local_put sha" "sg_get (local_storage sha) = local_get"
    by (simp_all add: local_storage_def)
  from disk.write_read[OF assms(1,2,3) \<open>n \<noteq> []\<close> so assms(4), where cfg = cfg and c = content] show ?thesis by blast
qed

text \<open>Without \<open>overwrite\<close> an existing file stays as it is.\<close>

lemma collision_changes_nothing:
  assumes "script w = []" and "n \<noteq> []" and "newest_of (c_user ctx) n (workspace_files w) = Some f"
  shows "write_doc_run cfg so ctx (doc_inputs n content False) w = (Inl (WorkspaceCollision n (wf_version f)), w)"
  using assms newest_of_SomeD(3)[OF assms(3)]
  by (simp add: write_doc_run_def get_latest_by_filename_def bindE_def raise_def)

subsection \<open>The list and the lookup\<close>

text \<open>C30: The list of documents and the lookup by name agree: a row is listed exactly when it is what a
  lookup of its name finds, and no name is listed twice.\<close>

theorem listing_is_lookup:
  assumes "distinct (map file_key rows)"
  shows "set (newest_versions u rows) = {f. newest_of u (wf_filename f) rows = Some f} \<and>
     distinct (map wf_filename (newest_versions u rows))"
proof -
  let ?mine = "filter (\<lambda>f. wf_user_id f = u) rows"
  let ?top = "\<lambda>f. \<forall>g\<in>set ?mine. wf_filename g = wf_filename f \<longrightarrow> wf_version g \<le> wf_version f"
  have keyed: "f = g" if "f \<in> set rows" "g \<in> set rows" "file_key f = file_key g" for f g
    using assms that by (auto simp: distinct_map dest: inj_onD)
  have set: "set (newest_versions u rows) = {f \<in> set ?mine. ?top f}"
    by (auto simp: newest_versions_def Let_def list_all_iff)
  have top: "f \<in> set ?mine \<and> ?top f \<longleftrightarrow> newest_of u (wf_filename f) rows = Some f" for f
  proof
    assume f: "f \<in> set ?mine \<and> ?top f"
    then have "f \<in> set (versions_of u (wf_filename f) rows)" by (simp add: versions_of_def)
    then obtain g where g: "newest_of u (wf_filename f) rows = Some g"
      using newest_of_None[of u "wf_filename f" rows] by (cases "newest_of u (wf_filename f) rows") auto
    note top = newest_of_SomeD[OF g]
    have "wf_version f \<le> wf_version g" using f top(4) by (auto simp: versions_of_def)
    moreover have "wf_version g \<le> wf_version f" using f top(1-3) by auto
    ultimately have "f = g" using f top(1-3) by (intro keyed) (auto simp: file_key_def)
    then show "newest_of u (wf_filename f) rows = Some f" using g by simp
  next
    assume g: "newest_of u (wf_filename f) rows = Some f"
    from newest_of_SomeD[OF g] show "f \<in> set ?mine \<and> ?top f" by (auto simp: versions_of_def)
  qed
  have listed: "set (newest_versions u rows) = {f. newest_of u (wf_filename f) rows = Some f}"
    using set top by auto
  have "distinct rows" using assms by (simp add: distinct_map)
  then have "distinct (newest_versions u rows)" by (simp add: newest_versions_def Let_def)
  moreover have "inj_on wf_filename (set (newest_versions u rows))"
    unfolding set
  proof (rule inj_onI)
    fix f g assume "f \<in> {f \<in> set ?mine. ?top f}" "g \<in> {f \<in> set ?mine. ?top f}" "wf_filename f = wf_filename g"
    then have "newest_of u (wf_filename f) rows = Some f" "newest_of u (wf_filename f) rows = Some g"
      using top[of f] top[of g] by auto
    then show "f = g" by simp
  qed
  ultimately show ?thesis using listed by (simp add: distinct_map)
qed

subsection \<open>What embedding a file costs\<close>

text \<open>The ledger has no agent \<open>workspace_embed\<close>, so what embedding a file costs is never booked.\<close>

interpretation file_usage: clock_order "extends token_usage 0"
  by unfold_locales (auto simp: extends_def env_apply_frame)

lemma file_embedding_unbilled:
  assumes "\<And>body. keeps (extends token_usage 0) (embedder body)"
  shows "keeps (extends token_usage 0) (embed_and_store_doc embedder file_id content)"
proof -
  have "keeps (extends token_usage 0) (record_usage u ''workspace_embed'' m us c pv tid)" for u m us c pv tid
  proof (rule keepsI)
    fix w r w' assume "record_usage u ''workspace_embed'' m us c pv tid w = (r, w')"
    then show "extends token_usage 0 w w'"
      by (cases rule: record_usage_cases) (simp_all add: agent_kinds_def extends_def)
  qed
  then show ?thesis
    unfolding embed_and_store_doc_def update_embedding_def file_owner_def
    by (intro file_usage.if_ file_usage.bind file_usage.opt file_usage.andThen file_usage.ret file_usage.when_
        file_usage.effort file_usage.stmt file_usage.gets file_usage.modify assms) (simp_all add: extends_def)
qed

subsection \<open>Witnesses\<close>

definition file_ctx :: tool_ctx where
  "file_ctx = \<lparr> c_user = Uuid 5, c_task = None, c_trace = None, c_channel = None, c_emit = False \<rparr>"

definition rival_file :: workspace_file where
  "rival_file = \<lparr> wf_id = Uuid 9, wf_user_id = Uuid 5, wf_task_id = None, wf_source = UserUpload,
     wf_filename = ''a.md'', wf_mime_type = None, wf_storage_url = [], wf_size_bytes = 1, wf_version = 1,
     wf_supersedes_id = None, wf_sha256 = None, wf_created_at = 0, wf_embedding = None \<rparr>"

definition race_world :: world where
  "race_world = empty_world\<lparr>script :=
     [([], None), ([EnvPutBlob (Uuid 5) ''a.md'' [1], EnvRegisterFile rival_file], None)]\<rparr>"



lemma racing_write_replaces_bytes_witness:
  "\<exists>e w'. write_doc_run default_settings (local_storage sample_sha) file_ctx (doc_inputs ''a.md'' ''x'' False)
       race_world = (Inl (DbError e), w') \<and>
     newest_of (Uuid 5) ''a.md'' (workspace_files w') = Some rival_file \<and>
     map_of (blobs w') (Uuid 5, ''a.md'') = Some (utf8_encode ''x'')"
  using racing_write_replaces_bytes[of race_world file_ctx "''a.md''" "[1]" rival_file default_settings sample_sha "''x''"]
    sample_name(2)
  by (simp add: race_world_def file_ctx_def rival_file_def empty_world_def newest_of_def versions_of_def
      file_key_def task_known_def)

lemma write_then_read_witness:
  "\<exists>out w'. write_doc_run default_settings (local_storage sample_sha) file_ctx (doc_inputs ''a.md'' ''x'' False)
       empty_world = (Inr out, w') \<and>
     fst (read_doc_run (local_storage sample_sha) file_ctx [(''filename'', JStr ''a.md'')] w') =
       Inr [(''filename'', JStr ''a.md''), (''version'', JInt 1), (''size_bytes'', JInt 1), (''text'', JStr ''x'')]"
proof -
  have "length (utf8_encode ''x'') = 1" by code_simp
  with write_then_read[of empty_world file_ctx "''a.md''" False default_settings sample_sha "''x''"] sample_name(2)
  show ?thesis
    by (fastforce simp: file_ctx_def empty_world_def newest_of_def versions_of_def task_known_def next_version_def)
qed

lemma listing_is_lookup_witness:
  "set (newest_versions (Uuid 5) [rival_file, rival_file\<lparr>wf_version := 2\<rparr>]) = {rival_file\<lparr>wf_version := 2\<rparr>}"
proof -
  have "distinct (map file_key [rival_file, rival_file\<lparr>wf_version := 2\<rparr>])"
    by (simp add: file_key_def rival_file_def)
  note list = listing_is_lookup[OF this, of "Uuid 5"]
  have "newest_of (Uuid 5) n [rival_file, rival_file\<lparr>wf_version := 2\<rparr>] =
      (if n = ''a.md'' then Some (rival_file\<lparr>wf_version := 2\<rparr>) else None)" for n
    by (simp add: newest_of_def versions_of_def rival_file_def)
  with list show ?thesis by (auto simp: rival_file_def)
qed

end
