(* ===== verification/File_Catalog.thy ===== *)
theory File_Catalog
  imports Artifacts
begin

section \<open>The tools on files and on the sandbox as the registry lists them\<close>

text \<open>The name, the description and the input schema of each of these tools, with its \<open>run\<close>.\<close>

definition write_doc_tool :: "settings \<Rightarrow> storage \<Rightarrow> tool" where
  "write_doc_tool cfg so =
     \<lparr> tl_name = ''write_doc'',
       tl_description =
         ''Write a text/markdown file to the user's workspace. By default, rejects writes when a '' @
         ''file with the same name already exists '' @ [em_dash] @
         '' set `overwrite=true` to version-bump instead. '' @ ''Returns the new workspace file row.'',
       tl_schema =
         [(''type'', JStr ''object''),
          (''properties'', JObj
            [(''filename'', JObj
              [(''type'', JStr ''string'')]),
             (''content'', JObj
              [(''type'', JStr ''string'')]),
             (''mime_type'', JObj
              [(''type'', JStr ''string''),
               (''default'', JStr ''text/markdown'')]),
             (''overwrite'', JObj
              [(''type'', JStr ''boolean''),
               (''default'', JBool False)])]),
          (''required'', JArr [JStr ''filename'',
            JStr ''content''])],
       tl_needs_task = False,
       tl_run = write_doc_run cfg so \<rparr>"

definition read_doc_tool :: "storage \<Rightarrow> tool" where
  "read_doc_tool so =
     \<lparr> tl_name = ''read_doc'',
       tl_description =
         ''Read a text/markdown file from the user's workspace by filename. Returns the latest '' @
         ''version's contents as a UTF-8 string.'',
       tl_schema =
         [(''type'', JStr ''object''),
          (''properties'', JObj
            [(''filename'', JObj
              [(''type'', JStr ''string'')])]),
          (''required'', JArr [JStr ''filename''])],
       tl_needs_task = False,
       tl_run = read_doc_run so \<rparr>"

definition list_docs_tool :: "(time \<Rightarrow> pystr) \<Rightarrow> tool" where
  "list_docs_tool date =
     \<lparr> tl_name = ''list_docs'',
       tl_description =
         ''List the user's workspace docs (latest version of each filename) with size, version, and '' @
         ''mime type. Call this when you need to know what files exist before reading or writing. '' @
         ''For finding files by content rather than name, use `search_docs`.'',
       tl_schema =
         [(''type'', JStr ''object''),
          (''properties'', JObj
            []),
          (''required'', JArr [])],
       tl_needs_task = False,
       tl_run = list_docs_run date \<rparr>"

definition search_docs_tool :: "(pystr \<Rightarrow> embedding act) \<Rightarrow> (vector \<Rightarrow> vector \<Rightarrow> int) \<Rightarrow> (int \<Rightarrow> json) \<Rightarrow> tool" where
  "search_docs_tool embedder dist similarity =
     \<lparr> tl_name = ''search_docs'',
       tl_description =
         ''Find workspace docs by *content* (semantic search). Returns filenames + similarity scores '' @
         ''ordered by relevance '' @ [em_dash] @
         '' call `read_doc` afterward on the hits you want to use. Prefer this '' @
         ''over reading every doc when you're looking for information whose filename you don't '' @
         ''already know.'',
       tl_schema =
         [(''type'', JStr ''object''),
          (''properties'', JObj
            [(''query'', JObj
              [(''type'', JStr ''string''),
               (''description'', JStr (''What you're looking for '' @ [em_dash] @
                      '' a phrase, question, or topic. Will be embedded and compared '' @
                      ''against every doc's embedding.''))]),
             (''k'', JObj
              [(''type'', JStr ''integer''),
               (''minimum'', JInt 1),
               (''maximum'', JInt 25),
               (''default'', JInt 5)])]),
          (''required'', JArr [JStr ''query''])],
       tl_needs_task = False,
       tl_run = search_docs_run embedder dist similarity \<rparr>"

definition run_python_tool :: "backend \<Rightarrow> sandbox_ops \<Rightarrow> tool" where
  "run_python_tool b ops =
     \<lparr> tl_name = ''run_python'',
       tl_description =
         ''Execute Python code in a stateful sandboxed REPL. Globals + files persist across calls '' @
         ''within the same task. Returns stdout, stderr, and exit_code; non-zero exit_code means the '' @
         ''code raised.'',
       tl_schema =
         [(''type'', JStr ''object''),
          (''properties'', JObj
            [(''code'', JObj
              [(''type'', JStr ''string''),
               (''description'', JStr ''Python source to execute.'')]),
             (''timeout_seconds'', JObj
              [(''type'', JStr ''integer''),
               (''minimum'', JInt 1)])]),
          (''required'', JArr [JStr ''code''])],
       tl_needs_task = False,
       tl_run = run_python_run b ops \<rparr>"

definition install_package_tool :: "backend \<Rightarrow> sandbox_ops \<Rightarrow> tool" where
  "install_package_tool b ops =
     \<lparr> tl_name = ''install_package'',
       tl_description =
         ''Install a PyPI package into the task's sandbox. Package becomes importable for subsequent '' @
         ''`run_python` calls.'',
       tl_schema =
         [(''type'', JStr ''object''),
          (''properties'', JObj
            [(''package'', JObj
              [(''type'', JStr ''string''),
               (''description'', JStr ''PyPI distribution name, optionally with version (e.g. 'numpy==1.26').'')])]),
          (''required'', JArr [JStr ''package''])],
       tl_needs_task = False,
       tl_run = install_package_run b ops \<rparr>"

definition sandbox_read_file_tool :: "backend \<Rightarrow> sandbox_ops \<Rightarrow> tool" where
  "sandbox_read_file_tool b ops =
     \<lparr> tl_name = ''sandbox_read_file'',
       tl_description =
         ''Read a UTF-8 text file from the task's sandbox by path. Use `run_python` if you need '' @
         ''binary I/O.'',
       tl_schema =
         [(''type'', JStr ''object''),
          (''properties'', JObj
            [(''path'', JObj
              [(''type'', JStr ''string''),
               (''description'', JStr ''Path inside the sandbox (relative or absolute under the workdir).'')])]),
          (''required'', JArr [JStr ''path''])],
       tl_needs_task = False,
       tl_run = sandbox_read_file_run b ops \<rparr>"

definition sandbox_write_file_tool :: "backend \<Rightarrow> sandbox_ops \<Rightarrow> tool" where
  "sandbox_write_file_tool b ops =
     \<lparr> tl_name = ''sandbox_write_file'',
       tl_description =
         ''Write UTF-8 text to a file inside the task's sandbox. Use `run_python` if you need to '' @
         ''write binary bytes.'',
       tl_schema =
         [(''type'', JStr ''object''),
          (''properties'', JObj
            [(''path'', JObj
              [(''type'', JStr ''string'')]),
             (''content'', JObj
              [(''type'', JStr ''string'')])]),
          (''required'', JArr [JStr ''path'',
            JStr ''content''])],
       tl_needs_task = False,
       tl_run = sandbox_write_file_run b ops \<rparr>"

definition create_chart_tool :: "backend \<Rightarrow> sandbox_ops \<Rightarrow> storage \<Rightarrow> tool" where
  "create_chart_tool b ops so =
     \<lparr> tl_name = ''create_chart'',
       tl_description =
         ''Render a line, bar, or scatter chart from data, save to the user's workspace as PNG or '' @
         ''SVG.'',
       tl_schema =
         [(''type'', JStr ''object''),
          (''properties'', JObj
            [(''filename'', JObj
              [(''type'', JStr ''string'')]),
             (''type'', JObj
              [(''type'', JStr ''string''),
               (''enum'', JArr [JStr ''bar'',
                JStr ''line'',
                JStr ''scatter''])]),
             (''title'', JObj
              [(''type'', JStr ''string'')]),
             (''x_label'', JObj
              [(''type'', JStr ''string'')]),
             (''y_label'', JObj
              [(''type'', JStr ''string'')]),
             (''series'', JObj
              [(''type'', JStr ''array''),
               (''minItems'', JInt 1),
               (''items'', JObj
                [(''type'', JStr ''object''),
                 (''properties'', JObj
                  [(''name'', JObj
                    [(''type'', JStr ''string'')]),
                   (''x'', JObj
                    [(''type'', JStr ''array'')]),
                   (''y'', JObj
                    [(''type'', JStr ''array'')])]),
                 (''required'', JArr [JStr ''x'',
                  JStr ''y''])])]),
             (''overwrite'', JObj
              [(''type'', JStr ''boolean''),
               (''default'', JBool False)])]),
          (''required'', JArr [JStr ''filename'',
            JStr ''type'',
            JStr ''series''])],
       tl_needs_task = False,
       tl_run = create_chart_run b ops so \<rparr>"

definition create_pdf_tool :: "backend \<Rightarrow> sandbox_ops \<Rightarrow> storage \<Rightarrow> tool" where
  "create_pdf_tool b ops so =
     \<lparr> tl_name = ''create_pdf'',
       tl_description =
         ''Render an HTML document to a PDF in the user's workspace. Use http/css for layout; the '' @
         ''agent is responsible for converting markdown to HTML if needed.'',
       tl_schema =
         [(''type'', JStr ''object''),
          (''properties'', JObj
            [(''filename'', JObj
              [(''type'', JStr ''string'')]),
             (''html'', JObj
              [(''type'', JStr ''string'')]),
             (''overwrite'', JObj
              [(''type'', JStr ''boolean''),
               (''default'', JBool False)])]),
          (''required'', JArr [JStr ''filename'',
            JStr ''html''])],
       tl_needs_task = False,
       tl_run = create_pdf_run b ops so \<rparr>"

definition create_slides_tool :: "backend \<Rightarrow> sandbox_ops \<Rightarrow> storage \<Rightarrow> tool" where
  "create_slides_tool b ops so =
     \<lparr> tl_name = ''create_slides'',
       tl_description =
         ''Create a .pptx deck in the user's workspace. Each slide takes a `title` plus either a '' @
         ''`bullets` array or a free-form `body`.'',
       tl_schema =
         [(''type'', JStr ''object''),
          (''properties'', JObj
            [(''filename'', JObj
              [(''type'', JStr ''string'')]),
             (''slides'', JObj
              [(''type'', JStr ''array''),
               (''minItems'', JInt 1),
               (''items'', JObj
                [(''type'', JStr ''object''),
                 (''properties'', JObj
                  [(''title'', JObj
                    [(''type'', JStr ''string'')]),
                   (''bullets'', JObj
                    [(''type'', JStr ''array''),
                     (''items'', JObj
                      [(''type'', JStr ''string'')])]),
                   (''body'', JObj
                    [(''type'', JStr ''string'')])])])]),
             (''overwrite'', JObj
              [(''type'', JStr ''boolean''),
               (''default'', JBool False)])]),
          (''required'', JArr [JStr ''filename'',
            JStr ''slides''])],
       tl_needs_task = False,
       tl_run = create_slides_run b ops so \<rparr>"

definition create_spreadsheet_tool :: "backend \<Rightarrow> sandbox_ops \<Rightarrow> storage \<Rightarrow> tool" where
  "create_spreadsheet_tool b ops so =
     \<lparr> tl_name = ''create_spreadsheet'',
       tl_description =
         ''Create a .xlsx workbook in the user's workspace. Accepts one or more sheets, each a name '' @
         ''+ 2D array of cell values.'',
       tl_schema =
         [(''type'', JStr ''object''),
          (''properties'', JObj
            [(''filename'', JObj
              [(''type'', JStr ''string'')]),
             (''sheets'', JObj
              [(''type'', JStr ''array''),
               (''minItems'', JInt 1),
               (''items'', JObj
                [(''type'', JStr ''object''),
                 (''properties'', JObj
                  [(''name'', JObj
                    [(''type'', JStr ''string'')]),
                   (''rows'', JObj
                    [(''type'', JStr ''array''),
                     (''items'', JObj
                      [(''type'', JStr ''array'')])])]),
                 (''required'', JArr [JStr ''name'',
                  JStr ''rows''])])]),
             (''overwrite'', JObj
              [(''type'', JStr ''boolean''),
               (''default'', JBool False)])]),
          (''required'', JArr [JStr ''filename'',
            JStr ''sheets''])],
       tl_needs_task = False,
       tl_run = create_spreadsheet_run b ops so \<rparr>"

end
