(* ===== verification/Sleep_Props.thy ===== *)
theory Sleep_Props
  imports Sleep_Cycle
begin

section \<open>What the sleep cycle keeps\<close>

text \<open>
  Theorems about \<open>Sleep_Cycle\<close>: a merged skill lives on in an active one that ranks as high
  (\<open>represents\<close>, an order every step keeps), the merging ends and leaves no close pair, and scoring
  again changes nothing but scores, so that the next cycle picks the same plans.
\<close>

subsection \<open>Successors of superseded skills\<close>

definition successor_rel :: "skill list \<Rightarrow> (uuid \<times> uuid) set" where
  "successor_rel ss = {(sk_id s, t) | s t. s \<in> set ss \<and> sk_superseded_by s = Some t}"

definition lives_on :: "skill list \<Rightarrow> skill \<Rightarrow> bool" where
  "lives_on ss s \<longleftrightarrow> (\<exists>t\<in>set ss. usable_skill t \<and> sk_user_id t = sk_user_id s \<and>
     skill_rank s \<le> skill_rank t \<and> (sk_id s, sk_id t) \<in> (successor_rel ss)\<^sup>*)"

definition represents :: "world \<Rightarrow> world \<Rightarrow> bool" where
  "represents w w' \<longleftrightarrow> (\<forall>s\<in>set (skills w). usable_skill s \<longrightarrow> lives_on (skills w') s) \<and>
     successor_rel (skills w) \<subseteq> successor_rel (skills w')"

lemma represents_frame: "skills w' = skills w \<Longrightarrow> represents w w'"
  by (auto simp: represents_def lives_on_def)

lemma represents_trans:
  assumes uv: "represents u v" and vw: "represents v w" shows "represents u w"
  unfolding represents_def
proof (intro conjI ballI impI)
  show "successor_rel (skills u) \<subseteq> successor_rel (skills w)"
    using uv vw by (auto simp: represents_def)
  fix s assume "s \<in> set (skills u)" "usable_skill s"
  then obtain t where t: "t \<in> set (skills v)" "usable_skill t" "sk_user_id t = sk_user_id s"
    "skill_rank s \<le> skill_rank t" "(sk_id s, sk_id t) \<in> (successor_rel (skills v))\<^sup>*"
    using uv by (auto simp: represents_def lives_on_def)
  then obtain x where x: "x \<in> set (skills w)" "usable_skill x" "sk_user_id x = sk_user_id t"
    "skill_rank t \<le> skill_rank x" "(sk_id t, sk_id x) \<in> (successor_rel (skills w))\<^sup>*"
    using vw by (auto simp: represents_def lives_on_def)
  have "(sk_id s, sk_id t) \<in> (successor_rel (skills w))\<^sup>*"
    using t(5) vw rtrancl_mono[of "successor_rel (skills v)"] by (auto simp: represents_def)
  with t x show "lives_on (skills w) s"
    unfolding lives_on_def by (metis (no_types, lifting) order_trans rtrancl_trans)
qed

interpretation represents: ledger_frame represents
  by unfold_locales
    (auto intro: represents_frame represents_trans simp: env_apply_frame ledger_step_def)

subsection \<open>One merge\<close>

definition superseded_by :: "uuid \<Rightarrow> uuid \<Rightarrow> skill list \<Rightarrow> skill list" where
  "superseded_by loser survivor ss = sql_set (supersedable loser)
     (\<lambda>s. s\<lparr>sk_superseded_by := Some survivor\<rparr>) ss"

lemma successor_rel_grows: "successor_rel ss \<subseteq> successor_rel (superseded_by i j ss)"
  by (fastforce simp: successor_rel_def superseded_by_def set_sql_set supersedable_def image_iff)

lemma merge_represents:
  assumes loser: "l \<in> set ss" "usable_skill l" and survivor: "s \<in> set ss" "usable_skill s"
    and other: "sk_id l \<noteq> sk_id s" and user: "sk_user_id s = sk_user_id l"
    and rank: "skill_rank l \<le> skill_rank s" and ids: "key_distinct sk_id ss"
    and x: "x \<in> set ss" "usable_skill x"
  shows "lives_on (superseded_by (sk_id l) (sk_id s) ss) x"
proof -
  let ?ss = "superseded_by (sk_id l) (sk_id s) ss"
  have kept: "y \<in> set ?ss" if "y \<in> set ss" "sk_id y \<noteq> sk_id l" for y
    using that by (force simp: superseded_by_def set_sql_set supersedable_def)
  show ?thesis
  proof (cases "sk_id x = sk_id l")
    case True
    then have x: "x = l" using x(1) loser(1) ids unfolding key_distinct_def distinct_map inj_on_def by blast
    have "l\<lparr>sk_superseded_by := Some (sk_id s)\<rparr> \<in> set ?ss"
      using loser by (force simp: superseded_by_def set_sql_set supersedable_def usable_skill_def)
    then have "(sk_id l, sk_id s) \<in> successor_rel ?ss"
      unfolding successor_rel_def by (intro CollectI exI[of _ "l\<lparr>sk_superseded_by := Some (sk_id s)\<rparr>"] exI) simp
    then show ?thesis
      using survivor user rank other kept[of s] unfolding x lives_on_def by auto
  next
    case False
    then show ?thesis using x kept[of x] unfolding lives_on_def by auto
  qed
qed

text \<open>The pair the search finds.\<close>

definition mergeable :: "uuid \<Rightarrow> skill list \<Rightarrow> uuid \<Rightarrow> uuid \<Rightarrow> bool" where
  "mergeable user ss i j \<longleftrightarrow> (\<exists>l\<in>set (active_skills user ss). \<exists>s\<in>set (active_skills user ss).
     sk_id l = i \<and> sk_id s = j \<and> i \<noteq> j \<and> skill_rank l \<le> skill_rank s)"

lemma mergeableI:
  "l \<in> set (active_skills user ss) \<Longrightarrow> s \<in> set (active_skills user ss) \<Longrightarrow> sk_id l \<noteq> sk_id s \<Longrightarrow>
   skill_rank l \<le> skill_rank s \<Longrightarrow> mergeable user ss (sk_id l) (sk_id s)"
  unfolding mergeable_def by blast

lemma pick_survivor_cases:
  "pick_survivor a b = (l, s) \<Longrightarrow> skill_rank l \<le> skill_rank s \<and> ((l, s) = (a, b) \<or> (l, s) = (b, a))"
  by (auto simp: pick_survivor_def split: if_splits)

lemma neighbours_read:
  assumes "skill_neighbours dist i user k w = (r, w')"
  shows "skills w' = skills w \<and> (case r of Inl _ \<Rightarrow> True | Inr ns \<Rightarrow>
     ns = (case Option.bind (key_lookup sk_id i (skills w)) sk_embedding of None \<Rightarrow> []
       | Some target \<Rightarrow> nearest dist target k sk_embedding
           (filter (\<lambda>s. sk_id s \<noteq> i) (active_skills user (skills w)))))"
proof -
  have "filter (\<lambda>s. sk_user_id s = Some user \<and> sk_id s \<noteq> i \<and> usable_skill s) ss =
      filter (\<lambda>s. sk_id s \<noteq> i) (active_skills user ss)" for ss
    by (simp add: active_skills_def) (meson filter_cong)
  note rows = this
  from assms[unfolded skill_neighbours_def] show ?thesis
    by (cases rule: stmt_cases) (auto simp: near_frame rows split: option.splits)
qed

lemma find_pair:
  assumes "find_supersession_pair close dist user active w = (r, w')"
    and "set active \<subseteq> set (active_skills user (skills w))"
  shows "skills w' = skills w \<and> (case r of Inr (Some (i, j)) \<Rightarrow> mergeable user (skills w) i j | _ \<Rightarrow> True)"
  using assms
proof (induction active arbitrary: w)
  case Nil
  then show ?case by auto
next
  case (Cons s active)
  from Cons.prems(1)[unfolded find_supersession_pair.simps] show ?case
  proof (cases rule: bindE_cases)
    case (exn e)
    with neighbours_read[OF exn(1)] show ?thesis by simp
  next
    case (val ns w1)
    have sk: "skills w1 = skills w" using neighbours_read[OF val(1)] by simp
    have rest: "find_supersession_pair close dist user active w1 = (r, w') \<Longrightarrow> ?thesis"
      using Cons.IH[of w1] Cons.prems(2) unfolding sk by simp
    show ?thesis
    proof (cases ns)
      case Nil
      with val rest show ?thesis by simp
    next
      case (Cons n ns')
      obtain best x where n: "n = (best, x)" by (cases n)
      obtain l v where p: "pick_survivor s best = (l, v)" by (cases "pick_survivor s best")
      have "(best, x) \<in> set ns" using Cons n by simp
      then have best: "best \<in> set (active_skills user (skills w))" "sk_id best \<noteq> sk_id s"
        using neighbours_read[OF val(1)] by (auto dest: in_nearestD split: option.splits)
      have "mergeable user (skills w) (sk_id l) (sk_id v)"
        using pick_survivor_cases[OF p] best Cons.prems(2) by (auto intro!: mergeableI)
      then show ?thesis
        using val(2) rest sk Cons n p by (auto split: if_splits)
    qed
  qed
qed

text \<open>What one \<open>mark_superseded\<close> of such a pair does.\<close>

lemma mark_pair:
  assumes "mark_superseded i j w = (r, w')" and "mergeable user (skills w) i j"
  shows "(skills w' = skills w \<and> script w \<noteq> [] \<and> (\<exists>e. r = Inl e)) \<or>
    (skills w' = superseded_by i j (skills w) \<and> r = Inr True \<and> (script w = [] \<longrightarrow> script w' = []))"
proof -
  have found: "sql_first (supersedable i) (skills w) \<noteq> None" "key_lookup sk_id j (skills w) \<noteq> None"
    using assms(2)
    by (auto simp: mergeable_def sql_first_None_iff key_lookup_def active_skills_def supersedable_def usable_skill_def)
  show ?thesis
  proof (cases "script w")
    case Nil
    then show ?thesis using assms(1) found by (auto simp: mark_superseded_def superseded_by_def)
  next
    case (Cons x xs)
    from assms(1)[unfolded mark_superseded_def] show ?thesis
      by (cases rule: stmt_cases) (use found Cons in \<open>auto simp: near_frame superseded_by_def\<close>)
  qed
qed

lemma key_distinct_filter: "key_distinct key rows \<Longrightarrow> key_distinct key (filter p rows)"
  by (simp add: key_distinct_def distinct_map_filter)

lemma key_once:
  assumes "key_distinct key rows" "r \<in> set rows" "key r = k"
  shows "filter (\<lambda>x. key x \<noteq> k) rows = remove1 r rows"
  using assms
proof (induction rows)
  case (Cons x rows)
  then show ?case
    by (cases "x = r") (auto simp: key_distinct_def image_iff intro!: filter_True)
qed simp

lemma merge_shrinks:
  assumes "mergeable user ss i j" and ids: "key_distinct sk_id ss"
  shows "length (active_skills user ss) = Suc (length (active_skills user (superseded_by i j ss)))"
proof -
  let ?P = "\<lambda>s. sk_user_id s = Some user \<and> usable_skill s"
  let ?f = "\<lambda>s. if supersedable i s then s\<lparr>sk_superseded_by := Some j\<rparr> else s"
  obtain l where l: "l \<in> set (filter ?P ss)" "sk_id l = i"
    using assms by (auto simp: mergeable_def active_skills_def)
  have "length (active_skills user (superseded_by i j ss)) = length (filter (\<lambda>s. ?P (?f s)) ss)"
    by (simp add: active_skills_def superseded_by_def sql_set_def filter_map o_def)
  also have "filter (\<lambda>s. ?P (?f s)) ss = filter (\<lambda>s. sk_id s \<noteq> i) (filter ?P ss)"
    by (simp, rule filter_cong) (auto simp: supersedable_def usable_skill_def)
  also have "\<dots> = remove1 l (filter ?P ss)"
    by (rule key_once[where key = sk_id, OF key_distinct_filter[OF ids] l])
  finally show ?thesis
    using l(1) length_pos_if_in_set[OF l(1)] by (simp add: active_skills_def length_remove1)
qed

lemma mergeable_represents:
  assumes "mergeable user (skills w) i j" "skills w' = superseded_by i j (skills w)"
    "key_distinct sk_id (skills w)"
  shows "represents w w'"
proof -
  obtain l s where ls: "l \<in> set (skills w)" "usable_skill l" "s \<in> set (skills w)" "usable_skill s"
    "sk_user_id s = sk_user_id l" "sk_id l = i" "sk_id s = j" "i \<noteq> j" "skill_rank l \<le> skill_rank s"
    using assms(1) by (auto simp: mergeable_def active_skills_def)
  then show ?thesis
    unfolding represents_def assms(2) using merge_represents[of l "skills w" s] assms(3)
      successor_rel_grows by blast
qed

lemma superseded_by_ids: "map sk_id (superseded_by i j ss) = map sk_id ss"
  by (simp add: superseded_by_def sql_set_def)

subsection \<open>The loop over one user's skills\<close>

text \<open>No two skills are close: what the loop leaves when nothing fails.\<close>

definition separated :: "(int \<Rightarrow> bool) \<Rightarrow> (vector \<Rightarrow> vector \<Rightarrow> int) \<Rightarrow> skill list \<Rightarrow> bool" where
  "separated close dist ss \<longleftrightarrow> (\<forall>s\<in>set ss. \<forall>t\<in>set ss. sk_id s \<noteq> sk_id t \<longrightarrow>
     \<not> close (dist (the (sk_embedding s)) (the (sk_embedding t))))"

lemma nearest_one:
  assumes "nearest dist q 1 vec rows = ns" "r \<in> set rows" "vec r = Some v"
  shows "\<exists>b x. ns = [(b, x)] \<and> x \<le> dist q v"
proof -
  let ?all = "List.map_filter (\<lambda>r. map_option (\<lambda>v. (r, dist q v)) (vec r)) rows"
  have mem: "(r, dist q v) \<in> set (sort_key snd ?all)"
    using assms(2,3) by (force simp: map_filter_def)
  then obtain p ps where ps: "sort_key snd ?all = p # ps" by (cases "sort_key snd ?all") auto
  have "sorted (map snd (p # ps))" using sorted_sort_key[of snd ?all] unfolding ps .
  then have "snd p \<le> dist q v" using mem unfolding ps by auto
  then show ?thesis using assms(1) unfolding nearest_def ps by (cases p) auto
qed

lemma no_pair_separates:
  assumes "find_supersession_pair close dist user active w = (Inr None, w')"
    and "set active \<subseteq> set (active_skills user (skills w))" and "key_distinct sk_id (skills w)"
    and near: "\<And>x y. close y \<Longrightarrow> x \<le> y \<Longrightarrow> close x"
    and s: "s \<in> set active" and t: "t \<in> set (active_skills user (skills w))" "sk_id s \<noteq> sk_id t"
  shows "\<not> close (dist (the (sk_embedding s)) (the (sk_embedding t)))"
  using assms(1,2,3) s t
proof (induction active arbitrary: w)
  case (Cons a active)
  from Cons.prems(1)[unfolded find_supersession_pair.simps] show ?case
  proof (cases rule: bindE_cases)
    case (val ns w1)
    have sk: "skills w1 = skills w" using neighbours_read[OF val(1)] by simp
    have cont: "find_supersession_pair close dist user active w1 = (Inr None, w')"
      using val(2) by (auto split: list.splits prod.splits if_splits)
    show ?thesis
    proof (cases "s = a")
      case False
      then show ?thesis using Cons.IH[OF cont] Cons.prems sk by auto
    next
      case True
      obtain v u where v: "sk_embedding s = Some v" "sk_embedding t = Some u"
        using Cons.prems True by (auto simp: active_skills_def usable_skill_def)
      have "s \<in> set (skills w)" using Cons.prems True by (auto simp: active_skills_def)
      then have "key_lookup sk_id (sk_id s) (skills w) = Some s" using Cons.prems(3) key_lookup_in[of sk_id "skills w" s] by blast
      then have ns: "nearest dist v 1 sk_embedding
          (filter (\<lambda>x. sk_id x \<noteq> sk_id s) (active_skills user (skills w))) = ns"
        using neighbours_read[OF val(1)] v True by simp
      have "t \<in> set (filter (\<lambda>x. sk_id x \<noteq> sk_id s) (active_skills user (skills w)))"
        using Cons.prems by simp
      from nearest_one[OF ns this v(2)] obtain b x where b: "ns = [(b, x)]" "x \<le> dist v u" by blast
      have "\<not> close x" using val(2) b by (auto split: prod.splits if_splits)
      then show ?thesis using near b v by auto
    qed
  qed simp
qed simp

lemma active_read:
  assumes "list_active_skills user w = (r, w')"
  shows "skills w' = skills w \<and> (script w = [] \<longrightarrow> w' = w \<and> (\<exists>ss. r = Inr ss)) \<and>
    (case r of Inl _ \<Rightarrow> True | Inr ss \<Rightarrow> set ss = set (active_skills user (skills w)) \<and>
       length ss = length (active_skills user (skills w)))"
proof (cases "script w")
  case Nil
  then show ?thesis using assms by (auto simp: list_active_skills_def active_skills_def)
next
  case (Cons x xs)
  from assms[unfolded list_active_skills_def] show ?thesis
    by (cases rule: stmt_cases) (use Cons in \<open>auto simp: near_frame active_skills_def\<close>)
qed

text \<open>Reads leave the script of failures empty.\<close>

lemma pair_quiet:
  "script w = [] \<Longrightarrow> \<exists>p. find_supersession_pair close dist user active w = (Inr p, w)"
  by (induction active) (auto simp: bindE_def skill_neighbours_def split: list.splits prod.splits)

definition merged_state :: "(int \<Rightarrow> bool) \<Rightarrow> (vector \<Rightarrow> vector \<Rightarrow> int) \<Rightarrow> uuid \<Rightarrow> nat \<Rightarrow> world \<Rightarrow>
    exn + nat option \<Rightarrow> world \<Rightarrow> bool" where
  "merged_state close dist user n w r w' \<longleftrightarrow>
     represents w w' \<and> map sk_id (skills w') = map sk_id (skills w) \<and> r \<noteq> Inr None \<and>
     (\<forall>m. r = Inr (Some m) \<longrightarrow>
        m + length (active_skills user (skills w')) = n + length (active_skills user (skills w))) \<and>
     (script w = [] \<longrightarrow> script w' = [] \<and> (\<exists>m. r = Inr (Some m)) \<and>
        separated close dist (active_skills user (skills w')))"

lemma merged_frame:
  assumes "skills w' = skills w" "r = Inl e \<or> r = Inr (Some n)"
    and "script w = [] \<Longrightarrow> script w' = [] \<and> r = Inr (Some n) \<and>
      separated close dist (active_skills user (skills w'))"
  shows "merged_state close dist user n w r w'"
  using assms represents_frame[of w' w] by (auto simp: merged_state_def)

lemma few_separated: "length (active_skills user ss) < 2 \<Longrightarrow> separated close dist (active_skills user ss)"
proof -
  assume "length (active_skills user ss) < 2"
  then consider "active_skills user ss = []" | x where "active_skills user ss = [x]"
    by (cases "active_skills user ss" rule: list.exhaust; cases "tl (active_skills user ss)") auto
  then show ?thesis by cases (auto simp: separated_def)
qed

lemma consolidate_loop_merges:
  assumes "consolidate_loop close dist user fuel n w = (r, w')"
    and "key_distinct sk_id (skills w)" and "length (active_skills user (skills w)) < fuel"
    and near: "\<And>x y. close y \<Longrightarrow> x \<le> y \<Longrightarrow> close x"
  shows "merged_state close dist user n w r w'"
  using assms(1,2,3)
proof (induction fuel arbitrary: n w)
  case (Suc fuel)
  from Suc.prems(1)[unfolded consolidate_loop.simps] show ?case
  proof (cases rule: bindE_cases)
    case (exn e)
    with active_read[OF exn(1)] show ?thesis by (intro merged_frame) auto
  next
    case (val active w1)
    note read = active_read[OF val(1)]
    show ?thesis
    proof (cases "length active < 2")
      case True
      then show ?thesis
        using val(2) read few_separated[of user "skills w1" close dist] by (intro merged_frame) auto
    next
      case False
      with val(2) have "bindE (find_supersession_pair close dist user active) (\<lambda>pair.
          case pair of None \<Rightarrow> ret (Some n) | Some (loser, survivor) \<Rightarrow>
            bindE (attemptE (mark_superseded loser survivor)) (\<lambda>r. case r of
              Inr True \<Rightarrow> consolidate_loop close dist user fuel (Suc n)
            | Inr False \<Rightarrow> ret (Some n) | Inl _ \<Rightarrow> ret (Some n))) w1 = (r, w')" by simp
      then show ?thesis
      proof (cases rule: bindE_cases)
        case (exn e)
        with find_pair[OF exn(1)] read pair_quiet[of w1 close dist user active] show ?thesis
          by (intro merged_frame) auto
      next
        case (val pair w2)
        have sub: "set active \<subseteq> set (active_skills user (skills w1))" using read by simp
        note found = find_pair[OF val(1) sub]
        show ?thesis
        proof (cases pair)
          case None
          have ids: "key_distinct sk_id (skills w1)" using read Suc.prems(2) by simp
          have "separated close dist (active_skills user (skills w1))"
            using no_pair_separates[OF val(1)[unfolded None] sub ids near] read
            by (auto simp: separated_def)
          then show ?thesis
            using val(2) None found read pair_quiet[of w1 close dist user active] val(1)
            by (intro merged_frame) auto
        next
          case (Some p)
          obtain i j where p: "pair = Some (i, j)" using Some by (cases p) auto
          obtain q w3 where m: "mark_superseded i j w2 = (q, w3)" by fastforce
          have sk: "skills w2 = skills w" "script w = [] \<Longrightarrow> script w2 = []"
            using found read pair_quiet[of w1 close dist user active] val(1) by auto
          have pair: "mergeable user (skills w) i j" using found p sk read by auto
          from mark_pair[OF m, unfolded sk, OF pair] show ?thesis
          proof (elim disjE conjE exE)
            fix e assume "skills w3 = skills w" "script w2 \<noteq> []" "q = Inl e"
            then show ?thesis
              using val(2) p m sk(2) by (intro merged_frame) (auto simp: bindE_def attemptE_def)
          next
            assume q: "q = Inr True" and w3: "skills w3 = superseded_by i j (skills w)"
              and quiet: "script w2 = [] \<longrightarrow> script w3 = []"
            have run: "consolidate_loop close dist user fuel (Suc n) w3 = (r, w')"
              using val(2) p m q by (simp add: bindE_def attemptE_def)
            have ids: "map sk_id (skills w3) = map sk_id (skills w)" using w3 superseded_by_ids by simp
            have less: "length (active_skills user (skills w)) = Suc (length (active_skills user (skills w3)))"
              unfolding w3 by (rule merge_shrinks[OF pair Suc.prems(2)])
            have "merged_state close dist user (Suc n) w3 r w'"
              using Suc.IH[OF run] Suc.prems(2,3) less by (simp add: key_distinct_def ids)
            then show ?thesis
              using represents_trans[OF mergeable_represents[OF pair w3 Suc.prems(2)]] less ids quiet sk(2)
              unfolding merged_state_def by auto
          qed
        qed
      qed
    qed
  qed
qed simp

lemma consolidate_user_merges:
  assumes "consolidate_user_skills close dist user w = (r, w')" and "key_distinct sk_id (skills w)"
    and "\<And>x y. close y \<Longrightarrow> x \<le> y \<Longrightarrow> close x"
  shows "merged_state close dist user 0 w r w'"
  using assms consolidate_loop_merges[of close dist user "Suc (length (active_skills user (skills w)))" 0 w r w']
  by (simp add: consolidate_user_skills_def bindE_def)


subsection \<open>The whole cycle\<close>

definition skills_kept :: "world \<Rightarrow> world \<Rightarrow> bool" where
  "skills_kept w w' \<longleftrightarrow> (key_distinct sk_id (skills w) \<longrightarrow>
     represents w w' \<and> map sk_id (skills w') = map sk_id (skills w))"

lemma skills_kept_frame: "skills w' = skills w \<Longrightarrow> skills_kept w w'"
  by (simp add: skills_kept_def represents_frame)

interpretation skills_kept: ledger_frame skills_kept
proof unfold_locales
  fix u v w assume "skills_kept u v" "skills_kept v w"
  then show "skills_kept u w"
    by (auto simp: skills_kept_def key_distinct_def intro: represents_trans)
qed (auto intro!: skills_kept_frame simp: env_apply_frame ledger_step_def)

context ledger_frame
begin

text \<open>Any order that tolerates new outcomes of plans tolerates scoring again.\<close>

lemma rescore_keeps:
  assumes d: "agents_keep R d" and out: "\<And>i a b c e. keeps R (update_outcome i a b c e)"
  shows "keeps R (rescore_old_plans d n)"
proof -
  have "keeps R (rescore_one d row)" for row
    unfolding rescore_one_def by (intro bind lift post_evaluate_keeps d out)
  then have "keeps R (rescore_rows d rows acc)" for rows acc
    by (induction d rows acc rule: rescore_rows.induct)
      (auto intro!: bind attempt ret sum)
  then show ?thesis unfolding rescore_old_plans_def by (intro if_ ret bind stmt gets)
qed

end

lemma update_outcome_skills: "keeps skills_kept (update_outcome i a b c e)"
  unfolding update_outcome_def
  by (intro skills_kept.if_ skills_kept.ret skills_kept.stmt skills_kept.modify skills_kept_frame) simp

lemma consolidate_users_keeps:
  assumes "\<And>x y. close y \<Longrightarrow> x \<le> y \<Longrightarrow> close x"
  shows "keeps skills_kept (consolidate_users close dist us n)"
proof (induction us arbitrary: n)
  case Nil
  show ?case unfolding consolidate_users.simps by (rule skills_kept.ret)
next
  case (Cons u us)
  have "keeps skills_kept (consolidate_user_skills close dist u)"
  proof (rule keepsI)
    fix w r w' assume run: "consolidate_user_skills close dist u w = (r, w')"
    have "merged_state close dist u 0 w r w'" if "key_distinct sk_id (skills w)"
      using consolidate_user_merges[OF run that] assms by blast
    then show "skills_kept w w'" by (simp add: merged_state_def skills_kept_def)
  qed
  then show ?case
    unfolding consolidate_users.simps by (intro skills_kept.bind skills_kept.opt skills_kept.ret Cons)
qed

lemma consolidate_users_end:
  assumes near: "\<And>x y. close y \<Longrightarrow> x \<le> y \<Longrightarrow> close x"
    and "consolidate_users close dist us n w = (r, w')" and "key_distinct sk_id (skills w)"
  shows "r \<noteq> Inr None"
  using assms(2,3)
proof (induction us arbitrary: n w)
  case (Cons u us)
  from Cons.prems(1)[unfolded consolidate_users.simps] show ?case
  proof (cases rule: bindE_cases)
    case (val m w1)
    have "merged_state close dist u 0 w (Inr m) w1"
      using consolidate_user_merges[OF val(1) Cons.prems(2)] near by blast
    then have "m \<noteq> None" "key_distinct sk_id (skills w1)"
      using Cons.prems(2) by (auto simp: merged_state_def key_distinct_def)
    then show ?thesis using val(2) Cons.IH by (auto split: option.splits)
  qed simp
qed auto

lemma gc_skills: "keeps skills_kept (gc_orphan_threads n)"
  unfolding gc_orphan_threads_def
  by (intro skills_kept.if_ skills_kept.ret skills_kept.stmt)
    (simp add: keeps_def Let_def delete_threads_def skills_kept_frame)

text \<open>C34: The sleep cycle ends, and no skill is lost to it: every active skill is active after it, or has
  been superseded, possibly in several steps, by an active skill of the same owner that ranks at least as
  high; whatever fails and whatever the model answers.\<close>

theorem cycle_loses_no_skill:
  assumes "agents_keep skills_kept d" and "sleep_cycle cy d w = (r, w')"
    and "key_distinct sk_id (skills w)" and "s \<in> set (skills w)" and "usable_skill s"
    and near: "\<And>x y. cy_close cy y \<Longrightarrow> x \<le> y \<Longrightarrow> cy_close cy x"
  shows "r \<noteq> Inr None \<and> lives_on (skills w') s"
proof -
  have users: "keeps skills_kept (consolidate_users (cy_close cy) (pn_dist d) us n)" for us n
    using consolidate_users_keeps near by blast
  have merge: "keeps skills_kept (consolidate_skills (cy_close cy) (pn_dist d))"
    unfolding consolidate_skills_def
    by (intro skills_kept.bind skills_kept.stmt skills_kept.gets users)
  have score: "keeps skills_kept (rescore_old_plans d (cy_batch cy))"
    by (intro skills_kept.rescore_keeps assms(1) update_outcome_skills)
  have cycle: "keeps skills_kept (sleep_cycle cy d)"
    unfolding sleep_cycle_def
    by (intro skills_kept.if_ skills_kept.ret skills_kept.bind skills_kept.pair skills_kept.opt
        merge score gc_skills)
  have "represents w w'" using keepsD[OF cycle assms(2)] assms(3) by (simp add: skills_kept_def)
  then have "lives_on (skills w') s" using assms(4,5) by (simp add: represents_def)
  moreover have "r \<noteq> Inr None"
  proof
    assume "r = Inr None"
    with assms(2) obtain q w1 w2 where run: "rescore_old_plans d (cy_batch cy) w = (Inr q, w1)"
      "consolidate_skills (cy_close cy) (pn_dist d) w1 = (Inr None, w2)"
      by (auto simp: sleep_cycle_def bindE_def split: if_splits prod.splits sum.splits option.splits)
    have "key_distinct sk_id (skills w1)"
      using keepsD[OF score run(1)] assms(3) by (simp add: skills_kept_def key_distinct_def)
    moreover from run(2)[unfolded consolidate_skills_def]
    have "\<exists>w3 us. skills w3 = skills w1 \<and>
        consolidate_users (cy_close cy) (pn_dist d) us 0 w3 = (Inr None, w2)"
    proof (cases rule: read_cases)
      case (run v)
      then show ?thesis using near_frame(18)[OF run(1)] by blast
    qed simp
    ultimately show False using consolidate_users_end[of "cy_close cy"] near by fastforce
  qed
  ultimately show ?thesis by simp
qed

subsection \<open>Scoring again\<close>

definition same_but_score :: "stored_plan \<Rightarrow> stored_plan \<Rightarrow> bool" where
  "same_but_score p q \<longleftrightarrow> q = p\<lparr>p_score := p_score q\<rparr> \<and> (p_score q = None \<longleftrightarrow> p_score p = None) \<and>
     (p_score q = p_score p \<or> (\<exists>n. p_score q = Some n \<and> 0 \<le> n \<and> n \<le> 100))"

definition scores_only :: "world \<Rightarrow> world \<Rightarrow> bool" where
  "scores_only w w' \<longleftrightarrow> list_all2 same_but_score (plans w) (plans w')"

lemma same_but_score_refl: "same_but_score p p"
  by (simp add: same_but_score_def)

lemma same_but_score_trans: "same_but_score p q \<Longrightarrow> same_but_score q r \<Longrightarrow> same_but_score p r"
  by (cases p; cases q; cases r) (auto simp: same_but_score_def)

lemma same_but_scoreD:
  assumes "same_but_score p q"
  shows "p_id q = p_id p" "p_created_at q = p_created_at p" "p_final_answer q = p_final_answer p"
    "p_score q = None \<longleftrightarrow> p_score p = None"
  using assms by (cases p; cases q; auto simp: same_but_score_def)+

lemma scores_only_frame: "plans w' = plans w \<Longrightarrow> scores_only w w'"
  by (simp add: scores_only_def list_all2_refl same_but_score_refl)

interpretation scores_only: ledger_frame scores_only
proof unfold_locales
  fix u v w assume "scores_only u v" "scores_only v w"
  then show "scores_only u w"
    unfolding scores_only_def by (rule list_all2_trans[rotated]) (rule same_but_score_trans)
qed (auto intro!: scores_only_frame simp: env_apply_frame ledger_step_def)

definition scored :: "uuid \<Rightarrow> world \<Rightarrow> bool" where
  "scored i w \<longleftrightarrow> (\<forall>p\<in>set (plans w). p_id p = i \<longrightarrow> p_score p \<noteq> None)"

lemma scored_stable: "scored i w \<Longrightarrow> scores_only w w' \<Longrightarrow> scored i w'"
  unfolding scored_def scores_only_def list_all2_conv_all_nth all_set_conv_all_nth
  using same_but_scoreD by metis

lemma new_score:
  assumes "update_outcome i None None (Some n) None w = (r, w')" and "scored i w" and "0 \<le> n" "n \<le> 100"
  shows "scores_only w w'"
proof -
  have "list_all2 same_but_score ps (sql_set (\<lambda>p. p_id p = i) (set_outcome None None (Some n) None) ps)"
    if "\<forall>p\<in>set ps. p_id p = i \<longrightarrow> p_score p \<noteq> None" for ps
    using that assms(3,4)
    by (induction ps) (auto simp: same_but_score_def set_outcome_def keep_or_def)
  note changed = this
  have "stmt (modifyE (\<lambda>w. w\<lparr>plans := sql_set (\<lambda>p. p_id p = i) (set_outcome None None (Some n) None)
      (plans w)\<rparr>)) w = (r, w')"
    using assms(1) by (simp add: update_outcome_def)
  then show ?thesis
  proof (cases rule: stmt_cases)
    case (run v)
    then have "plans w' = sql_set (\<lambda>p. p_id p = i) (set_outcome None None (Some n) None) (plans w)"
      by (auto simp: near_frame)
    then show ?thesis using changed assms(2) by (simp add: scores_only_def scored_def)
  next
    case (fail e)
    then show ?thesis by (simp add: scores_only_frame near_frame)
  qed
qed

lemma rescore_one_scores:
  assumes d: "agents_keep scores_only d" and run: "rescore_one d row w = (r, w')" and ok: "scored (p_id row) w"
  shows "scores_only w w'"
proof -
  let ?ctx = "\<lparr> c_user = p_user_id row, c_task = None, c_trace = None, c_channel = None, c_emit = False \<rparr>"
  show ?thesis
  proof (cases "row_to_plan row")
    case (Inl e)
    then show ?thesis using run by (simp add: rescore_one_def scores_only.refl)
  next
    case (Inr p)
    then have "bindE (post_evaluate d ?ctx p (synthetic_execution p row)) (\<lambda>verdict.
        update_outcome (p_id row) None None (Some (pv_score verdict)) None) w = (r, w')"
      using run by (simp add: rescore_one_def)
    then show ?thesis
    proof (cases rule: bindE_cases)
      case (exn e)
      then show ?thesis using keepsD[OF scores_only.post_evaluate_keeps[OF d]] by blast
    next
      case (val v w1)
      have step: "scores_only w w1" using keepsD[OF scores_only.post_evaluate_keeps[OF d] val(1)] .
      have "scores_only w1 w'"
        using new_score[OF val(2) scored_stable[OF ok step]] post_evaluate_bounds[OF val(1)] by simp
      with step show ?thesis by (rule scores_only.trans)
    qed
  qed
qed

lemma rescore_rows_scores:
  assumes d: "agents_keep scores_only d"
  shows "rescore_rows d rows acc w = (r, w') \<Longrightarrow> \<forall>row\<in>set rows. scored (p_id row) w \<Longrightarrow> scores_only w w'"
proof (induction rows arbitrary: acc w)
  case Nil
  then show ?case by (simp add: scores_only.refl)
next
  case (Cons row rows)
  obtain updated errors where acc: "acc = (updated, errors)" by (cases acc)
  obtain q w1 where q: "rescore_one d row w = (q, w1)" by fastforce
  have step: "scores_only w w1" using rescore_one_scores[OF d q] Cons.prems(2) by simp
  obtain acc' where run: "rescore_rows d rows acc' w1 = (r, w')"
    using Cons.prems(1) q acc by (cases q) (auto simp: bindE_def attemptE_def)
  have "\<forall>row\<in>set rows. scored (p_id row) w1" using Cons.prems(2) scored_stable[OF _ step] by simp
  from scores_only.trans[OF step Cons.IH[OF run this]] show ?case .
qed

subsection \<open>The next batch\<close>

lemma sort_key_related:
  assumes "list_all2 R xs ys" and key: "\<And>x y. R x y \<Longrightarrow> k x = k y"
  shows "list_all2 R (sort_key k xs) (sort_key k ys)"
  using assms(1)
proof (induction rule: list_all2_induct)
  case (Cons x xs y ys)
  have "list_all2 R (insort_key k x us) (insort_key k y vs)"
    if "list_all2 R us vs" for us vs
    using that
  proof (induction rule: list_all2_induct)
    case (Cons u us v vs)
    then show ?case using key[OF \<open>R x y\<close>] key[of u v] \<open>R x y\<close> by simp
  qed (simp add: \<open>R x y\<close>)
  then show ?case using Cons by simp
qed simp

lemma filter_related:
  assumes "list_all2 R xs ys" and "\<And>x y. R x y \<Longrightarrow> p x = p y"
  shows "list_all2 R (filter p xs) (filter p ys)"
  using assms(1) by (induction rule: list_all2_induct) (auto simp: assms(2))

text \<open>Scoring old plans again changes nothing of a plan but its score, only where there was one, and to
  a value between 0 and 100. The batch of the next cycle therefore holds the same plans again: a table
  with more scored plans than the batch is never scored again in full.\<close>

theorem rescoring_repeats_batch:
  assumes "agents_keep scores_only d" and "rescore_old_plans d batch w = (r, w')"
    and "key_distinct p_id (plans w)"
  shows "list_all2 same_but_score (plans w) (plans w') \<and>
    map p_id (rescore_candidates n (plans w')) = map p_id (rescore_candidates n (plans w))"
proof -
  have "scores_only w w'"
  proof (cases "batch \<le> 0")
    case True
    then show ?thesis using assms(2) by (simp add: rescore_old_plans_def scores_only.refl)
  next
    case False
    then have "bindE (stmt (getsE (\<lambda>w. rescore_candidates (nat batch) (plans w)))) (\<lambda>rows.
        rescore_rows d rows (0, 0)) w = (r, w')"
      using assms(2) by (simp add: rescore_old_plans_def)
    then show ?thesis
    proof (cases rule: read_cases)
      case (run v)
      have "\<forall>row\<in>set (rescore_candidates (nat batch) (plans w)). scored (p_id row) v"
      proof
        fix row assume "row \<in> set (rescore_candidates (nat batch) (plans w))"
        then have row: "row \<in> set (plans w)" "p_score row \<noteq> None"
          unfolding rescore_candidates_def by (auto dest: in_set_takeD)
        then show "scored (p_id row) v"
          using assms(3) near_frame[OF run(1)]
          unfolding scored_def key_distinct_def distinct_map by (metis inj_onD)
      qed
      then have "scores_only v w'"
        using rescore_rows_scores[OF assms(1) run(2)] near_frame[OF run(1)] by simp
      then show ?thesis using scores_only_frame[of v w] near_frame[OF run(1)] scores_only.trans by blast
    next
      case (fail e)
      then show ?thesis by (simp add: scores_only_frame near_frame)
    qed
  qed
  then have same: "list_all2 same_but_score (plans w) (plans w')" by (simp add: scores_only_def)
  have "list_all2 same_but_score (rescore_candidates n (plans w)) (rescore_candidates n (plans w'))"
    unfolding rescore_candidates_def
    by (intro list_all2_takeI sort_key_related filter_related same) (auto dest: same_but_scoreD)
  then have "map p_id (rescore_candidates n (plans w')) = map p_id (rescore_candidates n (plans w))"
    by (induction rule: list_all2_induct) (auto dest: same_but_scoreD)
  with same show ?thesis by simp
qed

subsection \<open>Witnesses\<close>

definition twin_skill :: "nat \<Rightarrow> int \<Rightarrow> int \<Rightarrow> skill" where
  "twin_skill i x score = new_skill (Uuid i) 0 (Some (Uuid 5)) ''s'' [] (Some [x]) [] [] None (Some score)"

definition scored_plan :: stored_plan where
  "scored_plan = \<lparr> p_id = Uuid 7, p_user_id = Uuid 5, p_thread_id = None, p_task_id = None,
     p_query = ''digest'', p_steps = [], p_final_answer = Some ''done'', p_success = Some True,
     p_score = Some 40, p_error = None, p_embedding = None, p_created_at = 0 \<rparr>"

definition sleepy_world :: world where
  "sleepy_world = empty_world\<lparr>next_id := 9, skills := [twin_skill 1 4 80, twin_skill 2 4 90, twin_skill 3 0 70],
     plans := [scored_plan]\<rparr>"

definition first_distance :: "vector \<Rightarrow> vector \<Rightarrow> int" where
  "first_distance a b = \<bar>hd a - hd b\<bar>"

definition sleepy_planner :: planner_deps where
  "sleepy_planner = (sample_planner skill_reply)\<lparr>pn_dist := first_distance\<rparr>"

definition sleepy_settings :: cycle_settings where
  "sleepy_settings = \<lparr> cy_enabled = True, cy_batch = 3, cy_close = (\<lambda>x. x \<le> 1), cy_age_days = 30 \<rparr>"

lemma sleepy_keys: "key_distinct sk_id (skills sleepy_world)" "key_distinct p_id (plans sleepy_world)"
  by (simp_all add: sleepy_world_def twin_skill_def new_skill_def key_distinct_def)


lemma cycle_loses_no_skill_witness:
  "lives_on (skills (snd (sleep_cycle sleepy_settings sleepy_planner sleepy_world))) (twin_skill 1 4 80) \<and>
   \<not> usable_skill (hd (skills (snd (sleep_cycle sleepy_settings sleepy_planner sleepy_world))))"
proof -
  obtain r w' where run: "sleep_cycle sleepy_settings sleepy_planner sleepy_world = (r, w')" by fastforce
  have agents: "agents_keep skills_kept sleepy_planner"
    using skills_kept.sample_planner_keeps[of skill_reply] by (simp add: agents_keep_def sleepy_planner_def)
  have s: "twin_skill 1 4 80 \<in> set (skills sleepy_world)" "usable_skill (twin_skill 1 4 80)"
    by (simp_all add: sleepy_world_def twin_skill_def new_skill_def usable_skill_def)
  have "\<not> usable_skill (hd (skills (snd (sleep_cycle sleepy_settings sleepy_planner sleepy_world))))"
    by code_simp
  then show ?thesis
    using cycle_loses_no_skill[OF agents run sleepy_keys(1) s] run by (simp add: sleepy_settings_def)
qed

lemma rescoring_repeats_batch_witness:
  "map p_id (rescore_candidates 3 (plans (snd (rescore_old_plans sleepy_planner 3 sleepy_world)))) = [Uuid 7] \<and>
   fst (rescore_old_plans sleepy_planner 3 sleepy_world) = Inr (1, 0)"
proof -
  obtain r w' where run: "rescore_old_plans sleepy_planner 3 sleepy_world = (r, w')" by fastforce
  have agents: "agents_keep scores_only sleepy_planner"
    using scores_only.sample_planner_keeps[of skill_reply] by (simp add: agents_keep_def sleepy_planner_def)
  have "fst (rescore_old_plans sleepy_planner 3 sleepy_world) = Inr (1, 0)" by code_simp
  moreover have "map p_id (rescore_candidates 3 (plans sleepy_world)) = [Uuid 7]" by code_simp
  ultimately show ?thesis using rescoring_repeats_batch[OF agents run sleepy_keys(2)] run by simp
qed

end
