(* ===== verification/Usage_Report.thy ===== *)
theory Usage_Report
  imports Metering Commands
begin

section \<open>The usage report\<close>

text \<open>
  \<open>src/wolfpaw/metering/usage_report.py\<close> and its HTTP view \<open>metering/routes.py\<close>: what a user spent
  per period, model and agent, recomputed from the tokens in the ledger at the price of their moment, a
  cache that lives for 30 seconds, and the text of the \<open>/usage\<close> command. The process-wide cache is
  passed along. A time zone is a parameter: the local date of a moment and the moment a local day begins
  (\<open>zone\<close>); so are the zones by name and \<open>isoformat\<close>. The sums of the database are exact decimals, as
  here.
\<close>

subsection \<open>Data\<close>

datatype scope = DefaultScope | Today | Month | AllTime

fun scope_text :: "scope \<Rightarrow> pystr" where
  "scope_text DefaultScope = ''default''"
| "scope_text Today = ''today''"
| "scope_text Month = ''month''"
| "scope_text AllTime = ''all''"

record model_row =
  mw_model :: pystr
  mw_counts :: token_counts
  mw_input_cost :: int
  mw_output_cost :: int
  mw_cache_cost :: int
  mw_total_cost :: int

record agent_row =
  aw_agent :: pystr
  aw_cost :: int

record period_report =
  pd_label :: pystr
  pd_start :: time
  pd_end :: time
  pd_models :: "model_row list"
  pd_by_agent :: "agent_row list"
  pd_compute_cost :: int
  pd_total_cost :: int

record usage_report =
  ur_user :: uuid
  ur_scope :: scope
  ur_generated_at :: time
  ur_timezone :: pystr
  ur_periods :: "period_report list"
  ur_by_agent :: bool

subsection \<open>Periods\<close>

type_synonym date = "int \<times> int \<times> int"

record zone =
  zn_date :: "time \<Rightarrow> date"
  zn_midnight :: "date \<Rightarrow> time"

definition leap_year :: "int \<Rightarrow> bool" where
  "leap_year y = (y mod 4 = 0 \<and> (y mod 100 \<noteq> 0 \<or> y mod 400 = 0))"

text \<open>\<open>calendar.monthrange\<close>, and a date plus \<open>timedelta(days=1)\<close>.\<close>

definition month_days :: "int \<Rightarrow> int \<Rightarrow> int" where
  "month_days y m = (if m = 2 then (if leap_year y then 29 else 28)
     else if m = 4 \<or> m = 6 \<or> m = 9 \<or> m = 11 then 30 else 31)"

fun next_date :: "date \<Rightarrow> date" where
  "next_date (y, m, d) = (if d < month_days y m then (y, m, d + 1)
     else if m < 12 then (y, m + 1, 1) else (y + 1, 1, 1))"

definition today_window :: "zone \<Rightarrow> time \<Rightarrow> time \<times> time" where
  "today_window z at = (zn_midnight z (zn_date z at), zn_midnight z (next_date (zn_date z at)))"

definition calendar_month_window :: "zone \<Rightarrow> time \<Rightarrow> time \<times> time" where
  "calendar_month_window z at = (case zn_date z at of (y, m, d) \<Rightarrow>
     (zn_midnight z (y, m, 1), zn_midnight z (next_date (y, m, month_days y m))))"

definition month_names :: "pystr list" where
  "month_names = [''Jan'', ''Feb'', ''Mar'', ''Apr'', ''May'', ''Jun'', ''Jul'', ''Aug'', ''Sep'', ''Oct'',
     ''Nov'', ''Dec'']"

definition month_name :: "int \<Rightarrow> pystr" where
  "month_name m = month_names ! nat (m - 1)"

definition format_period_label :: "pystr \<Rightarrow> time \<Rightarrow> time \<Rightarrow> zone \<Rightarrow> pystr" where
  "format_period_label heading start end_at z =
     (case (zn_date z start, zn_date z (end_at - second)) of ((y, m, d), (ly, lm, ld)) \<Rightarrow>
        if heading = ''Today'' then ''Today ('' @ month_name m @ '' '' @ show_int d @ '')''
        else if (y, m, d) = (ly, lm, ld)
        then heading @ '' ('' @ month_name m @ '' '' @ show_int d @ '', '' @ show_int y @ '')''
        else heading @ '' ('' @ month_name m @ '' '' @ show_int d @ '' '' @ [en_dash] @ '' '' @
          month_name lm @ '' '' @ show_int ld @ '', '' @ show_int ly @ '')'')"

subsection \<open>Queries\<close>

definition fetch_timezone :: "uuid \<Rightarrow> pystr act" where
  "fetch_timezone user = stmt (getsE (\<lambda>w.
     case sql_first (\<lambda>p. up_user_id p = user) (profiles w) of
       None \<Rightarrow> ''UTC'' | Some p \<Rightarrow> if up_timezone p = [] then ''UTC'' else up_timezone p))"

definition fetch_subscription_period :: "uuid \<Rightarrow> (time option \<times> time option) act" where
  "fetch_subscription_period user = stmt (getsE (\<lambda>w.
     case sql_first (\<lambda>s. sb_user_id s = user) (subscriptions w) of
       None \<Rightarrow> (None, None) | Some s \<Rightarrow> (sb_period_start s, sb_period_end s)))"

definition usage_in :: "uuid \<Rightarrow> time \<Rightarrow> time \<Rightarrow> token_usage_row list \<Rightarrow> token_usage_row list" where
  "usage_in user start end_at rows =
     filter (\<lambda>u. tu_user_id u = user \<and> start \<le> tu_created_at u \<and> tu_created_at u < end_at) rows"

text \<open>The price of the call's moment, \<open>COALESCE(..., 0)\<close> where there was none.\<close>

definition free_price :: "pystr \<Rightarrow> model_price" where
  "free_price model = \<lparr> mp_model_id = model, input_per_mtok_cents = 0, output_per_mtok_cents = 0,
     cache_read_per_mtok_cents = 0, cache_write_per_mtok_cents = 0, mp_effective_from = 0,
     mp_effective_to = None \<rparr>"

definition price_then :: "model_price list \<Rightarrow> token_usage_row \<Rightarrow> model_price" where
  "price_then prices u = (case newest_price (tu_model u) (tu_created_at u) prices of
     None \<Rightarrow> free_price (tu_model u) | Some p \<Rightarrow> p)"

definition total_of :: "(token_usage_row \<Rightarrow> int) \<Rightarrow> token_usage_row list \<Rightarrow> int" where
  "total_of f rows = sum_list (map f rows)"

definition input_micros :: "model_price list \<Rightarrow> token_usage_row \<Rightarrow> int" where
  "input_micros ps u = input_tokens (tu_counts u) * input_per_mtok_cents (price_then ps u)"
definition output_micros :: "model_price list \<Rightarrow> token_usage_row \<Rightarrow> int" where
  "output_micros ps u = output_tokens (tu_counts u) * output_per_mtok_cents (price_then ps u)"
definition cache_micros :: "model_price list \<Rightarrow> token_usage_row \<Rightarrow> int" where
  "cache_micros ps u =
     cache_read_tokens (tu_counts u) * cache_read_per_mtok_cents (price_then ps u) +
     cache_write_tokens (tu_counts u) * cache_write_per_mtok_cents (price_then ps u)"

definition model_row_of :: "model_price list \<Rightarrow> token_usage_row list \<Rightarrow> pystr \<Rightarrow> model_row" where
  "model_row_of ps rows model = (let mine = filter (\<lambda>u. tu_model u = model) rows in
     \<lparr> mw_model = model,
       mw_counts = \<lparr> input_tokens = total_of (\<lambda>u. input_tokens (tu_counts u)) mine,
         output_tokens = total_of (\<lambda>u. output_tokens (tu_counts u)) mine,
         cache_read_tokens = total_of (\<lambda>u. cache_read_tokens (tu_counts u)) mine,
         cache_write_tokens = total_of (\<lambda>u. cache_write_tokens (tu_counts u)) mine \<rparr>,
       mw_input_cost = ceil_div (total_of (input_micros ps) mine) MTOK,
       mw_output_cost = ceil_div (total_of (output_micros ps) mine) MTOK,
       mw_cache_cost = ceil_div (total_of (cache_micros ps) mine) MTOK,
       mw_total_cost = ceil_div (total_of (input_micros ps) mine + total_of (output_micros ps) mine +
         total_of (cache_micros ps) mine) MTOK \<rparr>)"

definition model_breakdown :: "model_price list \<Rightarrow> token_usage_row list \<Rightarrow> model_row list" where
  "model_breakdown ps rows = sort_key (\<lambda>r. - mw_total_cost r) (sort_key mw_model
     (map (model_row_of ps rows) (remdups (map tu_model rows))))"

definition by_agent :: "token_usage_row list \<Rightarrow> agent_row list" where
  "by_agent rows = sort_key (\<lambda>r. - aw_cost r) (sort_key aw_agent
     (map (\<lambda>a. \<lparr> aw_agent = a, aw_cost = total_of tu_cost_cents (filter (\<lambda>u. tu_agent u = a) rows) \<rparr>)
       (remdups (map tu_agent rows))))"

definition compute_cents :: "uuid \<Rightarrow> time \<Rightarrow> time \<Rightarrow> compute_usage_row list \<Rightarrow> int" where
  "compute_cents user start end_at rows = sum_list (map cu_cost_cents
     (filter (\<lambda>u. cu_user_id u = user \<and> start \<le> cu_created_at u \<and> cu_created_at u < end_at) rows))"

definition build_period :: "uuid \<Rightarrow> pystr \<Rightarrow> time \<Rightarrow> time \<Rightarrow> bool \<Rightarrow> period_report act" where
  "build_period user label start end_at include_by_agent =
     bindE (stmt (getsE (\<lambda>w. model_breakdown (model_prices w) (usage_in user start end_at (token_usage w))))) (\<lambda>models.
     bindE (stmt (getsE (\<lambda>w. compute_cents user start end_at (compute_usage w)))) (\<lambda>cents.
     bindE (if include_by_agent
            then stmt (getsE (\<lambda>w. by_agent (usage_in user start end_at (token_usage w))))
            else ret []) (\<lambda>agents.
     ret \<lparr> pd_label = label, pd_start = start, pd_end = end_at, pd_models = models, pd_by_agent = agents,
           pd_compute_cost = cents,
           pd_total_cost = sum_list (map mw_total_cost models) + cents \<rparr>)))"

subsection \<open>The cache\<close>

type_synonym report_cache = "((uuid \<times> scope) \<times> (time \<times> usage_report)) list"

definition CACHE_TTL :: time where "CACHE_TTL = 30 * second"

definition cache_get :: "time \<Rightarrow> uuid \<Rightarrow> scope \<Rightarrow> report_cache \<Rightarrow> usage_report option \<times> report_cache" where
  "cache_get at user scope c = (case map_of c (user, scope) of
     None \<Rightarrow> (None, c)
   | Some (written_at, report) \<Rightarrow>
       if at - written_at > CACHE_TTL then (None, AList.delete (user, scope) c) else (Some report, c))"

definition cache_put :: "time \<Rightarrow> uuid \<Rightarrow> scope \<Rightarrow> usage_report \<Rightarrow> report_cache \<Rightarrow> report_cache" where
  "cache_put at user scope report c = AList.update (user, scope) (at, report) c"

subsection \<open>The report\<close>

definition parse_scope :: "pystr \<Rightarrow> exn + scope" where
  "parse_scope args = (let arg = lower (strip args) in
     if arg = [] then Inr DefaultScope
     else case find (\<lambda>s. scope_text s = arg) [DefaultScope, Today, Month, AllTime] of
       Some s \<Rightarrow> Inr s
     | None \<Rightarrow> Inl (ValueError (''Unknown /usage scope: '' @ py_repr arg @
                                 ''. Try one of: today, month, all.'')))"

definition period_bounds :: "zone \<Rightarrow> time \<Rightarrow> time option \<times> time option \<Rightarrow> time \<times> time" where
  "period_bounds z at sub = (case sub of (Some s, Some e) \<Rightarrow> (s, e) | _ \<Rightarrow> calendar_month_window z at)"

definition current_period :: "uuid \<Rightarrow> zone \<Rightarrow> time \<times> time \<Rightarrow> bool \<Rightarrow> period_report act" where
  "current_period user z bounds include_by_agent =
     build_period user (format_period_label ''Current period'' (fst bounds) (snd bounds) z)
       (fst bounds) (snd bounds) include_by_agent"

definition today_period :: "uuid \<Rightarrow> zone \<Rightarrow> time \<Rightarrow> period_report act" where
  "today_period user z at = (let bounds = today_window z at in
     build_period user (format_period_label ''Today'' (fst bounds) (snd bounds) z)
       (fst bounds) (snd bounds) False)"

text \<open>1970-01-01 and 9999-01-01.\<close>

definition epoch :: time where "epoch = 0"
definition far_future :: time where "far_future = 253370764800 * second"

definition optional_period :: "bool \<Rightarrow> period_report act \<Rightarrow> period_report list act" where
  "optional_period b m = (if b then bindE m (\<lambda>p. ret [p]) else ret [])"

definition build_usage_report ::
  "(pystr \<Rightarrow> zone option) \<Rightarrow> report_cache \<Rightarrow> uuid \<Rightarrow> scope \<Rightarrow> (usage_report \<times> report_cache) act" where
  "build_usage_report zones cache user scope =
     bindE (getsE (\<lambda>w. cache_get (now w) user scope cache)) (\<lambda>(cached, cache). case cached of
       Some report \<Rightarrow> ret (report, cache)
     | None \<Rightarrow>
     bindE (getsE now) (\<lambda>at.
     bindE (fetch_timezone user) (\<lambda>tz_name.
     bindE (liftE (case zones tz_name of
              None \<Rightarrow> Inl (OtherError (''No time zone found with key '' @ tz_name)) | Some z \<Rightarrow> Inr z)) (\<lambda>z.
     bindE (fetch_subscription_period user) (\<lambda>sub.
     bindE (optional_period (scope = DefaultScope \<or> scope = Month)
              (current_period user z (period_bounds z at sub) (scope = Month))) (\<lambda>current.
     bindE (optional_period (scope = DefaultScope \<or> scope = Today) (today_period user z at)) (\<lambda>today.
     bindE (optional_period (scope = AllTime)
              (build_period user ''Lifetime (all time)'' epoch far_future False)) (\<lambda>lifetime.
     let report = \<lparr> ur_user = user, ur_scope = scope, ur_generated_at = at, ur_timezone = tz_name,
                    ur_periods = current @ today @ lifetime, ur_by_agent = (scope = Month) \<rparr>
     in bindE (getsE now) (\<lambda>at. ret (report, cache_put at user scope report cache))))))))))"

subsection \<open>The text\<close>

definition fmt_dollars :: "int \<Rightarrow> pystr" where
  "fmt_dollars cents = ''$'' @ (if cents < 0 then ''-'' else []) @ show_int (\<bar>cents\<bar> div 100) @ ''.'' @
     [digit_char (nat (\<bar>cents\<bar> mod 100 div 10)), digit_char (nat (\<bar>cents\<bar> mod 10))]"

text \<open>\<open>f"{n:,}"\<close>: groups of three digits from the right.\<close>

fun grouped :: "pystr \<Rightarrow> pystr" where
  "grouped (a # b # c # d # ds) = a # b # c # CHR '','' # grouped (d # ds)"
| "grouped ds = ds"

definition fmt_int :: "int \<Rightarrow> pystr" where
  "fmt_int n = (if n < 0 then ''-'' else []) @ rev (grouped (rev (show_int \<bar>n\<bar>)))"

definition align_right :: "nat \<Rightarrow> pystr \<Rightarrow> pystr" where
  "align_right n s = replicate (n - length s) CHR '' '' @ s"

definition model_line :: "model_row \<Rightarrow> pystr" where
  "model_line m =
     (let out = output_tokens (mw_counts m) \<noteq> 0;
          tokens_part = fmt_int (input_tokens (mw_counts m)) @ '' in'' @
            (if out then '' / '' @ fmt_int (output_tokens (mw_counts m)) @ '' out'' else []);
          cost_part =
            (if out then fmt_dollars (mw_input_cost m) @ '' + '' @ fmt_dollars (mw_output_cost m) @ '' = '' @
                      fmt_dollars (mw_total_cost m)
             else fmt_dollars (mw_total_cost m))
      in ''  '' @ pad 18 (mw_model m) @ '' '' @ pad 32 tokens_part @ '' '' @ cost_part)"

definition render_period :: "period_report \<Rightarrow> pystr list" where
  "render_period p = pd_label p #
     (if pd_models p = [] \<and> pd_compute_cost p = 0 then [''  (no usage yet)'']
      else map model_line (pd_models p) @
        (if pd_compute_cost p \<noteq> 0
         then [''  '' @ pad 18 ''sandbox compute'' @ '' '' @ pad 32 [] @ '' '' @ fmt_dollars (pd_compute_cost p)]
         else []) @
        [''  '' @ pad 18 [] @ '' '' @ align_right 32 ''Total:'' @ '' '' @ fmt_dollars (pd_total_cost p)] @
        (if pd_by_agent p = [] then []
         else ''  By agent:'' #
           map (\<lambda>a. ''    '' @ pad 16 (aw_agent a) @ '' '' @ fmt_dollars (aw_cost a)) (pd_by_agent p)))"

definition render_text :: "usage_report \<Rightarrow> pystr" where
  "render_text r = join [newline, newline] (map (\<lambda>p. lines_of (render_period p)) (ur_periods r))"

subsection \<open>The command and the route\<close>

definition usage_command ::
  "(pystr \<Rightarrow> zone option) \<Rightarrow> report_cache \<Rightarrow> inbound_message \<Rightarrow> pystr \<Rightarrow> (command_result \<times> report_cache) act" where
  "usage_command zones cache message args = (case parse_scope args of
     Inl e \<Rightarrow> ret (said (exn_str e), cache)
   | Inr scope \<Rightarrow> bindE (build_usage_report zones cache (im_user message) scope) (\<lambda>(report, cache).
       ret (said (render_text report), cache)))"

definition model_row_json :: "model_row \<Rightarrow> json" where
  "model_row_json m = JObj [(''model'', JStr (mw_model m)),
     (''input_tokens'', JInt (input_tokens (mw_counts m))), (''output_tokens'', JInt (output_tokens (mw_counts m))),
     (''cache_read_tokens'', JInt (cache_read_tokens (mw_counts m))),
     (''cache_write_tokens'', JInt (cache_write_tokens (mw_counts m))),
     (''input_cost_cents'', JInt (mw_input_cost m)), (''output_cost_cents'', JInt (mw_output_cost m)),
     (''cache_cost_cents'', JInt (mw_cache_cost m)), (''total_cost_cents'', JInt (mw_total_cost m))]"

definition period_json :: "(time \<Rightarrow> pystr) \<Rightarrow> period_report \<Rightarrow> json" where
  "period_json isoformat p = JObj [(''label'', JStr (pd_label p)), (''start'', JStr (isoformat (pd_start p))),
     (''end'', JStr (isoformat (pd_end p))), (''models'', JArr (map model_row_json (pd_models p))),
     (''by_agent'', JArr (map (\<lambda>a. JObj [(''agent'', JStr (aw_agent a)), (''cost_cents'', JInt (aw_cost a))])
        (pd_by_agent p))),
     (''compute_cost_cents'', JInt (pd_compute_cost p)), (''total_cost_cents'', JInt (pd_total_cost p))]"

definition usage_response :: "(time \<Rightarrow> pystr) \<Rightarrow> usage_report \<Rightarrow> json" where
  "usage_response isoformat r = JObj [(''scope'', JStr (scope_text (ur_scope r))),
     (''generated_at'', JStr (isoformat (ur_generated_at r))), (''timezone'', JStr (ur_timezone r)),
     (''include_by_agent'', JBool (ur_by_agent r)),
     (''periods'', JArr (map (period_json isoformat) (ur_periods r)))]"

definition get_usage ::
  "(pystr \<Rightarrow> zone option) \<Rightarrow> (time \<Rightarrow> pystr) \<Rightarrow> report_cache \<Rightarrow> pystr \<Rightarrow> uuid \<Rightarrow> (json \<times> report_cache) act" where
  "get_usage zones isoformat cache scope user = (case parse_scope scope of
     Inl e \<Rightarrow> raise (HTTPException 400 (exn_str e))
   | Inr parsed \<Rightarrow> bindE (build_usage_report zones cache user parsed) (\<lambda>(report, cache).
       ret (usage_response isoformat report, cache)))"

end
