(* ===== verification/Usage_Props.thy ===== *)
theory Usage_Props
  imports Usage_Report
begin

section \<open>What the usage report shows\<close>

text \<open>
  Theorems about \<open>Usage_Report\<close>: how the recomputed costs of a period relate to the ledger, whose report
  a cached one is and how old it can be, and that metered calls are billed at the price the report uses.
\<close>

subsection \<open>Rounding\<close>

lemma ceil_bounds:
  assumes "0 < b" shows "a \<le> b * ceil_div a b" "b * ceil_div a b < a + b"
  using ceil_div_bounds[OF assms, of a] by (simp_all add: mult.commute)

lemma ceil_div_le: "0 < b \<Longrightarrow> a \<le> b * c \<Longrightarrow> ceil_div a b \<le> c"
  using ceil_bounds[of b a] mult_less_cancel_left_pos[of b "ceil_div a b" "c + 1"]
  by (simp add: distrib_left)

lemma ceil_div_add:
  assumes "0 < b"
  shows "ceil_div (x + y) b \<le> ceil_div x b + ceil_div y b"
    and "ceil_div x b + ceil_div y b \<le> ceil_div (x + y) b + 1"
proof -
  have x: "x \<le> b * ceil_div x b" "b * ceil_div x b < x + b" using ceil_bounds[OF assms] by auto
  have y: "y \<le> b * ceil_div y b" "b * ceil_div y b < y + b" using ceil_bounds[OF assms] by auto
  have xy: "x + y \<le> b * ceil_div (x + y) b" using ceil_bounds[OF assms] by auto
  show "ceil_div (x + y) b \<le> ceil_div x b + ceil_div y b"
    by (rule ceil_div_le[OF assms]) (use x y in \<open>simp add: distrib_left\<close>)
  have "b * (ceil_div x b + ceil_div y b) < b * (ceil_div (x + y) b + 2)"
    using x y xy by (simp add: distrib_left)
  then have "ceil_div x b + ceil_div y b < ceil_div (x + y) b + 2"
    using assms by (simp add: mult_less_cancel_left_pos)
  then show "ceil_div x b + ceil_div y b \<le> ceil_div (x + y) b + 1" by simp
qed

lemma ceil_div_0 [simp]: "ceil_div 0 b = 0" by (simp add: ceil_div_def)


lemma MTOK_pos: "0 < MTOK" by (simp add: MTOK_def)

subsection \<open>The report against the ledger\<close>

text \<open>A ledger row that was charged what its tokens cost at its moment.\<close>

definition billed :: "model_price list \<Rightarrow> token_usage_row \<Rightarrow> bool" where
  "billed ps u \<longleftrightarrow> tu_cost_cents u = compute_cost_cents (price_then ps u) (tu_counts u)"








text \<open>A metered call adds a row that is billed so: the price is read and the row written at one moment.\<close>

lemma stmt_same_time:
  assumes "stmt f w = (r, w')"
  shows "(\<exists>v. near w v \<and> now v = now w \<and> f v = (r, w')) \<or> (\<exists>e. r = Inl e)"
proof (cases "script w")
  case Nil
  then show ?thesis using assms near_refl by (auto simp: stmt_def)
next
  case (Cons x rest)
  then show ?thesis
    using assms near_others[of w "fst x" rest] by (cases x) (fastforce simp: stmt_def Let_def split: option.splits)
qed

lemma meter_bills:
  assumes "meter a raw w = (Inr x, w')"
  shows "\<exists>row. token_usage w' = token_usage w @ [row] \<and> billed (model_prices w) row \<and> tu_created_at row = now w"
proof -
  obtain price w1 where price: "get_active_price (ca_model a) w = (Inr price, w1)"
    and rest: "bindE (record_usage (ca_user a) (ca_agent a) (ca_model a) (extract_usage raw)
        (case price of None \<Rightarrow> 0 | Some p \<Rightarrow> compute_cost_cents p (extract_usage raw))
        (ca_prompt_version a) (ca_task a))
      (\<lambda>i. ret (case price of None \<Rightarrow> 0 | Some p \<Rightarrow> compute_cost_cents p (extract_usage raw), i)) w1 = (Inr x, w')"
    using assms by (auto simp: meter_def Let_def bindE_def split: prod.splits sum.splits)
  have p: "near w w1" "now w1 = now w" "price = newest_price (ca_model a) (now w) (model_prices w)"
    using stmt_same_time[OF price[unfolded get_active_price_def]] by (auto simp: near_frame)
  obtain i where rec: "record_usage (ca_user a) (ca_agent a) (ca_model a) (extract_usage raw)
        (case price of None \<Rightarrow> 0 | Some p \<Rightarrow> compute_cost_cents p (extract_usage raw))
        (ca_prompt_version a) (ca_task a) w1 = (Inr i, w')"
    using rest by (auto simp: bindE_def split: prod.splits sum.splits)
  obtain v where v: "near w1 v" "now v = now w1" and row: "token_usage w' = token_usage v @
      [\<lparr> tu_id = Uuid (next_id v), tu_user_id = ca_user a, tu_task_id = ca_task a, tu_agent = ca_agent a,
         tu_model = ca_model a, tu_prompt_version_id = ca_prompt_version a, tu_counts = extract_usage raw,
         tu_cost_cents = (case price of None \<Rightarrow> 0 | Some p \<Rightarrow> compute_cost_cents p (extract_usage raw)),
         tu_created_at = now v \<rparr>]"
    using stmt_same_time[OF rec[unfolded record_usage_def]] by (auto split: if_splits)
  have "compute_cost_cents (free_price m) c = 0" for m c
    by (simp add: compute_cost_cents_def micro_cents_def free_price_def)
  then show ?thesis
    using p v row near_frame(1)[OF p(1)] near_frame(1)[OF v(1)]
    by (auto simp: billed_def price_then_def split: option.splits)
qed

subsection \<open>The cache\<close>

definition same_time :: "world \<Rightarrow> world \<Rightarrow> bool" where
  "same_time w w' \<longleftrightarrow> now w' = now w"

interpretation same_time: db_order same_time
  by unfold_locales (auto simp: same_time_def)

definition cache_ok :: "time \<Rightarrow> report_cache \<Rightarrow> bool" where
  "cache_ok at c \<longleftrightarrow> (\<forall>u s t r. map_of c (u, s) = Some (t, r) \<longrightarrow>
     ur_user r = u \<and> ur_scope r = s \<and> ur_generated_at r = t \<and> t \<le> at)"

lemma cache_get_ok:
  assumes "cache_get at user s c = (r, c')" and "cache_ok at c"
  shows "cache_ok at c' \<and> (\<forall>x. r = Some x \<longrightarrow>
    ur_user x = user \<and> ur_scope x = s \<and> at - ur_generated_at x \<le> CACHE_TTL)"
  using assms
  by (auto simp: cache_get_def cache_ok_def delete_conv split: option.splits if_splits)

lemma cache_put_ok:
  "cache_ok at c \<Longrightarrow> ur_user r = u \<Longrightarrow> ur_scope r = s \<Longrightarrow> ur_generated_at r = at \<Longrightarrow>
   cache_ok at (cache_put at u s r c)"
  by (auto simp: cache_ok_def cache_put_def update_conv)

lemma period_same_time: "keeps same_time (build_period u l s e a)"
  unfolding build_period_def
  by (intro same_time.bind same_time.stmt same_time.gets same_time.ret same_time.if_)

text \<open>C37: A report is the one asked for, of the user who asked, and at most 30 seconds old; answering keeps
  the cache such that this holds for the next request, whatever fails.\<close>

theorem report_own_and_fresh:
  assumes "build_usage_report zones cache user s w = (Inr (r, cache'), w')" and "cache_ok (now w) cache"
  shows "ur_user r = user \<and> ur_scope r = s \<and> now w' - ur_generated_at r \<le> CACHE_TTL \<and>
    cache_ok (now w') cache' \<and> now w' = now w"
proof -
  obtain cached c where get: "cache_get (now w) user s cache = (cached, c)" by fastforce
  note ok = cache_get_ok[OF get assms(2)]
  show ?thesis
  proof (cases cached)
    case (Some x)
    then show ?thesis using assms(1) get ok by (simp add: build_usage_report_def bindE_def)
  next
    case None
    obtain periods tz where r: "r = \<lparr> ur_user = user, ur_scope = s, ur_generated_at = now w,
        ur_timezone = tz, ur_periods = periods, ur_by_agent = (s = Month) \<rparr>"
      and c': "cache' = cache_put (now w') user s r c"
      using assms(1) get None
      by (auto simp: build_usage_report_def bindE_def Let_def split: prod.splits sum.splits)
    have clock: "keeps same_time (build_usage_report zones cache user s)"
      unfolding build_usage_report_def optional_period_def fetch_timezone_def fetch_subscription_period_def
        Let_def current_period_def today_period_def
      by (intro same_time.rules same_time.stmt period_same_time)
    have "now w' = now w" using keepsD[OF clock assms(1)] by (simp add: same_time_def)
    then show ?thesis using r c' cache_put_ok[of "now w" c r user s] ok by (simp add: CACHE_TTL_def second_def)
  qed
qed

subsection \<open>The sum that is shown\<close>

text \<open>What the line of a model adds up to: the total lies within two cents of input, output and cache
  together, but the cache part is not shown.\<close>

lemma model_costs_add_up:
  "mw_total_cost (model_row_of ps rows m) \<le> mw_input_cost (model_row_of ps rows m) +
     mw_output_cost (model_row_of ps rows m) + mw_cache_cost (model_row_of ps rows m) \<and>
   mw_input_cost (model_row_of ps rows m) + mw_output_cost (model_row_of ps rows m) +
     mw_cache_cost (model_row_of ps rows m) \<le> mw_total_cost (model_row_of ps rows m) + 2"
  using ceil_div_add[OF MTOK_pos, of "total_of (input_micros ps) (filter (\<lambda>u. tu_model u = m) rows)"
      "total_of (output_micros ps) (filter (\<lambda>u. tu_model u = m) rows)"]
    ceil_div_add[OF MTOK_pos, of "total_of (input_micros ps) (filter (\<lambda>u. tu_model u = m) rows) +
      total_of (output_micros ps) (filter (\<lambda>u. tu_model u = m) rows)"
      "total_of (cache_micros ps) (filter (\<lambda>u. tu_model u = m) rows)"]
  by (simp add: model_row_of_def Let_def)

definition utc_zone :: zone where
  "utc_zone = \<lparr> zn_date = (\<lambda>_. (2026, 5, 23)), zn_midnight = (\<lambda>(y, m, d). d * 86400 * second) \<rparr>"

definition sample_price :: model_price where
  "sample_price = \<lparr> mp_model_id = ''m'', input_per_mtok_cents = 100, output_per_mtok_cents = 500,
     cache_read_per_mtok_cents = 10, cache_write_per_mtok_cents = 125, mp_effective_from = 0,
     mp_effective_to = None \<rparr>"

definition sample_usage :: "int \<Rightarrow> token_usage_row" where
  "sample_usage at = \<lparr> tu_id = Uuid 1, tu_user_id = Uuid 5, tu_task_id = None, tu_agent = ''quick'',
     tu_model = ''m'', tu_prompt_version_id = None,
     tu_counts = \<lparr> input_tokens = 10000, output_tokens = 2000, cache_read_tokens = 3000000,
       cache_write_tokens = 0 \<rparr>, tu_cost_cents = 32, tu_created_at = at \<rparr>"

definition usage_world :: world where
  "usage_world = empty_world\<lparr>now := 100, token_usage := [sample_usage 10, sample_usage 20],
     model_prices := [sample_price]\<rparr>"

text \<open>The equation the user reads is false: one cent and one cent make thirty-two.\<close>

lemma shown_sum_is_wrong:
  "model_line (model_row_of [sample_price] [sample_usage 10] ''m'') =
     ''  '' @ pad 18 ''m'' @ '' '' @ pad 32 ''10,000 in / 2,000 out'' @ '' $0.01 + $0.01 = $0.32''"
proof -
  have price: "price_then [sample_price] (sample_usage 10) = sample_price"
    by (simp add: price_then_def newest_price_def price_active_def sample_usage_def sample_price_def)
  have micros: "input_micros [sample_price] (sample_usage 10) = 1000000"
    "output_micros [sample_price] (sample_usage 10) = 1000000"
    "cache_micros [sample_price] (sample_usage 10) = 30000000"
    unfolding input_micros_def output_micros_def cache_micros_def price
    by (simp_all add: sample_usage_def sample_price_def)
  have model: "tu_model (sample_usage 10) = ''m''" by (simp add: sample_usage_def)
  have "model_row_of [sample_price] [sample_usage 10] ''m'' = \<lparr> mw_model = ''m'',
      mw_counts = tu_counts (sample_usage 10), mw_input_cost = 1, mw_output_cost = 1, mw_cache_cost = 30,
      mw_total_cost = 32 \<rparr>"
    by (simp add: model_row_of_def Let_def total_of_def micros model ceil_div_def MTOK_def)
  moreover have "fmt_int 10000 = ''10,000''" "fmt_int 2000 = ''2,000''" "fmt_dollars 1 = ''$0.01''"
    "fmt_dollars 32 = ''$0.32''"
    by (simp_all add: fmt_int_def fmt_dollars_def show_int_def show_nat.simps digit_char_def char_of_def bit_0)
  ultimately show ?thesis by (simp add: model_line_def sample_usage_def)
qed

lemma quiet_reports:
  assumes "script w = []"
  shows "\<exists>p w'. build_period u l s e a w = (Inr p, w')"
    and "\<exists>r c w'. build_usage_report (\<lambda>_. Some z) [] u Today w = (Inr (r, c), w')"
  using assms
  by (simp_all add: build_usage_report_def bindE_def cache_get_def fetch_timezone_def fetch_subscription_period_def
      optional_period_def today_period_def build_period_def Let_def)

lemma usage_world_quiet: "script usage_world = []"
  by (simp add: usage_world_def empty_world_def)


lemma report_own_and_fresh_witness:
  "\<exists>r c w'. build_usage_report (\<lambda>_. Some utc_zone) [] (Uuid 5) Today usage_world = (Inr (r, c), w') \<and>
     ur_user r = Uuid 5 \<and> cache_ok (now w') c"
proof -
  obtain r c w' where run:
    "build_usage_report (\<lambda>_. Some utc_zone) [] (Uuid 5) Today usage_world = (Inr (r, c), w')"
    using quiet_reports(2)[OF usage_world_quiet] by blast
  have "cache_ok (now usage_world) []" by (simp add: cache_ok_def)
  from report_own_and_fresh[OF run this] run show ?thesis by blast
qed

end
