(* ===== verification/Accounts.thy ===== *)
theory Accounts
  imports Signing Tasks_Dao
begin

section \<open>Accounts, sessions and single-use tokens\<close>

text \<open>
  \<open>src/wolfpaw/auth/\<close> (allowlist, users, tokens, deps, routes), \<open>memory/channel_links.py\<close> and
  \<open>channels/telegram_tokens.py\<close>. The hash of a token (\<open>hash\<close>), the source of random tokens (\<open>fresh\<close>),
  the keyed hash and the mailer are parameters. A transaction that locks its row with \<open>FOR UPDATE\<close> is one
  interaction with the database. References to users are not checked, as everywhere here: a request is
  made by a user who exists. The checks of \<open>EmailStr\<close> and the attributes of cookies are the web
  framework's.
\<close>

type_synonym token_hash = "pystr \<Rightarrow> pystr"

subsection \<open>The allowlist\<close>

definition normal_email :: "pystr \<Rightarrow> pystr" where
  "normal_email e = lower (strip e)"

definition allowed_emails :: "pystr \<Rightarrow> pystr list" where
  "allowed_emails raw = map normal_email (filter (\<lambda>p. strip p \<noteq> []) (split_on (CHR '','') raw))"

definition email_allowed :: "pystr \<Rightarrow> pystr \<Rightarrow> bool" where
  "email_allowed raw email =
     (allowed_emails raw = [] \<or> normal_email email \<in> set (allowed_emails raw))"

subsection \<open>Users\<close>

definition account_of :: "pystr \<Rightarrow> world \<Rightarrow> account option" where
  "account_of email w = sql_first (\<lambda>a. ac_email a = email) (accounts w)"

definition new_profile :: "uuid \<Rightarrow> time \<Rightarrow> user_profile" where
  "new_profile user at = \<lparr> up_user_id = user, up_version = 1, up_persona = [], up_preferences = [],
     up_timezone = ''UTC'', up_updated_at = at \<rparr>"

definition new_subscription :: "uuid \<Rightarrow> subscription" where
  "new_subscription user = \<lparr> sb_user_id = user, sb_tier = ''dev'', sb_period_start = None,
     sb_period_end = None \<rparr>"

text \<open>\<open>ON CONFLICT (user_id) DO NOTHING\<close>.\<close>

definition insert_missing :: "('r \<Rightarrow> uuid) \<Rightarrow> 'r \<Rightarrow> 'r list \<Rightarrow> 'r list" where
  "insert_missing key row rows = (if key_lookup key (key row) rows = None then rows @ [row] else rows)"

definition get_or_create_user :: "pystr \<Rightarrow> world \<Rightarrow> (uuid \<times> bool) \<times> world" where
  "get_or_create_user raw w = (let email = normal_email raw; user = Uuid (next_id w) in
     case account_of email w of
       Some a \<Rightarrow> ((ac_id a, False), w)
     | None \<Rightarrow> ((user, True), w\<lparr>next_id := Suc (next_id w),
         accounts := accounts w @ [\<lparr> ac_id = user, ac_email = email, ac_display_name = None,
           ac_created_at = now w \<rparr>],
         profiles := insert_missing up_user_id (new_profile user (now w)) (profiles w),
         subscriptions := insert_missing sb_user_id (new_subscription user) (subscriptions w)\<rparr>))"

definition get_or_create_user_by_email :: "pystr \<Rightarrow> (uuid \<times> bool) act" where
  "get_or_create_user_by_email email = stmt (\<lambda>w. case get_or_create_user email w of (r, w') \<Rightarrow> (Inr r, w'))"

subsection \<open>Sessions\<close>

record session_payload =
  sp_user :: uuid
  sp_issued_at :: int
  sp_expires_at :: int

definition session_body :: "uuid \<Rightarrow> int \<Rightarrow> int \<Rightarrow> pystr" where
  "session_body user issued expires = b64 (utf8_encode (dumps_compact (JObj
     [(''sub'', JStr (uuid_text user)), (''iat'', JInt issued), (''exp'', JInt expires)])))"

definition mint_session_token :: "keyed_hash \<Rightarrow> bytes \<Rightarrow> uuid \<Rightarrow> int \<Rightarrow> int \<Rightarrow> pystr" where
  "mint_session_token hmac secret user ttl current =
     (let body = session_body user current (current + ttl)
      in body @ ''.'' @ b64 (hmac secret (utf8_encode body)))"

definition ascii :: "pystr \<Rightarrow> bool" where
  "ascii s = list_all (\<lambda>c. code c < 128) s"

text \<open>\<open>UUID(x)\<close> of null is a \<open>TypeError\<close>, of another value that is no text it has no \<open>replace\<close>; \<open>int(x)\<close> of neither a number nor a text is
  a \<open>TypeError\<close>, which is caught.\<close>

definition session_of :: "json \<Rightarrow> exn + session_payload option" where
  "session_of j = (case j of
     JObj d \<Rightarrow>
       (case dict_get d ''sub'' of
          None \<Rightarrow> Inr None
        | Some JNull \<Rightarrow> Inr None
        | Some (JStr s) \<Rightarrow>
            (case (parse_uuid s, map_option py_int (dict_get d ''exp''), map_option py_int (dict_get d ''iat'')) of
               (Some u, Some (Inr e), Some (Inr i)) \<Rightarrow>
                 Inr (Some \<lparr> sp_user = u, sp_issued_at = i, sp_expires_at = e \<rparr>)
             | _ \<Rightarrow> Inr None)
        | Some _ \<Rightarrow> Inl (OtherError (''object has no attribute 'replace'' @ [squote])))
   | _ \<Rightarrow> Inr None)"

definition verify_session_token ::
  "keyed_hash \<Rightarrow> bytes \<Rightarrow> int \<Rightarrow> pystr \<Rightarrow> exn + session_payload option" where
  "verify_session_token hmac secret current token =
     (case cut_at (CHR ''.'') token of
        None \<Rightarrow> Inr None
      | Some (body, sig) \<Rightarrow>
          if \<not> ascii body then Inl (ValueError ''ordinal not in range(128)'')
          else (case unb64 sig of
              None \<Rightarrow> Inr None
            | Some provided \<Rightarrow>
                if hmac secret (utf8_encode body) \<noteq> provided then Inr None
                else (case Option.bind (Option.bind (unb64 body) utf8_decode) loads of
                    None \<Rightarrow> Inr None
                  | Some j \<Rightarrow>
                      (case session_of j of
                         Inl e \<Rightarrow> Inl e
                       | Inr None \<Rightarrow> Inr None
                       | Inr (Some p) \<Rightarrow> if sp_expires_at p \<le> current then Inr None else Inr (Some p)))))"

definition get_current_user_id :: "keyed_hash \<Rightarrow> bytes \<Rightarrow> pystr option \<Rightarrow> uuid option act" where
  "get_current_user_id hmac secret cookie =
     (case cookie of
        None \<Rightarrow> ret None
      | Some raw \<Rightarrow>
          if raw = [] then ret None
          else bindE (getsE unix_now) (\<lambda>t.
               bindE (liftE (verify_session_token hmac secret t raw)) (\<lambda>p. ret (map_option sp_user p))))"

definition require_user_id :: "keyed_hash \<Rightarrow> bytes \<Rightarrow> pystr option \<Rightarrow> uuid act" where
  "require_user_id hmac secret cookie =
     bindE (get_current_user_id hmac secret cookie) (\<lambda>user. case user of
       None \<Rightarrow> raise (HTTPException 401 ''auth required'')
     | Some u \<Rightarrow> ret u)"

subsection \<open>Login by mail\<close>

record auth_config =
  au_allowed :: pystr
  au_secret :: bytes
  au_link_minutes :: int
  au_session_days :: int
  au_web_base_url :: pystr

definition insert_magic_link :: "pystr \<Rightarrow> pystr \<Rightarrow> time \<Rightarrow> unit act" where
  "insert_magic_link email hashed expires = stmt (\<lambda>w.
     if \<exists>l\<in>set (magic_links w). ml_hash l = hashed
     then (Inl (DbError ''duplicate key value violates unique constraint token_hash''), w)
     else (Inr (), w\<lparr>next_id := Suc (next_id w), magic_links := magic_links w @
       [\<lparr> ml_id = Uuid (next_id w), ml_email = email, ml_hash = hashed, ml_expires_at = expires,
          ml_used_at = None \<rparr>]\<rparr>))"

definition request_magic_link ::
  "auth_config \<Rightarrow> token_hash \<Rightarrow> pystr act \<Rightarrow> (pystr \<Rightarrow> pystr \<Rightarrow> pystr \<Rightarrow> unit act) \<Rightarrow> pystr \<Rightarrow> dict act" where
  "request_magic_link cfg hash fresh mail email =
     (if \<not> email_allowed (au_allowed cfg) email then ret [(''status'', JStr ''ok'')]
      else bindE fresh (\<lambda>plain.
           bindE (getsE now) (\<lambda>at.
           thenE (insert_magic_link (lower email) (hash plain) (at + au_link_minutes cfg * 60 * second))
          (thenE (mail email ''Your Wolfpaw sign-in link''
             (''Sign in to Wolfpaw: '' @ au_web_base_url cfg @ ''/signin/verify?token='' @ plain @
              [newline, newline] @ ''The link expires in '' @ show_int (au_link_minutes cfg) @ '' minutes.''))
             (ret [(''status'', JStr ''ok'')])))))"

text \<open>The lookup, the checks and the writes of \<open>verify_magic_link\<close>, in one transaction.\<close>

definition redeem_magic_link :: "auth_config \<Rightarrow> token_hash \<Rightarrow> pystr \<Rightarrow> (uuid \<times> bool) act" where
  "redeem_magic_link cfg hash token = stmt (\<lambda>w.
     case sql_first (\<lambda>l. ml_hash l = hash token) (magic_links w) of
       None \<Rightarrow> (Inl (HTTPException 400 ''invalid token''), w)
     | Some l \<Rightarrow>
         if ml_used_at l \<noteq> None then (Inl (HTTPException 400 ''token already used''), w)
         else if ml_expires_at l \<le> now w then (Inl (HTTPException 400 ''token expired''), w)
         else if \<not> email_allowed (au_allowed cfg) (ml_email l) then (Inl (HTTPException 400 ''invalid token''), w)
         else (case get_or_create_user (ml_email l) (w\<lparr>magic_links :=
                 sql_set (\<lambda>r. ml_id r = ml_id l) (\<lambda>r. r\<lparr>ml_used_at := Some (now w)\<rparr>) (magic_links w)\<rparr>) of
               (r, w') \<Rightarrow> (Inr r, w')))"

record login =
  lg_user :: uuid
  lg_created :: bool
  lg_cookie :: pystr

definition verify_magic_link :: "auth_config \<Rightarrow> token_hash \<Rightarrow> keyed_hash \<Rightarrow> pystr \<Rightarrow> login act" where
  "verify_magic_link cfg hash hmac token =
     bindE (redeem_magic_link cfg hash token) (\<lambda>(user, created).
     bindE (getsE unix_now) (\<lambda>t.
     ret \<lparr> lg_user = user, lg_created = created,
           lg_cookie = mint_session_token hmac (au_secret cfg) user (au_session_days cfg * 86400) t \<rparr>))"

definition auth_me :: "(time \<Rightarrow> pystr) \<Rightarrow> uuid \<Rightarrow> dict act" where
  "auth_me isoformat user =
     bindE (stmt (getsE (\<lambda>w. key_lookup ac_id user (accounts w)))) (\<lambda>row. case row of
       None \<Rightarrow> raise (HTTPException 401 ''user not found'')
     | Some a \<Rightarrow> ret [(''id'', JStr (uuid_text (ac_id a))), (''email'', JStr (ac_email a)),
         (''display_name'', opt_str (ac_display_name a)), (''created_at'', JStr (isoformat (ac_created_at a)))])"

subsection \<open>Links of chat accounts\<close>

definition create_channel_link ::
  "uuid \<Rightarrow> pystr \<Rightarrow> pystr \<Rightarrow> pystr option \<Rightarrow> dict \<Rightarrow> channel_link act" where
  "create_channel_link user channel external username meta = stmt (\<lambda>w.
     if channel \<notin> set channel_names then (Inl (DbError ''invalid input value for enum channel''), w)
     else if \<exists>l\<in>set (channel_links w). cl_channel l = channel \<and> cl_external_id l = external
     then (Inl (DbError ''duplicate key value violates unique constraint channel_links''), w)
     else let l = \<lparr> cl_id = Uuid (next_id w), cl_user_id = user, cl_channel = channel, cl_external_id = external,
                    cl_external_username = username, cl_metadata = meta, cl_created_at = now w \<rparr>
          in (Inr l, w\<lparr>next_id := Suc (next_id w), channel_links := channel_links w @ [l]\<rparr>))"

definition find_linked_user :: "pystr \<Rightarrow> pystr \<Rightarrow> uuid option act" where
  "find_linked_user channel external = stmt (getsE (\<lambda>w. map_option cl_user_id
     (sql_first (\<lambda>l. cl_channel l = channel \<and> cl_external_id l = external) (channel_links w))))"

definition list_links_for_user :: "uuid \<Rightarrow> channel_link list act" where
  "list_links_for_user user = stmt (getsE (\<lambda>w. sort_key (\<lambda>l. - cl_created_at l)
     (filter (\<lambda>l. cl_user_id l = user) (channel_links w))))"

definition delete_links :: "uuid \<Rightarrow> pystr \<Rightarrow> nat act" where
  "delete_links user channel = stmt (\<lambda>w. let gone = (\<lambda>l. cl_user_id l = user \<and> cl_channel l = channel) in
     (Inr (length (filter gone (channel_links w))),
      w\<lparr>channel_links := filter (\<lambda>l. \<not> gone l) (channel_links w)\<rparr>))"

subsection \<open>Single-use link tokens\<close>

definition issue_link_token :: "token_hash \<Rightarrow> pystr act \<Rightarrow> uuid \<Rightarrow> pystr \<Rightarrow> int \<Rightarrow> pystr act" where
  "issue_link_token hash fresh user channel ttl_minutes =
     bindE fresh (\<lambda>plain.
     bindE (getsE now) (\<lambda>at.
     thenE (stmt (\<lambda>w.
       if \<exists>t\<in>set (link_tokens w). lk_hash t = hash plain
       then (Inl (DbError ''duplicate key value violates unique constraint token_hash''), w)
       else (Inr (), w\<lparr>next_id := Suc (next_id w), link_tokens := link_tokens w @
         [\<lparr> lk_id = Uuid (next_id w), lk_user_id = user, lk_channel = channel, lk_hash = hash plain,
            lk_expires_at = at + ttl_minutes * 60 * second, lk_used_at = None \<rparr>]\<rparr>)))
      (ret plain)))"

text \<open>\<open>LinkTokenError\<close> is told apart from other exceptions by the constructor of the result.\<close>

datatype redemption = Redeemed uuid | BadToken pystr

definition consume_link_token :: "token_hash \<Rightarrow> pystr \<Rightarrow> pystr \<Rightarrow> redemption act" where
  "consume_link_token hash plain channel = stmt (\<lambda>w.
     case sql_first (\<lambda>t. lk_hash t = hash plain) (link_tokens w) of
       None \<Rightarrow> (Inr (BadToken ''invalid token''), w)
     | Some t \<Rightarrow>
         if lk_channel t \<noteq> channel then (Inr (BadToken ''token is for a different channel''), w)
         else if lk_used_at t \<noteq> None then (Inr (BadToken ''token already used''), w)
         else if lk_expires_at t \<le> now w then (Inr (BadToken ''token expired''), w)
         else (Inr (Redeemed (lk_user_id t)), w\<lparr>link_tokens :=
           sql_set (\<lambda>r. lk_id r = lk_id t) (set_token_used (now w)) (link_tokens w)\<rparr>))"

end
