(* ===== verification/Telegram_Markdown.thy ===== *)
theory Telegram_Markdown
  imports Py_Text Prelude
begin

section \<open>Telegram's text format\<close>

text \<open>
  \<open>src/wolfpaw/channels/telegram_markdown.py\<close>: replies written in Markdown become MarkdownV2. A pattern of
  the source is a function from the text at a position to the rendered token and the rest; searching all
  patterns for the earliest match is trying them, in their order, at one position after the other.
\<close>

definition RESERVED :: pystr where
  "RESERVED = ''_*[]()~`>#+-=|{}.!''"

definition md_escape :: "pystr \<Rightarrow> pystr" where
  "md_escape s = concat (map (\<lambda>c. if c \<in> set RESERVED then [backslash, c] else [c]) s)"

text \<open>\<open>replace("\", "\\")\<close> and then \<open>replace(q, "\" + q)\<close>.\<close>

definition escape_for :: "char \<Rightarrow> pystr \<Rightarrow> pystr" where
  "escape_for q s = concat (map (\<lambda>c. if c = backslash \<or> c = q then [backslash, c] else [c]) s)"

definition fence :: pystr where "fence = ''```''"

text \<open>The text up to the next fence, and what follows it.\<close>

fun until_fence :: "pystr \<Rightarrow> (pystr \<times> pystr) option" where
  "until_fence [] = None"
| "until_fence (c # s) =
     (if starts_with fence (c # s) then Some ([], drop 3 (c # s))
      else map_option (\<lambda>(body, rest). (c # body, rest)) (until_fence s))"

definition lang_char :: "char \<Rightarrow> bool" where
  "lang_char c = (is_lower c \<or> is_upper c \<or> is_digit c \<or> c \<in> set ''_+-'')"

text \<open>A run of characters other than \<open>stop\<close> and newline, not empty, then \<open>closing\<close>.\<close>

definition enclosed :: "char \<Rightarrow> pystr \<Rightarrow> pystr \<Rightarrow> (pystr \<times> pystr) option" where
  "enclosed stop closing s =
     (let inside = (\<lambda>c. c \<noteq> stop \<and> c \<noteq> newline); body = takeWhile inside s; rest = dropWhile inside s
      in if body = [] \<or> \<not> starts_with closing rest then None
         else Some (body, drop (length closing) rest))"

definition after :: "pystr \<Rightarrow> pystr \<Rightarrow> pystr option" where
  "after opn s = (if starts_with opn s then Some (drop (length opn) s) else None)"

text \<open>The patterns, in their order: each gives the rendered token and the rest of the text.\<close>

type_synonym md_match = "(pystr \<times> pystr) option"

definition match_pre :: "pystr \<Rightarrow> md_match" where
  "match_pre s = (case after fence s of None \<Rightarrow> None | Some t \<Rightarrow>
     (case dropWhile lang_char t of
        [] \<Rightarrow> None
      | c # u \<Rightarrow> if c \<noteq> newline then None
          else map_option (\<lambda>(body, rest). (fence @ takeWhile lang_char t @ [newline] @
                 escape_for (CHR ''`'') body @ fence, rest)) (until_fence u)))"

definition match_pre_inline :: "pystr \<Rightarrow> md_match" where
  "match_pre_inline s = (case after fence s of None \<Rightarrow> None | Some t \<Rightarrow>
     map_option (\<lambda>(body, rest). (fence @ escape_for (CHR ''`'') body @ fence, rest)) (until_fence t))"

definition match_code :: "pystr \<Rightarrow> md_match" where
  "match_code s = (case after ''`'' s of None \<Rightarrow> None | Some t \<Rightarrow>
     map_option (\<lambda>(body, rest). (''`'' @ escape_for (CHR ''`'') body @ ''`'', rest)) (enclosed (CHR ''`'') ''`'' t))"

definition match_link :: "pystr \<Rightarrow> md_match" where
  "match_link s = (case Option.bind (after ''['' s) (enclosed (CHR '']'') '']('') of None \<Rightarrow> None
   | Some (txt, t) \<Rightarrow>
       map_option (\<lambda>(url, rest). (''['' @ md_escape txt @ '']('' @ escape_for (CHR '')'') url @ '')'', rest))
         (enclosed (CHR '')'') '')'' t))"

definition match_marked :: "pystr \<Rightarrow> pystr \<Rightarrow> pystr \<Rightarrow> md_match" where
  "match_marked opn marker s = (case after opn s of None \<Rightarrow> None | Some t \<Rightarrow>
     map_option (\<lambda>(body, rest). (marker @ md_escape body @ marker, rest)) (enclosed (hd opn) opn t))"

definition match_token :: "pystr \<Rightarrow> md_match" where
  "match_token s = find_some (\<lambda>f. f s) [match_pre, match_pre_inline, match_code, match_link,
     match_marked ''**'' ''*'', match_marked ''*'' ''_'', match_marked ''_'' ''_'']"

text \<open>The earliest match wins, the first pattern among those that match there.\<close>

lemma after_shorter: "after opn s = Some t \<Longrightarrow> opn \<noteq> [] \<Longrightarrow> length t < length s"
  by (cases s; cases opn) (auto simp: after_def starts_with_def split: if_splits)

lemma until_fence_shorter: "until_fence s = Some (b, t) \<Longrightarrow> length t \<le> length s"
  by (induction s arbitrary: b) (auto split: if_splits)

lemma enclosed_shorter:
  assumes "enclosed stop closing s = Some (b, t)" shows "length t \<le> length s"
proof -
  let ?rest = "dropWhile (\<lambda>c. c \<noteq> stop \<and> c \<noteq> newline) s"
  have "length t \<le> length ?rest" using assms by (auto simp: enclosed_def Let_def split: if_splits)
  also have "\<dots> \<le> length s" by (rule length_dropWhile_le)
  finally show ?thesis .
qed

lemma match_token_shorter:
  assumes "match_token s = Some (x, t)" shows "length t < length s"
proof -
  obtain f where f: "f s = Some (x, t)" "f \<in> {match_pre, match_pre_inline, match_code, match_link,
      match_marked ''**'' ''*'', match_marked ''*'' ''_'', match_marked ''_'' ''_''}"
    using find_some_SomeD[OF assms[unfolded match_token_def]] by auto
  have pre: "length t < length s" if m: "match_pre s = Some (x, t)"
  proof -
    obtain u v b where u: "after fence s = Some u" "dropWhile lang_char u = newline # v" "until_fence v = Some (b, t)"
      using m by (auto simp: match_pre_def split: option.splits list.splits if_splits)
    have "length t \<le> length v" by (rule until_fence_shorter[OF u(3)])
    also have "\<dots> < length (dropWhile lang_char u)" by (simp add: u(2))
    also have "\<dots> \<le> length u" by (rule length_dropWhile_le)
    also have "\<dots> < length s" by (rule after_shorter[OF u(1)]) (simp add: fence_def)
    finally show ?thesis .
  qed
  have inline: "length t < length s" if "match_pre_inline s = Some (x, t)"
    using that after_shorter[of fence s] until_fence_shorter
    by (fastforce simp: match_pre_inline_def fence_def split: option.splits)
  have code: "length t < length s" if "match_code s = Some (x, t)"
    using that after_shorter[of "''`''" s] enclosed_shorter
    by (fastforce simp: match_code_def split: option.splits)
  have link: "length t < length s" if m: "match_link s = Some (x, t)"
  proof -
    obtain u v b b' where u: "after ''['' s = Some u" "enclosed (CHR '']'') '']('' u = Some (b, v)"
      "enclosed (CHR '')'') '')'' v = Some (b', t)"
      using m by (auto simp: match_link_def bind_eq_Some_conv split: option.splits prod.splits)
    have "length t \<le> length v" by (rule enclosed_shorter[OF u(3)])
    also have "\<dots> \<le> length u" by (rule enclosed_shorter[OF u(2)])
    also have "\<dots> < length s" by (rule after_shorter[OF u(1)]) simp
    finally show ?thesis .
  qed
  have marked: "length t < length s" if "match_marked opn m s = Some (x, t)" "opn \<noteq> []" for opn m
    using that after_shorter[of opn s] enclosed_shorter
    by (fastforce simp: match_marked_def split: option.splits)
  show ?thesis using f pre inline code link marked by auto
qed

function to_markdown_v2 :: "pystr \<Rightarrow> pystr" where
  "to_markdown_v2 s = (case match_token s of
     Some (token, rest) \<Rightarrow> token @ to_markdown_v2 rest
   | None \<Rightarrow> (case s of [] \<Rightarrow> [] | c # rest \<Rightarrow> md_escape [c] @ to_markdown_v2 rest))"
  by auto
termination by (relation "measure length") (auto dest: match_token_shorter)

declare to_markdown_v2.simps [simp del]

subsection \<open>What Telegram reads\<close>

text \<open>The Bot API's reading of MarkdownV2 without markup: a backslash makes the next character literal, a
  reserved character without one is an error.\<close>

fun read_plain :: "pystr \<Rightarrow> pystr option" where
  "read_plain [] = Some []"
| "read_plain (c # s) =
     (if c = backslash
      then (case s of [] \<Rightarrow> None | d # t \<Rightarrow> map_option ((#) d) (read_plain t))
      else if c \<in> set RESERVED then None else map_option ((#) c) (read_plain s))"

lemma md_escape_simps [simp]:
  "md_escape [] = []"
  "md_escape (c # s) = (if c \<in> set RESERVED then [backslash, c] else [c]) @ md_escape s"
  by (simp_all add: md_escape_def)

lemma backslash_plain: "backslash \<notin> set RESERVED"
  by (simp add: RESERVED_def backslash_def)

lemma read_escaped: "backslash \<notin> set s \<Longrightarrow> read_plain (md_escape s) = Some s"
  using backslash_plain by (induction s) (auto simp: RESERVED_def)

text \<open>No pattern starts anywhere in the text.\<close>

fun unmarked :: "pystr \<Rightarrow> bool" where
  "unmarked [] = True"
| "unmarked (c # s) = (match_token (c # s) = None \<and> unmarked s)"

lemma no_token_in_Nil: "match_token [] = None"
  by (simp add: match_token_def match_pre_def match_pre_inline_def match_code_def match_link_def
      match_marked_def after_def starts_with_def fence_def)

lemma unmarked_is_escaped: "unmarked s \<Longrightarrow> to_markdown_v2 s = md_escape s"
proof (induction s)
  case Nil
  then show ?case by (subst to_markdown_v2.simps) (simp add: no_token_in_Nil)
next
  case (Cons c s)
  then show ?case by (subst to_markdown_v2.simps) simp
qed

text \<open>A reply without markup and without a backslash arrives as it was written: Telegram accepts the
  converted text and shows the same characters.\<close>

theorem plain_reply_arrives:
  assumes "unmarked s" and "backslash \<notin> set s"
  shows "read_plain (to_markdown_v2 s) = Some s"
  using assms by (simp add: unmarked_is_escaped read_escaped)

lemma plain_reply_arrives_witness:
  "read_plain (to_markdown_v2 ''3 (or 4) items - done.'') = Some ''3 (or 4) items - done.''"
proof -
  have "unmarked ''3 (or 4) items - done.'' \<and> backslash \<notin> set ''3 (or 4) items - done.''" by code_simp
  then show ?thesis using plain_reply_arrives[of "''3 (or 4) items - done.''"] by blast
qed

text \<open>A backslash is not escaped itself, so it takes the escape of the character after it: Telegram refuses
  the whole message.\<close>

lemma backslash_is_refused: "read_plain (to_markdown_v2 (''C:'' @ [backslash] @ ''.cache'')) = None"
  by code_simp

end
