(* ===== verification/Telegram.thy ===== *)
theory Telegram
  imports Accounts Router Commands Queue Telegram_Markdown
begin

section \<open>The Telegram channel\<close>

text \<open>
  \<open>src/wolfpaw/channels/telegram.py\<close> and the job that runs its messages
  (\<open>workers/jobs/channel_dispatch.py\<close>): linking an account, receiving a message and answering it. The Bot API's \<open>sendMessage\<close> is a parameter (chat, text and parse mode). A request has the value
  of its secret header and its body: \<open>None\<close> when that is no JSON.
\<close>

type_synonym tg_send = "pystr \<Rightarrow> pystr \<Rightarrow> pystr option \<Rightarrow> unit act"

definition MARKDOWN :: pystr where "MARKDOWN = ''MarkdownV2''"

subsection \<open>Proactive messages\<close>

definition user_telegram_link :: "uuid \<Rightarrow> channel_link option act" where
  "user_telegram_link user = bindE (list_links_for_user user) (\<lambda>links.
     ret (find (\<lambda>l. cl_channel l = ''telegram'') links))"

definition telegram_send :: "tg_send \<Rightarrow> sender" where
  "telegram_send send user content =
     bindE (user_telegram_link user) (\<lambda>link. case link of
       None \<Rightarrow> ret ()
     | Some l \<Rightarrow> send (cl_external_id l) content None)"

subsection \<open>Linking an account\<close>

definition mint_link_token ::
  "pystr \<Rightarrow> int \<Rightarrow> token_hash \<Rightarrow> pystr act \<Rightarrow> uuid \<Rightarrow> (pystr \<times> int) act" where
  "mint_link_token bot_name ttl_minutes hash fresh user =
     (if bot_name = [] then raise (HTTPException 503 ''Telegram bot username not configured'')
      else bindE (issue_link_token hash fresh user ''telegram'' ttl_minutes) (\<lambda>plain.
           ret (''https://t.me/'' @ bot_name @ ''?start=link_'' @ plain, ttl_minutes)))"

text \<open>Consuming the token and writing the link: the two statements are separate transactions.\<close>

definition link_account :: "token_hash \<Rightarrow> pystr \<Rightarrow> pystr \<Rightarrow> pystr option \<Rightarrow> pystr \<Rightarrow> redemption act" where
  "link_account hash tg_user chat username plain =
     bindE (consume_link_token hash plain ''telegram'') (\<lambda>r. case r of
       BadToken why \<Rightarrow> ret (BadToken why)
     | Redeemed user \<Rightarrow> thenE (create_channel_link user ''telegram'' tg_user username [(''chat_id'', JStr chat)])
                              (ret (Redeemed user)))"

definition handle_onboarding ::
  "tg_send \<Rightarrow> token_hash \<Rightarrow> pystr \<Rightarrow> pystr \<Rightarrow> pystr option \<Rightarrow> pystr \<Rightarrow> unit act" where
  "handle_onboarding send hash tg_user chat username plain =
     bindE (attemptE (link_account hash tg_user chat username plain)) (\<lambda>r. case r of
       Inr (BadToken why) \<Rightarrow> send chat (''That link didn'' @ [squote] @ ''t work: '' @ why @
         ''. Generate a fresh link from the web app and try again.'') None
     | Inl _ \<Rightarrow> send chat (''Couldn'' @ [squote] @ ''t link this account '' @ [em_dash] @
         '' it may already be connected to another Wolfpaw user. Contact support if that'' @ [squote] @
         ''s unexpected.'') None
     | Inr (Redeemed _) \<Rightarrow> send chat (''You'' @ [squote] @ ''re linked. Send me anything to chat. Slash commands: '' @
         ''/help, /usage, /tasks, /task <id>, /cancel <id>.'') None)"

subsection \<open>The webhook\<close>

record tg_message =
  tm_user :: pystr
  tm_chat :: pystr
  tm_username :: "pystr option"
  tm_text :: pystr

fun attr_error :: "pystr \<Rightarrow> exn" where
  "attr_error name = OtherError (''object has no attribute '' @ py_repr name)"

definition as_dict :: "json \<Rightarrow> exn + dict" where
  "as_dict j = (case j of JObj d \<Rightarrow> Inr d | _ \<Rightarrow> Inl (attr_error ''get''))"

text \<open>\<open>message.get(k) or {}\<close>, then its fields. A null message and a missing one are the same.\<close>

definition message_fields :: "dict \<Rightarrow> exn + tg_message" where
  "message_fields m =
     (case (get_or m ''text'' (JStr []), as_dict (get_or m ''from'' (JObj [])), as_dict (get_or m ''chat'' (JObj []))) of
        (JStr txt, Inr from_user, Inr chat) \<Rightarrow>
          (let user = json_str (get_or from_user ''id'' (JStr [])) in
           Inr \<lparr> tm_user = user, tm_chat = json_str (get_or chat ''id'' (JStr user)),
                 tm_username = Option.bind (dict_get from_user ''username'') as_str, tm_text = strip txt \<rparr>)
      | (JStr txt, _, _) \<Rightarrow> Inl (attr_error ''get'')
      | _ \<Rightarrow> Inl (attr_error ''strip''))"

definition read_update :: "json \<Rightarrow> exn + tg_message option" where
  "read_update j = (case as_dict j of Inl e \<Rightarrow> Inl e
   | Inr update \<Rightarrow>
       (let message = get_or update ''message'' (get_default update ''edited_message'' JNull) in
        if message = JNull then Inr None
        else (case as_dict message of Inl e \<Rightarrow> Inl e
              | Inr m \<Rightarrow> (case message_fields m of Inl e \<Rightarrow> Inl e | Inr t \<Rightarrow> Inr (Some t)))))"

definition LINK_PREFIX :: pystr where "LINK_PREFIX = ''/start link_''"

definition handle_message :: "settings \<Rightarrow> tg_send \<Rightarrow> token_hash \<Rightarrow> tg_message \<Rightarrow> unit act" where
  "handle_message cfg send hash m =
     (if tm_user m = [] \<or> tm_text m = [] then ret ()
      else if starts_with LINK_PREFIX (tm_text m)
      then handle_onboarding send hash (tm_user m) (tm_chat m) (tm_username m)
             (strip (drop (length LINK_PREFIX) (tm_text m)))
      else if tm_text m = ''/start'' \<or> tm_text m = ''/start ''
      then send (tm_chat m) (''Hi! To talk to your Wolfpaw, link this Telegram account first. '' @
             ''From the web app, generate a link and tap it here.'') None
      else bindE (find_linked_user ''telegram'' (tm_user m)) (\<lambda>user. case user of
             None \<Rightarrow> send (tm_chat m) (''I don'' @ [squote] @ ''t recognize this Telegram account yet. '' @
               ''Generate a link from the web app and tap it here to connect.'') None
           | Some u \<Rightarrow> enqueue_telegram_dispatch cfg u (tm_chat m) (tm_text m)))"

definition telegram_webhook ::
  "settings \<Rightarrow> pystr \<Rightarrow> tg_send \<Rightarrow> token_hash \<Rightarrow> pystr option \<Rightarrow> json option \<Rightarrow> unit act" where
  "telegram_webhook cfg expected send hash header body =
     (if expected \<noteq> [] \<and> header \<noteq> Some expected then raise (HTTPException 403 ''bad webhook secret'')
      else case body of
        None \<Rightarrow> ret ()
      | Some j \<Rightarrow> bindE (liftE (read_update j)) (\<lambda>m. case m of
          None \<Rightarrow> ret () | Some t \<Rightarrow> handle_message cfg send hash t))"

subsection \<open>A message of a linked user\<close>

definition resolve_telegram_thread :: "pystr option \<Rightarrow> uuid \<Rightarrow> uuid act" where
  "resolve_telegram_thread soul_version user =
     bindE (get_most_recent_thread user) (\<lambda>existing. case existing of
       Some th \<Rightarrow> ret th
     | None \<Rightarrow> get_or_create_thread soul_version user ''telegram'' None)"

definition telegram_ctx :: "uuid \<Rightarrow> tool_ctx" where
  "telegram_ctx user = \<lparr> c_user = user, c_task = None, c_trace = None, c_channel = Some ''telegram'',
     c_emit = False \<rparr>"

definition telegram_inbound :: "uuid \<Rightarrow> pystr \<Rightarrow> inbound_message" where
  "telegram_inbound user content = \<lparr> im_user = user, im_content = content, im_channel = ''telegram'',
     im_thread = None, im_metadata = [] \<rparr>"

definition answer_open_question :: "tg_send \<Rightarrow> uuid \<Rightarrow> pystr \<Rightarrow> pystr \<Rightarrow> bool act" where
  "answer_open_question send user chat content =
     bindE (get_open_for_user user) (\<lambda>open_q. case open_q of
       None \<Rightarrow> ret False
     | Some q \<Rightarrow> bindE (mark_answered (q_id q) user content) (\<lambda>outcome.
         thenE (if outcome = ANSWERED
                then send chat (''Got it '' @ [em_dash] @ '' continuing.'') None
                else send chat ''That question was already answered.'' None)
               (ret True)))"

definition start_turn :: "service \<Rightarrow> tg_send \<Rightarrow> pystr option \<Rightarrow> uuid \<Rightarrow> pystr \<Rightarrow> pystr \<Rightarrow> unit act" where
  "start_turn s send soul_version user chat content =
     bindE (resolve_telegram_thread soul_version user) (\<lambda>thread.
     bindE (router_handle s (telegram_ctx user) thread content False) (\<lambda>final.
     send chat (to_markdown_v2 final) (Some MARKDOWN)))"

definition respond ::
  "service \<Rightarrow> dispatcher \<Rightarrow> tg_send \<Rightarrow> pystr option \<Rightarrow> uuid \<Rightarrow> pystr \<Rightarrow> pystr \<Rightarrow> unit act" where
  "respond s commands send soul_version user chat content =
     bindE (dispatch commands (telegram_inbound user content)) (\<lambda>cmd. case cmd of
       Some r \<Rightarrow> send chat (cr_text r) None
     | None \<Rightarrow> bindE (answer_open_question send user chat content) (\<lambda>answered.
         if answered then ret () else start_turn s send soul_version user chat content))"

definition apologize :: "tg_send \<Rightarrow> pystr \<Rightarrow> exn \<Rightarrow> unit act" where
  "apologize send chat e = best_effort (send chat (''Sorry, I ran into a problem: '' @ exn_str e) None)"

definition handle_inbound ::
  "service \<Rightarrow> dispatcher \<Rightarrow> tg_send \<Rightarrow> pystr option \<Rightarrow> uuid \<Rightarrow> pystr \<Rightarrow> pystr \<Rightarrow> unit act" where
  "handle_inbound s commands send soul_version user chat content =
     catchE (respond s commands send soul_version user chat content) (apologize send chat)"

text \<open>The job of the queue; its user is passed as text.\<close>

definition telegram_dispatch_job ::
  "service \<Rightarrow> dispatcher \<Rightarrow> tg_send \<Rightarrow> pystr option \<Rightarrow> pystr \<Rightarrow> pystr \<Rightarrow> pystr \<Rightarrow> unit act" where
  "telegram_dispatch_job s commands send soul_version user chat content =
     (case parse_uuid user of
        None \<Rightarrow> raise (ValueError ''badly formed hexadecimal UUID string'')
      | Some u \<Rightarrow> handle_inbound s commands send soul_version u chat content)"

end
