(* ===== verification/Chat_Clients.thy ===== *)
theory Chat_Clients
  imports Telegram
begin

section \<open>The clients of the chat platforms\<close>

text \<open>
  \<open>src/wolfpaw/channels/telegram_client.py\<close>, \<open>slack_client.py\<close> and the tool
  \<open>toolbox/tools/send_telegram_message.py\<close>. A POST and the reading of its JSON answer, with the
  exception of an HTTP error status, are parameters (\<open>http\<close>); what the clients send and what they make of
  an answer is modelled. \<open>SlackApiError\<close> is a constructor of the answer, because its callers tell it apart
  from other exceptions. The fakes that tests install are left out.
\<close>

record http =
  post_json :: "pystr \<Rightarrow> pystr option \<Rightarrow> dict \<Rightarrow> json act"
  post_form :: "pystr \<Rightarrow> dict \<Rightarrow> json act"

text \<open>Both platforms limit a message; a longer one is cut.\<close>

definition clipped :: "pystr \<Rightarrow> pystr" where
  "clipped s = (if length s > 4096 then take 4090 s @ [ellipsis] else s)"

lemma clipped_short: "length (clipped s) \<le> 4096"
  by (simp add: clipped_def)

subsection \<open>The Bot API\<close>

definition message_payload :: "pystr \<Rightarrow> pystr \<Rightarrow> pystr option \<Rightarrow> dict" where
  "message_payload chat content mode =
     [(''chat_id'', JStr chat), (''text'', JStr (clipped content))] @
     (case mode of None \<Rightarrow> [] | Some m \<Rightarrow> if m = [] then [] else [(''parse_mode'', JStr m)])"

definition telegram_send_message :: "pystr \<Rightarrow> http \<Rightarrow> tg_send" where
  "telegram_send_message token h chat content mode =
     thenE (post_json h (''https://api.telegram.org/bot'' @ token @ ''/sendMessage'') None
              (message_payload chat content mode)) (ret ())"

definition get_telegram_client :: "pystr \<Rightarrow> http \<Rightarrow> exn + tg_send" where
  "get_telegram_client token h =
     (if token = [] then Inl (ValueError ''HttpTelegramClient requires WOLFPAW_TELEGRAM_BOT_TOKEN'')
      else Inr (telegram_send_message token h))"

subsection \<open>The Slack API\<close>

datatype slack_answer = SlackOk dict | SlackApiError pystr pystr

definition slack_answer_of :: "pystr \<Rightarrow> json \<Rightarrow> exn + slack_answer" where
  "slack_answer_of endpoint payload = (case as_dict payload of
     Inl e \<Rightarrow> Inl e
   | Inr d \<Rightarrow>
       if truthy (get_default d ''ok'' JNull) then Inr (SlackOk d)
       else Inr (SlackApiError endpoint (json_str (get_default d ''error'' (JStr ''unknown_error'')))))"

definition chat_post_message :: "http \<Rightarrow> pystr \<Rightarrow> pystr \<Rightarrow> pystr \<Rightarrow> slack_answer act" where
  "chat_post_message h bot_token channel content =
     bindE (post_json h ''https://slack.com/api/chat.postMessage'' (Some bot_token)
              [(''channel'', JStr channel), (''text'', JStr (clipped content))])
       (\<lambda>payload. liftE (slack_answer_of ''chat.postMessage'' payload))"

definition oauth_v2_access :: "http \<Rightarrow> pystr \<Rightarrow> pystr \<Rightarrow> pystr \<Rightarrow> pystr \<Rightarrow> slack_answer act" where
  "oauth_v2_access h oauth_code client_id client_secret redirect_uri =
     bindE (post_form h ''https://slack.com/api/oauth.v2.access''
              [(''code'', JStr oauth_code), (''client_id'', JStr client_id),
               (''client_secret'', JStr client_secret), (''redirect_uri'', JStr redirect_uri)])
       (\<lambda>payload. liftE (slack_answer_of ''oauth.v2.access'' payload))"

text \<open>\<open>str(e)\<close> of a \<open>SlackApiError\<close>, for a caller that catches every exception.\<close>

definition slack_or_raise :: "slack_answer \<Rightarrow> exn + dict" where
  "slack_or_raise a = (case a of
     SlackOk d \<Rightarrow> Inr d
   | SlackApiError endpoint err \<Rightarrow> Inl (OtherError (''slack '' @ endpoint @ '': '' @ err)))"

subsection \<open>The tool that messages the user\<close>

definition tool_error_of :: "pystr \<Rightarrow> exn \<Rightarrow> exn" where
  "tool_error_of what e = ToolError (what @ exn_str e)"

definition send_telegram_run :: "pystr \<Rightarrow> http \<Rightarrow> tool_ctx \<Rightarrow> dict \<Rightarrow> dict act" where
  "send_telegram_run token h ctx inputs = (case dict_get inputs ''text'' of
     Some (JStr txt) \<Rightarrow>
       if strip txt = [] then raise (ToolError ''`text` must be a non-empty string'')
       else bindE (user_telegram_link (c_user ctx)) (\<lambda>link. case link of
         None \<Rightarrow> raise (ToolError (''No linked Telegram account for this user. Link one from the web app '' @
                                  ''before sending Telegram messages.''))
       | Some l \<Rightarrow>
           bindE (liftE (get_telegram_client token h)) (\<lambda>send.
           bindE (attemptE (send (cl_external_id l) (to_markdown_v2 txt) (Some MARKDOWN))) (\<lambda>r. case r of
             Inl e \<Rightarrow> raise (tool_error_of ''Telegram send failed: '' e)
           | Inr _ \<Rightarrow> ret [(''sent'', JBool True), (''chat_id'', JStr (cl_external_id l))])))
   | _ \<Rightarrow> raise (ToolError ''`text` must be a non-empty string''))"

definition send_telegram_tool :: "pystr \<Rightarrow> http \<Rightarrow> tool" where
  "send_telegram_tool token h =
     \<lparr> tl_name = ''send_telegram_message'',
       tl_description =
         ''Send a Telegram message to the current user. Use this to proactively reach the user '' @
         ''(reminders, notifications, scheduled nudges) rather than only replying to their messages. '' @
         ''Fails if the user hasn't linked a Telegram account.'',
       tl_schema =
         [(''type'', JStr ''object''),
          (''properties'', JObj
            [(''text'', JObj
               [(''type'', JStr ''string''),
                (''description'', JStr ''Message body. Supports markdown formatting.'')])]),
          (''required'', JArr [JStr ''text''])],
       tl_needs_task = False,
       tl_run = send_telegram_run token h \<rparr>"

lemma find_Some_in: "find p xs = Some x \<Longrightarrow> p x \<and> x \<in> set xs"
  by (induction xs) (auto split: if_splits)

lemma own_link:
  assumes "find (\<lambda>l. cl_channel l = c) (sort_key (\<lambda>l. - cl_created_at l)
      (filter (\<lambda>l. cl_user_id l = u) ls)) = Some l"
  shows "l \<in> set ls \<and> cl_user_id l = u \<and> cl_channel l = c"
  using find_Some_in[OF assms] by simp

lemma send_tool_reaches_own_link:
  assumes "send_telegram_run token h ctx inputs w = (Inr d, w')" and "script w = []"
  shows "\<exists>l\<in>set (channel_links w). cl_user_id l = c_user ctx \<and> cl_channel l = ''telegram'' \<and>
    dict_get d ''chat_id'' = Some (JStr (cl_external_id l))"
  using assms
  by (auto simp: send_telegram_run_def user_telegram_link_def list_links_for_user_def bindE_def attemptE_def
      get_telegram_client_def dict_get_def dest!: own_link
      split: option.splits json.splits if_splits sum.splits prod.splits)

end
