(* ===== verification/Slack.thy ===== *)
theory Slack
  imports Chat_Clients
begin

section \<open>The Slack channel\<close>

text \<open>
  \<open>src/wolfpaw/channels/slack.py\<close>, \<open>channels/slack_signing.py\<close>, \<open>memory/slack_workspaces.py\<close> and the
  Slack job of \<open>workers/jobs/channel_dispatch.py\<close>. A signed request is its timestamp and signature
  headers and its raw body. Inside a signed body an identifier that is no text is read as its \<open>str()\<close>.
  A handler returns what the framework turns into the response.
\<close>

subsection \<open>Workspaces\<close>

definition upsert_workspace ::
  "pystr \<Rightarrow> pystr option \<Rightarrow> pystr \<Rightarrow> pystr \<Rightarrow> uuid \<Rightarrow> slack_workspace act" where
  "upsert_workspace team name bot_user bot_token user = stmt (\<lambda>w.
     let row = \<lparr> sw_team_id = team, sw_team_name = name, sw_bot_user_id = bot_user, sw_bot_token = bot_token,
                 sw_installed_by = user, sw_installed_at = now w, sw_revoked_at = None \<rparr>
     in (Inr row, w\<lparr>slack_workspaces :=
          if \<exists>r\<in>set (slack_workspaces w). sw_team_id r = team
          then sql_set (\<lambda>r. sw_team_id r = team) (\<lambda>_. row) (slack_workspaces w)
          else slack_workspaces w @ [row]\<rparr>))"

definition get_workspace :: "pystr \<Rightarrow> slack_workspace option act" where
  "get_workspace team = stmt (getsE (\<lambda>w.
     sql_first (\<lambda>r. sw_team_id r = team \<and> sw_revoked_at r = None) (slack_workspaces w)))"

definition revoke_workspace :: "pystr \<Rightarrow> unit act" where
  "revoke_workspace team = stmt (\<lambda>w. (Inr (), w\<lparr>slack_workspaces :=
     sql_set (\<lambda>r. sw_team_id r = team) (\<lambda>r. r\<lparr>sw_revoked_at := Some (now w)\<rparr>) (slack_workspaces w)\<rparr>))"

subsection \<open>Signatures\<close>

definition MAX_SKEW :: time where "MAX_SKEW = 5 * 60 * second"

definition hexdigest :: "bytes \<Rightarrow> pystr" where
  "hexdigest bs = concat (map (\<lambda>b. hex_digits 2 (unat b)) bs)"

datatype signature_check = Genuine | BadSignature pystr

definition expected_signature :: "keyed_hash \<Rightarrow> pystr \<Rightarrow> pystr \<Rightarrow> bytes \<Rightarrow> pystr" where
  "expected_signature hmac secret timestamp body =
     ''v0='' @ hexdigest (hmac (utf8_encode secret) (utf8_encode (''v0:'' @ timestamp @ '':'') @ body))"

text \<open>Neither \<open>timestamp.encode("ascii")\<close> nor \<open>compare_digest\<close> accepts a character outside ASCII.\<close>

definition verify_signature ::
  "keyed_hash \<Rightarrow> pystr \<Rightarrow> time \<Rightarrow> pystr option \<Rightarrow> pystr option \<Rightarrow> bytes \<Rightarrow> exn + signature_check" where
  "verify_signature hmac secret current timestamp signature body =
     (if secret = [] then Inr (BadSignature ''server has no signing secret configured'')
      else case (timestamp, signature) of
        (Some (t # ts), Some (s # ss)) \<Rightarrow>
          (case parse_int (t # ts) of
             None \<Rightarrow> Inr (BadSignature ''bad timestamp'')
           | Some seconds \<Rightarrow>
               if \<bar>current - seconds * second\<bar> > MAX_SKEW then Inr (BadSignature ''timestamp out of range'')
               else if \<not> ascii (t # ts) then Inl (ValueError ''ordinal not in range(128)'')
               else if \<not> ascii (s # ss)
               then Inl (OtherError ''comparing strings with non-ASCII characters is not supported'')
               else if expected_signature hmac secret (t # ts) body \<noteq> s # ss
               then Inr (BadSignature ''signature mismatch'')
               else Inr Genuine)
      | _ \<Rightarrow> Inr (BadSignature ''missing signature headers''))"

subsection \<open>Settings, responses and the sender\<close>

record slack_config =
  sc_client_id :: pystr
  sc_client_secret :: pystr
  sc_signing_secret :: pystr
  sc_token_minutes :: int
  sc_web_base_url :: pystr
  sc_settings :: settings

datatype slack_response =
    Ack
  | PlainText pystr
  | Ephemeral pystr
  | Page bool pystr

type_synonym slack_post = "pystr \<Rightarrow> pystr \<Rightarrow> pystr \<Rightarrow> slack_answer act"

definition slack_redirect_uri :: "slack_config \<Rightarrow> pystr" where
  "slack_redirect_uri cfg =
     rev (dropWhile (\<lambda>c. c = CHR ''/'') (rev (sc_web_base_url cfg))) @ ''/channels/slack/oauth/callback''"

definition callback_page :: "bool \<Rightarrow> pystr \<Rightarrow> pystr" where
  "callback_page done_ok message =
     (let title = (if done_ok then ''Slack connected'' else ''Slack install didn'' @ [squote] @ ''t complete'')
      in lines_of
        [''<!doctype html>'', ''<html><head><title>'' @ title @ ''</title>'',
         ''<style>body{font-family:-apple-system,Segoe UI,sans-serif;max-width:32rem;'',
         ''margin:4rem auto;padding:0 1rem;line-height:1.5}</style>'', ''</head><body>'',
         ''<h1>'' @ title @ ''</h1>'', ''<p>'' @ message @ ''</p>'',
         ''<p><a href='' @ [dquote] @ ''/'' @ [dquote] @ ''>Return to Wolfpaw</a></p>'', ''</body></html>''])"

definition callback_result :: "bool \<Rightarrow> pystr \<Rightarrow> slack_response" where
  "callback_result done_ok message = Page done_ok (callback_page done_ok message)"

text \<open>\<open>SlackChannel.send\<close>; \<open>target\<close> is the \<open>channel\<close> argument when a caller gives one.\<close>

definition slack_send_to :: "slack_post \<Rightarrow> pystr option \<Rightarrow> sender" where
  "slack_send_to post target user content =
     bindE (list_links_for_user user) (\<lambda>links.
     case find (\<lambda>l. cl_channel l = ''slack'') links of
       None \<Rightarrow> ret ()
     | Some l \<Rightarrow>
         (let (team, slack_user) = (case cut_at (CHR '':'') (cl_external_id l) of
                Some parts \<Rightarrow> parts | None \<Rightarrow> (cl_external_id l, []))
          in bindE (get_workspace team) (\<lambda>ws. case ws of
               None \<Rightarrow> ret ()
             | Some r \<Rightarrow>
                 thenE (post (sw_bot_token r)
                   (case target of Some (c # cs) \<Rightarrow> c # cs | _ \<Rightarrow> slack_user) content) (ret ()))))"

definition slack_send :: "slack_post \<Rightarrow> sender" where
  "slack_send post = slack_send_to post None"

subsection \<open>Installing the app\<close>

definition OAUTH_SCOPES :: pystr where
  "OAUTH_SCOPES = ''app_mentions:read,chat:write,commands,im:history,im:read,im:write''"

definition install_url :: "slack_config \<Rightarrow> token_hash \<Rightarrow> pystr act \<Rightarrow> uuid \<Rightarrow> (pystr \<times> int) act" where
  "install_url cfg hash fresh user =
     (if sc_client_id cfg = [] then raise (HTTPException 503 ''Slack client ID not configured'')
      else bindE (issue_link_token hash fresh user ''slack'' (sc_token_minutes cfg)) (\<lambda>state.
        ret (''https://slack.com/oauth/v2/authorize?client_id='' @ sc_client_id cfg @
             ''&scope='' @ OAUTH_SCOPES @ ''&redirect_uri='' @ slack_redirect_uri cfg @ ''&state='' @ state,
             sc_token_minutes cfg)))"

record oauth_grant =
  og_team :: pystr
  og_team_name :: "pystr option"
  og_bot_user :: pystr
  og_bot_token :: pystr
  og_slack_user :: pystr
  og_slack_name :: "pystr option"

definition text_or_empty :: "dict \<Rightarrow> pystr \<Rightarrow> pystr" where
  "text_or_empty d k = json_str (get_or d k (JStr []))"

definition read_grant :: "dict \<Rightarrow> exn + oauth_grant" where
  "read_grant oauth =
     (case (as_dict (get_or oauth ''team'' (JObj [])), as_dict (get_or oauth ''authed_user'' (JObj []))) of
        (Inr team, Inr authed) \<Rightarrow>
          Inr \<lparr> og_team = text_or_empty team ''id'', og_team_name = Option.bind (dict_get team ''name'') as_str,
                og_bot_user = text_or_empty oauth ''bot_user_id'', og_bot_token = text_or_empty oauth ''access_token'',
                og_slack_user = text_or_empty authed ''id'',
                og_slack_name = Option.bind (dict_get authed ''name'') as_str \<rparr>
      | (Inl e, _) \<Rightarrow> Inl e
      | (_, Inl e) \<Rightarrow> Inl e)"

definition slack_identity :: "pystr \<Rightarrow> pystr \<Rightarrow> pystr" where
  "slack_identity team slack_user = team @ '':'' @ slack_user"

definition persist_install :: "uuid \<Rightarrow> oauth_grant \<Rightarrow> unit act" where
  "persist_install user g =
     thenE (upsert_workspace (og_team g) (og_team_name g) (og_bot_user g) (og_bot_token g) user)
       (best_effort (create_channel_link user ''slack'' (slack_identity (og_team g) (og_slack_user g))
          (og_slack_name g)
          [(''team_id'', JStr (og_team g)), (''slack_user_id'', JStr (og_slack_user g))]))"

definition finish_install :: "uuid \<Rightarrow> dict \<Rightarrow> slack_response act" where
  "finish_install user oauth =
     bindE (liftE (read_grant oauth)) (\<lambda>g.
       if og_team g = [] \<or> og_bot_token g = [] \<or> og_bot_user g = [] \<or> og_slack_user g = []
       then ret (callback_result False ''Slack returned an incomplete OAuth response.'')
       else bindE (attemptE (persist_install user g)) (\<lambda>r. case r of
         Inl _ \<Rightarrow> ret (callback_result False (''Couldn'' @ [squote] @ ''t save the Slack workspace. Try again.''))
       | Inr _ \<Rightarrow> ret (callback_result True (''Wolfpaw is now installed in '' @
           (case og_team_name g of Some (c # cs) \<Rightarrow> c # cs | _ \<Rightarrow> og_team g) @ ''.''))))"

text \<open>A query parameter that is missing or empty.\<close>

definition given :: "pystr option \<Rightarrow> pystr option" where
  "given x = (case x of Some [] \<Rightarrow> None | _ \<Rightarrow> x)"

definition oauth_callback ::
  "slack_config \<Rightarrow> token_hash \<Rightarrow> http \<Rightarrow> pystr option \<Rightarrow> pystr option \<Rightarrow> pystr option \<Rightarrow> slack_response act" where
  "oauth_callback cfg hash h oauth_code state err =
     (case (given err, given oauth_code, given state) of
        (None, Some c, Some s) \<Rightarrow>
          bindE (consume_link_token hash s ''slack'') (\<lambda>r. case r of
            BadToken _ \<Rightarrow> ret (callback_result False
              ''Install link expired or already used. Generate a fresh link from the web app.'')
          | Redeemed user \<Rightarrow>
              bindE (oauth_v2_access h c (sc_client_id cfg) (sc_client_secret cfg) (slack_redirect_uri cfg))
                (\<lambda>a. case a of
                   SlackApiError _ e \<Rightarrow> ret (callback_result False (''Slack rejected the install: '' @ e))
                 | SlackOk oauth \<Rightarrow> finish_install user oauth))
      | (e, _, _) \<Rightarrow> ret (callback_result False (''Slack install was not completed: '' @
          (case e of Some why \<Rightarrow> why | None \<Rightarrow> ''missing code/state''))))"

subsection \<open>Events\<close>

record slack_event =
  se_user :: pystr
  se_channel :: pystr
  se_text :: pystr

text \<open>The event of a direct message by a person, if it is one.\<close>

definition read_event :: "dict \<Rightarrow> exn + slack_event option" where
  "read_event event =
     (if truthy (get_default event ''bot_id'' JNull) then Inr None
      else case get_default event ''subtype'' JNull of
        JObj _ \<Rightarrow> Inl (OtherError ''unhashable type'')
      | JArr _ \<Rightarrow> Inl (OtherError ''unhashable type'')
      | subtype \<Rightarrow>
          if subtype \<in> {JStr ''bot_message'', JStr ''message_changed''} \<or>
             dict_get event ''channel_type'' \<noteq> Some (JStr ''im'')
          then Inr None
          else (case get_or event ''text'' (JStr []) of
              JStr txt \<Rightarrow> Inr (Some \<lparr> se_user = text_or_empty event ''user'',
                se_channel = text_or_empty event ''channel'', se_text = strip txt \<rparr>)
            | _ \<Rightarrow> Inl (attr_error ''strip'')))"

definition handle_slack_event :: "slack_config \<Rightarrow> slack_post \<Rightarrow> pystr \<Rightarrow> slack_event \<Rightarrow> unit act" where
  "handle_slack_event cfg post team e =
     (if team = [] \<or> se_user e = [] \<or> se_channel e = [] \<or> se_text e = [] then ret ()
      else bindE (find_linked_user ''slack'' (slack_identity team (se_user e))) (\<lambda>user.
           bindE (get_workspace team) (\<lambda>ws. case (user, ws) of
             (_, None) \<Rightarrow> ret ()
           | (None, Some r) \<Rightarrow> thenE (post (sw_bot_token r) (se_channel e)
               (''I don'' @ [squote] @ ''t recognize this Slack account yet. Install Wolfpaw from the web app '' @
                ''to connect.'')) (ret ())
           | (Some u, Some r) \<Rightarrow>
               enqueue_slack_dispatch (sc_settings cfg) u (sw_bot_token r) (se_channel e) (se_text e))))"

definition handle_message_event :: "slack_config \<Rightarrow> slack_post \<Rightarrow> pystr \<Rightarrow> dict \<Rightarrow> unit act" where
  "handle_message_event cfg post team event =
     bindE (liftE (read_event event)) (\<lambda>m. case m of
       None \<Rightarrow> ret () | Some e \<Rightarrow> handle_slack_event cfg post team e)"

definition challenge_reply :: "dict \<Rightarrow> exn + slack_response" where
  "challenge_reply payload = (case get_default payload ''challenge'' (JStr []) of
     JStr s \<Rightarrow> Inr (PlainText s) | JNull \<Rightarrow> Inr (PlainText []) | _ \<Rightarrow> Inl (attr_error ''encode''))"

definition handle_event_payload :: "slack_config \<Rightarrow> slack_post \<Rightarrow> dict \<Rightarrow> slack_response act" where
  "handle_event_payload cfg post payload =
     (let kind = dict_get payload ''type'' in
      if kind = Some (JStr ''url_verification'') then liftE (challenge_reply payload)
      else if kind \<noteq> Some (JStr ''event_callback'') then ret Ack
      else bindE (liftE (as_dict (get_or payload ''event'' (JObj [])))) (\<lambda>event.
           if dict_get event ''type'' = Some (JStr ''message'')
           then thenE (handle_message_event cfg post (text_or_empty payload ''team_id'') event) (ret Ack)
           else ret Ack))"

text \<open>What both endpoints do before they read a body.\<close>

definition signed_request ::
  "keyed_hash \<Rightarrow> slack_config \<Rightarrow> pystr option \<Rightarrow> pystr option \<Rightarrow> bytes \<Rightarrow> slack_response act \<Rightarrow>
   slack_response act" where
  "signed_request hmac cfg timestamp signature body rest =
     bindE (getsE now) (\<lambda>current.
     bindE (liftE (verify_signature hmac (sc_signing_secret cfg) current timestamp signature body)) (\<lambda>c. case c of
       BadSignature _ \<Rightarrow> raise (HTTPException 403 ''bad signature'')
     | Genuine \<Rightarrow> rest))"

definition slack_events ::
  "keyed_hash \<Rightarrow> slack_config \<Rightarrow> slack_post \<Rightarrow> pystr option \<Rightarrow> pystr option \<Rightarrow> bytes \<Rightarrow> slack_response act" where
  "slack_events hmac cfg post timestamp signature body =
     signed_request hmac cfg timestamp signature body
       (case Option.bind (utf8_decode body) loads of
          None \<Rightarrow> ret Ack
        | Some j \<Rightarrow> bindE (liftE (as_dict j)) (handle_event_payload cfg post))"

subsection \<open>Slash commands\<close>

definition slack_inbound :: "uuid \<Rightarrow> pystr \<Rightarrow> pystr \<Rightarrow> pystr \<Rightarrow> inbound_message" where
  "slack_inbound user content team channel = \<lparr> im_user = user, im_content = content, im_channel = ''slack'',
     im_thread = None, im_metadata = [(''team_id'', JStr team), (''channel_id'', JStr channel)] \<rparr>"

definition queue_freeform :: "slack_config \<Rightarrow> uuid \<Rightarrow> pystr \<Rightarrow> pystr \<Rightarrow> pystr \<Rightarrow> slack_response act" where
  "queue_freeform cfg user team channel content =
     bindE (get_workspace team) (\<lambda>ws. case ws of
       None \<Rightarrow> ret (Ephemeral (''This workspace'' @ [squote] @ ''s Wolfpaw install was revoked. Re-install from the web app.''))
     | Some r \<Rightarrow> thenE (enqueue_slack_dispatch (sc_settings cfg) user (sw_bot_token r) channel content)
         (ret (Ephemeral (''Working on it'' @ [ellipsis]))))"

definition handle_slash_command ::
  "slack_config \<Rightarrow> dispatcher \<Rightarrow> pystr \<Rightarrow> pystr \<Rightarrow> pystr \<Rightarrow> pystr \<Rightarrow> slack_response act" where
  "handle_slash_command cfg dispatcher team slack_user channel typed =
     (if team = [] \<or> slack_user = [] \<or> channel = []
      then ret (Ephemeral (''Missing team/user/channel '' @ [em_dash] @ '' Slack payload was malformed.''))
      else bindE (find_linked_user ''slack'' (slack_identity team slack_user)) (\<lambda>user. case user of
        None \<Rightarrow> ret (Ephemeral (''Your Slack account isn'' @ [squote] @ ''t linked to Wolfpaw yet. Install the app '' @
          ''from the web UI to connect.''))
      | Some u \<Rightarrow>
          (let content = (if typed = [] then ''/help'' else typed) in
           bindE (dispatch dispatcher (slack_inbound u content team channel)) (\<lambda>cmd. case cmd of
             Some r \<Rightarrow> ret (Ephemeral (cr_text r))
           | None \<Rightarrow> queue_freeform cfg u team channel content))))"

definition slack_commands ::
  "keyed_hash \<Rightarrow> slack_config \<Rightarrow> dispatcher \<Rightarrow> pystr option \<Rightarrow> pystr option \<Rightarrow> bytes \<Rightarrow> slack_response act" where
  "slack_commands hmac cfg dispatcher timestamp signature body =
     signed_request hmac cfg timestamp signature body
       (let form = parse_qsl (utf8_replace body) in
        handle_slash_command cfg dispatcher (form_value ''team_id'' form) (form_value ''user_id'' form)
          (form_value ''channel_id'' form) (strip (form_value ''text'' form)))"

subsection \<open>The turn of a message\<close>

definition resolve_slack_thread :: "pystr option \<Rightarrow> uuid \<Rightarrow> uuid act" where
  "resolve_slack_thread soul_version user =
     bindE (get_most_recent_thread user) (\<lambda>existing. case existing of
       Some th \<Rightarrow> ret th
     | None \<Rightarrow> get_or_create_thread soul_version user ''slack'' None)"

definition slack_ctx :: "uuid \<Rightarrow> tool_ctx" where
  "slack_ctx user = \<lparr> c_user = user, c_task = None, c_trace = None, c_channel = Some ''slack'', c_emit = False \<rparr>"

definition slack_turn :: "service \<Rightarrow> slack_post \<Rightarrow> pystr option \<Rightarrow> uuid \<Rightarrow> pystr \<Rightarrow> pystr \<Rightarrow> pystr \<Rightarrow> unit act" where
  "slack_turn s post soul_version user bot_token channel content =
     bindE (resolve_slack_thread soul_version user) (\<lambda>thread.
     bindE (router_handle s (slack_ctx user) thread content False) (\<lambda>final.
     bindE (post bot_token channel final) (\<lambda>a.
     thenE (liftE (slack_or_raise a)) (ret ()))))"

definition handle_freeform ::
  "service \<Rightarrow> slack_post \<Rightarrow> pystr option \<Rightarrow> uuid \<Rightarrow> pystr \<Rightarrow> pystr \<Rightarrow> pystr \<Rightarrow> unit act" where
  "handle_freeform s post soul_version user bot_token channel content =
     catchE (slack_turn s post soul_version user bot_token channel content)
       (\<lambda>e. best_effort (post bot_token channel (''Sorry, I ran into a problem: '' @ exn_str e)))"

definition slack_dispatch_job ::
  "service \<Rightarrow> slack_post \<Rightarrow> pystr option \<Rightarrow> pystr \<Rightarrow> pystr \<Rightarrow> pystr \<Rightarrow> pystr \<Rightarrow> unit act" where
  "slack_dispatch_job s post soul_version user bot_token channel content =
     (case parse_uuid user of
        None \<Rightarrow> raise (ValueError ''badly formed hexadecimal UUID string'')
      | Some u \<Rightarrow> handle_freeform s post soul_version u bot_token channel content)"

end
