(* ===== verification/Account_Props.thy ===== *)
theory Account_Props
  imports Accounts
begin

section \<open>Tokens are used once\<close>

text \<open>
  Theorems about \<open>Accounts\<close>: a session token gives back its user until it expires; a sign-in link and a
  link token work once, whatever happens between two attempts. \<open>ages rel xs ys\<close> says what can happen to a
  table meanwhile: its rows stay in place, each changes as \<open>rel\<close> allows, and rows are added.
\<close>

subsection \<open>Tables that age\<close>

definition ages :: "('r \<Rightarrow> 'r \<Rightarrow> bool) \<Rightarrow> 'r list \<Rightarrow> 'r list \<Rightarrow> bool" where
  "ages rel xs ys \<longleftrightarrow> (\<exists>us vs. ys = us @ vs \<and> list_all2 rel xs us)"

locale aging =
  fixes rel :: "'r \<Rightarrow> 'r \<Rightarrow> bool" and key :: "'r \<Rightarrow> 'k"
  assumes rel_refl: "rel x x" and rel_trans: "rel x y \<Longrightarrow> rel y z \<Longrightarrow> rel x z"
    and rel_key: "rel x y \<Longrightarrow> key y = key x"
begin

lemma ages_refl: "ages rel xs xs"
  unfolding ages_def by (intro exI[of _ xs] exI[of _ "[]"]) (simp add: list_all2_refl rel_refl)

lemma ages_trans: assumes "ages rel xs ys" "ages rel ys zs" shows "ages rel xs zs"
proof -
  obtain us vs where u: "ys = us @ vs" "list_all2 rel xs us" using assms(1) by (auto simp: ages_def)
  obtain us' vs' where z: "zs = us' @ vs'" "list_all2 rel (us @ vs) us'" using assms(2) u by (auto simp: ages_def)
  obtain a b where ab: "us' = a @ b" "list_all2 rel us a" "list_all2 rel vs b"
    using z(2) by (auto simp: list_all2_append1)
  have "list_all2 rel xs a" by (rule list_all2_trans[OF _ u(2) ab(2)]) (rule rel_trans)
  then show ?thesis unfolding ages_def z ab by (metis append.assoc)
qed

lemma ages_append: "ages rel xs (xs @ ys)"
  unfolding ages_def by (intro exI[of _ xs] exI[of _ ys]) (simp add: list_all2_refl rel_refl)

lemma ages_set: "(\<And>x. p x \<Longrightarrow> rel x (f x)) \<Longrightarrow> ages rel xs (sql_set p f xs)"
  unfolding ages_def
  by (intro exI[of _ "sql_set p f xs"] exI[of _ "[]"])
    (auto simp: sql_set_def list_all2_map2 rel_refl intro!: list_all2_refl)

lemma ages_first:
  assumes "ages rel xs ys" and "sql_first (\<lambda>x. key x = k) xs = Some x"
  shows "\<exists>y. sql_first (\<lambda>x. key x = k) ys = Some y \<and> rel x y"
proof -
  obtain us vs where u: "ys = us @ vs" "list_all2 rel xs us" using assms(1) by (auto simp: ages_def)
  have "\<exists>y. sql_first (\<lambda>x. key x = k) us = Some y \<and> rel x y"
    using u(2) assms(2) by (induction rule: list_all2_induct) (auto simp: rel_key split: if_splits)
  then show ?thesis unfolding u(1) by (auto simp: sql_first_append)
qed

end

subsection \<open>Link tokens\<close>

definition token_aged :: "link_token \<Rightarrow> link_token \<Rightarrow> bool" where
  "token_aged a b \<longleftrightarrow> b = a\<lparr>lk_used_at := lk_used_at b\<rparr> \<and> (lk_used_at a \<noteq> None \<longrightarrow> lk_used_at b \<noteq> None)"

lemma token_agedD: "token_aged a b \<Longrightarrow> lk_hash b = lk_hash a \<and> lk_user_id b = lk_user_id a"
  by (cases a; cases b) (auto simp: token_aged_def)

interpretation lk: aging token_aged lk_hash
proof unfold_locales
  fix x y z :: link_token
  show "token_aged x x" by (simp add: token_aged_def)
  show "token_aged x y \<Longrightarrow> token_aged y z \<Longrightarrow> token_aged x z"
    by (cases x; cases y; cases z) (auto simp: token_aged_def)
  show "token_aged x y \<Longrightarrow> lk_hash y = lk_hash x" using token_agedD by blast
qed

definition tokens_age :: "world \<Rightarrow> world \<Rightarrow> bool" where
  "tokens_age w w' \<longleftrightarrow> ages token_aged (link_tokens w) (link_tokens w')"

lemma tokens_age_frame: "link_tokens w' = link_tokens w \<Longrightarrow> tokens_age w w'"
  by (simp add: tokens_age_def lk.ages_refl)

lemma tokens_age_env: "tokens_age w (env_apply a w)"
proof (cases a)
  case (EnvUseToken h)
  then show ?thesis
    by (auto simp: tokens_age_def set_token_used_def token_aged_def intro!: lk.ages_set)
qed (simp_all add: tokens_age_frame)

interpretation tokens_age: clock_order tokens_age
proof unfold_locales
  fix u v w assume "tokens_age u v" "tokens_age v w"
  then show "tokens_age u w" unfolding tokens_age_def by (rule lk.ages_trans)
qed (auto intro: tokens_age_frame tokens_age_env)

definition used_up :: "pystr \<Rightarrow> world \<Rightarrow> bool" where
  "used_up h w \<longleftrightarrow> (\<exists>t. sql_first (\<lambda>t. lk_hash t = h) (link_tokens w) = Some t \<and> lk_used_at t \<noteq> None)"

lemma used_up_stays: "used_up h w \<Longrightarrow> tokens_age w w' \<Longrightarrow> used_up h w'"
  unfolding used_up_def tokens_age_def using lk.ages_first[of _ _ h] by (fastforce simp: token_aged_def)

lemma sql_first_set:
  "sql_first p rows = Some r \<Longrightarrow> (\<And>x. p (f x) = p x) \<Longrightarrow> q r \<Longrightarrow> sql_first p (sql_set q f rows) = Some (f r)"
  by (induction rows) (auto split: if_splits)

lemma consume_once:
  assumes "consume_link_token hash plain channel w = (r, w')"
  shows "tokens_age w w' \<and> channel_links w' = channel_links w \<and> (\<forall>u. r = Inr (Redeemed u) \<longrightarrow>
    \<not> used_up (hash plain) w \<and> used_up (hash plain) w' \<and>
    (\<exists>t\<in>set (link_tokens w'). lk_hash t = hash plain \<and> lk_channel t = channel \<and> lk_user_id t = u))"
proof -
  let ?f = "\<lambda>w. case sql_first (\<lambda>t. lk_hash t = hash plain) (link_tokens w) of
       None \<Rightarrow> (Inr (BadToken ''invalid token''), w)
     | Some t \<Rightarrow>
         if lk_channel t \<noteq> channel then (Inr (BadToken ''token is for a different channel''), w)
         else if lk_used_at t \<noteq> None then (Inr (BadToken ''token already used''), w)
         else if lk_expires_at t \<le> now w then (Inr (BadToken ''token expired''), w)
         else (Inr (Redeemed (lk_user_id t)), w\<lparr>link_tokens :=
           sql_set (\<lambda>r. lk_id r = lk_id t) (set_token_used (now w)) (link_tokens w)\<rparr>)"
  have links: "keeps (\<lambda>w w'. channel_links w' = channel_links w) (consume_link_token hash plain channel)"
    unfolding consume_link_token_def keeps_def stmt_def Let_def
    by (auto split: list.splits option.splits)
  have run: "stmt ?f w = (r, w')" using assms by (simp add: consume_link_token_def)
  have same: "channel_links w' = channel_links w" using keepsD[OF links assms] .
  from run show ?thesis
  proof (cases rule: tokens_age.stmt_split)
    case (fail e)
    then show ?thesis using same by simp
  next
    case (run v)
    show ?thesis
    proof (cases "\<exists>u. r = Inr (Redeemed u)")
      case False
      then have "w' = v" using run(2) by (auto split: option.splits if_splits)
      then show ?thesis using run(1) False same by auto
    next
      case True
      then obtain t where t: "sql_first (\<lambda>t. lk_hash t = hash plain) (link_tokens v) = Some t"
        "lk_channel t = channel" "lk_used_at t = None" "r = Inr (Redeemed (lk_user_id t))"
        and w': "w' = v\<lparr>link_tokens := sql_set (\<lambda>r. lk_id r = lk_id t) (set_token_used (now v)) (link_tokens v)\<rparr>"
        using run(2) by (auto split: option.splits if_splits)
      have first: "sql_first (\<lambda>t. lk_hash t = hash plain) (link_tokens w') = Some (set_token_used (now v) t)"
        unfolding w' using t(1) by (simp add: sql_first_set set_token_used_def)
      have age: "tokens_age v w'"
        unfolding w' tokens_age_def by (auto simp: set_token_used_def token_aged_def intro!: lk.ages_set)
      have row: "\<exists>t'\<in>set (link_tokens w'). lk_hash t' = hash plain \<and> lk_channel t' = channel \<and>
          lk_user_id t' = lk_user_id t"
        by (rule bexI[of _ "set_token_used (now v) t"])
          (use t sql_first_SomeD[OF first] in \<open>auto simp: set_token_used_def\<close>)
      have "\<not> used_up (hash plain) v" using t by (simp add: used_up_def)
      then have "\<not> used_up (hash plain) w" using used_up_stays[OF _ run(1)] by blast
      then show ?thesis
        using first same t(4) row tokens_age.trans[OF run(1) age]
        by (auto simp: used_up_def set_token_used_def)
    qed
  qed
qed

lemma used_token_refused:
  assumes "consume_link_token hash plain channel w = (r, w')" and "used_up (hash plain) w"
  shows "r \<noteq> Inr (Redeemed u)"
  using consume_once[OF assms(1)] assms(2) by blast

subsection \<open>Sign-in links\<close>

definition link_aged :: "magic_link \<Rightarrow> magic_link \<Rightarrow> bool" where
  "link_aged a b \<longleftrightarrow> b = a\<lparr>ml_used_at := ml_used_at b\<rparr> \<and> (ml_used_at a \<noteq> None \<longrightarrow> ml_used_at b \<noteq> None)"

interpretation ml: aging link_aged ml_hash
proof unfold_locales
  fix x y z :: magic_link
  show "link_aged x x" by (simp add: link_aged_def)
  show "link_aged x y \<Longrightarrow> link_aged y z \<Longrightarrow> link_aged x z"
    by (cases x; cases y; cases z) (auto simp: link_aged_def)
  show "link_aged x y \<Longrightarrow> ml_hash y = ml_hash x" by (cases x; cases y) (auto simp: link_aged_def)
qed

definition links_age :: "world \<Rightarrow> world \<Rightarrow> bool" where
  "links_age w w' \<longleftrightarrow> ages link_aged (magic_links w) (magic_links w')"

text \<open>Whoever redeems a sign-in link becomes the user of the account with its address.\<close>

lemma account_created:
  assumes "get_or_create_user email w = ((user, created), w')"
  shows "(\<exists>a. account_of (normal_email email) w' = Some a \<and> ac_id a = user) \<and> magic_links w' = magic_links w"
  using assms
  by (auto simp: get_or_create_user_def Let_def account_of_def sql_first_append split: option.splits)

lemma redeemed_link:
  assumes "redeem_magic_link cfg hash token w = (Inr (user, created), w')"
  obtains l a where "sql_first (\<lambda>l. ml_hash l = hash token) (magic_links w) = Some l" "ml_used_at l = None"
    "email_allowed (au_allowed cfg) (ml_email l)" "account_of (normal_email (ml_email l)) w' = Some a" "ac_id a = user"
    "\<exists>k. sql_first (\<lambda>l. ml_hash l = hash token) (magic_links w') = Some k \<and> ml_used_at k \<noteq> None"
proof -
  from assms[unfolded redeem_magic_link_def] show thesis
  proof (cases rule: stmt_cases)
    case (run v)
    let ?used = "\<lambda>l. v\<lparr>magic_links := sql_set (\<lambda>r. ml_id r = ml_id l) (\<lambda>r. r\<lparr>ml_used_at := Some (now v)\<rparr>) (magic_links v)\<rparr>"
    obtain l where l: "sql_first (\<lambda>l. ml_hash l = hash token) (magic_links v) = Some l" "ml_used_at l = None"
      "email_allowed (au_allowed cfg) (ml_email l)" "get_or_create_user (ml_email l) (?used l) = ((user, created), w')"
      using run(2) by (auto split: option.splits if_splits prod.splits)
    have "sql_first (\<lambda>l. ml_hash l = hash token) (magic_links (?used l)) = Some (l\<lparr>ml_used_at := Some (now v)\<rparr>)"
      using l(1) by (simp add: sql_first_set)
    then have "sql_first (\<lambda>l. ml_hash l = hash token) (magic_links w') = Some (l\<lparr>ml_used_at := Some (now v)\<rparr>)"
      using account_created[OF l(4)] by simp
    moreover obtain a where "account_of (normal_email (ml_email l)) w' = Some a" "ac_id a = user"
      using account_created[OF l(4)] by blast
    ultimately show ?thesis using that[of l a] l near_frame[OF run(1)] by simp
  qed simp
qed

subsection \<open>Sessions\<close>

lemma cut_at_app: "c \<notin> set s \<Longrightarrow> cut_at c (s @ c # t) = Some (s, t)"
  by (induction s) (auto simp: cut_at_def split: list.splits)

text \<open>A session token gives back exactly the user it was made for until its time is over, and nobody
  after that.\<close>

theorem session_round_trip:
  assumes "valid_uuid user"
  shows "verify_session_token hmac secret later (mint_session_token hmac secret user ttl issued) =
    Inr (if later < issued + ttl
         then Some \<lparr> sp_user = user, sp_issued_at = issued, sp_expires_at = issued + ttl \<rparr> else None)"
proof -
  let ?d = "[(''sub'', JStr (uuid_text user)), (''iat'', JInt issued), (''exp'', JInt (issued + ttl))]"
  let ?body = "session_body user issued (issued + ttl)"
  have "json_plain (JObj ?d)" by simp
  then have read: "Option.bind (Option.bind (unb64 ?body) utf8_decode) loads = Some (JObj ?d)"
    by (simp add: session_body_def loads_dumps_compact)
  have "session_of (JObj ?d) = Inr (Some \<lparr> sp_user = user, sp_issued_at = issued, sp_expires_at = issued + ttl \<rparr>)"
    using parse_uuid_text[OF assms] by (simp add: session_of_def)
  moreover have "ascii ?body" "CHR ''.'' \<notin> set ?body"
    using b64_plain by (simp_all add: ascii_def session_body_def)
  ultimately show ?thesis
    using cut_at_app[of "CHR ''.''" ?body "b64 (hmac secret (utf8_encode ?body))"] read
    by (simp add: verify_session_token_def mint_session_token_def Let_def)
qed

text \<open>C32: Signing in by mail: the session that is handed out belongs to the account with the address the link
  was sent to, an address on the allowlist, and the same link never signs in again, whatever happens in
  between.\<close>

theorem sign_in_link_used_once:
  assumes "verify_magic_link cfg hash hmac token w = (Inr l, w1)" and "links_age w1 w2"
    and "verify_magic_link cfg hash hmac token w2 = (r, w3)" and "valid_uuid (lg_user l)"
  shows "(\<exists>row a. row \<in> set (magic_links w) \<and> ml_hash row = hash token \<and>
      email_allowed (au_allowed cfg) (ml_email row) \<and>
      account_of (normal_email (ml_email row)) w1 = Some a \<and> ac_id a = lg_user l) \<and>
    (0 < au_session_days cfg \<longrightarrow>
      (\<exists>p. verify_session_token hmac (au_secret cfg) (unix_now w1) (lg_cookie l) = Inr (Some p) \<and>
         sp_user p = lg_user l)) \<and>
    (\<forall>x. r \<noteq> Inr x)"
proof -
  obtain user created where red: "redeem_magic_link cfg hash token w = (Inr (user, created), w1)"
    and l: "lg_user l = user"
      "lg_cookie l = mint_session_token hmac (au_secret cfg) user (au_session_days cfg * 86400) (unix_now w1)"
    using assms(1) by (auto simp: verify_magic_link_def bindE_def split: prod.splits sum.splits)
  obtain row a where row: "sql_first (\<lambda>l. ml_hash l = hash token) (magic_links w) = Some row"
    "email_allowed (au_allowed cfg) (ml_email row)" "account_of (normal_email (ml_email row)) w1 = Some a" "ac_id a = user"
    and used: "\<exists>k. sql_first (\<lambda>l. ml_hash l = hash token) (magic_links w1) = Some k \<and> ml_used_at k \<noteq> None"
    using redeemed_link[OF red] by metis
  obtain k where k: "sql_first (\<lambda>l. ml_hash l = hash token) (magic_links w2) = Some k" "ml_used_at k \<noteq> None"
    using used assms(2) ml.ages_first[of "magic_links w1" "magic_links w2" "hash token"]
    unfolding links_age_def by (fastforce simp: link_aged_def)
  have "\<forall>x. r \<noteq> Inr x"
  proof (intro allI notI)
    fix x assume "r = Inr x"
    then obtain u c where "redeem_magic_link cfg hash token w2 = (Inr (u, c), w3)"
      using assms(3) by (auto simp: verify_magic_link_def bindE_def split: prod.splits sum.splits)
    then show False by (rule redeemed_link) (use k in simp)
  qed
  moreover have "\<exists>p. verify_session_token hmac (au_secret cfg) (unix_now w1) (lg_cookie l) = Inr (Some p) \<and>
      sp_user p = lg_user l" if "0 < au_session_days cfg"
    using session_round_trip[of user] assms(4) l that by simp
  moreover have "row \<in> set (magic_links w)" "ml_hash row = hash token"
    using sql_first_SomeD[OF row(1)] by simp_all
  ultimately show ?thesis using row(2-4) l(1) by metis
qed

subsection \<open>Witnesses\<close>

definition plain_hmac :: keyed_hash where
  "plain_hmac secret body = secret @ body"

definition sign_in_config :: auth_config where
  "sign_in_config = \<lparr> au_allowed = [], au_secret = [7], au_link_minutes = 15, au_session_days = 30,
     au_web_base_url = [] \<rparr>"

definition invited :: world where
  "invited = empty_world\<lparr>next_id := 4, magic_links := [\<lparr> ml_id = Uuid 3, ml_email = ''a@b.c'',
     ml_hash = ''tok'', ml_expires_at = 900 * second, ml_used_at = None \<rparr>]\<rparr>"

lemma session_round_trip_witness:
  "verify_session_token plain_hmac [7] 1000 (mint_session_token plain_hmac [7] (Uuid 4) 3600 0) =
     Inr (Some \<lparr> sp_user = Uuid 4, sp_issued_at = 0, sp_expires_at = 3600 \<rparr>)"
  using session_round_trip[of "Uuid 4" plain_hmac "[7]" 1000 3600 0] by (simp add: valid_uuid_def)

lemma sign_in_link_used_once_witness:
  "\<exists>l w1. verify_magic_link sign_in_config id plain_hmac ''tok'' invited = (Inr l, w1) \<and> lg_user l = Uuid 4 \<and>
     (\<forall>x. fst (verify_magic_link sign_in_config id plain_hmac ''tok'' w1) \<noteq> Inr x)"
proof -
  have "script invited = []" by (simp add: invited_def empty_world_def)
  then obtain l w1 where run: "verify_magic_link sign_in_config id plain_hmac ''tok'' invited = (Inr l, w1)"
    and u: "lg_user l = Uuid 4"
    by (simp add: verify_magic_link_def redeem_magic_link_def bindE_def invited_def email_allowed_def
        sign_in_config_def allowed_emails_def strip_def lstrip_def rstrip_def get_or_create_user_def Let_def
        account_of_def empty_world_def second_def split: prod.splits option.splits)
  obtain r w3 where again: "verify_magic_link sign_in_config id plain_hmac ''tok'' w1 = (r, w3)" by fastforce
  have "links_age w1 w1" by (simp add: links_age_def ml.ages_refl)
  then show ?thesis
    using sign_in_link_used_once[OF run _ again] run u again by (auto simp: valid_uuid_def)
qed

end
