(* ===== verification/Telegram_Props.thy ===== *)
theory Telegram_Props
  imports Telegram Account_Props Questions_Facts
begin

section \<open>What the Telegram channel guarantees\<close>

text \<open>
  Theorems about \<open>Telegram\<close>: a link token links at most one account, and to the user it was issued for; a
  message that answers an open question reaches that question and starts no turn.
\<close>

subsection \<open>Linking\<close>

definition links_same :: "world \<Rightarrow> world \<Rightarrow> bool" where
  "links_same w w' \<longleftrightarrow> channel_links w' = channel_links w \<and> tokens_age w w'"

interpretation links_same: clock_order links_same
proof unfold_locales
  fix u v w assume "links_same u v" "links_same v w"
  then show "links_same u w" using tokens_age.trans by (auto simp: links_same_def)
qed (auto simp: links_same_def env_apply_frame intro: tokens_age_frame tokens_age_env)

definition linked_by :: "pystr \<Rightarrow> pystr \<Rightarrow> world \<Rightarrow> world \<Rightarrow> bool" where
  "linked_by h tg_user w w' \<longleftrightarrow> \<not> used_up h w \<and> used_up h w' \<and>
     (\<exists>l t. channel_links w' = channel_links w @ [l] \<and> cl_channel l = ''telegram'' \<and> cl_external_id l = tg_user \<and>
        t \<in> set (link_tokens w') \<and> lk_hash t = h \<and> lk_channel t = ''telegram'' \<and> cl_user_id l = lk_user_id t)"

lemma aged_row:
  assumes "tokens_age w v" and t: "t \<in> set (link_tokens w)"
  shows "\<exists>t'\<in>set (link_tokens v). lk_hash t' = lk_hash t \<and> lk_user_id t' = lk_user_id t \<and> lk_channel t' = lk_channel t"
proof -
  obtain us vs where u: "link_tokens v = us @ vs" "list_all2 token_aged (link_tokens w) us"
    using assms(1) by (auto simp: tokens_age_def ages_def)
  obtain i where i: "i < length (link_tokens w)" "link_tokens w ! i = t" using t by (auto simp: in_set_conv_nth)
  have "token_aged t (us ! i)" using list_all2_nthD[OF u(2) i(1)] i(2) by simp
  moreover have "us ! i \<in> set (link_tokens v)" using u i list_all2_lengthD[OF u(2)] by simp
  ultimately show ?thesis by (intro bexI[of _ "us ! i"]) (cases t; cases "us ! i"; simp add: token_aged_def)+
qed

lemma linked_by_later:
  assumes "linked_by h tg_user w v" and "links_same v w'" shows "linked_by h tg_user w w'"
proof -
  have s: "channel_links w' = channel_links v" "tokens_age v w'" using assms(2) by (simp_all add: links_same_def)
  obtain l t where l: "channel_links v = channel_links w @ [l]" "cl_channel l = ''telegram''" "cl_external_id l = tg_user"
    and t: "t \<in> set (link_tokens v)" "lk_hash t = h" "lk_channel t = ''telegram''" "cl_user_id l = lk_user_id t"
    and u: "\<not> used_up h w" "used_up h v"
    using assms(1) by (auto simp: linked_by_def)
  obtain t' where "t' \<in> set (link_tokens w')" "lk_hash t' = h" "lk_channel t' = ''telegram''" "cl_user_id l = lk_user_id t'"
    using aged_row[OF s(2) t(1)] t by auto
  then show ?thesis using l u s used_up_stays[OF u(2) s(2)] unfolding linked_by_def by metis
qed

lemma create_link_adds:
  assumes "create_channel_link user channel external username meta w = (r, w')"
  shows "tokens_age w w' \<and> (channel_links w' = channel_links w \<or>
    (\<exists>l. r = Inr l \<and> channel_links w' = channel_links w @ [l] \<and> cl_channel l = channel \<and>
       cl_external_id l = external \<and> cl_user_id l = user))"
  using assms[unfolded create_channel_link_def]
proof (cases rule: links_same.stmt_split)
  case (run v)
  then show ?thesis
    using tokens_age.trans[OF _ tokens_age_frame[of w' v]]
    by (auto simp: links_same_def Let_def split: if_splits)
next
  case (fail e)
  then show ?thesis by (simp add: links_same_def)
qed

lemma link_account_links:
  assumes "link_account hash tg_user chat username plain w = (r, w')"
  shows "tokens_age w w' \<and> (channel_links w' = channel_links w \<or> linked_by (hash plain) tg_user w w')"
  using assms[unfolded link_account_def]
proof (cases rule: bindE_cases)
  case (exn e)
  then show ?thesis using consume_once[OF exn(1)] by simp
next
  case (val q w1)
  note first = consume_once[OF val(1)]
  show ?thesis
  proof (cases q)
    case (BadToken why)
    then show ?thesis using val(2) first by simp
  next
    case (Redeemed user)
    obtain x w2 where create: "create_channel_link user ''telegram'' tg_user username [(''chat_id'', JStr chat)] w1 = (x, w2)"
      by fastforce
    have w': "w' = w2"
      using val(2) Redeemed create by (auto simp: thenE_def bindE_def split: sum.splits)
    note add = create_link_adds[OF create]
    obtain t where t: "t \<in> set (link_tokens w1)" "lk_hash t = hash plain" "lk_channel t = ''telegram''"
      "lk_user_id t = user" and used: "\<not> used_up (hash plain) w" "used_up (hash plain) w1"
      using first Redeemed by auto
    have age: "tokens_age w w2" using first add tokens_age.trans by blast
    have "used_up (hash plain) w2" using used_up_stays[OF used(2)] add by blast
    moreover obtain t' where "t' \<in> set (link_tokens w2)" "lk_hash t' = hash plain" "lk_channel t' = ''telegram''"
      "lk_user_id t' = user"
      using aged_row[OF conjunct1[OF add] t(1)] t by auto
    ultimately show ?thesis
      using age add first used(1) unfolding w' linked_by_def by auto
  qed
qed

lemma onboarding_links:
  assumes send: "\<And>c t p. keeps links_same (send c t p)"
    and "handle_onboarding send hash tg_user chat username plain w = (r, w')"
  shows "tokens_age w w' \<and> (channel_links w' = channel_links w \<or> linked_by (hash plain) tg_user w w')"
proof -
  obtain q w1 where q: "link_account hash tg_user chat username plain w = (q, w1)" by fastforce
  have later: "links_same w1 w'"
    using assms(2) q keepsD[OF send]
    by (auto simp: handle_onboarding_def bindE_def attemptE_def split: sum.splits redemption.splits)
  have s: "channel_links w' = channel_links w1" "tokens_age w1 w'" using later by (simp_all add: links_same_def)
  from link_account_links[OF q] show ?thesis
    using tokens_age.trans[OF _ s(2)] s(1) linked_by_later[OF _ later] by auto
qed

text \<open>C31: A link token links one Telegram account at most, to the user it was issued for: once a redemption has
  written a link, no later one by any account writes another, whatever happened in between and whatever
  fails.\<close>

theorem link_token_used_once:
  assumes "\<And>c t p. outside_only (send c t p)"
    and "handle_onboarding send hash a1 c1 n1 plain w = (r1, w1)" and "channel_links w1 \<noteq> channel_links w"
    and "tokens_age w1 w2" and "handle_onboarding send hash a2 c2 n2 plain w2 = (r2, w3)"
  shows "(\<exists>l t. channel_links w1 = channel_links w @ [l] \<and> cl_external_id l = a1 \<and>
      t \<in> set (link_tokens w1) \<and> lk_hash t = hash plain \<and> cl_user_id l = lk_user_id t) \<and>
    channel_links w3 = channel_links w2"
proof -
  have send: "keeps links_same (send c t p)" for c t p by (rule links_same.outside) (rule assms(1))
  have l: "linked_by (hash plain) a1 w w1" using onboarding_links[OF send assms(2)] assms(3) by blast
  then have "used_up (hash plain) w2" using used_up_stays[OF _ assms(4)] by (auto simp: linked_by_def)
  then have "\<not> linked_by (hash plain) a2 w2 w3" by (simp add: linked_by_def)
  then show ?thesis using onboarding_links[OF send assms(5)] l unfolding linked_by_def by blast
qed

subsection \<open>Answering\<close>

text \<open>The question the user is asked first to answer.\<close>

definition open_question_of :: "uuid \<Rightarrow> world \<Rightarrow> pending_question option" where
  "open_question_of user w = (case sort_key expiry (filter (answerable user (now w)) (questions w)) of
     [] \<Rightarrow> None | q # _ \<Rightarrow> Some q)"

lemma open_question_of_in:
  assumes "open_question_of user w = Some q"
  shows "q \<in> set (questions w)" "q_user_id q = user" "q_status q = QPending"
proof -
  obtain qs where "sort_key expiry (filter (answerable user (now w)) (questions w)) = q # qs"
    using assms by (auto simp: open_question_of_def split: list.splits)
  then have "q \<in> set (filter (answerable user (now w)) (questions w))" by (metis list.set_intros(1) set_sort)
  then show "q \<in> set (questions w)" "q_user_id q = user" "q_status q = QPending"
    by (auto simp: answerable_def)
qed

lemma mark_answered_frame:
  assumes "script w = []"
  shows "messages (snd (mark_answered i u a w)) = messages w \<and> tasks (snd (mark_answered i u a w)) = tasks w \<and>
    token_usage (snd (mark_answered i u a w)) = token_usage w \<and> threads (snd (mark_answered i u a w)) = threads w"
  using assms
  by (simp add: mark_answered_def update_question_def notify_resolved_def bindE_def thenE_def best_effort_def)

text \<open>C33: While a task waits for the user, a message that is no command is its answer, to the letter: the open
  question that expires first is answered with it, the user is told so, and no turn is started: no chat
  message is recorded, no model call is billed and no task is created.\<close>

theorem open_question_takes_message:
  assumes "script w = []" and "key_distinct q_id (questions w)" and "open_question_of user w = Some q"
    and "\<not> starts_with ''/'' (strip content)"
  shows "\<exists>v. handle_inbound s commands send soul user chat content w =
      catchE (send chat (''Got it '' @ [em_dash] @ '' continuing.'') None) (apologize send chat) v \<and>
    question_lookup (q_id q) v = Some (set_answered content (now w) q) \<and>
    messages v = messages w \<and> token_usage v = token_usage w \<and> tasks v = tasks w \<and> threads v = threads w"
proof -
  note q = open_question_of_in[OF assms(3)]
  have found: "question_lookup (q_id q) w = Some q" using assms(2) q(1) by (simp add: key_lookup_in)
  obtain r v where pair: "mark_answered (q_id q) user content w = (r, v)" by fastforce
  have "r = Inr ANSWERED"
    using mark_answered_run(1)[OF assms(1,2), of "q_id q" user content] found q pair by (simp add: cas_outcome_def)
  then have run: "mark_answered (q_id q) user content w = (Inr ANSWERED, v)" using pair by simp
  have v: "question_lookup (q_id q) v = Some (set_answered content (now w) q)"
    using mark_answered_run(2)[OF assms(1,2), of "q_id q" user content] found q pair by simp
  note same = mark_answered_frame[OF assms(1), of "q_id q" user content, unfolded pair snd_conv]
  have "dispatch commands (telegram_inbound user content) = ret None"
    using assms(4) by (simp add: dispatch_def telegram_inbound_def)
  moreover have "get_open_for_user user w = (Inr (Some q), w)"
    using assms(1,3) by (simp add: get_open_for_user_def open_question_of_def)
  ultimately have "respond s commands send soul user chat content w =
      bindE (thenE (send chat (''Got it '' @ [em_dash] @ '' continuing.'') None) (ret True)) (\<lambda>answered.
        if answered then ret () else start_turn s send soul user chat content) v"
    using run by (simp add: respond_def answer_open_question_def bindE_def thenE_def)
  then have "respond s commands send soul user chat content w =
      send chat (''Got it '' @ [em_dash] @ '' continuing.'') None v"
    by (simp add: bindE_def thenE_def split: prod.splits sum.splits)
  then have "handle_inbound s commands send soul user chat content w =
      catchE (send chat (''Got it '' @ [em_dash] @ '' continuing.'') None) (apologize send chat) v"
    by (simp add: handle_inbound_def catchE_def)
  then show ?thesis using v same by blast
qed

subsection \<open>Witnesses\<close>

definition silent_telegram :: tg_send where
  "silent_telegram chat txt mode = ret ()"

definition waiting_question :: pending_question where
  "waiting_question = \<lparr> q_id = Uuid 8, q_task_id = Uuid 3, q_user_id = Uuid 5, q_thread_id = None,
     q_channel = None, q_question = ''which?'', q_options = [], q_urgency = ''normal'', q_status = QPending,
     q_answer = None, q_created_at = 0, q_answered_at = None, q_expires_at = Some 900 \<rparr>"

definition paused_world :: world where
  "paused_world = empty_world\<lparr>questions := [waiting_question],
     link_tokens := [\<lparr> lk_id = Uuid 2, lk_user_id = Uuid 5, lk_channel = ''telegram'', lk_hash = ''tok'',
       lk_expires_at = 900, lk_used_at = None \<rparr>]\<rparr>"

lemma silent_telegram_outside: "outside_only (silent_telegram c t p)"
  unfolding outside_only_def silent_telegram_def
proof
  fix w :: world
  have "snd (ret () w) = (others [] w)\<lparr>now := now w, script := script w\<rparr>" by simp
  then show "\<exists>acts n xs. snd (ret () w) = (others acts w)\<lparr>now := n, script := xs\<rparr> \<and> now w \<le> n \<and>
      (script w = [] \<longrightarrow> acts = [] \<and> xs = [])" by blast
qed

lemma open_question_takes_message_witness:
  "\<exists>v. handle_inbound sample_service [] silent_telegram None (Uuid 5) ''9'' ''the red one'' paused_world =
      catchE (silent_telegram ''9'' (''Got it '' @ [em_dash] @ '' continuing.'') None)
        (apologize silent_telegram ''9'') v \<and>
    question_lookup (Uuid 8) v = Some (set_answered ''the red one'' 0 waiting_question)"
proof -
  have w: "script paused_world = []" "key_distinct q_id (questions paused_world)" "now paused_world = 0"
    by (simp_all add: paused_world_def empty_world_def key_distinct_def)
  have q: "open_question_of (Uuid 5) paused_world = Some waiting_question"
    by (simp add: open_question_of_def paused_world_def empty_world_def answerable_def waiting_question_def)
  have c: "\<not> starts_with ''/'' (strip ''the red one'')" by code_simp
  have i: "q_id waiting_question = Uuid 8" by (simp add: waiting_question_def)
  show ?thesis
    using open_question_takes_message[OF w(1,2) q c, where s = sample_service and commands = "[]" and
        send = silent_telegram and soul = None and chat = "''9''"]
    unfolding i w(3) by blast
qed

lemma link_token_used_once_witness:
  "\<exists>r w1. handle_onboarding silent_telegram id ''77'' ''9'' None ''tok'' paused_world = (r, w1) \<and>
     channel_links w1 \<noteq> [] \<and>
     channel_links (snd (handle_onboarding silent_telegram id ''78'' ''9'' None ''tok'' w1)) = channel_links w1"
proof -
  obtain r w1 where run: "handle_onboarding silent_telegram id ''77'' ''9'' None ''tok'' paused_world = (r, w1)"
    by fastforce
  obtain r2 w3 where again: "handle_onboarding silent_telegram id ''78'' ''9'' None ''tok'' w1 = (r2, w3)"
    by fastforce
  have "channel_links paused_world = []" by (simp add: paused_world_def empty_world_def)
  moreover have "channel_links w1 \<noteq> []"
    using run
    by (auto simp: handle_onboarding_def link_account_def consume_link_token_def create_channel_link_def
        paused_world_def empty_world_def silent_telegram_def bindE_def thenE_def attemptE_def channel_names_def
        Let_def set_token_used_def split: prod.splits sum.splits)
  ultimately show ?thesis
    using link_token_used_once[OF silent_telegram_outside run _ tokens_age.refl again] run again by auto
qed

end
