(* ===== verification/Web_Channel.thy ===== *)
theory Web_Channel
  imports Accounts Router Commands
begin

section \<open>The web channel\<close>

text \<open>
  \<open>src/wolfpaw/channels/web.py\<close>: a turn streamed as server-sent events, the pages of a thread and the
  answer to an open question. The queue between the router's task and the response is the part of \<open>stream\<close>
  that the turn adds; the events of a response are its list, and \<open>sse_event\<close> gives the bytes of each. A
  client that goes away, which cancels the task, is not modelled. Below stands what an \<open>EventSource\<close> of the
  HTML standard makes of such bytes.
\<close>

definition WEB :: pystr where "WEB = ''web''"

definition carriage_return :: char where "carriage_return = CHR 0x0D"

subsection \<open>Server-sent events\<close>

type_synonym sse = "pystr \<times> pystr"

definition sse_text :: "sse \<Rightarrow> pystr" where
  "sse_text e = ''event: '' @ fst e @ [newline] @
     join [newline] (map (\<lambda>l. ''data: '' @ l) (split_on newline (snd e))) @ [newline, newline]"

definition sse_event :: "sse \<Rightarrow> bytes" where
  "sse_event e = utf8_encode (sse_text e)"

subsection \<open>A turn\<close>

definition web_inbound :: "uuid \<Rightarrow> pystr \<Rightarrow> uuid option \<Rightarrow> inbound_message" where
  "web_inbound user content thread = \<lparr> im_user = user, im_content = content, im_channel = WEB,
     im_thread = thread, im_metadata = [] \<rparr>"

definition web_ctx :: "uuid \<Rightarrow> tool_ctx" where
  "web_ctx user = \<lparr> c_user = user, c_task = None, c_trace = None, c_channel = Some WEB, c_emit = True \<rparr>"

text \<open>\<open>_run_router_into_queue\<close>: the items it puts before the sentinel.\<close>

definition run_router :: "service \<Rightarrow> uuid \<Rightarrow> uuid \<Rightarrow> pystr \<Rightarrow> sse list act" where
  "run_router s user thread content w =
     (case router_handle s (web_ctx user) thread content True w of (r, w') \<Rightarrow>
        (Inr (drop (length (stream w)) (stream w') @
           [case r of Inr final \<Rightarrow> (''delta'', final) | Inl e \<Rightarrow> (''error'', ''agent failed: '' @ exn_str e)]), w'))"

definition resolve_web_thread :: "pystr option \<Rightarrow> uuid \<Rightarrow> uuid option \<Rightarrow> uuid act" where
  "resolve_web_thread soul_version user thread = (case thread of
     Some th \<Rightarrow> get_or_create_thread soul_version user WEB (Some th)
   | None \<Rightarrow> bindE (get_most_recent_thread user) (\<lambda>existing. case existing of
       Some th \<Rightarrow> ret th
     | None \<Rightarrow> get_or_create_thread soul_version user WEB None))"

definition web_chat ::
  "service \<Rightarrow> dispatcher \<Rightarrow> pystr option \<Rightarrow> uuid \<Rightarrow> pystr \<Rightarrow> uuid option \<Rightarrow> sse list act" where
  "web_chat s commands soul_version user content thread =
     bindE (dispatch commands (web_inbound user content thread)) (\<lambda>cmd. case cmd of
       Some r \<Rightarrow> ret ((if cr_clear_thread r then [(''reset'', [])] else []) @
                      [(''command'', cr_text r), (''done'', [])])
     | None \<Rightarrow>
         bindE (resolve_web_thread soul_version user thread) (\<lambda>th.
         bindE (run_router s user th content) (\<lambda>items.
         ret ((''thread'', uuid_text th) # items @ [(''done'', [])]))))"

subsection \<open>Pages of a thread\<close>

record messages_response =
  mr_thread :: "uuid option"
  mr_messages :: "message list"
  mr_has_more :: bool

definition requested_thread :: "uuid \<Rightarrow> uuid option \<Rightarrow> uuid option act" where
  "requested_thread user thread = (case thread of
     Some th \<Rightarrow>
       bindE (stmt (getsE (\<lambda>w. sql_first (\<lambda>r. th_id r = th \<and> th_user_id r = user) (threads w)))) (\<lambda>owned.
         case owned of None \<Rightarrow> raise (HTTPException 404 ''no such thread'') | Some _ \<Rightarrow> ret (Some th))
   | None \<Rightarrow> get_most_recent_thread user)"

definition page_limit :: "int \<Rightarrow> nat" where
  "page_limit n = nat (max 1 (min n 100))"

definition messages_page :: "uuid \<Rightarrow> (time \<times> uuid) option \<Rightarrow> nat \<Rightarrow> messages_response act" where
  "messages_page th cursor limit =
     bindE (fetch_page th cursor (limit + 1) (Some [''user'', ''assistant''])) (\<lambda>rows.
       let more = length rows > limit in
       ret \<lparr> mr_thread = Some th, mr_messages = (if more then last_n limit rows else rows), mr_has_more = more \<rparr>)"

definition web_messages ::
  "uuid \<Rightarrow> uuid option \<Rightarrow> time option \<Rightarrow> uuid option \<Rightarrow> int \<Rightarrow> messages_response act" where
  "web_messages user thread before_at before_id limit =
     bindE (requested_thread user thread) (\<lambda>resolved. case resolved of
       None \<Rightarrow> ret \<lparr> mr_thread = None, mr_messages = [], mr_has_more = False \<rparr>
     | Some th \<Rightarrow>
         messages_page th
           (case (before_at, before_id) of (Some t, Some i) \<Rightarrow> Some (t, i) | _ \<Rightarrow> None) (page_limit limit))"

subsection \<open>Answering\<close>

definition web_answer :: "uuid \<Rightarrow> uuid \<Rightarrow> pystr \<Rightarrow> unit act" where
  "web_answer user question_id reply =
     bindE (mark_answered question_id user reply) (\<lambda>outcome. case outcome of
       UNKNOWN \<Rightarrow> raise (HTTPException 404 ''no such pending question'')
     | ALREADY \<Rightarrow> raise (HTTPException 409 ''question already answered'')
     | ANSWERED \<Rightarrow> ret ())"

subsection \<open>The reader of the HTML standard\<close>

text \<open>Lines end at a line feed, a carriage return or both; an event ends at an empty line, a last one without
  it is dropped.\<close>

definition stream_lines :: "pystr \<Rightarrow> pystr list" where
  "stream_lines s = split_on newline
     (map (\<lambda>c. if c = carriage_return then newline else c) (replace [carriage_return, newline] [newline] s))"

definition field_of :: "pystr \<Rightarrow> pystr \<times> pystr" where
  "field_of l = (case cut_at (CHR '':'') l of
     None \<Rightarrow> (l, []) | Some (f, v) \<Rightarrow> (f, if starts_with '' '' v then tl v else v))"

fun read_events :: "pystr \<Rightarrow> pystr list \<Rightarrow> pystr list \<Rightarrow> sse list" where
  "read_events kind ds [] = []"
| "read_events kind ds (l # ls) =
     (if l = []
      then (if ds = [] then [] else [(if kind = [] then ''message'' else kind, join [newline] ds)]) @
        read_events [] [] ls
      else case field_of l of (f, v) \<Rightarrow>
        if f = ''event'' then read_events v ds ls
        else if f = ''data'' then read_events kind (ds @ [v]) ls
        else read_events kind ds ls)"

definition event_source :: "bytes \<Rightarrow> sse list option" where
  "event_source bs = map_option (\<lambda>s. read_events [] [] (stream_lines s)) (utf8_decode bs)"

end
