(* ===== verification/Web_Props.thy ===== *)
theory Web_Props
  imports Web_Channel Account_Props
begin

section \<open>What the web channel guarantees\<close>

text \<open>
  Theorems about \<open>Web_Channel\<close>: the browser reads exactly the events that were sent, unless one contains a
  carriage return; a page shows messages of an own thread only and at most a hundred.
\<close>

subsection \<open>Events arrive\<close>

definition clean :: "pystr \<Rightarrow> bool" where
  "clean s \<longleftrightarrow> carriage_return \<notin> set s"

definition event_name :: "pystr \<Rightarrow> bool" where
  "event_name s \<longleftrightarrow> s \<noteq> [] \<and> newline \<notin> set s \<and> clean s"

lemma newline_cr: "newline \<noteq> carriage_return" by (simp add: newline_def carriage_return_def)

lemma replace_no_cr: "clean s \<Longrightarrow> replace (carriage_return # old) new s = s"
  by (induction s) (auto simp: clean_def starts_with_def)

lemma stream_lines_clean: assumes "clean s" shows "stream_lines s = split_on newline s"
proof -
  have "map (\<lambda>c. if c = carriage_return then newline else c) s = s"
    by (rule map_idI) (use assms in \<open>auto simp: clean_def\<close>)
  then show ?thesis unfolding stream_lines_def by (simp add: replace_no_cr assms)
qed

lemma split_on_join:
  "ls \<noteq> [] \<Longrightarrow> \<forall>l\<in>set ls. sep \<notin> set l \<Longrightarrow> split_on sep (join [sep] ls @ sep # t) = ls @ split_on sep t"
  by (induction "[sep]" ls rule: join.induct) (simp_all add: split_on_app)

lemma split_on_sound:
  "split_on sep s \<noteq> [] \<and> (\<forall>l\<in>set (split_on sep s). sep \<notin> set l) \<and> join [sep] (split_on sep s) = s"
proof (induction s)
  case (Cons c s)
  then obtain l ls where s: "split_on sep s = l # ls" by (cases "split_on sep s") auto
  show ?case using Cons s by (cases ls) auto
qed simp

lemma join_clean: "clean (join [newline] ls) \<longleftrightarrow> (\<forall>l\<in>set ls. clean l)"
  using newline_cr by (induction "[newline]" ls rule: join.induct) (auto simp: clean_def)

lemma read_data:
  "ls \<noteq> [] \<or> ds \<noteq> [] \<Longrightarrow> kind \<noteq> [] \<Longrightarrow>
   read_events kind ds (map (\<lambda>l. ''data: '' @ l) ls @ [] # rest) = (kind, join [newline] (ds @ ls)) # read_events [] [] rest"
proof (induction ls arbitrary: ds)
  case (Cons l ls)
  have "field_of (''data: '' @ l) = (''data'', l)" by (simp add: field_of_def cut_at_def starts_with_def)
  then show ?case using Cons.IH[of "ds @ [l]"] Cons.prems by simp
qed simp

lemma read_one:
  assumes "event_name (fst e)"
  shows "read_events [] [] (split_on newline (sse_text e @ t)) = e # read_events [] [] (split_on newline t)"
proof -
  let ?ls = "split_on newline (snd e)"
  have ls: "?ls \<noteq> []" "\<forall>l\<in>set ?ls. newline \<notin> set l" "join [newline] ?ls = snd e"
    using split_on_sound by blast+
  have head: "newline \<notin> set (''event: '' @ fst e)" using assms by (simp add: event_name_def newline_def)
  have data: "split_on newline (join [newline] (map (\<lambda>l. ''data: '' @ l) ?ls) @ newline # newline # t) =
      map (\<lambda>l. ''data: '' @ l) ?ls @ [] # split_on newline t"
    using split_on_join[of "map (\<lambda>l. ''data: '' @ l) ?ls" newline "newline # t"] ls(1,2)
    by (auto simp: newline_def)
  have "split_on newline (sse_text e @ t) = (''event: '' @ fst e) # map (\<lambda>l. ''data: '' @ l) ?ls @ [] # split_on newline t"
    using split_on_app[OF head] data by (simp add: sse_text_def)
  moreover have "field_of (''event: '' @ fst e) = (''event'', fst e)"
    by (simp add: field_of_def cut_at_def starts_with_def)
  ultimately show ?thesis using read_data[of ?ls "[]" "fst e"] ls assms by (simp add: event_name_def)
qed

lemma read_all:
  "\<forall>e\<in>set es. event_name (fst e) \<Longrightarrow> read_events [] [] (split_on newline (concat (map sse_text es))) = es"
  by (induction es) (simp_all add: read_one)

lemma sse_clean: "event_name (fst e) \<Longrightarrow> clean (snd e) \<Longrightarrow> clean (sse_text e)"
proof -
  assume a: "event_name (fst e)" "clean (snd e)"
  have "\<forall>l\<in>set (split_on newline (snd e)). clean l"
    using a(2) split_on_sound[of newline "snd e"] join_clean by metis
  then have "clean (join [newline] (map (\<lambda>l. ''data: '' @ l) (split_on newline (snd e))))"
    unfolding join_clean by (auto simp: clean_def carriage_return_def)
  then show ?thesis using a newline_cr
    by (auto simp: sse_text_def clean_def event_name_def carriage_return_def)
qed

lemma encode_all: "concat (map sse_event es) = utf8_encode (concat (map sse_text es))"
  by (induction es) (simp_all add: sse_event_def utf8_encode_def)

text \<open>C39: The browser receives the events of a response exactly as they were sent, in order, line breaks
  included, if no name or text in them contains a carriage return.\<close>

theorem events_arrive:
  assumes "\<forall>e\<in>set es. event_name (fst e) \<and> clean (snd e)"
  shows "event_source (concat (map sse_event es)) = Some es"
proof -
  have "\<forall>s\<in>set (map sse_text es). clean s" using assms sse_clean by auto
  then have "clean (concat (map sse_text es))" by (auto simp: clean_def)
  then show ?thesis
    using read_all[of es] assms by (simp add: event_source_def encode_all stream_lines_clean)
qed

text \<open>With one, a text can end its line early and forge the kind of its event.\<close>

lemma carriage_return_forges:
  "event_source (sse_event (''delta'', ''a'' @ [carriage_return] @ ''event: error'')) = Some [(''error'', ''a'')]"
  by code_simp

subsection \<open>Responses\<close>

lemma chat_ends_done:
  assumes "web_chat s commands soul user content thread w = (Inr es, w')"
  shows "last es = (''done'', [])"
  using assms
  by (auto simp: web_chat_def bindE_def ret_def split: sum.splits option.splits prod.splits)

lemma last_n_length: "length (last_n n xs) \<le> n"
  by (simp add: last_n_def)

lemma requested_own:
  assumes "requested_thread user thread w = (Inr (Some th), w')"
  shows "near w w' \<and> (\<exists>t\<in>set (threads w). th_id t = th \<and> th_user_id t = user)"
proof (cases thread)
  case (Some th')
  from assms[unfolded requested_thread_def Some option.case] show ?thesis
  proof (cases rule: read_cases)
    case (run v)
    show ?thesis
    proof (cases "sql_first (\<lambda>r. th_id r = th' \<and> th_user_id r = user) (threads v)")
      case None
      then show ?thesis using run(2) unfolding None option.case by (simp add: raise_def)
    next
      case (Some t)
      have e: "th' = th" "w' = v" using run(2) unfolding Some option.case by (simp_all add: ret_def)
      have "t \<in> set (threads w)" "th_id t = th" "th_user_id t = user"
        using sql_first_SomeD[OF Some] near_frame[OF run(1)] e(1) by simp_all
      then show ?thesis using run(1) e(2) by blast
    qed
  qed simp
next
  case None
  from assms[unfolded requested_thread_def None option.case get_most_recent_thread_def] show ?thesis
  proof (cases rule: stmt_cases)
    case (run v)
    let ?mine = "sort_key (\<lambda>r. - th_created_at r) (filter (\<lambda>r. th_user_id r = user) (threads v))"
    have found: "(case ?mine of [] \<Rightarrow> None | r # _ \<Rightarrow> Some (th_id r)) = Some th" "w' = v"
      using run(2) unfolding getsE_def by (metis Pair_inject sum.inject(2))+
    obtain t ts where t: "?mine = t # ts" "th_id t = th"
      using found(1) by (cases ?mine) (simp_all only: list.case option.distinct option.inject)
    have "t \<in> set (filter (\<lambda>r. th_user_id r = user) (threads v))"
      using t(1) by (metis list.set_intros(1) set_sort)
    then have "t \<in> set (threads w)" "th_user_id t = user" using near_frame[OF run(1)] by simp_all
    then show ?thesis using t(2) run(1) found(2) by blast
  qed simp
qed

text \<open>C40: A page of messages comes from a thread of the user who asks, holds only messages of the user and the
  assistant in that thread, and at most a hundred of them, however many are asked for.\<close>

theorem page_shows_own_messages:
  assumes "web_messages user thread before_at before_id limit w = (Inr p, w')" and "m \<in> set (mr_messages p)"
  shows "(\<exists>t\<in>set (threads w). th_user_id t = user \<and> m_thread_id m = th_id t \<and> mr_thread p = Some (th_id t)) \<and>
    m \<in> set (messages w) \<and> m_role m \<in> {''user'', ''assistant''} \<and> length (mr_messages p) \<le> 100"
proof -
  obtain resolved w1 where first: "requested_thread user thread w = (Inr resolved, w1)"
    using assms(1) by (auto simp: web_messages_def bindE_def split: prod.splits sum.splits)
  obtain th where th: "resolved = Some th"
    using assms first by (cases resolved) (auto simp: web_messages_def bindE_def ret_def)
  define cursor where "cursor = (case (before_at, before_id) of (Some t, Some i) \<Rightarrow> Some (t, i) | _ \<Rightarrow> None)"
  have own: "near w w1" "\<exists>t\<in>set (threads w). th_id t = th \<and> th_user_id t = user"
    using requested_own first th by blast+
  have "messages_page th cursor (page_limit limit) w1 = (Inr p, w')"
    using assms(1) first th by (simp add: web_messages_def bindE_def cursor_def)
  then have page: "bindE (stmt (getsE (\<lambda>w. page_of cursor (page_limit limit + 1) (Some [''user'', ''assistant''])
      (history th (messages w))))) (\<lambda>rows. let more = length rows > page_limit limit in
       ret \<lparr> mr_thread = Some th, mr_messages = (if more then last_n (page_limit limit) rows else rows),
             mr_has_more = more \<rparr>) w1 = (Inr p, w')"
    by (simp add: messages_page_def fetch_page_def)
  have lim: "page_limit limit \<le> 100" by (simp add: page_limit_def)
  from page show ?thesis
  proof (cases rule: read_cases)
    case (run v)
    let ?rows = "page_of cursor (page_limit limit + 1) (Some [''user'', ''assistant'']) (history th (messages v))"
    have p: "mr_thread p = Some th" "set (mr_messages p) \<subseteq> set ?rows" "length (mr_messages p) \<le> page_limit limit"
      using run(2) last_n_set[of "page_limit limit" ?rows] last_n_length[of "page_limit limit" ?rows] by (auto simp: Let_def ret_def split: if_splits)
    have "m \<in> set ?rows" using assms(2) p(2) by blast
    then have "m \<in> set (history th (messages v))" "m_role m \<in> {''user'', ''assistant''}"
      unfolding page_of_def using last_n_set by fastforce+
    moreover have "messages v = messages w" using near_frame[OF run(1)] near_frame[OF own(1)] by simp
    ultimately show ?thesis using own(2) p lim by (auto simp: history_def in_thread_def)
  qed simp
qed

lemma page_shows_own_messages_witness:
  "\<exists>w1 p. web_messages (Uuid 5) None None None 1000 (empty_world\<lparr>
      threads := [\<lparr> th_id = Uuid 2, th_user_id = Uuid 5, th_channel = ''web'', th_soul_version = None,
        th_profile_version = None, th_created_at = 0 \<rparr>],
      messages := [\<lparr> m_id = Uuid 3, m_thread_id = Uuid 2, m_role = ''user'', m_content = ''hi'', m_metadata = [],
        m_created_at = 1 \<rparr>]\<rparr>) = (Inr p, w1) \<and> length (mr_messages p) = 1 \<and> mr_thread p = Some (Uuid 2)"
  (is "\<exists>w1 p. ?run = _ \<and> _ \<and> _")
proof -
  obtain w1 p m where run: "?run = (Inr p, w1)" and p: "mr_messages p = [m]"
    by (simp add: web_messages_def requested_thread_def get_most_recent_thread_def empty_world_def bindE_def
        messages_page_def fetch_page_def page_of_def history_def in_thread_def page_limit_def last_n_def Let_def)
  show ?thesis using page_shows_own_messages[OF run, of m] run p by (auto simp: empty_world_def)
qed

lemma events_arrive_witness:
  "event_source (concat (map sse_event [(''thread'', ''1''), (''delta'', ''a'' @ [newline] @ ''b''), (''done'', [])])) =
     Some [(''thread'', ''1''), (''delta'', ''a'' @ [newline] @ ''b''), (''done'', [])]"
  by (rule events_arrive) (simp add: event_name_def clean_def newline_def carriage_return_def)

end
