(* ===== verification/Persona.thy ===== *)
theory Persona
  imports Accounts
begin

section \<open>Persona: the system prompt of an agent\<close>

text \<open>
  \<open>src/wolfpaw/persona/\<close>: the Soul file (\<open>soul.py\<close>), the user's profile (\<open>user_profile.py\<close>), the prompt
  assembled from both (\<open>builder.py\<close>) and the routes of the profile (\<open>routes.py\<close>). The file system and the
  content hash are parameters of the loader; the time formats of the standard library are the record
  \<open>clock_format\<close>, whose \<open>cf_local\<close> is \<open>None\<close> for a zone the zone database does not know. The process-wide
  caches are passed as values; the cache's clock is the clock of the world.
\<close>

subsection \<open>The Soul file\<close>

record soul =
  so_content :: pystr
  so_version :: pystr
  so_source :: pystr

definition load_soul :: "token_hash \<Rightarrow> (pystr \<Rightarrow> pystr option) \<Rightarrow> pystr \<Rightarrow> pystr \<Rightarrow> exn + soul" where
  "load_soul hash read_file default_path soul_path =
     (let path = (if soul_path = [] then default_path else soul_path) in
      case read_file path of
        None \<Rightarrow> Inl (FileNotFoundError (''soul file not found at '' @ path))
      | Some content \<Rightarrow> Inr \<lparr> so_content = content, so_version = take 12 (hash content), so_source = path \<rparr>)"

definition get_soul :: "exn + soul \<Rightarrow> soul option \<Rightarrow> (exn + soul) \<times> soul option" where
  "get_soul loaded cached = (case cached of
     Some s \<Rightarrow> (Inr s, cached)
   | None \<Rightarrow> (case loaded of Inl e \<Rightarrow> (Inl e, None) | Inr s \<Rightarrow> (Inr s, Some s)))"

subsection \<open>The profile\<close>

definition default_profile :: user_profile where
  "default_profile = \<lparr> up_user_id = Uuid 0, up_version = 0, up_persona = [], up_preferences = [],
     up_timezone = ''UTC'', up_updated_at = 0 \<rparr>"

definition row_to_profile :: "user_profile \<Rightarrow> user_profile" where
  "row_to_profile r = r\<lparr>up_timezone := (if up_timezone r = [] then ''UTC'' else up_timezone r)\<rparr>"

definition profile_get :: "uuid \<Rightarrow> user_profile option act" where
  "profile_get user = stmt (getsE (\<lambda>w. map_option row_to_profile (key_lookup up_user_id user (profiles w))))"

definition patched :: "pystr option \<Rightarrow> dict option \<Rightarrow> pystr option \<Rightarrow> time \<Rightarrow> user_profile \<Rightarrow> user_profile" where
  "patched persona preferences tz at r = r\<lparr>up_version := up_version r + 1, up_updated_at := at,
     up_persona := (case persona of None \<Rightarrow> up_persona r | Some s \<Rightarrow> s),
     up_preferences := (case preferences of None \<Rightarrow> up_preferences r | Some d \<Rightarrow> d),
     up_timezone := (case tz of None \<Rightarrow> up_timezone r | Some z \<Rightarrow> z)\<rparr>"

text \<open>\<open>LookupError\<close> is the \<open>None\<close> of this update.\<close>

definition profile_update ::
  "uuid \<Rightarrow> pystr option \<Rightarrow> dict option \<Rightarrow> pystr option \<Rightarrow> user_profile option act" where
  "profile_update user persona preferences tz = stmt (\<lambda>w.
     let w' = w\<lparr>profiles := sql_set (\<lambda>r. up_user_id r = user) (patched persona preferences tz (now w)) (profiles w)\<rparr>
     in (Inr (map_option row_to_profile (key_lookup up_user_id user (profiles w'))), w'))"

subsection \<open>The cache of profiles\<close>

definition PROFILE_TTL :: time where "PROFILE_TTL = 30 * second"

type_synonym profile_cache = "(uuid \<times> (user_profile \<times> time)) list"

definition invalidate_profile :: "uuid \<Rightarrow> profile_cache \<Rightarrow> profile_cache" where
  "invalidate_profile user c = AList.delete user c"

definition cached_profile :: "time \<Rightarrow> uuid \<Rightarrow> profile_cache \<Rightarrow> user_profile option" where
  "cached_profile at user c = (case map_of c user of
     None \<Rightarrow> None | Some (p, expires) \<Rightarrow> if expires > at then Some p else None)"

definition store_profile :: "time \<Rightarrow> uuid \<Rightarrow> user_profile option \<Rightarrow> profile_cache \<Rightarrow> user_profile \<times> profile_cache" where
  "store_profile at user loaded c =
     (let p = (case loaded of None \<Rightarrow> default_profile | Some p \<Rightarrow> p)
      in (p, AList.update user (p, at + PROFILE_TTL) c))"

definition load_profile_cached :: "uuid \<Rightarrow> profile_cache \<Rightarrow> (user_profile \<times> profile_cache) act" where
  "load_profile_cached user c =
     bindE (getsE now) (\<lambda>at. case cached_profile at user c of
       Some p \<Rightarrow> ret (p, c)
     | None \<Rightarrow> bindE (profile_get user) (\<lambda>loaded. ret (store_profile at user loaded c)))"

subsection \<open>The prompt\<close>

record clock_format =
  cf_local :: "pystr \<Rightarrow> time \<Rightarrow> pystr option"
  cf_utc_minute :: "time \<Rightarrow> pystr"
  cf_utc_iso :: "time \<Rightarrow> pystr"

definition CHAT_HISTORY_GUIDANCE :: pystr where
  "CHAT_HISTORY_GUIDANCE = lines_of
    [''# Conversation history '' @ [em_dash] @ '' what it's for'',
     [],
     ''The recent messages and thread summaries are **conversational context**: use them to '' @
     ''resolve references ('' @ [dquote] @ ''it'' @ [dquote] @ '', '' @ [dquote] @ ''that one'' @ [dquote] @ '', '' @
     [dquote] @ ''do it again'' @ [dquote] @ ''), maintain continuity, and '' @
     ''understand what the user is talking about. They are **not** a guide for *how* to '' @
     ''perform a task. Do not treat a past turn as a template or instruction for execution, '' @
     ''and do not repeat a past action just because it appears earlier in the thread. Your '' @
     ''own previous messages are not authoritative '' @ [em_dash] @ '' they may contain mistakes; never assume '' @
     ''you did something because an earlier turn says you did. Decide how to act from the '' @
     ''user's current request and your available tools (and any retrieved skills/plans), not '' @
     ''by imitating prior turns.'']"

definition format_preferences :: "dict \<Rightarrow> pystr" where
  "format_preferences d =
     (if d = [] then []
      else lines_of (''Structured preferences:'' #
        map (\<lambda>(k, v). ''- '' @ k @ '': '' @ json_str v) (sort_key (\<lambda>(k, v). map unicode_point k) d)))"

definition format_now :: "clock_format \<Rightarrow> user_profile \<Rightarrow> time \<Rightarrow> pystr" where
  "format_now cf p at =
     (let name = (if up_timezone p = [] then ''UTC'' else up_timezone p);
          (local_time, zone) = (case cf_local cf name at of
             Some s \<Rightarrow> (s, name) | None \<Rightarrow> (cf_utc_minute cf at, ''UTC''))
      in ''Current time: '' @ local_time @ '' ('' @ zone @ ''); '' @ cf_utc_iso cf at @ '' UTC.'')"

definition profile_extras :: "clock_format \<Rightarrow> user_profile \<Rightarrow> time option \<Rightarrow> pystr list" where
  "profile_extras cf p at =
     (case at of None \<Rightarrow> [] | Some t \<Rightarrow> [format_now cf p t]) @
     (if up_timezone p \<noteq> [] \<and> up_timezone p \<noteq> ''UTC'' then [''Timezone: '' @ up_timezone p] else []) @
     (if up_preferences p = [] then [] else [format_preferences (up_preferences p)])"

definition format_user_block :: "clock_format \<Rightarrow> user_profile \<Rightarrow> time option \<Rightarrow> pystr" where
  "format_user_block cf p at = lines_of
     ([''# The user you're working with'',
       if strip (up_persona p) = [] then ''(this user hasn't filled in their User File yet)''
       else strip (up_persona p)] @
      (let extras = profile_extras cf p at in
       if extras = [] then [] else [[], join [newline, newline] extras]))"

definition format_soul_block :: "soul option \<Rightarrow> pystr" where
  "format_soul_block s = (case s of
     None \<Rightarrow> []
   | Some x \<Rightarrow> if strip (so_content x) = [] then []
       else ''# Wolfpaw '' @ [em_dash] @ '' Soul File'' @ [newline, newline] @ strip (so_content x))"

definition separator :: pystr where
  "separator = [newline, newline] @ ''---'' @ [newline, newline]"

definition role_block :: "pystr \<Rightarrow> pystr" where
  "role_block role = ''# Your role'' @ [newline, newline] @ strip role"

definition build_system_prompt ::
  "clock_format \<Rightarrow> soul option \<Rightarrow> user_profile \<Rightarrow> pystr \<Rightarrow> time option \<Rightarrow> pystr" where
  "build_system_prompt cf s p role at = join separator
     ((if format_soul_block s = [] then [] else [format_soul_block s]) @
      [format_user_block cf p at, CHAT_HISTORY_GUIDANCE, role_block role])"

record prompt_caches =
  pc_soul :: "soul option"
  pc_profiles :: profile_cache

definition build_for_agent ::
  "clock_format \<Rightarrow> exn + soul \<Rightarrow> uuid \<Rightarrow> pystr \<Rightarrow> prompt_caches \<Rightarrow> (pystr \<times> prompt_caches) act" where
  "build_for_agent cf loaded user role pc =
     (case get_soul loaded (pc_soul pc) of (s, soul_cache) \<Rightarrow>
        bindE (attemptE (load_profile_cached user (pc_profiles pc))) (\<lambda>r.
        bindE (getsE now) (\<lambda>at.
          let (p, c) = (case r of Inr x \<Rightarrow> x | Inl _ \<Rightarrow> (default_profile, pc_profiles pc));
              known = (case s of Inr x \<Rightarrow> Some x | Inl _ \<Rightarrow> None)
          in ret (build_system_prompt cf known p role (Some at),
                  \<lparr> pc_soul = soul_cache, pc_profiles = c \<rparr>))))"

subsection \<open>Routes\<close>

definition profile_response :: "(time \<Rightarrow> pystr) \<Rightarrow> user_profile \<Rightarrow> dict" where
  "profile_response isoformat p =
     [(''user_id'', JStr (uuid_text (up_user_id p))), (''version'', JInt (up_version p)),
      (''persona_md'', JStr (up_persona p)), (''preferences'', JObj (up_preferences p)),
      (''timezone'', JStr (up_timezone p)), (''updated_at'', JStr (isoformat (up_updated_at p)))]"

definition get_profile_route :: "(time \<Rightarrow> pystr) \<Rightarrow> uuid \<Rightarrow> dict act" where
  "get_profile_route isoformat user = bindE (profile_get user) (\<lambda>p. case p of
     None \<Rightarrow> ret [(''user_id'', JStr (uuid_text user)), (''version'', JInt 0), (''persona_md'', JStr []),
       (''preferences'', JObj []), (''timezone'', JStr ''UTC''), (''updated_at'', JNull)]
   | Some row \<Rightarrow> ret (profile_response isoformat row))"

definition patch_profile_route ::
  "(time \<Rightarrow> pystr) \<Rightarrow> uuid \<Rightarrow> pystr option \<Rightarrow> dict option \<Rightarrow> pystr option \<Rightarrow> profile_cache \<Rightarrow>
   (dict \<times> profile_cache) act" where
  "patch_profile_route isoformat user persona preferences tz c =
     (if persona = None \<and> preferences = None \<and> tz = None
      then raise (HTTPException 400 (''PATCH body must include at least one of: persona_md,'' @
                                    '' preferences, timezone''))
      else bindE (profile_update user persona preferences tz) (\<lambda>p. case p of
        None \<Rightarrow> raise (HTTPException 404 (''no user_profile row '' @ [em_dash] @ '' sign in again to seed one''))
      | Some row \<Rightarrow> ret (profile_response isoformat row, invalidate_profile user c)))"

subsection \<open>What a prompt holds\<close>

lemma join_last: "\<exists>front. join sep (xs @ [x]) = front @ x"
proof (induction xs)
  case (Cons y ys)
  then obtain front where "join sep (ys @ [x]) = front @ x" by blast
  then show ?case by (cases ys) (auto intro: exI[of _ "y @ sep @ front"])
qed simp

text \<open>An agent always gets a prompt, and it ends with the agent's role, whatever fails.\<close>

lemma prompt_always_built:
  "\<exists>front pc' w'. build_for_agent cf loaded user role pc w = (Inr (front @ role_block role, pc'), w')"
proof -
  have ends: "\<exists>front. build_system_prompt cf s p role at = front @ role_block role" for s p at
    unfolding build_system_prompt_def
    using join_last[of separator "(if format_soul_block s = [] then [] else [format_soul_block s]) @
      [format_user_block cf p at, CHAT_HISTORY_GUIDANCE]" "role_block role"] by simp
  show ?thesis
    unfolding build_for_agent_def bindE_def attemptE_def
    using ends by (fastforce simp: Let_def split: prod.splits sum.splits)
qed

text \<open>Every entry of the cache is the user's own profile, or the default one, and expires within half a
  minute.\<close>

definition profiles_cached_ok :: "time \<Rightarrow> profile_cache \<Rightarrow> bool" where
  "profiles_cached_ok at c \<longleftrightarrow> (\<forall>u p e. map_of c u = Some (p, e) \<longrightarrow>
     (up_user_id p = u \<or> p = default_profile) \<and> e \<le> at + PROFILE_TTL)"

lemma load_profile_own:
  assumes "load_profile_cached user c w = (Inr (p, c'), w')" and "profiles_cached_ok (now w) c"
  shows "(up_user_id p = user \<or> p = default_profile) \<and> profiles_cached_ok (now w) c'"
proof (cases "cached_profile (now w) user c")
  case (Some q)
  then have e: "p = q" "c' = c" using assms(1) by (simp_all add: load_profile_cached_def bindE_def)
  obtain expires where "map_of c user = Some (q, expires)"
    using Some by (auto simp: cached_profile_def split: option.splits if_splits)
  then show ?thesis using assms(2) unfolding profiles_cached_ok_def e by blast
next
  case None
  then obtain loaded where l: "profile_get user w = (Inr loaded, w')"
    and s: "store_profile (now w) user loaded c = (p, c')"
    using assms(1) by (auto simp: load_profile_cached_def bindE_def split: sum.splits prod.splits)
  have own: "up_user_id p = user \<or> p = default_profile"
  proof (cases loaded)
    case (Some q)
    have "up_user_id q = user"
      using l[unfolded profile_get_def] unfolding Some
      by (cases rule: stmt_cases) (auto simp: row_to_profile_def dest!: key_lookup_SomeD)
    then show ?thesis using s Some by (simp add: store_profile_def Let_def)
  qed (use s in \<open>simp add: store_profile_def Let_def\<close>)
  have c': "c' = AList.update user (p, now w + PROFILE_TTL) c"
    using s by (auto simp: store_profile_def Let_def)
  have "profiles_cached_ok (now w) c'"
    unfolding profiles_cached_ok_def c' update_conv using own assms(2)[unfolded profiles_cached_ok_def] by auto
  then show ?thesis using own by blast
qed

text \<open>A patch raises the version of the own row by one and leaves the rows of others alone.\<close>

interpretation profile_row: row_update up_user_id "patched persona preferences tz at" for persona preferences tz at
  by unfold_locales (simp add: patched_def)

lemma patch_own_row:
  assumes "profile_update user persona preferences tz w = (Inr (Some p), w')"
  shows "\<exists>r. key_lookup up_user_id user (profiles w) = Some r \<and> up_version p = up_version r + 1 \<and>
    (\<forall>v. v \<noteq> user \<longrightarrow> key_lookup up_user_id v (profiles w') = key_lookup up_user_id v (profiles w))"
  using assms[unfolded profile_update_def Let_def]
proof (cases rule: stmt_cases)
  case (run v)
  have same: "profiles v = profiles w" using near_frame[OF run(1)] by simp
  obtain r where r: "key_lookup up_user_id user (profiles w) = Some r"
    using run(2) same by (auto simp: profile_row.lookup_set)
  have "p = row_to_profile (patched persona preferences tz (now v) r)"
    using run(2) key_lookup_SomeD[OF r] by (simp add: profile_row.lookup_set same r)
  moreover have "key_lookup up_user_id x (profiles w') = key_lookup up_user_id x (profiles w)" if "x \<noteq> user" for x
    using run(2) profile_row.lookup_set_other[OF that, of "\<lambda>_. True"] same by auto
  ultimately show ?thesis using r by (simp add: row_to_profile_def patched_def)
qed simp

text \<open>A load that is under way when the profile is patched puts the old row back: the invalidation comes
  before the entry it should remove, and the old profile is served until it expires.\<close>

lemma stale_after_patch:
  assumes "script w = []" and "key_lookup up_user_id user (profiles w) = Some r"
  shows "profile_get user w = (Inr (Some (row_to_profile r)), w) \<and>
    (\<exists>d w1. patch_profile_route isoformat user (Some persona) None None c w = (Inr (d, invalidate_profile user c), w1) \<and>
      cached_profile (now w) user
        (snd (store_profile (now w) user (Some (row_to_profile r)) (invalidate_profile user c))) =
        Some (row_to_profile r))"
proof -
  have "key_lookup up_user_id user
      (sql_set (\<lambda>r. up_user_id r = user) (patched (Some persona) None None (now w)) (profiles w)) =
    Some (patched (Some persona) None None (now w) r)"
    using key_lookup_SomeD[OF assms(2)] by (simp add: profile_row.lookup_set assms(2))
  then show ?thesis
    using assms
    by (simp add: profile_get_def patch_profile_route_def profile_update_def Let_def bindE_def cached_profile_def
        store_profile_def update_conv PROFILE_TTL_def second_def)
qed

end
