(* ===== verification/Task_Routes.thy ===== *)
theory Task_Routes
  imports Accounts Commands Schedule_Tools Task_Service
begin

section \<open>Routes of tasks and schedules, and the job of a task\<close>

text \<open>
  \<open>src/wolfpaw/tasks/routes.py\<close>, \<open>src/wolfpaw/schedules/routes.py\<close> and \<open>workers/jobs/run_task.py\<close>: what the web
  app reads of tasks and schedules, cancelling a task, and the job that runs one. \<open>isoformat\<close> is a
  parameter. A user is the one the session gave (\<open>Accounts\<close>).
\<close>

definition opt_time :: "(time \<Rightarrow> pystr) \<Rightarrow> time option \<Rightarrow> json" where
  "opt_time isoformat t = opt_str (map_option isoformat t)"

definition opt_uuid :: "uuid option \<Rightarrow> json" where
  "opt_uuid u = opt_str (map_option uuid_text u)"

definition opt_num :: "int option \<Rightarrow> json" where
  "opt_num n = (case n of None \<Rightarrow> JNull | Some i \<Rightarrow> JInt i)"

subsection \<open>Tasks\<close>

definition task_response :: "(time \<Rightarrow> pystr) \<Rightarrow> task \<Rightarrow> dict" where
  "task_response isoformat t =
     [(''id'', JStr (uuid_text (t_id t))), (''title'', JStr (t_title t)),
      (''description'', opt_str (t_description t)), (''status'', JStr (status_text (t_status t))),
      (''current_plan_id'', opt_uuid (t_current_plan_id t)), (''spent_cents'', JInt (t_spent_cents t)),
      (''budget_cents'', opt_num (t_budget_cents t)), (''blocking_reason'', opt_str (t_blocking_reason t)),
      (''parent_task_id'', opt_uuid (t_parent_task_id t)), (''created_at'', JStr (isoformat (t_created_at t))),
      (''started_at'', opt_time isoformat (t_started_at t)), (''completed_at'', opt_time isoformat (t_completed_at t)),
      (''last_active_at'', opt_time isoformat (t_last_active_at t))]"

definition task_event_response :: "(time \<Rightarrow> pystr) \<Rightarrow> task_event \<Rightarrow> json" where
  "task_event_response isoformat e = JObj
     [(''id'', JStr (uuid_text (e_id e))), (''event_type'', JStr (e_event_type e)),
      (''content'', JObj (e_content e)), (''created_at'', JStr (isoformat (e_created_at e)))]"

definition route_limit :: "int \<Rightarrow> nat" where
  "route_limit n = nat (max 1 (min 200 n))"

definition list_tasks_route :: "(time \<Rightarrow> pystr) \<Rightarrow> uuid \<Rightarrow> int \<Rightarrow> dict act" where
  "list_tasks_route isoformat user limit =
     bindE (list_tasks_for_user user [] (route_limit limit)) (\<lambda>rows.
       ret [(''tasks'', JArr (map (\<lambda>t. JObj (task_response isoformat t)) rows))])"

definition EVENTS_LIMIT :: nat where "EVENTS_LIMIT = 100"

definition get_task_route :: "(time \<Rightarrow> pystr) \<Rightarrow> uuid \<Rightarrow> uuid \<Rightarrow> dict act" where
  "get_task_route isoformat user tid =
     bindE (get_task_by_id user tid) (\<lambda>t. case t of
       None \<Rightarrow> raise (HTTPException 404 ''task not found'')
     | Some row \<Rightarrow>
         bindE (fetch_events_for_task tid EVENTS_LIMIT) (\<lambda>events.
         ret [(''task'', JObj (task_response isoformat row)),
              (''events'', JArr (map (task_event_response isoformat) events))]))"

definition refuse_cancel :: "uuid \<Rightarrow> uuid \<Rightarrow> dict act" where
  "refuse_cancel user tid =
     bindE (get_task_by_id user tid) (\<lambda>existing. case existing of
       None \<Rightarrow> raise (HTTPException 404 ''task not found'')
     | Some t \<Rightarrow> raise (HTTPException 409 (''task is already '' @ status_text (t_status t))))"

definition cancel_task_route :: "(time \<Rightarrow> pystr) \<Rightarrow> uuid \<Rightarrow> uuid \<Rightarrow> dict act" where
  "cancel_task_route isoformat user tid =
     bindE (task_cancel user tid) (\<lambda>cancelled. case cancelled of
       None \<Rightarrow> refuse_cancel user tid
     | Some _ \<Rightarrow>
         bindE (append_event (Some tid) ''status.cancelled'' [(''by'', JStr ''user'')]) (\<lambda>_.
         bindE (rollup_spent_cents tid) (\<lambda>_.
         bindE (get_task_by_id user tid) (\<lambda>t. case t of
           Some row \<Rightarrow> ret (task_response isoformat row)
         | None \<Rightarrow> refuse_cancel user tid))))"

text \<open>The job; its task is passed as text.\<close>

definition run_task_job :: "service \<Rightarrow> pystr \<Rightarrow> unit act" where
  "run_task_job s tid = (case parse_uuid tid of
     None \<Rightarrow> raise (ValueError ''badly formed hexadecimal UUID string'')
   | Some i \<Rightarrow> thenE (service_run s i False) (ret ()))"

subsection \<open>Schedules\<close>

definition humanize_interval :: "int \<Rightarrow> pystr" where
  "humanize_interval n =
     (if n mod 86400 = 0 then ''every '' @ show_int (n div 86400) @ ''d''
      else if n mod 3600 = 0 then ''every '' @ show_int (n div 3600) @ ''h''
      else if n mod 60 = 0 then ''every '' @ show_int (n div 60) @ ''m''
      else ''every '' @ show_int n @ ''s'')"

definition cadence :: "schedule \<Rightarrow> pystr" where
  "cadence s =
     (case (s_recurrence s, s_interval_seconds s, s_cron_expr s) of
        (Once, _, _) \<Rightarrow> ''once''
      | (Interval, Some n, _) \<Rightarrow> if n \<noteq> 0 then humanize_interval n else recurrence_text Interval
      | (Cron, _, Some (c # cs)) \<Rightarrow> ''cron: '' @ (c # cs) @ '' ('' @ s_timezone s @ '')''
      | (r, _, _) \<Rightarrow> recurrence_text r)"

definition schedule_response :: "(time \<Rightarrow> pystr) \<Rightarrow> schedule \<Rightarrow> json" where
  "schedule_response isoformat s = JObj
     [(''id'', JStr (uuid_text (s_id s))), (''title'', opt_str (s_title s)),
      (''instruction'', JStr (s_instruction s)), (''recurrence'', JStr (recurrence_text (s_recurrence s))),
      (''cadence'', JStr (cadence s)), (''cron_expr'', opt_str (s_cron_expr s)),
      (''interval_seconds'', opt_num (s_interval_seconds s)), (''timezone'', JStr (s_timezone s)),
      (''next_run_at'', opt_time isoformat (s_next_run_at s)), (''last_run_at'', opt_time isoformat (s_last_run_at s)),
      (''run_count'', JInt (s_run_count s)), (''max_runs'', opt_num (s_max_runs s)),
      (''channel'', opt_str (s_channel s)), (''status'', JStr (schedule_status_text (s_status s))),
      (''created_at'', JStr (isoformat (s_created_at s)))]"

definition list_schedules_route :: "(time \<Rightarrow> pystr) \<Rightarrow> uuid \<Rightarrow> int \<Rightarrow> dict act" where
  "list_schedules_route isoformat user limit =
     bindE (list_schedules_for_user user True (route_limit limit)) (\<lambda>rows.
       ret [(''schedules'', JArr (map (schedule_response isoformat) rows))])"

subsection \<open>Whose task\<close>

text \<open>The page of a task shows a task of the user who asks, with events of that task.\<close>

lemma get_task_route_own:
  assumes "get_task_route isoformat user tid w = (Inr body, w')"
  shows "\<exists>t v v'. get_task_by_id user tid w = (Inr (Some t), v) \<and>
    (\<exists>es. fetch_events_for_task tid EVENTS_LIMIT v = (Inr es, v') \<and>
      body = [(''task'', JObj (task_response isoformat t)),
              (''events'', JArr (map (task_event_response isoformat) es))])"
proof -
  obtain r v where g: "get_task_by_id user tid w = (r, v)" by (cases "get_task_by_id user tid w")
  show ?thesis using assms g
    by (cases r) (auto simp: get_task_route_def bindE_def split: option.splits prod.splits sum.splits)
qed

end
