(* ===== verification/Net_Tools.thy ===== *)
theory Net_Tools
  imports Bytes Conversation Registry
begin

section \<open>Tools that look outside and back\<close>

text \<open>
  \<open>src/wolfpaw/toolbox/tools/http_get.py\<close>, \<open>web_search.py\<close> and \<open>recall_memory.py\<close>. The HTTP exchange is a
  parameter: its error is the message of an \<open>httpx.HTTPError\<close>, a \<open>Inl\<close> of its result, other exceptions are
  those of the action. The readability extractor is a parameter too. The search over past messages is
  \<open>search_user_messages\<close> with no bonus for recent ones; its distances are integers, so the relevance floor is
  a parameter.
\<close>

subsection \<open>http\_get\<close>

record http_response =
  hr_url :: pystr
  hr_status :: int
  hr_content_type :: pystr
  hr_content :: bytes

type_synonym http_fetch = "pystr \<Rightarrow> (pystr + http_response) act"

definition contains :: "pystr \<Rightarrow> pystr \<Rightarrow> bool" where
  "contains s p = list_ex (\<lambda>n. starts_with p (drop n s)) [0..<Suc (length s)]"

definition fetched :: "(pystr \<Rightarrow> pystr) \<Rightarrow> nat \<Rightarrow> http_response \<Rightarrow> dict" where
  "fetched main_text cap resp =
     (let body = utf8_replace (take cap (hr_content resp));
          is_html = contains (lower (hr_content_type resp)) ''html''
      in [(''url'', JStr (hr_url resp)), (''status_code'', JInt (hr_status resp)),
          (''content_type'', JStr (hr_content_type resp)),
          (''text'', JStr (if is_html then main_text body else body)),
          (''truncated'', JBool (length (hr_content resp) > cap))])"

text \<open>\<open>_extract_main_text\<close>: the extractor, or the page itself when it raises.\<close>

definition extract_main_text :: "(pystr \<Rightarrow> pystr option) \<Rightarrow> pystr \<Rightarrow> pystr" where
  "extract_main_text readable html = (case readable html of None \<Rightarrow> html | Some t \<Rightarrow> t)"

definition http_get_run :: "http_fetch \<Rightarrow> (pystr \<Rightarrow> pystr option) \<Rightarrow> nat \<Rightarrow> tool_ctx \<Rightarrow> dict \<Rightarrow> dict act" where
  "http_get_run fetch readable cap ctx inputs = (case dict_get inputs ''url'' of
     Some (JStr url) \<Rightarrow>
       if \<not> starts_with ''http://'' url \<and> \<not> starts_with ''https://'' url
       then raise (ToolError ''`url` must be an absolute http(s) URL'')
       else bindE (fetch url) (\<lambda>r. case r of
         Inl e \<Rightarrow> raise (ToolError (''http error: '' @ e))
       | Inr resp \<Rightarrow> ret (fetched (extract_main_text readable) cap resp))
   | _ \<Rightarrow> raise (ToolError ''`url` must be an absolute http(s) URL''))"

definition http_get_tool :: "http_fetch \<Rightarrow> (pystr \<Rightarrow> pystr option) \<Rightarrow> nat \<Rightarrow> tool" where
  "http_get_tool fetch readable cap =
     \<lparr> tl_name = ''http_get'',
       tl_description =
         ''Fetch a URL via HTTP GET and return its readable text. HTML pages are run through a readability '' @
         ''extractor; non-HTML is returned verbatim. Response bytes are capped '' @ [em_dash] @
         '' do not use this to download large files.'',
       tl_schema =
         [(''type'', JStr ''object''),
          (''properties'', JObj [(''url'', JObj
             [(''type'', JStr ''string''), (''description'', JStr ''Absolute http(s) URL.'')])]),
          (''required'', JArr [JStr ''url''])],
       tl_needs_task = False,
       tl_run = http_get_run fetch readable cap \<rparr>"

subsection \<open>web\_search\<close>

text \<open>\<open>_post_search\<close>: the body it sends; the answer is JSON.\<close>

type_synonym search_post = "dict \<Rightarrow> (pystr + json) act"

definition search_body :: "pystr \<Rightarrow> pystr \<Rightarrow> int \<Rightarrow> dict" where
  "search_body api_key query n =
     [(''api_key'', JStr api_key), (''query'', JStr query), (''search_depth'', JStr ''basic''), (''max_results'', JInt n)]"

definition search_hit :: "json \<Rightarrow> exn + json" where
  "search_hit r = (case r of
     JObj d \<Rightarrow> Inr (JObj (map (\<lambda>k. (k, get_default d k JNull)) [''title'', ''url'', ''content'', ''score'']))
   | _ \<Rightarrow> Inl (OtherError ''object has no attribute 'get' ''))"

fun search_hits :: "json list \<Rightarrow> exn + json list" where
  "search_hits [] = Inr []"
| "search_hits (r # rs) = (case search_hit r of Inl e \<Rightarrow> Inl e
     | Inr h \<Rightarrow> (case search_hits rs of Inl e \<Rightarrow> Inl e | Inr hs \<Rightarrow> Inr (h # hs)))"

definition search_results :: "json \<Rightarrow> exn + json list" where
  "search_results data = (case data of
     JObj d \<Rightarrow> (case get_or d ''results'' (JArr []) of
        JArr rs \<Rightarrow> search_hits rs
      | _ \<Rightarrow> Inl (OtherError ''object is not iterable''))
   | _ \<Rightarrow> Inl (OtherError ''object has no attribute 'get' ''))"

definition web_search_run :: "search_post \<Rightarrow> pystr \<Rightarrow> tool_ctx \<Rightarrow> dict \<Rightarrow> dict act" where
  "web_search_run post api_key ctx inputs = (case dict_get inputs ''query'' of
     Some (JStr query) \<Rightarrow>
       if strip query = [] then raise (ToolError ''`query` must be a non-empty string'')
       else bindE (liftE (py_int (get_or inputs ''max_results'' (JInt 5)))) (\<lambda>n.
         if api_key = []
         then raise (ToolError ''web_search is not configured: WOLFPAW_TAVILY_API_KEY is unset'')
         else bindE (post (search_body api_key query (max 1 (min 10 n)))) (\<lambda>r. case r of
           Inl e \<Rightarrow> raise (ToolError (''tavily request failed: '' @ e))
         | Inr data \<Rightarrow> bindE (liftE (search_results data)) (\<lambda>hits.
             ret [(''query'', JStr query), (''results'', JArr hits)])))
   | _ \<Rightarrow> raise (ToolError ''`query` must be a non-empty string''))"

definition web_search_tool :: "search_post \<Rightarrow> pystr \<Rightarrow> tool" where
  "web_search_tool post api_key =
     \<lparr> tl_name = ''web_search'',
       tl_description =
         ''Search the web via Tavily and return a ranked list of result URLs + short snippets. Good for '' @
         ''grounding facts and finding primary sources to follow up with `http_get`.'',
       tl_schema =
         [(''type'', JStr ''object''),
          (''properties'', JObj
            [(''query'', JObj [(''type'', JStr ''string'')]),
             (''max_results'', JObj [(''type'', JStr ''integer''), (''minimum'', JInt 1), (''maximum'', JInt 10),
                (''default'', JInt 5)])]),
          (''required'', JArr [JStr ''query''])],
       tl_needs_task = False,
       tl_run = web_search_run post api_key \<rparr>"

subsection \<open>recall\_memory\<close>

definition recalled :: "(time \<Rightarrow> pystr) \<Rightarrow> message \<Rightarrow> json" where
  "recalled isoformat m = JObj [(''role'', JStr (m_role m)), (''timestamp'', JStr (isoformat (m_created_at m))),
     (''content'', JStr (m_content m))]"

definition recall_result :: "pystr \<Rightarrow> json list \<Rightarrow> dict" where
  "recall_result query rs =
     [(''query'', JStr query), (''result_count'', JInt (int (length rs))), (''results'', JArr rs)]"

definition recall_k :: "int \<Rightarrow> nat" where
  "recall_k n = nat (max 1 (min 60 n))"

definition recall_memory_run ::
  "(pystr \<Rightarrow> embedding act) \<Rightarrow> (vector \<Rightarrow> vector \<Rightarrow> int) \<Rightarrow> int \<Rightarrow> (time \<Rightarrow> pystr) \<Rightarrow> tool_ctx \<Rightarrow> dict \<Rightarrow> dict act" where
  "recall_memory_run embedder dist max_distance isoformat ctx inputs = (case dict_get inputs ''query'' of
     Some (JStr query) \<Rightarrow>
       if strip query = [] then raise (ToolError ''`query` must be a non-empty string'')
       else bindE (liftE (py_int (get_or inputs ''k'' (JInt 25)))) (\<lambda>k.
         bindE (embedder query) (\<lambda>r. case em_vector r of
           None \<Rightarrow> ret (recall_result query [])
         | Some v \<Rightarrow>
             bindE (search_user_messages dist v (\<lambda>_. 0) (c_user ctx) (recall_k k) 2 max_distance None 0) (\<lambda>ms.
             ret (recall_result query (map (recalled isoformat) ms)))))
   | _ \<Rightarrow> raise (ToolError ''`query` must be a non-empty string''))"

definition recall_memory_tool ::
  "(pystr \<Rightarrow> embedding act) \<Rightarrow> (vector \<Rightarrow> vector \<Rightarrow> int) \<Rightarrow> int \<Rightarrow> (time \<Rightarrow> pystr) \<Rightarrow> tool" where
  "recall_memory_tool embedder dist max_distance isoformat =
     \<lparr> tl_name = ''recall_memory'',
       tl_description =
         ''Search the user's *entire* past conversation for older messages about a topic. Use this whenever '' @
         ''the user asks about your shared history '' @ [em_dash] @ '' '' @ [dquote] @ ''have we talked about X?'' @
         [dquote] @ '', '' @ [dquote] @ ''did I ever mention Y?'' @ [dquote] @ '', '' @ [dquote] @
         ''what did we say about Z?'' @ [dquote] @ '', '' @ [dquote] @ ''remember when we ...'' @ [dquote] @ '' '' @
         [em_dash] @ '' since the messages you can see are only a small recent window, not the whole history. '' @
         ''Deeper and age-blind vs. automatic recall. Returns matching past messages with surrounding context; '' @
         ''you MUST restate what you find in your reply so it re-enters the conversation. If it returns nothing, '' @
         ''THEN you can say you haven't discussed it.'',
       tl_schema =
         [(''type'', JStr ''object''),
          (''properties'', JObj
            [(''query'', JObj [(''type'', JStr ''string''),
               (''description'', JStr (''The topic or thing to recall '' @ [em_dash] @
                  '' a phrase, question, or description of what was discussed.''))]),
             (''k'', JObj [(''type'', JStr ''integer''), (''minimum'', JInt 1), (''maximum'', JInt 60),
                (''default'', JInt 25), (''description'', JStr ''Max number of older messages to surface.'')])]),
          (''required'', JArr [JStr ''query''])],
       tl_needs_task = False,
       tl_run = recall_memory_run embedder dist max_distance isoformat \<rparr>"

lemma recall_k_range: "1 \<le> recall_k n \<and> recall_k n \<le> 60"
  by (auto simp: recall_k_def)

lemma fetched_capped:
  "dict_get (fetched main_text cap resp) ''truncated'' = Some (JBool (length (hr_content resp) > cap))"
  by (simp add: fetched_def dict_get_def Let_def)

lemma recall_windows_set: "set (recall_windows window recent hits thread) \<subseteq> set thread"
  by (auto simp: recall_windows_def)

text \<open>What is recalled comes from the user's own threads.\<close>

lemma recalled_own:
  assumes "search_user_messages dist v bonus user k window floor th n w = (Inr ms, w')" and "m \<in> set ms"
  shows "m \<in> set (messages w) \<and> (\<exists>r\<in>set (threads w). th_user_id r = user \<and> m_thread_id m = th_id r)"
  using assms(1)[unfolded search_user_messages_def]
proof (cases rule: stmt_cases)
  case (run v')
  have same: "threads v' = threads w" "messages v' = messages w" using near_frame[OF run(1)] by simp_all
  have "\<exists>t\<in>set (threads_of user v'). m \<in> set (history t (messages v'))"
    using run(2) assms(2) recall_windows_set by (fastforce simp: Let_def)
  then show ?thesis using same by (auto simp: threads_of_def history_members)
qed simp

end
