(* ===== verification/Prune_Traces.thy ===== *)
theory Prune_Traces
  imports Database
begin

section \<open>Retention of traces\<close>

text \<open>
  \<open>src/wolfpaw/workers/jobs/prune_traces.py\<close>: the monthly partitions of the trace table. The partitions
  and the function that creates one are the database's: three parameters, to create the partition of a
  month, to list the partitions' names, and to drop one. A month is its year and number; \<open>month_of\<close> reads
  it from a moment in UTC, and the first of a month plus 32 days is in the next.
\<close>

type_synonym month = "int \<times> int"

definition PARTITION_PREFIX :: pystr where "PARTITION_PREFIX = ''model_call_logs_''"

definition partition_start :: "pystr \<Rightarrow> month option" where
  "partition_start name =
     (if \<not> starts_with PARTITION_PREFIX name then None
      else case split_on (CHR ''_'') (drop (length PARTITION_PREFIX) name) of
        [y, m] \<Rightarrow> (case (parse_int y, parse_int m) of
            (Some year, Some month) \<Rightarrow>
              if 1 \<le> year \<and> year \<le> 9999 \<and> 1 \<le> month \<and> month \<le> 12 then Some (year, month) else None
          | _ \<Rightarrow> None)
      | _ \<Rightarrow> None)"

definition month_before :: "month \<Rightarrow> month \<Rightarrow> bool" where
  "month_before a b \<longleftrightarrow> fst a < fst b \<or> (fst a = fst b \<and> snd a < snd b)"

definition next_month :: "month \<Rightarrow> month" where
  "next_month m = (if snd m = 12 then (fst m + 1, 1) else (fst m, snd m + 1))"

definition expendable :: "month \<Rightarrow> pystr \<Rightarrow> bool" where
  "expendable drop_before name = (case partition_start name of
     None \<Rightarrow> False | Some start \<Rightarrow> month_before start drop_before)"

record prune_result =
  pr_provisioned :: "pystr list"
  pr_dropped :: "pystr list"

fun drop_expired :: "(pystr \<Rightarrow> unit act) \<Rightarrow> month \<Rightarrow> pystr list \<Rightarrow> pystr list act" where
  "drop_expired drop_table drop_before [] = ret []"
| "drop_expired drop_table drop_before (name # names) =
     (if \<not> expendable drop_before name then drop_expired drop_table drop_before names
      else thenE (drop_table name)
             (bindE (drop_expired drop_table drop_before names) (\<lambda>rest. ret (name # rest))))"

definition DAY :: time where "DAY = 86400 * second"

definition prune_traces ::
  "(month \<Rightarrow> pystr act) \<Rightarrow> pystr list act \<Rightarrow> (pystr \<Rightarrow> unit act) \<Rightarrow> (time \<Rightarrow> month) \<Rightarrow> int \<Rightarrow> prune_result act" where
  "prune_traces ensure partitions drop_table month_of retention_days =
     bindE (getsE now) (\<lambda>at.
     bindE (ensure (month_of at)) (\<lambda>this.
     bindE (ensure (next_month (month_of at))) (\<lambda>following.
     bindE partitions (\<lambda>names.
     bindE (drop_expired drop_table (month_of (at - retention_days * DAY)) names) (\<lambda>dropped.
     ret \<lparr> pr_provisioned = [this, following], pr_dropped = dropped \<rparr>)))))"

definition prune_traces_job ::
  "(month \<Rightarrow> pystr act) \<Rightarrow> pystr list act \<Rightarrow> (pystr \<Rightarrow> unit act) \<Rightarrow> (time \<Rightarrow> month) \<Rightarrow> int \<Rightarrow> dict act" where
  "prune_traces_job ensure partitions drop_table month_of retention_days =
     bindE (prune_traces ensure partitions drop_table month_of retention_days) (\<lambda>r.
       ret [(''provisioned'', JArr (map JStr (pr_provisioned r))), (''dropped'', JArr (map JStr (pr_dropped r)))])"

subsection \<open>What is dropped\<close>

text \<open>The clock of months is monotone, so a dropped partition ends before the retention window begins, and
  the partitions of this month and the next are never dropped.\<close>

lemma drop_expired_result:
  "drop_expired drop_table b names w = (Inr ds, w') \<Longrightarrow> ds = filter (expendable b) names"
proof (induction names arbitrary: ds w)
  case (Cons name names)
  then show ?case
    by (auto simp: thenE_def bindE_def split: if_splits prod.splits sum.splits)
qed simp

lemma month_before_trans: "month_before a b \<Longrightarrow> \<not> month_before c b \<Longrightarrow> a \<noteq> c"
  by (auto simp: month_before_def)

lemma month_before_next: "\<not> month_before (next_month m) m"
  by (auto simp: month_before_def next_month_def)

lemma kept_months:
  assumes "prune_traces ensure partitions drop_table month_of days w = (Inr r, w')" and "0 \<le> days"
    and "\<And>s t. s \<le> t \<Longrightarrow> \<not> month_before (month_of t) (month_of s)" and "name \<in> set (pr_dropped r)"
  shows "\<exists>m. partition_start name = Some m \<and> month_before m (month_of (now w - days * DAY)) \<and> m \<noteq> month_of (now w)"
proof -
  have day: "0 \<le> days * DAY" using assms(2) by (simp add: DAY_def second_def)
  obtain names v where "drop_expired drop_table (month_of (now w - days * DAY)) names v = (Inr (pr_dropped r), w')"
    using assms(1) by (auto simp: prune_traces_def bindE_def split: prod.splits sum.splits)
  then have "expendable (month_of (now w - days * DAY)) name"
    using assms(4) drop_expired_result by fastforce
  then obtain m where m: "partition_start name = Some m" "month_before m (month_of (now w - days * DAY))"
    by (auto simp: expendable_def split: option.splits)
  have "\<not> month_before (month_of (now w)) (month_of (now w - days * DAY))" using assms(3) day by simp
  then show ?thesis using m month_before_trans by blast
qed

end
