(* ===== verification/Spec2Isabelle.thy ===== *)
theory Spec2Isabelle
  imports Execution_Props Prompts Router Commands Compaction_Props Schedule_Props
    Sql_Catalog Sql_Props Tool_Proposals Workspace_Races File_Catalog Sleep_Props
    Usage_Props Slack_Props Web_Props Persona Task_Routes Net_Tools Prune_Traces
begin

text \<open>
  \<^bold>\<open>WolfPaw, a verification library.\<close>

  WolfPaw (\<open>src/wolfpaw/\<close>) is a multi-user assistant. A channel hands a message to the router, which
  triages it to the quick agent or to the planner; a plan is run by the executor, inline or as a task
  with its own rows, events, questions and sub-tasks; memory keeps conversations, plans, skills and user
  tools; metering bills every model call; jobs compact old messages and fire schedules. This library
  models these parts as functions on one state of the world and proves what they promise.

  \<^bold>\<open>The model.\<close> \<open>Py_Text\<close>, \<open>Uuids\<close>, \<open>Bytes\<close> (8-bit words, UTF-8), \<open>Json\<close> and \<open>Json_Reader\<close>
  (\<open>json.dumps\<close> and \<open>json.loads\<close>) are the Python values the code computes with.
  \<open>Effects\<close> is its control flow: an asynchronous method is a function from a state to an exception or
  value and the next state. \<open>Database\<close> holds the rows of the tables (one record per frozen dataclass of
  the data-access modules) and the \<open>world\<close>: all tables, the clock, the supply of identifiers, live
  streams, sent messages, queued jobs, and two scripts. \<open>script\<close> gives, for each database statement,
  emission, send, storage call or enqueue in turn, what other processes do to the tables and the stored bytes just before it and
  whether it raises; \<open>env\<close> gives the timed actions of others during a wait. A theorem about every
  world is a theorem about every such interference and failure. What is not under \<open>src/\<close> is a
  parameter: the model's API (\<open>llm\<close>), embeddings and vector distances, the date libraries (\<open>calendar\<close>),
  the sandbox backend, channel senders, and Postgres itself for tables a user creates (\<open>connection\<close>).

  \<^bold>\<open>The theories.\<close>
  \<^item> \<open>Prelude\<close>: tables as lists of rows, updates by key (locale \<open>row_update\<close>), the collections
    of hints. \<open>Soundness\<close>: the database invariant \<open>db_ok\<close> and the order \<open>sound\<close> on worlds. \<open>Agent_Orders\<close>:
    the orders every agent keeps (locales \<open>agent_order\<close>, \<open>ledger_frame\<close>).
  \<^item> \<open>Tasks_Dao\<close> (memory/tasks.py, task_events.py), \<open>Questions_Dao\<close> (memory/pending_questions.py),
    \<open>Stores\<close> (memory/procedural.py, tools.py, the sandbox manager), \<open>Skills_Dao\<close> (memory/skills.py),
    \<open>Conversation\<close> (memory/conversational.py), \<open>Schedules\<close> (memory/schedules.py and its dispatcher).
  \<^item> \<open>Metering\<close> (metering/: prices, ledger, traces, prompt versions, the metered client).
  \<^item> \<open>Schemas\<close> (schemas.py), \<open>Registry\<close> (toolbox/registry.py), \<open>Ask_User\<close> (the ask_user tool and the
    channel registry), \<open>Schedule_Tools\<close>, \<open>User_Data\<close>, \<open>Sql_Tools\<close>, \<open>Sql_Catalog\<close> (the tools on schedules
    and on the user's SQL workspace).
  \<^item> \<open>Triage\<close>, \<open>Quick\<close>, \<open>Planner\<close>, \<open>Pre_Eval\<close>, \<open>Post_Eval\<close>, \<open>Executor\<close>, \<open>Execution\<close>, \<open>Router\<close> (agents/), with
    the constant texts in \<open>Prompts\<close>; \<open>Distiller\<close> and \<open>Tool_Proposals\<close> (agents/skill_distiller.py and
    tool_creator.py, with their texts in \<open>Learning_Prompts\<close>); \<open>Task_Service\<close> (tasks/service.py); \<open>Queue\<close> (workers/queue.py);
    \<open>Commands\<close> (channels/commands.py, tasks/commands.py); \<open>Compaction\<close> (workers/jobs/compact_thread.py).
  \<^item> \<open>Storage\<close> (storage/base.py, local.py; locale \<open>storage_contract\<close>), \<open>Signing\<close> (storage/signing.py),
    \<open>Workspace_Files\<close> (workspace/files.py and the four tools on documents), \<open>Workspace_Routes\<close>
    (workspace/routes.py), \<open>Sandbox_Tools\<close> and \<open>Artifacts\<close> (the tools that run code in a sandbox
    and save what it writes), \<open>File_Catalog\<close> (the registered records of these tools).
  \<^item> \<open>Accounts\<close> (auth/, memory/channel_links.py, channels/telegram_tokens.py), \<open>Telegram\<close> and
    \<open>Telegram_Markdown\<close> (channels/telegram.py, telegram_markdown.py), \<open>Usage_Report\<close>
    (metering/usage_report.py, routes.py), \<open>Sleep_Cycle\<close> (workers/jobs/sleep_cycle.py);
    \<open>Chat_Clients\<close> (channels/telegram_client.py, slack_client.py), \<open>Slack\<close> (channels/slack.py, slack_signing.py,
    memory/slack_workspaces.py), \<open>Web_Channel\<close> (channels/web.py);
    \<open>Persona\<close> (persona/), \<open>Task_Routes\<close> (tasks/routes.py, schedules/routes.py, workers/jobs/run_task.py),
    \<open>Net_Tools\<close> (the tools http_get, web_search, recall_memory), \<open>Prune_Traces\<close> (workers/jobs/prune_traces.py).

  \<^bold>\<open>How the parts are proved.\<close> Orders on worlds (locale \<open>world_order\<close> of \<open>Effects\<close>, extended by
  \<open>db_order\<close>, \<open>clock_order\<close>, \<open>agent_order\<close>, \<open>service_order\<close>, \<open>chat_frame\<close>) are interfaces: a component proves
  once, inside the locale, that its operations keep any such order, and an interpretation on
  \<open>sound\<close>, on a frame or on a count of rows gives the invariant of the whole program.
  \<^item> \<open>Questions_Facts\<close>, \<open>Ask_User\<close>: compare-and-set of answers, the bounded durable wait, and that a
    question of a task never stays open.
  \<^item> \<open>Loop_Trace\<close>, \<open>Execution_Facts\<close>, \<open>Execution_Props\<close>: an abstract specification of the traces of
    an execution, refined by the loop; totality; release of sandboxes and sub-agent slots.
  \<^item> \<open>Service_Facts\<close>: a task run with any failures inside ends in a terminal status; the database
    invariant is kept to any depth of sub-tasks.
  \<^item> \<open>Distiller\<close>, \<open>Tool_Proposals\<close>: which skills and tools are stored, that no tool is
    approved without the user's yes, and that a service with both keeps what the service promises.
  \<^item> \<open>Compaction_Folds\<close>, \<open>Compaction_Props\<close>: the folds end, tile the thread, and leave few summaries.
  \<^item> \<open>Schedule_Props\<close>: each due schedule is claimed once, and none beyond its \<open>max_runs\<close>.
  \<^item> \<open>Sql_Reader\<close>, \<open>Sql_Props\<close>: the tokens a database reads in the texts of the SQL tools; no input becomes
    SQL, and a change of every row needs its flag.
  \<^item> \<open>Workspace_Props\<close>, \<open>Workspace_Races\<close>, \<open>Workspace_Routes\<close>: writers of one name, racing or not, leave a
    chain of versions; a racing write replaces the bytes of the version before; what a token signs is
    what a download serves.
  \<^item> \<open>Account_Props\<close>, \<open>Telegram_Props\<close>: a sign-in link and a link token work once (locale \<open>aging\<close>:
    rows of a token table only get older), a session token carries its user, a reply in plain text
    arrives as written, an open question takes the next message.
  \<^item> \<open>Slack_Props\<close>: unsigned requests do nothing, an event is queued for the linked user, an install link works
    once. \<open>Web_Props\<close>: the browser reads the events that were sent; pages are of own threads.
  \<^item> \<open>Usage_Props\<close>: a report agrees with the ledger up to rounding, and is the asker's and fresh.
  \<^item> \<open>Sleep_Props\<close>: the nightly job ends and loses no skill.
  \<^item> The other theories prove the contract of their own component beside its definitions.

  \<^bold>\<open>Bounds and fuel.\<close> A sub-task can run a sub-task: \<open>service_at n\<close> ties the knot between executor and
  service for \<open>n\<close> levels, and the properties hold for every \<open>n\<close>; the executor itself refuses a
  sub-agent below \<open>MAX_SUBAGENT_DEPTH\<close>. The
  loops of \<open>Compaction\<close> carry as fuel the number of rows they may consume, and \<open>Compaction_Folds\<close>
  proves that it is never exhausted. The executor's loop is structural in the budget of replans and
  the remaining steps, the quick loop in its ten iterations, the durable wait in time and script.

  \<^bold>\<open>Not modelled.\<close> Code points outside a repertoire of 256 (see \<open>Py_Text\<close>); log lines; floating point
  rounding in costs and scores (exact fractions instead); HTTP itself and the mailer
  (parameters where the code calls them); the monitor pages; the integrations (Dropbox, Microsoft,
  Notion); the sandbox, S3 and embedding backends. The manifest lists each of these.
\<close>

end
